(* ===== verification/Prelude.thy ===== *)
theory Prelude
  imports Complex_Main "HOL-Library.Sublist"
begin

text \<open>
  Shared vocabulary of the development: the Python values the sources compute with
  (floats with infinities and NaN, strings, exceptions), the string and number routines of the
  standard library the sources call, and generic lemmas on them.

  Floats. \<open>Fin x\<close> is a finite float whose value is the real \<open>x\<close>; \<open>PosInf\<close>, \<open>NegInf\<close> and
  \<open>NaN\<close> are the other IEEE values. Comparisons and additions follow IEEE 754 (every comparison
  with NaN is false, \<open>inf - inf\<close> is NaN); the rounding of finite results is not modelled, so
  arithmetic on finite values is exact.

  Exceptions. An operation that may raise returns a sum whose left side is the exception with
  its message. An operation of an object returns that sum together with the object's state after the call,
  since Python keeps the attribute writes made before the exception.
\<close>

named_theorems py_defs \<open>definitions of the Python string and number routines\<close>

section \<open>Exceptions\<close>

datatype exn =
    ValueError string
  | RuntimeError string
  | KeyError string
  | AssertionError
  | TypeError string
  | OverflowError string
  | PlacementContractError string
  | PlaceTransactionError string
  | PlaceTransactionProtocolError string
  | PostReleaseVerificationError string
  | ContractError string
  | TimeoutError string
  | PlanningError string
  | RRTTimeout string
  | PlanningCancelled string
  | PlanningDeadlineExceeded string

type_synonym 'a res = "exn + 'a"

type_synonym ('a, 's) outcome = "(exn + 'a) \<times> 's"

fun is_ok :: "exn + 'a \<Rightarrow> bool" where
  "is_ok (Inl _) = False"
| "is_ok (Inr _) = True"

lemma is_ok_iff: "is_ok r \<longleftrightarrow> (\<exists>x. r = Inr x)"
  by (cases r) auto

fun rbind :: "exn + 'a \<Rightarrow> ('a \<Rightarrow> exn + 'b) \<Rightarrow> exn + 'b" where
  "rbind (Inl e) f = Inl e"
| "rbind (Inr x) f = f x"

text \<open>\<open>if condition: raise error\<close>, then the rest.\<close>

definition raise_if :: "bool \<Rightarrow> exn \<Rightarrow> exn + 'a \<Rightarrow> exn + 'a" where
  "raise_if c e k = (if c then Inl e else k)"

text \<open>The same for an operation of an object: the exception leaves with the state reached so far.\<close>

definition guard :: "bool \<Rightarrow> exn \<Rightarrow> 's \<Rightarrow> ('a, 's) outcome \<Rightarrow> ('a, 's) outcome" where
  "guard bad e s k = (if bad then (Inl e, s) else k)"

fun gbind :: "exn + 'a \<Rightarrow> 's \<Rightarrow> ('a \<Rightarrow> ('b, 's) outcome) \<Rightarrow> ('b, 's) outcome" where
  "gbind (Inl e) s f = (Inl e, s)"
| "gbind (Inr x) s f = f x"

text \<open>Sequencing of two operations on one object.\<close>

fun obind :: "('a, 's) outcome \<Rightarrow> ('a \<Rightarrow> 's \<Rightarrow> ('b, 's) outcome) \<Rightarrow> ('b, 's) outcome" where
  "obind (Inl e, t) f = (Inl e, t)"
| "obind (Inr x, t) f = f x t"

lemma guard_Inr_iff [simp]: "guard bad e s k = (Inr x, t) \<longleftrightarrow> \<not> bad \<and> k = (Inr x, t)"
  by (auto simp: guard_def)

lemma gbind_Inr_iff [simp]: "gbind m s f = (Inr x, t) \<longleftrightarrow> (\<exists>y. m = Inr y \<and> f y = (Inr x, t))"
  by (cases m) auto

lemma obind_Inr_iff [simp]:
  "obind r f = (Inr x, t) \<longleftrightarrow> (\<exists>y u. r = (Inr y, u) \<and> f y u = (Inr x, t))"
  by (cases r; cases "fst r") auto

text \<open>An operation is atomic when an exception leaves the state as it was.\<close>

definition atomic :: "'s \<Rightarrow> ('a, 's) outcome \<Rightarrow> bool" where
  "atomic s r = (case fst r of Inl _ \<Rightarrow> snd r = s | Inr _ \<Rightarrow> True)"

named_theorems atomic_intros

lemma atomic_Inl [atomic_intros]: "atomic s (Inl e, s)"
  by (simp add: atomic_def)

lemma atomic_Inr [atomic_intros]: "atomic s (Inr x, t)"
  by (simp add: atomic_def)

lemma atomic_guard [atomic_intros]: "atomic s k \<Longrightarrow> atomic s (guard bad e s k)"
  by (auto simp: guard_def atomic_def)

lemma atomic_gbind [atomic_intros]: "(\<And>x. atomic s (f x)) \<Longrightarrow> atomic s (gbind m s f)"
  by (cases m) (auto simp: atomic_def)

lemma atomic_obind [atomic_intros]:
  "atomic s r \<Longrightarrow> (\<And>x t. r = (Inr x, t) \<Longrightarrow> atomic s (f x t)) \<Longrightarrow> atomic s (obind r f)"
  by (cases r; cases "fst r") (auto simp: atomic_def)

lemma atomic_if [atomic_intros]: "atomic s a \<Longrightarrow> atomic s b \<Longrightarrow> atomic s (if c then a else b)"
  by simp

lemma atomic_option [atomic_intros]:
  "atomic s a \<Longrightarrow> (\<And>x. atomic s (f x)) \<Longrightarrow> atomic s (case v of None \<Rightarrow> a | Some x \<Rightarrow> f x)"
  by (cases v) auto

lemma atomic_cases:
  assumes "atomic s r"
  obtains e where "r = (Inl e, s)" | x t where "r = (Inr x, t)"
  using assms by (cases r; cases "fst r") (auto simp: atomic_def)

lemma atomic_snd:
  "atomic s r \<Longrightarrow> P s \<Longrightarrow> (\<And>v t. r = (Inr v, t) \<Longrightarrow> P t) \<Longrightarrow> P (snd r)"
  by (rule atomic_cases) auto

lemma rbind_Inr_iff [simp]: "rbind m f = Inr y \<longleftrightarrow> (\<exists>x. m = Inr x \<and> f x = Inr y)"
  by (cases m) auto

lemma raise_if_Inr_iff [simp]: "raise_if c e k = Inr y \<longleftrightarrow> \<not> c \<and> k = Inr y"
  by (simp add: raise_if_def)

section \<open>Floats\<close>

datatype pyfloat = Fin real | PosInf | NegInf | NaN

instantiation pyfloat :: "{zero, plus, minus, uminus, abs, ord}"
begin

definition zero_pyfloat :: pyfloat where
  "zero_pyfloat = Fin 0"

fun plus_pyfloat :: "pyfloat \<Rightarrow> pyfloat \<Rightarrow> pyfloat" where
  "plus_pyfloat (Fin a) (Fin b) = Fin (a + b)"
| "plus_pyfloat NaN _ = NaN"
| "plus_pyfloat _ NaN = NaN"
| "plus_pyfloat PosInf NegInf = NaN"
| "plus_pyfloat NegInf PosInf = NaN"
| "plus_pyfloat PosInf _ = PosInf"
| "plus_pyfloat _ PosInf = PosInf"
| "plus_pyfloat NegInf _ = NegInf"
| "plus_pyfloat _ NegInf = NegInf"

fun uminus_pyfloat :: "pyfloat \<Rightarrow> pyfloat" where
  "uminus_pyfloat (Fin a) = Fin (- a)"
| "uminus_pyfloat PosInf = NegInf"
| "uminus_pyfloat NegInf = PosInf"
| "uminus_pyfloat NaN = NaN"

definition minus_pyfloat :: "pyfloat \<Rightarrow> pyfloat \<Rightarrow> pyfloat" where
  "minus_pyfloat a b = a + (- b)"

fun abs_pyfloat :: "pyfloat \<Rightarrow> pyfloat" where
  "abs_pyfloat (Fin a) = Fin \<bar>a\<bar>"
| "abs_pyfloat NaN = NaN"
| "abs_pyfloat _ = PosInf"

fun less_eq_pyfloat :: "pyfloat \<Rightarrow> pyfloat \<Rightarrow> bool" where
  "less_eq_pyfloat (Fin a) (Fin b) = (a \<le> b)"
| "less_eq_pyfloat NaN _ = False"
| "less_eq_pyfloat _ NaN = False"
| "less_eq_pyfloat NegInf _ = True"
| "less_eq_pyfloat _ PosInf = True"
| "less_eq_pyfloat _ _ = False"

fun less_pyfloat :: "pyfloat \<Rightarrow> pyfloat \<Rightarrow> bool" where
  "less_pyfloat (Fin a) (Fin b) = (a < b)"
| "less_pyfloat NaN _ = False"
| "less_pyfloat _ NaN = False"
| "less_pyfloat NegInf b = (b \<noteq> NegInf)"
| "less_pyfloat a PosInf = (a \<noteq> PosInf)"
| "less_pyfloat _ _ = False"

instance ..

end

text \<open>Python's \<open>==\<close> on floats: NaN differs from itself.\<close>

fun feq :: "pyfloat \<Rightarrow> pyfloat \<Rightarrow> bool" where
  "feq NaN _ = False"
| "feq a b = (a = b)"

fun isfinite :: "pyfloat \<Rightarrow> bool" where
  "isfinite (Fin _) = True"
| "isfinite _ = False"

fun the_fin :: "pyfloat \<Rightarrow> real" where
  "the_fin (Fin x) = x"
| "the_fin _ = 0"

lemma isfinite_iff: "isfinite a \<longleftrightarrow> (\<exists>x. a = Fin x)"
  by (cases a) auto

lemma isfiniteE [elim]: "isfinite a \<Longrightarrow> (\<And>x. a = Fin x \<Longrightarrow> P) \<Longrightarrow> P"
  by (cases a) auto

lemma Fin_minus [simp]: "Fin a - Fin b = Fin (a - b)"
  by (simp add: minus_pyfloat_def)

lemma zero_le_Fin [simp]: "(0 \<le> Fin a) = (0 \<le> a)"
  by (simp add: zero_pyfloat_def)

lemma zero_less_Fin [simp]: "(0 < Fin a) = (0 < a)"
  by (simp add: zero_pyfloat_def)

lemma Fin_less_zero [simp]: "(Fin a < 0) = (a < 0)"
  by (simp add: zero_pyfloat_def)

lemma Fin_le_zero [simp]: "(Fin a \<le> 0) = (a \<le> 0)"
  by (simp add: zero_pyfloat_def)

lemma zero_cmp_inf [simp]:
  "0 \<le> PosInf" "\<not> 0 \<le> NegInf" "0 < PosInf" "\<not> 0 < NegInf"
  "NegInf \<le> 0" "\<not> PosInf \<le> 0" "NegInf < 0" "\<not> PosInf < 0"
  by (simp_all add: zero_pyfloat_def)

lemma feq_Fin [simp]: "feq (Fin a) b = (b = Fin a)" "feq b (Fin a) = (b = Fin a)"
  by (cases b; auto)+

lemma feq_imp_eq: "feq a b \<Longrightarrow> a = b"
  by (cases a) auto

text \<open>\<open>==\<close> between two optional floats, \<open>None\<close> being equal to itself only.\<close>

fun opt_feq :: "pyfloat option \<Rightarrow> pyfloat option \<Rightarrow> bool" where
  "opt_feq None None = True"
| "opt_feq (Some a) (Some b) = feq a b"
| "opt_feq _ _ = False"

lemma opt_feq_imp_eq: "opt_feq a b \<Longrightarrow> a = b"
  by (cases a; cases b) (auto dest: feq_imp_eq)

text \<open>A receipt time that passes \<open>is None or not isfinite(t) or t < 0.0\<close>.\<close>

definition valid_time :: "pyfloat option \<Rightarrow> bool" where
  "valid_time t = (case t of None \<Rightarrow> False | Some x \<Rightarrow> isfinite x \<and> \<not> x < 0)"

lemma valid_time_iff: "valid_time t \<longleftrightarrow> (\<exists>x. t = Some (Fin x) \<and> 0 \<le> x)"
  by (cases t) (auto simp: valid_time_def isfinite_iff)

lemma valid_time_not_None [simp]: "\<not> valid_time None"
  by (simp add: valid_time_def)

lemma not_less_NaN [simp]: "\<not> (NaN < b)" "\<not> (b < NaN)" "\<not> (NaN \<le> b)" "\<not> (b \<le> NaN)"
  for b :: pyfloat
  by (cases b; simp)+

lemma NaN_minus [simp]: "NaN - b = NaN" "b - NaN = NaN"
  by (cases b; simp add: minus_pyfloat_def)+

lemma pyfloat_less_imp_le: "a < b \<Longrightarrow> a \<le> b" for a b :: pyfloat
  by (cases a; cases b) auto

lemma pyfloat_less_le_trans: "a < b \<Longrightarrow> b \<le> c \<Longrightarrow> a < c" for a b c :: pyfloat
  by (cases a; cases b; cases c) auto

lemma pyfloat_le_trans: "a \<le> b \<Longrightarrow> b \<le> c \<Longrightarrow> a \<le> c" for a b c :: pyfloat
  by (cases a; cases b; cases c) auto

lemma pyfloat_less_trans: "a < b \<Longrightarrow> b < c \<Longrightarrow> a < c" for a b c :: pyfloat
  by (cases a; cases b; cases c) auto

lemma pyfloat_less_irrefl [simp]: "\<not> (a < a)" for a :: pyfloat
  by (cases a) auto

text \<open>
  The freshness test \<open>0.0 <= now - seen <= limit\<close> with a finite \<open>seen\<close> and a finite limit can
  hold only at a finite \<open>now\<close>: an infinite or NaN clock reads as stale.
\<close>

lemma fresh_imp_finite:
  assumes "0 \<le> now - Fin seen" and "now - Fin seen \<le> Fin bound"
  shows "isfinite now"
  using assms by (cases now) (auto simp: minus_pyfloat_def)

text \<open>\<open>round()\<close> to the nearest integer, ties to even.\<close>

definition py_round :: "real \<Rightarrow> int" where [py_defs]:
  "py_round x =
     (let n = \<lfloor>x\<rfloor>; d = x - of_int n
      in if d < 1 / 2 then n else if d > 1 / 2 then n + 1 else if even n then n else n + 1)"

lemma py_round_of_int [simp]: "py_round (of_int n) = n"
  by (simp add: py_round_def)

lemma py_round_mono_nonneg: "0 \<le> x \<Longrightarrow> 0 \<le> py_round x"
  by (auto simp: py_round_def Let_def)

text \<open>\<open>math.atan2\<close>; a negative zero is read as zero.\<close>

definition atan2 :: "real \<Rightarrow> real \<Rightarrow> real" where
  "atan2 y x =
     (if 0 < x then arctan (y / x)
      else if x < 0 then (if 0 \<le> y then arctan (y / x) + pi else arctan (y / x) - pi)
      else if 0 < y then pi / 2 else if y < 0 then - pi / 2 else 0)"

section \<open>Strings\<close>

definition char_ord :: "char \<Rightarrow> nat" where [py_defs]:
  "char_ord c = of_char c"

definition py_space :: "char \<Rightarrow> bool" where [py_defs]:
  "py_space c = (let n = char_ord c in 9 \<le> n \<and> n \<le> 13 \<or> 28 \<le> n \<and> n \<le> 32 \<or> n = 133 \<or> n = 160)"

definition py_strip :: "string \<Rightarrow> string" where [py_defs]:
  "py_strip s = rev (dropWhile py_space (rev (dropWhile py_space s)))"

definition lower_char :: "char \<Rightarrow> char" where [py_defs]:
  "lower_char c =
     (let n = char_ord c
      in if 65 \<le> n \<and> n \<le> 90 \<or> 192 \<le> n \<and> n \<le> 222 \<and> n \<noteq> 215 then char_of (n + 32) else c)"

definition py_lower :: "string \<Rightarrow> string" where [py_defs]:
  "py_lower s = map lower_char s"

text \<open>\<open>needle in hay\<close> on strings.\<close>

fun py_in :: "string \<Rightarrow> string \<Rightarrow> bool" where
  "py_in needle [] = (needle = [])"
| "py_in needle (c # cs) = (prefix needle (c # cs) \<or> py_in needle cs)"

fun py_split :: "char \<Rightarrow> string \<Rightarrow> string list" where
  "py_split d [] = [[]]"
| "py_split d (c # cs) =
     (if c = d then [] # py_split d cs
      else (case py_split d cs of [] \<Rightarrow> [[c]] | x # xs \<Rightarrow> (c # x) # xs))"

text \<open>\<open>str.partition\<close> at one character: the head, whether the separator occurs, the tail.\<close>

definition py_partition :: "char \<Rightarrow> string \<Rightarrow> string \<times> bool \<times> string" where [py_defs]:
  "py_partition d s = (takeWhile (\<lambda>c. c \<noteq> d) s, d \<in> set s, tl (dropWhile (\<lambda>c. c \<noteq> d) s))"

lemma py_strip_no_space:
  assumes "\<forall>c \<in> set s. \<not> py_space c"
  shows "py_strip s = s"
proof -
  have "dropWhile py_space t = t" if "set t = set s" for t
    using assms that by (cases t) (auto simp: dropWhile_eq_self_iff)
  from this [of s] this [of "rev s"] show ?thesis by (simp add: py_strip_def)
qed

lemma py_strip_idem [simp]: "py_strip (py_strip s) = py_strip s"
proof -
  let ?u = "dropWhile py_space s"
  let ?v = "dropWhile py_space (rev ?u)"
  have fixed: "dropWhile py_space xs = xs" if "xs = [] \<or> \<not> py_space (hd xs)" for xs
    using that by (cases xs) auto
  have "?v = [] \<or> \<not> py_space (hd ?v)" using hd_dropWhile by blast
  moreover have "rev ?v = [] \<or> \<not> py_space (hd (rev ?v))"
  proof (cases "?v = []")
    case False
    then have "last ?v = last (rev ?u)" by (metis last_appendR takeWhile_dropWhile_id)
    moreover have "?u \<noteq> []" using False by (metis dropWhile.simps(1) rev.simps(1))
    ultimately have "hd (rev ?v) = hd ?u" by (simp add: hd_rev last_rev)
    then show ?thesis using hd_dropWhile \<open>?u \<noteq> []\<close> by metis
  qed simp
  ultimately show ?thesis by (simp add: py_strip_def fixed)
qed

lemma py_strip_Nil [simp]: "py_strip [] = []"
  by (simp add: py_strip_def)

section \<open>Numbers as text\<close>

definition is_digit :: "char \<Rightarrow> bool" where [py_defs]:
  "is_digit c = (48 \<le> char_ord c \<and> char_ord c \<le> 57)"

definition digit_val :: "char \<Rightarrow> nat" where [py_defs]:
  "digit_val c = char_ord c - 48"

text \<open>
  A run of decimal digits with single underscores between digits; the flag records whether the
  previous character was a digit.
\<close>

fun dec_digits :: "nat \<Rightarrow> bool \<Rightarrow> string \<Rightarrow> nat option" where
  "dec_digits n ok [] = (if ok then Some n else None)"
| "dec_digits n ok (c # cs) =
     (if is_digit c then dec_digits (10 * n + digit_val c) True cs
      else if c = CHR ''_'' \<and> ok then dec_digits n False cs
      else None)"

definition split_sign :: "string \<Rightarrow> bool \<times> string" where [py_defs]:
  "split_sign s =
     (case s of c # cs \<Rightarrow> if c = CHR ''-'' then (True, cs) else if c = CHR ''+'' then (False, cs) else (False, s)
      | [] \<Rightarrow> (False, s))"

text \<open>\<open>int(text)\<close>; \<open>None\<close> is the ValueError.\<close>

definition py_int :: "string \<Rightarrow> int option" where [py_defs]:
  "py_int s =
     (let (neg, ds) = split_sign (py_strip s)
      in map_option (\<lambda>n. if neg then - int n else int n) (dec_digits 0 False ds))"

definition pow10 :: "int \<Rightarrow> real" where [py_defs]:
  "pow10 e = (if 0 \<le> e then 10 ^ nat e else 1 / 10 ^ nat (- e))"

text \<open>The least magnitude that no longer rounds to a finite double.\<close>

definition float_overflow :: real where [py_defs]:
  "float_overflow = 2 ^ 1024 - 2 ^ 970"

definition py_decimal :: "string \<Rightarrow> real option" where [py_defs]:
  "py_decimal s =
     (let mant = takeWhile (\<lambda>c. lower_char c \<noteq> CHR ''e'') s;
          rest = dropWhile (\<lambda>c. lower_char c \<noteq> CHR ''e'') s;
          (ip, _, fp) = py_partition (CHR ''.'') mant;
          ival = (if ip = [] then Some 0 else dec_digits 0 False ip);
          fval = (if fp = [] then Some 0 else dec_digits 0 False fp);
          k = int (length (filter is_digit fp));
          ex = (case rest of [] \<Rightarrow> Some 0
                | _ # es \<Rightarrow> let (neg, ds) = split_sign es
                           in map_option (\<lambda>n. if neg then - int n else int n) (dec_digits 0 False ds))
      in if ip = [] \<and> fp = [] then None
         else (case (ival, fval, ex) of
                 (Some i, Some f, Some e) \<Rightarrow> Some ((real i + real f * pow10 (- k)) * pow10 e)
               | _ \<Rightarrow> None))"

text \<open>\<open>float(text)\<close>; \<open>None\<close> is the ValueError.\<close>

definition py_float :: "string \<Rightarrow> pyfloat option" where [py_defs]:
  "py_float s =
     (let (neg, body) = split_sign (py_strip s); low = py_lower body
      in if low = ''inf'' \<or> low = ''infinity'' then Some (if neg then NegInf else PosInf)
         else if low = ''nan'' then Some NaN
         else (case py_decimal body of
                 None \<Rightarrow> None
               | Some x \<Rightarrow>
                   if float_overflow \<le> x then Some (if neg then NegInf else PosInf)
                   else Some (Fin (if neg then - x else x))))"

fun show_nat :: "nat \<Rightarrow> string" where
  "show_nat n = (if n < 10 then [char_of (48 + n)] else show_nat (n div 10) @ [char_of (48 + n mod 10)])"

declare show_nat.simps [simp del]

definition show_int :: "int \<Rightarrow> string" where [py_defs]:
  "show_int i = (if i < 0 then CHR ''-'' # show_nat (nat (- i)) else show_nat (nat i))"

text \<open>\<open>format(x, '.kf')\<close>.\<close>

definition fmt_fixed :: "nat \<Rightarrow> real \<Rightarrow> string" where [py_defs]:
  "fmt_fixed k x =
     (let n = nat (py_round (\<bar>x\<bar> * 10 ^ k)); frac = show_nat (n mod 10 ^ k)
      in (if x < 0 then ''-'' else '''') @ show_nat (n div 10 ^ k) @ ''.'' @
         replicate (k - length frac) (CHR ''0'') @ frac)"

definition hex_digit :: "nat \<Rightarrow> char" where [py_defs]:
  "hex_digit n = char_of (if n < 10 then 48 + n else 87 + n)"

definition repr_char :: "char \<Rightarrow> char \<Rightarrow> string" where [py_defs]:
  "repr_char q c =
     (let n = char_ord c
      in if c = q \<or> n = 92 then [char_of (92::nat), c]
         else if n = 10 then [char_of (92::nat), CHR ''n'']
         else if n = 13 then [char_of (92::nat), CHR ''r'']
         else if n = 9 then [char_of (92::nat), CHR ''t'']
         else if n < 32 \<or> 127 \<le> n \<and> n \<le> 160 \<or> n = 173
           then [char_of (92::nat), CHR ''x'', hex_digit (n div 16), hex_digit (n mod 16)]
         else [c])"

text \<open>\<open>repr(text)\<close>: double quotes only when the text has a single quote and no double quote.\<close>

definition py_repr :: "string \<Rightarrow> string" where [py_defs]:
  "py_repr s =
     (let sq = char_of (39::nat); dq = char_of (34::nat);
          q = (if sq \<in> set s \<and> dq \<notin> set s then dq else sq)
      in q # concat (map (repr_char q) s) @ [q])"

section \<open>Bounded ASCII identities\<close>

text \<open>
  The character test every identity token of the placement transaction is put through:
  \<open>ord(c) < 33 or ord(c) > 126 or c in ';|='\<close> makes a token invalid.
\<close>

definition bad_identity_char :: "char \<Rightarrow> bool" where
  "bad_identity_char c = (char_ord c < 33 \<or> char_ord c > 126 \<or> c \<in> set '';|='')"

lemma identity_char_not_space: "\<not> bad_identity_char c \<Longrightarrow> \<not> py_space c"
  by (auto simp: bad_identity_char_def py_space_def Let_def)

lemma identity_strip: "\<not> list_ex bad_identity_char s \<Longrightarrow> py_strip s = s"
  by (rule py_strip_no_space) (auto simp: list_ex_iff dest: identity_char_not_space)

lemma identity_no_separator:
  assumes "\<not> list_ex bad_identity_char s"
  shows "CHR '';'' \<notin> set s" "CHR ''|'' \<notin> set s" "CHR ''='' \<notin> set s"
  using assms by (auto simp: list_ex_iff bad_identity_char_def)

section \<open>Lists and options\<close>

lemma strictly_increasing_le:
  fixes xs :: "real list"
  assumes "sorted_wrt (<) xs" and "i < j" and "j < length xs"
  shows "xs ! i < xs ! j"
  using assms by (simp add: sorted_wrt_iff_nth_less)

definition opt_le :: "'a::linorder option \<Rightarrow> 'a option \<Rightarrow> bool" where
  "opt_le a b = (case a of None \<Rightarrow> True | Some x \<Rightarrow> (case b of None \<Rightarrow> False | Some y \<Rightarrow> x \<le> y))"

lemma opt_le_refl [simp]: "opt_le a a"
  by (simp add: opt_le_def split: option.split)

lemma opt_le_trans [trans]: "opt_le a b \<Longrightarrow> opt_le b c \<Longrightarrow> opt_le a c"
  by (auto simp: opt_le_def split: option.splits)

section \<open>Exceptions as text\<close>

text \<open>\<open>str(error)\<close> and \<open>type(error).__name__\<close>.\<close>

fun exn_text :: "exn \<Rightarrow> string" where
  "exn_text (ValueError m) = m"
| "exn_text (RuntimeError m) = m"
| "exn_text (KeyError m) = py_repr m"
| "exn_text AssertionError = []"
| "exn_text (TypeError m) = m"
| "exn_text (OverflowError m) = m"
| "exn_text (PlacementContractError m) = m"
| "exn_text (PlaceTransactionError m) = m"
| "exn_text (PlaceTransactionProtocolError m) = m"
| "exn_text (PostReleaseVerificationError m) = m"
| "exn_text (ContractError m) = m"
| "exn_text (TimeoutError m) = m"
| "exn_text (PlanningError m) = m"
| "exn_text (RRTTimeout m) = m"
| "exn_text (PlanningCancelled m) = m"
| "exn_text (PlanningDeadlineExceeded m) = m"

fun exn_name :: "exn \<Rightarrow> string" where
  "exn_name (ValueError _) = ''ValueError''"
| "exn_name (RuntimeError _) = ''RuntimeError''"
| "exn_name (KeyError _) = ''KeyError''"
| "exn_name AssertionError = ''AssertionError''"
| "exn_name (TypeError _) = ''TypeError''"
| "exn_name (OverflowError _) = ''OverflowError''"
| "exn_name (PlacementContractError _) = ''PlacementContractError''"
| "exn_name (PlaceTransactionError _) = ''PlaceTransactionError''"
| "exn_name (PlaceTransactionProtocolError _) = ''PlaceTransactionProtocolError''"
| "exn_name (PostReleaseVerificationError _) = ''PostReleaseVerificationError''"
| "exn_name (ContractError _) = ''ContractError''"
| "exn_name (TimeoutError _) = ''TimeoutError''"
| "exn_name (PlanningError _) = ''PlanningError''"
| "exn_name (RRTTimeout _) = ''RRTTimeout''"
| "exn_name (PlanningCancelled _) = ''PlanningCancelled''"
| "exn_name (PlanningDeadlineExceeded _) = ''PlanningDeadlineExceeded''"

end
