(* ===== verification/Executor_Status.thy ===== *)
theory Executor_Status
  imports Prelude
begin

text \<open>
  The arm executor's status line, \<open>parse_execution_status\<close> of
  \<open>src/ros2/z_manip_task/z_manip_task/core.py\<close>, and the identity metadata the task writes into a
  trajectory's frame id, \<open>trajectory_segment_frame_id\<close>. The dictionary of \<open>key=value\<close> fields is
  an association list in the order of the text; the parser refuses a repeated key, so a lookup
  is unambiguous.
\<close>

section \<open>The parsed status\<close>

record ExecutionState =
  trajectory :: string
  owner :: string
  gripper :: string
  aperture_m :: "pyfloat option"
  command_id :: "int option"
  segment :: string
  gripper_command_id :: "int option"
  accepted_gripper_aperture_m :: "pyfloat option"
  executor_epoch :: string
  trajectory_contract_id :: string
  trajectory_token :: string
  trajectory_received_at :: "pyfloat option"
  trajectory_event_token :: string
  trajectory_event_received_at :: "pyfloat option"
  gripper_received_at :: "pyfloat option"

definition status_rejected :: "ExecutionState \<Rightarrow> bool" where
  "status_rejected st =
     list_ex (\<lambda>v. py_in ''reject'' (py_lower v)) [trajectory st, owner st, gripper st]"

definition status_canceled :: "ExecutionState \<Rightarrow> bool" where
  "status_canceled st =
     (py_in ''cancel'' (py_lower (trajectory st)) \<or> py_in ''preempt'' (py_lower (trajectory st)))"

section \<open>The parser\<close>

text \<open>\<open>float(text)\<close> and \<open>int(text)\<close> with the exception they raise.\<close>

definition to_float :: "string \<Rightarrow> pyfloat res" where
  "to_float v =
     (case py_float v of
        None \<Rightarrow> Inl (ValueError (''could not convert string to float: '' @ py_repr v))
      | Some x \<Rightarrow> Inr x)"

definition to_int :: "string \<Rightarrow> int res" where
  "to_int v =
     (case py_int v of
        None \<Rightarrow> Inl (ValueError (''invalid literal for int() with base 10: '' @ py_repr v))
      | Some x \<Rightarrow> Inr x)"

definition status_fields :: "string \<Rightarrow> string list" where
  "status_fields v = filter (\<lambda>f. f \<noteq> []) (map py_strip (py_split (CHR '';'') v))"

fun collect_fields :: "string list \<Rightarrow> (string \<times> string) list \<Rightarrow> (string \<times> string) list res" where
  "collect_fields [] vs = Inr vs"
| "collect_fields (field # rest) vs =
     (let (key, sep, item) = py_partition (CHR ''='') field; k = py_strip key
      in raise_if (\<not> sep \<or> k = []) (ValueError ''execution status field is malformed'')
         (raise_if (k \<in> fst ` set vs)
            (ValueError (''execution status repeats field '' @ py_repr k))
            (collect_fields rest (vs @ [(k, py_strip item)]))))"

definition optional_nonnegative_int :: "(string \<times> string) list \<Rightarrow> string \<Rightarrow> int option res" where
  "optional_nonnegative_int vs name =
     (case map_of vs name of
        None \<Rightarrow> Inr None
      | Some v \<Rightarrow> rbind (to_int v) (\<lambda>n.
          raise_if (n < 0) (ValueError (name @ '' must be non-negative'')) (Inr (Some n))))"

definition optional_identity :: "(string \<times> string) list \<Rightarrow> string \<Rightarrow> string res" where
  "optional_identity vs name =
     (case map_of vs name of
        None \<Rightarrow> Inr []
      | Some v \<Rightarrow>
          raise_if (v = [] \<or> length v > 128 \<or> list_ex bad_identity_char v)
            (ValueError (name @ '' is invalid'')) (Inr v))"

text \<open>The three optional receipt times are parsed by the same code under three field names.\<close>

definition optional_received_at :: "(string \<times> string) list \<Rightarrow> string \<Rightarrow> pyfloat option res" where
  "optional_received_at vs name =
     (case map_of vs name of
        None \<Rightarrow> Inr None
      | Some v \<Rightarrow>
          if py_lower v = ''none'' then Inr None
          else rbind (to_float v) (\<lambda>x.
            raise_if (\<not> isfinite x \<or> x < 0)
              (ValueError (name @ '' must be finite and non-negative'')) (Inr (Some x))))"

definition place_segments :: "string list" where
  "place_segments = [''place_transit'', ''place_approach'', ''place_retreat'']"

definition place_identity_fields :: "string list" where
  "place_identity_fields = [''executor_epoch'', ''trajectory_contract_id'', ''trajectory_received_at'']"

fun join_comma :: "string list \<Rightarrow> string" where
  "join_comma [] = []"
| "join_comma [x] = x"
| "join_comma (x # xs) = x @ '', '' @ join_comma xs"

definition check_place_status ::
  "(string \<times> string) list \<Rightarrow> string \<Rightarrow> string \<Rightarrow> pyfloat option \<Rightarrow> unit res" where
  "check_place_status vs seg contract received_at =
     (if seg \<in> set place_segments then
        let missing = filter (\<lambda>k. map_of vs k = None) place_identity_fields in
        raise_if (missing \<noteq> [])
          (ValueError (''place execution status omitted identity fields: '' @ join_comma missing))
        (raise_if (received_at = None)
          (ValueError ''place trajectory_received_at must be finite and non-negative'')
        (if seg = ''place_transit'' then
           raise_if (contract \<noteq> ''none'')
             (ValueError ''place_transit trajectory contract must be none'') (Inr ())
         else
           raise_if (contract = ''none'')
             (ValueError (seg @ '' trajectory contract is missing'')) (Inr ())))
      else Inr ())"

definition gripper_identity_split :: "int option \<Rightarrow> pyfloat option \<Rightarrow> bool" where
  "gripper_identity_split cmd received_at =
     (cmd = None \<and> received_at \<noteq> None
      \<or> (case cmd of None \<Rightarrow> False | Some n \<Rightarrow> n > 0) \<and> received_at = None
      \<or> cmd = Some 0 \<and> received_at \<noteq> None)"

definition accepted_aperture_of :: "string \<Rightarrow> pyfloat option res" where
  "accepted_aperture_of grip =
     (if prefix ''accepted:'' (py_lower grip) then
        rbind (to_float (snd (snd (py_partition (CHR '':'') grip)))) (\<lambda>x.
          raise_if (\<not> isfinite x \<or> x < 0)
            (ValueError ''accepted gripper aperture is invalid'') (Inr (Some x)))
      else Inr None)"

definition aperture_of :: "(string \<times> string) list \<Rightarrow> pyfloat option res" where
  "aperture_of vs =
     (case map_of vs ''aperture'' of
        None \<Rightarrow> Inr None
      | Some v \<Rightarrow> rbind (to_float v) (\<lambda>x.
          raise_if (\<not> isfinite x \<or> x < 0)
            (ValueError ''execution aperture must be finite and non-negative'') (Inr (Some x))))"

definition get_text :: "(string \<times> string) list \<Rightarrow> string \<Rightarrow> string" where
  "get_text vs name = (case map_of vs name of None \<Rightarrow> [] | Some v \<Rightarrow> v)"

definition build_execution_state :: "string \<Rightarrow> (string \<times> string) list \<Rightarrow> ExecutionState res" where
  "build_execution_state traj vs =
     rbind (aperture_of vs) (\<lambda>aperture.
     rbind (optional_identity vs ''executor_epoch'') (\<lambda>epoch.
     rbind (optional_identity vs ''trajectory_contract_id'') (\<lambda>contract.
     rbind (optional_identity vs ''trajectory_token'') (\<lambda>token.
     rbind (optional_received_at vs ''trajectory_received_at'') (\<lambda>received_at.
     rbind (optional_identity vs ''trajectory_event_token'') (\<lambda>event_token0.
     let event_token = (if event_token0 = ''none'' then [] else event_token0) in
     rbind (optional_received_at vs ''trajectory_event_received_at'') (\<lambda>event_received_at.
     raise_if ((event_token \<noteq> []) \<noteq> (event_received_at \<noteq> None))
       (ValueError ''trajectory event token and source identity must appear together'')
     (rbind (optional_received_at vs ''gripper_received_at'') (\<lambda>grip_received_at.
     let seg = get_text vs ''segment'' in
     rbind (check_place_status vs seg contract received_at) (\<lambda>_.
     rbind (optional_nonnegative_int vs ''gripper_command_id'') (\<lambda>grip_id.
     raise_if (gripper_identity_split grip_id grip_received_at)
       (ValueError ''gripper command and source identity must appear together'')
     (let grip = get_text vs ''gripper'' in
     rbind (accepted_aperture_of grip) (\<lambda>accepted.
     rbind (optional_nonnegative_int vs ''command_id'') (\<lambda>cmd.
     Inr \<lparr> trajectory = traj, owner = get_text vs ''owner'', gripper = grip,
           aperture_m = aperture, command_id = cmd, segment = seg,
           gripper_command_id = grip_id, accepted_gripper_aperture_m = accepted,
           executor_epoch = epoch, trajectory_contract_id = contract, trajectory_token = token,
           trajectory_received_at = received_at, trajectory_event_token = event_token,
           trajectory_event_received_at = event_received_at,
           gripper_received_at = grip_received_at \<rparr>))))))))))))))"

definition parse_execution_status :: "string \<Rightarrow> ExecutionState res" where
  "parse_execution_status v =
     (case status_fields v of
        [] \<Rightarrow> Inl (ValueError ''execution status is empty'')
      | traj # rest \<Rightarrow> rbind (collect_fields rest []) (build_execution_state traj))"

section \<open>What an accepted status guarantees\<close>

definition opt_nonneg :: "pyfloat option \<Rightarrow> bool" where
  "opt_nonneg x = (case x of None \<Rightarrow> True | Some y \<Rightarrow> isfinite y \<and> 0 \<le> y)"

definition identity_ok :: "string \<Rightarrow> bool" where
  "identity_ok s = (length s \<le> 128 \<and> \<not> list_ex bad_identity_char s)"

definition status_wf :: "ExecutionState \<Rightarrow> bool" where
  "status_wf st \<longleftrightarrow>
     opt_nonneg (aperture_m st) \<and> opt_nonneg (accepted_gripper_aperture_m st) \<and>
     opt_nonneg (trajectory_received_at st) \<and> opt_nonneg (trajectory_event_received_at st) \<and>
     opt_nonneg (gripper_received_at st) \<and>
     (\<forall>n. command_id st = Some n \<longrightarrow> 0 \<le> n) \<and> (\<forall>n. gripper_command_id st = Some n \<longrightarrow> 0 \<le> n) \<and>
     identity_ok (executor_epoch st) \<and> identity_ok (trajectory_contract_id st) \<and>
     identity_ok (trajectory_token st) \<and> identity_ok (trajectory_event_token st) \<and>
     (trajectory_event_token st \<noteq> [] \<longleftrightarrow> trajectory_event_received_at st \<noteq> None) \<and>
     (gripper_received_at st \<noteq> None \<longleftrightarrow> (\<exists>n > 0. gripper_command_id st = Some n)) \<and>
     (segment st \<in> set place_segments \<longrightarrow>
        executor_epoch st \<noteq> [] \<and> trajectory_contract_id st \<noteq> [] \<and> trajectory_received_at st \<noteq> None \<and>
        (trajectory_contract_id st = ''none'' \<longleftrightarrow> segment st = ''place_transit''))"

lemma optional_nonnegative_int_nonneg:
  "optional_nonnegative_int vs name = Inr (Some n) \<Longrightarrow> 0 \<le> n"
  by (auto simp: optional_nonnegative_int_def split: option.splits)

lemma nonneg_check: "\<not> (\<not> isfinite x \<or> x < 0) \<Longrightarrow> isfinite x \<and> 0 \<le> x"
  by (cases x) auto

lemma optional_received_at_nonneg: "optional_received_at vs name = Inr x \<Longrightarrow> opt_nonneg x"
  by (auto simp: optional_received_at_def opt_nonneg_def split: option.splits if_splits
      dest: nonneg_check)

lemma accepted_aperture_nonneg: "accepted_aperture_of g = Inr x \<Longrightarrow> opt_nonneg x"
  by (auto simp: accepted_aperture_of_def opt_nonneg_def split: if_splits dest: nonneg_check)

lemma aperture_nonneg: "aperture_of vs = Inr x \<Longrightarrow> opt_nonneg x"
  by (auto simp: aperture_of_def opt_nonneg_def split: option.splits dest: nonneg_check)

lemma optional_identity_ok: "optional_identity vs name = Inr v \<Longrightarrow> identity_ok v"
  by (auto simp: optional_identity_def identity_ok_def split: option.splits)

lemma optional_identity_present:
  "optional_identity vs name = Inr v \<Longrightarrow> map_of vs name \<noteq> None \<Longrightarrow> v \<noteq> []"
  by (auto simp: optional_identity_def)

lemma check_place_status_ok:
  assumes "check_place_status vs seg contract received_at = Inr u" and "seg \<in> set place_segments"
  shows "map_of vs ''executor_epoch'' \<noteq> None \<and> map_of vs ''trajectory_contract_id'' \<noteq> None \<and>
    received_at \<noteq> None \<and> (contract = ''none'' \<longleftrightarrow> seg = ''place_transit'')"
  using assms
  by (auto simp: check_place_status_def place_identity_fields_def Let_def split: if_splits)

lemma gripper_identity_joined:
  assumes "\<not> gripper_identity_split cmd r" and "\<forall>n. cmd = Some n \<longrightarrow> 0 \<le> n"
  shows "r \<noteq> None \<longleftrightarrow> (\<exists>n > 0. cmd = Some n)"
  using assms by (cases cmd) (force simp: gripper_identity_split_def)+

lemma build_execution_state_wf:
  assumes "build_execution_state traj vs = Inr st"
  shows "status_wf st"
proof -
  obtain ap ep con tok rat et0 erat grat u gid acc cmd where
    ap: "aperture_of vs = Inr ap" and ep: "optional_identity vs ''executor_epoch'' = Inr ep"
    and con: "optional_identity vs ''trajectory_contract_id'' = Inr con"
    and tok: "optional_identity vs ''trajectory_token'' = Inr tok"
    and rat: "optional_received_at vs ''trajectory_received_at'' = Inr rat"
    and et: "optional_identity vs ''trajectory_event_token'' = Inr et0"
    and erat: "optional_received_at vs ''trajectory_event_received_at'' = Inr erat"
    and ev: "((if et0 = ''none'' then [] else et0) \<noteq> []) = (erat \<noteq> None)"
    and grat: "optional_received_at vs ''gripper_received_at'' = Inr grat"
    and pl: "check_place_status vs (get_text vs ''segment'') con rat = Inr u"
    and gid: "optional_nonnegative_int vs ''gripper_command_id'' = Inr gid"
    and gs: "\<not> gripper_identity_split gid grat"
    and acc: "accepted_aperture_of (get_text vs ''gripper'') = Inr acc"
    and cmd: "optional_nonnegative_int vs ''command_id'' = Inr cmd"
    and st: "st = \<lparr> trajectory = traj, owner = get_text vs ''owner'', gripper = get_text vs ''gripper'',
           aperture_m = ap, command_id = cmd, segment = get_text vs ''segment'',
           gripper_command_id = gid, accepted_gripper_aperture_m = acc,
           executor_epoch = ep, trajectory_contract_id = con, trajectory_token = tok,
           trajectory_received_at = rat,
           trajectory_event_token = (if et0 = ''none'' then [] else et0),
           trajectory_event_received_at = erat, gripper_received_at = grat \<rparr>"
    using assms unfolding build_execution_state_def Let_def rbind_Inr_iff raise_if_Inr_iff by blast
  have gid0: "\<forall>n. gid = Some n \<longrightarrow> 0 \<le> n" and cmd0: "\<forall>n. cmd = Some n \<longrightarrow> 0 \<le> n"
    using gid cmd by (auto dest: optional_nonnegative_int_nonneg)
  have place: "get_text vs ''segment'' \<in> set place_segments \<Longrightarrow>
      ep \<noteq> [] \<and> con \<noteq> [] \<and> rat \<noteq> None \<and> (con = ''none'' \<longleftrightarrow> get_text vs ''segment'' = ''place_transit'')"
    using check_place_status_ok [OF pl] optional_identity_present [OF ep] optional_identity_present [OF con]
    by blast
  have ids: "identity_ok ep" "identity_ok con" "identity_ok tok" "identity_ok (if et0 = ''none'' then [] else et0)"
    using ep con tok et by (auto dest: optional_identity_ok simp: identity_ok_def)
  show ?thesis
    unfolding status_wf_def st
    using place ids gid0 cmd0 ev gripper_identity_joined [OF gs gid0]
      aperture_nonneg [OF ap] accepted_aperture_nonneg [OF acc] optional_received_at_nonneg [OF rat]
      optional_received_at_nonneg [OF erat] optional_received_at_nonneg [OF grat]
    by simp
qed

lemma parse_execution_statusE:
  assumes "parse_execution_status v = Inr st"
  obtains traj rest vs where "status_fields v = traj # rest" and "collect_fields rest [] = Inr vs"
    and "build_execution_state traj vs = Inr st"
  using assms by (auto simp: parse_execution_status_def split: list.splits)

lemma status_fields_nonempty: "f \<in> set (status_fields v) \<Longrightarrow> f \<noteq> []"
  by (auto simp: status_fields_def)

lemma collect_fields_distinct:
  "collect_fields fs vs = Inr ws \<Longrightarrow> distinct (map fst vs) \<Longrightarrow> distinct (map fst ws)"
  by (induction fs vs rule: collect_fields.induct)
    (auto simp: Let_def split: prod.splits)

lemma build_execution_state_trajectory: "build_execution_state traj vs = Inr st \<Longrightarrow> trajectory st = traj"
  by (auto simp: build_execution_state_def Let_def)

text \<open>C8: Every status line the parser accepts has a non-empty trajectory state and is well formed: its
  apertures and receipt times are finite and non-negative, its command ids are non-negative, its
  identity tokens are bounded ASCII, an event token comes with its receipt time and a positive gripper
  command with its own, and a status of a placement segment carries the executor epoch, the contract
  (none exactly for the transit segment) and the receipt time. Anything else is rejected with an
  exception.\<close>

theorem parse_execution_status_wf:
  assumes "parse_execution_status v = Inr st"
  shows "status_wf st \<and> trajectory st \<noteq> []"
proof -
  from assms obtain traj rest vs where f: "status_fields v = traj # rest"
    and b: "build_execution_state traj vs = Inr st"
    by (rule parse_execution_statusE)
  from f status_fields_nonempty [of traj v] have "traj \<noteq> []" by simp
  with b show ?thesis
    by (simp add: build_execution_state_wf build_execution_state_trajectory)
qed

definition sample_status :: string where
  "sample_status =
     ''active; owner=trajectory; command_id=7; segment=place_approach; executor_epoch=e1; '' @
     ''trajectory_contract_id=g1; trajectory_token=t9; trajectory_received_at=12.5; '' @
     ''gripper_command_id=3; gripper_received_at=11.25; gripper=accepted:0.04''"

definition sample_state :: ExecutionState where
  "sample_state =
     \<lparr> trajectory = ''active'', owner = ''trajectory'', gripper = ''accepted:0.04'',
       aperture_m = None, command_id = Some 7, segment = ''place_approach'',
       gripper_command_id = Some 3, accepted_gripper_aperture_m = Some (Fin (4 / 100)),
       executor_epoch = ''e1'', trajectory_contract_id = ''g1'', trajectory_token = ''t9'',
       trajectory_received_at = Some (Fin (25 / 2)), trajectory_event_token = [],
       trajectory_event_received_at = None, gripper_received_at = Some (Fin (45 / 4)) \<rparr>"

lemmas parser_eval =
  parse_execution_status_def status_fields_def build_execution_state_def aperture_of_def
  optional_identity_def optional_received_at_def optional_nonnegative_int_def to_float_def to_int_def
  check_place_status_def place_segments_def place_identity_fields_def get_text_def
  gripper_identity_split_def accepted_aperture_of_def bad_identity_char_def raise_if_def Let_def py_defs

lemma sample_status_parses: "parse_execution_status sample_status = Inr sample_state"
  by (simp add: sample_status_def sample_state_def parser_eval
      del: rbind_Inr_iff raise_if_Inr_iff)

theorem parse_execution_status_wf_witness:
  "parse_execution_status sample_status = Inr sample_state \<and> status_wf sample_state"
  using sample_status_parses parse_execution_status_wf [OF sample_status_parses] by simp

text \<open>A repeated field never parses.\<close>

lemma repeated_field_rejected:
  "parse_execution_status ''active;command_id=1;command_id=2'' =
     Inl (ValueError (''execution status repeats field '' @ py_repr ''command_id''))"
  by (simp add: parser_eval)

section \<open>Transaction identities in a trajectory's frame id\<close>

definition bounded_identity :: "string \<Rightarrow> bool" where
  "bounded_identity s = (1 \<le> length s \<and> length s \<le> 128)"

definition trajectory_segment_frame_id :: "string \<Rightarrow> string option \<Rightarrow> string option \<Rightarrow> string res" where
  "trajectory_segment_frame_id seg contract_id execution_token =
     raise_if (seg = []) (ValueError ''trajectory segment must be non-empty'')
     (rbind
       (if seg \<in> set [''place_approach'', ''place_retreat''] then
          (case contract_id of
             None \<Rightarrow> Inl (ValueError ''placement trajectory contract ID has invalid length'')
           | Some c \<Rightarrow>
               raise_if (\<not> bounded_identity c)
                 (ValueError ''placement trajectory contract ID has invalid length'')
               (raise_if (list_ex bad_identity_char c)
                 (ValueError ''placement trajectory contract ID is not bounded ASCII'')
                 (Inr (seg @ ''|contract='' @ c))))
        else
          raise_if (contract_id \<noteq> None)
            (ValueError ''non-place trajectory cannot carry a place contract ID'') (Inr seg))
       (\<lambda>encoded.
         case execution_token of
           None \<Rightarrow> Inr encoded
         | Some tk \<Rightarrow>
             raise_if (\<not> bounded_identity tk)
               (ValueError ''trajectory execution token has invalid length'')
             (raise_if (list_ex bad_identity_char tk)
               (ValueError ''trajectory execution token is not bounded ASCII'')
               (Inr (encoded @ ''|token='' @ tk)))))"

text \<open>
  The encoding is read back by splitting at the bars: the first part is the segment, the others
  name their field.
\<close>

lemma py_split_no_sep: "d \<notin> set s \<Longrightarrow> py_split d s = [s]"
  by (induction s) auto

lemma py_split_nonempty [simp]: "py_split d s \<noteq> []"
  by (induction s) (auto split: list.splits)

lemma py_split_append: "d \<notin> set s \<Longrightarrow> py_split d (s @ d # t) = s # py_split d t"
  by (induction s) (auto split: list.splits)

definition frame_parts :: "string \<Rightarrow> string option \<Rightarrow> string option \<Rightarrow> string list" where
  "frame_parts seg contract_id execution_token =
     seg # (case contract_id of None \<Rightarrow> [] | Some c \<Rightarrow> [''contract='' @ c]) @
     (case execution_token of None \<Rightarrow> [] | Some t \<Rightarrow> [''token='' @ t])"

lemma frame_parts_inj: "frame_parts s c t = frame_parts s' c' t' \<Longrightarrow> s = s' \<and> c = c' \<and> t = t'"
  by (auto simp: frame_parts_def split: option.splits)

lemma trajectory_segment_frame_id_parts:
  assumes enc: "trajectory_segment_frame_id seg c t = Inr out" and bar: "CHR ''|'' \<notin> set seg"
  shows "py_split (CHR ''|'') out = frame_parts seg c t"
  using enc bar
  by (auto simp: trajectory_segment_frame_id_def frame_parts_def py_split_no_sep py_split_append
      identity_no_separator split: if_splits option.splits)

text \<open>The identities written into a trajectory's frame id are never ambiguous: two accepted encodings
  of segments without a bar that yield the same text carry the same segment, the same
  placement contract and the same execution token.\<close>

theorem trajectory_segment_frame_id_injective:
  assumes "trajectory_segment_frame_id seg c t = Inr out"
    and "trajectory_segment_frame_id seg' c' t' = Inr out"
    and "CHR ''|'' \<notin> set seg" and "CHR ''|'' \<notin> set seg'"
  shows "seg = seg' \<and> c = c' \<and> t = t'"
  using frame_parts_inj trajectory_segment_frame_id_parts assms by metis

theorem trajectory_segment_frame_id_injective_witness:
  "{(c, t). trajectory_segment_frame_id ''place_retreat'' c t = Inr ''place_retreat|contract=g1|token=t9''}
   = {(Some ''g1'', Some ''t9'')}"
proof -
  have e: "trajectory_segment_frame_id ''place_retreat'' (Some ''g1'') (Some ''t9'') =
     Inr ''place_retreat|contract=g1|token=t9''"
    by (simp add: trajectory_segment_frame_id_def bounded_identity_def bad_identity_char_def
        raise_if_def py_defs)
  have b: "CHR ''|'' \<notin> set ''place_retreat''" by simp
  show ?thesis using e trajectory_segment_frame_id_injective [OF _ e b b] by blast
qed

end
