(* ===== verification/Json.thy ===== *)
theory Json
  imports Prelude
begin

text \<open>
  JSON values as the decoder of Python's standard library delivers them. An object is the list of its
  members in the order of the text; a float literal may overflow to an infinity, so \<open>JFloat\<close> holds a
  float of any kind. The decoder itself is in the theory \<open>Json_Text\<close>.
\<close>

datatype json =
    JNull
  | JBool bool
  | JInt int
  | JFloat pyfloat
  | JStr string
  | JArr "json list"
  | JObj "(string \<times> json) list"

fun jget :: "(string \<times> json) list \<Rightarrow> string \<Rightarrow> json option" where
  "jget [] k = None"
| "jget ((k', v) # ms) k = (if k' = k then Some v else jget ms k)"

lemma jget_map_of: "jget ms k = map_of ms k"
  by (induction ms k rule: jget.induct) auto

lemma jget_in_keys: "jget ms k \<noteq> None \<longleftrightarrow> k \<in> set (map fst ms)"
  by (induction ms k rule: jget.induct) auto

section \<open>What the sources do with decoded values\<close>

text \<open>\<open>mapping.get(key, default)\<close>.\<close>

definition get_or :: "json \<Rightarrow> (string \<times> json) list \<Rightarrow> string \<Rightarrow> json" where
  "get_or d ms k = (case jget ms k of None \<Rightarrow> d | Some v \<Rightarrow> v)"

text \<open>\<open>repr()\<close> and \<open>str()\<close> of a decoded JSON value; the text of a float is the argument.\<close>

fun join_items :: "string list \<Rightarrow> string" where
  "join_items [] = []"
| "join_items [x] = x"
| "join_items (x # xs) = x @ '', '' @ join_items xs"

fun repr_value :: "(pyfloat \<Rightarrow> string) \<Rightarrow> json \<Rightarrow> string" where
  "repr_value fl JNull = ''None''"
| "repr_value fl (JBool b) = (if b then ''True'' else ''False'')"
| "repr_value fl (JInt i) = show_int i"
| "repr_value fl (JFloat x) = fl x"
| "repr_value fl (JStr s) = py_repr s"
| "repr_value fl (JArr vs) = ''['' @ join_items (map (repr_value fl) vs) @ '']''"
| "repr_value fl (JObj ms) =
     ''{'' @ join_items (map (\<lambda>(k, v). py_repr k @ '': '' @ repr_value fl v) ms) @ ''}''"

definition str_value :: "(pyfloat \<Rightarrow> string) \<Rightarrow> json \<Rightarrow> string" where
  "str_value fl v = (case v of JStr s \<Rightarrow> s | _ \<Rightarrow> repr_value fl v)"

text \<open>\<open>float(value)\<close> of a decoded value; an integer too large for a double raises OverflowError.\<close>

fun float_value :: "json \<Rightarrow> pyfloat res" where
  "float_value (JInt i) =
     (if float_overflow \<le> \<bar>of_int i\<bar> then Inl (OverflowError ''int too large to convert to float'')
      else Inr (Fin (of_int i)))"
| "float_value (JBool b) = Inr (Fin (if b then 1 else 0))"
| "float_value (JFloat x) = Inr x"
| "float_value (JStr s) =
     (case py_float s of None \<Rightarrow> Inl (ValueError (''could not convert string to float: '' @ py_repr s))
      | Some x \<Rightarrow> Inr x)"
| "float_value _ = Inl (TypeError ''float() argument must be a string or a real number'')"

text \<open>The truth value of a decoded value, as \<open>or\<close> and \<open>if\<close> read it.\<close>

fun truthy :: "json \<Rightarrow> bool" where
  "truthy JNull = False"
| "truthy (JBool b) = b"
| "truthy (JInt i) = (i \<noteq> 0)"
| "truthy (JFloat x) = (x \<noteq> Fin 0)"
| "truthy (JStr s) = (s \<noteq> [])"
| "truthy (JArr vs) = (vs \<noteq> [])"
| "truthy (JObj ms) = (ms \<noteq> [])"

end
