(* ===== verification/Interfaces.thy ===== *)
theory Interfaces
  imports Prelude
begin

text \<open>
  The contracts the stateful components share, as locales over a step function
  \<open>step s e\<close> (the state after the operation \<open>e\<close>, whether it returned or raised). Each component
  interprets the ones it provides on its own operations, and the properties of whole runs come
  from the interpretation.
\<close>

section \<open>Invariants\<close>

locale invariant_machine =
  fixes step :: "'s \<Rightarrow> 'e \<Rightarrow> 's"
    and inv :: "'s \<Rightarrow> bool"
  assumes step_inv: "inv s \<Longrightarrow> inv (step s e)"
begin

lemma run_inv: "inv s \<Longrightarrow> inv (foldl step s es)"
  by (induction es arbitrary: s) (simp_all add: step_inv)

end

section \<open>Latched states\<close>

text \<open>A class of states that only the events in \<open>releases\<close> leave.\<close>

locale latched_machine =
  fixes step :: "'s \<Rightarrow> 'e \<Rightarrow> 's"
    and latched :: "'s \<Rightarrow> bool"
    and releases :: "'e \<Rightarrow> bool"
  assumes step_latched: "latched s \<Longrightarrow> \<not> releases e \<Longrightarrow> latched (step s e)"
begin

lemma run_latched: "latched s \<Longrightarrow> \<forall>e \<in> set es. \<not> releases e \<Longrightarrow> latched (foldl step s es)"
  by (induction es arbitrary: s) (simp_all add: step_latched)

end

section \<open>Watermarks\<close>

locale watermark = invariant_machine step inv
  for step :: "'s \<Rightarrow> 'e \<Rightarrow> 's" and inv :: "'s \<Rightarrow> bool" +
  fixes mark :: "'s \<Rightarrow> 'm::order"
  assumes step_mark: "inv s \<Longrightarrow> mark s \<le> mark (step s e)"
begin

lemma run_mark: "inv s \<Longrightarrow> mark s \<le> mark (foldl step s es)"
proof (induction es arbitrary: s)
  case Nil
  show ?case by simp
next
  case (Cons e es)
  have "mark s \<le> mark (step s e)" by (rule step_mark [OF Cons.prems])
  also have "\<dots> \<le> mark (foldl step (step s e) es)" by (rule Cons.IH [OF step_inv [OF Cons.prems]])
  finally show ?case by simp
qed

end

section \<open>Capabilities\<close>

text \<open>
  A token is bound to the generation it was issued in, and generations never go back: once the
  generation has moved past a token, no later state accepts it.
\<close>

locale capability = watermark step inv gen
  for step :: "'s \<Rightarrow> 'e \<Rightarrow> 's" and inv :: "'s \<Rightarrow> bool" and gen :: "'s \<Rightarrow> int" +
  fixes accepts :: "'s \<Rightarrow> 't \<Rightarrow> bool"
    and token_gen :: "'t \<Rightarrow> int"
  assumes accepts_gen: "inv s \<Longrightarrow> accepts s t \<Longrightarrow> token_gen t = gen s"
begin

lemma revoked: "inv s \<Longrightarrow> token_gen t < gen s \<Longrightarrow> \<not> accepts (foldl step s es) t"
  using run_mark [of s es] accepts_gen [of "foldl step s es" t] run_inv [of s es] by auto

end

section \<open>Budgets\<close>

text \<open>A sequence of operations each of which is admissible in the state it is applied to.\<close>

fun admissible_run :: "('s \<Rightarrow> 'e \<Rightarrow> 's) \<Rightarrow> ('s \<Rightarrow> 'e \<Rightarrow> bool) \<Rightarrow> 's \<Rightarrow> 'e list \<Rightarrow> bool" where
  "admissible_run step ok s [] = True"
| "admissible_run step ok s (e # es) = (ok s e \<and> admissible_run step ok (step s e) es)"

text \<open>A machine that spends budget on every admissible step it makes before it stops.\<close>

locale budgeted_machine = invariant_machine step inv
  for step :: "'s \<Rightarrow> 'e \<Rightarrow> 's" and inv :: "'s \<Rightarrow> bool" +
  fixes ok :: "'s \<Rightarrow> 'e \<Rightarrow> bool"
    and stopped :: "'s \<Rightarrow> bool"
    and budget :: "'s \<Rightarrow> nat"
  assumes step_spends: "inv s \<Longrightarrow> ok s e \<Longrightarrow> \<not> stopped s \<Longrightarrow> budget (step s e) < budget s"
    and stop_stays: "stopped s \<Longrightarrow> stopped (step s e)"
begin

lemma run_stopped: "stopped s \<Longrightarrow> stopped (foldl step s es)"
  by (induction es arbitrary: s) (simp_all add: stop_stays)

lemma stops_in_budget:
  "inv s \<Longrightarrow> admissible_run step ok s es \<Longrightarrow> budget s < length es \<Longrightarrow> stopped (foldl step s es)"
proof (induction es arbitrary: s)
  case Nil
  then show ?case by simp
next
  case (Cons e es)
  show ?case
  proof (cases "stopped s")
    case True
    then show ?thesis using run_stopped [OF stop_stays] by simp
  next
    case False
    then have "budget (step s e) < budget s" using step_spends Cons.prems by simp
    then show ?thesis using Cons.IH [OF step_inv] Cons.prems by simp
  qed
qed

end

end
