(* ===== verification/Safety_Core.thy ===== *)
theory Safety_Core
  imports Executor_Status Json Interfaces
begin

text \<open>
  \<open>RuntimeSafetyCore\<close> of \<open>src/ros2/z_manip_task/z_manip_task/core.py\<close>: the phase machine of one
  pick-and-place task. The state is the record of the object's attributes; each method is a
  definition that returns its result, or the exception it raises, with the state after the call.
  Exception and failure texts are the source's, the formatted values included.
\<close>

section \<open>Phases and actions\<close>

datatype RuntimePhase =
    IDLE | POSE_SETTLE | VISUAL_SEARCH | GROUNDING | STANDOFF | COARSE_NAV | NEAR_GROUNDING
  | VISUAL_SERVO | FINAL_GROUNDING | WAIT_FRESH_OBSERVATION | PLANNING | TRANSIT
  | PREGRASP_REOBSERVE | APPROACH_PLANNING | APPROACH | CLOSING | LIFT | VERIFY | CARRY
  | PICK_COMPLETE | PLACE_GROUNDING | PLACE_PLANNING | PLACE_TRANSIT | PLACE_APPROACH
  | RELEASING | PLACE_RETREAT | POST_RELEASE_VERIFICATION | COMPLETE | CANCELED | FAILED

fun phase_value :: "RuntimePhase \<Rightarrow> string" where
  "phase_value IDLE = ''idle''"
| "phase_value POSE_SETTLE = ''pose_settle''"
| "phase_value VISUAL_SEARCH = ''visual_search''"
| "phase_value GROUNDING = ''grounding''"
| "phase_value STANDOFF = ''standoff''"
| "phase_value COARSE_NAV = ''coarse_nav''"
| "phase_value NEAR_GROUNDING = ''near_grounding''"
| "phase_value VISUAL_SERVO = ''visual_servo''"
| "phase_value FINAL_GROUNDING = ''final_grounding''"
| "phase_value WAIT_FRESH_OBSERVATION = ''wait_fresh_observation''"
| "phase_value PLANNING = ''planning''"
| "phase_value TRANSIT = ''transit''"
| "phase_value PREGRASP_REOBSERVE = ''pregrasp_reobserve''"
| "phase_value APPROACH_PLANNING = ''approach_planning''"
| "phase_value APPROACH = ''approach''"
| "phase_value CLOSING = ''closing''"
| "phase_value LIFT = ''lift''"
| "phase_value VERIFY = ''verify''"
| "phase_value CARRY = ''carry''"
| "phase_value PICK_COMPLETE = ''pick_complete''"
| "phase_value PLACE_GROUNDING = ''place_grounding''"
| "phase_value PLACE_PLANNING = ''place_planning''"
| "phase_value PLACE_TRANSIT = ''place_transit''"
| "phase_value PLACE_APPROACH = ''place_approach''"
| "phase_value RELEASING = ''releasing''"
| "phase_value PLACE_RETREAT = ''place_retreat''"
| "phase_value POST_RELEASE_VERIFICATION = ''post_release_verification''"
| "phase_value COMPLETE = ''complete''"
| "phase_value CANCELED = ''canceled''"
| "phase_value FAILED = ''failed''"

definition terminal_result :: "RuntimePhase \<Rightarrow> string" where
  "terminal_result p =
     (if p = PICK_COMPLETE then ''pick_complete''
      else if p = COMPLETE then ''mobile_manip_complete''
      else if p = CANCELED then ''canceled'' else [])"

record SafetyAction =
  stop_base :: bool
  cancel_navigation :: bool
  cancel_arm :: bool
  action_reason :: string

definition no_action :: SafetyAction where
  "no_action = \<lparr> stop_base = False, cancel_navigation = False, cancel_arm = False, action_reason = [] \<rparr>"

section \<open>The state\<close>

record RuntimeSafetyCore =
  phase :: RuntimePhase
  instruction :: string
  failure_reason :: string
  prospective_serial :: "int option"
  required_replan_serial :: "int option"
  planned_serial :: "int option"
  execution_segment :: string
  execution_seen_active :: bool
  highest_command_id :: int
  executor_command_highwater :: "string \<rightharpoonup> int"
  execution_command_highwater_snapshot :: "string \<rightharpoonup> int"
  expected_command_id :: "int option"
  expected_executor_epoch :: string
  execution_publish_executor_epoch :: string
  execution_publish_token :: string
  minimum_command_id :: int
  minimum_trajectory_received_at :: "pyfloat option"
  expected_trajectory_received_at :: "pyfloat option"
  place_contract_id :: string
  place_executor_epoch :: string
  place_request_command_id :: "int option"
  place_request_received_at :: "pyfloat option"
  place_request_gripper_command_id :: "int option"
  place_request_gripper_received_at :: "pyfloat option"
  place_approach_command_id :: "int option"
  place_approach_received_at :: "pyfloat option"
  place_approach_gripper_command_id :: "int option"
  place_approach_gripper_received_at :: "pyfloat option"
  place_release_gripper_command_id :: "int option"
  place_release_gripper_received_at :: "pyfloat option"
  place_highwater_trajectory :: string
  place_highwater_owner :: string
  place_highwater_segment :: string
  place_highwater_contract_id :: string
  carry_only :: bool

definition core_init :: RuntimeSafetyCore where
  "core_init =
     \<lparr> phase = IDLE, instruction = [], failure_reason = [], prospective_serial = None,
       required_replan_serial = None, planned_serial = None, execution_segment = [],
       execution_seen_active = False, highest_command_id = 0,
       executor_command_highwater = Map.empty, execution_command_highwater_snapshot = Map.empty,
       expected_command_id = None, expected_executor_epoch = [],
       execution_publish_executor_epoch = [], execution_publish_token = [],
       minimum_command_id = 1, minimum_trajectory_received_at = None,
       expected_trajectory_received_at = None, place_contract_id = [], place_executor_epoch = [],
       place_request_command_id = None, place_request_received_at = None,
       place_request_gripper_command_id = None, place_request_gripper_received_at = None,
       place_approach_command_id = None, place_approach_received_at = None,
       place_approach_gripper_command_id = None, place_approach_gripper_received_at = None,
       place_release_gripper_command_id = None, place_release_gripper_received_at = None,
       place_highwater_trajectory = [], place_highwater_owner = [], place_highwater_segment = [],
       place_highwater_contract_id = [], carry_only = True \<rparr>"

definition active_phase :: "RuntimePhase \<Rightarrow> bool" where
  "active_phase p = (p \<notin> {IDLE, PICK_COMPLETE, COMPLETE, CANCELED, FAILED})"

definition core_active :: "RuntimeSafetyCore \<Rightarrow> bool" where
  "core_active s = active_phase (phase s)"

type_synonym 'a core_op = "('a, RuntimeSafetyCore) outcome"

section \<open>Internal steps\<close>

definition clear_execution_binding :: "bool \<Rightarrow> RuntimeSafetyCore \<Rightarrow> RuntimeSafetyCore" where
  "clear_execution_binding clear_segment s =
     s\<lparr> execution_segment := (if clear_segment then [] else execution_segment s),
        execution_seen_active := False, expected_command_id := None,
        expected_executor_epoch := [], execution_publish_executor_epoch := [],
        execution_publish_token := [], expected_trajectory_received_at := None,
        execution_command_highwater_snapshot := Map.empty \<rparr>"

definition place_identity_token :: "string option \<Rightarrow> string \<Rightarrow> string res" where
  "place_identity_token v label =
     (case v of
        None \<Rightarrow> Inl (ValueError (label @ '' must be a string''))
      | Some x \<Rightarrow>
          let identity = py_strip x in
          raise_if (identity = [] \<or> identity \<noteq> x \<or> length identity > 128 \<or>
                    list_ex bad_identity_char identity)
            (ValueError (label @ '' is invalid'')) (Inr identity))"

definition highwater_get :: "(string \<rightharpoonup> int) \<Rightarrow> string \<Rightarrow> int" where
  "highwater_get m e = (case m e of None \<Rightarrow> 0 | Some n \<Rightarrow> n)"

definition positive_id :: "int option \<Rightarrow> bool" where
  "positive_id c = (case c of None \<Rightarrow> False | Some n \<Rightarrow> 0 < n)"

definition record_executor_command_highwater ::
  "ExecutionState \<Rightarrow> RuntimeSafetyCore \<Rightarrow> RuntimeSafetyCore" where
  "record_executor_command_highwater st s =
     (if owner st \<noteq> ''trajectory'' \<or> \<not> positive_id (command_id st)
         \<or> \<not> valid_time (trajectory_received_at st) then s
      else (case place_identity_token (Some (executor_epoch st)) ''executor epoch'' of
              Inl _ \<Rightarrow> s
            | Inr epoch \<Rightarrow>
                let cmd = the (command_id st) in
                s\<lparr> highest_command_id := max (highest_command_id s) cmd,
                   executor_command_highwater := (executor_command_highwater s)
                     (epoch \<mapsto> max (highwater_get (executor_command_highwater s) epoch) cmd) \<rparr>))"

definition fail_core :: "string \<Rightarrow> RuntimeSafetyCore \<Rightarrow> SafetyAction core_op" where
  "fail_core why s =
     (let r = (if py_strip why = [] then ''runtime safety failure'' else py_strip why);
          t = (clear_execution_binding True (s\<lparr> failure_reason := r, phase := FAILED \<rparr>))
                \<lparr> minimum_trajectory_received_at := None \<rparr>
      in (Inr \<lparr> stop_base = True, cancel_navigation = True, cancel_arm = True, action_reason = r \<rparr>, t))"

definition while_error :: "string \<Rightarrow> RuntimeSafetyCore \<Rightarrow> exn" where
  "while_error what s = RuntimeError (what @ '' while '' @ phase_value (phase s))"

section \<open>Task lifecycle and planning\<close>

definition begin_task :: "string \<Rightarrow> RuntimeSafetyCore \<Rightarrow> unit core_op" where
  "begin_task text s =
     (let query = py_strip text in
      guard (query = []) (ValueError ''task instruction must not be empty'') s
        (Inr (), core_init\<lparr> highest_command_id := highest_command_id s,
                            executor_command_highwater := executor_command_highwater s,
                            instruction := query, phase := POSE_SETTLE \<rparr>))"

definition mark_pose_settled :: "RuntimeSafetyCore \<Rightarrow> unit core_op" where
  "mark_pose_settled s =
     guard (phase s \<noteq> POSE_SETTLE) (while_error ''cannot settle pose'' s) s
       (Inr (), s\<lparr> phase := GROUNDING \<rparr>)"

definition begin_visual_search :: "RuntimeSafetyCore \<Rightarrow> unit core_op" where
  "begin_visual_search s =
     guard (phase s \<noteq> POSE_SETTLE) (while_error ''cannot search visually'' s) s
       (Inr (), s\<lparr> phase := VISUAL_SEARCH \<rparr>)"

definition mark_visual_search_complete :: "RuntimeSafetyCore \<Rightarrow> unit core_op" where
  "mark_visual_search_complete s =
     guard (phase s \<noteq> VISUAL_SEARCH) (while_error ''cannot finish visual search'' s) s
       (Inr (), s\<lparr> phase := POSE_SETTLE \<rparr>)"

definition restart_grounding :: "RuntimeSafetyCore \<Rightarrow> unit core_op" where
  "restart_grounding s =
     guard (instruction s = []) (RuntimeError ''cannot recover a task without an instruction'') s
       (begin_task (instruction s) s)"

definition request_reobservation :: "int \<Rightarrow> RuntimeSafetyCore \<Rightarrow> unit core_op" where
  "request_reobservation after_serial s =
     guard (phase s \<notin> {PLANNING, PREGRASP_REOBSERVE, APPROACH_PLANNING, WAIT_FRESH_OBSERVATION,
                        FINAL_GROUNDING})
       (while_error ''cannot request reobservation'' s) s
     (guard (after_serial < 0) (ValueError ''observation serial cannot be negative'') s
       (Inr (), (clear_execution_binding True
                  (s\<lparr> required_replan_serial := Some (after_serial + 1), planned_serial := None \<rparr>))
                \<lparr> minimum_trajectory_received_at := None, phase := WAIT_FRESH_OBSERVATION \<rparr>))"

definition mark_standoff :: "int \<Rightarrow> RuntimeSafetyCore \<Rightarrow> unit core_op" where
  "mark_standoff serial s =
     guard (phase s \<notin> {GROUNDING, STANDOFF}) (while_error ''cannot select standoff'' s) s
     (guard (serial < 1) (ValueError ''observation serial must be positive'') s
       (Inr (), s\<lparr> prospective_serial := Some serial, phase := COARSE_NAV \<rparr>))"

definition mark_coarse_ready :: "RuntimeSafetyCore \<Rightarrow> unit core_op" where
  "mark_coarse_ready s =
     guard (phase s \<noteq> COARSE_NAV) (while_error ''cannot finish coarse navigation'' s) s
       (Inr (), s\<lparr> phase := NEAR_GROUNDING \<rparr>)"

definition mark_near_grounded :: "int \<Rightarrow> RuntimeSafetyCore \<Rightarrow> unit core_op" where
  "mark_near_grounded serial s =
     guard (phase s \<noteq> NEAR_GROUNDING) (while_error ''cannot accept near grounding'' s) s
     (guard (serial < 1) (ValueError ''near grounding observation serial must be positive'') s
       (Inr (), s\<lparr> prospective_serial := Some serial, phase := VISUAL_SERVO \<rparr>))"

definition mark_servo_complete_for_reground :: "RuntimeSafetyCore \<Rightarrow> unit core_op" where
  "mark_servo_complete_for_reground s =
     guard (phase s \<noteq> VISUAL_SERVO) (while_error ''cannot complete servo'' s) s
     (guard (prospective_serial s = None) AssertionError s
       (Inr (), s\<lparr> required_replan_serial := Some 1, phase := FINAL_GROUNDING \<rparr>))"

definition begin_replan :: "int \<Rightarrow> RuntimeSafetyCore \<Rightarrow> unit core_op" where
  "begin_replan serial s =
     guard (phase s \<notin> {WAIT_FRESH_OBSERVATION, FINAL_GROUNDING}) (while_error ''cannot replan'' s) s
     (case required_replan_serial s of
        None \<Rightarrow> (Inl AssertionError, s)
      | Some required \<Rightarrow>
          guard (serial < required)
            (RuntimeError ''post-servo plan requires a newly synchronized perception frame'') s
            (Inr (), s\<lparr> planned_serial := Some serial, phase := PLANNING \<rparr>))"

definition plan_ready :: "RuntimeSafetyCore \<Rightarrow> unit core_op" where
  "plan_ready s =
     guard (phase s \<noteq> PLANNING) (while_error ''cannot accept a plan'' s) s
       (Inr (), s\<lparr> phase := TRANSIT \<rparr>)"

definition begin_approach_replan :: "int \<Rightarrow> RuntimeSafetyCore \<Rightarrow> unit core_op" where
  "begin_approach_replan serial s =
     guard (phase s \<noteq> PREGRASP_REOBSERVE) (while_error ''cannot replan an approach'' s) s
     (guard (case planned_serial s of None \<Rightarrow> True | Some p \<Rightarrow> serial \<le> p)
        (RuntimeError ''approach planning requires a newer post-pregrasp observation'') s
        (Inr (), s\<lparr> planned_serial := Some serial, phase := APPROACH_PLANNING \<rparr>))"

definition approach_plan_ready :: "RuntimeSafetyCore \<Rightarrow> unit core_op" where
  "approach_plan_ready s =
     guard (phase s \<noteq> APPROACH_PLANNING) (while_error ''cannot accept an approach plan'' s) s
       (Inr (), s\<lparr> phase := APPROACH \<rparr>)"

definition close_complete :: "RuntimeSafetyCore \<Rightarrow> unit core_op" where
  "close_complete s =
     guard (phase s \<noteq> CLOSING) (while_error ''cannot finish closing'' s) s
       (Inr (), s\<lparr> phase := LIFT \<rparr>)"

definition verification_complete :: "bool \<Rightarrow> RuntimeSafetyCore \<Rightarrow> unit core_op" where
  "verification_complete only s =
     guard (phase s \<noteq> VERIFY) (while_error ''cannot finish verification'' s) s
       (Inr (), s\<lparr> carry_only := only, phase := CARRY \<rparr>)"

section \<open>Publishing a trajectory\<close>

definition previous_segment :: "string \<Rightarrow> string" where
  "previous_segment seg =
     (if seg = ''place_transit'' then ''carry''
      else if seg = ''place_approach'' then ''place_transit'' else ''place_approach'')"

text \<open>The fields of an executor snapshot that a placement high-water must have.\<close>

definition snapshot_incomplete :: "ExecutionState \<Rightarrow> bool" where
  "snapshot_incomplete st =
     (\<not> positive_id (command_id st) \<or> \<not> valid_time (trajectory_received_at st)
      \<or> \<not> positive_id (gripper_command_id st) \<or> \<not> valid_time (gripper_received_at st))"

text \<open>\<open>a is None or b is None or x != a or y != b\<close>: the pair differs from the frozen one.\<close>

definition pair_changed ::
  "int option \<Rightarrow> pyfloat option \<Rightarrow> int option \<Rightarrow> pyfloat option \<Rightarrow> bool" where
  "pair_changed frozen_id frozen_at i t =
     (frozen_id = None \<or> frozen_at = None \<or> i \<noteq> frozen_id \<or> \<not> opt_feq t frozen_at)"

definition prepare_place_trajectory ::
  "string \<Rightarrow> string option \<Rightarrow> ExecutionState option \<Rightarrow> RuntimeSafetyCore \<Rightarrow> unit core_op" where
  "prepare_place_trajectory seg contract_id executor_state s =
     gbind (place_identity_token contract_id ''place contract ID'') s (\<lambda>contract.
     case executor_state of
       None \<Rightarrow> (Inl (ValueError ''place execution high-water is unavailable''), s)
     | Some st \<Rightarrow>
     gbind (place_identity_token (Some (executor_epoch st)) ''executor epoch'') s (\<lambda>epoch.
     guard (contract \<noteq> place_contract_id s \<or> epoch \<noteq> place_executor_epoch s)
       (ValueError ''place execution contract or executor epoch changed'') s
     (guard (snapshot_incomplete st)
       (ValueError ''place execution command/source high-water is invalid'') s
     (guard (the (command_id st) < highwater_get (executor_command_highwater s) epoch)
       (ValueError ''place execution command snapshot is below the observed high-water'') s
     (guard (trajectory st \<noteq> ''succeeded'' \<or> owner st \<noteq> ''trajectory''
             \<or> segment st \<noteq> previous_segment seg
             \<or> trajectory_contract_id st \<noteq> (if seg = ''place_retreat'' then contract else ''none''))
       (ValueError (seg @ '' high-water does not identify the completed '' @
                    previous_segment seg @ '' segment'')) s
     (guard (seg = ''place_retreat'' \<and>
             pair_changed (place_approach_command_id s) (place_approach_received_at s)
               (command_id st) (trajectory_received_at st))
       (ValueError ''place retreat high-water is not the completed approach'') s
     (guard (seg = ''place_transit'' \<and>
             pair_changed (place_request_command_id s) (place_request_received_at s)
               (command_id st) (trajectory_received_at st))
       (ValueError ''place transit high-water changed during planning'') s
     (guard (seg \<in> {''place_transit'', ''place_approach''} \<and>
             pair_changed (place_request_gripper_command_id s) (place_request_gripper_received_at s)
               (gripper_command_id st) (gripper_received_at st))
       (ValueError ''place pre-release gripper high-water changed'') s
     (guard (seg = ''place_retreat'' \<and>
             pair_changed (place_release_gripper_command_id s) (place_release_gripper_received_at s)
               (gripper_command_id st) (gripper_received_at st))
       (ValueError ''place retreat gripper high-water is not the measured release'') s
     (Inr (), (record_executor_command_highwater st s)
        \<lparr> minimum_command_id := the (command_id st) + 1,
          minimum_trajectory_received_at := trajectory_received_at st,
          expected_trajectory_received_at := None,
          place_highwater_trajectory := trajectory st,
          place_highwater_owner := owner st,
          place_highwater_segment := segment st,
          place_highwater_contract_id := trajectory_contract_id st \<rparr>))))))))))"

definition segment_phase :: "string \<Rightarrow> RuntimePhase option" where
  "segment_phase seg =
     (if seg = ''transit'' then Some TRANSIT
      else if seg = ''approach'' then Some APPROACH
      else if seg = ''lift'' then Some LIFT
      else if seg = ''carry'' then Some CARRY
      else if seg = ''place_transit'' then Some PLACE_TRANSIT
      else if seg = ''place_approach'' then Some PLACE_APPROACH
      else if seg = ''place_retreat'' then Some PLACE_RETREAT else None)"

definition is_place_segment :: "string \<Rightarrow> bool" where
  "is_place_segment seg = prefix ''place_'' seg"

record publish_args =
  pa_place_contract_id :: "string option"
  pa_executor_state :: "ExecutionState option"
  pa_executor_epoch :: "string option"
  pa_published_at_s :: "pyfloat option"
  pa_trajectory_token :: "string option"

definition trajectory_sent :: "string \<Rightarrow> publish_args \<Rightarrow> RuntimeSafetyCore \<Rightarrow> unit core_op" where
  "trajectory_sent seg a s =
     guard (segment_phase seg \<noteq> Some (phase s))
       (RuntimeError (''cannot send '' @ py_repr seg @ '' while '' @ phase_value (phase s))) s
     (gbind (place_identity_token (pa_trajectory_token a) ''trajectory token'') s (\<lambda>token.
      if is_place_segment seg then
        guard (pa_executor_epoch a \<noteq> None \<or> pa_published_at_s a \<noteq> None)
          (ValueError ''place trajectory cannot carry a non-place publish fence'') s
        (obind (prepare_place_trajectory seg (pa_place_contract_id a) (pa_executor_state a) s)
           (\<lambda>_ t.
             (Inr (), (clear_execution_binding False (t\<lparr> execution_segment := seg \<rparr>))
                \<lparr> execution_publish_token := token \<rparr>)))
      else
        guard (pa_place_contract_id a \<noteq> None \<or> pa_executor_state a \<noteq> None)
          (ValueError ''non-place trajectory cannot carry a place execution snapshot'') s
        (gbind (place_identity_token (pa_executor_epoch a) ''executor epoch'') s (\<lambda>epoch.
         guard (\<not> valid_time (pa_published_at_s a))
           (ValueError ''non-place trajectory requires a finite publish source fence'') s
           (Inr (), (clear_execution_binding False (s\<lparr> execution_segment := seg \<rparr>))
              \<lparr> execution_publish_token := token,
                execution_command_highwater_snapshot := executor_command_highwater s,
                execution_publish_executor_epoch := epoch,
                minimum_command_id := highest_command_id s + 1,
                minimum_trajectory_received_at := pa_published_at_s a,
                expected_trajectory_received_at := None \<rparr>)))))"

section \<open>Executor feedback\<close>

definition advance_execution_phase :: "RuntimeSafetyCore \<Rightarrow> unit core_op" where
  "advance_execution_phase s =
     (let finish = (\<lambda>t. (Inr (), (clear_execution_binding True t)
                          \<lparr> minimum_trajectory_received_at := None \<rparr>)) in
      if phase s = TRANSIT then finish (s\<lparr> phase := PREGRASP_REOBSERVE \<rparr>)
      else if phase s = APPROACH then finish (s\<lparr> phase := CLOSING \<rparr>)
      else if phase s = LIFT then finish (s\<lparr> phase := VERIFY \<rparr>)
      else if phase s = PLACE_TRANSIT then finish (s\<lparr> phase := PLACE_APPROACH \<rparr>)
      else if phase s = PLACE_APPROACH then
        guard (expected_command_id s = None \<or> expected_trajectory_received_at s = None)
          AssertionError s
          (finish (s\<lparr> place_approach_command_id := expected_command_id s,
                      place_approach_received_at := expected_trajectory_received_at s,
                      phase := RELEASING \<rparr>))
      else if phase s = PLACE_RETREAT then finish (s\<lparr> phase := POST_RELEASE_VERIFICATION \<rparr>)
      else finish (s\<lparr> phase := (if carry_only s then PICK_COMPLETE else PLACE_GROUNDING) \<rparr>))"

definition status_token_matches :: "ExecutionState \<Rightarrow> RuntimeSafetyCore \<Rightarrow> bool" where
  "status_token_matches st s =
     (trajectory_event_token st = execution_publish_token s
      \<or> trajectory_token st = execution_publish_token s)"

definition quiet :: "RuntimeSafetyCore \<Rightarrow> SafetyAction core_op" where
  "quiet s = (Inr no_action, s)"

text \<open>The reaction to a bound place status: the tail of \<open>_place_execution_update\<close>.\<close>

definition place_bound_update :: "ExecutionState \<Rightarrow> RuntimeSafetyCore \<Rightarrow> SafetyAction core_op" where
  "place_bound_update st s0 =
     (let s = record_executor_command_highwater st s0 in
      if trajectory st = ''active'' then quiet (s\<lparr> execution_seen_active := True \<rparr>)
      else if trajectory st = ''succeeded'' then
        (if \<not> execution_seen_active s then
           fail_core ''place execution succeeded before active status'' s
         else if phase s = PLACE_APPROACH
              \<and> (gripper_command_id st = None \<or> gripper_received_at st = None) then
           fail_core ''place approach omitted gripper high-water identity'' s
         else
           obind (advance_execution_phase
                   (if phase s = PLACE_APPROACH
                    then s\<lparr> place_approach_gripper_command_id := gripper_command_id st,
                            place_approach_gripper_received_at := gripper_received_at st \<rparr>
                    else s))
             (\<lambda>_ t. quiet t))
      else fail_core (''place execution status is invalid: '' @ trajectory st) s)"

text \<open>
  The checks of \<open>_place_execution_update\<close> and \<open>execution_update\<close> in their order, up to the point
  where the status is accepted: it is refused, ignored, the first active status of the
  published trajectory (which binds it), or a further status of the bound one.
\<close>

datatype verdict = Refuse string | Ignore | Bind | Follow

definition place_status_verdict :: "ExecutionState \<Rightarrow> RuntimeSafetyCore \<Rightarrow> verdict" where
  "place_status_verdict st s =
     (if place_contract_id s = [] \<or> place_executor_epoch s = [] \<or> execution_publish_token s = []
         \<or> minimum_trajectory_received_at s = None then
        Refuse ''place execution transaction is not frozen''
      else if status_rejected st \<or> status_canceled st then
        (if status_token_matches st s then Refuse (''arm execution failed: '' @ trajectory st) else Ignore)
      else if trajectory_token st \<noteq> execution_publish_token s then
        (if trajectory st = ''active'' \<and> owner st = ''trajectory''
            \<and> executor_epoch st = place_executor_epoch s
            \<and> command_id st \<noteq> None \<and> minimum_command_id s \<le> the (command_id st)
            \<and> trajectory_received_at st \<noteq> None
            \<and> the (minimum_trajectory_received_at s) < the (trajectory_received_at st) then
           Refuse ''executor accepted an unexpected place trajectory token''
         else Ignore)
      else if command_id st = None \<or> trajectory_received_at st = None
          \<or> executor_epoch st = [] \<or> trajectory_contract_id st = [] then
        Refuse ''place execution status omitted transaction identity''
      else if executor_epoch st \<noteq> place_executor_epoch s then
        Refuse ''place execution executor epoch changed''
      else if the (command_id st) = minimum_command_id s - 1
          \<and> opt_feq (trajectory_received_at st) (minimum_trajectory_received_at s) then
        (if \<not> (trajectory st = place_highwater_trajectory s \<and> owner st = place_highwater_owner s
               \<and> segment st = place_highwater_segment s
               \<and> trajectory_contract_id st = place_highwater_contract_id s) then
           Refuse ''place execution high-water identity changed during handoff''
         else if expected_command_id s \<noteq> None \<or> execution_seen_active s then
           Refuse ''place execution replayed the frozen high-water after active''
         else Ignore)
      else if the (command_id st) \<le> minimum_command_id s - 1
          \<or> the (trajectory_received_at st) \<le> the (minimum_trajectory_received_at s) then
        Refuse ''place execution status is stale or replayed''
      else if owner st \<noteq> ''trajectory'' \<or> segment st \<noteq> execution_segment s
          \<or> trajectory_contract_id st \<noteq>
              (if execution_segment s = ''place_transit'' then ''none'' else place_contract_id s) then
        Refuse (''place execution identity mismatch: owner='' @ py_repr (owner st) @
                '' segment='' @ py_repr (segment st) @
                '' contract='' @ py_repr (trajectory_contract_id st))
      else if expected_command_id s = None then
        (if trajectory st \<noteq> ''active'' then Refuse ''place execution did not start with active status''
         else Bind)
      else if command_id st \<noteq> expected_command_id s
          \<or> \<not> opt_feq (trajectory_received_at st) (expected_trajectory_received_at s) then
        Refuse ''place trajectory command/source identity changed during execution''
      else Follow)"

definition place_execution_update :: "ExecutionState \<Rightarrow> RuntimeSafetyCore \<Rightarrow> SafetyAction core_op" where
  "place_execution_update st s =
     (case place_status_verdict st s of
        Refuse why \<Rightarrow> fail_core why s
      | Ignore \<Rightarrow> quiet s
      | Bind \<Rightarrow> place_bound_update st
                  (s\<lparr> expected_command_id := command_id st,
                      expected_trajectory_received_at := trajectory_received_at st \<rparr>)
      | Follow \<Rightarrow> place_bound_update st s)"

text \<open>The checks of \<open>_place_release_update\<close>; \<open>Bind\<close> freezes the first newer gripper command.\<close>

definition release_verdict :: "ExecutionState \<Rightarrow> RuntimeSafetyCore \<Rightarrow> verdict" where
  "release_verdict st s =
     (if place_approach_command_id s = None \<or> place_approach_received_at s = None
         \<or> place_approach_gripper_command_id s = None \<or> place_approach_gripper_received_at s = None then
        Refuse ''place release lacks completed approach identity''
      else if status_rejected st \<or> status_canceled st then
        Refuse (''arm execution failed: '' @ trajectory st)
      else if trajectory st \<noteq> ''succeeded'' \<or> owner st \<noteq> ''trajectory''
          \<or> segment st \<noteq> ''place_approach'' \<or> command_id st \<noteq> place_approach_command_id s
          \<or> executor_epoch st \<noteq> place_executor_epoch s
          \<or> trajectory_contract_id st \<noteq> place_contract_id s
          \<or> \<not> opt_feq (trajectory_received_at st) (place_approach_received_at s) then
        Refuse ''place release feedback does not match the completed approach''
      else if gripper_command_id st = None \<or> gripper_received_at st = None then
        Refuse ''place release omitted gripper source identity''
      else if gripper_command_id st = place_approach_gripper_command_id s
          \<and> opt_feq (gripper_received_at st) (place_approach_gripper_received_at s)
          \<and> place_release_gripper_command_id s = None then Ignore
      else if place_release_gripper_command_id s = None then
        (if the (gripper_command_id st) \<le> the (place_approach_gripper_command_id s)
            \<or> the (gripper_received_at st) \<le> the (place_approach_gripper_received_at s)
            \<or> the (gripper_received_at st) \<le> the (place_approach_received_at s) then
           Refuse ''place release gripper command/source did not advance''
         else Bind)
      else if gripper_command_id st \<noteq> place_release_gripper_command_id s
          \<or> \<not> opt_feq (gripper_received_at st) (place_release_gripper_received_at s) then
        Refuse ''place release gripper command/source identity changed''
      else Ignore)"

definition place_release_update :: "ExecutionState \<Rightarrow> RuntimeSafetyCore \<Rightarrow> SafetyAction core_op" where
  "place_release_update st s =
     (case release_verdict st s of
        Refuse why \<Rightarrow> fail_core why s
      | Bind \<Rightarrow> quiet (s\<lparr> place_release_gripper_command_id := gripper_command_id st,
                          place_release_gripper_received_at := gripper_received_at st \<rparr>)
      | _ \<Rightarrow> quiet s)"

definition place_planning_execution_update ::
  "ExecutionState \<Rightarrow> RuntimeSafetyCore \<Rightarrow> SafetyAction core_op" where
  "place_planning_execution_update st s =
     (if place_request_command_id s = None \<or> place_request_received_at s = None then
        fail_core ''place planning executor snapshot is unavailable'' s
      else if trajectory st \<noteq> ''succeeded'' \<or> owner st \<noteq> ''trajectory'' \<or> segment st \<noteq> ''carry''
          \<or> command_id st \<noteq> place_request_command_id s
          \<or> executor_epoch st \<noteq> place_executor_epoch s
          \<or> trajectory_contract_id st \<noteq> ''none''
          \<or> \<not> opt_feq (trajectory_received_at st) (place_request_received_at s)
          \<or> gripper_command_id st \<noteq> place_request_gripper_command_id s
          \<or> \<not> opt_feq (gripper_received_at st) (place_request_gripper_received_at s) then
        fail_core ''place planning executor snapshot changed'' s
      else quiet s)"

definition motion_phase :: "RuntimePhase \<Rightarrow> bool" where
  "motion_phase p =
     (p \<in> {TRANSIT, APPROACH, LIFT, CARRY, PLACE_TRANSIT, PLACE_APPROACH, PLACE_RETREAT})"

definition micro :: pyfloat where
  "micro = Fin (1 / 1000000)"

text \<open>The reaction to a bound status of a grasp segment: the tail of \<open>execution_update\<close>.\<close>

definition arm_bound_update :: "ExecutionState \<Rightarrow> RuntimeSafetyCore \<Rightarrow> SafetyAction core_op" where
  "arm_bound_update st s =
     (if trajectory st = ''active'' then
        quiet (record_executor_command_highwater st (s\<lparr> execution_seen_active := True \<rparr>))
      else if trajectory st = ''succeeded'' \<and> execution_seen_active s then
        obind (advance_execution_phase (record_executor_command_highwater st s)) (\<lambda>_ t. quiet t)
      else quiet s)"

definition status_epoch :: "ExecutionState \<Rightarrow> string" where
  "status_epoch st =
     (case place_identity_token (Some (executor_epoch st)) ''executor epoch'' of
        Inl _ \<Rightarrow> [] | Inr e \<Rightarrow> e)"

definition arm_status_verdict :: "ExecutionState \<Rightarrow> RuntimeSafetyCore \<Rightarrow> verdict" where
  "arm_status_verdict st s =
     (if status_rejected st \<or> status_canceled st then
        (if status_token_matches st s then Refuse (''arm execution failed: '' @ trajectory st) else Ignore)
      else if command_id st = None then Refuse ''arm execution status omitted command_id''
      else if status_epoch st = [] \<or> trajectory_token st = []
          \<or> \<not> valid_time (trajectory_received_at st) then
        Refuse ''arm execution status omitted executor epoch/token/source identity''
      else if trajectory_token st \<noteq> execution_publish_token s then
        (if trajectory st = ''active'' \<and> owner st = ''trajectory''
            \<and> status_epoch st = execution_publish_executor_epoch s
            \<and> minimum_trajectory_received_at s \<noteq> None
            \<and> the (minimum_trajectory_received_at s) \<le> the (trajectory_received_at st) + micro
            \<and> highwater_get (execution_command_highwater_snapshot s) (status_epoch st)
                < the (command_id st) then
           Refuse ''executor accepted an unexpected trajectory token''
         else Ignore)
      else if expected_command_id s = None
          \<and> (execution_publish_executor_epoch s = [] \<or> execution_publish_token s = []
             \<or> minimum_trajectory_received_at s = None) then
        Refuse ''arm execution publish fence is unavailable''
      else if expected_command_id s = None \<and> status_epoch st \<noteq> execution_publish_executor_epoch s then
        Refuse ''arm execution executor epoch changed after publish''
      else if expected_command_id s = None
          \<and> the (trajectory_received_at st) + micro < the (minimum_trajectory_received_at s) then Ignore
      else if expected_command_id s = None
          \<and> the (command_id st)
              \<le> highwater_get (execution_command_highwater_snapshot s) (status_epoch st) then Ignore
      else if owner st \<noteq> ''trajectory'' \<or> segment st \<noteq> execution_segment s then
        Refuse (''arm execution identity mismatch: owner='' @ py_repr (owner st) @
                '' segment='' @ py_repr (segment st))
      else if expected_command_id s = None then
        (if trajectory st \<noteq> ''active'' then Ignore else Bind)
      else if command_id st \<noteq> expected_command_id s \<or> status_epoch st \<noteq> expected_executor_epoch s
          \<or> \<not> opt_feq (trajectory_received_at st) (expected_trajectory_received_at s) then
        Refuse ''arm trajectory executor/source identity changed during execution''
      else Follow)"

definition arm_execution_update :: "ExecutionState \<Rightarrow> RuntimeSafetyCore \<Rightarrow> SafetyAction core_op" where
  "arm_execution_update st s =
     (case arm_status_verdict st s of
        Refuse why \<Rightarrow> fail_core why s
      | Ignore \<Rightarrow> quiet s
      | Bind \<Rightarrow> arm_bound_update st
                  (s\<lparr> expected_command_id := command_id st, expected_executor_epoch := status_epoch st,
                      expected_trajectory_received_at := trajectory_received_at st \<rparr>)
      | Follow \<Rightarrow> arm_bound_update st s)"

definition execution_update :: "ExecutionState \<Rightarrow> RuntimeSafetyCore \<Rightarrow> SafetyAction core_op" where
  "execution_update st s =
     (if phase s = PLACE_PLANNING \<and> place_contract_id s \<noteq> [] then
        place_planning_execution_update st s
      else if phase s = RELEASING \<and> place_contract_id s \<noteq> [] then place_release_update st s
      else if \<not> motion_phase (phase s) then quiet s
      else if execution_segment s = [] then quiet s
      else if is_place_segment (execution_segment s) then place_execution_update st s
      else arm_execution_update st s)"

section \<open>The placement transaction\<close>

definition place_request_sent ::
  "string \<Rightarrow> ExecutionState \<Rightarrow> RuntimeSafetyCore \<Rightarrow> unit core_op" where
  "place_request_sent contract_id st s =
     guard (phase s \<noteq> PLACE_GROUNDING) (while_error ''cannot request placement'' s) s
     (gbind (place_identity_token (Some contract_id) ''place contract ID'') s (\<lambda>contract.
      gbind (place_identity_token (Some (executor_epoch st)) ''executor epoch'') s (\<lambda>epoch.
      guard (trajectory st \<noteq> ''succeeded'' \<or> owner st \<noteq> ''trajectory'' \<or> segment st \<noteq> ''carry''
             \<or> trajectory_contract_id st \<noteq> ''none'' \<or> snapshot_incomplete st
             \<or> the (command_id st) < highwater_get (executor_command_highwater s) epoch)
        (ValueError ''place request lacks the completed carry executor high-water'') s
        (Inr (), (record_executor_command_highwater st
           (s\<lparr> place_contract_id := contract, place_executor_epoch := epoch,
               place_request_command_id := command_id st,
               place_request_received_at := trajectory_received_at st,
               place_request_gripper_command_id := gripper_command_id st,
               place_request_gripper_received_at := gripper_received_at st,
               place_approach_command_id := None, place_approach_received_at := None,
               place_approach_gripper_command_id := None,
               place_approach_gripper_received_at := None,
               place_release_gripper_command_id := None,
               place_release_gripper_received_at := None \<rparr>))
           \<lparr> phase := PLACE_PLANNING \<rparr>))))"

definition place_source_stamp_ns :: "pyfloat option \<Rightarrow> string \<Rightarrow> int res" where
  "place_source_stamp_ns v label =
     raise_if (\<not> valid_time v) (RuntimeError (label @ '' source high-water is invalid''))
     (let stamp_ns = py_round (the_fin (the v) * 1000000000) in
      raise_if (\<not> (0 \<le> stamp_ns \<and> stamp_ns < 2 ^ 63))
        (RuntimeError (label @ '' source high-water exceeds supported range'')) (Inr stamp_ns))"

text \<open>
  The comparison of one contract field with its frozen value: a frozen integer is matched only
  by a JSON integer, never by a boolean or a float of equal value.
\<close>

fun first_mismatch :: "(string \<times> json) list \<Rightarrow> (string \<times> json) list \<Rightarrow> string option" where
  "first_mismatch contract [] = None"
| "first_mismatch contract ((field, frozen) # rest) =
     (if jget contract field = Some frozen then first_mismatch contract rest else Some field)"

definition place_plan_expected :: "RuntimeSafetyCore \<Rightarrow> int \<Rightarrow> int \<Rightarrow> (string \<times> json) list" where
  "place_plan_expected s traj_ns grip_ns =
     [(''goal_id'', JStr (place_contract_id s)),
      (''trajectory_contract_id'', JStr (place_contract_id s)),
      (''executor_epoch'', JStr (place_executor_epoch s)),
      (''trajectory_command_highwater'', JInt (the (place_request_command_id s))),
      (''trajectory_source_highwater_ns'', JInt traj_ns),
      (''gripper_command_highwater'', JInt (the (place_request_gripper_command_id s))),
      (''gripper_source_highwater_ns'', JInt grip_ns)]"

definition place_plan_ready :: "(string \<times> json) list \<Rightarrow> RuntimeSafetyCore \<Rightarrow> unit core_op" where
  "place_plan_ready contract s =
     guard (phase s \<noteq> PLACE_PLANNING) (while_error ''cannot accept placement plan'' s) s
     (guard (place_contract_id s = [] \<or> place_executor_epoch s = []
             \<or> place_request_command_id s = None \<or> place_request_gripper_command_id s = None)
        (RuntimeError ''place execution transaction is not frozen'') s
     (gbind (place_source_stamp_ns (place_request_received_at s) ''trajectory'') s (\<lambda>traj_ns.
      gbind (place_source_stamp_ns (place_request_gripper_received_at s) ''gripper'') s (\<lambda>grip_ns.
      case first_mismatch contract (place_plan_expected s traj_ns grip_ns) of
        Some field \<Rightarrow>
          (Inl (ValueError (''placement plan executor snapshot mismatches '' @ field)), s)
      | None \<Rightarrow> (Inr (), s\<lparr> phase := PLACE_TRANSIT \<rparr>)))))"

definition release_complete :: "RuntimeSafetyCore \<Rightarrow> unit core_op" where
  "release_complete s =
     guard (phase s \<noteq> RELEASING) (while_error ''cannot finish release'' s) s
     (guard (place_approach_command_id s = None \<or> place_approach_received_at s = None
             \<or> place_release_gripper_command_id s = None \<or> place_release_gripper_received_at s = None)
        (RuntimeError ''cannot finish release without completed approach'') s
        (Inr (), s\<lparr> phase := PLACE_RETREAT \<rparr>))"

definition post_release_verification_complete :: "RuntimeSafetyCore \<Rightarrow> unit core_op" where
  "post_release_verification_complete s =
     guard (phase s \<noteq> POST_RELEASE_VERIFICATION)
       (while_error ''cannot finish post-release verification'' s) s
       (Inr (), s\<lparr> phase := COMPLETE \<rparr>)"

section \<open>Safety stops\<close>

definition perception_invalid :: "string \<Rightarrow> RuntimeSafetyCore \<Rightarrow> SafetyAction core_op" where
  "perception_invalid why s = (if \<not> active_phase (phase s) then quiet s else fail_core why s)"

definition posture_invalid :: "string \<Rightarrow> RuntimeSafetyCore \<Rightarrow> SafetyAction core_op" where
  "posture_invalid why s = (if \<not> core_active s then quiet s else fail_core why s)"

definition cancel_core :: "RuntimeSafetyCore \<Rightarrow> SafetyAction core_op" where
  "cancel_core s =
     (Inr \<lparr> stop_base = True, cancel_navigation = True, cancel_arm = True, action_reason = [] \<rparr>,
      (clear_execution_binding True
         (s\<lparr> phase := CANCELED, failure_reason := [], prospective_serial := None,
             required_replan_serial := None, planned_serial := None \<rparr>))
      \<lparr> minimum_trajectory_received_at := None,
        minimum_command_id := highest_command_id s + 1, carry_only := True \<rparr>)"

end
