(* ===== verification/Safety_Machine.thy ===== *)
theory Safety_Machine
  imports Safety_Core
begin

text \<open>
  The task machine as a whole: one event per method of \<open>RuntimeSafetyCore\<close>, the step they make,
  and what holds in every state a sequence of calls can reach. Sequences are arbitrary: the
  theorems quantify over every interleaving of planner, perception, executor and operator
  calls, accepted or refused.
\<close>

section \<open>Events\<close>

text \<open>One event per public method of the object, with the method's arguments.\<close>

datatype core_event =
    EvBegin string | EvPoseSettled | EvBeginVisualSearch | EvVisualSearchComplete | EvRestartGrounding
  | EvRequestReobservation int | EvStandoff int | EvCoarseReady | EvNearGrounded int | EvServoComplete
  | EvBeginReplan int | EvPlanReady | EvBeginApproachReplan int | EvApproachPlanReady
  | EvTrajectorySent string publish_args | EvStatus ExecutionState | EvCloseComplete
  | EvVerificationComplete bool | EvPlaceRequestSent string ExecutionState
  | EvPlacePlanReady "(string \<times> json) list" | EvReleaseComplete | EvPostReleaseVerified
  | EvPerceptionInvalid string | EvPostureInvalid string | EvCancel | EvFail string

text \<open>A method without a return value requests no actuator stop.\<close>

definition silent :: "unit core_op \<Rightarrow> SafetyAction core_op" where
  "silent r = obind r (\<lambda>_ t. (Inr no_action, t))"

lemma snd_silent [simp]: "snd (silent r) = snd r"
  by (cases r; cases "fst r") (auto simp: silent_def)

lemma silent_Inl_iff [simp]: "fst (silent r) = Inl e \<longleftrightarrow> fst r = Inl e"
  by (cases r; cases "fst r") (auto simp: silent_def)

fun core_apply :: "core_event \<Rightarrow> RuntimeSafetyCore \<Rightarrow> SafetyAction core_op" where
  "core_apply (EvBegin text) s = silent (begin_task text s)"
| "core_apply EvPoseSettled s = silent (mark_pose_settled s)"
| "core_apply EvBeginVisualSearch s = silent (begin_visual_search s)"
| "core_apply EvVisualSearchComplete s = silent (mark_visual_search_complete s)"
| "core_apply EvRestartGrounding s = silent (restart_grounding s)"
| "core_apply (EvRequestReobservation n) s = silent (request_reobservation n s)"
| "core_apply (EvStandoff n) s = silent (mark_standoff n s)"
| "core_apply EvCoarseReady s = silent (mark_coarse_ready s)"
| "core_apply (EvNearGrounded n) s = silent (mark_near_grounded n s)"
| "core_apply EvServoComplete s = silent (mark_servo_complete_for_reground s)"
| "core_apply (EvBeginReplan n) s = silent (begin_replan n s)"
| "core_apply EvPlanReady s = silent (plan_ready s)"
| "core_apply (EvBeginApproachReplan n) s = silent (begin_approach_replan n s)"
| "core_apply EvApproachPlanReady s = silent (approach_plan_ready s)"
| "core_apply (EvTrajectorySent seg a) s = silent (trajectory_sent seg a s)"
| "core_apply (EvStatus st) s = execution_update st s"
| "core_apply EvCloseComplete s = silent (close_complete s)"
| "core_apply (EvVerificationComplete b) s = silent (verification_complete b s)"
| "core_apply (EvPlaceRequestSent c st) s = silent (place_request_sent c st s)"
| "core_apply (EvPlacePlanReady c) s = silent (place_plan_ready c s)"
| "core_apply EvReleaseComplete s = silent (release_complete s)"
| "core_apply EvPostReleaseVerified s = silent (post_release_verification_complete s)"
| "core_apply (EvPerceptionInvalid r) s = perception_invalid r s"
| "core_apply (EvPostureInvalid r) s = posture_invalid r s"
| "core_apply EvCancel s = cancel_core s"
| "core_apply (EvFail r) s = fail_core r s"

definition core_step :: "RuntimeSafetyCore \<Rightarrow> core_event \<Rightarrow> RuntimeSafetyCore" where
  "core_step s e = snd (core_apply e s)"

definition core_run :: "core_event list \<Rightarrow> RuntimeSafetyCore" where
  "core_run es = foldl core_step core_init es"

lemma record_highwater_frame [simp]:
  "phase (record_executor_command_highwater st s) = phase s"
  "instruction (record_executor_command_highwater st s) = instruction s"
  "failure_reason (record_executor_command_highwater st s) = failure_reason s"
  "prospective_serial (record_executor_command_highwater st s) = prospective_serial s"
  "required_replan_serial (record_executor_command_highwater st s) = required_replan_serial s"
  "planned_serial (record_executor_command_highwater st s) = planned_serial s"
  "execution_segment (record_executor_command_highwater st s) = execution_segment s"
  "execution_seen_active (record_executor_command_highwater st s) = execution_seen_active s"
  "execution_command_highwater_snapshot (record_executor_command_highwater st s) = execution_command_highwater_snapshot s"
  "expected_command_id (record_executor_command_highwater st s) = expected_command_id s"
  "expected_executor_epoch (record_executor_command_highwater st s) = expected_executor_epoch s"
  "execution_publish_executor_epoch (record_executor_command_highwater st s) = execution_publish_executor_epoch s"
  "execution_publish_token (record_executor_command_highwater st s) = execution_publish_token s"
  "minimum_command_id (record_executor_command_highwater st s) = minimum_command_id s"
  "minimum_trajectory_received_at (record_executor_command_highwater st s) = minimum_trajectory_received_at s"
  "expected_trajectory_received_at (record_executor_command_highwater st s) = expected_trajectory_received_at s"
  "place_contract_id (record_executor_command_highwater st s) = place_contract_id s"
  "place_executor_epoch (record_executor_command_highwater st s) = place_executor_epoch s"
  "place_request_command_id (record_executor_command_highwater st s) = place_request_command_id s"
  "place_request_received_at (record_executor_command_highwater st s) = place_request_received_at s"
  "place_request_gripper_command_id (record_executor_command_highwater st s) = place_request_gripper_command_id s"
  "place_request_gripper_received_at (record_executor_command_highwater st s) = place_request_gripper_received_at s"
  "place_approach_command_id (record_executor_command_highwater st s) = place_approach_command_id s"
  "place_approach_received_at (record_executor_command_highwater st s) = place_approach_received_at s"
  "place_approach_gripper_command_id (record_executor_command_highwater st s) = place_approach_gripper_command_id s"
  "place_approach_gripper_received_at (record_executor_command_highwater st s) = place_approach_gripper_received_at s"
  "place_release_gripper_command_id (record_executor_command_highwater st s) = place_release_gripper_command_id s"
  "place_release_gripper_received_at (record_executor_command_highwater st s) = place_release_gripper_received_at s"
  "carry_only (record_executor_command_highwater st s) = carry_only s"
  by (simp_all add: record_executor_command_highwater_def Let_def split: sum.split)

section \<open>Outcomes of the operations\<close>

lemma prepare_place_trajectory_atomic: "atomic s (prepare_place_trajectory seg c x s)"
  unfolding prepare_place_trajectory_def by (intro atomic_intros)

lemma trajectory_sent_atomic: "atomic s (trajectory_sent seg a s)"
  unfolding trajectory_sent_def by (intro atomic_intros prepare_place_trajectory_atomic)

lemma place_request_sent_atomic: "atomic s (place_request_sent c st s)"
  unfolding place_request_sent_def by (intro atomic_intros)

lemma place_plan_ready_atomic: "atomic s (place_plan_ready c s)"
  unfolding place_plan_ready_def by (intro atomic_intros)

lemmas simple_op_defs =
  mark_pose_settled_def begin_visual_search_def mark_visual_search_complete_def
  request_reobservation_def mark_standoff_def mark_coarse_ready_def mark_near_grounded_def
  mark_servo_complete_for_reground_def begin_replan_def plan_ready_def begin_approach_replan_def
  approach_plan_ready_def close_complete_def verification_complete_def release_complete_def
  post_release_verification_complete_def

text \<open>A status that belongs to the trajectory this task published.\<close>

definition owned_status :: "ExecutionState \<Rightarrow> RuntimeSafetyCore \<Rightarrow> bool" where
  "owned_status st s \<longleftrightarrow>
     \<not> status_rejected st \<and> \<not> status_canceled st \<and> trajectory_token st = execution_publish_token s \<and>
     owner st = ''trajectory'' \<and> segment st = execution_segment s"

lemma place_verdict_Follow:
  "place_status_verdict st s = Follow \<Longrightarrow>
     owned_status st s \<and> executor_epoch st = place_executor_epoch s \<and>
     command_id st = expected_command_id s \<and> expected_command_id s \<noteq> None \<and>
     trajectory_received_at st = expected_trajectory_received_at s"
  by (auto simp: place_status_verdict_def owned_status_def split: if_splits dest: opt_feq_imp_eq)

lemma place_verdict_Bind:
  "place_status_verdict st s = Bind \<Longrightarrow>
     owned_status st s \<and> executor_epoch st = place_executor_epoch s \<and> trajectory st = ''active'' \<and>
     expected_command_id s = None \<and>
     (\<exists>cmd ra m. command_id st = Some cmd \<and> trajectory_received_at st = Some ra \<and>
        minimum_trajectory_received_at s = Some m \<and> minimum_command_id s \<le> cmd \<and> \<not> ra \<le> m)"
  by (auto simp: place_status_verdict_def owned_status_def split: if_splits)

lemma arm_verdict_Follow:
  "arm_status_verdict st s = Follow \<Longrightarrow>
     owned_status st s \<and> status_epoch st = expected_executor_epoch s \<and>
     command_id st = expected_command_id s \<and> expected_command_id s \<noteq> None \<and>
     trajectory_received_at st = expected_trajectory_received_at s"
  by (auto simp: arm_status_verdict_def owned_status_def split: if_splits dest: opt_feq_imp_eq)

lemma arm_verdict_Bind:
  "arm_status_verdict st s = Bind \<Longrightarrow>
     owned_status st s \<and> status_epoch st = execution_publish_executor_epoch s \<and>
     trajectory st = ''active'' \<and> expected_command_id s = None \<and>
     (\<exists>cmd ra m. command_id st = Some cmd \<and> trajectory_received_at st = Some ra \<and> valid_time (Some ra) \<and>
        minimum_trajectory_received_at s = Some m \<and> \<not> ra + micro < m \<and>
        highwater_get (execution_command_highwater_snapshot s) (status_epoch st) < cmd)"
  by (cases "trajectory_received_at st")
    (auto simp: arm_status_verdict_def owned_status_def split: if_splits)

text \<open>The phase a completed segment leads to.\<close>

definition after_motion :: "RuntimeSafetyCore \<Rightarrow> RuntimePhase" where
  "after_motion s =
     (case phase s of
        TRANSIT \<Rightarrow> PREGRASP_REOBSERVE | APPROACH \<Rightarrow> CLOSING | LIFT \<Rightarrow> VERIFY
      | PLACE_TRANSIT \<Rightarrow> PLACE_APPROACH | PLACE_APPROACH \<Rightarrow> RELEASING
      | PLACE_RETREAT \<Rightarrow> POST_RELEASE_VERIFICATION
      | _ \<Rightarrow> if carry_only s then PICK_COMPLETE else PLACE_GROUNDING)"

definition finish_motion :: "RuntimeSafetyCore \<Rightarrow> RuntimeSafetyCore" where
  "finish_motion s =
     (clear_execution_binding True
        (if phase s = PLACE_APPROACH
         then s\<lparr> place_approach_command_id := expected_command_id s,
                 place_approach_received_at := expected_trajectory_received_at s,
                 phase := RELEASING \<rparr>
         else s\<lparr> phase := after_motion s \<rparr>))
     \<lparr> minimum_trajectory_received_at := None \<rparr>"

lemma advance_execution_phase_ok:
  "expected_command_id s \<noteq> None \<Longrightarrow> expected_trajectory_received_at s \<noteq> None \<Longrightarrow>
   advance_execution_phase s = (Inr (), finish_motion s)"
  by (auto simp: advance_execution_phase_def finish_motion_def after_motion_def Let_def guard_def
      split: RuntimePhase.split)

lemma phase_finish_motion [simp]: "phase (finish_motion s) = after_motion s"
  by (simp add: finish_motion_def clear_execution_binding_def after_motion_def)

lemma place_bound_update_cases:
  assumes "expected_command_id s \<noteq> None" and "expected_trajectory_received_at s \<noteq> None"
  obtains
    (fail) why where
      "place_bound_update st s = fail_core why (record_executor_command_highwater st s)"
      "trajectory st \<noteq> ''active''"
  | (active) "trajectory st = ''active''"
      "place_bound_update st s =
         quiet ((record_executor_command_highwater st s)\<lparr> execution_seen_active := True \<rparr>)"
  | (finished) "trajectory st = ''succeeded''" "execution_seen_active s"
      "phase s = PLACE_APPROACH \<Longrightarrow> gripper_command_id st \<noteq> None \<and> gripper_received_at st \<noteq> None"
      "place_bound_update st s =
         quiet (finish_motion
           (if phase s = PLACE_APPROACH
            then (record_executor_command_highwater st s)
                   \<lparr> place_approach_gripper_command_id := gripper_command_id st,
                     place_approach_gripper_received_at := gripper_received_at st \<rparr>
            else record_executor_command_highwater st s))"
proof -
  let ?r = "record_executor_command_highwater st s"
  consider "trajectory st = ''active''" | "trajectory st = ''succeeded''"
    | "trajectory st \<noteq> ''active''" "trajectory st \<noteq> ''succeeded''" by blast
  then show thesis
  proof cases
    case 1
    then show ?thesis using active by (simp add: place_bound_update_def Let_def)
  next
    case 2
    show ?thesis
    proof (cases "execution_seen_active s \<and>
        (phase s = PLACE_APPROACH \<longrightarrow> gripper_command_id st \<noteq> None \<and> gripper_received_at st \<noteq> None)")
      case True
      have "place_bound_update st s =
         quiet (finish_motion
           (if phase s = PLACE_APPROACH
            then ?r\<lparr> place_approach_gripper_command_id := gripper_command_id st,
                     place_approach_gripper_received_at := gripper_received_at st \<rparr> else ?r))"
        using 2 True assms by (auto simp: place_bound_update_def Let_def advance_execution_phase_ok)
      then show ?thesis using 2 True finished by blast
    next
      case False
      then have "place_bound_update st s =
          fail_core (if \<not> execution_seen_active s then ''place execution succeeded before active status''
                     else ''place approach omitted gripper high-water identity'') ?r"
        using 2 by (auto simp: place_bound_update_def Let_def)
      then show ?thesis using 2 fail by simp
    qed
  next
    case 3
    then show ?thesis using fail by (simp add: place_bound_update_def Let_def)
  qed
qed

lemma arm_bound_update_cases:
  assumes "expected_command_id s \<noteq> None" and "expected_trajectory_received_at s \<noteq> None"
  obtains
    (active) "trajectory st = ''active''"
      "arm_bound_update st s =
         quiet (record_executor_command_highwater st (s\<lparr> execution_seen_active := True \<rparr>))"
  | (finished) "trajectory st = ''succeeded''" "execution_seen_active s"
      "arm_bound_update st s = quiet (finish_motion (record_executor_command_highwater st s))"
  | (waiting) "arm_bound_update st s = quiet s"
  using assms
  by (cases "trajectory st = ''active''"; cases "trajectory st = ''succeeded'' \<and> execution_seen_active s")
    (auto simp: arm_bound_update_def advance_execution_phase_ok)

text \<open>The fields that only a change of phase or a new task touches.\<close>

definition same_task :: "RuntimeSafetyCore \<Rightarrow> RuntimeSafetyCore \<Rightarrow> bool" where
  "same_task s t \<longleftrightarrow>
     phase t = phase s \<and> instruction t = instruction s \<and> failure_reason t = failure_reason s \<and>
     prospective_serial t = prospective_serial s \<and>
     required_replan_serial t = required_replan_serial s \<and> planned_serial t = planned_serial s \<and>
     execution_segment t = execution_segment s \<and>
     execution_publish_token t = execution_publish_token s \<and>
     place_contract_id t = place_contract_id s \<and> place_executor_epoch t = place_executor_epoch s \<and>
     place_request_command_id t = place_request_command_id s \<and>
     place_request_received_at t = place_request_received_at s \<and>
     place_request_gripper_command_id t = place_request_gripper_command_id s \<and>
     place_request_gripper_received_at t = place_request_gripper_received_at s \<and>
     place_approach_command_id t = place_approach_command_id s \<and>
     place_approach_received_at t = place_approach_received_at s \<and>
     place_approach_gripper_command_id t = place_approach_gripper_command_id s \<and>
     place_approach_gripper_received_at t = place_approach_gripper_received_at s \<and>
     place_release_gripper_command_id t = place_release_gripper_command_id s \<and>
     place_release_gripper_received_at t = place_release_gripper_received_at s \<and>
     carry_only t = carry_only s"

lemma same_task_refl [simp]: "same_task s s"
  by (simp add: same_task_def)

lemma same_task_record [simp]: "same_task s (record_executor_command_highwater st t) = same_task s t"
  by (simp add: same_task_def)

section \<open>Invariants\<close>

definition serial_inv :: "RuntimeSafetyCore \<Rightarrow> bool" where
  "serial_inv s \<longleftrightarrow>
     (phase s = VISUAL_SERVO \<longrightarrow> prospective_serial s \<noteq> None) \<and>
     (phase s \<in> {WAIT_FRESH_OBSERVATION, FINAL_GROUNDING} \<longrightarrow> required_replan_serial s \<noteq> None) \<and>
     (phase s \<in> {PLANNING, TRANSIT, PREGRASP_REOBSERVE, APPROACH_PLANNING} \<longrightarrow> planned_serial s \<noteq> None)"

definition binding_inv :: "RuntimeSafetyCore \<Rightarrow> bool" where
  "binding_inv s \<longleftrightarrow>
     (expected_command_id s = None \<longleftrightarrow> expected_trajectory_received_at s = None) \<and>
     (execution_seen_active s \<longrightarrow> expected_command_id s \<noteq> None) \<and>
     (execution_segment s \<noteq> [] \<longrightarrow> segment_phase (execution_segment s) = Some (phase s)) \<and>
     (execution_segment s = [] \<longrightarrow> expected_command_id s = None)"

lemma snd_quiet [simp]: "snd (quiet s) = s" and fst_quiet [simp]: "fst (quiet s) = Inr no_action"
  by (simp_all add: quiet_def)

lemma binding_inv_record [simp]:
  "binding_inv (record_executor_command_highwater st s) = binding_inv s"
  by (simp add: binding_inv_def)

lemma binding_inv_seen:
  "binding_inv s \<Longrightarrow> expected_command_id s \<noteq> None \<Longrightarrow> binding_inv (s\<lparr> execution_seen_active := True \<rparr>)"
  by (auto simp: binding_inv_def)

text \<open>What the executor's feedback can do in a motion phase.\<close>

definition finished_by :: "ExecutionState \<Rightarrow> RuntimeSafetyCore \<Rightarrow> RuntimeSafetyCore \<Rightarrow> bool" where
  "finished_by st s t \<longleftrightarrow>
     owned_status st s \<and> trajectory st = ''succeeded'' \<and> execution_seen_active s \<and>
     command_id st = expected_command_id s \<and> expected_command_id s \<noteq> None \<and>
     trajectory_received_at st = expected_trajectory_received_at s \<and>
     expected_trajectory_received_at s \<noteq> None \<and>
     (phase s = PLACE_APPROACH \<and> is_place_segment (execution_segment s) \<longrightarrow>
        gripper_command_id st \<noteq> None \<and> gripper_received_at st \<noteq> None) \<and>
     t = finish_motion
           (if phase s = PLACE_APPROACH \<and> is_place_segment (execution_segment s)
            then (record_executor_command_highwater st s)
                   \<lparr> place_approach_gripper_command_id := gripper_command_id st,
                     place_approach_gripper_received_at := gripper_received_at st \<rparr>
            else record_executor_command_highwater st s)"

lemma place_execution_update_cases:
  assumes inv: "binding_inv s" and seg: "execution_segment s \<noteq> []" "is_place_segment (execution_segment s)"
  obtains
    (fail) why t where "place_execution_update st s = fail_core why t" "same_task s t"
  | (keep) t where "place_execution_update st s = quiet t" "same_task s t" "binding_inv t"
  | (finished) t where "place_execution_update st s = quiet t" "finished_by st s t"
proof (cases "place_status_verdict st s")
  case Refuse
  then show ?thesis using fail by (simp add: place_execution_update_def)
next
  case Ignore
  then show ?thesis using keep inv by (simp add: place_execution_update_def)
next
  case Bind
  let ?b = "s\<lparr> expected_command_id := command_id st,
               expected_trajectory_received_at := trajectory_received_at st \<rparr>"
  note f = place_verdict_Bind [OF Bind]
  have e: "expected_command_id ?b \<noteq> None" "expected_trajectory_received_at ?b \<noteq> None"
    using f by auto
  have b: "same_task s ?b" "binding_inv ?b" "place_execution_update st s = place_bound_update st ?b"
    using f inv seg Bind by (auto simp: same_task_def binding_inv_def place_execution_update_def)
  show ?thesis
    by (rule place_bound_update_cases [OF e, of st])
      (use f b e in \<open>auto intro!: keep binding_inv_seen simp: same_task_def\<close>)
next
  case Follow
  note f = place_verdict_Follow [OF Follow]
  have e: "expected_command_id s \<noteq> None" "expected_trajectory_received_at s \<noteq> None"
    using f inv by (auto simp: binding_inv_def)
  have u: "place_execution_update st s = place_bound_update st s"
    using Follow by (simp add: place_execution_update_def)
  show ?thesis
  proof (rule place_bound_update_cases [OF e, of st])
    fix why
    assume "place_bound_update st s = fail_core why (record_executor_command_highwater st s)"
    then show thesis using u fail by (metis same_task_refl same_task_record)
  next
    let ?t = "(record_executor_command_highwater st s)\<lparr> execution_seen_active := True \<rparr>"
    assume "place_bound_update st s = quiet ?t"
    moreover have "same_task s ?t" "binding_inv ?t"
      using inv e by (auto simp: same_task_def intro!: binding_inv_seen)
    ultimately show thesis using u keep by simp
  next
    assume "trajectory st = ''succeeded''" "execution_seen_active s"
      and "phase s = PLACE_APPROACH \<Longrightarrow> gripper_command_id st \<noteq> None \<and> gripper_received_at st \<noteq> None"
      and r: "place_bound_update st s =
         quiet (finish_motion
           (if phase s = PLACE_APPROACH
            then (record_executor_command_highwater st s)
                   \<lparr> place_approach_gripper_command_id := gripper_command_id st,
                     place_approach_gripper_received_at := gripper_received_at st \<rparr>
            else record_executor_command_highwater st s))" (is "_ = quiet ?t")
    then have "finished_by st s ?t" using f e seg by (auto simp: finished_by_def)
    then show thesis using u r finished by simp
  qed
qed

lemma arm_execution_update_cases:
  assumes inv: "binding_inv s"
    and seg: "execution_segment s \<noteq> []" "\<not> is_place_segment (execution_segment s)"
  obtains
    (fail) why where "arm_execution_update st s = fail_core why s"
  | (keep) t where "arm_execution_update st s = quiet t" "same_task s t" "binding_inv t"
  | (finished) t where "arm_execution_update st s = quiet t" "finished_by st s t"
proof (cases "arm_status_verdict st s")
  case Refuse
  then show ?thesis using fail by (simp add: arm_execution_update_def)
next
  case Ignore
  then show ?thesis using keep inv by (simp add: arm_execution_update_def)
next
  case Bind
  let ?b = "s\<lparr> expected_command_id := command_id st, expected_executor_epoch := status_epoch st,
               expected_trajectory_received_at := trajectory_received_at st \<rparr>"
  note f = arm_verdict_Bind [OF Bind]
  have e: "expected_command_id ?b \<noteq> None" "expected_trajectory_received_at ?b \<noteq> None"
    using f by auto
  have b: "same_task s ?b" "binding_inv ?b" "arm_execution_update st s = arm_bound_update st ?b"
    using f inv seg Bind by (auto simp: same_task_def binding_inv_def arm_execution_update_def)
  show ?thesis
    by (rule arm_bound_update_cases [OF e, of st])
      (use f b e in \<open>auto intro!: keep binding_inv_seen simp: same_task_def\<close>)
next
  case Follow
  note f = arm_verdict_Follow [OF Follow]
  have e: "expected_command_id s \<noteq> None" "expected_trajectory_received_at s \<noteq> None"
    using f inv by (auto simp: binding_inv_def)
  have u: "arm_execution_update st s = arm_bound_update st s"
    using Follow by (simp add: arm_execution_update_def)
  show ?thesis
  proof (rule arm_bound_update_cases [OF e, of st])
    let ?t = "record_executor_command_highwater st (s\<lparr> execution_seen_active := True \<rparr>)"
    assume "arm_bound_update st s = quiet ?t"
    moreover have "same_task s ?t" "binding_inv ?t"
      using inv e by (auto simp: same_task_def intro!: binding_inv_seen)
    ultimately show thesis using u keep by simp
  next
    assume "trajectory st = ''succeeded''" "execution_seen_active s"
      and r: "arm_bound_update st s = quiet (finish_motion (record_executor_command_highwater st s))"
        (is "_ = quiet ?t")
    then have "finished_by st s ?t" using f e seg by (auto simp: finished_by_def)
    then show thesis using u r finished by simp
  next
    assume "arm_bound_update st s = quiet s"
    then show thesis using u keep inv by simp
  qed
qed

text \<open>The first gripper command measured after the approach, strictly newer than both.\<close>

definition released_by :: "ExecutionState \<Rightarrow> RuntimeSafetyCore \<Rightarrow> RuntimeSafetyCore \<Rightarrow> bool" where
  "released_by st s t \<longleftrightarrow>
     phase s = RELEASING \<and> place_release_gripper_command_id s = None \<and>
     (\<exists>app_at pre pre_at g g_at.
        place_approach_received_at s = Some app_at \<and> place_approach_gripper_command_id s = Some pre \<and>
        place_approach_gripper_received_at s = Some pre_at \<and>
        gripper_command_id st = Some g \<and> gripper_received_at st = Some g_at \<and>
        pre < g \<and> \<not> g_at \<le> pre_at \<and> \<not> g_at \<le> app_at \<and>
        t = s\<lparr> place_release_gripper_command_id := Some g,
               place_release_gripper_received_at := Some g_at \<rparr>)"

lemma release_verdict_Bind:
  "release_verdict st s = Bind \<Longrightarrow> phase s = RELEASING \<Longrightarrow>
   released_by st s (s\<lparr> place_release_gripper_command_id := gripper_command_id st,
                        place_release_gripper_received_at := gripper_received_at st \<rparr>)"
  by (auto simp: release_verdict_def released_by_def not_le split: if_splits)

lemma place_release_update_cases:
  assumes "phase s = RELEASING"
  obtains
    (fail) why where "place_release_update st s = fail_core why s"
  | (keep) "place_release_update st s = quiet s"
  | (released) t where "place_release_update st s = quiet t" "released_by st s t"
  using release_verdict_Bind [OF _ assms, of st]
  by (cases "release_verdict st s") (auto simp: place_release_update_def)

lemma execution_update_cases:
  assumes inv: "binding_inv s"
  obtains
    (fail) why t where "execution_update st s = fail_core why t" "same_task s t" "active_phase (phase s)"
  | (keep) t where "execution_update st s = quiet t" "same_task s t" "binding_inv t"
  | (finished) t where "execution_update st s = quiet t" "motion_phase (phase s)" "finished_by st s t"
  | (released) t where "execution_update st s = quiet t" "released_by st s t"
proof -
  consider (plan) "phase s = PLACE_PLANNING" "place_contract_id s \<noteq> []"
    | (rel) "phase s = RELEASING" "place_contract_id s \<noteq> []"
    | (idle) "execution_update st s = quiet s"
    | (place) "motion_phase (phase s)" "execution_segment s \<noteq> []" "is_place_segment (execution_segment s)"
        "execution_update st s = place_execution_update st s"
    | (arm) "motion_phase (phase s)" "execution_segment s \<noteq> []" "\<not> is_place_segment (execution_segment s)"
        "execution_update st s = arm_execution_update st s"
  proof -
    show thesis
      if "phase s = PLACE_PLANNING \<Longrightarrow> place_contract_id s \<noteq> [] \<Longrightarrow> thesis"
        "phase s = RELEASING \<Longrightarrow> place_contract_id s \<noteq> [] \<Longrightarrow> thesis"
        "execution_update st s = quiet s \<Longrightarrow> thesis"
        "motion_phase (phase s) \<Longrightarrow> execution_segment s \<noteq> [] \<Longrightarrow> is_place_segment (execution_segment s)
           \<Longrightarrow> execution_update st s = place_execution_update st s \<Longrightarrow> thesis"
        "motion_phase (phase s) \<Longrightarrow> execution_segment s \<noteq> [] \<Longrightarrow> \<not> is_place_segment (execution_segment s)
           \<Longrightarrow> execution_update st s = arm_execution_update st s \<Longrightarrow> thesis"
      for thesis
      using that execution_update_def [of st s] by (auto split: if_splits)
  qed
  then show thesis
  proof cases
    case plan
    then have "execution_update st s = place_planning_execution_update st s"
      by (simp add: execution_update_def)
    moreover have "(\<exists>why. place_planning_execution_update st s = fail_core why s) \<or>
        place_planning_execution_update st s = quiet s"
      by (simp add: place_planning_execution_update_def) blast
    ultimately show ?thesis using plan fail keep inv by (auto simp: active_phase_def)
  next
    case rel
    then have u: "execution_update st s = place_release_update st s" by (simp add: execution_update_def)
    show ?thesis
      by (rule place_release_update_cases [OF rel(1), of st])
        (use u rel fail keep released inv in \<open>auto simp: active_phase_def\<close>)
  next
    case idle
    then show ?thesis using keep inv by simp
  next
    case place
    then have a: "active_phase (phase s)" by (auto simp: motion_phase_def active_phase_def)
    show ?thesis
      by (rule place_execution_update_cases [OF inv place(2,3), of st])
        (use place a fail keep finished in auto)
  next
    case arm
    then have a: "active_phase (phase s)" by (auto simp: motion_phase_def active_phase_def)
    show ?thesis
      by (rule arm_execution_update_cases [OF inv arm(2,3), of st])
        (use arm a fail keep finished in auto)
  qed
qed

definition release_after_approach :: "RuntimeSafetyCore \<Rightarrow> bool" where
  "release_after_approach s \<longleftrightarrow>
     (\<exists>app_at pre pre_at g g_at.
        place_approach_received_at s = Some app_at \<and> place_approach_gripper_command_id s = Some pre \<and>
        place_approach_gripper_received_at s = Some pre_at \<and>
        place_release_gripper_command_id s = Some g \<and> place_release_gripper_received_at s = Some g_at \<and>
        pre < g \<and> \<not> g_at \<le> pre_at \<and> \<not> g_at \<le> app_at)"

definition request_frozen :: "RuntimeSafetyCore \<Rightarrow> bool" where
  "request_frozen s \<longleftrightarrow>
     place_contract_id s \<noteq> [] \<and> place_executor_epoch s \<noteq> [] \<and>
     positive_id (place_request_command_id s) \<and> valid_time (place_request_received_at s) \<and>
     positive_id (place_request_gripper_command_id s) \<and> valid_time (place_request_gripper_received_at s)"

definition approach_frozen :: "RuntimeSafetyCore \<Rightarrow> bool" where
  "approach_frozen s \<longleftrightarrow>
     place_approach_command_id s \<noteq> None \<and> place_approach_received_at s \<noteq> None \<and>
     place_approach_gripper_command_id s \<noteq> None \<and> place_approach_gripper_received_at s \<noteq> None"

definition place_inv :: "RuntimeSafetyCore \<Rightarrow> bool" where
  "place_inv s \<longleftrightarrow>
     (phase s \<in> {PLACE_PLANNING, PLACE_TRANSIT, PLACE_APPROACH, RELEASING, PLACE_RETREAT,
                 POST_RELEASE_VERIFICATION, COMPLETE} \<longrightarrow> request_frozen s) \<and>
     (phase s \<in> {PLACE_PLANNING, PLACE_TRANSIT, PLACE_APPROACH} \<longrightarrow>
        place_release_gripper_command_id s = None) \<and>
     (phase s = RELEASING \<longrightarrow> approach_frozen s \<and>
        (place_release_gripper_command_id s \<noteq> None \<longrightarrow> release_after_approach s)) \<and>
     (phase s \<in> {PLACE_RETREAT, POST_RELEASE_VERIFICATION, COMPLETE} \<longrightarrow>
        approach_frozen s \<and> release_after_approach s)"

definition command_inv :: "RuntimeSafetyCore \<Rightarrow> bool" where
  "command_inv s \<longleftrightarrow> 0 \<le> highest_command_id s \<and>
     (\<forall>e n. executor_command_highwater s e = Some n \<longrightarrow> 0 < n \<and> n \<le> highest_command_id s)"

definition core_inv :: "RuntimeSafetyCore \<Rightarrow> bool" where
  "core_inv s \<longleftrightarrow> serial_inv s \<and> binding_inv s \<and> place_inv s \<and> command_inv s"

lemmas part_inv_defs = serial_inv_def place_inv_def request_frozen_def approach_frozen_def
  release_after_approach_def

lemma core_inv_init: "core_inv core_init"
  by (simp add: core_inv_def part_inv_defs binding_inv_def command_inv_def core_init_def)

lemma command_inv_record: "command_inv s \<Longrightarrow> command_inv (record_executor_command_highwater st s)"
  by (force simp: command_inv_def record_executor_command_highwater_def positive_id_def highwater_get_def
      Let_def max_def split: sum.split option.split)

text \<open>The frame of a successful publication.\<close>

lemma prepare_place_trajectory_ok:
  assumes "prepare_place_trajectory seg c x s = (Inr u, t)"
  shows "same_task s t \<and> (command_inv s \<longrightarrow> command_inv t) \<and>
    (\<exists>st. t = (record_executor_command_highwater st s)
        \<lparr> minimum_command_id := minimum_command_id t,
          minimum_trajectory_received_at := minimum_trajectory_received_at t,
          expected_trajectory_received_at := None,
          place_highwater_trajectory := place_highwater_trajectory t,
          place_highwater_owner := place_highwater_owner t,
          place_highwater_segment := place_highwater_segment t,
          place_highwater_contract_id := place_highwater_contract_id t \<rparr>)"
proof -
  from assms obtain st where t: "t = (record_executor_command_highwater st s)
        \<lparr> minimum_command_id := the (command_id st) + 1,
          minimum_trajectory_received_at := trajectory_received_at st,
          expected_trajectory_received_at := None,
          place_highwater_trajectory := trajectory st,
          place_highwater_owner := owner st,
          place_highwater_segment := segment st,
          place_highwater_contract_id := trajectory_contract_id st \<rparr>"
    by (cases x) (auto simp: prepare_place_trajectory_def)
  show ?thesis
  proof (intro conjI impI exI)
    show "same_task s t" by (simp add: t same_task_def)
    show "command_inv t" if "command_inv s"
      using command_inv_record [OF that, of st] by (simp add: t command_inv_def)
  qed (simp add: t)
qed

lemma trajectory_sent_ok:
  assumes "trajectory_sent seg a s = (Inr u, t)"
  shows "segment_phase seg = Some (phase s) \<and>
    same_task (s\<lparr> execution_segment := seg, execution_publish_token := execution_publish_token t \<rparr>) t \<and>
    expected_command_id t = None \<and> expected_trajectory_received_at t = None \<and>
    \<not> execution_seen_active t \<and> (command_inv s \<longrightarrow> command_inv t)"
proof (cases "is_place_segment seg")
  case True
  with assms obtain p tok where "prepare_place_trajectory seg (pa_place_contract_id a) (pa_executor_state a) s = (Inr (), p)"
    and t: "t = (clear_execution_binding False (p\<lparr> execution_segment := seg \<rparr>))
                \<lparr> execution_publish_token := tok \<rparr>" and ph: "segment_phase seg = Some (phase s)"
    by (auto simp: trajectory_sent_def)
  from prepare_place_trajectory_ok [OF this(1)] show ?thesis
    using ph by (auto simp: t clear_execution_binding_def same_task_def command_inv_def)
next
  case False
  with assms show ?thesis
    by (auto simp: trajectory_sent_def clear_execution_binding_def same_task_def command_inv_def)
qed

lemma segment_phase_nonempty: "segment_phase seg = Some p \<Longrightarrow> seg \<noteq> [] \<and> motion_phase p"
  by (auto simp: segment_phase_def motion_phase_def split: if_splits)

lemma binding_inv_trajectory_sent:
  "trajectory_sent seg a s = (Inr u, t) \<Longrightarrow> binding_inv t"
  using trajectory_sent_ok [of seg a s u t] segment_phase_nonempty [of seg]
  by (auto simp: binding_inv_def same_task_def)

lemma place_segment_of_phase:
  "segment_phase seg = Some p \<Longrightarrow>
   is_place_segment seg = (p \<in> {PLACE_TRANSIT, PLACE_APPROACH, PLACE_RETREAT})"
  by (auto simp: segment_phase_def is_place_segment_def split: if_splits)

text \<open>In a phase without a segment of its own, nothing is bound.\<close>

lemma unbound_phase:
  "binding_inv s \<Longrightarrow> \<not> motion_phase (phase s) \<Longrightarrow>
   execution_segment s = [] \<and> expected_command_id s = None \<and>
   expected_trajectory_received_at s = None \<and> \<not> execution_seen_active s"
  using segment_phase_nonempty [of "execution_segment s" "phase s"] by (auto simp: binding_inv_def)

lemma place_request_sent_ok:
  assumes "place_request_sent c st s = (Inr u, t)"
  shows "phase s = PLACE_GROUNDING \<and> phase t = PLACE_PLANNING \<and> request_frozen t \<and>
    place_release_gripper_command_id t = None \<and> expected_command_id t = expected_command_id s \<and>
    expected_trajectory_received_at t = expected_trajectory_received_at s \<and>
    execution_seen_active t = execution_seen_active s \<and> execution_segment t = execution_segment s \<and>
    (command_inv s \<longrightarrow> command_inv t)"
proof -
  let ?s = "s\<lparr> place_contract_id := c, place_executor_epoch := executor_epoch st,
               place_request_command_id := command_id st,
               place_request_received_at := trajectory_received_at st,
               place_request_gripper_command_id := gripper_command_id st,
               place_request_gripper_received_at := gripper_received_at st,
               place_approach_command_id := None, place_approach_received_at := None,
               place_approach_gripper_command_id := None,
               place_approach_gripper_received_at := None,
               place_release_gripper_command_id := None,
               place_release_gripper_received_at := None \<rparr>"
  have tok: "place_identity_token (Some v) l = Inr y \<Longrightarrow> y = v \<and> v \<noteq> []" for v l y
    by (auto simp: place_identity_token_def Let_def)
  from assms have t: "t = (record_executor_command_highwater st ?s)\<lparr> phase := PLACE_PLANNING \<rparr>"
    and c: "phase s = PLACE_GROUNDING" "\<not> snapshot_incomplete st" "c \<noteq> []" "executor_epoch st \<noteq> []"
    by (auto simp: place_request_sent_def dest: tok)
  have "command_inv s \<Longrightarrow> command_inv t"
    using command_inv_record [of ?s st] by (simp add: t command_inv_def)
  with c show ?thesis by (auto simp: t request_frozen_def snapshot_incomplete_def)
qed

section \<open>The invariant is kept\<close>

lemma core_inv_fail: "same_task s t \<Longrightarrow> command_inv t \<Longrightarrow> core_inv (snd (fail_core why t))"
  by (simp add: core_inv_def part_inv_defs binding_inv_def command_inv_def fail_core_def Let_def clear_execution_binding_def)

lemma command_inv_frame: "command_inv s \<Longrightarrow> highest_command_id t = highest_command_id s \<Longrightarrow> executor_command_highwater t = executor_command_highwater s \<Longrightarrow> command_inv t"
  by (simp add: command_inv_def)

lemma finished_by_inv:
  assumes fb: "finished_by st s t" and inv: "core_inv s" and mp: "motion_phase (phase s)"
  shows "core_inv t"
proof -
  have b: "binding_inv s" and sg: "execution_segment s \<noteq> []" 
    using inv fb by (auto simp: core_inv_def finished_by_def binding_inv_def)
  then have pl: "is_place_segment (execution_segment s) = (phase s \<in> {PLACE_TRANSIT, PLACE_APPROACH, PLACE_RETREAT})"
    by (intro place_segment_of_phase) (simp add: binding_inv_def)
  have "command_inv (record_executor_command_highwater st s)"
    using inv command_inv_record by (simp add: core_inv_def)
  then have cm: "command_inv t"
    using fb by (auto simp: finished_by_def finish_motion_def clear_execution_binding_def command_inv_def split: if_splits)
  have bt: "binding_inv t"
    using fb by (auto simp: finished_by_def finish_motion_def clear_execution_binding_def binding_inv_def)
  have "serial_inv t \<and> place_inv t"
  proof (cases "phase s")
    case PLACE_APPROACH
    with fb inv pl show ?thesis
      by (simp add: finished_by_def finish_motion_def clear_execution_binding_def core_inv_def part_inv_defs after_motion_def)
  next
    case PLACE_RETREAT
    with fb inv pl show ?thesis
      by (simp add: finished_by_def finish_motion_def clear_execution_binding_def core_inv_def part_inv_defs after_motion_def) 
  qed (use mp fb inv pl in \<open>simp_all add: finished_by_def finish_motion_def clear_execution_binding_def core_inv_def part_inv_defs after_motion_def motion_phase_def\<close>)
  with cm bt show ?thesis by (simp add: core_inv_def)
qed

lemma same_task_serial: "same_task s t \<Longrightarrow> serial_inv s \<Longrightarrow> serial_inv t"
  by (simp add: serial_inv_def same_task_def)

lemma same_task_place: "same_task s t \<Longrightarrow> place_inv s \<Longrightarrow> place_inv t"
  by (simp add: part_inv_defs same_task_def)

lemma same_task_inv:
  "same_task s t \<Longrightarrow> binding_inv t \<Longrightarrow> command_inv t \<Longrightarrow> core_inv s \<Longrightarrow> core_inv t"
  using same_task_serial same_task_place by (simp add: core_inv_def)

lemma released_by_inv:
  assumes rb: "released_by st s t" and inv: "core_inv s"
  shows "core_inv t"
proof -
  from rb obtain g g_at where ph: "phase s = RELEASING"
    and t: "t = s\<lparr> place_release_gripper_command_id := Some g,
                   place_release_gripper_received_at := Some g_at \<rparr>"
    and ra: "release_after_approach t"
    by (auto simp: released_by_def release_after_approach_def)
  have "serial_inv t" "command_inv t"
    using inv by (simp_all add: t core_inv_def serial_inv_def command_inv_def)
  moreover have "binding_inv t"
    using inv by (auto simp: t core_inv_def binding_inv_def)
  moreover have "place_inv t"
    using inv ph ra by (simp add: t core_inv_def place_inv_def request_frozen_def approach_frozen_def)
  ultimately show ?thesis by (simp add: core_inv_def)
qed

lemma command_inv_bound:
  "command_inv s \<Longrightarrow> command_inv (s\<lparr> expected_command_id := a, expected_trajectory_received_at := b \<rparr>)"
  "command_inv s \<Longrightarrow> command_inv (s\<lparr> expected_command_id := a, expected_executor_epoch := c, expected_trajectory_received_at := b \<rparr>)"
  "command_inv s \<Longrightarrow> command_inv (s\<lparr> execution_seen_active := d \<rparr>)"
  "command_inv s \<Longrightarrow> command_inv (s\<lparr> place_approach_gripper_command_id := i, place_approach_gripper_received_at := j \<rparr>)"
  "command_inv s \<Longrightarrow> command_inv (s\<lparr> place_release_gripper_command_id := i, place_release_gripper_received_at := j \<rparr>)"
  "command_inv (finish_motion s) = command_inv s"
  "command_inv (snd (fail_core why s)) = command_inv s"
  by (auto simp: command_inv_def finish_motion_def clear_execution_binding_def fail_core_def Let_def)

lemma advance_command_inv: "command_inv s \<Longrightarrow> command_inv (snd (advance_execution_phase s))"
  by (simp add: advance_execution_phase_def Let_def guard_def command_inv_def clear_execution_binding_def)

lemma obind_quiet [simp]: "snd (obind r (\<lambda>_. quiet)) = snd r"
  by (cases r; cases "fst r") auto

lemma execution_update_command_inv:
  assumes "command_inv s" shows "command_inv (snd (execution_update st s))"
proof -
  have p: "command_inv u \<Longrightarrow> command_inv (snd (place_bound_update st u))" for u
    by (simp add: place_bound_update_def Let_def command_inv_bound command_inv_record advance_command_inv)
  have a: "command_inv u \<Longrightarrow> command_inv (snd (arm_bound_update st u))" for u
    by (simp add: arm_bound_update_def command_inv_bound command_inv_record advance_command_inv)
  show ?thesis using assms 
   by (simp add: execution_update_def place_planning_execution_update_def place_release_update_def place_execution_update_def arm_execution_update_def p a command_inv_bound split: verdict.split)
qed


text \<open>A change of phase outside the motion phases, with the serials it writes.\<close>

lemma rephase_inv:
  assumes inv: "core_inv s" and nm: "\<not> motion_phase (phase s)"
    and se: "serial_inv t" and pl: "place_inv t"
    and fr: "execution_segment t = execution_segment s" "expected_command_id t = expected_command_id s"
      "expected_trajectory_received_at t = expected_trajectory_received_at s"
      "execution_seen_active t = execution_seen_active s"
      "highest_command_id t = highest_command_id s"
      "executor_command_highwater t = executor_command_highwater s"
  shows "core_inv t"
proof -
  have b: "binding_inv s" and c: "command_inv s" using inv by (simp_all add: core_inv_def)
  from unbound_phase [OF b nm] fr have "binding_inv t" by (simp add: binding_inv_def)
  moreover from c fr have "command_inv t" by (simp add: command_inv_def)
  ultimately show ?thesis using se pl by (simp add: core_inv_def)
qed

lemma begin_task_inv: "core_inv s \<Longrightarrow> core_inv (snd (begin_task text s))"
  by (simp add: begin_task_def Let_def guard_def core_inv_def part_inv_defs binding_inv_def command_inv_def
      core_init_def)

lemma fail_core_inv: "core_inv s \<Longrightarrow> core_inv (snd (fail_core why s))"
  by (simp add: core_inv_def part_inv_defs binding_inv_def command_inv_def fail_core_def Let_def
      clear_execution_binding_def)

lemma cancel_core_inv: "core_inv s \<Longrightarrow> core_inv (snd (cancel_core s))"
  by (simp add: core_inv_def part_inv_defs binding_inv_def command_inv_def cancel_core_def
      clear_execution_binding_def)

lemma execution_update_inv:
  assumes inv: "core_inv s"
  shows "core_inv (snd (execution_update st s))"
proof -
  have b: "binding_inv s" and c: "command_inv (snd (execution_update st s))"
    using inv execution_update_command_inv by (auto simp: core_inv_def)
  show ?thesis
  proof (rule execution_update_cases [OF b, of st])
    fix why t assume "execution_update st s = fail_core why t" "same_task s t"
    with c show ?thesis by (auto simp: command_inv_bound intro: core_inv_fail)
  next
    fix t assume "execution_update st s = quiet t" "same_task s t" "binding_inv t"
    with c inv show ?thesis by (auto intro: same_task_inv)
  next
    fix t assume "execution_update st s = quiet t" "motion_phase (phase s)" "finished_by st s t"
    with inv show ?thesis by (auto intro: finished_by_inv)
  next
    fix t assume "execution_update st s = quiet t" "released_by st s t"
    with inv show ?thesis by (auto intro: released_by_inv)
  qed
qed

lemma trajectory_sent_inv:
  assumes "core_inv s" shows "core_inv (snd (trajectory_sent seg a s))"
proof (rule atomic_cases [OF trajectory_sent_atomic [of s seg a]])
  fix u t assume ok: "trajectory_sent seg a s = (Inr u, t)"
  let ?s = "s\<lparr> execution_segment := seg, execution_publish_token := execution_publish_token t \<rparr>"
  note f = trajectory_sent_ok [OF ok]
  have "serial_inv ?s" "place_inv ?s" using assms by (simp_all add: core_inv_def part_inv_defs)
  then have "serial_inv t" "place_inv t" using f same_task_serial same_task_place by blast+
  then have "core_inv t"
    using f binding_inv_trajectory_sent [OF ok] assms by (simp add: core_inv_def)
  with ok show ?thesis by simp
qed (use assms in simp)

lemma place_request_sent_inv:
  assumes "core_inv s" shows "core_inv (snd (place_request_sent c st s))"
proof (rule atomic_cases [OF place_request_sent_atomic [of s c st]])
  fix u t assume ok: "place_request_sent c st s = (Inr u, t)"
  note f = place_request_sent_ok [OF ok]
  have b: "binding_inv s" and c: "command_inv s" using assms by (simp_all add: core_inv_def)
  have nm: "\<not> motion_phase (phase s)" using f by (simp add: motion_phase_def)
  have "binding_inv t" using f unbound_phase [OF b nm] by (simp add: binding_inv_def)
  moreover have "serial_inv t" "place_inv t" using f by (simp_all add: serial_inv_def place_inv_def)
  ultimately have "core_inv t" using f c by (simp add: core_inv_def)
  with ok show ?thesis by simp
qed (use assms in simp)

lemma place_plan_ready_inv:
  assumes "core_inv s" shows "core_inv (snd (place_plan_ready c s))"
proof (rule atomic_cases [OF place_plan_ready_atomic [of s c]])
  fix u t assume ok: "place_plan_ready c s = (Inr u, t)"
  then have t: "t = s\<lparr> phase := PLACE_TRANSIT \<rparr>" and ph: "phase s = PLACE_PLANNING"
    by (auto simp: place_plan_ready_def split: option.splits)
  have "core_inv t"
    by (rule rephase_inv [OF assms])
      (use assms ph in \<open>simp_all add: t motion_phase_def core_inv_def serial_inv_def place_inv_def request_frozen_def\<close>)
  with ok show ?thesis by simp
qed (use assms in simp)

lemma request_reobservation_inv:
  assumes "core_inv s" shows "core_inv (snd (request_reobservation n s))"
  using assms by (simp add: request_reobservation_def guard_def core_inv_def part_inv_defs binding_inv_def
     command_inv_def clear_execution_binding_def)

lemma core_inv_guard:
  "core_inv s \<Longrightarrow> (\<not> bad \<Longrightarrow> core_inv (snd k)) \<Longrightarrow> core_inv (snd (guard bad e s k))"
  by (simp add: guard_def)

lemma place_inv_outside:
  "phase t \<notin> {PLACE_PLANNING, PLACE_TRANSIT, PLACE_APPROACH, RELEASING, PLACE_RETREAT,
               POST_RELEASE_VERIFICATION, COMPLETE} \<Longrightarrow> place_inv t"
  by (simp add: place_inv_def)

lemma grounding_op_inv:
  assumes inv: "core_inv s"
  shows "core_inv (snd (mark_pose_settled s))" and "core_inv (snd (begin_visual_search s))"
    and "core_inv (snd (mark_visual_search_complete s))" and "core_inv (snd (mark_standoff n s))"
    and "core_inv (snd (mark_coarse_ready s))" and "core_inv (snd (mark_near_grounded n s))"
    and "core_inv (snd (mark_servo_complete_for_reground s))"
  unfolding simple_op_defs
  by (rule core_inv_guard [OF inv], (rule core_inv_guard [OF inv])?, rule snd_conv [THEN ssubst],
      rule rephase_inv [OF inv]; auto simp: motion_phase_def serial_inv_def intro!: place_inv_outside)+

lemma planning_op_inv:
  assumes inv: "core_inv s"
  shows "core_inv (snd (plan_ready s))" and "core_inv (snd (begin_approach_replan n s))"
    and "core_inv (snd (approach_plan_ready s))" and "core_inv (snd (close_complete s))"
    and "core_inv (snd (verification_complete b s))"
proof -
  have "serial_inv s" using inv by (simp add: core_inv_def)
  then show "core_inv (snd (plan_ready s))" and "core_inv (snd (begin_approach_replan n s))"
    and "core_inv (snd (approach_plan_ready s))" and "core_inv (snd (close_complete s))"
    and "core_inv (snd (verification_complete b s))"
  unfolding simple_op_defs
  by - (rule core_inv_guard [OF inv], (rule core_inv_guard [OF inv])?, rule snd_conv [THEN ssubst],
      rule rephase_inv [OF inv]; auto simp: motion_phase_def serial_inv_def intro!: place_inv_outside)+
qed

lemma begin_replan_inv:
  assumes inv: "core_inv s" shows "core_inv (snd (begin_replan n s))"
proof (cases "required_replan_serial s")
  case None
  then show ?thesis using inv by (simp add: begin_replan_def guard_def)
next
  case (Some r)
  have "core_inv (s\<lparr> planned_serial := Some n, phase := PLANNING \<rparr>)" 
    if "phase s \<in> {WAIT_FRESH_OBSERVATION, FINAL_GROUNDING}"
    by (rule rephase_inv [OF inv]) (use that in \<open>auto simp: motion_phase_def serial_inv_def intro!: place_inv_outside\<close>)
  then show ?thesis using Some inv by (simp add: begin_replan_def guard_def)
qed

lemma release_op_inv:
  assumes inv: "core_inv s"
  shows "core_inv (snd (release_complete s))" and "core_inv (snd (post_release_verification_complete s))"
proof -
  have p: "place_inv s" using inv by (simp add: core_inv_def)
  have "core_inv (s\<lparr> phase := PLACE_RETREAT \<rparr>)" if "phase s = RELEASING" "place_release_gripper_command_id s \<noteq> None"
    by (rule rephase_inv [OF inv]) (use p that in \<open>simp_all add: motion_phase_def serial_inv_def part_inv_defs\<close>)
  then show "core_inv (snd (release_complete s))" using inv by (simp add: release_complete_def guard_def)
  have "core_inv (s\<lparr> phase := COMPLETE \<rparr>)" if "phase s = POST_RELEASE_VERIFICATION"
    by (rule rephase_inv [OF inv]) (use p that in \<open>simp_all add: motion_phase_def serial_inv_def part_inv_defs\<close>)
  then show "core_inv (snd (post_release_verification_complete s))" using inv by (simp add: post_release_verification_complete_def guard_def)
qed

lemma core_inv_step: "core_inv s \<Longrightarrow> core_inv (core_step s e)"
  by (cases e) (simp_all add: core_step_def begin_task_inv grounding_op_inv planning_op_inv begin_replan_inv
      release_op_inv request_reobservation_inv trajectory_sent_inv execution_update_inv
      place_request_sent_inv place_plan_ready_inv restart_grounding_def core_inv_guard
      perception_invalid_def posture_invalid_def fail_core_inv cancel_core_inv)

interpretation core: invariant_machine core_step core_inv
  by unfold_locales (rule core_inv_step)

lemma core_run_inv: "core_inv (core_run es)"
  unfolding core_run_def by (rule core.run_inv) (rule core_inv_init)

end
