(* ===== verification/Safety_Laws.thy ===== *)
theory Safety_Laws
  imports Safety_Machine "HOL-Library.Sublist"
begin

text \<open>
  The laws of the task machine over arbitrary call sequences: what an exception leaves behind,
  what a stop requests, which phase can follow which, that command high-water marks never go
  back, and that a finished task stays finished. The last section holds a complete
  pick-and-place run, on which the hypotheses of the theorems are evaluated.
\<close>

section \<open>Exceptions\<close>

lemma place_identity_token_Inl: "place_identity_token v l = Inl x \<Longrightarrow> x \<noteq> AssertionError"
  by (auto simp: place_identity_token_def Let_def raise_if_def split: option.splits if_splits)

lemma place_source_stamp_ns_Inl: "place_source_stamp_ns v l = Inl x \<Longrightarrow> x \<noteq> AssertionError"
  by (auto simp: place_source_stamp_ns_def Let_def raise_if_def split: if_splits)

text \<open>An operation that returns, or raises a documented error and changes nothing.\<close>

definition clean :: "RuntimeSafetyCore \<Rightarrow> 'a core_op \<Rightarrow> bool" where
  "clean s r \<longleftrightarrow> (\<forall>x. fst r = Inl x \<longrightarrow> snd r = s \<and> x \<noteq> AssertionError)"

lemma clean_Inr [simp]: "clean s (Inr v, t)" by (simp add: clean_def)
lemma clean_Inl [simp]: "clean s (Inl x, t) \<longleftrightarrow> t = s \<and> x \<noteq> AssertionError" by (auto simp: clean_def)
lemma clean_guard: "x \<noteq> AssertionError \<Longrightarrow> (\<not> bad \<Longrightarrow> clean s k) \<Longrightarrow> clean s (guard bad x s k)"
  by (simp add: guard_def)
lemma clean_gbind:
  "(\<And>x. r = Inl x \<Longrightarrow> x \<noteq> AssertionError) \<Longrightarrow> (\<And>v. r = Inr v \<Longrightarrow> clean s (k v)) \<Longrightarrow> clean s (gbind r s k)"
  by (cases r) simp_all
lemma clean_obind:
  "clean s r \<Longrightarrow> (\<And>v t. r = (Inr v, t) \<Longrightarrow> clean s (k v t)) \<Longrightarrow> clean s (obind r k)"
  by (cases r; cases "fst r") (auto simp: clean_def)
lemma while_error_ne [simp]: "while_error w s \<noteq> AssertionError" by (simp add: while_error_def)
lemma clean_silent [simp]: "clean s (silent r) = clean s r"
  by (simp add: clean_def)

lemma clean_case_option:
  "(x = None \<Longrightarrow> clean s a) \<Longrightarrow> (\<And>v. x = Some v \<Longrightarrow> clean s (f v)) \<Longrightarrow>
   clean s (case x of None \<Rightarrow> a | Some v \<Rightarrow> f v)"
  by (cases x) simp_all

lemma clean_if: "(b \<Longrightarrow> clean s x) \<Longrightarrow> (\<not> b \<Longrightarrow> clean s y) \<Longrightarrow> clean s (if b then x else y)"
  by simp

lemma clean_Inl_intro: "x \<noteq> AssertionError \<Longrightarrow> clean s (Inl x, s)" by simp

lemmas clean_intros = clean_guard clean_gbind clean_obind clean_case_option clean_if clean_Inr clean_Inl_intro
  exn.simps while_error_ne

lemma prepare_place_trajectory_clean: "clean s (prepare_place_trajectory seg c x s)"
  unfolding prepare_place_trajectory_def
  by (intro clean_intros) (erule place_identity_token_Inl)+

lemma trajectory_sent_clean: "clean s (trajectory_sent seg a s)"
  unfolding trajectory_sent_def
  by (intro clean_intros prepare_place_trajectory_clean) (erule place_identity_token_Inl)+

lemma place_request_sent_clean: "clean s (place_request_sent c st s)"
  unfolding place_request_sent_def
  by (intro clean_intros) (erule place_identity_token_Inl)+

lemma place_plan_ready_clean: "clean s (place_plan_ready c s)"
  unfolding place_plan_ready_def
  by (intro clean_intros) (erule place_source_stamp_ns_Inl)+

lemma fail_core_clean [simp]: "clean s (fail_core w t)"
  by (simp add: fail_core_def Let_def)

lemma execution_update_clean:
  assumes "binding_inv s" shows "clean s (execution_update st s)"
  by (rule execution_update_cases [OF assms, of st]) (simp_all add: quiet_def)

lemma core_apply_clean:
  assumes "core_inv s" shows "clean s (core_apply e s)"
proof -
  have si: "serial_inv s" and bi: "binding_inv s" using assms by (simp_all add: core_inv_def)
  have b: "clean s (begin_task txt0 s)" for txt0
    by (simp add: begin_task_def guard_def Let_def)
  show ?thesis
    using si
    by (cases e; cases "required_replan_serial s"; cases "prospective_serial s")
      (simp_all add: trajectory_sent_clean place_request_sent_clean place_plan_ready_clean b
        execution_update_clean [OF bi] simple_op_defs restart_grounding_def perception_invalid_def
        posture_invalid_def cancel_core_def quiet_def guard_def serial_inv_def)
qed

section \<open>Stops\<close>

lemma phase_fail_core [simp]: "phase (snd (fail_core w s)) = FAILED"
  by (simp add: fail_core_def Let_def clear_execution_binding_def)

definition stopped_cleanly :: "SafetyAction \<Rightarrow> RuntimeSafetyCore \<Rightarrow> bool" where
  "stopped_cleanly a t \<longleftrightarrow>
     stop_base a \<and> cancel_navigation a \<and> cancel_arm a \<and> phase t \<in> {FAILED, CANCELED} \<and>
     execution_segment t = [] \<and> expected_command_id t = None \<and> \<not> execution_seen_active t \<and>
     execution_publish_token t = []"

lemma fail_core_stops: "fail_core w s = (Inr a, t) \<Longrightarrow> stopped_cleanly a t"
  by (auto simp: fail_core_def Let_def clear_execution_binding_def stopped_cleanly_def)

lemma cancel_core_stops: "cancel_core s = (Inr a, t) \<Longrightarrow> stopped_cleanly a t"
  by (auto simp: cancel_core_def clear_execution_binding_def stopped_cleanly_def)

section \<open>The phase graph\<close>

text \<open>Phases reached by one kind of call only, with the phase it leaves.\<close>

fun entered_from :: "RuntimePhase \<Rightarrow> RuntimePhase set" where
  "entered_from POSE_SETTLE = UNIV"
| "entered_from FAILED = UNIV"
| "entered_from CANCELED = UNIV"
| "entered_from IDLE = {}"
| "entered_from VISUAL_SEARCH = {POSE_SETTLE}"
| "entered_from GROUNDING = {POSE_SETTLE}"
| "entered_from STANDOFF = {}"
| "entered_from COARSE_NAV = {GROUNDING, STANDOFF}"
| "entered_from NEAR_GROUNDING = {COARSE_NAV}"
| "entered_from VISUAL_SERVO = {NEAR_GROUNDING}"
| "entered_from FINAL_GROUNDING = {VISUAL_SERVO}"
| "entered_from WAIT_FRESH_OBSERVATION = {PLANNING, PREGRASP_REOBSERVE, APPROACH_PLANNING, FINAL_GROUNDING}"
| "entered_from PLANNING = {WAIT_FRESH_OBSERVATION, FINAL_GROUNDING}"
| "entered_from TRANSIT = {PLANNING}"
| "entered_from PREGRASP_REOBSERVE = {TRANSIT}"
| "entered_from APPROACH_PLANNING = {PREGRASP_REOBSERVE}"
| "entered_from APPROACH = {APPROACH_PLANNING}"
| "entered_from CLOSING = {APPROACH}"
| "entered_from LIFT = {CLOSING}"
| "entered_from VERIFY = {LIFT}"
| "entered_from CARRY = {VERIFY}"
| "entered_from PICK_COMPLETE = {CARRY}"
| "entered_from PLACE_GROUNDING = {CARRY}"
| "entered_from PLACE_PLANNING = {PLACE_GROUNDING}"
| "entered_from PLACE_TRANSIT = {PLACE_PLANNING}"
| "entered_from PLACE_APPROACH = {PLACE_TRANSIT}"
| "entered_from RELEASING = {PLACE_APPROACH}"
| "entered_from PLACE_RETREAT = {RELEASING}"
| "entered_from POST_RELEASE_VERIFICATION = {PLACE_RETREAT}"
| "entered_from COMPLETE = {POST_RELEASE_VERIFICATION}"

definition edge :: "RuntimePhase \<Rightarrow> RuntimePhase \<Rightarrow> bool" where
  "edge p q \<longleftrightarrow> p = q \<or> p \<in> entered_from q"

lemma edge_refl [simp]: "edge p p" by (simp add: edge_def)

lemma edge_guard: "(\<not> bad \<Longrightarrow> edge (phase s) (phase (snd k))) \<Longrightarrow> edge (phase s) (phase (snd (guard bad x s k)))"
  by (simp add: guard_def)

lemma edge_atomic:
  "atomic s r \<Longrightarrow> (\<And>v t. r = (Inr v, t) \<Longrightarrow> edge (phase s) (phase t)) \<Longrightarrow> edge (phase s) (phase (snd r))"
  by (rule atomic_cases) auto

lemma after_motion_edge: "motion_phase (phase s) \<Longrightarrow> phase s \<in> entered_from (after_motion s)"
  by (auto simp: motion_phase_def after_motion_def)

lemma after_motion_record [simp]: "after_motion (record_executor_command_highwater st s) = after_motion s"
  by (simp add: after_motion_def)

lemma finished_by_phase: "finished_by st s t \<Longrightarrow> phase t = after_motion s"
  by (auto simp: finished_by_def after_motion_def)

lemma execution_update_edge:
  assumes "binding_inv s" shows "edge (phase s) (phase (snd (execution_update st s)))"
  by (rule execution_update_cases [OF assms, of st])
    (auto simp: same_task_def released_by_def edge_def finished_by_phase dest: after_motion_edge)

lemma core_step_edge:
  assumes "core_inv s" shows "edge (phase s) (phase (core_step s e))"
proof -
  have "binding_inv s" using assms by (simp add: core_inv_def)
  note eu = execution_update_edge [OF this]
  have ts: "edge (phase s) (phase (snd (trajectory_sent seg a s)))" for seg a
    by (rule edge_atomic [OF trajectory_sent_atomic]) (auto dest!: trajectory_sent_ok simp: same_task_def)
  have pr: "edge (phase s) (phase (snd (place_request_sent c st s)))" for c st
    by (rule edge_atomic [OF place_request_sent_atomic]) (auto dest!: place_request_sent_ok simp: edge_def)
  have pp: "edge (phase s) (phase (snd (place_plan_ready c s)))" for c
    by (rule edge_atomic [OF place_plan_ready_atomic])
      (auto simp: place_plan_ready_def edge_def split: option.splits)
  show ?thesis
    by (cases e)
      (simp_all add: core_step_def eu [unfolded edge_def] ts [unfolded edge_def] pr [unfolded edge_def] pp [unfolded edge_def]
        simple_op_defs begin_task_def restart_grounding_def
        perception_invalid_def posture_invalid_def cancel_core_def Let_def clear_execution_binding_def
        edge_def guard_def split: option.split)
qed


section \<open>High-water marks\<close>

definition hw :: "RuntimeSafetyCore \<Rightarrow> string \<Rightarrow> int" where
  "hw s = highwater_get (executor_command_highwater s)"

lemma hw_frame [simp]: 
  "hw (s\<lparr> expected_command_id := a, expected_trajectory_received_at := b \<rparr>) = hw s"
  "hw (s\<lparr> expected_command_id := a, expected_executor_epoch := c, expected_trajectory_received_at := b \<rparr>) = hw s"
  "hw (s\<lparr> execution_seen_active := d \<rparr>) = hw s"
  "hw (s\<lparr> place_approach_gripper_command_id := i, place_approach_gripper_received_at := j \<rparr>) = hw s"
  "hw (s\<lparr> place_release_gripper_command_id := i, place_release_gripper_received_at := j \<rparr>) = hw s"
  "hw (finish_motion s) = hw s"
  "hw (snd (fail_core why s)) = hw s"
  "hw (snd (advance_execution_phase s)) = hw s"
  by (simp_all add: hw_def finish_motion_def clear_execution_binding_def fail_core_def Let_def
     advance_execution_phase_def guard_def)

lemma hw_record: "hw s \<le> hw (record_executor_command_highwater st s)"
  by (auto simp: hw_def record_executor_command_highwater_def highwater_get_def Let_def le_fun_def split: sum.split option.split)

lemma hw_execution_update: "hw s \<le> hw (snd (execution_update st s))"
proof -
  have p: "hw u \<le> hw (snd (place_bound_update st u))" for u
    using hw_record [of u st] by (simp add: place_bound_update_def Let_def)
  have a: "hw u \<le> hw (snd (arm_bound_update st u))" for u
    using hw_record [of u st] hw_record [of "u\<lparr> execution_seen_active := True \<rparr>" st]
    by (simp add: arm_bound_update_def)
  have p': "hw s \<le> hw (snd (place_bound_update st
      (s\<lparr> expected_command_id := c, expected_trajectory_received_at := r \<rparr>)))" for c r
    using p [of "s\<lparr> expected_command_id := c, expected_trajectory_received_at := r \<rparr>"] by simp
  have a': "hw s \<le> hw (snd (arm_bound_update st (s\<lparr> expected_command_id := c,
      expected_executor_epoch := ep, expected_trajectory_received_at := r \<rparr>)))" for c ep r
    using a [of "s\<lparr> expected_command_id := c, expected_executor_epoch := ep,
                    expected_trajectory_received_at := r \<rparr>"] by simp
  show ?thesis
    by (simp add: p p' a a' execution_update_def place_planning_execution_update_def
        place_release_update_def place_execution_update_def arm_execution_update_def split: verdict.split)
qed

lemma hw_prepare_place_trajectory:
  assumes "prepare_place_trajectory seg c x s = (Inr u, t)" shows "hw s \<le> hw t"
proof -
  from prepare_place_trajectory_ok [OF assms] obtain st where
    t: "t = (record_executor_command_highwater st s)
        \<lparr> minimum_command_id := minimum_command_id t,
          minimum_trajectory_received_at := minimum_trajectory_received_at t,
          expected_trajectory_received_at := None,
          place_highwater_trajectory := place_highwater_trajectory t,
          place_highwater_owner := place_highwater_owner t,
          place_highwater_segment := place_highwater_segment t,
          place_highwater_contract_id := place_highwater_contract_id t \<rparr>" by blast
  show ?thesis using arg_cong [OF t, of hw] hw_record [of s st] by (simp add: hw_def)
qed

lemma hw_trajectory_sent: "hw s \<le> hw (snd (trajectory_sent seg a s))"
proof (rule atomic_cases [OF trajectory_sent_atomic [of s seg a]])
  fix u t assume ok: "trajectory_sent seg a s = (Inr u, t)"
  have "hw s \<le> hw t"
  proof (cases "is_place_segment seg")
    case True
    with ok show ?thesis
      by (auto simp: trajectory_sent_def hw_def clear_execution_binding_def
          dest!: hw_prepare_place_trajectory)
  next
    case False
    with ok show ?thesis by (auto simp: trajectory_sent_def hw_def clear_execution_binding_def)
  qed
  with ok show ?thesis by simp
qed simp

lemma hw_place_request_sent: "hw s \<le> hw (snd (place_request_sent c st s))"
  by (rule atomic_snd [OF place_request_sent_atomic [of s c st]])
    (auto simp: place_request_sent_def hw_def intro!: order_trans [OF _ hw_record [unfolded hw_def]])

lemma hw_place_plan_ready: "hw s \<le> hw (snd (place_plan_ready c s))"
  by (rule atomic_snd [OF place_plan_ready_atomic [of s c]])
    (auto simp: place_plan_ready_def hw_def split: option.splits)

lemma hw_step: "hw s \<le> hw (core_step s e)"
proof (cases e)
  case (EvBeginReplan n)
  then show ?thesis
    by (cases "required_replan_serial s") (simp_all add: core_step_def begin_replan_def guard_def hw_def)
qed (simp_all add: core_step_def hw_execution_update hw_trajectory_sent hw_place_request_sent hw_place_plan_ready,
  simp_all add: hw_def simple_op_defs begin_task_def restart_grounding_def perception_invalid_def
    posture_invalid_def cancel_core_def fail_core_def Let_def clear_execution_binding_def guard_def)

interpretation core_marks: watermark core_step core_inv hw
  by unfold_locales (rule hw_step)

section \<open>A complete run\<close>

definition demo_status ::
  "string \<Rightarrow> string \<Rightarrow> int \<Rightarrow> real \<Rightarrow> string \<Rightarrow> int \<Rightarrow> real \<Rightarrow> ExecutionState" where
  "demo_status word seg cmd at_s contract g g_at =
     \<lparr> trajectory = word, owner = ''trajectory'', gripper = ''idle'', aperture_m = None,
       command_id = Some cmd, segment = seg, gripper_command_id = Some g,
       accepted_gripper_aperture_m = None, executor_epoch = ''e1'',
       trajectory_contract_id = contract, trajectory_token = ''tok'',
       trajectory_received_at = Some (Fin at_s), trajectory_event_token = [],
       trajectory_event_received_at = None, gripper_received_at = Some (Fin g_at) \<rparr>"

definition demo_arm :: "real \<Rightarrow> publish_args" where
  "demo_arm t = \<lparr> pa_place_contract_id = None, pa_executor_state = None, pa_executor_epoch = Some ''e1'',
                  pa_published_at_s = Some (Fin t), pa_trajectory_token = Some ''tok'' \<rparr>"

definition demo_place :: "ExecutionState \<Rightarrow> publish_args" where
  "demo_place st = \<lparr> pa_place_contract_id = Some ''c1'', pa_executor_state = Some st, pa_executor_epoch = None,
                     pa_published_at_s = None, pa_trajectory_token = Some ''tok'' \<rparr>"

definition demo_pick :: "core_event list" where
  "demo_pick =
     [EvBegin ''cup'', EvPoseSettled, EvStandoff 1, EvCoarseReady, EvNearGrounded 2, EvServoComplete,
      EvBeginReplan 3, EvPlanReady,
      EvTrajectorySent ''transit'' (demo_arm 10),
      EvStatus (demo_status ''active'' ''transit'' 1 11 ''none'' 1 5),
      EvStatus (demo_status ''succeeded'' ''transit'' 1 11 ''none'' 1 5),
      EvBeginApproachReplan 4, EvApproachPlanReady,
      EvTrajectorySent ''approach'' (demo_arm 20),
      EvStatus (demo_status ''active'' ''approach'' 2 21 ''none'' 1 5),
      EvStatus (demo_status ''succeeded'' ''approach'' 2 21 ''none'' 1 5),
      EvCloseComplete,
      EvTrajectorySent ''lift'' (demo_arm 30),
      EvStatus (demo_status ''active'' ''lift'' 3 31 ''none'' 2 25),
      EvStatus (demo_status ''succeeded'' ''lift'' 3 31 ''none'' 2 25),
      EvVerificationComplete False,
      EvTrajectorySent ''carry'' (demo_arm 40),
      EvStatus (demo_status ''active'' ''carry'' 4 41 ''none'' 2 25),
      EvStatus (demo_status ''succeeded'' ''carry'' 4 41 ''none'' 2 25)]"

definition demo_place_run :: "core_event list" where
  "demo_place_run =
     [EvPlaceRequestSent ''c1'' (demo_status ''succeeded'' ''carry'' 4 41 ''none'' 2 25),
      EvPlacePlanReady
        [(''goal_id'', JStr ''c1''), (''trajectory_contract_id'', JStr ''c1''),
         (''executor_epoch'', JStr ''e1''), (''trajectory_command_highwater'', JInt 4),
         (''trajectory_source_highwater_ns'', JInt 41000000000),
         (''gripper_command_highwater'', JInt 2), (''gripper_source_highwater_ns'', JInt 25000000000)],
      EvTrajectorySent ''place_transit'' (demo_place (demo_status ''succeeded'' ''carry'' 4 41 ''none'' 2 25)),
      EvStatus (demo_status ''active'' ''place_transit'' 5 51 ''none'' 2 25),
      EvStatus (demo_status ''succeeded'' ''place_transit'' 5 51 ''none'' 2 25),
      EvTrajectorySent ''place_approach''
        (demo_place (demo_status ''succeeded'' ''place_transit'' 5 51 ''none'' 2 25)),
      EvStatus (demo_status ''active'' ''place_approach'' 6 61 ''c1'' 2 25),
      EvStatus (demo_status ''succeeded'' ''place_approach'' 6 61 ''c1'' 2 25),
      EvStatus (demo_status ''succeeded'' ''place_approach'' 6 61 ''c1'' 3 70),
      EvReleaseComplete,
      EvTrajectorySent ''place_retreat''
        (demo_place (demo_status ''succeeded'' ''place_approach'' 6 61 ''c1'' 3 70)),
      EvStatus (demo_status ''active'' ''place_retreat'' 7 81 ''c1'' 3 70),
      EvStatus (demo_status ''succeeded'' ''place_retreat'' 7 81 ''c1'' 3 70),
      EvPostReleaseVerified]"

lemma core_run_snoc: "core_run (es @ [e]) = core_step (core_run es) e"
  by (simp add: core_run_def)

lemma demo_pick_phase: "phase (core_run demo_pick) = PLACE_GROUNDING" by code_simp
lemma demo_complete: "phase (core_run (demo_pick @ demo_place_run)) = COMPLETE" by code_simp

lemma silent_Inr: "silent r = (Inr a, t) \<Longrightarrow> a = no_action \<and> r = (Inr (), t)"
  by (cases r; cases "fst r") (auto simp: silent_def)

lemma trajectory_sent_phase [simp]: "phase (snd (trajectory_sent seg a s)) = phase s"
  by (rule atomic_snd [OF trajectory_sent_atomic]) (auto dest!: trajectory_sent_ok simp: same_task_def)

text \<open>The other calls with a long guard either keep the phase or make one move.\<close>

lemma guarded_moves:
  "phase (snd (place_request_sent c st s)) = phase s \<or>
   phase s = PLACE_GROUNDING \<and> phase (snd (place_request_sent c st s)) = PLACE_PLANNING"
  "phase (snd (place_plan_ready k s)) = phase s \<or>
   phase s = PLACE_PLANNING \<and> phase (snd (place_plan_ready k s)) = PLACE_TRANSIT"
  "phase (snd (begin_replan n s)) = phase s \<or>
   phase s \<in> {WAIT_FRESH_OBSERVATION, FINAL_GROUNDING} \<and> phase (snd (begin_replan n s)) = PLANNING"
  subgoal by (rule atomic_snd [OF place_request_sent_atomic]) (auto dest!: place_request_sent_ok)
  subgoal by (rule atomic_snd [OF place_plan_ready_atomic]) (auto simp: place_plan_ready_def split: option.splits)
  subgoal by (simp add: begin_replan_def guard_def split: option.split)
  done

lemma silent_phase:
  assumes "core_inv s" and "fst (core_apply e s) = Inr no_action"
  shows "phase (core_step s e) \<in> {FAILED, CANCELED} \<longrightarrow> phase (core_step s e) = phase s"
proof -
  have b: "binding_inv s" using assms by (simp add: core_inv_def)
  have eu: "fst (execution_update st s) = Inr no_action \<Longrightarrow>
      phase (snd (execution_update st s)) \<in> {FAILED, CANCELED} \<Longrightarrow> phase (snd (execution_update st s)) = phase s" for st
    by (rule execution_update_cases [OF b, of st])
      (auto simp: fail_core_def Let_def no_action_def same_task_def released_by_def finished_by_phase
        after_motion_def motion_phase_def split: if_splits)
  show ?thesis
  proof (cases e)
    case (EvStatus st) then show ?thesis using assms(2) eu [of st] by (simp add: core_step_def)
  next
    case (EvPlaceRequestSent c st) then show ?thesis using guarded_moves(1) [of c st s] by (auto simp: core_step_def)
  next
    case (EvPlacePlanReady c) then show ?thesis using guarded_moves(2) [of c s] by (auto simp: core_step_def)
  next
    case (EvBeginReplan n) then show ?thesis using guarded_moves(3) [of n s] by (auto simp: core_step_def)
  qed (use assms(2) in \<open>simp_all add: core_step_def simple_op_defs begin_task_def restart_grounding_def
        perception_invalid_def posture_invalid_def cancel_core_def fail_core_def no_action_def Let_def
        guard_def clear_execution_binding_def quiet_def split: if_splits\<close>)
qed

lemma core_reaction:
  assumes "core_inv s" and r: "core_apply e s = (Inr a, t)"
  shows "(a = no_action \<and> (phase t \<in> {FAILED, CANCELED} \<longrightarrow> phase t = phase s)) \<or> stopped_cleanly a t"
proof -
  have b: "binding_inv s" using assms by (simp add: core_inv_def)
  have eu: "execution_update st s = (Inr a, t) \<Longrightarrow> a = no_action \<or> stopped_cleanly a t" for st
    by (rule execution_update_cases [OF b, of st]) (auto simp: quiet_def dest: fail_core_stops)
  have "a = no_action \<or> stopped_cleanly a t"
    using r by (cases e) (auto dest!: silent_Inr eu cancel_core_stops fail_core_stops
       simp: perception_invalid_def posture_invalid_def quiet_def split: if_splits)
  then show ?thesis using silent_phase [OF assms(1), of e] r by (auto simp: core_step_def)
qed

lemma finished_byD:
  "finished_by st s t \<Longrightarrow> owned_status st s \<and> trajectory st = ''succeeded'' \<and> execution_seen_active s \<and>
     command_id st = expected_command_id s \<and> expected_command_id s \<noteq> None \<and>
     trajectory_received_at st = expected_trajectory_received_at s"
  by (simp add: finished_by_def)

lemma motion_step:
  assumes "core_inv s" and "motion_phase (phase s)"
    and "phase (core_step s e) \<notin> {phase s, FAILED, CANCELED, POSE_SETTLE}"
  shows "\<exists>st. e = EvStatus st \<and> finished_by st s (core_step s e)"
proof -
  have b: "binding_inv s" using assms by (simp add: core_inv_def)
  show ?thesis
  proof (cases e)
    case (EvStatus st)
    show ?thesis
      by (rule execution_update_cases [OF b, of st])
        (use EvStatus assms(3) in \<open>auto simp: core_step_def same_task_def released_by_def\<close>)
  next
    case (EvPlaceRequestSent c st)
    then show ?thesis using guarded_moves(1) [of c st s] assms(2,3) by (auto simp: core_step_def motion_phase_def)
  next
    case (EvPlacePlanReady c)
    then show ?thesis using guarded_moves(2) [of c s] assms(2,3) by (auto simp: core_step_def motion_phase_def)
  next
    case (EvBeginReplan n)
    then show ?thesis using guarded_moves(3) [of n s] assms(2,3) by (auto simp: core_step_def motion_phase_def)
  qed (use assms(2,3) in \<open>simp_all add: core_step_def simple_op_defs begin_task_def restart_grounding_def
        perception_invalid_def posture_invalid_def cancel_core_def Let_def motion_phase_def
        guard_def clear_execution_binding_def quiet_def split: if_splits\<close>, auto)
qed

lemma binding_verdict:
  assumes "expected_command_id s = None"
    and "expected_command_id (snd (execution_update st s)) \<noteq> None"
  shows "if is_place_segment (execution_segment s) then place_status_verdict st s = Bind
         else arm_status_verdict st s = Bind"
proof -
  have f: "expected_command_id (snd (fail_core w t)) = None" for w t
    by (simp add: fail_core_def Let_def clear_execution_binding_def)
  have v: "arm_status_verdict st s \<noteq> Follow" "place_status_verdict st s \<noteq> Follow"
    using assms(1) arm_verdict_Follow place_verdict_Follow by blast+
  show ?thesis
    using assms v
    by (cases "arm_status_verdict st s"; cases "place_status_verdict st s")
      (auto simp: execution_update_def place_planning_execution_update_def place_release_update_def
        place_execution_update_def arm_execution_update_def f split: if_splits verdict.splits)
qed

text \<open>The settling phase is entered by a new task or at the end of a visual search.\<close>

lemma pose_settle_entry:
  assumes "core_inv s" and "phase (core_step s e) = POSE_SETTLE" and "phase s \<notin> {POSE_SETTLE, VISUAL_SEARCH}"
  shows "(\<exists>q. e = EvBegin q) \<or> e = EvRestartGrounding"
proof -
  have b: "binding_inv s" using assms by (simp add: core_inv_def)
  have eu: "phase (snd (execution_update st s)) \<noteq> POSE_SETTLE" for st
    by (rule execution_update_cases [OF b, of st])
      (use assms(3) in \<open>auto simp: same_task_def released_by_def finished_by_phase after_motion_def
         split: RuntimePhase.splits\<close>)
  show ?thesis
  proof (cases e)
    case (EvPlaceRequestSent c st)
    then show ?thesis using guarded_moves(1) [of c st s] assms(2,3) by (auto simp: core_step_def motion_phase_def)
  next
    case (EvPlacePlanReady c)
    then show ?thesis using guarded_moves(2) [of c s] assms(2,3) by (auto simp: core_step_def motion_phase_def)
  next
    case (EvBeginReplan n)
    then show ?thesis using guarded_moves(3) [of n s] assms(2,3) by (auto simp: core_step_def motion_phase_def)
  qed (use assms(2,3) eu in \<open>simp_all add: core_step_def simple_op_defs
        perception_invalid_def posture_invalid_def cancel_core_def Let_def
        guard_def clear_execution_binding_def quiet_def split: if_splits\<close>)
qed

definition starts_task :: "core_event \<Rightarrow> bool" where
  "starts_task e = (case e of EvBegin _ \<Rightarrow> True | EvRestartGrounding \<Rightarrow> True | _ \<Rightarrow> False)"

lemma inactive_step:
  assumes "core_inv s" "\<not> core_active s" "\<not> starts_task e"
  shows "\<not> core_active (core_step s e)"
proof -
  have "edge (phase s) (phase (core_step s e))" by (rule core_step_edge [OF assms(1)])
  moreover have "phase (core_step s e) \<noteq> POSE_SETTLE"
    using pose_settle_entry [OF assms(1), of e] assms(2,3)
    by (auto simp: core_active_def active_phase_def starts_task_def)
  ultimately show ?thesis using assms(2)
    by (cases "phase (core_step s e)") (auto simp: edge_def core_active_def active_phase_def)
qed

interpretation core_latch: latched_machine core_step "\<lambda>s. core_inv s \<and> \<not> core_active s" starts_task
  by unfold_locales (auto intro: core_inv_step dest: inactive_step)

section \<open>Properties\<close>

text \<open>C5: In every state a sequence of calls can reach, a method that raises leaves the whole object
  unchanged and never raises an AssertionError: the assertions of the source cannot fail.\<close>

theorem core_raise_keeps_state:
  assumes "fst (core_apply e (core_run es)) = Inl x"
  shows "core_step (core_run es) e = core_run es \<and> x \<noteq> AssertionError"
  using core_apply_clean [OF core_run_inv, of es e] assms by (auto simp: clean_def core_step_def)

lemma core_raise_keeps_state_witness:
  "fst (core_apply EvPoseSettled (core_run [])) = Inl (RuntimeError ''cannot settle pose while idle'') \<and>
   core_step (core_run []) EvPoseSettled = core_run []"
proof -
  have "fst (core_apply EvPoseSettled (core_run [])) = Inl (RuntimeError ''cannot settle pose while idle'')"
    by code_simp
  with core_raise_keeps_state [OF this] show ?thesis by simp
qed

text \<open>C3: Every reaction is either silent, and then it does not enter FAILED or CANCELED, or it
  requests all three stops (base, navigation, arm), and then the phase is FAILED or CANCELED and
  nothing of the trajectory binding is left.\<close>

theorem core_fail_closed:
  assumes "core_apply e (core_run es) = (Inr a, t)"
  shows "(a = no_action \<and> (phase t \<in> {FAILED, CANCELED} \<longrightarrow> phase t = phase (core_run es))) \<or>
         (stop_base a \<and> cancel_navigation a \<and> cancel_arm a \<and> phase t \<in> {FAILED, CANCELED} \<and>
          execution_segment t = [] \<and> expected_command_id t = None \<and> \<not> execution_seen_active t \<and>
          execution_publish_token t = [])"
  using core_reaction [OF core_run_inv assms] by (auto simp: stopped_cleanly_def)

lemma core_fail_closed_witness:
  "\<exists>a t. core_apply (EvFail ''fault'') (core_run demo_pick) = (Inr a, t) \<and> cancel_arm a \<and> phase t = FAILED"
proof -
  obtain a t where r: "core_apply (EvFail ''fault'') (core_run demo_pick) = (Inr a, t)"
    by (simp add: fail_core_def Let_def)
  moreover have "phase (snd (core_apply (EvFail ''fault'') (core_run demo_pick))) = FAILED" by simp
  ultimately show ?thesis using core_fail_closed [OF r] demo_pick_phase by auto
qed

text \<open>C2: A motion phase is left, other than by a failure, a cancel or a new task, only on an executor
  status that says succeeded for the very trajectory that was published: its token, owner and
  segment, the command id and receive time bound by an earlier active status.\<close>

theorem motion_advances_only_on_owned_success:
  assumes "motion_phase (phase s)" and "s = core_run es"
    and "phase (core_step s e) \<notin> {phase s, FAILED, CANCELED, POSE_SETTLE}"
  shows "\<exists>st. e = EvStatus st \<and> trajectory st = ''succeeded'' \<and> owner st = ''trajectory'' \<and>
      segment st = execution_segment s \<and> trajectory_token st = execution_publish_token s \<and>
      execution_seen_active s \<and> expected_command_id s \<noteq> None \<and>
      command_id st = expected_command_id s \<and>
      trajectory_received_at st = expected_trajectory_received_at s \<and>
      phase (core_step s e) = after_motion s"
proof -
  have "core_inv s" using core_run_inv assms(2) by simp
  from motion_step [OF this assms(1,3)] obtain st
    where e: "e = EvStatus st" and fb: "finished_by st s (core_step s e)" by blast
  from finished_byD [OF fb] finished_by_phase [OF fb] show ?thesis
    by (intro exI [of _ st]) (simp add: e owned_status_def)
qed

lemma motion_advances_only_on_owned_success_witness:
  "\<exists>st. last demo_pick = EvStatus st \<and> trajectory st = ''succeeded'' \<and>
        command_id st = expected_command_id (core_run (butlast demo_pick))"
proof -
  have "motion_phase (phase (core_run (butlast demo_pick)))" by code_simp
  moreover have "phase (core_step (core_run (butlast demo_pick)) (last demo_pick)) \<notin>
      {phase (core_run (butlast demo_pick)), FAILED, CANCELED, POSE_SETTLE}" by code_simp
  ultimately show ?thesis
    using motion_advances_only_on_owned_success [OF _ refl, of "butlast demo_pick" "last demo_pick"] by blast
qed

text \<open>An executor status binds a command to the published trajectory only if it is active, carries
  the publication's token and is new: its command id is above every id seen in that executor
  epoch (above the frozen high-water for a placement segment), and its receive time is after the
  publication fence.\<close>

theorem binding_needs_fresh_active_status:
  assumes "expected_command_id s = None"
    and "expected_command_id (snd (execution_update st s)) \<noteq> None"
  shows "trajectory st = ''active'' \<and> owner st = ''trajectory'' \<and> segment st = execution_segment s \<and>
     trajectory_token st = execution_publish_token s \<and>
     (\<exists>cmd r m. command_id st = Some cmd \<and> trajectory_received_at st = Some r \<and>
        minimum_trajectory_received_at s = Some m \<and>
        (if is_place_segment (execution_segment s)
         then executor_epoch st = place_executor_epoch s \<and> minimum_command_id s \<le> cmd \<and> \<not> r \<le> m
         else highwater_get (execution_command_highwater_snapshot s) (status_epoch st) < cmd \<and>
              \<not> r + micro < m))"
proof (cases "is_place_segment (execution_segment s)")
  case True
  then show ?thesis using binding_verdict [OF assms] place_verdict_Bind [of st s] by (auto simp: owned_status_def)
next
  case False
  then show ?thesis using binding_verdict [OF assms] arm_verdict_Bind [of st s] by (auto simp: owned_status_def)
qed

definition demo_sent :: RuntimeSafetyCore where
  "demo_sent = core_run (take 9 demo_pick)"

lemma binding_needs_fresh_active_status_witness:
  "trajectory_token (demo_status ''active'' ''transit'' 1 11 ''none'' 1 5) = execution_publish_token demo_sent"
proof -
  have "expected_command_id demo_sent = None" by code_simp
  moreover have "expected_command_id (snd (execution_update
      (demo_status ''active'' ''transit'' 1 11 ''none'' 1 5) demo_sent)) \<noteq> None" by code_simp
  ultimately show ?thesis using binding_needs_fresh_active_status by blast
qed

text \<open>C4: When a task is complete, the placement it executed was frozen from a valid executor snapshot and
  the gripper release was measured after the approach: its command id is above the one recorded
  when the approach finished, and its receive time is later than both the approach's and the
  earlier gripper command's.\<close>

theorem complete_only_after_measured_release:
  assumes "phase (core_run es) = COMPLETE"
  shows "\<exists>app_at pre pre_at g g_at.
     place_approach_received_at (core_run es) = Some app_at \<and>
     place_approach_gripper_command_id (core_run es) = Some pre \<and>
     place_approach_gripper_received_at (core_run es) = Some pre_at \<and>
     place_release_gripper_command_id (core_run es) = Some g \<and>
     place_release_gripper_received_at (core_run es) = Some g_at \<and>
     pre < g \<and> \<not> g_at \<le> pre_at \<and> \<not> g_at \<le> app_at \<and> request_frozen (core_run es)"
  using core_run_inv [of es] assms by (auto simp: core_inv_def place_inv_def release_after_approach_def)

lemma complete_only_after_measured_release_witness:
  "request_frozen (core_run (demo_pick @ demo_place_run))"
  using complete_only_after_measured_release [OF demo_complete] by blast

text \<open>Whatever calls are made, new tasks, failures and cancellations included, the command high-water
  mark kept for an executor epoch never decreases.\<close>

theorem command_highwater_never_decreases:
  "highwater_get (executor_command_highwater (core_run es)) epoch
     \<le> highwater_get (executor_command_highwater (core_run (es @ fs))) epoch"
  using core_marks.run_mark [OF core_run_inv, of es fs] by (simp add: hw_def core_run_def le_fun_def)

text \<open>A finished task (complete, pick complete, canceled, failed) or an idle one stays inactive until
  a new task begins or grounding is restarted.\<close>

theorem inactive_until_new_task:
  assumes "\<not> core_active (core_run es)"
    and "\<forall>e \<in> set fs. \<forall>q. e \<noteq> EvBegin q \<and> e \<noteq> EvRestartGrounding"
  shows "\<not> core_active (core_run (es @ fs))"
  using core_latch.run_latched [of "core_run es" fs] assms core_run_inv [of es]
  by (auto simp: core_run_def starts_task_def split: core_event.splits)

lemma inactive_until_new_task_witness:
  "\<not> core_active (core_run ((demo_pick @ demo_place_run) @ [EvFail ''late'', EvReleaseComplete, EvCancel]))"
proof -
  have "\<not> core_active (core_run (demo_pick @ demo_place_run))"
    using demo_complete by (simp add: core_active_def active_phase_def)
  then show ?thesis by (rule inactive_until_new_task) simp
qed

text \<open>The phases a run goes through, without repetitions.\<close>

definition phases_visited :: "core_event list \<Rightarrow> RuntimePhase list" where
  "phases_visited es = remdups_adj (map (\<lambda>n. phase (core_run (take n es))) [0..<Suc (length es)])"

definition task_spine :: "RuntimePhase list" where
  "task_spine =
     [PLANNING, TRANSIT, PREGRASP_REOBSERVE, APPROACH_PLANNING, APPROACH, CLOSING, LIFT, VERIFY, CARRY,
      PLACE_GROUNDING, PLACE_PLANNING, PLACE_TRANSIT, PLACE_APPROACH, RELEASING, PLACE_RETREAT,
      POST_RELEASE_VERIFICATION, COMPLETE]"

lemma phases_visited_Nil: "phases_visited [] = [IDLE]"
  by (simp add: phases_visited_def core_run_def core_init_def)

lemma phases_visited_snoc:
  "phases_visited (es @ [e]) = phases_visited es @
     (if phase (core_run (es @ [e])) = phase (core_run es) then [] else [phase (core_run (es @ [e]))])"
proof -
  have m: "map (\<lambda>n. phase (core_run (take n (es @ [e])))) [0..<Suc (length (es @ [e]))] =
      map (\<lambda>n. phase (core_run (take n es))) [0..<length es] @ [phase (core_run es), phase (core_run (es @ [e]))]"
    by simp
  show ?thesis unfolding phases_visited_def m remdups_adj_append_two by simp
qed

lemma spine_step:
  "p \<in> entered_from (task_spine ! Suc i) \<Longrightarrow> Suc i < length task_spine \<Longrightarrow> p = task_spine ! i"
  by (auto simp: task_spine_def less_Suc_eq nth_Cons split: nat.splits)

lemma task_spine_index: "i < length task_spine \<Longrightarrow> j < length task_spine \<Longrightarrow> task_spine ! i = task_spine ! j \<Longrightarrow> i = j"
  by (rule nth_eq_iff_index_eq [THEN iffD1]) (auto simp: task_spine_def)

lemma spine_suffix:
  "i < length task_spine \<Longrightarrow> phase (core_run es) = task_spine ! i \<Longrightarrow>
   suffix (take (Suc i) task_spine) (phases_visited es)"
proof (induction es arbitrary: i rule: rev_induct)
  case Nil
  then have "IDLE \<in> set task_spine" by (metis core_run_def core_init_def foldl_Nil nth_mem RuntimeSafetyCore.select_convs(1))
  then show ?case by (simp add: task_spine_def)
next
  case (snoc e es)
  let ?p = "phase (core_run es)" and ?q = "phase (core_run (es @ [e]))"
  show ?case
  proof (cases "?q = ?p")
    case True
    then show ?thesis using snoc by (simp add: phases_visited_snoc)
  next
    case False
    have ed: "edge ?p ?q" unfolding core_run_snoc by (rule core_step_edge [OF core_run_inv])
    show ?thesis
    proof (cases i)
      case 0
      then show ?thesis using False snoc.prems by (simp add: phases_visited_snoc task_spine_def suffix_def)
    next
      case (Suc k)
      have "?p = task_spine ! k"
        using ed False snoc.prems Suc by (intro spine_step) (simp_all add: edge_def)
      then have "suffix (take (Suc k) task_spine) (phases_visited es)"
        using snoc.IH [of k] snoc.prems Suc by simp
      then show ?thesis
        using False snoc.prems Suc by (simp add: phases_visited_snoc take_Suc_conv_app_nth)
    qed
  qed
qed

text \<open>C1: A run that ends in COMPLETE went, at the end, through planning, transit, re-observation, approach
  planning, approach, closing, lift, verification, carry and the eight placement phases in exactly this
  order, with no other phase in between.\<close>

theorem complete_run_follows_spine:
  assumes "phase (core_run es) = COMPLETE"
  shows "suffix
     [PLANNING, TRANSIT, PREGRASP_REOBSERVE, APPROACH_PLANNING, APPROACH, CLOSING, LIFT, VERIFY, CARRY,
      PLACE_GROUNDING, PLACE_PLANNING, PLACE_TRANSIT, PLACE_APPROACH, RELEASING, PLACE_RETREAT,
      POST_RELEASE_VERIFICATION, COMPLETE] (phases_visited es)"
  using spine_suffix [of 16 es] assms by (simp add: task_spine_def)

lemma complete_run_follows_spine_witness:
  "POST_RELEASE_VERIFICATION \<in> set (phases_visited (demo_pick @ demo_place_run))"
  using complete_run_follows_spine [OF demo_complete] by (auto simp: suffix_def)

text \<open>A placement plan is accepted exactly when the executor snapshot frozen at the request is valid and
  the plan echoes each of its seven fields, the source times rounded to nanoseconds, with
  integers matched only by JSON integers; only the phase changes.\<close>

theorem place_plan_accepted_iff:
  assumes "phase s = PLACE_PLANNING" and "s = core_run es"
  shows "place_plan_ready contract s = (Inr (), t) \<longleftrightarrow>
    (\<exists>tn gn. place_source_stamp_ns (place_request_received_at s) ''trajectory'' = Inr tn \<and>
       place_source_stamp_ns (place_request_gripper_received_at s) ''gripper'' = Inr gn \<and>
       jget contract ''goal_id'' = Some (JStr (place_contract_id s)) \<and>
       jget contract ''trajectory_contract_id'' = Some (JStr (place_contract_id s)) \<and>
       jget contract ''executor_epoch'' = Some (JStr (place_executor_epoch s)) \<and>
       jget contract ''trajectory_command_highwater'' = Some (JInt (the (place_request_command_id s))) \<and>
       jget contract ''trajectory_source_highwater_ns'' = Some (JInt tn) \<and>
       jget contract ''gripper_command_highwater'' = Some (JInt (the (place_request_gripper_command_id s))) \<and>
       jget contract ''gripper_source_highwater_ns'' = Some (JInt gn)) \<and>
    t = s\<lparr> phase := PLACE_TRANSIT \<rparr>"
proof -
  have "request_frozen s" using core_run_inv [of es] assms by (simp add: core_inv_def place_inv_def)
  then have fz: "place_contract_id s \<noteq> []" "place_executor_epoch s \<noteq> []"
    "place_request_command_id s \<noteq> None" "place_request_gripper_command_id s \<noteq> None"
    by (auto simp: request_frozen_def positive_id_def split: option.splits)
  have m: "first_mismatch c xs = None \<longleftrightarrow> (\<forall>(f, v) \<in> set xs. jget c f = Some v)" for c xs
    by (induction c xs rule: first_mismatch.induct) auto
  show ?thesis
    unfolding place_plan_ready_def using assms(1) fz m by (auto simp: place_plan_expected_def split: option.splits)
qed

definition demo_planning :: RuntimeSafetyCore where
  "demo_planning = core_run (demo_pick @ [hd demo_place_run])"

definition demo_contract :: "(string \<times> json) list" where
  "demo_contract =
     [(''goal_id'', JStr ''c1''), (''trajectory_contract_id'', JStr ''c1''),
      (''executor_epoch'', JStr ''e1''), (''trajectory_command_highwater'', JInt 4),
      (''trajectory_source_highwater_ns'', JInt 41000000000),
      (''gripper_command_highwater'', JInt 2), (''gripper_source_highwater_ns'', JInt 25000000000)]"

lemma place_plan_accepted_iff_witness:
  "place_plan_ready demo_contract demo_planning = (Inr (), demo_planning\<lparr> phase := PLACE_TRANSIT \<rparr>)"
proof -
  have p: "phase demo_planning = PLACE_PLANNING" by code_simp
  have "fst (place_plan_ready demo_contract demo_planning) = Inr ()" by code_simp
  then obtain t where "place_plan_ready demo_contract demo_planning = (Inr (), t)"
    by (cases "place_plan_ready demo_contract demo_planning") simp
  with place_plan_accepted_iff [OF p demo_planning_def] show ?thesis by simp
qed

text \<open>After a re-observation was requested at serial n, planning starts exactly for a serial above n, and
  then it is recorded as the planned one.\<close>

theorem replan_needs_newer_observation:
  assumes "request_reobservation n s = (Inr (), t)"
  shows "begin_replan m t = (Inr (), u) \<longleftrightarrow> n < m \<and> u = t\<lparr> planned_serial := Some m, phase := PLANNING \<rparr>"
proof -
  have "phase t = WAIT_FRESH_OBSERVATION" "required_replan_serial t = Some (n + 1)"
    using assms by (auto simp: request_reobservation_def clear_execution_binding_def)
  then show ?thesis by (auto simp: begin_replan_def)
qed

lemma replan_needs_newer_observation_witness:
  "\<exists>t. request_reobservation 7 (core_run (take 7 demo_pick)) = (Inr (), t) \<and> fst (begin_replan 8 t) = Inr ()"
proof -
  have "fst (request_reobservation 7 (core_run (take 7 demo_pick))) = Inr ()" by code_simp
  then obtain t where r: "request_reobservation 7 (core_run (take 7 demo_pick)) = (Inr (), t)"
    by (cases "request_reobservation 7 (core_run (take 7 demo_pick))") simp
  have "begin_replan 8 t = (Inr (), t\<lparr> planned_serial := Some 8, phase := PLANNING \<rparr>)"
    using replan_needs_newer_observation [OF r] by simp
  with r show ?thesis by simp
qed

text \<open>
  The two statuses of a grasp segment that ran: the first active one and, for the same command,
  the success.
\<close>

definition answers :: "string \<Rightarrow> publish_args \<Rightarrow> RuntimeSafetyCore \<Rightarrow> ExecutionState \<Rightarrow> bool" where
  "answers seg a s st \<longleftrightarrow>
     \<not> status_rejected st \<and> owner st = ''trajectory'' \<and> segment st = seg \<and>
     Some (trajectory_token st) = pa_trajectory_token a \<and> Some (executor_epoch st) = pa_executor_epoch a \<and>
     (\<exists>cmd r m. command_id st = Some cmd \<and> trajectory_received_at st = Some (Fin r) \<and> 0 \<le> r \<and>
        pa_published_at_s a = Some (Fin m) \<and> m \<le> r \<and>
        highwater_get (executor_command_highwater s) (executor_epoch st) < cmd)"

lemma place_identity_token_Inr: "place_identity_token v l = Inr y \<Longrightarrow> v = Some y \<and> y \<noteq> []"
  by (auto simp: place_identity_token_def Let_def split: option.splits)

lemma trajectory_sent_arm:
  assumes "trajectory_sent seg a s = (Inr u, t)" and "\<not> is_place_segment seg"
  shows "\<exists>tok ep. t = (clear_execution_binding False (s\<lparr> execution_segment := seg \<rparr>))
              \<lparr> execution_publish_token := tok,
                execution_command_highwater_snapshot := executor_command_highwater s,
                execution_publish_executor_epoch := ep,
                minimum_command_id := highest_command_id s + 1,
                minimum_trajectory_received_at := pa_published_at_s a,
                expected_trajectory_received_at := None \<rparr> \<and>
     pa_trajectory_token a = Some tok \<and> tok \<noteq> [] \<and> pa_executor_epoch a = Some ep \<and>
     place_identity_token (Some ep) ''executor epoch'' = Inr ep \<and> ep \<noteq> [] \<and>
     segment_phase seg = Some (phase s)"
proof -
  from assms obtain tok ep where
    t: "t = (clear_execution_binding False (s\<lparr> execution_segment := seg \<rparr>))
              \<lparr> execution_publish_token := tok,
                execution_command_highwater_snapshot := executor_command_highwater s,
                execution_publish_executor_epoch := ep,
                minimum_command_id := highest_command_id s + 1,
                minimum_trajectory_received_at := pa_published_at_s a,
                expected_trajectory_received_at := None \<rparr>" "segment_phase seg = Some (phase s)"
    and ids: "place_identity_token (pa_trajectory_token a) ''trajectory token'' = Inr tok"
      "place_identity_token (pa_executor_epoch a) ''executor epoch'' = Inr ep"
    by (auto simp: trajectory_sent_def)
  have "pa_trajectory_token a = Some tok" "tok \<noteq> []" "pa_executor_epoch a = Some ep" "ep \<noteq> []"
    using ids [THEN place_identity_token_Inr] by simp_all
  then show ?thesis using t ids by (intro exI [of _ tok] exI [of _ ep]) simp
qed

text \<open>C6: Progress of the grasp segments: once a trajectory was published, an active status of it with a new
  command id after the publication, followed by its success, is accepted without any stop and moves the
  task to the phase after the segment.\<close>

theorem arm_segment_completes:
  assumes "trajectory_sent seg a s = (Inr (), t)" and "\<not> is_place_segment seg"
    and "answers seg a s st" and "trajectory st = ''active''"
  defines "t1 \<equiv> snd (execution_update st t)"
    and "fin \<equiv> st\<lparr> trajectory := ''succeeded'' \<rparr>"
  shows "fst (execution_update st t) = Inr no_action \<and> phase t1 = phase s \<and>
         fst (execution_update fin t1) = Inr no_action \<and>
         phase (snd (execution_update fin t1)) = after_motion s"
proof -
  from trajectory_sent_arm [OF assms(1,2)] obtain tok ep where
    t: "t = (clear_execution_binding False (s\<lparr> execution_segment := seg \<rparr>))
              \<lparr> execution_publish_token := tok,
                execution_command_highwater_snapshot := executor_command_highwater s,
                execution_publish_executor_epoch := ep,
                minimum_command_id := highest_command_id s + 1,
                minimum_trajectory_received_at := pa_published_at_s a,
                expected_trajectory_received_at := None \<rparr>"
    and id: "pa_trajectory_token a = Some tok" "tok \<noteq> []" "pa_executor_epoch a = Some ep"
      "place_identity_token (Some ep) ''executor epoch'' = Inr ep" "ep \<noteq> []"
    and sp: "segment_phase seg = Some (phase s)" by blast
  from assms(3) obtain cmd r m where
    st: "\<not> status_rejected st" "owner st = ''trajectory''" "segment st = seg" "trajectory_token st = tok"
      "executor_epoch st = ep" "command_id st = Some cmd" "trajectory_received_at st = Some (Fin r)" "0 \<le> r"
      "pa_published_at_s a = Some (Fin m)" "m \<le> r"
      "highwater_get (executor_command_highwater s) ep < cmd"
    using id by (auto simp: answers_def)
  have mp: "motion_phase (phase s)" "seg \<noteq> []" using segment_phase_nonempty [OF sp] by simp_all
  have se: "status_epoch st = ep" using st id by (simp add: status_epoch_def)
  have c: "\<not> status_canceled st" using assms(4) by (simp add: status_canceled_def py_defs)
  let ?b = "t\<lparr> expected_command_id := Some cmd, expected_executor_epoch := ep,
               expected_trajectory_received_at := Some (Fin r), execution_seen_active := True \<rparr>"
  have "arm_status_verdict st t = Bind"
    using st c se id assms(4) by (simp add: arm_status_verdict_def t clear_execution_binding_def micro_def valid_time_iff)
  moreover have u: "execution_update x y = arm_execution_update x y"
    if "phase y = phase s" "execution_segment y = seg" for x y
    using that mp assms(2) by (auto simp: execution_update_def motion_phase_def)
  ultimately have 1: "execution_update st t = quiet (record_executor_command_highwater st ?b)"
    using assms(4) st se by (simp add: u t clear_execution_binding_def arm_execution_update_def arm_bound_update_def)
  have t1: "t1 = record_executor_command_highwater st ?b" by (simp add: t1_def 1)
  have f: "\<not> status_canceled fin" "\<not> status_rejected fin" "status_epoch fin = ep"
    using st(1) se by (simp_all add: fin_def status_canceled_def status_rejected_def status_epoch_def py_defs)
  have "arm_status_verdict fin t1 = Follow"
    using st f id by (simp add: arm_status_verdict_def t1 fin_def t clear_execution_binding_def valid_time_iff)
  then have "execution_update fin t1 = quiet (finish_motion (record_executor_command_highwater fin t1))"
    using u [of t1 fin] by (simp add: t1 t clear_execution_binding_def arm_execution_update_def
        arm_bound_update_def fin_def advance_execution_phase_ok)
  then show ?thesis using 1 by (simp add: t1, simp add: t clear_execution_binding_def after_motion_def)
qed

lemma arm_segment_completes_witness:
  "phase (snd (execution_update (demo_status ''succeeded'' ''transit'' 1 11 ''none'' 1 5)
     (snd (execution_update (demo_status ''active'' ''transit'' 1 11 ''none'' 1 5)
       (snd (trajectory_sent ''transit'' (demo_arm 10) (core_run (take 8 demo_pick)))))))) = PREGRASP_REOBSERVE"
proof -
  let ?s = "core_run (take 8 demo_pick)" and ?st = "demo_status ''active'' ''transit'' 1 11 ''none'' 1 5"
  have "fst (trajectory_sent ''transit'' (demo_arm 10) ?s) = Inr ()" by code_simp
  then obtain t where r: "trajectory_sent ''transit'' (demo_arm 10) ?s = (Inr (), t)"
    by (cases "trajectory_sent ''transit'' (demo_arm 10) ?s") simp
  have h: "highwater_get (executor_command_highwater ?s) ''e1'' = 0" by code_simp
  have n: "\<not> status_rejected ?st" "\<not> is_place_segment ''transit''" by code_simp+
  have "answers ''transit'' (demo_arm 10) ?s ?st"
    using h n by (simp add: answers_def demo_status_def demo_arm_def)
  from arm_segment_completes [OF r n(2) this] r
  have "phase (snd (execution_update (?st\<lparr> trajectory := ''succeeded'' \<rparr>) (snd (execution_update ?st t)))) = after_motion ?s"
    by (simp add: demo_status_def)
  moreover have "after_motion ?s = PREGRASP_REOBSERVE" by code_simp
  ultimately show ?thesis using r by (simp add: demo_status_def)
qed

end
