(* ===== verification/Occlusion_Gate.thy ===== *)
theory Occlusion_Gate
  imports Safety_Core "HOL-Library.Option_ord"
begin

text \<open>
  \<open>ExecutionOcclusionGate\<close> of \<open>src/ros2/z_manip_task/z_manip_task/core.py\<close>: for a few seconds around
  contact the wrist camera may lose the object, and the arm may go on only while proprioception
  shows it on the audited path. The gate's attributes are a record, its configuration another;
  every method returns its result or exception with the gate after the call.
\<close>

section \<open>Configuration\<close>

record ExecutionOcclusionConfig =
  max_duration_s :: pyfloat
  joint_state_max_age_s :: pyfloat
  execution_status_max_age_s :: pyfloat
  command_ack_timeout_s :: pyfloat
  near_contact_joint_tolerance_rad :: pyfloat
  lift_path_joint_tolerance_rad :: pyfloat
  max_path_regression_samples :: int

definition MAX_EXECUTION_OCCLUSION_DURATION_S :: pyfloat where
  "MAX_EXECUTION_OCCLUSION_DURATION_S = Fin 3"

definition default_occlusion_config :: ExecutionOcclusionConfig where
  "default_occlusion_config =
     \<lparr> max_duration_s = Fin 3, joint_state_max_age_s = Fin (25 / 100),
       execution_status_max_age_s = Fin (30 / 100), command_ack_timeout_s = Fin (40 / 100),
       near_contact_joint_tolerance_rad = Fin (5 / 100), lift_path_joint_tolerance_rad = Fin (8 / 100),
       max_path_regression_samples = 3 \<rparr>"

definition occlusion_config_post_init :: "ExecutionOcclusionConfig \<Rightarrow> unit res" where
  "occlusion_config_post_init c =
     raise_if (\<not> list_all (\<lambda>v. isfinite v \<and> 0 < v)
         [max_duration_s c, joint_state_max_age_s c, execution_status_max_age_s c,
          command_ack_timeout_s c, near_contact_joint_tolerance_rad c, lift_path_joint_tolerance_rad c])
       (ValueError ''execution occlusion limits must be finite and positive'')
     (raise_if (MAX_EXECUTION_OCCLUSION_DURATION_S < max_duration_s c)
       (ValueError ''execution occlusion duration exceeds the 3.0 s hard limit'')
     (raise_if (max_duration_s c \<le> command_ack_timeout_s c)
       (ValueError ''occlusion command acknowledgement must precede timeout'')
     (raise_if (max_path_regression_samples c < 0)
       (ValueError ''occlusion path regression bound must be non-negative'')
     (Inr ()))))"

record ExecutionOcclusionDecision =
  allowed :: bool
  decision_reason :: string
  mode :: string
  path_index :: "nat option"

definition deny :: "string \<Rightarrow> ExecutionOcclusionDecision" where
  "deny why = \<lparr> allowed = False, decision_reason = why, mode = [], path_index = None \<rparr>"

definition allow :: "string \<Rightarrow> nat option \<Rightarrow> ExecutionOcclusionDecision" where
  "allow m i = \<lparr> allowed = True, decision_reason = [], mode = m, path_index = i \<rparr>"

section \<open>The gate\<close>

record ExecutionOcclusionGate =
  request_id :: string
  producer_epoch :: string
  generation :: "int option"
  observation_frame_id :: string
  observation_serial :: "int option"
  observation_stamp_s :: "real option"
  observation_stamp_ns :: "int option"
  loss_observation_serial :: "int option"
  loss_observation_stamp_ns :: "int option"
  armed_at_s :: "pyfloat option"
  loss_at_s :: "pyfloat option"
  contact_confirmed_at_s :: "pyfloat option"
  lift_sent_at_s :: "pyfloat option"
  lift_completed_at_s :: "pyfloat option"
  near_contact_joints :: "real list"
  maximum_lift_path_index :: nat
  joint_source_stamp_ns :: "int option"
  joint_sequence :: "int option"
  loss_joint_source_stamp_ns :: "int option"
  loss_joint_sequence :: "int option"
  loss_joint_advanced :: bool
  last_lift_path_index :: "nat option"
  last_path_joint_source_stamp_ns :: "int option"
  last_path_joint_sequence :: "int option"
  last_time_s :: "pyfloat option"

definition occlusion_reset :: ExecutionOcclusionGate where
  "occlusion_reset =
     \<lparr> request_id = [], producer_epoch = [], generation = None, observation_frame_id = [],
       observation_serial = None, observation_stamp_s = None, observation_stamp_ns = None,
       loss_observation_serial = None, loss_observation_stamp_ns = None,
       armed_at_s = None, loss_at_s = None, contact_confirmed_at_s = None, lift_sent_at_s = None,
       lift_completed_at_s = None, near_contact_joints = [], maximum_lift_path_index = 0,
       joint_source_stamp_ns = None, joint_sequence = None, loss_joint_source_stamp_ns = None,
       loss_joint_sequence = None, loss_joint_advanced = False, last_lift_path_index = None,
       last_path_joint_source_stamp_ns = None, last_path_joint_sequence = None, last_time_s = None \<rparr>"

type_synonym 'a gate_op = "('a, ExecutionOcclusionGate) outcome"

definition gate_armed :: "ExecutionOcclusionGate \<Rightarrow> bool" where
  "gate_armed g = (armed_at_s g \<noteq> None)"

definition loss_active :: "ExecutionOcclusionGate \<Rightarrow> bool" where
  "loss_active g = (loss_at_s g \<noteq> None)"

definition contact_confirmed :: "ExecutionOcclusionGate \<Rightarrow> bool" where
  "contact_confirmed g = (contact_confirmed_at_s g \<noteq> None)"

text \<open>The clock: finite and not before the last time the gate was asked.\<close>

definition gate_time :: "pyfloat \<Rightarrow> ExecutionOcclusionGate \<Rightarrow> pyfloat gate_op" where
  "gate_time now g =
     guard (\<not> isfinite now) (ValueError ''execution occlusion time is not finite'') g
     (guard (case last_time_s g of None \<Rightarrow> False | Some t \<Rightarrow> now < t)
       (ValueError ''execution occlusion clock moved backwards'') g
       (Inr now, g\<lparr> last_time_s := Some now \<rparr>))"

definition joint_vector :: "pyfloat list \<Rightarrow> string \<Rightarrow> real list res" where
  "joint_vector vs label =
     raise_if (vs = [] \<or> \<not> list_all isfinite vs)
       (ValueError (label @ '' must be a finite non-empty vector'')) (Inr (map the_fin vs))"

text \<open>\<open>max(abs(a - b) for a, b in zip(left, right))\<close> on non-empty vectors.\<close>

definition max_abs_diff :: "real list \<Rightarrow> real list \<Rightarrow> real" where
  "max_abs_diff xs ys = Max (set (map2 (\<lambda>a b. \<bar>a - b\<bar>) xs ys))"

definition max_error :: "pyfloat list \<Rightarrow> real list \<Rightarrow> real res" where
  "max_error first second =
     rbind (joint_vector first ''measured joints'') (\<lambda>left.
     rbind (joint_vector (map Fin second) ''reference joints'') (\<lambda>right.
     raise_if (length left \<noteq> length right) (ValueError ''execution occlusion joint widths differ'')
       (Inr (max_abs_diff left right))))"

definition observation_identity :: "int \<Rightarrow> int \<Rightarrow> (int \<times> int) res" where
  "observation_identity serial stamp_ns =
     raise_if (serial \<le> 0) (ValueError ''perception observation serial is invalid'')
     (raise_if (stamp_ns \<le> 0) (ValueError ''perception observation stamp is invalid'')
       (Inr (serial, stamp_ns)))"

definition joint_source_identity :: "int \<Rightarrow> int \<Rightarrow> (int \<times> int) res" where
  "joint_source_identity sequence stamp_ns =
     raise_if (sequence \<le> 0) (ValueError ''joint source sequence is invalid'')
     (raise_if (stamp_ns \<le> 0) (ValueError ''joint source stamp is invalid'')
       (Inr (sequence, stamp_ns)))"

definition strictly_newer_pair :: "int \<Rightarrow> int \<Rightarrow> int \<Rightarrow> int \<Rightarrow> bool" where
  "strictly_newer_pair s t s' t' = (s' < s \<and> t' < t)"

definition same_pair :: "int \<Rightarrow> int \<Rightarrow> int \<Rightarrow> int \<Rightarrow> bool" where
  "same_pair s t s' t' = (s = s' \<and> t = t')"

definition ns_to_s :: "int \<Rightarrow> real" where
  "ns_to_s n = of_int n / 1000000000"

text \<open>\<open>0.0 <= now - seen <= limit\<close>.\<close>

definition fresh_within :: "pyfloat \<Rightarrow> pyfloat \<Rightarrow> pyfloat \<Rightarrow> bool" where
  "fresh_within bound now seen = (0 \<le> now - seen \<and> now - seen \<le> bound)"

record arm_args =
  aa_now_s :: pyfloat
  aa_exact_authorized :: bool
  aa_request_id :: string
  aa_producer_epoch :: string
  aa_generation :: int
  aa_observation_serial :: int
  aa_observation_stamp_ns :: int
  aa_observation_frame_id :: string
  aa_measured_joints :: "pyfloat list"
  aa_approach_endpoint_joints :: "pyfloat list"
  aa_joint_seen_at_s :: pyfloat
  aa_joint_source_stamp_ns :: int
  aa_joint_sequence :: int

definition arm_near_contact ::
  "ExecutionOcclusionConfig \<Rightarrow> arm_args \<Rightarrow> ExecutionOcclusionGate \<Rightarrow> unit gate_op" where
  "arm_near_contact c a g =
     guard (\<not> aa_exact_authorized a)
       (ValueError ''near-contact observation is not exactly authorized'') g
     (guard (aa_request_id a = [] \<or> aa_producer_epoch a = [] \<or> aa_observation_frame_id a = [])
       (ValueError ''near-contact perception ownership is unavailable'') g
     (guard (aa_generation a \<le> 0 \<or> aa_observation_serial a \<le> 0)
       (ValueError ''near-contact perception generation is invalid'') g
     (gbind (observation_identity (aa_observation_serial a) (aa_observation_stamp_ns a)) g (\<lambda>(serial, stamp).
      guard (\<not> isfinite (aa_joint_seen_at_s a)
             \<or> \<not> fresh_within (joint_state_max_age_s c) (aa_now_s a) (aa_joint_seen_at_s a))
        (ValueError ''near-contact joint feedback is stale'') g
     (gbind (joint_source_identity (aa_joint_sequence a) (aa_joint_source_stamp_ns a)) g (\<lambda>(sq, source_ns).
      guard (\<not> fresh_within (joint_state_max_age_s c) (aa_now_s a) (Fin (ns_to_s source_ns)))
        (ValueError ''near-contact joint source stamp is stale'') g
     (gbind (joint_vector (aa_approach_endpoint_joints a) ''approach endpoint'') g (\<lambda>endpoint.
      gbind (max_error (aa_measured_joints a) endpoint) g (\<lambda>err.
      guard (near_contact_joint_tolerance_rad c < Fin err)
        (ValueError ''measured arm did not reach the approach endpoint'') g
        (Inr (), occlusion_reset
          \<lparr> last_time_s := Some (aa_now_s a), request_id := aa_request_id a,
            producer_epoch := aa_producer_epoch a, generation := Some (aa_generation a),
            observation_frame_id := aa_observation_frame_id a,
            observation_serial := Some serial, observation_stamp_ns := Some stamp,
            observation_stamp_s := Some (ns_to_s stamp), armed_at_s := Some (aa_now_s a),
            near_contact_joints := endpoint, joint_source_stamp_ns := Some source_ns,
            joint_sequence := Some sq \<rparr>))))))))))"

record observation_args =
  oa_request_id :: string
  oa_producer_epoch :: string
  oa_generation :: int
  oa_observation_serial :: int
  oa_observation_stamp_ns :: int
  oa_observation_frame_id :: string

definition owner_changed :: "observation_args \<Rightarrow> ExecutionOcclusionGate \<Rightarrow> bool" where
  "owner_changed o1 g =
     (oa_request_id o1 \<noteq> request_id g \<or> oa_producer_epoch o1 \<noteq> producer_epoch g
      \<or> Some (oa_generation o1) \<noteq> generation g \<or> oa_observation_frame_id o1 \<noteq> observation_frame_id g)"

definition retain_exact_observation ::
  "observation_args \<Rightarrow> ExecutionOcclusionGate \<Rightarrow> bool gate_op" where
  "retain_exact_observation o1 g =
     guard (armed_at_s g = None \<or> loss_at_s g \<noteq> None)
       (ValueError ''exact observation retention requires live armed tracking'') g
     (guard (owner_changed o1 g)
       (ValueError ''exact perception owner changed while execution was armed'') g
     (gbind (observation_identity (oa_observation_serial o1) (oa_observation_stamp_ns o1)) g (\<lambda>(serial, stamp).
      guard (observation_serial g = None \<or> observation_stamp_ns g = None) AssertionError g
     (if same_pair serial stamp (the (observation_serial g)) (the (observation_stamp_ns g))
      then (Inr False, g)
      else guard (\<not> strictly_newer_pair serial stamp (the (observation_serial g)) (the (observation_stamp_ns g)))
        (ValueError ''exact perception watermark moved backwards or split'') g
        (Inr True, g\<lparr> observation_serial := Some serial, observation_stamp_ns := Some stamp,
                       observation_stamp_s := Some (ns_to_s stamp) \<rparr>)))))"

text \<open>\<open>now - self.armed_at_s > self.config.max_duration_s\<close>.\<close>

definition window_over :: "ExecutionOcclusionConfig \<Rightarrow> pyfloat \<Rightarrow> ExecutionOcclusionGate \<Rightarrow> bool" where
  "window_over c now g = (case armed_at_s g of None \<Rightarrow> False | Some t \<Rightarrow> max_duration_s c < now - t)"

definition mark_loss ::
  "ExecutionOcclusionConfig \<Rightarrow> pyfloat \<Rightarrow> int \<Rightarrow> int \<Rightarrow> ExecutionOcclusionGate \<Rightarrow> unit gate_op" where
  "mark_loss c now_s source_ns sequence g0 =
     obind (gate_time now_s g0) (\<lambda>now g.
     guard (armed_at_s g = None) (ValueError ''execution occlusion was not armed near contact'') g
     (guard (window_over c now g) (ValueError ''near-contact occlusion window already expired'') g
     (if loss_at_s g \<noteq> None then (Inr (), g)
      else
        gbind (joint_source_identity sequence source_ns) g (\<lambda>(sq, ns).
        guard (\<not> fresh_within (joint_state_max_age_s c) now (Fin (ns_to_s ns)))
          (ValueError ''joint source stamp is stale at perception loss'') g
        (guard (joint_sequence g = None \<or> joint_source_stamp_ns g = None) AssertionError g
        (guard (\<not> (same_pair sq ns (the (joint_sequence g)) (the (joint_source_stamp_ns g))
                    \<or> strictly_newer_pair sq ns (the (joint_sequence g)) (the (joint_source_stamp_ns g))))
          (ValueError ''joint source moved backwards or split at perception loss'') g
          (Inr (), g\<lparr> joint_sequence := Some sq, joint_source_stamp_ns := Some ns,
                       loss_joint_sequence := Some sq, loss_joint_source_stamp_ns := Some ns,
                       loss_joint_advanced := False,
                       loss_observation_serial := observation_serial g,
                       loss_observation_stamp_ns := observation_stamp_ns g,
                       loss_at_s := Some now \<rparr>)))))))"

definition tracking_restored ::
  "ExecutionOcclusionConfig \<Rightarrow> pyfloat \<Rightarrow> observation_args \<Rightarrow> ExecutionOcclusionGate \<Rightarrow> bool gate_op" where
  "tracking_restored c now_s o1 g0 =
     obind (gate_time now_s g0) (\<lambda>now g.
     guard (loss_at_s g = None) (ValueError ''cannot restore tracking when prediction is inactive'') g
     (guard (window_over c now g) (ValueError ''live tracking returned after the occlusion window'') g
     (guard (owner_changed o1 g)
       (ValueError ''restored perception owner does not match the armed task'') g
     (gbind (observation_identity (oa_observation_serial o1) (oa_observation_stamp_ns o1)) g (\<lambda>(serial, stamp).
      guard (loss_observation_serial g = None \<or> loss_observation_stamp_ns g = None) AssertionError g
     (if \<not> strictly_newer_pair serial stamp (the (loss_observation_serial g)) (the (loss_observation_stamp_ns g))
      then (Inr False, g)
      else (Inr True, g\<lparr> observation_serial := Some serial, observation_stamp_ns := Some stamp,
                          observation_stamp_s := Some (ns_to_s stamp), loss_at_s := None \<rparr>)))))))"

definition confirm_contact ::
  "ExecutionOcclusionConfig \<Rightarrow> pyfloat \<Rightarrow> ExecutionOcclusionGate \<Rightarrow> unit gate_op" where
  "confirm_contact c now_s g0 =
     obind (gate_time now_s g0) (\<lambda>now g.
     guard (armed_at_s g = None) (ValueError ''cannot confirm contact before near-contact arming'') g
     (guard (loss_at_s g \<noteq> None \<and> window_over c now g)
       (ValueError ''contact arrived after the occlusion window'') g
       (Inr (), g\<lparr> contact_confirmed_at_s := Some now \<rparr>)))"

definition note_lift_sent ::
  "ExecutionOcclusionConfig \<Rightarrow> pyfloat \<Rightarrow> ExecutionOcclusionGate \<Rightarrow> unit gate_op" where
  "note_lift_sent c now_s g0 =
     obind (gate_time now_s g0) (\<lambda>now g.
     guard (contact_confirmed_at_s g = None) (ValueError ''cannot start lift before measured contact'') g
     (guard (loss_at_s g \<noteq> None \<and> window_over c now g)
       (ValueError ''lift started after the occlusion window'') g
       (Inr (), g\<lparr> lift_sent_at_s := Some now \<rparr>)))"

definition note_lift_completed ::
  "ExecutionOcclusionConfig \<Rightarrow> pyfloat \<Rightarrow> ExecutionOcclusionGate \<Rightarrow> unit gate_op" where
  "note_lift_completed c now_s g0 =
     obind (gate_time now_s g0) (\<lambda>now g.
     guard (lift_sent_at_s g = None) (ValueError ''cannot complete a lift that was not sent'') g
     (guard (loss_at_s g \<noteq> None \<and> window_over c now g)
       (ValueError ''lift completed after the occlusion window'') g
       (Inr (), g\<lparr> lift_completed_at_s := Some now \<rparr>)))"

section \<open>The decision\<close>

definition joint_fresh :: "ExecutionOcclusionConfig \<Rightarrow> pyfloat \<Rightarrow> pyfloat \<Rightarrow> bool" where
  "joint_fresh c now seen = (isfinite seen \<and> fresh_within (joint_state_max_age_s c) now seen)"

definition status_fresh :: "ExecutionOcclusionConfig \<Rightarrow> pyfloat \<Rightarrow> pyfloat option \<Rightarrow> bool" where
  "status_fresh c now seen =
     (case seen of None \<Rightarrow> False
      | Some t \<Rightarrow> isfinite t \<and> fresh_within (execution_status_max_age_s c) now t)"

text \<open>\<open>min(a, b)\<close> of two floats.\<close>

definition py_min :: "pyfloat \<Rightarrow> pyfloat \<Rightarrow> pyfloat" where
  "py_min a b = (if b < a then b else a)"

text \<open>\<open>None\<close>: the joint sample is acceptable and may be committed.\<close>

definition joint_source_decision ::
  "ExecutionOcclusionConfig \<Rightarrow> pyfloat \<Rightarrow> int \<Rightarrow> int \<Rightarrow> bool \<Rightarrow> ExecutionOcclusionGate
     \<Rightarrow> ExecutionOcclusionDecision option" where
  "joint_source_decision c now source_ns seq_no allow_loss_sample g =
     (case joint_source_identity seq_no source_ns of
        Inl e \<Rightarrow> Some (deny (exn_text e))
      | Inr (sq, ns) \<Rightarrow>
          if \<not> fresh_within (joint_state_max_age_s c) now (Fin (ns_to_s ns)) then
            Some (deny ''joint source stamp is stale during occlusion'')
          else if loss_joint_sequence g = None \<or> loss_joint_source_stamp_ns g = None
              \<or> joint_sequence g = None \<or> joint_source_stamp_ns g = None then
            Some (deny ''joint source loss watermark is unavailable'')
          else if \<not> (same_pair sq ns (the (joint_sequence g)) (the (joint_source_stamp_ns g))
                     \<or> strictly_newer_pair sq ns (the (joint_sequence g)) (the (joint_source_stamp_ns g))) then
            Some (deny ''joint source moved backwards or split during occlusion'')
          else if loss_joint_advanced g
              \<or> strictly_newer_pair sq ns (the (loss_joint_sequence g)) (the (loss_joint_source_stamp_ns g)) then
            None
          else
            let same_as_loss =
                  same_pair sq ns (the (loss_joint_sequence g)) (the (loss_joint_source_stamp_ns g)) in
            if allow_loss_sample \<and> same_as_loss then None
            else if same_as_loss \<and> loss_at_s g \<noteq> None
                \<and> now - the (loss_at_s g) \<le> py_min (joint_state_max_age_s c) (command_ack_timeout_s c) then
              Some (allow ''awaiting_joint_sample'' None)
            else Some (deny ''joint source did not advance after perception loss''))"

definition commit_joint_source :: "int \<Rightarrow> int \<Rightarrow> ExecutionOcclusionGate \<Rightarrow> unit gate_op" where
  "commit_joint_source source_ns sq g =
     guard (loss_joint_sequence g = None \<or> loss_joint_source_stamp_ns g = None
            \<or> joint_sequence g = None \<or> joint_source_stamp_ns g = None) AssertionError g
     (let g1 = (if strictly_newer_pair sq source_ns (the (loss_joint_sequence g)) (the (loss_joint_source_stamp_ns g))
                then g\<lparr> loss_joint_advanced := True \<rparr> else g) in
      (Inr (),
       if strictly_newer_pair sq source_ns (the (joint_sequence g)) (the (joint_source_stamp_ns g))
       then g1\<lparr> joint_sequence := Some sq, joint_source_stamp_ns := Some source_ns \<rparr> else g1))"

text \<open>\<open>min(range(len(ds)), key=ds.__getitem__)\<close>: the first index of a least element.\<close>

fun first_argmin :: "real list \<Rightarrow> nat" where
  "first_argmin [] = 0"
| "first_argmin [x] = 0"
| "first_argmin (x # y # ys) =
     (let j = first_argmin (y # ys) in if x \<le> (y # ys) ! j then 0 else Suc j)"

fun joint_rows :: "pyfloat list list \<Rightarrow> real list list res" where
  "joint_rows [] = Inr []"
| "joint_rows (row # rest) =
     rbind (joint_vector row ''lift path row'') (\<lambda>r. rbind (joint_rows rest) (\<lambda>rs. Inr (r # rs)))"

text \<open>
  \<open>_lift_path_decision\<close> up to the commit of the progress: the accepted index, or the decision
  that refuses the sample.
\<close>

definition lift_path_index ::
  "ExecutionOcclusionConfig \<Rightarrow> pyfloat list \<Rightarrow> pyfloat list list \<Rightarrow> ExecutionOcclusionGate
     \<Rightarrow> (ExecutionOcclusionDecision + nat) res" where
  "lift_path_index c measured_joints lift_path g =
     rbind (joint_rows lift_path) (\<lambda>rows.
     if length rows < 2 then Inr (Inl (deny ''lift path is unavailable''))
     else rbind (joint_vector measured_joints ''measured joints'') (\<lambda>measured.
       if list_ex (\<lambda>row. length row \<noteq> length measured) rows then
         Inr (Inl (deny ''lift path joint width changed''))
       else
         let distances = map (max_abs_diff measured) rows; index = first_argmin distances in
         if lift_path_joint_tolerance_rad c < Fin (distances ! index) then
           Inr (Inl ((deny ''measured arm left the validated lift path'')\<lparr> path_index := Some index \<rparr>))
         else if int index + max_path_regression_samples c < int (maximum_lift_path_index g) then
           Inr (Inl ((deny ''measured lift progress moved backwards'')\<lparr> path_index := Some index \<rparr>))
         else Inr (Inr index)))"

definition path_jumped :: "int \<Rightarrow> int \<Rightarrow> nat \<Rightarrow> ExecutionOcclusionGate \<Rightarrow> bool" where
  "path_jumped source_ns sq index g =
     (last_lift_path_index g \<noteq> None \<and> Some index \<noteq> last_lift_path_index g
      \<and> last_path_joint_sequence g \<noteq> None \<and> last_path_joint_source_stamp_ns g \<noteq> None
      \<and> \<not> strictly_newer_pair sq source_ns (the (last_path_joint_sequence g))
            (the (last_path_joint_source_stamp_ns g)))"

definition lift_path_decision ::
  "ExecutionOcclusionConfig \<Rightarrow> pyfloat list \<Rightarrow> pyfloat list list \<Rightarrow> int \<Rightarrow> int \<Rightarrow> bool
     \<Rightarrow> ExecutionOcclusionGate \<Rightarrow> ExecutionOcclusionDecision gate_op" where
  "lift_path_decision c measured_joints lift_path source_ns sq commit_progress g =
     gbind (lift_path_index c measured_joints lift_path g) g (\<lambda>r.
     case r of
       Inl refused \<Rightarrow> (Inr refused, g)
     | Inr index \<Rightarrow>
         if \<not> commit_progress then (Inr (allow ''predicted_lift'' (Some index)), g)
         else
           guard (joint_sequence g = None \<or> joint_source_stamp_ns g = None) AssertionError g
           (if path_jumped source_ns sq index g then
              (Inr ((deny ''lift path changed without a new joint source sample'')\<lparr> path_index := Some index \<rparr>), g)
            else
              (Inr (allow ''predicted_lift'' (Some index)),
               g\<lparr> maximum_lift_path_index := max (maximum_lift_path_index g) index,
                  last_lift_path_index := Some index, last_path_joint_sequence := Some sq,
                  last_path_joint_source_stamp_ns := Some source_ns \<rparr>)))"

record evaluate_args =
  ev_now_s :: pyfloat
  ev_phase :: RuntimePhase
  ev_measured_joints :: "pyfloat list"
  ev_joint_seen_at_s :: pyfloat
  ev_joint_source_stamp_ns :: int
  ev_joint_sequence :: int
  ev_close_command_sent_at_s :: "pyfloat option"
  ev_close_acknowledged :: bool
  ev_execution_status_seen_at_s :: "pyfloat option"
  ev_lift_path :: "pyfloat list list"
  ev_lift_execution_active :: bool
  ev_lift_execution_completed :: bool
  ev_allow_loss_watermark_sample :: bool

text \<open>The checks of the CLOSING branch: the reason to refuse, if any.\<close>

definition closing_refusal ::
  "ExecutionOcclusionConfig \<Rightarrow> pyfloat \<Rightarrow> evaluate_args \<Rightarrow> ExecutionOcclusionGate \<Rightarrow> string option" where
  "closing_refusal c now a g =
     (case max_error (ev_measured_joints a) (near_contact_joints g) of
        Inl e \<Rightarrow> Some (exn_text e)
      | Inr err \<Rightarrow>
          if near_contact_joint_tolerance_rad c < Fin err then
            Some ''arm moved away from the near-contact endpoint while closing''
          else (case ev_close_command_sent_at_s a of
              None \<Rightarrow> Some ''close command was not issued''
            | Some sent \<Rightarrow>
                let age = now - sent in
                if \<not> isfinite age \<or> age < 0 then Some ''close command time is invalid''
                else if ev_close_acknowledged a then
                  (if \<not> status_fresh c now (ev_execution_status_seen_at_s a)
                   then Some ''gripper close feedback is stale during occlusion'' else None)
                else if command_ack_timeout_s c < age then
                  Some ''gripper close acknowledgement timed out during occlusion''
                else None))"

definition evaluate_closing ::
  "ExecutionOcclusionConfig \<Rightarrow> pyfloat \<Rightarrow> ExecutionOcclusionDecision option \<Rightarrow> evaluate_args
     \<Rightarrow> ExecutionOcclusionGate \<Rightarrow> ExecutionOcclusionDecision gate_op" where
  "evaluate_closing c now jd a g =
     (case closing_refusal c now a g of
        Some why \<Rightarrow> (Inr (deny why), g)
      | None \<Rightarrow>
          (case jd of
             Some d \<Rightarrow> (Inr d, g)
           | None \<Rightarrow>
               obind (commit_joint_source (ev_joint_source_stamp_ns a) (ev_joint_sequence a) g)
                 (\<lambda>_ t. (Inr (allow ''predicted_closing'' None), t))))"

definition lift_refusal ::
  "ExecutionOcclusionConfig \<Rightarrow> pyfloat \<Rightarrow> evaluate_args \<Rightarrow> ExecutionOcclusionGate \<Rightarrow> string option" where
  "lift_refusal c now a g =
     (if contact_confirmed_at_s g = None then
        Some ''lift occlusion lacks measured contact or trajectory evidence''
      else (case lift_sent_at_s g of
          None \<Rightarrow> Some ''lift occlusion lacks measured contact or trajectory evidence''
        | Some sent \<Rightarrow>
            if now - sent < 0 then Some ''lift command time is in the future''
            else if ev_lift_execution_active a \<or> ev_lift_execution_completed a then
              (if \<not> status_fresh c now (ev_execution_status_seen_at_s a)
               then Some ''lift execution feedback is stale during occlusion'' else None)
            else if command_ack_timeout_s c < now - sent then
              Some ''lift execution acknowledgement timed out during occlusion''
            else None))"

text \<open>\<open>except (TypeError, ValueError)\<close> around a path decision.\<close>

fun path_malformed :: "ExecutionOcclusionDecision gate_op \<Rightarrow> ExecutionOcclusionDecision gate_op" where
  "path_malformed (Inl (ValueError _), g) = (Inr (deny ''lift path is malformed''), g)"
| "path_malformed r = r"

text \<open>The tail shared by LIFT and VERIFY: check the path, then the joint source, then commit both.\<close>

definition evaluate_path ::
  "ExecutionOcclusionConfig \<Rightarrow> ExecutionOcclusionDecision option \<Rightarrow> evaluate_args
     \<Rightarrow> ExecutionOcclusionGate \<Rightarrow> ExecutionOcclusionDecision gate_op" where
  "evaluate_path c jd a g =
     obind (path_malformed (lift_path_decision c (ev_measured_joints a) (ev_lift_path a)
              (ev_joint_source_stamp_ns a) (ev_joint_sequence a) False g)) (\<lambda>d t.
     if \<not> allowed d then (Inr d, t)
     else (case jd of
        Some j \<Rightarrow> (Inr j, t)
      | None \<Rightarrow>
          obind (commit_joint_source (ev_joint_source_stamp_ns a) (ev_joint_sequence a) t) (\<lambda>_ u.
          if ev_allow_loss_watermark_sample a then (Inr d, u)
          else path_malformed (lift_path_decision c (ev_measured_joints a) (ev_lift_path a)
                 (ev_joint_source_stamp_ns a) (ev_joint_sequence a) True u))))"

definition evaluate_lift ::
  "ExecutionOcclusionConfig \<Rightarrow> pyfloat \<Rightarrow> ExecutionOcclusionDecision option \<Rightarrow> evaluate_args
     \<Rightarrow> ExecutionOcclusionGate \<Rightarrow> ExecutionOcclusionDecision gate_op" where
  "evaluate_lift c now jd a g =
     (case lift_refusal c now a g of
        Some why \<Rightarrow> (Inr (deny why), g)
      | None \<Rightarrow> evaluate_path c jd a g)"

text \<open>
  In VERIFY an accepted path sample is reported with its own mode; the joint source's own
  decision is passed through.
\<close>

definition evaluate_verify ::
  "ExecutionOcclusionConfig \<Rightarrow> ExecutionOcclusionDecision option \<Rightarrow> evaluate_args
     \<Rightarrow> ExecutionOcclusionGate \<Rightarrow> ExecutionOcclusionDecision gate_op" where
  "evaluate_verify c jd a g =
     (if contact_confirmed_at_s g = None \<or> lift_completed_at_s g = None then
        (Inr (deny ''verification occlusion lacks completed lift evidence''), g)
      else
        obind (evaluate_path c jd a g) (\<lambda>d t.
          if allowed d \<and> jd = None then (Inr (allow ''predicted_verify'' (path_index d)), t)
          else (Inr d, t)))"

definition evaluate ::
  "ExecutionOcclusionConfig \<Rightarrow> evaluate_args \<Rightarrow> ExecutionOcclusionGate \<Rightarrow> ExecutionOcclusionDecision gate_op" where
  "evaluate c a g0 =
     (case gate_time (ev_now_s a) g0 of
        (Inl e, g) \<Rightarrow> (Inr (deny (exn_text e)), g)
      | (Inr now, g) \<Rightarrow>
          if armed_at_s g = None \<or> loss_at_s g = None then
            (Inr (deny ''predicted occlusion is not active''), g)
          else if window_over c now g then (Inr (deny ''predicted occlusion window expired''), g)
          else if \<not> joint_fresh c now (ev_joint_seen_at_s a) then
            (Inr (deny ''joint feedback is stale during occlusion''), g)
          else
            let jd = joint_source_decision c now (ev_joint_source_stamp_ns a) (ev_joint_sequence a)
                       (ev_allow_loss_watermark_sample a) g in
            if ev_phase a = CLOSING then evaluate_closing c now jd a g
            else if ev_phase a = LIFT then evaluate_lift c now jd a g
            else if ev_phase a = VERIFY then evaluate_verify c jd a g
            else (Inr (deny (''predicted occlusion is forbidden during '' @ phase_value (ev_phase a))), g))"

end
