(* ===== verification/Occlusion_Laws.thy ===== *)
theory Occlusion_Laws
  imports Occlusion_Gate Interfaces
begin

text \<open>
  The occlusion gate over whole sessions: the invariant from the arming on, the watermarks that
  only advance, the evidence behind every allowed prediction, and that a decision is always
  returned.
\<close>

section \<open>Clock and arming\<close>

lemma gate_time_cases:
  obtains (raised) e where "gate_time now g = (Inl e, g)"
  | (ok) x where "now = Fin x" "gate_time now g = (Inr (Fin x), g\<lparr> last_time_s := Some (Fin x) \<rparr>)"
      "\<And>t. last_time_s g = Some (Fin t) \<Longrightarrow> t \<le> x"
proof (cases "isfinite now \<and> \<not> (case last_time_s g of None \<Rightarrow> False | Some t \<Rightarrow> now < t)")
  case True
  then obtain x where "now = Fin x" by (auto simp: isfinite_iff)
  with True show ?thesis by (intro ok [of x]) (auto simp: gate_time_def guard_def not_less)
next
  case False
  then have "\<exists>e. gate_time now g = (Inl e, g)" by (auto simp: gate_time_def guard_def)
  then show ?thesis using raised by blast
qed

lemma fresh_within_Fin [simp]:
  "fresh_within (Fin b) (Fin n) (Fin s) \<longleftrightarrow> s \<le> n \<and> n - s \<le> b"
  by (auto simp: fresh_within_def)

lemma fresh_within_finite: "fresh_within (Fin b) now (Fin s) \<Longrightarrow> isfinite now"
  unfolding fresh_within_def using fresh_imp_finite by blast

text \<open>A valid configuration, with its values.\<close>

lemma occlusion_config_values:
  assumes "occlusion_config_post_init c = Inr ()"
  obtains d ja sa ak nc lp where
    "max_duration_s c = Fin d" "0 < d" "d \<le> 3" "joint_state_max_age_s c = Fin ja" "0 < ja"
    "execution_status_max_age_s c = Fin sa" "0 < sa" "command_ack_timeout_s c = Fin ak" "0 < ak" "ak < d"
    "near_contact_joint_tolerance_rad c = Fin nc" "0 < nc"
    "lift_path_joint_tolerance_rad c = Fin lp" "0 < lp" "0 \<le> max_path_regression_samples c"
  using assms
  by (auto simp: occlusion_config_post_init_def MAX_EXECUTION_OCCLUSION_DURATION_S_def isfinite_iff not_less not_le)

section \<open>Sessions\<close>

text \<open>
  A session starts when the gate is armed; these are the calls made in it. The armed time and the
  near-contact geometry are set once, by the arming.
\<close>

datatype gate_event =
    GvRetain observation_args | GvLoss pyfloat int int | GvRestored pyfloat observation_args
  | GvContact pyfloat | GvLiftSent pyfloat | GvLiftCompleted pyfloat | GvEvaluate evaluate_args

fun gate_step :: "ExecutionOcclusionConfig \<Rightarrow> ExecutionOcclusionGate \<Rightarrow> gate_event \<Rightarrow> ExecutionOcclusionGate" where
  "gate_step c g (GvRetain o1) = snd (retain_exact_observation o1 g)"
| "gate_step c g (GvLoss now ns sq) = snd (mark_loss c now ns sq g)"
| "gate_step c g (GvRestored now o1) = snd (tracking_restored c now o1 g)"
| "gate_step c g (GvContact now) = snd (confirm_contact c now g)"
| "gate_step c g (GvLiftSent now) = snd (note_lift_sent c now g)"
| "gate_step c g (GvLiftCompleted now) = snd (note_lift_completed c now g)"
| "gate_step c g (GvEvaluate a) = snd (evaluate c a g)"

text \<open>What a call of a session keeps or only advances.\<close>

definition advances :: "ExecutionOcclusionGate \<Rightarrow> ExecutionOcclusionGate \<Rightarrow> bool" where
  "advances g h \<longleftrightarrow>
     armed_at_s h = armed_at_s g \<and> near_contact_joints h = near_contact_joints g \<and>
     joint_sequence g \<le> joint_sequence h \<and> joint_source_stamp_ns g \<le> joint_source_stamp_ns h \<and>
     observation_serial g \<le> observation_serial h \<and> observation_stamp_ns g \<le> observation_stamp_ns h \<and>
     maximum_lift_path_index g \<le> maximum_lift_path_index h"

definition session_inv :: "real \<Rightarrow> ExecutionOcclusionGate \<Rightarrow> bool" where
  "session_inv t0 g \<longleftrightarrow>
     armed_at_s g = Some (Fin t0) \<and> (\<exists>t. last_time_s g = Some (Fin t) \<and> t0 \<le> t) \<and>
     observation_serial g \<noteq> None \<and> observation_stamp_ns g \<noteq> None \<and>
     joint_sequence g \<noteq> None \<and> joint_source_stamp_ns g \<noteq> None \<and>
     (loss_at_s g \<noteq> None \<longrightarrow>
        loss_observation_serial g = observation_serial g \<and>
        loss_observation_stamp_ns g = observation_stamp_ns g \<and>
        loss_joint_sequence g \<noteq> None \<and> loss_joint_source_stamp_ns g \<noteq> None)"

lemma advances_refl [simp]: "advances g g"
  by (simp add: advances_def)

lemma advances_trans: "advances g h \<Longrightarrow> advances h k \<Longrightarrow> advances g k"
  unfolding advances_def by (metis order_trans)

lemma session_inv_time [simp]:
  "session_inv t0 g \<Longrightarrow> (\<And>t. last_time_s g = Some (Fin t) \<Longrightarrow> t \<le> x) \<Longrightarrow>
   session_inv t0 (g\<lparr> last_time_s := Some (Fin x) \<rparr>)"
  by (auto simp: session_inv_def)

lemma advances_time [simp]: "advances g (h\<lparr> last_time_s := t \<rparr>) = advances g h"
  "advances (g\<lparr> last_time_s := t \<rparr>) h = advances g h"
  by (simp_all add: advances_def)

definition keeps :: "real \<Rightarrow> ExecutionOcclusionGate \<Rightarrow> ExecutionOcclusionGate \<Rightarrow> bool" where
  "keeps t0 g h \<longleftrightarrow> session_inv t0 h \<and> advances g h"

lemma keeps_guard [intro]:
  "session_inv t0 g \<Longrightarrow> (\<not> b \<Longrightarrow> keeps t0 g (snd k)) \<Longrightarrow> keeps t0 g (snd (guard b e g k))"
  by (simp add: guard_def keeps_def)

lemma keeps_timed:
  assumes "session_inv t0 g"
    and "\<And>x. now = Fin x \<Longrightarrow> session_inv t0 (g\<lparr> last_time_s := Some (Fin x) \<rparr>) \<Longrightarrow>
      keeps t0 (g\<lparr> last_time_s := Some (Fin x) \<rparr>) (snd (f (Fin x) (g\<lparr> last_time_s := Some (Fin x) \<rparr>)))"
  shows "keeps t0 g (snd (obind (gate_time now g) f))"
  using assms by (cases rule: gate_time_cases [of now g]) (auto simp: keeps_def)

lemma commit_joint_source_keeps:
  "session_inv t0 g \<Longrightarrow> keeps t0 g (snd (commit_joint_source ns sq g))"
  by (auto simp: commit_joint_source_def guard_def Let_def keeps_def session_inv_def advances_def
      strictly_newer_pair_def)

lemma lift_path_decision_keeps:
  assumes "session_inv t0 g" shows "keeps t0 g (snd (lift_path_decision c m p ns sq b g))"
proof (cases "lift_path_index c m p g")
  case (Inl e)
  then show ?thesis using assms by (simp add: lift_path_decision_def keeps_def)
next
  case (Inr r)
  then show ?thesis using assms
    by (cases r) (auto simp: lift_path_decision_def guard_def keeps_def session_inv_def advances_def)
qed

lemma snd_path_malformed [simp]: "snd (path_malformed r) = snd r"
  by (cases r rule: path_malformed.cases) auto

lemma keeps_obind:
  assumes "keeps t0 g (snd r)" and "\<And>v h. r = (Inr v, h) \<Longrightarrow> keeps t0 g h \<Longrightarrow> keeps t0 h (snd (f v h))"
  shows "keeps t0 g (snd (obind r f))"
  using assms by (cases r; cases "fst r") (auto simp: keeps_def dest: advances_trans)

lemma evaluate_path_keeps:
  assumes "session_inv t0 g" shows "keeps t0 g (snd (evaluate_path c jd a g))"
  unfolding evaluate_path_def
proof (rule keeps_obind)
  show "keeps t0 g (snd (path_malformed (lift_path_decision c (ev_measured_joints a) (ev_lift_path a)
         (ev_joint_source_stamp_ns a) (ev_joint_sequence a) False g)))"
    using lift_path_decision_keeps [OF assms] by simp
next
  fix d h assume "keeps t0 g h"
  then have h: "session_inv t0 h" by (simp add: keeps_def)
  have "keeps t0 h (snd (obind (commit_joint_source (ev_joint_source_stamp_ns a) (ev_joint_sequence a) h)
     (\<lambda>_ u. if ev_allow_loss_watermark_sample a then (Inr d, u)
          else path_malformed (lift_path_decision c (ev_measured_joints a) (ev_lift_path a)
                 (ev_joint_source_stamp_ns a) (ev_joint_sequence a) True u))))"
    by (rule keeps_obind [OF commit_joint_source_keeps [OF h]])
      (auto simp: keeps_def intro: lift_path_decision_keeps [unfolded keeps_def, THEN conjunct1] lift_path_decision_keeps [unfolded keeps_def, THEN conjunct2])
  then show "keeps t0 h (snd (if \<not> allowed d then (Inr d, h) else
      (case jd of Some j \<Rightarrow> (Inr j, h) | None \<Rightarrow>
          obind (commit_joint_source (ev_joint_source_stamp_ns a) (ev_joint_sequence a) h) (\<lambda>_ u.
          if ev_allow_loss_watermark_sample a then (Inr d, u)
          else path_malformed (lift_path_decision c (ev_measured_joints a) (ev_lift_path a)
                 (ev_joint_source_stamp_ns a) (ev_joint_sequence a) True u)))))"
    using h by (simp add: keeps_def split: option.split)
qed


lemma evaluate_closing_keeps:
  assumes "session_inv t0 g" shows "keeps t0 g (snd (evaluate_closing c now jd a g))"
  using commit_joint_source_keeps [OF assms, of "ev_joint_source_stamp_ns a" "ev_joint_sequence a"] assms
  by (cases "closing_refusal c now a g"; cases jd)
    (auto simp: evaluate_closing_def keeps_def intro!: keeps_obind [unfolded keeps_def])

lemma evaluate_keeps:
  assumes "session_inv t0 g" shows "keeps t0 g (snd (evaluate c a g))"
proof (cases rule: gate_time_cases [of "ev_now_s a" g])
  case (raised e)
  then show ?thesis using assms by (simp add: evaluate_def keeps_def)
next
  case (ok x)
  let ?g = "g\<lparr> last_time_s := Some (Fin x) \<rparr>"
  have i: "session_inv t0 ?g" using assms ok(3) by simp
  have v: "keeps t0 ?g (snd (evaluate_verify c jd a ?g))" for jd
    unfolding evaluate_verify_def using i evaluate_path_keeps [OF i]
    by (auto simp: keeps_def intro!: keeps_obind [unfolded keeps_def])
  have l: "keeps t0 ?g (snd (evaluate_lift c now jd a ?g))" for now jd
    using i evaluate_path_keeps [OF i] by (simp add: evaluate_lift_def keeps_def split: option.split)
  have "keeps t0 ?g (snd (evaluate c a g))"
    using v l evaluate_closing_keeps [OF i] i ok by (simp add: evaluate_def Let_def keeps_def)
  then show ?thesis by (simp add: keeps_def)
qed

lemma gate_step_keeps:
  assumes "session_inv t0 g" shows "keeps t0 g (gate_step c g e)"
proof (cases e)
  case (GvRetain o1)
  then show ?thesis using assms
    by (cases "observation_identity (oa_observation_serial o1) (oa_observation_stamp_ns o1)")
      (auto simp: retain_exact_observation_def guard_def keeps_def session_inv_def advances_def
        strictly_newer_pair_def split: if_split_asm)
next
  case (GvLoss now ns sq)
  have "keeps t0 g (snd (mark_loss c now ns sq g))"
    unfolding mark_loss_def
    by (rule keeps_timed [OF assms]; cases "joint_source_identity sq ns")
      (auto simp: guard_def keeps_def session_inv_def advances_def strictly_newer_pair_def same_pair_def)
  then show ?thesis using GvLoss by simp
next
  case (GvRestored now o1)
  have "keeps t0 g (snd (tracking_restored c now o1 g))"
    unfolding tracking_restored_def
    by (rule keeps_timed [OF assms]; cases "observation_identity (oa_observation_serial o1) (oa_observation_stamp_ns o1)")
      (auto simp: guard_def keeps_def session_inv_def advances_def strictly_newer_pair_def)
  then show ?thesis using GvRestored by simp
next
  case (GvContact now)
  have "keeps t0 g (snd (confirm_contact c now g))"
    unfolding confirm_contact_def
    by (rule keeps_timed [OF assms]) (auto simp: guard_def keeps_def session_inv_def advances_def)
  then show ?thesis using GvContact by simp
next
  case (GvLiftSent now)
  have "keeps t0 g (snd (note_lift_sent c now g))"
    unfolding note_lift_sent_def
    by (rule keeps_timed [OF assms]) (auto simp: guard_def keeps_def session_inv_def advances_def)
  then show ?thesis using GvLiftSent by simp
next
  case (GvLiftCompleted now)
  have "keeps t0 g (snd (note_lift_completed c now g))"
    unfolding note_lift_completed_def
    by (rule keeps_timed [OF assms]) (auto simp: guard_def keeps_def session_inv_def advances_def)
  then show ?thesis using GvLiftCompleted by simp
qed (simp add: evaluate_keeps [OF assms])


interpretation gate: invariant_machine "gate_step c" "session_inv t0" for c t0
  by unfold_locales (use gate_step_keeps in \<open>simp add: keeps_def\<close>)

interpretation gate_joint_seq: watermark "gate_step c" "session_inv t0" joint_sequence for c t0
  by unfold_locales (use gate_step_keeps in \<open>simp add: keeps_def advances_def\<close>)

interpretation gate_joint_stamp: watermark "gate_step c" "session_inv t0" joint_source_stamp_ns for c t0
  by unfold_locales (use gate_step_keeps in \<open>simp add: keeps_def advances_def\<close>)

interpretation gate_serial: watermark "gate_step c" "session_inv t0" observation_serial for c t0
  by unfold_locales (use gate_step_keeps in \<open>simp add: keeps_def advances_def\<close>)

interpretation gate_progress: watermark "gate_step c" "session_inv t0" maximum_lift_path_index for c t0
  by unfold_locales (use gate_step_keeps in \<open>simp add: keeps_def advances_def\<close>)

lemma arm_near_contact_inv:
  assumes "occlusion_config_post_init c = Inr ()" and "arm_near_contact c a g0 = (Inr (), g)"
  shows "\<exists>t0. aa_now_s a = Fin t0 \<and> session_inv t0 g"
proof -
  obtain ja where ja: "joint_state_max_age_s c = Fin ja" using assms(1) by (rule occlusion_config_values)
  have "fresh_within (Fin ja) (aa_now_s a) (Fin (ns_to_s (aa_joint_source_stamp_ns a)))"
    using assms(2) ja by (auto simp: arm_near_contact_def observation_identity_def joint_source_identity_def)
  then obtain t0 where "aa_now_s a = Fin t0" using fresh_within_finite isfinite_iff by blast
  with assms(2) show ?thesis
    by (auto simp: arm_near_contact_def session_inv_def occlusion_reset_def split: prod.splits)
qed

section \<open>What an allowed decision rests on\<close>

lemma joint_source_decision_None:
  assumes "joint_source_decision c now ns sq b g = None"
  shows "fresh_within (joint_state_max_age_s c) now (Fin (ns_to_s ns)) \<and>
    loss_joint_sequence g \<noteq> None \<and> loss_joint_source_stamp_ns g \<noteq> None \<and>
    joint_sequence g \<noteq> None \<and> joint_source_stamp_ns g \<noteq> None"
  using assms by (auto simp: joint_source_decision_def joint_source_identity_def raise_if_def split: if_splits)

lemma joint_source_decision_allowed:
  assumes "joint_source_decision c now ns sq b g = Some d" and "allowed d"
  shows "fresh_within (joint_state_max_age_s c) now (Fin (ns_to_s ns)) \<and> path_index d = None"
  using assms
  by (auto simp: joint_source_decision_def joint_source_identity_def raise_if_def deny_def allow_def Let_def
      split: if_splits)

lemma allowed_deny [simp]: "\<not> allowed (deny w)" "\<not> allowed (deny w\<lparr> path_index := i \<rparr>)"
  and allowed_allow [simp]: "allowed (allow m i)" "path_index (allow m i) = i"
  by (simp_all add: deny_def allow_def)

lemma first_argmin_min: "ds \<noteq> [] \<Longrightarrow> first_argmin ds < length ds \<and> (\<forall>d \<in> set ds. ds ! first_argmin ds \<le> d)"
  by (induction ds rule: first_argmin.induct) (auto simp: Let_def)

lemma max_abs_diff_le:
  assumes "length xs = length ys" "i < length xs" shows "\<bar>xs ! i - ys ! i\<bar> \<le> max_abs_diff xs ys"
  unfolding max_abs_diff_def
  by (rule Max_ge) (use assms in \<open>auto simp: set_zip intro!: image_eqI [of _ _ "(xs ! i, ys ! i)"]\<close>)

lemma joint_rows_nth:
  "joint_rows p = Inr rows \<Longrightarrow> length rows = length p \<and> (\<forall>i < length p. p ! i = map Fin (rows ! i))"
proof (induction p arbitrary: rows)
  case (Cons row rest)
  have "list_all isfinite row \<Longrightarrow> map (Fin \<circ> the_fin) row = row"
    by (induction row) (auto simp: isfinite_iff)
  with Cons show ?case by (auto simp: joint_vector_def nth_Cons split: nat.split)
qed simp

text \<open>The measured arm is at a sample of the path, within tolerance in every joint.\<close>

definition on_path ::
  "ExecutionOcclusionConfig \<Rightarrow> pyfloat list \<Rightarrow> pyfloat list list \<Rightarrow> nat \<Rightarrow> bool" where
  "on_path c m p i \<longleftrightarrow> i < length p \<and> length (p ! i) = length m \<and>
     (\<forall>k < length m. \<bar>m ! k - p ! i ! k\<bar> \<le> lift_path_joint_tolerance_rad c)"

lemma lift_path_index_ok:
  assumes "lift_path_index c m p g = Inr (Inr i)" and tol: "lift_path_joint_tolerance_rad c = Fin tol"
  shows "on_path c m p i \<and> int (maximum_lift_path_index g) \<le> int i + max_path_regression_samples c"
proof -
  from assms obtain rows ms where rows: "joint_rows p = Inr rows" and ms: "joint_vector m ''measured joints'' = Inr ms"
    and ln: "\<not> length rows < 2" "\<forall>row \<in> set rows. length row = length ms"
    and i: "i = first_argmin (map (max_abs_diff ms) rows)"
    and d: "map (max_abs_diff ms) rows ! i \<le> tol"
    and r: "int (maximum_lift_path_index g) \<le> int i + max_path_regression_samples c"
    by (auto simp: lift_path_index_def Let_def list_ex_iff not_less split: if_splits)
  have m: "m = map Fin ms"
  proof -
    have "list_all isfinite m \<Longrightarrow> map (Fin \<circ> the_fin) m = m" by (induction m) (auto simp: isfinite_iff)
    then show ?thesis using ms by (auto simp: joint_vector_def)
  qed
  have "rows \<noteq> []" using ln(1) by auto
  then have il: "i < length rows" using first_argmin_min [of "map (max_abs_diff ms) rows"] i by simp
  then have w: "length (rows ! i) = length ms" and e: "max_abs_diff ms (rows ! i) \<le> tol"
    using ln d by auto
  have "\<bar>m ! k - p ! i ! k\<bar> \<le> Fin tol" if "k < length ms" for k
    using joint_rows_nth [OF rows] il that w m max_abs_diff_le [of ms "rows ! i" k] e by simp
  then show ?thesis using joint_rows_nth [OF rows] il w m tol r by (simp add: on_path_def)
qed

lemma lift_path_decision_allowed:
  assumes "lift_path_decision c m p ns sq b g = (Inr d, h)" and "allowed d"
    and "lift_path_joint_tolerance_rad c = Fin tol"
  shows "\<exists>i. path_index d = Some i \<and> on_path c m p i \<and>
      int (maximum_lift_path_index g) \<le> int i + max_path_regression_samples c"
proof (cases "lift_path_index c m p g")
  case (Inl e)
  then show ?thesis using assms by (simp add: lift_path_decision_def)
next
  case (Inr r)
  show ?thesis
  proof (cases r)
    case (Inl refused)
    then have "\<not> allowed refused"
      using \<open>lift_path_index c m p g = Inr r\<close>
      by (auto simp: lift_path_index_def Let_def split: if_splits)
    then show ?thesis using assms Inr Inl by (simp add: lift_path_decision_def)
  next
    case (Inr i)
    then have "path_index d = Some i"
      using assms \<open>lift_path_index c m p g = Inr r\<close>
      by (auto simp: lift_path_decision_def guard_def split: if_splits)
    then show ?thesis using lift_path_index_ok [OF _ assms(3), of m p g i] Inr \<open>lift_path_index c m p g = Inr r\<close>
      by simp
  qed
qed

lemma path_malformed_allowed:
  "path_malformed r = (Inr d, h) \<Longrightarrow> allowed d \<Longrightarrow> r = (Inr d, h)"
  by (cases r rule: path_malformed.cases) auto

lemma evaluate_path_allowed:
  assumes "evaluate_path c jd a g = (Inr d, h)" and "allowed d"
    and "lift_path_joint_tolerance_rad c = Fin tol"
  shows "\<exists>i. on_path c (ev_measured_joints a) (ev_lift_path a) i \<and>
     int (maximum_lift_path_index g) \<le> int i + max_path_regression_samples c \<and>
     (jd = None \<longrightarrow> path_index d = Some i) \<and> (jd \<noteq> None \<longrightarrow> jd = Some d)"
proof -
  note tol = assms(3)
  let ?m = "ev_measured_joints a" and ?p = "ev_lift_path a"
  let ?ns = "ev_joint_source_stamp_ns a" and ?sq = "ev_joint_sequence a"
  from assms(1) obtain d1 t where p1: "path_malformed (lift_path_decision c ?m ?p ?ns ?sq False g) = (Inr d1, t)"
    and rest: "(if \<not> allowed d1 then (Inr d1, t)
     else (case jd of
        Some j \<Rightarrow> (Inr j, t)
      | None \<Rightarrow>
          obind (commit_joint_source ?ns ?sq t) (\<lambda>_ u.
          if ev_allow_loss_watermark_sample a then (Inr d1, u)
          else path_malformed (lift_path_decision c ?m ?p ?ns ?sq True u)))) = (Inr d, h)"
    unfolding evaluate_path_def obind_Inr_iff by blast
  have a1: "allowed d1" using rest assms(2) by (auto split: if_splits)
  then have l1: "lift_path_decision c ?m ?p ?ns ?sq False g = (Inr d1, t)" using p1 path_malformed_allowed by blast
  then have t: "t = g"
    by (cases "lift_path_index c ?m ?p g") (auto simp: lift_path_decision_def split: sum.split_asm)
  from lift_path_decision_allowed [OF l1 a1 tol] obtain i where
    i: "path_index d1 = Some i" "on_path c ?m ?p i"
       "int (maximum_lift_path_index g) \<le> int i + max_path_regression_samples c" by blast
  show ?thesis
  proof (cases jd)
    case (Some j)
    then show ?thesis using rest a1 i by auto
  next
    case None
    then obtain u where cu: "commit_joint_source ?ns ?sq g = (Inr (), u)"
      and r: "(if ev_allow_loss_watermark_sample a then (Inr d1, u)
          else path_malformed (lift_path_decision c ?m ?p ?ns ?sq True u)) = (Inr d, h)"
      using rest a1 t by auto
    have mu: "maximum_lift_path_index u = maximum_lift_path_index g"
      using cu by (auto simp: commit_joint_source_def Let_def)
    show ?thesis
    proof (cases "ev_allow_loss_watermark_sample a")
      case True
      then show ?thesis using r i None by auto
    next
      case False
      then have "lift_path_decision c ?m ?p ?ns ?sq True u = (Inr d, h)"
        using r assms(2) path_malformed_allowed by simp
      from lift_path_decision_allowed [OF this assms(2) tol] show ?thesis using None mu by auto
    qed
  qed
qed

text \<open>The evidence behind an allowed prediction, by phase.\<close>

definition phase_evidence ::
  "ExecutionOcclusionConfig \<Rightarrow> evaluate_args \<Rightarrow> ExecutionOcclusionGate \<Rightarrow> bool" where
  "phase_evidence c a g \<longleftrightarrow>
     (case ev_phase a of
        CLOSING \<Rightarrow> ev_close_command_sent_at_s a \<noteq> None \<and>
          length (ev_measured_joints a) = length (near_contact_joints g) \<and>
          (\<forall>k < length (ev_measured_joints a).
             \<bar>ev_measured_joints a ! k - Fin (near_contact_joints g ! k)\<bar> \<le> near_contact_joint_tolerance_rad c)
      | LIFT \<Rightarrow> contact_confirmed_at_s g \<noteq> None \<and> lift_sent_at_s g \<noteq> None \<and>
          (\<exists>i. on_path c (ev_measured_joints a) (ev_lift_path a) i \<and>
               int (maximum_lift_path_index g) \<le> int i + max_path_regression_samples c)
      | VERIFY \<Rightarrow> contact_confirmed_at_s g \<noteq> None \<and> lift_completed_at_s g \<noteq> None \<and>
          (\<exists>i. on_path c (ev_measured_joints a) (ev_lift_path a) i \<and>
               int (maximum_lift_path_index g) \<le> int i + max_path_regression_samples c)
      | _ \<Rightarrow> False)"

lemma closing_evidence:
  assumes "closing_refusal c now a g = None" and tol: "near_contact_joint_tolerance_rad c = Fin tol"
    and "ev_phase a = CLOSING"
  shows "phase_evidence c a g"
proof -
  let ?m = "ev_measured_joints a" and ?n = "near_contact_joints g"
  from assms obtain err where e: "max_error ?m ?n = Inr err" "err \<le> tol" "ev_close_command_sent_at_s a \<noteq> None"
    by (auto simp: closing_refusal_def split: sum.splits option.splits if_splits)
  then have m: "length ?m = length ?n" "err = max_abs_diff (map the_fin ?m) ?n" "list_all isfinite ?m"
    by (auto simp: max_error_def joint_vector_def comp_def)
  have "\<bar>?m ! k - Fin (?n ! k)\<bar> \<le> Fin tol" if "k < length ?m" for k
  proof -
    have "isfinite (?m ! k)" using m(3) that by (simp add: list_all_length)
    then obtain x where "?m ! k = Fin x" by (auto simp: isfinite_iff)
    then show ?thesis using max_abs_diff_le [of "map the_fin ?m" ?n k] m that e by simp
  qed
  then show ?thesis using assms(3) e m tol by (simp add: phase_evidence_def)
qed

lemma closing_allowed:
  assumes "evaluate_closing c now jd a g = (Inr d, h)" and "allowed d"
    and tol: "near_contact_joint_tolerance_rad c = Fin tol" and ph: "ev_phase a = CLOSING"
  shows "(jd = None \<or> jd = Some d) \<and> phase_evidence c a g"
proof -
  have "closing_refusal c now a g = None" "jd = None \<or> jd = Some d"
    using assms by (auto simp: evaluate_closing_def split: option.splits)
  then show ?thesis using closing_evidence [OF _ tol ph] by simp
qed

lemma lift_allowed:
  assumes "evaluate_lift c now jd a g = (Inr d, h)" and "allowed d"
    and tol: "lift_path_joint_tolerance_rad c = Fin tol" and ph: "ev_phase a = LIFT"
  shows "(jd = None \<or> jd = Some d) \<and> phase_evidence c a g"
proof -
  have r: "lift_refusal c now a g = None" and p: "evaluate_path c jd a g = (Inr d, h)"
    using assms by (auto simp: evaluate_lift_def split: option.splits)
  have "contact_confirmed_at_s g \<noteq> None" "lift_sent_at_s g \<noteq> None"
    using r by (auto simp: lift_refusal_def split: option.splits if_splits)
  with evaluate_path_allowed [OF p assms(2) tol] ph show ?thesis
    by (auto simp: phase_evidence_def)
qed

lemma verify_allowed:
  assumes "evaluate_verify c jd a g = (Inr d, h)" and "allowed d"
    and tol: "lift_path_joint_tolerance_rad c = Fin tol" and ph: "ev_phase a = VERIFY"
  shows "(jd = None \<or> jd = Some d) \<and> phase_evidence c a g"
proof -
  have e: "contact_confirmed_at_s g \<noteq> None" "lift_completed_at_s g \<noteq> None"
    and p: "\<exists>d'. evaluate_path c jd a g = (Inr d', h) \<and> allowed d' \<and> (jd \<noteq> None \<longrightarrow> d = d')"
    using assms by (auto simp: evaluate_verify_def split: if_splits)
  from p obtain d' where "evaluate_path c jd a g = (Inr d', h)" "allowed d'" "jd \<noteq> None \<longrightarrow> d = d'" by blast
  with evaluate_path_allowed [OF _ _ tol, of jd a g d' h] e ph show ?thesis
    by (auto simp: phase_evidence_def)
qed

lemma evaluate_allowed:
  assumes cfg: "occlusion_config_post_init c = Inr ()" and inv: "session_inv t0 g"
    and ev: "evaluate c a g = (Inr d, h)" and al: "allowed d"
  shows "\<exists>now dur age. ev_now_s a = Fin now \<and> t0 \<le> now \<and> now \<le> t0 + dur \<and> max_duration_s c = Fin dur \<and>
     loss_at_s g \<noteq> None \<and> joint_state_max_age_s c = Fin age \<and>
     ns_to_s (ev_joint_source_stamp_ns a) \<le> now \<and> now - ns_to_s (ev_joint_source_stamp_ns a) \<le> age \<and>
     phase_evidence c a g"
proof -
  obtain dur age nc lp where c: "max_duration_s c = Fin dur" "joint_state_max_age_s c = Fin age"
    "near_contact_joint_tolerance_rad c = Fin nc" "lift_path_joint_tolerance_rad c = Fin lp"
    using cfg by (rule occlusion_config_values)
  show ?thesis
  proof (cases rule: gate_time_cases [of "ev_now_s a" g])
    case (raised e)
    then show ?thesis using ev al by (auto simp: evaluate_def)
  next
    case (ok x)
    let ?g = "g\<lparr> last_time_s := Some (Fin x) \<rparr>"
    let ?jd = "joint_source_decision c (Fin x) (ev_joint_source_stamp_ns a) (ev_joint_sequence a)
                (ev_allow_loss_watermark_sample a) ?g"
    from inv ok(3) have t0: "armed_at_s g = Some (Fin t0)" "t0 \<le> x"
      by (auto simp: session_inv_def)
    from ev ok al have pre: "loss_at_s g \<noteq> None" "\<not> window_over c (Fin x) ?g"
      and br: "(if ev_phase a = CLOSING then evaluate_closing c (Fin x) ?jd a ?g
            else if ev_phase a = LIFT then evaluate_lift c (Fin x) ?jd a ?g
            else if ev_phase a = VERIFY then evaluate_verify c ?jd a ?g
            else (Inr (deny (''predicted occlusion is forbidden during '' @ phase_value (ev_phase a))), ?g)) = (Inr d, h)"
      by (auto simp: evaluate_def Let_def split: if_splits)
    have w: "x \<le> t0 + dur" using pre t0 c by (simp add: window_over_def)
    have jd: "(?jd = None \<or> ?jd = Some d) \<and> phase_evidence c a ?g"
      using br al closing_allowed [OF _ _ c(3)] lift_allowed [OF _ _ c(4)] verify_allowed [OF _ _ c(4)]
      by (auto split: if_splits)
    have fr: "ns_to_s (ev_joint_source_stamp_ns a) \<le> x" "x - ns_to_s (ev_joint_source_stamp_ns a) \<le> age"
      using joint_source_decision_None joint_source_decision_allowed al c jd
      by (metis fresh_within_Fin)+
    from jd have "phase_evidence c a g" by (simp add: phase_evidence_def cong: RuntimePhase.case_cong)
    then show ?thesis using ok t0 w pre c fr by auto
  qed
qed

section \<open>The decision is total\<close>

lemma lift_path_decision_raises:
  assumes "lift_path_decision c m p ns sq b g = (Inl e, h)"
    and "b \<longrightarrow> joint_sequence g \<noteq> None \<and> joint_source_stamp_ns g \<noteq> None"
  shows "\<exists>w. e = ValueError w"
proof -
  have v: "\<exists>w. e = ValueError w" if "joint_vector vs l = Inl e" for vs l e
    using that by (auto simp: joint_vector_def raise_if_def split: if_splits)
  have r: "\<exists>w. e = ValueError w" if "joint_rows q = Inl e" for q e
    using that
  proof (induction q)
    case (Cons row rest)
    then show ?case
      by (cases "joint_vector row ''lift path row''"; cases "joint_rows rest") (auto dest: v)
  qed simp
  have i: "\<exists>w. e = ValueError w" if "lift_path_index c m p g = Inl e" for e
    using that
    by (cases "joint_rows p"; cases "joint_vector m ''measured joints''")
      (auto simp: lift_path_index_def Let_def dest: r v split: if_splits)
  show ?thesis
  proof (cases "lift_path_index c m p g")
    case (Inl e')
    then show ?thesis using assms i by (simp add: lift_path_decision_def)
  next
    case (Inr r)
    then show ?thesis using assms by (cases r) (auto simp: lift_path_decision_def guard_def split: if_splits)
  qed
qed

lemma path_malformed_total:
  assumes "b \<longrightarrow> joint_sequence g \<noteq> None \<and> joint_source_stamp_ns g \<noteq> None"
  shows "\<exists>d h. path_malformed (lift_path_decision c m p ns sq b g) = (Inr d, h)"
proof (cases "lift_path_decision c m p ns sq b g")
  case (Pair r h)
  then show ?thesis using lift_path_decision_raises [of c m p ns sq b g _ h] assms by (cases r) auto
qed

lemma commit_joint_source_total:
  "joint_source_decision c now ns sq b g = None \<Longrightarrow>
   \<exists>h. commit_joint_source ns' sq' g = (Inr (), h) \<and> joint_sequence h \<noteq> None \<and> joint_source_stamp_ns h \<noteq> None"
  using joint_source_decision_None [of c now ns sq b g]
  by (auto simp: commit_joint_source_def guard_def Let_def)

lemma evaluate_path_total:
  assumes "\<And>x. jd = None \<Longrightarrow> \<exists>now ns sq b. joint_source_decision c now ns sq b g = None"
  shows "\<exists>d h. evaluate_path c jd a g = (Inr d, h)"
proof -
  let ?L = "\<lambda>b. lift_path_decision c (ev_measured_joints a) (ev_lift_path a) (ev_joint_source_stamp_ns a)
       (ev_joint_sequence a) b"
  obtain d t where p1: "path_malformed (?L False g) = (Inr d, t)" using path_malformed_total [of False g] by blast
  have "snd (?L False g) = g"
    by (cases "lift_path_index c (ev_measured_joints a) (ev_lift_path a) g")
      (auto simp: lift_path_decision_def split: sum.split)
  then have t: "t = g" using arg_cong [OF p1, of snd] by simp
  show ?thesis
  proof (cases jd)
    case (Some j)
    then show ?thesis using p1 by (simp add: evaluate_path_def)
  next
    case None
    then obtain u where "commit_joint_source (ev_joint_source_stamp_ns a) (ev_joint_sequence a) g = (Inr (), u)"
      "joint_sequence u \<noteq> None" "joint_source_stamp_ns u \<noteq> None"
      using assms commit_joint_source_total by metis
    then show ?thesis using p1 t None path_malformed_total [of True u] by (auto simp: evaluate_path_def)
  qed
qed

lemma evaluate_total: "\<exists>d. fst (evaluate c a g0) = Inr d"
proof (cases rule: gate_time_cases [of "ev_now_s a" g0])
  case (raised e)
  then show ?thesis by (simp add: evaluate_def)
next
  case (ok x)
  let ?g = "g0\<lparr> last_time_s := Some (Fin x) \<rparr>"
  let ?jd = "joint_source_decision c (Fin x) (ev_joint_source_stamp_ns a) (ev_joint_sequence a)
                (ev_allow_loss_watermark_sample a) ?g"
  have p: "\<exists>d h. evaluate_path c ?jd a ?g = (Inr d, h)" by (rule evaluate_path_total) blast
  have "\<exists>d. fst (evaluate_closing c (Fin x) ?jd a ?g) = Inr d"
  proof (cases ?jd)
    case None
    from commit_joint_source_total [OF this] obtain h where
      "commit_joint_source (ev_joint_source_stamp_ns a) (ev_joint_sequence a) ?g = (Inr (), h)" by blast
    then show ?thesis using None by (simp add: evaluate_closing_def split: option.split)
  qed (simp add: evaluate_closing_def split: option.split)
  moreover have "\<exists>d. fst (evaluate_lift c (Fin x) ?jd a ?g) = Inr d"
    using p by (auto simp: evaluate_lift_def split: option.split)
  moreover have "\<exists>d. fst (evaluate_verify c ?jd a ?g) = Inr d"
    using p by (auto simp: evaluate_verify_def)
  ultimately show ?thesis using ok by (simp add: evaluate_def Let_def)
qed


section \<open>A sample session\<close>

definition demo_arm_args :: arm_args where
  "demo_arm_args =
     \<lparr> aa_now_s = Fin 100, aa_exact_authorized = True, aa_request_id = ''r1'', aa_producer_epoch = ''p1'',
       aa_generation = 1, aa_observation_serial = 4, aa_observation_stamp_ns = 99800000000,
       aa_observation_frame_id = ''base'', aa_measured_joints = [Fin (1 / 100), Fin 0],
       aa_approach_endpoint_joints = [Fin 0, Fin 0], aa_joint_seen_at_s = Fin (999 / 10),
       aa_joint_source_stamp_ns = 99900000000, aa_joint_sequence = 5 \<rparr>"

definition demo_eval :: evaluate_args where
  "demo_eval =
     \<lparr> ev_now_s = Fin (1006 / 10), ev_phase = CLOSING, ev_measured_joints = [Fin (1 / 100), Fin 0],
       ev_joint_seen_at_s = Fin (1005 / 10), ev_joint_source_stamp_ns = 100550000000,
       ev_joint_sequence = 7, ev_close_command_sent_at_s = Some (Fin (1004 / 10)),
       ev_close_acknowledged = False, ev_execution_status_seen_at_s = None, ev_lift_path = [],
       ev_lift_execution_active = False, ev_lift_execution_completed = False,
       ev_allow_loss_watermark_sample = False \<rparr>"

definition demo_gate :: ExecutionOcclusionGate where
  "demo_gate = snd (arm_near_contact default_occlusion_config demo_arm_args occlusion_reset)"

definition demo_gate_events :: "gate_event list" where
  "demo_gate_events = [GvLoss (Fin (1005 / 10)) 100450000000 6]"

lemma demo_config_ok: "occlusion_config_post_init default_occlusion_config = Inr ()" by code_simp

lemma demo_gate_armed: "arm_near_contact default_occlusion_config demo_arm_args occlusion_reset = (Inr (), demo_gate)"
proof -
  have "fst (arm_near_contact default_occlusion_config demo_arm_args occlusion_reset) = Inr ()" by code_simp
  then show ?thesis by (simp add: demo_gate_def prod_eq_iff)
qed

lemma demo_gate_allows:
  "\<exists>d h. evaluate default_occlusion_config demo_eval
        (foldl (gate_step default_occlusion_config) demo_gate demo_gate_events) = (Inr d, h) \<and> allowed d"
proof -
  let ?r = "evaluate default_occlusion_config demo_eval
        (foldl (gate_step default_occlusion_config) demo_gate demo_gate_events)"
  have "map_sum (\<lambda>_. ()) allowed (fst ?r) = Inr True" by code_simp
  then show ?thesis by (cases ?r; cases "fst ?r") auto
qed

section \<open>Properties\<close>

text \<open>C7: In a session, prediction without vision is allowed only within three seconds of the arming, whatever
  losses and restorations happened in between, while tracking is lost, for a joint sample of recent
  source time, and with the evidence of the phase: near the contact pose with a close command
  issued (CLOSING), after confirmed contact on the published lift path (LIFT), after the
  completed lift (VERIFY); in no other phase.\<close>

theorem occlusion_allowed_only_with_evidence:
  assumes "occlusion_config_post_init c = Inr ()" and "arm_near_contact c a g0 = (Inr (), g)"
    and "evaluate c ev (foldl (gate_step c) g es) = (Inr d, h)" and "allowed d"
  shows "\<exists>t0 now age. aa_now_s a = Fin t0 \<and> ev_now_s ev = Fin now \<and> t0 \<le> now \<and> now \<le> t0 + 3 \<and>
     loss_active (foldl (gate_step c) g es) \<and> joint_state_max_age_s c = Fin age \<and>
     ns_to_s (ev_joint_source_stamp_ns ev) \<le> now \<and> now - ns_to_s (ev_joint_source_stamp_ns ev) \<le> age \<and>
     phase_evidence c ev (foldl (gate_step c) g es)"
proof -
  obtain t0 where t0: "aa_now_s a = Fin t0" "session_inv t0 g" using arm_near_contact_inv [OF assms(1,2)] by blast
  obtain dur where dur: "max_duration_s c = Fin dur" "dur \<le> 3" using assms(1) by (rule occlusion_config_values)
  have "session_inv t0 (foldl (gate_step c) g es)" by (rule gate.run_inv [OF t0(2)])
  from evaluate_allowed [OF assms(1) this assms(3,4)] show ?thesis
    using t0(1) dur by (auto simp: loss_active_def)
qed

lemma occlusion_allowed_only_with_evidence_witness:
  "phase_evidence default_occlusion_config demo_eval
     (foldl (gate_step default_occlusion_config) demo_gate demo_gate_events)"
  using demo_gate_allows occlusion_allowed_only_with_evidence [OF demo_config_ok demo_gate_armed] by blast

text \<open>Within a session the joint source watermark (sequence and stamp), the observation serial and the lift
  progress never go back, and the armed time and contact pose stay those of the arming.\<close>

theorem occlusion_session_monotone:
  assumes "occlusion_config_post_init c = Inr ()" and "arm_near_contact c a g0 = (Inr (), g)"
  shows "joint_sequence (foldl (gate_step c) g es) \<le> joint_sequence (foldl (gate_step c) g (es @ fs)) \<and>
    joint_source_stamp_ns (foldl (gate_step c) g es) \<le> joint_source_stamp_ns (foldl (gate_step c) g (es @ fs)) \<and>
    observation_serial (foldl (gate_step c) g es) \<le> observation_serial (foldl (gate_step c) g (es @ fs)) \<and>
    maximum_lift_path_index (foldl (gate_step c) g es) \<le> maximum_lift_path_index (foldl (gate_step c) g (es @ fs)) \<and>
    armed_at_s (foldl (gate_step c) g (es @ fs)) = Some (aa_now_s a)"
proof -
  obtain t0 where t0: "aa_now_s a = Fin t0" "session_inv t0 g" using arm_near_contact_inv [OF assms] by blast
  have i: "session_inv t0 (foldl (gate_step c) g xs)" for xs by (rule gate.run_inv [OF t0(2)])
  show ?thesis
    using gate_joint_seq.run_mark [OF i, of es c fs] gate_joint_stamp.run_mark [OF i, of es c fs]
      gate_serial.run_mark [OF i, of es c fs] gate_progress.run_mark [OF i, of es c fs] i [of "es @ fs"] t0(1)
    by (simp add: session_inv_def)
qed

lemma occlusion_session_monotone_witness:
  "joint_sequence demo_gate
     \<le> joint_sequence (foldl (gate_step default_occlusion_config) demo_gate demo_gate_events)"
  using occlusion_session_monotone [OF demo_config_ok demo_gate_armed, of "[]" demo_gate_events] by simp

text \<open>The decision never raises: whatever the gate's state and the arguments, the call returns a decision
  (the assertions behind the commit of a joint sample cannot fail).\<close>

theorem occlusion_evaluate_total: "\<exists>d. fst (evaluate c a g) = Inr d"
  by (rule evaluate_total)

end
