(* ===== verification/Perception_Gates.thy ===== *)
theory Perception_Gates
  imports Interfaces "HOL-Library.AList"
begin

text \<open>
  The guards in front of the task machine, from \<open>src/ros2/z_manip_task/z_manip_task/core.py\<close>:
  \<open>ObservationSerialGate\<close> numbers synchronized perception sets, \<open>PostureSafetyGate\<close> judges the measured
  attitude, \<open>TaskGenerationGuard\<close> invalidates results of an earlier task. Dictionaries are association
  lists in insertion order. A float that a check has shown finite is kept as its real value.
\<close>

section \<open>Observation serials\<close>

record SynchronizedSerial =
  sync_serial :: int
  sync_stamp_s :: pyfloat
  stream_versions :: "(string \<times> int) list"

record ObservationSerialGate =
  streams :: "string list"
  sync_slop_s :: pyfloat
  obs_max_age_s :: pyfloat
  versions :: "(string \<times> int) list"
  stamps :: "(string \<times> pyfloat) list"
  last_tuple :: "int list option"
  serial :: int

definition observation_gate_init ::
  "string list \<Rightarrow> pyfloat \<Rightarrow> pyfloat \<Rightarrow> ObservationSerialGate res" where
  "observation_gate_init ss slop age =
     raise_if (ss = [] \<or> \<not> distinct ss) (ValueError ''streams must be unique and non-empty'')
     (raise_if (slop \<le> 0 \<or> age \<le> 0) (ValueError ''synchronization limits must be positive'')
       (Inr \<lparr> streams = ss, sync_slop_s = slop, obs_max_age_s = age,
              versions = map (\<lambda>name. (name, 0)) ss, stamps = [], last_tuple = None, serial = 0 \<rparr>))"

definition observation_update ::
  "string \<Rightarrow> pyfloat \<Rightarrow> ObservationSerialGate \<Rightarrow> (unit, ObservationSerialGate) outcome" where
  "observation_update stream stamp g =
     (case map_of (versions g) stream of
        None \<Rightarrow> (Inl (KeyError (''unknown observation stream '' @ py_repr stream)), g)
      | Some version \<Rightarrow>
          guard (\<not> isfinite stamp \<or> stamp < 0)
            (ValueError ''observation stamp must be finite and non-negative'') g
          (let accept = g\<lparr> versions := AList.update stream (version + 1) (versions g),
                           stamps := AList.update stream stamp (stamps g) \<rparr> in
           case map_of (stamps g) stream of
             None \<Rightarrow> (Inr (), accept)
           | Some previous \<Rightarrow>
               guard (stamp < previous) (ValueError (stream @ '' time moved backwards'')) g
               (if feq stamp previous then (Inr (), g) else (Inr (), accept))))"

text \<open>\<open>max\<close> and \<open>min\<close> of a non-empty tuple.\<close>

fun py_max_of :: "pyfloat list \<Rightarrow> pyfloat" where
  "py_max_of [] = NaN"
| "py_max_of (x # xs) = foldl (\<lambda>m y. if m < y then y else m) x xs"

fun py_min_of :: "pyfloat list \<Rightarrow> pyfloat" where
  "py_min_of [] = NaN"
| "py_min_of (x # xs) = foldl (\<lambda>m y. if y < m then y else m) x xs"

definition observation_snapshot ::
  "pyfloat \<Rightarrow> ObservationSerialGate \<Rightarrow> (SynchronizedSerial option, ObservationSerialGate) outcome" where
  "observation_snapshot now g =
     guard (\<not> isfinite now) (ValueError ''current time must be finite'') g
     (if set (map fst (stamps g)) \<noteq> set (streams g) then (Inr None, g)
      else
        let ts = map (\<lambda>name. the (map_of (stamps g) name)) (streams g); newest = py_max_of ts in
        if sync_slop_s g < newest - py_min_of ts then (Inr None, g)
        else if obs_max_age_s g < now - newest \<or> sync_slop_s g < newest - now then (Inr None, g)
        else
          let vs = map (\<lambda>name. the (map_of (versions g) name)) (streams g);
              h = (if Some vs \<noteq> last_tuple g then g\<lparr> serial := serial g + 1, last_tuple := Some vs \<rparr> else g)
          in (Inr (Some \<lparr> sync_serial = serial h, sync_stamp_s = newest, stream_versions = versions h \<rparr>), h))"

section \<open>Posture\<close>

datatype PostureState = WAITING | SAFE | UNSAFE

record PostureAssessment =
  state :: PostureState
  assessment_reason :: string

record PostureSafetyGate =
  max_roll_rad :: real
  max_pitch_rad :: real
  posture_max_age_s :: real
  acquisition_timeout_s :: real
  task_started_at_s :: "real option"
  roll_rad :: "pyfloat option"
  pitch_rad :: "pyfloat option"
  seen_at_s :: "real option"

definition posture_gate_init :: "pyfloat \<Rightarrow> pyfloat \<Rightarrow> pyfloat \<Rightarrow> pyfloat \<Rightarrow> PostureSafetyGate res" where
  "posture_gate_init roll pitch age acquisition =
     raise_if (\<not> list_all (\<lambda>v. isfinite v \<and> 0 < v) [roll, pitch, age, acquisition])
       (ValueError ''posture limits and timeouts must be finite and positive'')
       (Inr \<lparr> max_roll_rad = the_fin roll, max_pitch_rad = the_fin pitch, posture_max_age_s = the_fin age,
              acquisition_timeout_s = the_fin acquisition, task_started_at_s = None,
              roll_rad = None, pitch_rad = None, seen_at_s = None \<rparr>)"

definition forget_sample :: "PostureSafetyGate \<Rightarrow> PostureSafetyGate" where
  "forget_sample g = g\<lparr> roll_rad := None, pitch_rad := None, seen_at_s := None \<rparr>"

definition posture_begin :: "pyfloat \<Rightarrow> PostureSafetyGate \<Rightarrow> (unit, PostureSafetyGate) outcome" where
  "posture_begin now_s g =
     guard (\<not> isfinite now_s \<or> now_s < 0)
       (ValueError ''posture task start time must be finite and non-negative'') g
     (let now = the_fin now_s; h = g\<lparr> task_started_at_s := Some now \<rparr> in
      (Inr (),
       if now = 0 \<or> (case seen_at_s g of None \<Rightarrow> False
                     | Some seen \<Rightarrow> now < seen \<or> posture_max_age_s g < now - seen)
       then forget_sample h else h))"

definition posture_update ::
  "pyfloat \<Rightarrow> pyfloat \<Rightarrow> pyfloat \<Rightarrow> PostureSafetyGate \<Rightarrow> (unit, PostureSafetyGate) outcome" where
  "posture_update roll pitch seen g =
     guard (\<not> isfinite seen \<or> seen < 0)
       (ValueError ''posture receipt time must be finite and non-negative'') g
       (Inr (), g\<lparr> roll_rad := Some roll, pitch_rad := Some pitch, seen_at_s := Some (the_fin seen) \<rparr>)"

definition unsafe :: "string \<Rightarrow> PostureAssessment" where
  "unsafe why = \<lparr> state = UNSAFE, assessment_reason = why \<rparr>"

text \<open>\<open>assess\<close> after its clock checks: the judgement on the retained sample.\<close>

definition judge_posture :: "real \<Rightarrow> real \<Rightarrow> PostureSafetyGate \<Rightarrow> PostureAssessment res" where
  "judge_posture now started g =
     (case seen_at_s g of
        None \<Rightarrow>
          Inr (if now - started \<le> acquisition_timeout_s g
               then \<lparr> state = WAITING,
                      assessment_reason = ''waiting for the first state-estimation posture sample'' \<rparr>
               else unsafe ''state-estimation posture unavailable after acquisition timeout'')
      | Some seen \<Rightarrow>
          (case (roll_rad g, pitch_rad g) of
             (Some roll, Some pitch) \<Rightarrow>
               let age = now - seen in
               Inr (if \<not> (isfinite roll \<and> isfinite pitch) then
                      unsafe ''state-estimation posture contains a non-finite attitude''
                    else if age < 0 then unsafe ''state-estimation posture timestamp is in the future''
                    else if posture_max_age_s g < age then
                      unsafe (''state-estimation posture is stale ('' @ fmt_fixed 3 age @ ''s > '' @
                              fmt_fixed 3 (posture_max_age_s g) @ ''s)'')
                    else if Fin (max_roll_rad g) < \<bar>roll\<bar> \<or> Fin (max_pitch_rad g) < \<bar>pitch\<bar> then
                      unsafe (''base posture limit exceeded: roll='' @ fmt_fixed 4 (the_fin roll) @
                              ''rad limit='' @ fmt_fixed 4 (max_roll_rad g) @ ''rad, pitch='' @
                              fmt_fixed 4 (the_fin pitch) @ ''rad limit='' @
                              fmt_fixed 4 (max_pitch_rad g) @ ''rad'')
                    else \<lparr> state = SAFE, assessment_reason = [] \<rparr>)
           | _ \<Rightarrow> Inl AssertionError))"

text \<open>
  A task started before the clock ran has start time zero: the first assessment at a positive
  time becomes its start.
\<close>

definition anchor_clock :: "real \<Rightarrow> real \<Rightarrow> PostureSafetyGate \<Rightarrow> real \<times> PostureSafetyGate" where
  "anchor_clock now started g =
     (if started = 0 \<and> 0 < now then
        (let h = g\<lparr> task_started_at_s := Some now \<rparr> in
         (now, if seen_at_s g = None \<or> seen_at_s g = Some 0 then forget_sample h else h))
      else (started, g))"

definition posture_assess :: "pyfloat \<Rightarrow> PostureSafetyGate \<Rightarrow> (PostureAssessment, PostureSafetyGate) outcome" where
  "posture_assess now_s g =
     (if \<not> isfinite now_s \<or> now_s < 0 then
        (Inr (unsafe ''state-estimation freshness clock is invalid''), g)
      else (case task_started_at_s g of
          None \<Rightarrow> (Inl (RuntimeError ''posture gate has not started a task''), g)
        | Some started \<Rightarrow>
            (case anchor_clock (the_fin now_s) started g of
               (start, h) \<Rightarrow>
                 if the_fin now_s < start
                 then (Inr (unsafe ''state-estimation freshness clock moved backwards''), h)
                 else (judge_posture (the_fin now_s) start h, h))))"

section \<open>Task generations\<close>

record TaskGenerationGuard =
  task_generation :: int

definition generation_guard_init :: TaskGenerationGuard where
  "generation_guard_init = \<lparr> task_generation = 0 \<rparr>"

definition generation_current :: "TaskGenerationGuard \<Rightarrow> int" where
  "generation_current g = task_generation g"

definition generation_advance :: "TaskGenerationGuard \<Rightarrow> int \<times> TaskGenerationGuard" where
  "generation_advance g =
     (let h = g\<lparr> task_generation := task_generation g + 1 \<rparr> in (task_generation h, h))"

definition generation_accepts :: "int option \<Rightarrow> TaskGenerationGuard \<Rightarrow> bool" where
  "generation_accepts token g = (case token of None \<Rightarrow> False | Some n \<Rightarrow> n = task_generation g)"

section \<open>Laws of the observation serials\<close>

datatype observation_event = ObUpdate string pyfloat | ObSnapshot pyfloat

fun observation_step :: "ObservationSerialGate \<Rightarrow> observation_event \<Rightarrow> ObservationSerialGate" where
  "observation_step g (ObUpdate stream stamp) = snd (observation_update stream stamp g)"
| "observation_step g (ObSnapshot now) = snd (observation_snapshot now g)"

text \<open>The stamps and versions of the configured streams, in their order.\<close>

definition stamp_tuple :: "ObservationSerialGate \<Rightarrow> pyfloat list" where
  "stamp_tuple g = map (\<lambda>name. the (map_of (stamps g) name)) (streams g)"

definition version_tuple :: "ObservationSerialGate \<Rightarrow> int list" where
  "version_tuple g = map (\<lambda>name. the (map_of (versions g) name)) (streams g)"

definition synchronized :: "pyfloat \<Rightarrow> ObservationSerialGate \<Rightarrow> bool" where
  "synchronized now g \<longleftrightarrow>
     set (map fst (stamps g)) = set (streams g) \<and>
     \<not> sync_slop_s g < py_max_of (stamp_tuple g) - py_min_of (stamp_tuple g) \<and>
     \<not> obs_max_age_s g < now - py_max_of (stamp_tuple g) \<and>
     \<not> sync_slop_s g < py_max_of (stamp_tuple g) - now"

definition number_set :: "ObservationSerialGate \<Rightarrow> ObservationSerialGate" where
  "number_set g =
     (if Some (version_tuple g) \<noteq> last_tuple g
      then g\<lparr> serial := serial g + 1, last_tuple := Some (version_tuple g) \<rparr> else g)"

lemma observation_snapshot_unfold:
  "observation_snapshot now g =
     (if \<not> isfinite now then (Inl (ValueError ''current time must be finite''), g)
      else if \<not> synchronized now g then (Inr None, g)
      else (Inr (Some \<lparr> sync_serial = serial (number_set g), sync_stamp_s = py_max_of (stamp_tuple g),
                        stream_versions = versions g \<rparr>), number_set g))"
  by (simp add: observation_snapshot_def guard_def Let_def version_tuple_def stamp_tuple_def
      synchronized_def number_set_def)

lemma observation_update_frame [simp]:
  "serial (snd (observation_update st x g)) = serial g"
  "last_tuple (snd (observation_update st x g)) = last_tuple g"
  "streams (snd (observation_update st x g)) = streams g"
  "sync_slop_s (snd (observation_update st x g)) = sync_slop_s g"
  "obs_max_age_s (snd (observation_update st x g)) = obs_max_age_s g"
  by (simp_all add: observation_update_def guard_def Let_def split: option.split)

text \<open>Once a serial \<open>k\<close> was issued for the versions \<open>vs\<close>, it stands for them until a greater one is.\<close>

definition issued :: "int \<Rightarrow> int list \<Rightarrow> ObservationSerialGate \<Rightarrow> bool" where
  "issued k vs g \<longleftrightarrow> k < serial g \<or> serial g = k \<and> last_tuple g = Some vs"

lemma issued_step: "issued k vs g \<Longrightarrow> issued k vs (observation_step g e)"
  by (cases e) (auto simp: issued_def observation_snapshot_unfold number_set_def)

interpretation observation_issue: invariant_machine observation_step "issued k vs" for k vs
  by unfold_locales (rule issued_step)

text \<open>Stamps in a gate are finite and belong to configured streams.\<close>

definition stamps_ok :: "ObservationSerialGate \<Rightarrow> bool" where
  "stamps_ok g \<longleftrightarrow> streams g \<noteq> [] \<and> (\<forall>(n, t) \<in> set (stamps g). isfinite t)"

lemma set_AList_update: "set (AList.update k v al) \<subseteq> insert (k, v) (set al)"
  by (induction al) auto

lemma stamps_ok_step: "stamps_ok g \<Longrightarrow> stamps_ok (observation_step g e)"
proof (cases e)
  case (ObUpdate st x)
  assume "stamps_ok g"
  moreover have "\<forall>(n, t) \<in> set (AList.update st x (stamps g)). isfinite t" if "stamps_ok g" "isfinite x"
    using that set_AList_update [of st x "stamps g"] by (fastforce simp: stamps_ok_def)
  ultimately show ?thesis using ObUpdate
    by (auto simp: stamps_ok_def observation_update_def guard_def Let_def split: option.split if_splits)
qed (auto simp: stamps_ok_def observation_snapshot_unfold number_set_def)

interpretation observation_stamps: invariant_machine observation_step stamps_ok
  by unfold_locales (rule stamps_ok_step)

lemma foldl_max: 
  "(\<forall>t \<in> set (x # xs). isfinite t) \<Longrightarrow>
   \<exists>m. foldl (\<lambda>m y. if m < y then y else m) x xs = Fin m \<and> (\<forall>t \<in> set (x # xs). the_fin t \<le> m) \<and> Fin m \<in> set (x # xs)"
proof (induction xs arbitrary: x)
  case Nil
  then show ?case by (auto simp: isfinite_iff)
next
  case (Cons y ys)
  then obtain a b where ab: "x = Fin a" "y = Fin b" by (auto simp: isfinite_iff)
  have "\<forall>t \<in> set ((if x < y then y else x) # ys). isfinite t" using Cons.prems ab by auto
  from Cons.IH [OF this] obtain m where m: "foldl (\<lambda>m y. if m < y then y else m) (if x < y then y else x) ys = Fin m"
    "\<forall>t \<in> set ((if x < y then y else x) # ys). the_fin t \<le> m" "Fin m \<in> set ((if x < y then y else x) # ys)" by blast
  then show ?case using ab by (intro exI [of _ m]) (auto split: if_splits)
qed

lemma foldl_min: 
  "(\<forall>t \<in> set (x # xs). isfinite t) \<Longrightarrow>
   \<exists>m. foldl (\<lambda>m y. if y < m then y else m) x xs = Fin m \<and> (\<forall>t \<in> set (x # xs). m \<le> the_fin t) \<and> Fin m \<in> set (x # xs)"
proof (induction xs arbitrary: x)
  case Nil
  then show ?case by (auto simp: isfinite_iff)
next
  case (Cons y ys)
  then obtain a b where ab: "x = Fin a" "y = Fin b" by (auto simp: isfinite_iff)
  have "\<forall>t \<in> set ((if y < x then y else x) # ys). isfinite t" using Cons.prems ab by auto
  from Cons.IH [OF this] obtain m where m: "foldl (\<lambda>m y. if y < m then y else m) (if y < x then y else x) ys = Fin m"
    "\<forall>t \<in> set ((if y < x then y else x) # ys). m \<le> the_fin t" "Fin m \<in> set ((if y < x then y else x) # ys)" by blast
  then show ?case using ab by (intro exI [of _ m]) (auto split: if_splits)
qed

lemma extremes:
  assumes "ts \<noteq> []" "\<forall>t \<in> set ts. isfinite t"
  shows "\<exists>lo hi. py_min_of ts = Fin lo \<and> py_max_of ts = Fin hi \<and> (\<forall>t \<in> set ts. lo \<le> the_fin t \<and> the_fin t \<le> hi)"
  using assms foldl_max [of "hd ts" "tl ts"] foldl_min [of "hd ts" "tl ts"] by (cases ts) auto

lemma synchronized_streams:
  assumes ok: "stamps_ok g" and sy: "synchronized (Fin now) g"
    and lim: "sync_slop_s g = Fin slop" "obs_max_age_s g = Fin age"
  shows "\<exists>newest. py_max_of (stamp_tuple g) = Fin newest \<and> now - newest \<le> age \<and> newest - now \<le> slop \<and>
    (\<forall>n \<in> set (streams g). \<exists>t. map_of (stamps g) n = Some (Fin t) \<and> newest - slop \<le> t \<and> t \<le> newest)"
proof -
  have dom: "\<exists>t. map_of (stamps g) n = Some t \<and> isfinite t" if "n \<in> set (streams g)" for n
  proof -
    have "n \<in> set (map fst (stamps g))" using sy that by (simp add: synchronized_def)
    then obtain t where "map_of (stamps g) n = Some t" by (metis map_of_eq_None_iff not_Some_eq set_map)
    then show ?thesis using ok map_of_SomeD by (fastforce simp: stamps_ok_def)
  qed
  have "\<forall>t \<in> set (stamp_tuple g). isfinite t" "stamp_tuple g \<noteq> []"
    using dom ok by (fastforce simp: stamp_tuple_def stamps_ok_def)+
  from extremes [OF this(2,1)] obtain lo hi where
    x: "py_min_of (stamp_tuple g) = Fin lo" "py_max_of (stamp_tuple g) = Fin hi"
      "\<forall>t \<in> set (stamp_tuple g). lo \<le> the_fin t \<and> the_fin t \<le> hi" by blast
  have b: "hi - lo \<le> slop" "now - hi \<le> age" "hi - now \<le> slop"
    using sy x lim by (simp_all add: synchronized_def)
  have "\<exists>t. map_of (stamps g) n = Some (Fin t) \<and> hi - slop \<le> t \<and> t \<le> hi" if n: "n \<in> set (streams g)" for n
  proof -
    obtain t where t: "map_of (stamps g) n = Some (Fin t)" using dom [OF n] by (auto simp: isfinite_iff)
    then have "Fin t \<in> set (stamp_tuple g)" using n by (force simp: stamp_tuple_def)
    then show ?thesis using x(3) b(1) t by force
  qed
  then show ?thesis using x(2) b by blast
qed

lemma observation_init_ok:
  "observation_gate_init ss slop age = Inr g \<Longrightarrow> stamps_ok g \<and> streams g = ss \<and> sync_slop_s g = slop \<and> obs_max_age_s g = age"
  by (auto simp: observation_gate_init_def stamps_ok_def)

definition limits_frame :: "pyfloat \<Rightarrow> pyfloat \<Rightarrow> string list \<Rightarrow> ObservationSerialGate \<Rightarrow> bool" where
  "limits_frame slop age ss g \<longleftrightarrow> sync_slop_s g = slop \<and> obs_max_age_s g = age \<and> streams g = ss"

interpretation observation_limits: invariant_machine observation_step "limits_frame slop age ss" for slop age ss
proof (unfold_locales)
  fix g e assume "limits_frame slop age ss g"
  then show "limits_frame slop age ss (observation_step g e)"
    by (cases e) (auto simp: limits_frame_def observation_snapshot_unfold number_set_def)
qed

section \<open>Laws of the posture gate\<close>

datatype posture_event = PgBegin pyfloat | PgUpdate pyfloat pyfloat pyfloat | PgAssess pyfloat

fun posture_step :: "PostureSafetyGate \<Rightarrow> posture_event \<Rightarrow> PostureSafetyGate" where
  "posture_step g (PgBegin now) = snd (posture_begin now g)"
| "posture_step g (PgUpdate roll pitch seen) = snd (posture_update roll pitch seen g)"
| "posture_step g (PgAssess now) = snd (posture_assess now g)"

text \<open>An attitude is retained exactly with its receipt time.\<close>

definition sample_whole :: "PostureSafetyGate \<Rightarrow> bool" where
  "sample_whole g \<longleftrightarrow> (seen_at_s g = None \<longleftrightarrow> roll_rad g = None) \<and> (seen_at_s g = None \<longleftrightarrow> pitch_rad g = None)"

lemma sample_whole_step: "sample_whole g \<Longrightarrow> sample_whole (posture_step g e)"
  by (cases e)
    (auto simp: sample_whole_def posture_begin_def posture_update_def posture_assess_def forget_sample_def
      anchor_clock_def guard_def Let_def split: option.split prod.split)

interpretation posture: invariant_machine posture_step sample_whole
  by unfold_locales (rule sample_whole_step)

lemma posture_assess_safe:
  assumes "posture_assess now_s g = (Inr a, h)" and "state a = SAFE"
  shows "\<exists>now seen roll pitch started. now_s = Fin now \<and> 0 \<le> now \<and> task_started_at_s h = Some started \<and> started \<le> now \<and>
     seen_at_s g = Some seen \<and> roll_rad g = Some (Fin roll) \<and> pitch_rad g = Some (Fin pitch) \<and>
     0 \<le> now - seen \<and> now - seen \<le> posture_max_age_s g \<and> \<bar>roll\<bar> \<le> max_roll_rad g \<and> \<bar>pitch\<bar> \<le> max_pitch_rad g"
proof -
  have j: "\<exists>seen roll pitch. seen_at_s u = Some seen \<and> roll_rad u = Some (Fin roll) \<and> pitch_rad u = Some (Fin pitch) \<and>
     0 \<le> now - seen \<and> now - seen \<le> posture_max_age_s u \<and> \<bar>roll\<bar> \<le> max_roll_rad u \<and> \<bar>pitch\<bar> \<le> max_pitch_rad u"
    if "judge_posture now started u = Inr a" for now started u
    using that assms(2)
    by (auto simp: judge_posture_def unsafe_def Let_def isfinite_iff not_less split: option.splits if_splits)
  from assms obtain now started0 where n: "now_s = Fin now" "0 \<le> now" "task_started_at_s g = Some started0"
    by (cases now_s) (auto simp: posture_assess_def unsafe_def split: option.splits if_splits)
  obtain st u where c: "anchor_clock now started0 g = (st, u)" by fastforce
  then have h: "h = u" "st \<le> now" and jp: "judge_posture now st u = Inr a"
    using assms n by (auto simp: posture_assess_def unsafe_def split: if_splits)
  have "task_started_at_s u = Some st"
    and fr: "posture_max_age_s u = posture_max_age_s g" "max_roll_rad u = max_roll_rad g" "max_pitch_rad u = max_pitch_rad g"
    and sm: "\<And>s. seen_at_s u = Some s \<Longrightarrow> seen_at_s g = Some s \<and> roll_rad u = roll_rad g \<and> pitch_rad u = pitch_rad g"
    using c n by (auto simp: anchor_clock_def forget_sample_def Let_def split: if_splits)
  with j [OF jp] h n show ?thesis by fastforce
qed

section \<open>Laws of the generation guard\<close>

definition generation_step :: "TaskGenerationGuard \<Rightarrow> unit \<Rightarrow> TaskGenerationGuard" where
  "generation_step g e = snd (generation_advance g)"

interpretation generation: capability generation_step "\<lambda>_. True" task_generation
  "\<lambda>g n. generation_accepts (Some n) g" "\<lambda>n. n"
  by unfold_locales (simp_all add: generation_step_def generation_advance_def generation_accepts_def Let_def)

section \<open>Properties\<close>

text \<open>C9: A serial is issued only for a synchronized set: every configured stream has a stamp, all of them lie
  within the synchronization slop of the newest one, and the newest is neither older than the age limit
  nor further in the future than the slop.\<close>

theorem serial_only_for_synchronized_set:
  assumes "observation_gate_init ss (Fin slop) (Fin age) = Inr g0" and "g = foldl observation_step g0 es"
    and "observation_snapshot (Fin now) g = (Inr (Some s), h)"
  shows "\<exists>newest. sync_stamp_s s = Fin newest \<and> now - newest \<le> age \<and> newest - now \<le> slop \<and>
     (\<forall>n \<in> set ss. \<exists>t. map_of (stamps g) n = Some (Fin t) \<and> newest - slop \<le> t \<and> t \<le> newest)"
proof -
  note i = observation_init_ok [OF assms(1)]
  have "limits_frame (Fin slop) (Fin age) ss g0" using i by (simp add: limits_frame_def)
  then have l: "sync_slop_s g = Fin slop" "obs_max_age_s g = Fin age" "streams g = ss"
    using observation_limits.run_inv [of "Fin slop" "Fin age" ss g0 es] assms(2) by (simp_all add: limits_frame_def)
  have ok: "stamps_ok g" using observation_stamps.run_inv [of g0 es] i assms(2) by simp
  have sy: "synchronized (Fin now) g" and s: "sync_stamp_s s = py_max_of (stamp_tuple g)"
    using assms(3) by (auto simp: observation_snapshot_unfold split: if_splits)
  from synchronized_streams [OF ok sy l(1,2)] show ?thesis using s l(3) by auto
qed

definition demo_observations :: "observation_event list" where
  "demo_observations = [ObUpdate ''target'' (Fin 10), ObUpdate ''cloud'' (Fin (1005 / 100))]"

definition demo_observation_gate :: ObservationSerialGate where
  "demo_observation_gate =
     projr (observation_gate_init [''target'', ''cloud''] (Fin (12 / 100)) (Fin (35 / 100)))"

lemma demo_observation_init:
  "observation_gate_init [''target'', ''cloud''] (Fin (12 / 100)) (Fin (35 / 100)) = Inr demo_observation_gate"
  by (simp add: demo_observation_gate_def observation_gate_init_def raise_if_def)

lemma demo_observation_serial:
  "\<exists>s h. observation_snapshot (Fin (101 / 10)) (foldl observation_step demo_observation_gate demo_observations) =
     (Inr (Some s), h)"
proof -
  let ?r = "observation_snapshot (Fin (101 / 10)) (foldl observation_step demo_observation_gate demo_observations)"
  have "map_sum (\<lambda>_. ()) (map_option sync_serial) (fst ?r) = Inr (Some 1)" by code_simp
  then show ?thesis by (cases ?r; cases "fst ?r") auto
qed

lemma serial_only_for_synchronized_set_witness:
  "\<exists>t. map_of (stamps (foldl observation_step demo_observation_gate demo_observations)) ''target'' = Some (Fin t)"
proof -
  obtain s h where "observation_snapshot (Fin (101 / 10)) (foldl observation_step demo_observation_gate demo_observations)
      = (Inr (Some s), h)" using demo_observation_serial by blast
  from serial_only_for_synchronized_set [OF demo_observation_init refl this]
  have "\<forall>n \<in> set [''target'', ''cloud'']. \<exists>t.
      map_of (stamps (foldl observation_step demo_observation_gate demo_observations)) n = Some (Fin t)" by blast
  then show ?thesis by simp
qed

text \<open>Serials identify observations: of two serials issued by one gate the later is never smaller, and two
  equal ones were issued for the same stream versions.\<close>

theorem equal_serials_same_versions:
  assumes "observation_snapshot now g = (Inr (Some a), h)"
    and "observation_snapshot later (foldl observation_step h es) = (Inr (Some b), k)"
  shows "sync_serial a \<le> sync_serial b \<and>
    (sync_serial a = sync_serial b \<longrightarrow>
       version_tuple (foldl observation_step h es) = version_tuple g)"
proof -
  let ?u = "foldl observation_step h es"
  have h: "h = number_set g" "sync_serial a = serial (number_set g)" "sync_serial b = serial (number_set ?u)"
    using assms by (auto simp: observation_snapshot_unfold split: if_splits)
  have "issued (sync_serial a) (version_tuple g) h"
    by (simp add: h issued_def number_set_def)
  from observation_issue.run_inv [OF this, of es] show ?thesis
    unfolding h(3) by (auto simp: issued_def number_set_def)
qed

lemma equal_serials_same_versions_witness:
  "\<exists>a h b k. observation_snapshot (Fin (101 / 10)) (foldl observation_step demo_observation_gate demo_observations)
      = (Inr (Some a), h) \<and> observation_snapshot (Fin (101 / 10)) h = (Inr (Some b), k) \<and> sync_serial a \<le> sync_serial b"
proof -
  obtain a h where a: "observation_snapshot (Fin (101 / 10)) (foldl observation_step demo_observation_gate demo_observations)
      = (Inr (Some a), h)" using demo_observation_serial by blast
  let ?r = "observation_snapshot (Fin (101 / 10))
    (snd (observation_snapshot (Fin (101 / 10)) (foldl observation_step demo_observation_gate demo_observations)))"
  have "map_sum (\<lambda>_. ()) (map_option sync_serial) (fst ?r) = Inr (Some 1)" by code_simp
  then obtain b k where b: "observation_snapshot (Fin (101 / 10)) h = (Inr (Some b), k)"
    using a by (cases ?r; cases "fst ?r") auto
  with equal_serials_same_versions [OF a, of "Fin (101 / 10)" "[]" b k] a show ?thesis by auto
qed

text \<open>The posture is judged safe only on a finite attitude within both limits whose receipt time is not in the
  future and not older than the age limit, at a finite time of a started task.\<close>

theorem posture_safe_only_if_fresh_and_upright:
  assumes "posture_assess now_s g = (Inr a, h)" and "state a = SAFE"
  shows "\<exists>now seen roll pitch started. now_s = Fin now \<and> 0 \<le> now \<and> task_started_at_s h = Some started \<and> started \<le> now \<and>
     seen_at_s g = Some seen \<and> roll_rad g = Some (Fin roll) \<and> pitch_rad g = Some (Fin pitch) \<and>
     0 \<le> now - seen \<and> now - seen \<le> posture_max_age_s g \<and> \<bar>roll\<bar> \<le> max_roll_rad g \<and> \<bar>pitch\<bar> \<le> max_pitch_rad g"
  by (rule posture_assess_safe [OF assms])

definition demo_posture :: PostureSafetyGate where
  "demo_posture = foldl posture_step
     (projr (posture_gate_init (Fin (3 / 10)) (Fin (3 / 10)) (Fin (1 / 2)) (Fin 2)))
     [PgBegin (Fin 10), PgUpdate (Fin (1 / 10)) (Fin 0) (Fin 11)]"

lemma posture_safe_only_if_fresh_and_upright_witness:
  "\<exists>seen. seen_at_s demo_posture = Some seen \<and> 0 \<le> 112 / 10 - seen"
proof -
  let ?r = "posture_assess (Fin (112 / 10)) demo_posture"
  have "map_sum (\<lambda>_. ()) state (fst ?r) = Inr SAFE" by code_simp
  then obtain a h where "?r = (Inr a, h)" "state a = SAFE" by (cases ?r; cases "fst ?r") auto
  from posture_safe_only_if_fresh_and_upright [OF this] show ?thesis by auto
qed

text \<open>In every gate built by its constructor, once a task has begun, an assessment always returns (its
  assertion cannot fail), and it only waits while no sample was received.\<close>

theorem posture_assess_total:
  assumes "posture_gate_init roll pitch age acq = Inr g0" and "g = foldl posture_step g0 es"
    and "task_started_at_s g \<noteq> None"
  shows "\<exists>a h. posture_assess now g = (Inr a, h) \<and> (state a = WAITING \<longrightarrow> seen_at_s h = None)"
proof -
  have "sample_whole g0" using assms(1) by (auto simp: posture_gate_init_def sample_whole_def)
  then have "sample_whole g" using posture.run_inv assms(2) by simp
  then have w: "sample_whole (snd (posture_assess now g))" using sample_whole_step [of g "PgAssess now"] by simp
  let ?h = "snd (posture_assess now g)"
  have j: "\<exists>a. judge_posture n st ?h = Inr a \<and> (state a = WAITING \<longrightarrow> seen_at_s ?h = None)" for n st
    using w by (auto simp: judge_posture_def sample_whole_def unsafe_def Let_def split: option.split)
  obtain st where st: "task_started_at_s g = Some st" using assms(3) by auto
  obtain s1 u where c: "anchor_clock (the_fin now) st g = (s1, u)" by fastforce
  consider (un) x where "fst (posture_assess now g) = Inr (unsafe x)"
    | (ju) "posture_assess now g = (judge_posture (the_fin now) s1 u, u)"
    using st c
    by (cases "isfinite now \<and> \<not> now < 0"; cases "the_fin now < s1") (simp_all add: posture_assess_def)
  then have "\<exists>a. fst (posture_assess now g) = Inr a \<and> (state a = WAITING \<longrightarrow> seen_at_s ?h = None)"
    by cases (use j [of "the_fin now" s1] in \<open>auto simp: unsafe_def\<close>)
  then show ?thesis by (metis prod.collapse)
qed

lemma posture_assess_total_witness:
  "\<exists>a h. posture_assess (Fin 12) demo_posture = (Inr a, h)"
proof -
  have "posture_gate_init (Fin (3 / 10)) (Fin (3 / 10)) (Fin (1 / 2)) (Fin 2) =
     Inr (projr (posture_gate_init (Fin (3 / 10)) (Fin (3 / 10)) (Fin (1 / 2)) (Fin 2)))"
    by (simp add: posture_gate_init_def raise_if_def)
  moreover have "task_started_at_s demo_posture \<noteq> None" by code_simp
  ultimately show ?thesis using posture_assess_total [OF _ demo_posture_def] by blast
qed

text \<open>A token issued for one task generation is refused for good once the generation has advanced.\<close>

theorem stale_generation_never_accepted:
  "\<not> generation_accepts (Some (generation_current g))
       (foldl (\<lambda>h (_::unit). snd (generation_advance h)) (snd (generation_advance g)) es)"
proof -
  have "(\<lambda>h (_::unit). snd (generation_advance h)) = generation_step" by (simp add: generation_step_def fun_eq_iff)
  then show ?thesis
    using generation.revoked [of "generation_current g" "snd (generation_advance g)" es]
    by (simp add: generation_advance_def generation_current_def Let_def)
qed

end
