(* ===== verification/Quiet_Window.thy ===== *)
theory Quiet_Window
  imports Prelude "HOL-Library.Sublist"
begin

text \<open>
  \<open>ContinuousMotionQuietWindow\<close> of \<open>src/ros2/z_manip_task/z_manip_task/core.py\<close>: after a stop the base counts
  as settled only when consecutive odometry samples stayed below the speed limits for a whole
  window, on the receipt clock and on the source clock. The theory relates the object's few
  attributes to the list of samples it accepted.
\<close>

section \<open>The window\<close>

record QuietConfig =
  quiet_window_s :: real
  max_odom_gap_s :: real
  max_linear_speed_mps :: real
  max_angular_speed_rps :: real

record ContinuousMotionQuietWindow =
  stop_received_at_s :: "real option"
  minimum_odom_sequence :: "int option"
  minimum_odom_stamp_ns :: "int option"
  stable_since_received_at_s :: "real option"
  stable_start_odom_stamp_ns :: "int option"
  last_received_at_s :: "real option"
  last_odom_sequence :: "int option"
  last_odom_stamp_ns :: "int option"
  last_reset_reason :: string

definition quiet_config_init :: "pyfloat \<Rightarrow> pyfloat \<Rightarrow> pyfloat \<Rightarrow> pyfloat \<Rightarrow> QuietConfig res" where
  "quiet_config_init window gap lin ang =
     raise_if (\<not> list_all (\<lambda>v. isfinite v \<and> 0 < v) [window, gap, lin, ang])
       (ValueError ''motion quiet-window limits must be finite and positive'')
     (raise_if (window \<le> gap)
       (ValueError ''motion quiet-window odometry gap must be shorter than its window'')
       (Inr \<lparr> quiet_window_s = the_fin window, max_odom_gap_s = the_fin gap,
              max_linear_speed_mps = the_fin lin, max_angular_speed_rps = the_fin ang \<rparr>))"

definition quiet_clear :: "string \<Rightarrow> ContinuousMotionQuietWindow" where
  "quiet_clear why =
     \<lparr> stop_received_at_s = None, minimum_odom_sequence = None, minimum_odom_stamp_ns = None,
       stable_since_received_at_s = None, stable_start_odom_stamp_ns = None,
       last_received_at_s = None, last_odom_sequence = None, last_odom_stamp_ns = None,
       last_reset_reason = why \<rparr>"

type_synonym 'a quiet_op = "('a, ContinuousMotionQuietWindow) outcome"

definition quiet_reset :: "pyfloat \<Rightarrow> int \<Rightarrow> int \<Rightarrow> ContinuousMotionQuietWindow \<Rightarrow> unit quiet_op" where
  "quiet_reset stop min_seq min_stamp w =
     guard (\<not> isfinite stop) (ValueError ''motion quiet-window stop time must be finite'') w
     (guard (min_seq < 0 \<or> min_stamp \<le> 0)
       (ValueError ''motion quiet-window odometry boundary is invalid'') w
       (Inr (), (quiet_clear ''post_stop_reset'')
          \<lparr> stop_received_at_s := Some (the_fin stop), minimum_odom_sequence := Some min_seq,
            minimum_odom_stamp_ns := Some min_stamp \<rparr>))"

record odom_sample =
  received_at_s :: pyfloat
  odom_sequence :: int
  odom_stamp_ns :: int
  linear_speed_mps :: pyfloat
  angular_speed_rps :: pyfloat

definition sample_invalid :: "odom_sample \<Rightarrow> bool" where
  "sample_invalid x =
     (\<not> isfinite (received_at_s x) \<or> \<not> isfinite (linear_speed_mps x) \<or> \<not> isfinite (angular_speed_rps x)
      \<or> linear_speed_mps x < 0 \<or> angular_speed_rps x < 0 \<or> odom_sequence x \<le> 0 \<or> odom_stamp_ns x \<le> 0)"

definition nano :: real where
  "nano = 1 / 1000000000"

text \<open>The previous sample, if any, and a break of sequence, order or pace after it.\<close>

definition discontinuous :: "QuietConfig \<Rightarrow> ContinuousMotionQuietWindow \<Rightarrow> odom_sample \<Rightarrow> bool" where
  "discontinuous c w x =
     (case last_odom_sequence w of
        None \<Rightarrow> False
      | Some previous_sequence \<Rightarrow>
          odom_sequence x \<noteq> previous_sequence + 1
          \<or> (case last_received_at_s w of None \<Rightarrow> True
             | Some previous \<Rightarrow> max_odom_gap_s c < the_fin (received_at_s x) - previous)
          \<or> (case last_odom_stamp_ns w of None \<Rightarrow> True
             | Some previous \<Rightarrow> odom_stamp_ns x \<le> previous
                 \<or> max_odom_gap_s c < of_int (odom_stamp_ns x - previous) * nano))"

definition stationary :: "QuietConfig \<Rightarrow> odom_sample \<Rightarrow> bool" where
  "stationary c x =
     (linear_speed_mps x \<le> Fin (max_linear_speed_mps c) \<and> angular_speed_rps x \<le> Fin (max_angular_speed_rps c))"

text \<open>The state changes of \<open>observe\<close> once a sample has passed the fences.\<close>

definition accept_sample ::
  "QuietConfig \<Rightarrow> odom_sample \<Rightarrow> ContinuousMotionQuietWindow \<Rightarrow> ContinuousMotionQuietWindow" where
  "accept_sample c x w =
     (let broken = discontinuous c w x;
          still = stationary c x;
          w1 = w\<lparr> last_received_at_s := Some (the_fin (received_at_s x)),
                  last_odom_sequence := Some (odom_sequence x),
                  last_odom_stamp_ns := Some (odom_stamp_ns x) \<rparr>;
          w2 = (if broken \<or> \<not> still
                then w1\<lparr> stable_since_received_at_s := None, stable_start_odom_stamp_ns := None,
                         last_reset_reason :=
                           (if broken then ''odom_discontinuity'' else ''motion_limit_exceeded'') \<rparr>
                else w1)
      in if \<not> still then w2
         else if stable_since_received_at_s w2 = None then
           w2\<lparr> stable_since_received_at_s := Some (the_fin (received_at_s x)),
               stable_start_odom_stamp_ns := Some (odom_stamp_ns x),
               last_reset_reason :=
                 (if last_reset_reason w2 = ''post_stop_reset'' then [] else last_reset_reason w2) \<rparr>
         else w2)"

text \<open>What keeps a sample out: nothing was armed, or it is not after the stop.\<close>

definition before_stop :: "odom_sample \<Rightarrow> ContinuousMotionQuietWindow \<Rightarrow> bool" where
  "before_stop x w =
     (the_fin (received_at_s x) \<le> the (stop_received_at_s w)
      \<or> odom_sequence x \<le> the (minimum_odom_sequence w)
      \<or> odom_stamp_ns x \<le> the (minimum_odom_stamp_ns w))"

definition quiet_observe ::
  "QuietConfig \<Rightarrow> odom_sample \<Rightarrow> ContinuousMotionQuietWindow \<Rightarrow> unit quiet_op" where
  "quiet_observe c x w =
     (if stop_received_at_s w = None \<or> minimum_odom_sequence w = None \<or> minimum_odom_stamp_ns w = None
      then (Inr (), w)
      else
        guard (sample_invalid x) (ValueError ''motion quiet-window sample is invalid'') w
        (if before_stop x w then (Inr (), w)
         else
           guard (case last_received_at_s w of None \<Rightarrow> False
                  | Some previous \<Rightarrow> the_fin (received_at_s x) < previous)
             (ValueError ''motion quiet-window receipt time moved backwards'') w
             (Inr (), accept_sample c x w)))"

definition quiet_ready ::
  "QuietConfig \<Rightarrow> int \<Rightarrow> int \<Rightarrow> pyfloat \<Rightarrow> ContinuousMotionQuietWindow \<Rightarrow> bool" where
  "quiet_ready c sq stamp seen w =
     (case (stable_since_received_at_s w, stable_start_odom_stamp_ns w, last_received_at_s w,
            last_odom_sequence w, last_odom_stamp_ns w) of
        (Some since, Some start, Some received, Some last_seq, Some last_stamp) \<Rightarrow>
          seen = Fin received \<and> sq = last_seq \<and> stamp = last_stamp
          \<and> quiet_window_s c \<le> received - since + nano
          \<and> quiet_window_s c \<le> of_int (last_stamp - start) * nano + nano
      | _ \<Rightarrow> False)"

definition stable_duration_s :: "ContinuousMotionQuietWindow \<Rightarrow> real" where
  "stable_duration_s w =
     (case (stable_since_received_at_s w, last_received_at_s w) of
        (Some since, Some received) \<Rightarrow> max 0 (received - since) | _ \<Rightarrow> 0)"

section \<open>Accepted samples\<close>

definition accepted :: "odom_sample \<Rightarrow> ContinuousMotionQuietWindow \<Rightarrow> bool" where
  "accepted x w \<longleftrightarrow>
     stop_received_at_s w \<noteq> None \<and> minimum_odom_sequence w \<noteq> None \<and> minimum_odom_stamp_ns w \<noteq> None \<and>
     \<not> sample_invalid x \<and> \<not> before_stop x w \<and>
     (case last_received_at_s w of None \<Rightarrow> True | Some t \<Rightarrow> t \<le> the_fin (received_at_s x))"

lemma quiet_observe_unfold:
  "snd (quiet_observe c x w) = (if accepted x w then accept_sample c x w else w)"
  by (auto simp: quiet_observe_def guard_def accepted_def not_less split: option.splits)

text \<open>The samples of a list that the window accepts, one after the other.\<close>

fun accepted_samples :: "QuietConfig \<Rightarrow> ContinuousMotionQuietWindow \<Rightarrow> odom_sample list \<Rightarrow> odom_sample list" where
  "accepted_samples c w [] = []"
| "accepted_samples c w (x # xs) =
     (if accepted x w then x # accepted_samples c (accept_sample c x w) xs else accepted_samples c w xs)"

definition observe_all :: "QuietConfig \<Rightarrow> ContinuousMotionQuietWindow \<Rightarrow> odom_sample list \<Rightarrow> ContinuousMotionQuietWindow" where
  "observe_all c w xs = foldl (\<lambda>w x. snd (quiet_observe c x w)) w xs"

text \<open>Two samples in succession, and a quiet stretch of them.\<close>

definition follows :: "QuietConfig \<Rightarrow> odom_sample \<Rightarrow> odom_sample \<Rightarrow> bool" where
  "follows c x y \<longleftrightarrow>
     odom_sequence y = odom_sequence x + 1 \<and> odom_stamp_ns x < odom_stamp_ns y \<and>
     of_int (odom_stamp_ns y - odom_stamp_ns x) * nano \<le> max_odom_gap_s c \<and>
     the_fin (received_at_s x) \<le> the_fin (received_at_s y) \<and>
     the_fin (received_at_s y) - the_fin (received_at_s x) \<le> max_odom_gap_s c"

definition quiet_stretch :: "QuietConfig \<Rightarrow> odom_sample list \<Rightarrow> bool" where
  "quiet_stretch c ys \<longleftrightarrow> ys \<noteq> [] \<and> list_all (stationary c) ys \<and> successively (follows c) ys"

text \<open>The attributes of the window against the samples it accepted.\<close>

definition tracks :: "QuietConfig \<Rightarrow> odom_sample list \<Rightarrow> ContinuousMotionQuietWindow \<Rightarrow> bool" where
  "tracks c acc w \<longleftrightarrow>
     (if acc = [] then last_received_at_s w = None \<and> last_odom_sequence w = None \<and> last_odom_stamp_ns w = None
        \<and> stable_since_received_at_s w = None
      else last_received_at_s w = Some (the_fin (received_at_s (last acc))) \<and>
           last_odom_sequence w = Some (odom_sequence (last acc)) \<and>
           last_odom_stamp_ns w = Some (odom_stamp_ns (last acc))) \<and>
     (stable_since_received_at_s w \<noteq> None \<longrightarrow>
        (\<exists>ys. suffix ys acc \<and> quiet_stretch c ys \<and>
              stable_since_received_at_s w = Some (the_fin (received_at_s (hd ys))) \<and>
              stable_start_odom_stamp_ns w = Some (odom_stamp_ns (hd ys))))"

lemma tracks_accept:
  assumes tr: "tracks c acc w" and ac: "accepted x w"
  shows "tracks c (acc @ [x]) (accept_sample c x w)"
proof -
  let ?w = "accept_sample c x w"
  have l: "last_received_at_s ?w = Some (the_fin (received_at_s x))" "last_odom_sequence ?w = Some (odom_sequence x)"
    "last_odom_stamp_ns ?w = Some (odom_stamp_ns x)"
    by (simp_all add: accept_sample_def Let_def)
  have "\<exists>ys. suffix ys (acc @ [x]) \<and> quiet_stretch c ys \<and>
        stable_since_received_at_s ?w = Some (the_fin (received_at_s (hd ys))) \<and>
        stable_start_odom_stamp_ns ?w = Some (odom_stamp_ns (hd ys))"
    if s: "stable_since_received_at_s ?w \<noteq> None"
  proof (cases "discontinuous c w x \<or> stable_since_received_at_s w = None")
    case True
    have "stationary c x" using s by (auto simp: accept_sample_def Let_def split: if_splits)
    with True show ?thesis
      by (intro exI [of _ "[x]"]) (auto simp: quiet_stretch_def accept_sample_def Let_def suffix_def)
  next
    case False
    have st: "stationary c x" using s by (auto simp: accept_sample_def Let_def split: if_splits)
    from False tr obtain ys where ys: "suffix ys acc" "quiet_stretch c ys"
      "stable_since_received_at_s w = Some (the_fin (received_at_s (hd ys)))"
      "stable_start_odom_stamp_ns w = Some (odom_stamp_ns (hd ys))" by (auto simp: tracks_def)
    have ne: "acc \<noteq> []" "ys \<noteq> []" "last ys = last acc"
      using ys by (auto simp: quiet_stretch_def suffix_def)
    have "follows c (last acc) x"
      using False tr ne ac by (auto simp: discontinuous_def tracks_def follows_def accepted_def not_less not_le)
    then have "quiet_stretch c (ys @ [x])"
      using ys(2) ne st by (simp add: quiet_stretch_def successively_append_iff)
    moreover have "suffix (ys @ [x]) (acc @ [x])" using ys(1) by simp
    moreover have "stable_since_received_at_s ?w = stable_since_received_at_s w"
      "stable_start_odom_stamp_ns ?w = stable_start_odom_stamp_ns w"
      using False st by (auto simp: accept_sample_def Let_def)
    ultimately show ?thesis using ys ne by (intro exI [of _ "ys @ [x]"]) simp
  qed
  then show ?thesis using l by (simp add: tracks_def)
qed

lemma accepted_samples_snoc:
  "accepted_samples c w (xs @ [x]) =
     accepted_samples c w xs @ (if accepted x (observe_all c w xs) then [x] else [])"
proof (induction xs arbitrary: w)
  case (Cons y ys)
  then show ?case by (simp add: observe_all_def quiet_observe_unfold)
qed (simp add: observe_all_def)

lemma tracks_observe_all:
  "tracks c [] w \<Longrightarrow> tracks c (accepted_samples c w xs) (observe_all c w xs)"
proof (induction xs rule: rev_induct)
  case Nil
  then show ?case by (simp add: observe_all_def)
next
  case (snoc x xs)
  then show ?case using tracks_accept [of c "accepted_samples c w xs" "observe_all c w xs" x]
    by (simp add: accepted_samples_snoc) (simp add: observe_all_def quiet_observe_unfold)
qed

lemma quiet_reset_tracks: "quiet_reset stop sq st w0 = (Inr (), w) \<Longrightarrow> tracks c [] w"
  by (auto simp: quiet_reset_def quiet_clear_def tracks_def)

section \<open>Properties\<close>

text \<open>C10: The window reports ready, for the sample asked about, only when a stretch of consecutively accepted samples
  ends in it: all of them after the stop, each below both speed limits, each following the previous one by exactly one
  sequence number within the gap limit on both clocks, and the stretch spans the quiet window (up to a
  nanosecond) on the receipt clock and on the source clock.\<close>

theorem quiet_ready_only_after_quiet_stretch:
  assumes "quiet_reset stop min_seq min_stamp w0 = (Inr (), w)"
    and "quiet_ready c sq stamp seen (observe_all c w xs)"
  shows "\<exists>ys. suffix ys (accepted_samples c w xs) \<and> quiet_stretch c ys \<and>
     sq = odom_sequence (last ys) \<and> stamp = odom_stamp_ns (last ys) \<and>
     seen = Fin (the_fin (received_at_s (last ys))) \<and>
     quiet_window_s c \<le> the_fin (received_at_s (last ys)) - the_fin (received_at_s (hd ys)) + nano \<and>
     quiet_window_s c \<le> of_int (odom_stamp_ns (last ys) - odom_stamp_ns (hd ys)) * nano + nano"
proof -
  let ?w = "observe_all c w xs" and ?acc = "accepted_samples c w xs"
  have tr: "tracks c ?acc ?w" by (rule tracks_observe_all [OF quiet_reset_tracks [OF assms(1)]])
  from assms(2) obtain since start received where
    r: "stable_since_received_at_s ?w = Some since" "stable_start_odom_stamp_ns ?w = Some start"
      "last_received_at_s ?w = Some received" "last_odom_sequence ?w = Some sq" "last_odom_stamp_ns ?w = Some stamp"
      "seen = Fin received" "quiet_window_s c \<le> received - since + nano"
      "quiet_window_s c \<le> of_int (stamp - start) * nano + nano"
    by (auto simp: quiet_ready_def split: option.splits)
  from tr r obtain ys where ys: "suffix ys ?acc" "quiet_stretch c ys" "since = the_fin (received_at_s (hd ys))"
    "start = odom_stamp_ns (hd ys)" by (auto simp: tracks_def)
  have "?acc \<noteq> []" "last ys = last ?acc" using ys by (auto simp: quiet_stretch_def suffix_def)
  then show ?thesis using tr r ys by (auto simp: tracks_def)
qed

definition demo_quiet :: QuietConfig where
  "demo_quiet = \<lparr> quiet_window_s = 1 / 10, max_odom_gap_s = 6 / 100, max_linear_speed_mps = 2 / 100,
                  max_angular_speed_rps = 3 / 100 \<rparr>"

definition demo_sample :: "int \<Rightarrow> odom_sample" where
  "demo_sample n = \<lparr> received_at_s = Fin (10 + of_int n * (5 / 100)), odom_sequence = n,
                     odom_stamp_ns = 9000000000 + n * 50000000, linear_speed_mps = Fin (1 / 100),
                     angular_speed_rps = Fin 0 \<rparr>"

definition demo_window :: ContinuousMotionQuietWindow where
  "demo_window = snd (quiet_reset (Fin 10) 0 9000000000 (quiet_clear ''not_started''))"

lemma quiet_ready_only_after_quiet_stretch_witness:
  "\<exists>ys. suffix ys (accepted_samples demo_quiet demo_window (map demo_sample [1, 2, 3])) \<and> quiet_stretch demo_quiet ys"
proof -
  have "quiet_reset (Fin 10) 0 9000000000 (quiet_clear ''not_started'') = (Inr (), demo_window)"
    by (simp add: demo_window_def quiet_reset_def guard_def)
  moreover have "quiet_ready demo_quiet 3 9150000000 (Fin (1015 / 100))
      (observe_all demo_quiet demo_window (map demo_sample [1, 2, 3]))" by code_simp
  ultimately show ?thesis using quiet_ready_only_after_quiet_stretch by blast
qed

text \<open>A sample above a speed limit, or one that breaks the sequence or the pace, never leaves the window ready:
  right after it the measured stable time is zero.\<close>

theorem disturbance_restarts_window:
  assumes "accepted x w" and "discontinuous c w x \<or> \<not> stationary c x"
  shows "stable_duration_s (snd (quiet_observe c x w)) = 0 \<and>
    (0 < quiet_window_s c - nano \<longrightarrow> \<not> quiet_ready c sq stamp seen (snd (quiet_observe c x w)))"
  using assms
  by (auto simp: quiet_observe_unfold accept_sample_def Let_def stable_duration_s_def quiet_ready_def
      split: option.splits)

lemma disturbance_restarts_window_witness:
  "stable_duration_s (snd (quiet_observe demo_quiet (demo_sample 4)
     (observe_all demo_quiet demo_window (map demo_sample [1, 2])))) = 0"
proof -
  have "accepted (demo_sample 4) (observe_all demo_quiet demo_window (map demo_sample [1, 2]))" by code_simp
  moreover have "discontinuous demo_quiet (observe_all demo_quiet demo_window (map demo_sample [1, 2])) (demo_sample 4)"
    by code_simp
  ultimately show ?thesis using disturbance_restarts_window by blast
qed

end
