(* ===== verification/Yaw_Search.thy ===== *)
theory Yaw_Search
  imports Interfaces
begin

text \<open>
  The bounded visual search of \<open>src/ros2/z_manip_task/z_manip_task/core.py\<close>: angle wrapping, image-edge
  directions, \<open>VisualSearchConfig\<close> and \<open>BoundedYawSearch\<close>. The configuration holds the finite floats its
  \<open>__post_init__\<close> accepts, as reals; measured yaw, position, speed and time arrive as floats
  that may be non-finite. \<open>math.pi\<close> is the double's exact value; \<open>cos\<close>, \<open>sin\<close> and \<open>sqrt\<close> are the real functions.
\<close>

section \<open>Frames, twists and image edges\<close>

definition validate_platform_odometry_frames ::
  "string \<Rightarrow> string \<Rightarrow> string \<Rightarrow> string \<Rightarrow> unit res" where
  "validate_platform_odometry_frames parent child expected_parent expected_child =
     raise_if (expected_parent = [] \<or> expected_child = [])
       (ValueError ''platform odometry expected frames must be non-empty'')
     (raise_if ((parent, child) \<noteq> (expected_parent, expected_child))
       (ValueError (''platform odometry frame mismatch: expected '' @ expected_parent @ '' -> '' @
          expected_child @ '', received '' @ (if parent = [] then ''<empty>'' else parent) @ '' -> '' @
          (if child = [] then ''<empty>'' else child)))
       (Inr ()))"

definition validate_position_hold_frame_contract :: "string \<Rightarrow> string \<Rightarrow> unit res" where
  "validate_position_hold_frame_contract odometry_frame command_frame =
     raise_if (odometry_frame = [] \<or> command_frame = [])
       (ValueError ''position-hold frames must be non-empty'')
     (raise_if (odometry_frame \<noteq> command_frame)
       (ValueError (''position-hold frame mismatch: odometry tracks '' @ odometry_frame @
          '', but velocity commands use '' @ command_frame))
       (Inr ()))"

definition vector_norm :: "pyfloat list \<Rightarrow> real" where
  "vector_norm v = sqrt (sum_list (map (\<lambda>x. the_fin x * the_fin x) v))"

definition base_twist_speed_magnitudes :: "pyfloat list \<Rightarrow> pyfloat list \<Rightarrow> (real \<times> real) res" where
  "base_twist_speed_magnitudes lin ang =
     raise_if (length lin \<noteq> 3 \<or> length ang \<noteq> 3 \<or> \<not> list_all isfinite (lin @ ang))
       (ValueError ''base twist must contain finite linear and angular vectors'')
       (Inr (vector_norm lin, vector_norm ang))"

definition math_pi :: real where
  "math_pi = 884279719003555 / 281474976710656"

text \<open>Python's \<open>%\<close> on floats: the remainder has the sign of the divisor.\<close>

definition py_fmod :: "real \<Rightarrow> real \<Rightarrow> real" where
  "py_fmod x m = x - m * of_int \<lfloor>x / m\<rfloor>"

definition wrap_real :: "real \<Rightarrow> real" where
  "wrap_real x = py_fmod (x + math_pi) (2 * math_pi) - math_pi"

definition wrap_angle :: "pyfloat \<Rightarrow> real res" where
  "wrap_angle a = raise_if (\<not> isfinite a) (ValueError ''angle must be finite'') (Inr (wrap_real (the_fin a)))"

definition normalized_image_bbox :: "pyfloat list \<Rightarrow> (real \<times> real \<times> real \<times> real) res" where
  "normalized_image_bbox vs =
     raise_if (length vs \<noteq> 4) (ValueError ''target bbox must contain four coordinates'')
     (raise_if (\<not> list_all (\<lambda>v. isfinite v \<and> 0 \<le> v \<and> v \<le> Fin 1) vs)
       (ValueError ''target bbox is outside normalized image bounds'')
     (let x1 = the_fin (vs ! 0); y1 = the_fin (vs ! 1); x2 = the_fin (vs ! 2); y2 = the_fin (vs ! 3) in
      raise_if (x2 \<le> x1 \<or> y2 \<le> y1) (ValueError ''target bbox has no image area'')
        (Inr (x1, y1, x2, y2))))"

definition image_margin :: "pyfloat \<Rightarrow> string \<Rightarrow> real res" where
  "image_margin v label =
     raise_if (\<not> isfinite v \<or> \<not> (0 \<le> v \<and> v < Fin (1 / 2)))
       (ValueError (label @ '' margin must be in [0, 0.5)'')) (Inr (the_fin v))"

definition edge_direction :: "real \<Rightarrow> real \<Rightarrow> real \<Rightarrow> string \<Rightarrow> int res" where
  "edge_direction lo hi margin label =
     (let touches_low = lo < margin; touches_high = 1 - margin < hi in
      raise_if (touches_low \<and> touches_high)
        (ValueError (''target bbox spans both '' @ label @ '' safety margins''))
        (Inr (if touches_low then 1 else if touches_high then - 1 else 0)))"

definition horizontal_edge_direction :: "pyfloat list \<Rightarrow> pyfloat \<Rightarrow> int res" where
  "horizontal_edge_direction bbox margin_ratio =
     rbind (normalized_image_bbox bbox) (\<lambda>(x1, _, x2, _).
     rbind (image_margin margin_ratio ''horizontal'') (\<lambda>margin. edge_direction x1 x2 margin ''horizontal''))"

definition vertical_edge_direction :: "pyfloat list \<Rightarrow> pyfloat \<Rightarrow> int res" where
  "vertical_edge_direction bbox margin_ratio =
     rbind (normalized_image_bbox bbox) (\<lambda>(_, y1, _, y2).
     rbind (image_margin margin_ratio ''vertical'') (\<lambda>margin. edge_direction y1 y2 margin ''vertical''))"

section \<open>Configuration\<close>

record VisualSearchConfig =
  yaw_step_rad :: real
  max_yaw_offset_rad :: real
  yaw_tolerance_rad :: real
  yaw_gain :: real
  max_yaw_rate_rps :: real
  turn_timeout_s :: real
  max_turn_timeout_s :: real
  max_planar_drift_m :: real
  position_hold_deadband_m :: real
  position_completion_tolerance_m :: real
  moving_rebound_reacquire_m :: real
  position_hold_gain_s_inv :: real
  max_position_hold_speed_mps :: real
  position_hold_slowdown_radius_m :: real
  min_position_hold_speed_mps :: real
  position_hold_timeout_s :: real
  settle_max_linear_speed_mps :: real
  settle_max_angular_speed_rps :: real
  settle_yaw_tolerance_rad :: real
  position_heading_reacquire_tolerance_rad :: real
  min_yaw_rate_rps :: real
  stationary_wait_timeout_s :: real
  stationary_quiet_window_s :: real
  stationary_max_odom_gap_s :: real
  settle_reacquire_budget_s :: real
  deadline_grace_s :: real

text \<open>The checks in the order of the source, up to the slowdown limits, and after them.\<close>

definition search_limits_check :: "VisualSearchConfig \<Rightarrow> unit res" where
  "search_limits_check c =
     raise_if (\<not> list_all (\<lambda>v. 0 < v)
         [yaw_step_rad c, max_yaw_offset_rad c, yaw_tolerance_rad c, settle_yaw_tolerance_rad c,
          position_heading_reacquire_tolerance_rad c, yaw_gain c, max_yaw_rate_rps c,
          turn_timeout_s c, max_turn_timeout_s c, max_planar_drift_m c,
          position_completion_tolerance_m c, moving_rebound_reacquire_m c,
          position_hold_gain_s_inv c, max_position_hold_speed_mps c, position_hold_timeout_s c,
          settle_max_linear_speed_mps c, settle_max_angular_speed_rps c])
       (ValueError ''visual search limits must be finite and positive'')
     (raise_if (min_yaw_rate_rps c < 0)
       (ValueError ''visual search minimum yaw rate must be finite and non-negative'')
     (raise_if (max_yaw_rate_rps c < min_yaw_rate_rps c)
       (ValueError ''visual search minimum yaw rate exceeds its maximum'')
     (raise_if (stationary_wait_timeout_s c < 0)
       (ValueError ''visual search stationary wait timeout must be finite and non-negative'')
     (raise_if (stationary_quiet_window_s c \<le> 0)
       (ValueError ''visual search stationary quiet window must be finite and positive'')
     (raise_if (stationary_max_odom_gap_s c \<le> 0 \<or> stationary_quiet_window_s c \<le> stationary_max_odom_gap_s c)
       (ValueError (''visual search stationary odometry gap must be finite, positive, '' @
                    ''and shorter than its quiet window''))
     (raise_if (settle_reacquire_budget_s c < 0)
       (ValueError ''visual search settle reacquire budget must be finite and non-negative'')
     (raise_if (deadline_grace_s c < 0)
       (ValueError ''visual search deadline grace must be finite and non-negative'')
     (raise_if (position_hold_deadband_m c < 0)
       (ValueError ''visual search position deadband must be finite and non-negative'')
     (raise_if (max_planar_drift_m c \<le> position_hold_deadband_m c)
       (ValueError ''visual search position deadband must be below its drift limit'')
     (raise_if (position_completion_tolerance_m c < position_hold_deadband_m c)
       (ValueError ''visual search position completion tolerance must be at least its deadband'')
     (raise_if (max_planar_drift_m c \<le> position_completion_tolerance_m c)
       (ValueError ''visual search position completion tolerance must be below its drift limit'')
     (raise_if (\<not> (position_completion_tolerance_m c < moving_rebound_reacquire_m c
                   \<and> moving_rebound_reacquire_m c < max_planar_drift_m c))
       (ValueError (''visual search moving rebound trigger must be above completion '' @
                    ''tolerance and below the drift limit''))
     (Inr ())))))))))))))"

definition search_yaw_check :: "VisualSearchConfig \<Rightarrow> unit res" where
  "search_yaw_check c =
     (let slowdown = position_hold_slowdown_radius_m c; minimum_speed = min_position_hold_speed_mps c in
      raise_if (slowdown < 0 \<or> minimum_speed < 0)
       (ValueError ''visual search position slowdown limits must be finite and non-negative'')
     (raise_if ((slowdown = 0) \<noteq> (minimum_speed = 0))
       (ValueError ''visual search position slowdown radius and minimum speed must be enabled together'')
     (raise_if (0 < slowdown \<and> \<not> (position_completion_tolerance_m c < slowdown \<and> slowdown < max_planar_drift_m c))
       (ValueError (''visual search position slowdown radius must be above the '' @
                    ''completion tolerance and below the drift limit''))
     (raise_if (max_position_hold_speed_mps c < minimum_speed)
       (ValueError ''visual search minimum position speed exceeds its maximum'')
     (raise_if (max_yaw_offset_rad c < yaw_step_rad c)
       (ValueError ''visual search yaw step exceeds maximum coverage'')
     (raise_if (math_pi < max_yaw_offset_rad c)
       (ValueError ''visual search coverage cannot exceed pi radians'')
     (raise_if (yaw_step_rad c \<le> yaw_tolerance_rad c)
       (ValueError ''visual search tolerance must be smaller than its step'')
     (raise_if (settle_yaw_tolerance_rad c < yaw_tolerance_rad c)
       (ValueError ''visual search settle yaw tolerance must be at least its control tolerance'')
     (raise_if (yaw_step_rad c \<le> settle_yaw_tolerance_rad c)
       (ValueError ''visual search settle yaw tolerance must be smaller than its step'')
     (raise_if (\<not> (settle_yaw_tolerance_rad c < position_heading_reacquire_tolerance_rad c
                   \<and> position_heading_reacquire_tolerance_rad c < yaw_step_rad c))
       (ValueError (''visual search position heading reacquire tolerance must be '' @
                    ''above its settle tolerance and below its step''))
     (raise_if (max_turn_timeout_s c < turn_timeout_s c)
       (ValueError ''visual search maximum timeout is below one-step timeout'')
     (Inr ()))))))))))))"

definition search_config_post_init :: "VisualSearchConfig \<Rightarrow> unit res" where
  "search_config_post_init c = rbind (search_limits_check c) (\<lambda>_. search_yaw_check c)"

section \<open>The search\<close>

record VisualSearchUpdate =
  angular_z :: real
  error_rad :: real
  complete :: bool
  timed_out :: bool
  drift_exceeded :: bool
  update_drift_m :: real
  linear_x :: real
  linear_y :: real
  timeout_phase :: string

record BoundedYawSearch =
  scan_offsets :: "real list"
  origin_yaw_rad :: "real option"
  target_yaw_rad :: "real option"
  target_offset_rad :: "real option"
  started_at_s :: "real option"
  start_position_xy :: "(real \<times> real) option"
  allocated_timeout_s :: "real option"
  position_hold_started_at_s :: "real option"
  position_heading_latched :: bool
  last_update_at_s :: "real option"
  previous_error_rad :: "real option"
  planar_drift_m :: real
  position_error_base_xy :: "real \<times> real"
  linear_command_base_xy :: "real \<times> real"
  attempt :: int
  scan_index :: nat
  active :: bool

text \<open>The loop of \<open>_make_offsets\<close>; \<open>None\<close> would be a loop that does not end.\<close>

partial_function (option) offsets_from :: "real \<Rightarrow> real \<Rightarrow> real \<Rightarrow> real list option" where
  "offsets_from stp maximum radius =
     (if radius \<le> maximum + 1 / 1000000000
      then Option.bind (offsets_from stp maximum (radius + stp))
             (\<lambda>rest. Some (min radius maximum # - min radius maximum # rest))
      else Some [])"

definition make_offsets :: "VisualSearchConfig \<Rightarrow> real list option" where
  "make_offsets c =
     Option.bind (offsets_from (yaw_step_rad c) (max_yaw_offset_rad c) (yaw_step_rad c))
       (\<lambda>offsets.
         Some (if offsets = [] \<or> \<bar>offsets ! (length offsets - 2)\<bar> < max_yaw_offset_rad c - 1 / 1000000000
               then offsets @ [max_yaw_offset_rad c, - max_yaw_offset_rad c] else offsets))"

definition search_reset :: "real list \<Rightarrow> BoundedYawSearch" where
  "search_reset offsets =
     \<lparr> scan_offsets = offsets, origin_yaw_rad = None, target_yaw_rad = None, target_offset_rad = None,
       started_at_s = None, start_position_xy = None, allocated_timeout_s = None,
       position_hold_started_at_s = None, position_heading_latched = False, last_update_at_s = None,
       previous_error_rad = None, planar_drift_m = 0, position_error_base_xy = (0, 0),
       linear_command_base_xy = (0, 0), attempt = 0, scan_index = 0, active = False \<rparr>"

definition search_init :: "VisualSearchConfig \<Rightarrow> BoundedYawSearch option" where
  "search_init c = map_option search_reset (make_offsets c)"

type_synonym 'a search_op = "('a, BoundedYawSearch) outcome"

definition clamp :: "real \<Rightarrow> real \<Rightarrow> real" where
  "clamp bound x = min (max x (- bound)) bound"

text \<open>The next view: the new search with its offset, or nothing when coverage is exhausted.\<close>

definition next_offset ::
  "VisualSearchConfig \<Rightarrow> real \<Rightarrow> real \<Rightarrow> int \<Rightarrow> BoundedYawSearch \<Rightarrow> (real \<times> BoundedYawSearch) option" where
  "next_offset c origin current direction s =
     (if direction \<noteq> 0 then
        let current_offset = wrap_real (current - origin);
            offset = clamp (max_yaw_offset_rad c) (current_offset + of_int direction * yaw_step_rad c)
        in if \<bar>offset - current_offset\<bar> \<le> yaw_tolerance_rad c then None else Some (offset, s)
      else if length (scan_offsets s) \<le> scan_index s then None
      else Some (scan_offsets s ! scan_index s, s\<lparr> scan_index := scan_index s + 1 \<rparr>))"

definition begin_turn ::
  "VisualSearchConfig \<Rightarrow> real \<Rightarrow> real \<Rightarrow> real \<Rightarrow> real \<Rightarrow> BoundedYawSearch \<Rightarrow> BoundedYawSearch" where
  "begin_turn c origin current now offset s =
     (let target = wrap_real (origin + offset);
          angular_travel = \<bar>wrap_real (target - current)\<bar>;
          step_equivalents = max 1 (angular_travel / yaw_step_rad c)
      in s\<lparr> attempt := attempt s + 1, target_offset_rad := Some offset, target_yaw_rad := Some target,
            previous_error_rad := Some (wrap_real (target - current)), started_at_s := Some now,
            allocated_timeout_s := Some (min (max_turn_timeout_s c) (turn_timeout_s c * step_equivalents)),
            position_hold_started_at_s := None, position_heading_latched := False,
            last_update_at_s := Some now, planar_drift_m := 0, position_error_base_xy := (0, 0),
            linear_command_base_xy := (0, 0), active := True \<rparr>)"

text \<open>\<open>start\<close> once the arguments are checked and the sequence has its origin and anchor.\<close>

definition start_view ::
  "VisualSearchConfig \<Rightarrow> real \<Rightarrow> real \<Rightarrow> int \<Rightarrow> BoundedYawSearch \<Rightarrow> bool search_op" where
  "start_view c current now direction s1 =
     (let origin = the (origin_yaw_rad s1) in
      case next_offset c origin current direction s1 of
        None \<Rightarrow> (Inr False, s1)
      | Some (offset, s2) \<Rightarrow>
          guard (start_position_xy s2 = None)
            (RuntimeError ''visual search position anchor is unavailable'')
            (let target = wrap_real (origin + offset) in
             s2\<lparr> attempt := attempt s2 + 1, target_offset_rad := Some offset,
                 target_yaw_rad := Some target,
                 previous_error_rad := Some (wrap_real (target - current)),
                 started_at_s := Some now \<rparr>)
            (Inr True, begin_turn c origin current now offset s2))"

definition search_start ::
  "VisualSearchConfig \<Rightarrow> pyfloat \<Rightarrow> pyfloat \<Rightarrow> pyfloat \<times> pyfloat \<Rightarrow> int \<Rightarrow> BoundedYawSearch \<Rightarrow> bool search_op" where
  "search_start c yaw now_s pos direction s =
     gbind (wrap_angle yaw) s (\<lambda>current.
     guard (\<not> isfinite now_s) (ValueError ''visual search timestamp must be finite'') s
     (guard (active s) (RuntimeError ''visual search turn is already active'') s
     (guard (case last_update_at_s s of None \<Rightarrow> False | Some t \<Rightarrow> the_fin now_s < t)
       (ValueError ''visual search time must be finite and monotonic'') s
     (guard (direction \<notin> {-1, 0, 1}) (ValueError ''image edge direction must be -1, 0, or 1'') s
     (guard (\<not> (isfinite (fst pos) \<and> isfinite (snd pos)))
       (ValueError ''visual search planar position must contain two finite values'') s
     (start_view c current (the_fin now_s) direction
        (if origin_yaw_rad s = None
         then s\<lparr> origin_yaw_rad := Some current,
                 start_position_xy := Some (the_fin (fst pos), the_fin (snd pos)) \<rparr>
         else s)))))))"

definition hypot :: "real \<Rightarrow> real \<Rightarrow> real" where
  "hypot x y = sqrt (x * x + y * y)"

definition reacquire_current_target ::
  "pyfloat \<Rightarrow> pyfloat \<Rightarrow> pyfloat \<times> pyfloat \<Rightarrow> pyfloat \<Rightarrow> BoundedYawSearch \<Rightarrow> unit search_op" where
  "reacquire_current_target yaw now_s pos deadline_s s =
     guard (active s) (RuntimeError ''visual search turn is already active'') s
     (guard (origin_yaw_rad s = None \<or> target_yaw_rad s = None \<or> target_offset_rad s = None
             \<or> start_position_xy s = None \<or> last_update_at_s s = None)
       (RuntimeError ''visual search has no retained target to reacquire'') s
     (guard (\<not> isfinite yaw \<or> \<not> isfinite now_s \<or> \<not> isfinite deadline_s
             \<or> the_fin now_s < the (last_update_at_s s) \<or> deadline_s \<le> now_s)
       (ValueError ''visual search reacquisition timing and yaw must be finite and bounded'') s
     (guard (\<not> (isfinite (fst pos) \<and> isfinite (snd pos)))
       (ValueError ''visual search planar position must contain two finite values'') s
     (let now = the_fin now_s; anchor = the (start_position_xy s) in
      (Inr (), s\<lparr> previous_error_rad := Some (wrap_real (the (target_yaw_rad s) - the_fin yaw)),
                  started_at_s := Some now, allocated_timeout_s := Some (the_fin deadline_s - now),
                  position_hold_started_at_s := None, position_heading_latched := False,
                  last_update_at_s := Some now,
                  planar_drift_m := hypot (the_fin (fst pos) - fst anchor) (the_fin (snd pos) - snd anchor),
                  position_error_base_xy := (0, 0), linear_command_base_xy := (0, 0), active := True \<rparr>)))))"

text \<open>The anchor's offset in the base frame, and the speed toward it.\<close>

definition base_error :: "real \<times> real \<Rightarrow> real \<Rightarrow> real \<times> real \<Rightarrow> real \<times> real" where
  "base_error anchor yaw pos =
     (let ex = fst anchor - fst pos; ey = snd anchor - snd pos; y = wrap_real yaw
      in (cos y * ex + sin y * ey, - sin y * ex + cos y * ey))"

definition hold_speed :: "VisualSearchConfig \<Rightarrow> real \<Rightarrow> real" where
  "hold_speed c distance =
     (let speed = min (position_hold_gain_s_inv c * distance) (max_position_hold_speed_mps c);
          slowdown = position_hold_slowdown_radius_m c;
          completion = position_completion_tolerance_m c
      in if 0 < slowdown \<and> distance < slowdown then
           (let fraction = min (max ((distance - completion) / (slowdown - completion)) 0) 1;
                slowdown_cap = min_position_hold_speed_mps c +
                  fraction * (max_position_hold_speed_mps c - min_position_hold_speed_mps c)
            in min speed slowdown_cap)
         else speed)"

definition position_hold_command ::
  "VisualSearchConfig \<Rightarrow> real \<times> real \<Rightarrow> real \<Rightarrow> real \<times> real \<Rightarrow> real \<times> real" where
  "position_hold_command c anchor yaw pos =
     (let e = base_error anchor yaw pos; distance = hypot (fst e) (snd e) in
      if distance \<le> position_hold_deadband_m c then (0, 0)
      else (let scale = hold_speed c distance / distance in (fst e * scale, snd e * scale)))"

definition stop_turn :: "BoundedYawSearch \<Rightarrow> BoundedYawSearch" where
  "stop_turn s = s\<lparr> active := False, linear_command_base_xy := (0, 0) \<rparr>"

definition zero_update :: "real \<Rightarrow> BoundedYawSearch \<Rightarrow> VisualSearchUpdate" where
  "zero_update err s =
     \<lparr> angular_z = 0, error_rad = err, complete = False, timed_out = False, drift_exceeded = False,
       update_drift_m = planar_drift_m s, linear_x = 0, linear_y = 0, timeout_phase = [] \<rparr>"

definition yaw_rate :: "VisualSearchConfig \<Rightarrow> real \<Rightarrow> real" where
  "yaw_rate c err =
     (let rate = clamp (max_yaw_rate_rps c) (yaw_gain c * err) in
      if \<bar>rate\<bar> < min_yaw_rate_rps c
      then (if err < 0 then - min_yaw_rate_rps c else min_yaw_rate_rps c) else rate)"

definition heading_reached :: "VisualSearchConfig \<Rightarrow> real option \<Rightarrow> real option \<Rightarrow> real \<Rightarrow> bool" where
  "heading_reached c previous_error speed err =
     (\<bar>err\<bar> \<le> yaw_tolerance_rad c
      \<or> (case previous_error of None \<Rightarrow> False
         | Some p \<Rightarrow> p * err < 0 \<and> \<bar>err\<bar> \<le> settle_yaw_tolerance_rad c)
      \<or> (case speed of None \<Rightarrow> False
         | Some v \<Rightarrow> v \<le> settle_max_angular_speed_rps c \<and> \<bar>err\<bar> \<le> settle_yaw_tolerance_rad c))"

text \<open>
  \<open>update\<close> after its argument checks and the measurement of drift and error: first the latch and the
  coupled command are updated, then one of five outcomes is chosen, then it is carried out.
\<close>

datatype turn_outcome = DriftExceeded | TimedOut string | Completed | Holding | Turning

definition position_reached :: "VisualSearchConfig \<Rightarrow> BoundedYawSearch \<Rightarrow> bool" where
  "position_reached c s = (planar_drift_m s \<le> position_completion_tolerance_m c)"

definition settle_turn :: "VisualSearchConfig \<Rightarrow> real \<Rightarrow> BoundedYawSearch \<Rightarrow> BoundedYawSearch" where
  "settle_turn c err s =
     s\<lparr> position_heading_latched :=
          (position_heading_latched s \<and> \<not> position_heading_reacquire_tolerance_rad c < \<bar>err\<bar>),
        linear_command_base_xy :=
          (if position_reached c s \<and> \<bar>err\<bar> \<le> settle_yaw_tolerance_rad c then (0, 0)
           else linear_command_base_xy s) \<rparr>"

definition choose_outcome ::
  "VisualSearchConfig \<Rightarrow> real \<Rightarrow> real \<Rightarrow> real option \<Rightarrow> real option \<Rightarrow> BoundedYawSearch \<Rightarrow> turn_outcome" where
  "choose_outcome c now err previous_error speed s =
     (let heading_accepted =
            (heading_reached c previous_error speed err
             \<or> position_heading_latched s \<and> \<not> position_reached c s
               \<and> \<bar>err\<bar> \<le> position_heading_reacquire_tolerance_rad c)
      in if position_hold_started_at_s s = None
            \<and> the (allocated_timeout_s s) + deadline_grace_s c < now - the (started_at_s s) then
           TimedOut ''yaw_turn''
         else if position_hold_started_at_s s \<noteq> None
            \<and> position_hold_timeout_s c + deadline_grace_s c < now - the (position_hold_started_at_s s) then
           TimedOut ''position_hold''
         else if heading_accepted \<and> position_reached c s then Completed
         else if heading_accepted then Holding else Turning)"

fun carry_out ::
  "VisualSearchConfig \<Rightarrow> real \<Rightarrow> real \<Rightarrow> turn_outcome \<Rightarrow> BoundedYawSearch \<Rightarrow> VisualSearchUpdate \<times> BoundedYawSearch" where
  "carry_out c now err DriftExceeded s = ((zero_update err s)\<lparr> drift_exceeded := True \<rparr>, stop_turn s)"
| "carry_out c now err (TimedOut which) s =
     ((zero_update err s)\<lparr> timed_out := True, timeout_phase := which \<rparr>, stop_turn s)"
| "carry_out c now err Completed s = ((zero_update err s)\<lparr> complete := True \<rparr>, stop_turn s)"
| "carry_out c now err Holding s =
     (let t = s\<lparr> position_hold_started_at_s :=
                   (if position_hold_started_at_s s = None then Some now else position_hold_started_at_s s),
                 position_heading_latched := True \<rparr>
      in ((zero_update err t)\<lparr> linear_x := fst (linear_command_base_xy t),
                               linear_y := snd (linear_command_base_xy t) \<rparr>, t))"
| "carry_out c now err Turning s =
     (let t = (if position_hold_started_at_s s \<noteq> None then s\<lparr> linear_command_base_xy := (0, 0) \<rparr> else s)
      in ((zero_update err t)\<lparr> angular_z := yaw_rate c err,
                               linear_x := fst (linear_command_base_xy t),
                               linear_y := snd (linear_command_base_xy t) \<rparr>, t))"

definition decide_turn ::
  "VisualSearchConfig \<Rightarrow> real \<Rightarrow> real \<Rightarrow> real option \<Rightarrow> real option \<Rightarrow> BoundedYawSearch
     \<Rightarrow> VisualSearchUpdate \<times> BoundedYawSearch" where
  "decide_turn c now err previous_error speed s =
     (if max_planar_drift_m c < planar_drift_m s then carry_out c now err DriftExceeded s
      else carry_out c now err (choose_outcome c now err previous_error speed (settle_turn c err s))
             (settle_turn c err s))"

definition search_update ::
  "VisualSearchConfig \<Rightarrow> pyfloat \<Rightarrow> pyfloat \<Rightarrow> pyfloat \<times> pyfloat \<Rightarrow> pyfloat option \<Rightarrow> BoundedYawSearch
     \<Rightarrow> VisualSearchUpdate search_op" where
  "search_update c yaw now_s pos speed s =
     guard (\<not> active s \<or> target_yaw_rad s = None \<or> started_at_s s = None \<or> start_position_xy s = None
            \<or> allocated_timeout_s s = None)
       (RuntimeError ''visual search has no active turn'') s
     (guard (\<not> isfinite now_s \<or> the_fin now_s < the (started_at_s s) \<or> last_update_at_s s = None
             \<or> the_fin now_s < the (last_update_at_s s))
       (ValueError ''visual search time must be finite and monotonic'') s
     (guard (\<not> (isfinite (fst pos) \<and> isfinite (snd pos)))
       (ValueError ''visual search planar position must contain two finite values'') s
     (guard (case speed of None \<Rightarrow> False | Some v \<Rightarrow> \<not> isfinite v \<or> v < 0)
       (ValueError ''visual search measured angular speed must be finite and non-negative'') s
     (let now = the_fin now_s; p = (the_fin (fst pos), the_fin (snd pos)); anchor = the (start_position_xy s);
          s1 = s\<lparr> last_update_at_s := Some now,
                  planar_drift_m := hypot (fst p - fst anchor) (snd p - snd anchor) \<rparr>
      in gbind (wrap_angle (Fin (the (target_yaw_rad s)) - yaw)) s1 (\<lambda>err.
         let y = the_fin yaw;
             s2 = s1\<lparr> previous_error_rad := Some err, position_error_base_xy := base_error anchor y p,
                      linear_command_base_xy := position_hold_command c anchor y p \<rparr>;
             (u, t) = decide_turn c now err (previous_error_rad s) (map_option the_fin speed) s2
         in (Inr u, t))))))"

section \<open>Angles\<close>

lemma math_pi_pos: "0 < math_pi"
  by (simp add: math_pi_def)

lemma py_fmod_range: "0 < m \<Longrightarrow> 0 \<le> py_fmod x m \<and> py_fmod x m < m"
  using floor_divide_lower [of m x] floor_divide_upper [of m x] by (simp add: py_fmod_def algebra_simps)

lemma wrap_real_range: "- math_pi \<le> wrap_real x \<and> wrap_real x < math_pi"
  using py_fmod_range [of "2 * math_pi" "x + math_pi"] math_pi_pos by (simp add: wrap_real_def)

lemma wrap_real_id: "- math_pi \<le> x \<Longrightarrow> x < math_pi \<Longrightarrow> wrap_real x = x"
proof -
  assume "- math_pi \<le> x" "x < math_pi"
  then have "\<lfloor>(x + math_pi) / (2 * math_pi)\<rfloor> = 0" using math_pi_pos by (simp add: floor_eq_iff field_simps)
  then show ?thesis by (simp add: wrap_real_def py_fmod_def)
qed

lemma wrap_real_congruent: "\<exists>k :: int. wrap_real x = x + 2 * math_pi * of_int k"
  by (rule exI [of _ "- \<lfloor>(x + math_pi) / (2 * math_pi)\<rfloor>"]) (simp add: wrap_real_def py_fmod_def)

section \<open>Scan offsets\<close>


lemma offsets_from_terminates:
  assumes "0 < stp" "0 < maximum" "0 < radius"
  shows "\<exists>os. offsets_from stp maximum radius = Some os \<and> even (length os) \<and> (\<forall>o1 \<in> set os. \<bar>o1\<bar> \<le> maximum)"
proof -
  obtain n :: nat where "maximum + 1 / 1000000000 - radius < of_nat n * stp"
    using reals_Archimedean3 [OF assms(1)] by blast
  then show ?thesis using assms(3)
  proof (induction n arbitrary: radius)
    case 0
    then show ?case by (simp add: offsets_from.simps [of stp maximum radius])
  next
    case (Suc n)
    have "maximum + 1 / 1000000000 - (radius + stp) < of_nat n * stp"
      using Suc.prems by (simp add: algebra_simps)
    from Suc.IH [OF this] Suc.prems assms(1) obtain os where
      os: "offsets_from stp maximum (radius + stp) = Some os" "even (length os)" "\<forall>o1 \<in> set os. \<bar>o1\<bar> \<le> maximum"
      by auto
    then show ?case using Suc.prems assms(2) by (subst offsets_from.simps) auto
  qed
qed

lemma search_config_values:
  assumes "search_config_post_init c = Inr ()"
  shows "0 < yaw_step_rad c" "0 < max_yaw_offset_rad c" "0 < yaw_tolerance_rad c" "0 < max_yaw_rate_rps c"
    "0 < turn_timeout_s c" "0 < max_turn_timeout_s c" "0 < position_hold_gain_s_inv c"
    "0 < max_position_hold_speed_mps c" "0 < position_hold_timeout_s c" "0 \<le> min_yaw_rate_rps c"
    "min_yaw_rate_rps c \<le> max_yaw_rate_rps c" "0 \<le> deadline_grace_s c" "0 \<le> position_hold_deadband_m c"
    "0 \<le> min_position_hold_speed_mps c" "min_position_hold_speed_mps c \<le> max_position_hold_speed_mps c"
    "yaw_tolerance_rad c \<le> settle_yaw_tolerance_rad c" "turn_timeout_s c \<le> max_turn_timeout_s c"
  using assms
  by (auto simp: search_config_post_init_def search_limits_check_def search_yaw_check_def Let_def)

lemma make_offsets_terminates:
  assumes "search_config_post_init c = Inr ()"
  shows "\<exists>os. make_offsets c = Some os \<and> os \<noteq> [] \<and> (\<forall>o1 \<in> set os. \<bar>o1\<bar> \<le> max_yaw_offset_rad c)"
proof -
  note v = search_config_values [OF assms]
  from offsets_from_terminates [OF v(1,2) v(1)] obtain os where
    "offsets_from (yaw_step_rad c) (max_yaw_offset_rad c) (yaw_step_rad c) = Some os"
    "\<forall>o1 \<in> set os. \<bar>o1\<bar> \<le> max_yaw_offset_rad c" by blast
  then show ?thesis using v(2) by (auto simp: make_offsets_def)
qed

section \<open>Commands\<close>

lemma clamp_bound: "0 \<le> b \<Longrightarrow> \<bar>clamp b x\<bar> \<le> b"
  by (auto simp: clamp_def)

lemma yaw_rate_bound:
  assumes "search_config_post_init c = Inr ()" shows "\<bar>yaw_rate c err\<bar> \<le> max_yaw_rate_rps c"
  using search_config_values(4,10,11) [OF assms] clamp_bound [of "max_yaw_rate_rps c" "yaw_gain c * err"]
  by (simp add: yaw_rate_def Let_def)

lemma hypot_scale: "hypot (x * k) (y * k) = \<bar>k\<bar> * hypot x y"
proof -
  have "x * k * (x * k) + y * k * (y * k) = k\<^sup>2 * (x * x + y * y)" by (simp add: power2_eq_square algebra_simps)
  then show ?thesis by (simp add: hypot_def real_sqrt_mult)
qed

lemma hold_speed_bound:
  assumes "search_config_post_init c = Inr ()" and "0 \<le> d"
  shows "0 \<le> hold_speed c d \<and> hold_speed c d \<le> max_position_hold_speed_mps c"
proof -
  note v = search_config_values [OF assms(1)]
  let ?s = "min (position_hold_gain_s_inv c * d) (max_position_hold_speed_mps c)"
  let ?f = "min (max ((d - position_completion_tolerance_m c) /
     (position_hold_slowdown_radius_m c - position_completion_tolerance_m c)) 0) (1::real)"
  have "0 \<le> ?s" "?s \<le> max_position_hold_speed_mps c" using v assms(2) by simp_all
  moreover have "0 \<le> ?f * (max_position_hold_speed_mps c - min_position_hold_speed_mps c)"
    using v by (intro mult_nonneg_nonneg) auto
  ultimately show ?thesis using v by (auto simp: hold_speed_def Let_def)
qed

lemma position_hold_bound:
  assumes "search_config_post_init c = Inr ()"
  shows "hypot (fst (position_hold_command c a y p)) (snd (position_hold_command c a y p))
     \<le> max_position_hold_speed_mps c"
proof -
  note v = search_config_values [OF assms]
  let ?e = "base_error a y p"
  let ?d = "hypot (fst ?e) (snd ?e)"
  show ?thesis
  proof (cases "?d \<le> position_hold_deadband_m c")
    case True
    then show ?thesis using v by (simp add: position_hold_command_def Let_def hypot_def)
  next
    case False
    then have d: "0 < ?d" using v by linarith
    note b = hold_speed_bound [OF assms, of ?d]
    have "\<bar>hold_speed c ?d / ?d\<bar> * ?d = hold_speed c ?d" using b d by (simp add: abs_div_pos)
    then show ?thesis using False b d by (simp add: position_hold_command_def Let_def hypot_scale del: times_divide_eq_right)
  qed
qed

text \<open>The commands and the end of a turn, as the decision leaves them.\<close>

definition command_ok :: "VisualSearchConfig \<Rightarrow> VisualSearchUpdate \<Rightarrow> BoundedYawSearch \<Rightarrow> bool" where
  "command_ok c u t \<longleftrightarrow>
     \<bar>angular_z u\<bar> \<le> max_yaw_rate_rps c \<and> hypot (linear_x u) (linear_y u) \<le> max_position_hold_speed_mps c \<and>
     (complete u \<or> timed_out u \<or> drift_exceeded u \<longrightarrow>
        angular_z u = 0 \<and> linear_x u = 0 \<and> linear_y u = 0 \<and> \<not> active t) \<and>
     (complete u \<longrightarrow> \<bar>error_rad u\<bar> \<le> settle_yaw_tolerance_rad c \<and>
        update_drift_m u \<le> position_completion_tolerance_m c)"

lemma heading_reached_settled:
  "yaw_tolerance_rad c \<le> settle_yaw_tolerance_rad c \<Longrightarrow> heading_reached c p v e \<Longrightarrow> \<bar>e\<bar> \<le> settle_yaw_tolerance_rad c"
  by (auto simp: heading_reached_def split: option.splits)

lemma choose_outcome_Completed:
  assumes "choose_outcome c now err pe v s = Completed" and "yaw_tolerance_rad c \<le> settle_yaw_tolerance_rad c"
  shows "\<bar>err\<bar> \<le> settle_yaw_tolerance_rad c \<and> planar_drift_m s \<le> position_completion_tolerance_m c"
  using assms heading_reached_settled [OF assms(2), of pe v err]
  by (auto simp: choose_outcome_def position_reached_def Let_def split: if_splits)

lemma carry_out_ok:
  assumes cfg: "search_config_post_init c = Inr ()"
    and cmd: "hypot (fst (linear_command_base_xy s)) (snd (linear_command_base_xy s)) \<le> max_position_hold_speed_mps c"
    and fin: "o1 = Completed \<Longrightarrow>
      \<bar>err\<bar> \<le> settle_yaw_tolerance_rad c \<and> planar_drift_m s \<le> position_completion_tolerance_m c"
  shows "command_ok c (fst (carry_out c now err o1 s)) (snd (carry_out c now err o1 s))"
proof -
  have "hypot 0 0 = 0" by (simp add: hypot_def)
  then show ?thesis
    using search_config_values(4,8) [OF cfg] cmd fin yaw_rate_bound [OF cfg, of err]
    by (cases o1) (auto simp: command_ok_def zero_update_def stop_turn_def Let_def)
qed

lemma decide_turn_ok:
  assumes cfg: "search_config_post_init c = Inr ()" and r: "decide_turn c now err pe v s = (u, t)"
    and cmd: "hypot (fst (linear_command_base_xy s)) (snd (linear_command_base_xy s)) \<le> max_position_hold_speed_mps c"
  shows "command_ok c u t"
proof -
  let ?s = "settle_turn c err s"
  have 1: "hypot (fst (linear_command_base_xy ?s)) (snd (linear_command_base_xy ?s)) \<le> max_position_hold_speed_mps c"
    using cmd search_config_values(8) [OF cfg] by (simp add: settle_turn_def hypot_def)
  have 2: "command_ok c (fst (carry_out c now err (choose_outcome c now err pe v ?s) ?s))
      (snd (carry_out c now err (choose_outcome c now err pe v ?s) ?s))"
    by (rule carry_out_ok [OF cfg 1]) (use choose_outcome_Completed search_config_values(16) [OF cfg] in blast)
  have 3: "command_ok c (fst (carry_out c now err DriftExceeded s)) (snd (carry_out c now err DriftExceeded s))"
    by (rule carry_out_ok [OF cfg cmd]) simp
  from r 2 3 show ?thesis by (auto simp: decide_turn_def split: if_splits)
qed

lemma search_update_ok:
  assumes cfg: "search_config_post_init c = Inr ()" and r: "search_update c yaw now pos v s = (Inr u, t)"
  shows "command_ok c u t"
proof -
  from r obtain err s2 a y p where
    d: "decide_turn c (the_fin now) err (previous_error_rad s) (map_option the_fin v) s2 = (u, t)"
    and "linear_command_base_xy s2 = position_hold_command c a y p"
    by (auto simp: search_update_def Let_def case_prod_beta)
  then show ?thesis using decide_turn_ok [OF cfg d] position_hold_bound [OF cfg, of a y p] by simp
qed

section \<open>Runs\<close>

datatype search_event =
    SvStart pyfloat pyfloat "pyfloat \<times> pyfloat" int
  | SvReacquire pyfloat pyfloat "pyfloat \<times> pyfloat" pyfloat
  | SvUpdate pyfloat pyfloat "pyfloat \<times> pyfloat" "pyfloat option"
  | SvReset

fun search_step :: "VisualSearchConfig \<Rightarrow> BoundedYawSearch \<Rightarrow> search_event \<Rightarrow> BoundedYawSearch" where
  "search_step c s (SvStart yaw now pos d) = snd (search_start c yaw now pos d s)"
| "search_step c s (SvReacquire yaw now pos deadline) = snd (reacquire_current_target yaw now pos deadline s)"
| "search_step c s (SvUpdate yaw now pos v) = snd (search_update c yaw now pos v s)"
| "search_step c s SvReset = search_reset (scan_offsets s)"

text \<open>Targets stay in the coverage envelope.\<close>

definition envelope :: "VisualSearchConfig \<Rightarrow> BoundedYawSearch \<Rightarrow> bool" where
  "envelope c s \<longleftrightarrow>
     (\<forall>o1 \<in> set (scan_offsets s). \<bar>o1\<bar> \<le> max_yaw_offset_rad c) \<and>
     (\<forall>o1. target_offset_rad s = Some o1 \<longrightarrow> \<bar>o1\<bar> \<le> max_yaw_offset_rad c) \<and>
     (origin_yaw_rad s = None \<longleftrightarrow> start_position_xy s = None)"

text \<open>The clock of an active turn: the position phase starts within the time allotted to the turn.\<close>

definition turn_clock :: "VisualSearchConfig \<Rightarrow> BoundedYawSearch \<Rightarrow> bool" where
  "turn_clock c s \<longleftrightarrow> (active s \<longrightarrow>
     (\<exists>t0 a. started_at_s s = Some t0 \<and> allocated_timeout_s s = Some a \<and> 0 < a \<and>
        (case position_hold_started_at_s s of
           None \<Rightarrow> True | Some h \<Rightarrow> t0 \<le> h \<and> h \<le> t0 + a + deadline_grace_s c)))"

definition search_inv :: "VisualSearchConfig \<Rightarrow> BoundedYawSearch \<Rightarrow> bool" where
  "search_inv c s \<longleftrightarrow> search_config_post_init c = Inr () \<and> envelope c s \<and> turn_clock c s"

lemma carry_out_frame:
  "scan_offsets (snd (carry_out c now err o1 s)) = scan_offsets s"
  "target_offset_rad (snd (carry_out c now err o1 s)) = target_offset_rad s"
  "origin_yaw_rad (snd (carry_out c now err o1 s)) = origin_yaw_rad s"
  "start_position_xy (snd (carry_out c now err o1 s)) = start_position_xy s"
  "started_at_s (snd (carry_out c now err o1 s)) = started_at_s s"
  "allocated_timeout_s (snd (carry_out c now err o1 s)) = allocated_timeout_s s"
  "last_update_at_s (snd (carry_out c now err o1 s)) = last_update_at_s s"
  by (cases o1; simp add: Let_def stop_turn_def)+

lemma settle_turn_frame [simp]:
  "scan_offsets (settle_turn c err s) = scan_offsets s" "target_offset_rad (settle_turn c err s) = target_offset_rad s"
  "origin_yaw_rad (settle_turn c err s) = origin_yaw_rad s" "start_position_xy (settle_turn c err s) = start_position_xy s"
  "started_at_s (settle_turn c err s) = started_at_s s" "allocated_timeout_s (settle_turn c err s) = allocated_timeout_s s"
  "last_update_at_s (settle_turn c err s) = last_update_at_s s" "active (settle_turn c err s) = active s"
  "position_hold_started_at_s (settle_turn c err s) = position_hold_started_at_s s"
  by (simp_all add: settle_turn_def)

lemma decide_turn_frame:
  "scan_offsets (snd (decide_turn c now err pe v s)) = scan_offsets s"
  "target_offset_rad (snd (decide_turn c now err pe v s)) = target_offset_rad s"
  "origin_yaw_rad (snd (decide_turn c now err pe v s)) = origin_yaw_rad s"
  "start_position_xy (snd (decide_turn c now err pe v s)) = start_position_xy s"
  "started_at_s (snd (decide_turn c now err pe v s)) = started_at_s s"
  "allocated_timeout_s (snd (decide_turn c now err pe v s)) = allocated_timeout_s s"
  "last_update_at_s (snd (decide_turn c now err pe v s)) = last_update_at_s s"
  by (simp_all add: decide_turn_def carry_out_frame stop_turn_def)

text \<open>What the decision does to the clock of a turn that goes on.\<close>

lemma decide_turn_hold:
  assumes "active (snd (decide_turn c now err pe v s))"
  shows "(case position_hold_started_at_s s of
       None \<Rightarrow> now - the (started_at_s s) \<le> the (allocated_timeout_s s) + deadline_grace_s c
     | Some h \<Rightarrow> now - h \<le> position_hold_timeout_s c + deadline_grace_s c) \<and>
    position_hold_started_at_s (snd (decide_turn c now err pe v s)) \<in>
      (case position_hold_started_at_s s of None \<Rightarrow> {None, Some now} | Some h \<Rightarrow> {Some h})"
proof -
  let ?s = "settle_turn c err s"
  let ?o = "choose_outcome c now err pe v ?s"
  have d: "\<not> max_planar_drift_m c < planar_drift_m s"
    using assms by (auto simp: decide_turn_def stop_turn_def)
  have ho: "?o = Holding \<or> ?o = Turning"
    using assms d by (cases ?o) (auto simp: decide_turn_def stop_turn_def)
  then have "(case position_hold_started_at_s s of
       None \<Rightarrow> now - the (started_at_s s) \<le> the (allocated_timeout_s s) + deadline_grace_s c
     | Some h \<Rightarrow> now - h \<le> position_hold_timeout_s c + deadline_grace_s c)"
    by (auto simp: choose_outcome_def Let_def split: if_splits option.split)
  moreover have "position_hold_started_at_s (snd (carry_out c now err ?o ?s)) \<in>
      (case position_hold_started_at_s s of None \<Rightarrow> {None, Some now} | Some h \<Rightarrow> {Some h})"
    using ho by (elim disjE) (simp_all add: Let_def split: option.split)
  ultimately show ?thesis using d by (simp add: decide_turn_def)
qed

text \<open>The fields of a turn that measuring does not touch.\<close>

definition same_turn :: "BoundedYawSearch \<Rightarrow> BoundedYawSearch \<Rightarrow> bool" where
  "same_turn s t \<longleftrightarrow>
     scan_offsets t = scan_offsets s \<and> target_offset_rad t = target_offset_rad s \<and>
     origin_yaw_rad t = origin_yaw_rad s \<and> start_position_xy t = start_position_xy s \<and>
     started_at_s t = started_at_s s \<and> allocated_timeout_s t = allocated_timeout_s s \<and>
     position_hold_started_at_s t = position_hold_started_at_s s \<and> active t = active s"

lemma search_update_cases:
  obtains (raised) e t where "search_update c yaw now pos v s = (Inl e, t)" "same_turn s t"
  | (ok) x err s2 where "now = Fin x" "active s" "the (started_at_s s) \<le> x" "same_turn s s2"
      "search_update c yaw now pos v s =
        (Inr (fst (decide_turn c x err (previous_error_rad s) (map_option the_fin v) s2)),
         snd (decide_turn c x err (previous_error_rad s) (map_option the_fin v) s2))"
proof (cases "fst (search_update c yaw now pos v s)")
  case (Inl e)
  then have "same_turn s (snd (search_update c yaw now pos v s))"
    by (cases "wrap_angle (Fin (the (target_yaw_rad s)) - yaw)")
      (auto simp: search_update_def guard_def Let_def case_prod_beta same_turn_def split: if_splits)
  then show ?thesis using raised [of e "snd (search_update c yaw now pos v s)"] Inl by (simp add: prod_eq_iff)
next
  case (Inr u)
  then have "search_update c yaw now pos v s = (Inr u, snd (search_update c yaw now pos v s))"
    by (simp add: prod_eq_iff)
  then obtain t where r: "search_update c yaw now pos v s = (Inr u, t)" by blast
  then obtain x where x: "now = Fin x" "active s" "the (started_at_s s) \<le> x"
    by (auto simp: search_update_def isfinite_iff)
  let ?p = "(the_fin (fst pos), the_fin (snd pos))" and ?a = "the (start_position_xy s)"
  let ?s2 = "\<lambda>err. s\<lparr> last_update_at_s := Some (the_fin now),
      planar_drift_m := hypot (fst ?p - fst ?a) (snd ?p - snd ?a), previous_error_rad := Some err,
      position_error_base_xy := base_error ?a (the_fin yaw) ?p,
      linear_command_base_xy := position_hold_command c ?a (the_fin yaw) ?p \<rparr>"
  from r obtain err where
    d: "u = fst (decide_turn c (the_fin now) err (previous_error_rad s) (map_option the_fin v) (?s2 err))"
      "t = snd (decide_turn c (the_fin now) err (previous_error_rad s) (map_option the_fin v) (?s2 err))"
    by (auto simp: search_update_def Let_def case_prod_beta)
  have "same_turn s (?s2 err)" by (simp add: same_turn_def)
  from ok [OF x this] d x(1) r show ?thesis by simp
qed

lemma same_turn_inv: "same_turn s t \<Longrightarrow> search_inv c s \<Longrightarrow> search_inv c t"
  by (simp add: search_inv_def envelope_def turn_clock_def same_turn_def)

lemma search_update_inv:
  assumes inv: "search_inv c s" shows "search_inv c (snd (search_update c yaw now pos v s))"
proof (cases rule: search_update_cases [of c yaw now pos v s])
  case (raised e t)
  then show ?thesis using same_turn_inv inv by simp
next
  case (ok x err s2)
  let ?t = "snd (decide_turn c x err (previous_error_rad s) (map_option the_fin v) s2)"
  have i2: "search_inv c s2" "active s2" using same_turn_inv inv ok by (auto simp: same_turn_def)
  have "envelope c ?t" using i2(1) by (simp add: search_inv_def envelope_def decide_turn_frame)
  moreover have "turn_clock c ?t"
  proof (cases "active ?t")
    case True
    note h = decide_turn_hold [OF True]
    have "the (started_at_s s2) \<le> x" using ok by (simp add: same_turn_def)
    with h i2 show ?thesis
      by (auto simp: search_inv_def turn_clock_def decide_turn_frame split: option.splits)
  qed (simp add: turn_clock_def)
  ultimately show ?thesis using ok(5) inv by (simp add: search_inv_def)
qed

lemma next_offset_envelope:
  assumes "next_offset c origin cur d s = Some (o1, t)" and "0 < max_yaw_offset_rad c"
    and "\<forall>o1 \<in> set (scan_offsets s). \<bar>o1\<bar> \<le> max_yaw_offset_rad c"
  shows "\<bar>o1\<bar> \<le> max_yaw_offset_rad c \<and> t = s\<lparr> scan_index := scan_index t \<rparr>"
  using assms clamp_bound [of "max_yaw_offset_rad c"]
  by (auto simp: next_offset_def Let_def split: if_splits)

lemma begin_turn_clock:
  assumes "search_config_post_init c = Inr ()" shows "turn_clock c (begin_turn c og cur now o1 s)"
proof -
  note v = search_config_values [OF assms]
  have "0 < turn_timeout_s c * max 1 (a / yaw_step_rad c)" for a
    using v(5) by (intro mult_pos_pos) (auto simp: max_def)
  then show ?thesis using v(6) by (simp add: turn_clock_def begin_turn_def Let_def)
qed

lemma start_view_inv:
  assumes inv: "search_inv c s" and na: "\<not> active s" "origin_yaw_rad s \<noteq> None"
  shows "search_inv c (snd (start_view c cur now d s))"
proof (cases "next_offset c (the (origin_yaw_rad s)) cur d s")
  case None
  then show ?thesis using inv by (simp add: start_view_def)
next
  case (Some r)
  have cfg: "search_config_post_init c = Inr ()" and en: "envelope c s" using inv by (simp_all add: search_inv_def)
  obtain o1 s2 where r: "r = (o1, s2)" by fastforce
  have o1: "\<bar>o1\<bar> \<le> max_yaw_offset_rad c" and s2: "s2 = s\<lparr> scan_index := scan_index s2 \<rparr>"
    using next_offset_envelope [of c "the (origin_yaw_rad s)" cur d s o1 s2] Some r en search_config_values(2) [OF cfg]
    by (simp_all add: envelope_def)
  have p: "start_position_xy s2 \<noteq> None" "scan_offsets s2 = scan_offsets s" "origin_yaw_rad s2 = origin_yaw_rad s"
    using en na(2) arg_cong [OF s2, of start_position_xy] arg_cong [OF s2, of scan_offsets] arg_cong [OF s2, of origin_yaw_rad]
    by (auto simp: envelope_def)
  have "envelope c (begin_turn c (the (origin_yaw_rad s)) cur now o1 s2)"
    using o1 p en na(2) by (auto simp: envelope_def begin_turn_def Let_def)
  then show ?thesis using Some r p cfg begin_turn_clock [OF cfg] by (auto simp: start_view_def guard_def search_inv_def Let_def)
qed

lemma search_start_inv:
  assumes inv: "search_inv c s" shows "search_inv c (snd (search_start c yaw now pos d s))"
proof (cases "wrap_angle yaw")
  case (Inl e)
  then show ?thesis using inv by (simp add: search_start_def)
next
  case (Inr cur)
  define s1 where "s1 = (if origin_yaw_rad s = None
         then s\<lparr> origin_yaw_rad := Some cur, start_position_xy := Some (the_fin (fst pos), the_fin (snd pos)) \<rparr> else s)"
  have "search_inv c s1" "origin_yaw_rad s1 \<noteq> None" "active s1 = active s"
    using inv by (auto simp: s1_def search_inv_def envelope_def turn_clock_def)
  then have "search_inv c (snd (start_view c cur (the_fin now) d s1))" if "\<not> active s" for d
    using that start_view_inv by blast
  then show ?thesis using inv Inr unfolding search_start_def by (simp add: guard_def s1_def [symmetric])
qed

lemma reacquire_inv:
  assumes inv: "search_inv c s" shows "search_inv c (snd (reacquire_current_target yaw now pos dl s))"
proof -
  have "the_fin now < the_fin dl" if "isfinite now" "isfinite dl" "\<not> dl \<le> now"
    using that by (auto simp: isfinite_iff)
  then show ?thesis using inv
    by (auto simp: reacquire_current_target_def guard_def Let_def search_inv_def envelope_def turn_clock_def)
qed

lemma search_step_inv: "search_inv c s \<Longrightarrow> search_inv c (search_step c s e)"
proof (cases e)
  case SvReset
  assume "search_inv c s"
  then show ?thesis using SvReset by (simp add: search_inv_def envelope_def turn_clock_def search_reset_def)
qed (simp_all add: search_start_inv reacquire_inv search_update_inv)

interpretation search: invariant_machine "search_step c" "search_inv c" for c
  by unfold_locales (rule search_step_inv)

lemma search_init_inv:
  assumes "search_config_post_init c = Inr ()" and "search_init c = Some s"
  shows "search_inv c s"
  using assms make_offsets_terminates [OF assms(1)]
  by (auto simp: search_init_def search_inv_def envelope_def turn_clock_def search_reset_def)

lemma active_update_clock:
  assumes inv: "search_inv c s" and r: "search_update c yaw (Fin now) pos v s = (Inr u, t)" and "active t"
    and st: "started_at_s s = Some t0" "allocated_timeout_s s = Some a"
  shows "now \<le> t0 + a + position_hold_timeout_s c + 2 * deadline_grace_s c"
proof (cases rule: search_update_cases [of c yaw "Fin now" pos v s])
  case (raised e t)
  then show ?thesis using r by simp
next
  case (ok x err s2)
  have v: "0 < position_hold_timeout_s c" "0 \<le> deadline_grace_s c"
    using inv search_config_values(9,12) by (simp_all add: search_inv_def)
  have "active (snd (decide_turn c x err (previous_error_rad s) (map_option the_fin v) s2))" using ok r assms(3) by simp
  from decide_turn_hold [OF this] ok st inv v show ?thesis
    by (auto simp: same_turn_def search_inv_def turn_clock_def split: option.splits)
qed

section \<open>Properties\<close>

text \<open>Wrapping a finite angle gives the angle in \<open>[-pi, pi)\<close> that differs from it by a whole number of turns, and
  a non-finite angle is refused.\<close>

theorem wrap_angle_canonical:
  "(\<exists>y k. wrap_angle (Fin x) = Inr y \<and> - math_pi \<le> y \<and> y < math_pi \<and> y = x + 2 * math_pi * of_int k) \<and>
   wrap_angle NaN = Inl (ValueError ''angle must be finite'') \<and>
   wrap_angle PosInf = Inl (ValueError ''angle must be finite'') \<and>
   wrap_angle NegInf = Inl (ValueError ''angle must be finite'')"
  using wrap_real_range [of x] wrap_real_congruent [of x]
  by (simp add: wrap_angle_def raise_if_def)

text \<open>The scan of an accepted configuration is finite and non-empty, and in every run of the search each
  target stays within the configured coverage of the initial heading, whatever edge directions were requested.\<close>

theorem search_targets_within_coverage:
  assumes "search_config_post_init c = Inr ()"
  shows "\<exists>s. search_init c = Some s \<and> scan_offsets s \<noteq> [] \<and>
    (\<forall>es o1. target_offset_rad (foldl (search_step c) s es) = Some o1 \<longrightarrow> \<bar>o1\<bar> \<le> max_yaw_offset_rad c)"
proof -
  obtain os where os: "make_offsets c = Some os" "os \<noteq> []" using make_offsets_terminates [OF assms] by blast
  then have i: "search_init c = Some (search_reset os)" by (simp add: search_init_def)
  have "search_inv c (foldl (search_step c) (search_reset os) es)" for es
    by (rule search.run_inv [OF search_init_inv [OF assms i]])
  then show ?thesis using i os(2) by (auto simp: search_inv_def envelope_def search_reset_def)
qed

definition demo_search :: VisualSearchConfig where
  "demo_search =
     \<lparr> yaw_step_rad = 1 / 2, max_yaw_offset_rad = 1, yaw_tolerance_rad = 1 / 100, yaw_gain = 3 / 2,
       max_yaw_rate_rps = 3 / 10, turn_timeout_s = 8, max_turn_timeout_s = 30, max_planar_drift_m = 15 / 100,
       position_hold_deadband_m = 1 / 100, position_completion_tolerance_m = 5 / 100,
       moving_rebound_reacquire_m = 1 / 10, position_hold_gain_s_inv = 1,
       max_position_hold_speed_mps = 1 / 10, position_hold_slowdown_radius_m = 0,
       min_position_hold_speed_mps = 0, position_hold_timeout_s = 4,
       settle_max_linear_speed_mps = 35 / 1000, settle_max_angular_speed_rps = 5 / 100,
       settle_yaw_tolerance_rad = 3 / 100, position_heading_reacquire_tolerance_rad = 7 / 100,
       min_yaw_rate_rps = 0, stationary_wait_timeout_s = 0, stationary_quiet_window_s = 35 / 100,
       stationary_max_odom_gap_s = 15 / 100, settle_reacquire_budget_s = 2, deadline_grace_s = 0 \<rparr>"

lemma demo_search_ok: "search_config_post_init demo_search = Inr ()" by code_simp

lemma search_targets_within_coverage_witness: "\<exists>s. search_init demo_search = Some s \<and> scan_offsets s \<noteq> []"
  using search_targets_within_coverage [OF demo_search_ok] by blast

definition demo_turn :: BoundedYawSearch where
  "demo_turn = begin_turn demo_search 0 0 10 (1 / 2)
     ((search_reset [1 / 2, - (1 / 2), 1, - 1])
       \<lparr> origin_yaw_rad := Some 0, start_position_xy := Some (0, 0), scan_index := 1 \<rparr>)"

lemma demo_search_init: "search_init demo_search = Some (search_reset [1 / 2, - (1 / 2), 1, - 1])"
proof -
  have "offsets_from (1 / 2) 1 (3 / 2) = Some []" by (subst offsets_from.simps) simp
  then have "offsets_from (1 / 2) 1 1 = Some [1, - 1]" by (subst offsets_from.simps) simp
  then have "offsets_from (1 / 2) 1 (1 / 2) = Some [1 / 2, - (1 / 2), 1, - 1]" by (subst offsets_from.simps) simp
  then show ?thesis by (simp add: search_init_def make_offsets_def demo_search_def)
qed

lemma demo_wraps: "wrap_real 0 = 0" "wrap_real (1 / 2) = 1 / 2"
  by (rule wrap_real_id; simp add: math_pi_def)+

lemma demo_turn_reached:
  "demo_turn = foldl (search_step demo_search) (search_reset [1 / 2, - (1 / 2), 1, - 1])
     [SvStart (Fin 0) (Fin 10) (Fin 0, Fin 0) 0]"
  by (simp add: demo_turn_def search_start_def start_view_def next_offset_def wrap_angle_def raise_if_def
      guard_def demo_wraps search_reset_def)

lemma demo_turn_clock: "started_at_s demo_turn = Some 10" "allocated_timeout_s demo_turn = Some 8"
  by (simp_all add: demo_turn_def begin_turn_def demo_wraps demo_search_def Let_def)

lemma demo_turn_update:
  "\<exists>u t. search_update demo_search (Fin 0) (Fin 11) (Fin 0, Fin 0) None demo_turn = (Inr u, t) \<and> active t"
  by (simp add: demo_turn_def begin_turn_def search_reset_def search_update_def guard_def wrap_angle_def raise_if_def
      demo_wraps hypot_def base_error_def position_hold_command_def decide_turn_def choose_outcome_def
      settle_turn_def position_reached_def heading_reached_def demo_search_def Let_def)

text \<open>Every command the search returns is bounded, the yaw rate by its limit and the planar speed by the
  position-hold limit; when a turn ends (complete, timed out or drifted off) the command is zero and the turn is
  inactive, and it is complete only with the measured heading inside the settle tolerance and the drift inside
  the completion tolerance.\<close>

theorem search_commands_bounded:
  assumes "search_config_post_init c = Inr ()" and "search_update c yaw now pos speed s = (Inr u, t)"
  shows "\<bar>angular_z u\<bar> \<le> max_yaw_rate_rps c \<and>
    sqrt (linear_x u * linear_x u + linear_y u * linear_y u) \<le> max_position_hold_speed_mps c \<and>
    (complete u \<or> timed_out u \<or> drift_exceeded u \<longrightarrow>
       angular_z u = 0 \<and> linear_x u = 0 \<and> linear_y u = 0 \<and> \<not> active t) \<and>
    (complete u \<longrightarrow> \<bar>error_rad u\<bar> \<le> settle_yaw_tolerance_rad c \<and>
       update_drift_m u \<le> position_completion_tolerance_m c)"
  using search_update_ok [OF assms] by (simp add: command_ok_def hypot_def)

lemma search_commands_bounded_witness:
  "\<exists>u t. search_update demo_search (Fin 0) (Fin 11) (Fin 0, Fin 0) None demo_turn = (Inr u, t) \<and>
     \<bar>angular_z u\<bar> \<le> 3 / 10"
proof -
  obtain u t where r: "search_update demo_search (Fin 0) (Fin 11) (Fin 0, Fin 0) None demo_turn = (Inr u, t)"
    using demo_turn_update by blast
  with search_commands_bounded [OF demo_search_ok r] show ?thesis by (simp add: demo_search_def)
qed

text \<open>A turn cannot go on forever: an update that leaves it active comes no later than its allotted time plus the
  position-hold time plus twice the grace after its start.\<close>

theorem search_turn_deadline:
  assumes "search_config_post_init c = Inr ()" and "search_init c = Some s0" and "s = foldl (search_step c) s0 es"
    and "search_update c yaw (Fin now) pos speed s = (Inr u, t)" and "active t"
    and "started_at_s s = Some t0" and "allocated_timeout_s s = Some a"
  shows "now \<le> t0 + a + position_hold_timeout_s c + 2 * deadline_grace_s c"
  using active_update_clock [OF _ assms(4-7)] search.run_inv [OF search_init_inv [OF assms(1,2)], of es] assms(3)
  by simp


lemma search_turn_deadline_witness: "(11::real) \<le> 10 + 8 + position_hold_timeout_s demo_search + 2 * deadline_grace_s demo_search"
proof -
  obtain u t where r: "search_update demo_search (Fin 0) (Fin 11) (Fin 0, Fin 0) None demo_turn = (Inr u, t)" "active t"
    using demo_turn_update by blast
  show ?thesis
    by (rule search_turn_deadline [OF demo_search_ok demo_search_init demo_turn_reached r demo_turn_clock])
qed

end
