(* ===== verification/Orchestration.thy ===== *)
theory Orchestration
  imports Interfaces "HOL-Library.AList"
begin

text \<open>
  \<open>MobileManipulationStateMachine\<close> of \<open>src/z_manip/orchestration/mobile_manipulation.py\<close>: the recovery policy
  of a whole task. A stage outcome is a success with an optional payload or a typed failure; the counters of
  the dictionary are the fields of a record, the payloads an association list by stage name.
\<close>

section \<open>Stages and failures\<close>

datatype Stage =
    ST_SEARCH | ST_COARSE_NAV | ST_VISUAL_APPROACH | ST_OBSERVE_GRASP | ST_PLAN_GRASP | ST_EXECUTE_GRASP
  | ST_VERIFY_GRASP | ST_CARRY | ST_PLAN_PLACE | ST_EXECUTE_PLACE | ST_COMPLETE | ST_FAILED

fun stage_value :: "Stage \<Rightarrow> string" where
  "stage_value ST_SEARCH = ''search''"
| "stage_value ST_COARSE_NAV = ''coarse_nav''"
| "stage_value ST_VISUAL_APPROACH = ''visual_approach''"
| "stage_value ST_OBSERVE_GRASP = ''observe_grasp''"
| "stage_value ST_PLAN_GRASP = ''plan_grasp''"
| "stage_value ST_EXECUTE_GRASP = ''execute_grasp''"
| "stage_value ST_VERIFY_GRASP = ''verify_grasp''"
| "stage_value ST_CARRY = ''carry''"
| "stage_value ST_PLAN_PLACE = ''plan_place''"
| "stage_value ST_EXECUTE_PLACE = ''execute_place''"
| "stage_value ST_COMPLETE = ''complete''"
| "stage_value ST_FAILED = ''failed''"

datatype FailureKind =
    NOT_FOUND | TARGET_LOST | NAV_BLOCKED | VISUAL_APPROACH_FAILED | NO_GRASP | IK_UNREACHABLE
  | PLAN_BLOCKED | EXECUTION_FAILED | EMPTY_GRASP | VERIFY_FAILED | PLACE_BLOCKED | RELEASE_FAILED
  | POSTURE_UNSAFE | FATAL

fun failure_value :: "FailureKind \<Rightarrow> string" where
  "failure_value NOT_FOUND = ''not_found''"
| "failure_value TARGET_LOST = ''target_lost''"
| "failure_value NAV_BLOCKED = ''nav_blocked''"
| "failure_value VISUAL_APPROACH_FAILED = ''visual_approach_failed''"
| "failure_value NO_GRASP = ''no_grasp''"
| "failure_value IK_UNREACHABLE = ''ik_unreachable''"
| "failure_value PLAN_BLOCKED = ''plan_blocked''"
| "failure_value EXECUTION_FAILED = ''execution_failed''"
| "failure_value EMPTY_GRASP = ''empty_grasp''"
| "failure_value VERIFY_FAILED = ''verify_failed''"
| "failure_value PLACE_BLOCKED = ''place_blocked''"
| "failure_value RELEASE_FAILED = ''release_failed''"
| "failure_value POSTURE_UNSAFE = ''posture_unsafe''"
| "failure_value FATAL = ''fatal''"

record RetryCounts =
  search_misses :: int
  tracker_reacquisitions :: int
  nav_replans :: int
  ik_restandoffs :: int
  plan_candidates :: int
  grasp_attempts :: int
  place_replans :: int
  release_attempts :: int

text \<open>\<open>RetryBudget\<close> and its check; the machine's counters have the same eight names.\<close>

definition default_budget :: RetryCounts where
  "default_budget =
     \<lparr> search_misses = 2, tracker_reacquisitions = 2, nav_replans = 1, ik_restandoffs = 3,
       plan_candidates = 5, grasp_attempts = 3, place_replans = 2, release_attempts = 2 \<rparr>"

definition budget_post_init :: "RetryCounts \<Rightarrow> unit res" where
  "budget_post_init b =
     raise_if (list_ex (\<lambda>v. v < 0)
         [search_misses b, tracker_reacquisitions b, nav_replans b, ik_restandoffs b,
          plan_candidates b, grasp_attempts b, place_replans b, release_attempts b])
       (ValueError ''retry budgets cannot be negative'') (Inr ())"

definition zero_counts :: RetryCounts where
  "zero_counts =
     \<lparr> search_misses = 0, tracker_reacquisitions = 0, nav_replans = 0, ik_restandoffs = 0,
       plan_candidates = 0, grasp_attempts = 0, place_replans = 0, release_attempts = 0 \<rparr>"

text \<open>
  A \<open>StageResult\<close> that its constructor accepts: \<open>ok\<close> without a failure kind, or a failure with one.
\<close>

datatype 'p StageResult = StageOk "'p option" | StageFailure FailureKind string

definition stage_result_post_init :: "bool \<Rightarrow> FailureKind option \<Rightarrow> unit res" where
  "stage_result_post_init ok kind =
     raise_if (ok = (kind \<noteq> None))
       (ValueError ''success must omit failure_kind and failure must provide it'') (Inr ())"

record Transition =
  previous :: Stage
  current :: Stage
  transition_reason :: string
  transition_counters :: RetryCounts

record 'p MobileManipulationStateMachine =
  retry_budget :: RetryCounts
  stage :: Stage
  machine_failure_reason :: string
  task_context :: "(string \<times> 'p) list"
  counters :: RetryCounts

definition machine_init :: "RetryCounts \<Rightarrow> 'p MobileManipulationStateMachine" where
  "machine_init b =
     \<lparr> retry_budget = b, stage = ST_SEARCH, machine_failure_reason = [], task_context = [], counters = zero_counts \<rparr>"

fun successor :: "Stage \<Rightarrow> Stage option" where
  "successor ST_SEARCH = Some ST_COARSE_NAV"
| "successor ST_COARSE_NAV = Some ST_VISUAL_APPROACH"
| "successor ST_VISUAL_APPROACH = Some ST_OBSERVE_GRASP"
| "successor ST_OBSERVE_GRASP = Some ST_PLAN_GRASP"
| "successor ST_PLAN_GRASP = Some ST_EXECUTE_GRASP"
| "successor ST_EXECUTE_GRASP = Some ST_VERIFY_GRASP"
| "successor ST_VERIFY_GRASP = Some ST_CARRY"
| "successor ST_CARRY = Some ST_PLAN_PLACE"
| "successor ST_PLAN_PLACE = Some ST_EXECUTE_PLACE"
| "successor ST_EXECUTE_PLACE = Some ST_COMPLETE"
| "successor ST_COMPLETE = None"
| "successor ST_FAILED = None"

section \<open>Transitions\<close>

type_synonym 'p machine_op = "(Transition, 'p MobileManipulationStateMachine) outcome"

definition terminal :: "'p MobileManipulationStateMachine \<Rightarrow> bool" where
  "terminal m = (stage m \<in> {ST_COMPLETE, ST_FAILED})"

definition transition ::
  "Stage \<Rightarrow> Stage \<Rightarrow> string \<Rightarrow> 'p MobileManipulationStateMachine \<Rightarrow> 'p machine_op" where
  "transition prev cur why m =
     (let m1 = m\<lparr> stage := cur \<rparr>;
          m2 = (if cur = ST_FAILED
                then m1\<lparr> machine_failure_reason := (if why = [] then ''task failed'' else why) \<rparr> else m1)
      in (Inr \<lparr> previous = prev, current = cur, transition_reason = why, transition_counters = counters m2 \<rparr>, m2))"

text \<open>A counter of the dictionary, by its name.\<close>

record counter =
  counter_name :: string
  counter_get :: "RetryCounts \<Rightarrow> int"
  counter_set :: "int \<Rightarrow> RetryCounts \<Rightarrow> RetryCounts"

definition increment_or_fail ::
  "Stage \<Rightarrow> counter \<Rightarrow> Stage \<Rightarrow> string \<Rightarrow> 'p MobileManipulationStateMachine \<Rightarrow> 'p machine_op" where
  "increment_or_fail prev k recovery exhausted m =
     (let m1 = m\<lparr> counters := counter_set k (counter_get k (counters m) + 1) (counters m) \<rparr> in
      if counter_get k (retry_budget m) < counter_get k (counters m1)
      then transition prev ST_FAILED exhausted m1
      else transition prev recovery (''recovering from '' @ counter_name k) m1)"

definition k_search :: counter where
  "k_search = \<lparr> counter_name = ''search_misses'', counter_get = search_misses,
                counter_set = (\<lambda>n c. c\<lparr> search_misses := n \<rparr>) \<rparr>"

definition k_tracker :: counter where
  "k_tracker = \<lparr> counter_name = ''tracker_reacquisitions'', counter_get = tracker_reacquisitions,
                 counter_set = (\<lambda>n c. c\<lparr> tracker_reacquisitions := n \<rparr>) \<rparr>"

definition k_nav :: counter where
  "k_nav = \<lparr> counter_name = ''nav_replans'', counter_get = nav_replans,
             counter_set = (\<lambda>n c. c\<lparr> nav_replans := n \<rparr>) \<rparr>"

definition k_ik :: counter where
  "k_ik = \<lparr> counter_name = ''ik_restandoffs'', counter_get = ik_restandoffs,
            counter_set = (\<lambda>n c. c\<lparr> ik_restandoffs := n \<rparr>) \<rparr>"

definition k_grasp :: counter where
  "k_grasp = \<lparr> counter_name = ''grasp_attempts'', counter_get = grasp_attempts,
               counter_set = (\<lambda>n c. c\<lparr> grasp_attempts := n \<rparr>) \<rparr>"

definition k_place :: counter where
  "k_place = \<lparr> counter_name = ''place_replans'', counter_get = place_replans,
               counter_set = (\<lambda>n c. c\<lparr> place_replans := n \<rparr>) \<rparr>"

definition k_release :: counter where
  "k_release = \<lparr> counter_name = ''release_attempts'', counter_get = release_attempts,
                 counter_set = (\<lambda>n c. c\<lparr> release_attempts := n \<rparr>) \<rparr>"

definition reset_candidates :: "'p MobileManipulationStateMachine \<Rightarrow> 'p MobileManipulationStateMachine" where
  "reset_candidates m = m\<lparr> counters := (counters m)\<lparr> plan_candidates := 0 \<rparr> \<rparr>"

fun apply_failure ::
  "FailureKind \<Rightarrow> string \<Rightarrow> 'p MobileManipulationStateMachine \<Rightarrow> 'p machine_op" where
  "apply_failure NOT_FOUND detail m =
     increment_or_fail (stage m) k_search ST_SEARCH ''target not found within search budget'' m"
| "apply_failure TARGET_LOST detail m =
     increment_or_fail (stage m) k_tracker ST_SEARCH ''persistent target tracking could not be reacquired'' m"
| "apply_failure NAV_BLOCKED detail m =
     increment_or_fail (stage m) k_nav ST_COARSE_NAV ''navigation/visual approach budget exhausted'' m"
| "apply_failure VISUAL_APPROACH_FAILED detail m =
     increment_or_fail (stage m) k_nav ST_COARSE_NAV ''navigation/visual approach budget exhausted'' m"
| "apply_failure NO_GRASP detail m =
     increment_or_fail (stage m) k_ik ST_VISUAL_APPROACH ''IK re-standoff budget exhausted'' (reset_candidates m)"
| "apply_failure IK_UNREACHABLE detail m =
     increment_or_fail (stage m) k_ik ST_VISUAL_APPROACH ''IK re-standoff budget exhausted'' (reset_candidates m)"
| "apply_failure PLAN_BLOCKED detail m =
     (let m1 = m\<lparr> counters := (counters m)\<lparr> plan_candidates := plan_candidates (counters m) + 1 \<rparr> \<rparr> in
      if plan_candidates (counters m1) \<le> plan_candidates (retry_budget m1)
      then transition (stage m) ST_PLAN_GRASP ''trying next grasp candidate'' m1
      else increment_or_fail (stage m) k_ik ST_VISUAL_APPROACH
             ''motion planning re-standoff budget exhausted'' (reset_candidates m1))"
| "apply_failure EXECUTION_FAILED detail m =
     increment_or_fail (stage m) k_grasp ST_OBSERVE_GRASP ''whole-task grasp attempts exhausted'' m"
| "apply_failure EMPTY_GRASP detail m =
     increment_or_fail (stage m) k_grasp ST_OBSERVE_GRASP ''whole-task grasp attempts exhausted'' m"
| "apply_failure VERIFY_FAILED detail m =
     increment_or_fail (stage m) k_grasp ST_OBSERVE_GRASP ''whole-task grasp attempts exhausted'' m"
| "apply_failure PLACE_BLOCKED detail m =
     increment_or_fail (stage m) k_place ST_PLAN_PLACE ''place planning budget exhausted'' m"
| "apply_failure RELEASE_FAILED detail m =
     increment_or_fail (stage m) k_release ST_EXECUTE_PLACE ''object release budget exhausted'' m"
| "apply_failure POSTURE_UNSAFE detail m =
     transition (stage m) ST_FAILED (if detail = [] then failure_value POSTURE_UNSAFE else detail) m"
| "apply_failure FATAL detail m =
     transition (stage m) ST_FAILED (if detail = [] then failure_value FATAL else detail) m"

definition apply_success ::
  "'p option \<Rightarrow> 'p MobileManipulationStateMachine \<Rightarrow> 'p machine_op" where
  "apply_success payload m =
     (let m1 = (case payload of None \<Rightarrow> m
                | Some p \<Rightarrow> m\<lparr> task_context := AList.update (stage_value (stage m)) p (task_context m) \<rparr>)
      in case successor (stage m) of
           None \<Rightarrow> (Inl (RuntimeError (''stage '' @ stage_value (stage m) @ '' has no success transition'')), m1)
         | Some next_stage \<Rightarrow>
             transition (stage m) next_stage [] (if stage m = ST_PLAN_GRASP then reset_candidates m1 else m1))"

fun apply_result :: "'p StageResult \<Rightarrow> 'p MobileManipulationStateMachine \<Rightarrow> 'p machine_op" where
  "apply_result r m =
     guard (terminal m)
       (RuntimeError (''cannot apply an event to terminal stage '' @ stage_value (stage m))) m
       (case r of
          StageOk payload \<Rightarrow> apply_success payload m
        | StageFailure kind detail \<Rightarrow> apply_failure kind detail m)"

definition machine_step :: "'p MobileManipulationStateMachine \<Rightarrow> 'p StageResult \<Rightarrow> 'p MobileManipulationStateMachine" where
  "machine_step m r = snd (apply_result r m)"

section \<open>Budgets\<close>

lemmas counter_defs = k_search_def k_tracker_def k_nav_def k_ik_def k_grasp_def k_place_def k_release_def

definition recovery_counters :: "counter list" where
  "recovery_counters = [k_search, k_tracker, k_nav, k_ik, k_grasp, k_place, k_release]"

definition machine_inv :: "'p MobileManipulationStateMachine \<Rightarrow> bool" where
  "machine_inv m \<longleftrightarrow>
     0 \<le> plan_candidates (counters m) \<and> 0 \<le> plan_candidates (retry_budget m) \<and>
     plan_candidates (counters m) \<le> plan_candidates (retry_budget m) \<and>
     list_all (\<lambda>k. 0 \<le> counter_get k (counters m) \<and> 0 \<le> counter_get k (retry_budget m) \<and>
        counter_get k (counters m) \<le> counter_get k (retry_budget m) + (if terminal m then 1 else 0)) recovery_counters"

lemma machine_inv_init: "budget_post_init b = Inr () \<Longrightarrow> machine_inv (machine_init b)"
  by (simp add: budget_post_init_def machine_inv_def machine_init_def zero_counts_def recovery_counters_def
      counter_defs)

lemma transition_simps [simp]:
  "stage (snd (transition p q w m)) = q" "counters (snd (transition p q w m)) = counters m"
  "retry_budget (snd (transition p q w m)) = retry_budget m"
  by (simp_all add: transition_def Let_def)

text \<open>One recovery: the counter goes up by one, and the task fails exactly when it passes its limit.\<close>

lemma increment_or_fail_simps:
  "retry_budget (snd (increment_or_fail p k r w m)) = retry_budget m"
  "counters (snd (increment_or_fail p k r w m)) = counter_set k (counter_get k (counters m) + 1) (counters m)"
  "stage (snd (increment_or_fail p k r w m)) =
     (if counter_get k (retry_budget m) < counter_get k (counter_set k (counter_get k (counters m) + 1) (counters m))
      then ST_FAILED else r)"
  by (simp_all add: increment_or_fail_def Let_def)

lemma reset_candidates_simps [simp]:
  "retry_budget (reset_candidates m) = retry_budget m" "stage (reset_candidates m) = stage m"
  "counters (reset_candidates m) = (counters m)\<lparr> plan_candidates := 0 \<rparr>"
  by (simp_all add: reset_candidates_def)

lemma increment_inv:
  assumes "machine_inv m" "\<not> terminal m" "k \<in> set recovery_counters" "r \<notin> {ST_COMPLETE, ST_FAILED}"
  shows "machine_inv (snd (increment_or_fail p k r w m))"
  using assms
  by (auto simp: machine_inv_def increment_or_fail_simps recovery_counters_def counter_defs terminal_def)

lemma reset_candidates_inv: "machine_inv m \<Longrightarrow> machine_inv (reset_candidates m)"
  by (simp add: machine_inv_def recovery_counters_def counter_defs terminal_def)

lemma apply_failure_inv:
  assumes "machine_inv m" "\<not> terminal m" shows "machine_inv (snd (apply_failure kind d m))"
proof (cases kind)
  case PLAN_BLOCKED
  let ?m = "m\<lparr> counters := (counters m)\<lparr> plan_candidates := plan_candidates (counters m) + 1 \<rparr> \<rparr>"
  have r: "machine_inv (reset_candidates ?m)" "\<not> terminal (reset_candidates ?m)"
    using assms by (simp_all add: machine_inv_def recovery_counters_def counter_defs terminal_def)
  have "machine_inv (snd (increment_or_fail p k_ik ST_VISUAL_APPROACH w (reset_candidates ?m)))" for p w
    by (rule increment_inv [OF r]) (simp_all add: recovery_counters_def)
  moreover have "machine_inv (snd (transition p ST_PLAN_GRASP w ?m))"
    if "plan_candidates (counters m) + 1 \<le> plan_candidates (retry_budget m)" for p w
    using assms that by (simp add: machine_inv_def recovery_counters_def counter_defs terminal_def)
  ultimately show ?thesis using PLAN_BLOCKED by (simp add: Let_def)
next
  case POSTURE_UNSAFE
  then show ?thesis using assms by (simp add: machine_inv_def recovery_counters_def counter_defs terminal_def)
next
  case FATAL
  then show ?thesis using assms by (simp add: machine_inv_def recovery_counters_def counter_defs terminal_def)
qed (use assms in \<open>simp_all add: increment_inv reset_candidates_inv recovery_counters_def terminal_def\<close>)

lemma apply_success_inv:
  assumes "machine_inv m" "\<not> terminal m" shows "machine_inv (snd (apply_success p m))"
  using assms
  by (cases "stage m"; cases p)
    (simp_all add: apply_success_def machine_inv_def recovery_counters_def counter_defs terminal_def)

lemma machine_step_inv: "machine_inv m \<Longrightarrow> machine_inv (machine_step m r)"
  by (cases r) (simp_all add: machine_step_def guard_def apply_failure_inv apply_success_inv)

lemma retry_budget_step: "retry_budget (machine_step m r) = retry_budget m"
proof (cases r)
  case (StageFailure kind d)
  then show ?thesis by (cases kind) (simp_all add: machine_step_def guard_def increment_or_fail_simps Let_def)
next
  case (StageOk p)
  then show ?thesis
    by (cases p; cases "successor (stage m)") (simp_all add: machine_step_def guard_def apply_success_def Let_def)
qed

lemma init_budget: "retry_budget (machine_init b) = b"
  by (simp add: machine_init_def)

lemma retry_budget_run: "retry_budget (foldl machine_step m rs) = retry_budget m"
  by (induction rs arbitrary: m) (simp_all add: retry_budget_step)

section \<open>Termination\<close>

fun stages_left :: "Stage \<Rightarrow> nat" where
  "stages_left ST_SEARCH = 10"
| "stages_left ST_COARSE_NAV = 9"
| "stages_left ST_VISUAL_APPROACH = 8"
| "stages_left ST_OBSERVE_GRASP = 7"
| "stages_left ST_PLAN_GRASP = 6"
| "stages_left ST_EXECUTE_GRASP = 5"
| "stages_left ST_VERIFY_GRASP = 4"
| "stages_left ST_CARRY = 3"
| "stages_left ST_PLAN_PLACE = 2"
| "stages_left ST_EXECUTE_PLACE = 1"
| "stages_left _ = 0"

definition recoveries_left :: "'p MobileManipulationStateMachine \<Rightarrow> nat" where
  "recoveries_left m =
     sum_list (map (\<lambda>k. nat (counter_get k (retry_budget m) + 1 - counter_get k (counters m))) recovery_counters)"

definition candidates_left :: "'p MobileManipulationStateMachine \<Rightarrow> nat" where
  "candidates_left m = nat (plan_candidates (retry_budget m) + 1 - plan_candidates (counters m))"

text \<open>An upper bound on the outcomes the machine can still take.\<close>

definition steps_left :: "'p MobileManipulationStateMachine \<Rightarrow> nat" where
  "steps_left m =
     (if terminal m then 0
      else let width = nat (plan_candidates (retry_budget m)) + 2 in
           recoveries_left m * (11 * width) + stages_left (stage m) * width + candidates_left m)"

text \<open>Only the grasp planner reports that a plan is blocked.\<close>

definition plan_blocked_by_planner :: "'p MobileManipulationStateMachine \<Rightarrow> 'p StageResult \<Rightarrow> bool" where
  "plan_blocked_by_planner m r =
     (case r of StageFailure PLAN_BLOCKED _ \<Rightarrow> stage m = ST_PLAN_GRASP | _ \<Rightarrow> True)"

lemma stages_left_le: "stages_left s \<le> 10" by (cases s) simp_all

lemma candidates_left_bound: "machine_inv n \<Longrightarrow> candidates_left n < nat (plan_candidates (retry_budget n)) + 2"
  by (auto simp: candidates_left_def machine_inv_def)

lemma recovery_spends:
  assumes "machine_inv m" "machine_inv n" "\<not> terminal m" "retry_budget n = retry_budget m"
    and "terminal n \<or> recoveries_left n < recoveries_left m"
  shows "steps_left n < steps_left m"
proof -
  let ?w = "nat (plan_candidates (retry_budget m)) + 2"
  have pos: "0 < stages_left (stage m)" using assms(3) by (cases "stage m") (simp_all add: terminal_def)
  show ?thesis
  proof (cases "terminal n")
    case True
    then show ?thesis using assms(3) pos by (simp add: steps_left_def Let_def)
  next
    case False
    have "candidates_left n < ?w" using candidates_left_bound [OF assms(2)] assms(4) by simp
    moreover have "stages_left (stage n) * ?w \<le> 10 * ?w" using stages_left_le mult_le_mono1 by blast
    ultimately have "stages_left (stage n) * ?w + candidates_left n < 11 * ?w" by simp
    moreover have "recoveries_left n + 1 \<le> recoveries_left m" using assms(5) False by simp
    then have "(recoveries_left n + 1) * (11 * ?w) \<le> recoveries_left m * (11 * ?w)" using mult_le_mono1 by blast
    ultimately show ?thesis using False assms(3,4) by (simp add: steps_left_def Let_def algebra_simps)
  qed
qed

lemma increment_recoveries:
  assumes "machine_inv m" "\<not> terminal m" "k \<in> set recovery_counters"
  shows "recoveries_left (snd (increment_or_fail p k r w m)) < recoveries_left m"
  using assms
  by (auto simp: machine_inv_def recoveries_left_def increment_or_fail_simps recovery_counters_def counter_defs)

lemma increment_spends:
  assumes "machine_inv m" "\<not> terminal m" "k \<in> set recovery_counters" "r \<notin> {ST_COMPLETE, ST_FAILED}"
  shows "steps_left (snd (increment_or_fail p k r w m)) < steps_left m"
  by (rule recovery_spends [OF assms(1) increment_inv [OF assms] assms(2)])
    (simp_all add: increment_or_fail_simps(1) increment_recoveries [OF assms(1-3)])


lemma reset_candidates_left [simp]: "recoveries_left (reset_candidates m) = recoveries_left m"
  by (simp add: recoveries_left_def recovery_counters_def counter_defs)

lemma restandoff_spends:
  assumes "machine_inv m" "\<not> terminal m"
  shows "steps_left (snd (increment_or_fail p k_ik ST_VISUAL_APPROACH w (reset_candidates m))) < steps_left m"
proof (rule recovery_spends [OF assms(1) _ assms(2)])
  have r: "machine_inv (reset_candidates m)" "\<not> terminal (reset_candidates m)"
    using assms reset_candidates_inv by (auto simp: terminal_def)
  have k: "k_ik \<in> set recovery_counters" by (simp add: recovery_counters_def)
  show "machine_inv (snd (increment_or_fail p k_ik ST_VISUAL_APPROACH w (reset_candidates m)))"
    by (rule increment_inv [OF r k]) simp
  show "terminal (snd (increment_or_fail p k_ik ST_VISUAL_APPROACH w (reset_candidates m))) \<or>
      recoveries_left (snd (increment_or_fail p k_ik ST_VISUAL_APPROACH w (reset_candidates m))) < recoveries_left m"
    using increment_recoveries [OF r k, of p ST_VISUAL_APPROACH w] by simp
qed (simp add: increment_or_fail_simps)

lemma plan_blocked_spends:
  assumes inv: "machine_inv m" and "stage m = ST_PLAN_GRASP"
  shows "steps_left (snd (apply_failure PLAN_BLOCKED d m)) < steps_left m"
proof -
  let ?m = "m\<lparr> counters := (counters m)\<lparr> plan_candidates := plan_candidates (counters m) + 1 \<rparr> \<rparr>"
  have nt: "\<not> terminal m" using assms by (simp add: terminal_def)
  show ?thesis
  proof (cases "plan_candidates (counters m) + 1 \<le> plan_candidates (retry_budget m)")
    case True
    then have "steps_left (snd (transition (stage m) ST_PLAN_GRASP ''trying next grasp candidate'' ?m)) < steps_left m"
      using inv assms(2) by (simp add: steps_left_def terminal_def recoveries_left_def candidates_left_def
          recovery_counters_def counter_defs machine_inv_def Let_def)
    then show ?thesis using True by (simp add: Let_def)
  next
    case False
    have "reset_candidates ?m = reset_candidates m" by (simp add: reset_candidates_def)
    then show ?thesis using False restandoff_spends [OF inv nt] by (simp add: Let_def)
  qed
qed

lemma failure_spends:
  assumes inv: "machine_inv m" and nt: "\<not> terminal m" and ok: "plan_blocked_by_planner m (StageFailure kind d)"
  shows "steps_left (snd (apply_failure kind d m)) < steps_left m"
proof -
  have spend: "steps_left (snd (increment_or_fail p k_search ST_SEARCH w m)) < steps_left m"
    "steps_left (snd (increment_or_fail p k_tracker ST_SEARCH w m)) < steps_left m"
    "steps_left (snd (increment_or_fail p k_nav ST_COARSE_NAV w m)) < steps_left m"
    "steps_left (snd (increment_or_fail p k_grasp ST_OBSERVE_GRASP w m)) < steps_left m"
    "steps_left (snd (increment_or_fail p k_place ST_PLAN_PLACE w m)) < steps_left m"
    "steps_left (snd (increment_or_fail p k_release ST_EXECUTE_PLACE w m)) < steps_left m" for p w
    by (rule increment_spends [OF inv nt]; simp add: recovery_counters_def)+
  show ?thesis
  proof (cases kind)
    case PLAN_BLOCKED
    then show ?thesis using plan_blocked_spends [OF inv, of d] ok
        by (simp only: plan_blocked_by_planner_def StageResult.case FailureKind.case)
  next
    case POSTURE_UNSAFE
    then show ?thesis
      by (simp only:, intro recovery_spends [OF inv apply_failure_inv [OF inv nt] nt]) (simp_all add: terminal_def)
  next
    case FATAL
    then show ?thesis
      by (simp only:, intro recovery_spends [OF inv apply_failure_inv [OF inv nt] nt]) (simp_all add: terminal_def)
  qed (simp_all only: apply_failure.simps restandoff_spends [OF inv nt] spend)
qed

lemma apply_success_frame:
  assumes "successor (stage m) = Some q"
  shows "retry_budget (snd (apply_success p m)) = retry_budget m" "stage (snd (apply_success p m)) = q"
    "list_all (\<lambda>k. counter_get k (counters (snd (apply_success p m))) = counter_get k (counters m)) recovery_counters"
  by (cases p; simp add: apply_success_def assms Let_def recovery_counters_def counter_defs)+

lemma apply_success_recoveries:
  assumes "successor (stage m) = Some q" shows "recoveries_left (snd (apply_success p m)) = recoveries_left m"
  using apply_success_frame(3) [OF assms, of p]
  by (simp add: recoveries_left_def recovery_counters_def apply_success_frame(1) [OF assms])

lemma success_spends:
  assumes inv: "machine_inv m" and nt: "\<not> terminal m"
  shows "steps_left (snd (apply_success p m)) < steps_left m"
proof -
  let ?w = "nat (plan_candidates (retry_budget m)) + 2"
  obtain q where q: "successor (stage m) = Some q" "q \<noteq> ST_FAILED" "stages_left (stage m) = Suc (stages_left q)"
    using nt by (cases "stage m") (auto simp: terminal_def)
  let ?n = "snd (apply_success p m)"
  have n: "retry_budget ?n = retry_budget m" "stage ?n = q" "recoveries_left ?n = recoveries_left m"
    by (rule apply_success_frame [OF q(1)] apply_success_recoveries [OF q(1)])+
  have "candidates_left ?n < ?w"
    using candidates_left_bound [OF apply_success_inv [OF inv nt, of p]] n(1) by (simp only:)
  then show ?thesis using nt n q(3) by (simp add: steps_left_def Let_def)
qed

interpretation machine: budgeted_machine machine_step machine_inv plan_blocked_by_planner terminal steps_left
proof (unfold_locales)
  fix m :: "'a MobileManipulationStateMachine" and r
  show "machine_inv m \<Longrightarrow> machine_inv (machine_step m r)" by (rule machine_step_inv)
  show "machine_inv m \<Longrightarrow> plan_blocked_by_planner m r \<Longrightarrow> \<not> terminal m \<Longrightarrow> steps_left (machine_step m r) < steps_left m"
    by (cases r) (auto simp: machine_step_def guard_def failure_spends success_spends)
  show "terminal m \<Longrightarrow> terminal (machine_step m r)" by (simp add: machine_step_def guard_def)
qed

section \<open>Properties\<close>

text \<open>C11: The recovery policy is bounded: if only the grasp planner reports a blocked plan, every sequence of stage
  outcomes longer than \<open>steps_left\<close> of the initial machine (a number computed from the eight budgets) ends in
  COMPLETE or FAILED.\<close>

theorem task_ends_within_budget:
  assumes "budget_post_init b = Inr ()"
    and "admissible_run machine_step plan_blocked_by_planner (machine_init b) rs"
    and "steps_left (machine_init b :: 'p MobileManipulationStateMachine) < length rs"
  shows "terminal (foldl machine_step (machine_init b :: 'p MobileManipulationStateMachine) rs)"
  using machine.stops_in_budget [OF machine_inv_init [OF assms(1)] assms(2,3)] .

lemma task_ends_within_budget_witness:
  "terminal (foldl machine_step (machine_init default_budget :: unit MobileManipulationStateMachine)
     (replicate 2000 (StageFailure NOT_FOUND [])))"
proof (rule task_ends_within_budget)
  show "budget_post_init default_budget = Inr ()" by code_simp
  have "admissible_run machine_step plan_blocked_by_planner (m :: unit MobileManipulationStateMachine)
      (replicate n (StageFailure NOT_FOUND []))" for m n
    by (induction n arbitrary: m) (simp_all add: plan_blocked_by_planner_def)
  then show "admissible_run machine_step plan_blocked_by_planner (machine_init default_budget)
     (replicate 2000 (StageFailure NOT_FOUND [] :: unit StageResult))" .
  have "steps_left (machine_init default_budget :: unit MobileManipulationStateMachine) < 2000" by code_simp
  then show "steps_left (machine_init default_budget :: unit MobileManipulationStateMachine)
      < length (replicate 2000 (StageFailure NOT_FOUND [] :: unit StageResult))" by simp
qed

text \<open>No recovery counter of a running task exceeds its budget, whatever outcomes are reported; a counter passes its
  budget only in the step that fails the task.\<close>

theorem counters_within_budget:
  assumes "budget_post_init b = Inr ()" and "m = foldl machine_step (machine_init b) rs" and "\<not> terminal m"
  shows "search_misses (counters m) \<le> search_misses b \<and> tracker_reacquisitions (counters m) \<le> tracker_reacquisitions b \<and>
    nav_replans (counters m) \<le> nav_replans b \<and> ik_restandoffs (counters m) \<le> ik_restandoffs b \<and>
    plan_candidates (counters m) \<le> plan_candidates b \<and> grasp_attempts (counters m) \<le> grasp_attempts b \<and>
    place_replans (counters m) \<le> place_replans b \<and> release_attempts (counters m) \<le> release_attempts b"
proof -
  have "machine_inv m" using machine.run_inv [OF machine_inv_init [OF assms(1)]] assms(2) by simp
  moreover have "retry_budget m = b" using retry_budget_run [of "machine_init b" rs] assms(2) by (simp add: init_budget)
  ultimately show ?thesis using assms(3) by (simp add: machine_inv_def recovery_counters_def counter_defs)
qed

lemma counters_within_budget_witness:
  "search_misses (counters (foldl machine_step (machine_init default_budget :: unit MobileManipulationStateMachine)
      [StageFailure NOT_FOUND [], StageFailure NOT_FOUND []])) \<le> 2"
proof -
  let ?rs = "[StageFailure NOT_FOUND [], StageFailure NOT_FOUND []] :: unit StageResult list"
  have "budget_post_init default_budget = Inr ()" by code_simp
  moreover have "\<not> terminal (foldl machine_step (machine_init default_budget) ?rs)" by code_simp
  ultimately have "search_misses (counters (foldl machine_step (machine_init default_budget) ?rs))
      \<le> search_misses default_budget"
    using counters_within_budget [of default_budget _ ?rs, OF _ refl] by blast
  moreover have "search_misses default_budget = 2" by (simp add: default_budget_def)
  ultimately show ?thesis by (simp only:)
qed

text \<open>C12: The bound is lost when a blocked plan is reported by another stage: from the grasp-execution stage with no
  candidate used, a blocked plan and a planning success lead back to a machine with the same counters, so the pair can
  be repeated any number of times without ever ending the task.\<close>

theorem plan_blocked_loop_unbounded:
  assumes "stage m = ST_EXECUTE_GRASP" and "plan_candidates (counters m) = 0" and "1 \<le> plan_candidates (retry_budget m)"
  shows "foldl machine_step m (concat (replicate n [StageFailure PLAN_BLOCKED d, StageOk None])) = m"
proof -
  have "foldl machine_step m [StageFailure PLAN_BLOCKED d, StageOk None] = m"
    using assms by (simp add: machine_step_def guard_def terminal_def transition_def apply_success_def
        reset_candidates_def Let_def)
  then show ?thesis by (induction n) simp_all
qed

lemma plan_blocked_loop_unbounded_witness:
  "foldl machine_step ((machine_init default_budget :: unit MobileManipulationStateMachine)\<lparr> stage := ST_EXECUTE_GRASP \<rparr>)
     (concat (replicate 1000 [StageFailure PLAN_BLOCKED [], StageOk None]))
   = (machine_init default_budget)\<lparr> stage := ST_EXECUTE_GRASP \<rparr>"
  by (rule plan_blocked_loop_unbounded) (simp_all add: machine_init_def default_budget_def zero_counts_def)

end
