(* ===== verification/Navigation_Core.thy ===== *)
theory Navigation_Core
  imports Interfaces Json
begin

text \<open>
  The coarse navigation policy of \<open>src/ros2/z_manip_navigation/z_manip_navigation/core.py\<close>:
  \<open>NavigationConfig\<close>, the parser of the task status and \<open>CoarseNavigationCore\<close> with its planner of waypoints,
  progress window, handoff tests and recovery budgets. The configuration holds the finite floats
  its \<open>__post_init__\<close> accepts, as reals; the measurements of a tick arrive as floats that may be
  missing or non-finite. A position is the list of the coordinates of its array. Two things the
  module takes from NumPy and the interpreter are arguments of the parser: the conversion of a
  JSON value to an array of floats and the text of a float.
\<close>

section \<open>Configuration and messages\<close>

datatype NavPhase = NAV_IDLE | NAV_WAIT_OBSERVATION | NAV_NAVIGATING | NAV_REACQUIRE | NAV_READY | NAV_FAILED

record NavigationConfig =
  near_target_depth_m :: real
  still_speed_mps :: real
  still_settle_s :: real
  target_timeout_s :: real
  observation_wait_timeout_s :: real
  navigation_timeout_s :: real
  stall_timeout_s :: real
  progress_min_net_decrease_m :: real
  progress_min_slope_mps :: real
  odometry_timeout_s :: real
  min_displacement_m :: real
  max_displacement_m :: real
  goal_update_threshold_m :: real
  explicit_goal_tolerance_m :: real
  explicit_goal_handoff_hysteresis_m :: real
  max_reacquisitions :: int
  max_replans :: int

definition default_navigation_config :: NavigationConfig where
  "default_navigation_config =
     \<lparr> near_target_depth_m = 14 / 10, still_speed_mps = 35 / 1000, still_settle_s = 35 / 100,
       target_timeout_s = 55 / 100, observation_wait_timeout_s = 12, navigation_timeout_s = 90,
       stall_timeout_s = 8, progress_min_net_decrease_m = 5 / 1000, progress_min_slope_mps = 1 / 1000,
       odometry_timeout_s = 1 / 2, min_displacement_m = 1 / 10, max_displacement_m = 3,
       goal_update_threshold_m = 2 / 10, explicit_goal_tolerance_m = 25 / 100,
       explicit_goal_handoff_hysteresis_m = 8 / 100, max_reacquisitions = 2, max_replans = 3 \<rparr>"

definition navigation_config_post_init :: "NavigationConfig \<Rightarrow> unit res" where
  "navigation_config_post_init c =
     raise_if (\<not> list_all (\<lambda>v. 0 < v)
         [near_target_depth_m c, still_speed_mps c, still_settle_s c, target_timeout_s c,
          observation_wait_timeout_s c, navigation_timeout_s c, stall_timeout_s c,
          progress_min_net_decrease_m c, progress_min_slope_mps c, odometry_timeout_s c,
          min_displacement_m c, max_displacement_m c, goal_update_threshold_m c,
          explicit_goal_tolerance_m c, explicit_goal_handoff_hysteresis_m c])
       (ValueError ''navigation thresholds must be finite and positive'')
     (raise_if (max_displacement_m c \<le> min_displacement_m c)
       (ValueError ''navigation displacement interval is invalid'')
     (raise_if (max_reacquisitions c < 0 \<or> max_replans c < 0)
       (ValueError ''navigation retry budgets cannot be negative'') (Inr ())))"

record NavInput =
  stamp_s :: pyfloat
  perception_valid :: bool
  target_stamp_s :: "pyfloat option"
  target_depth_m :: "pyfloat option"
  base_xy :: "pyfloat list option"
  target_xy :: "pyfloat list option"
  suggested_displacement_m :: "pyfloat option"
  base_speed_mps :: pyfloat
  odom_stamp_s :: "pyfloat option"
  navigation_healthy :: bool
  goal_reached :: bool
  explicit_goal_xy :: "pyfloat list option"

type_synonym point = "real \<times> real"

record NavDecision =
  decision_phase :: NavPhase
  waypoint_xy :: "point option"
  decision_cancel :: bool
  coarse_ready :: bool
  request_reacquire :: bool
  decision_reason :: string
  decision_replans :: int
  decision_reacquisitions :: int

record CoarseNavigationCore =
  nav_phase :: NavPhase
  nav_instruction :: string
  nav_task_key :: string
  nav_failure_reason :: string
  replan_count :: int
  reacquisition_count :: int
  goal_xy :: "point option"
  uses_explicit_goal :: bool
  goal_mode :: "string option"
  planned_target_xy :: "point option"
  started_at :: "real option"
  phase_started_at :: "real option"
  still_since :: "real option"
  progress_window_started_at_s :: "real option"
  progress_samples :: "(real \<times> real) list"
  last_progress_odom_stamp_s :: "real option"
  last_fresh_progress_at_s :: "real option"
  health_loss_since :: "real option"
  goal_reached_armed :: bool
  explicit_handoff_active :: bool
  explicit_resume_pending :: bool
  progress_window_duration_s :: real
  progress_net_decrease_m :: "real option"
  progress_slope_mps :: "real option"
  progress_odom_age_s :: "real option"

type_synonym 'a nav_op = "('a, CoarseNavigationCore) outcome"

definition navigation_init :: CoarseNavigationCore where
  "navigation_init =
     \<lparr> nav_phase = NAV_IDLE, nav_instruction = [], nav_task_key = [], nav_failure_reason = [],
       replan_count = 0, reacquisition_count = 0, goal_xy = None, uses_explicit_goal = False,
       goal_mode = None, planned_target_xy = None, started_at = None, phase_started_at = None,
       still_since = None, progress_window_started_at_s = None, progress_samples = [],
       last_progress_odom_stamp_s = None, last_fresh_progress_at_s = None, health_loss_since = None,
       goal_reached_armed = False, explicit_handoff_active = False, explicit_resume_pending = False,
       progress_window_duration_s = 0, progress_net_decrease_m = None, progress_slope_mps = None,
       progress_odom_age_s = None \<rparr>"

section \<open>The task status\<close>

record NavigationTaskRequest =
  req_instruction :: string
  req_task_key :: string
  req_goal_id :: "string option"
  req_map_frame :: "string option"
  req_map_goal_xy :: "point option"
  req_map_goal_yaw_rad :: "real option"
  req_displacement_m :: "real option"
  req_source :: "(string \<times> json) list option"

definition request_uses_explicit_goal :: "NavigationTaskRequest \<Rightarrow> bool" where
  "request_uses_explicit_goal r = (req_map_goal_xy r \<noteq> None)"

text \<open>\<open>except (TypeError, ValueError) as error: raise ValueError(message)\<close>.\<close>

definition float_or :: "string \<Rightarrow> json \<Rightarrow> pyfloat res" where
  "float_or message v =
     (case float_value v of
        Inl (TypeError _) \<Rightarrow> Inl (ValueError message)
      | Inl (ValueError _) \<Rightarrow> Inl (ValueError message)
      | r \<Rightarrow> r)"

definition finite_pair :: "string \<Rightarrow> nat list \<times> pyfloat list \<Rightarrow> point res" where
  "finite_pair message a =
     raise_if (fst a \<noteq> [2] \<or> length (snd a) \<noteq> 2 \<or> \<not> list_all isfinite (snd a)) (ValueError message)
       (Inr (the_fin (snd a ! 0), the_fin (snd a ! 1)))"

definition frame_text :: "json \<Rightarrow> string" where
  "frame_text v = (case v of JStr s \<Rightarrow> py_strip s | _ \<Rightarrow> [])"

definition parse_source :: "json \<Rightarrow> (string \<times> json) list option res" where
  "parse_source v =
     (case v of JNull \<Rightarrow> Inr None | JObj ms \<Rightarrow> Inr (Some ms)
      | _ \<Rightarrow> Inl (ValueError ''work_pose source must be an object''))"

definition parse_work_pose ::
  "(pyfloat \<Rightarrow> string) \<Rightarrow> (json \<Rightarrow> (nat list \<times> pyfloat list) res) \<Rightarrow> string \<Rightarrow> json
     \<Rightarrow> NavigationTaskRequest res" where
  "parse_work_pose fl asarray instr v =
     (case v of JObj pose \<Rightarrow>
        (let goal_id = py_strip (str_value fl (get_or (JStr []) pose ''goal_id''));
             map_frame = frame_text (get_or JNull pose ''map_frame'') in
         raise_if (goal_id = []) (ValueError ''work_pose goal_id is empty'')
         (raise_if (map_frame = []) (ValueError ''work_pose map_frame must be a non-empty string'')
         (rbind (asarray (get_or JNull pose ''map_goal_xy'')) (\<lambda>a.
          rbind (finite_pair ''work_pose map_goal_xy must be a finite 2-vector'' a) (\<lambda>goal.
          rbind (float_or ''work_pose map_goal_yaw_rad must be finite'' (get_or JNull pose ''map_goal_yaw_rad''))
            (\<lambda>yaw.
          raise_if (\<not> isfinite yaw) (ValueError ''work_pose map_goal_yaw_rad must be finite'')
          (rbind (parse_source (get_or JNull pose ''source'')) (\<lambda>src.
           Inr \<lparr> req_instruction = instr, req_task_key = goal_id, req_goal_id = Some goal_id,
                 req_map_frame = Some map_frame, req_map_goal_xy = Some goal,
                 req_map_goal_yaw_rad = Some (the_fin yaw), req_displacement_m = None,
                 req_source = src \<rparr>))))))))
      | _ \<Rightarrow> Inl (ValueError ''work_pose must be an object''))"

definition parse_legacy_standoff ::
  "(pyfloat \<Rightarrow> string) \<Rightarrow> string \<Rightarrow> (string \<times> json) list \<Rightarrow> NavigationTaskRequest res" where
  "parse_legacy_standoff fl instr status =
     (let serial = get_or JNull status ''prospective_serial'' in
      raise_if (serial = JNull) (ValueError ''legacy coarse navigation serial is unavailable'')
      (rbind (float_or ''legacy standoff displacement is unavailable''
                (get_or JNull status ''prospective_base_displacement_m'')) (\<lambda>d.
       raise_if (\<not> isfinite d \<or> d \<le> 0) (ValueError ''legacy standoff displacement is unavailable'')
         (Inr \<lparr> req_instruction = instr, req_task_key = instr @ '':'' @ str_value fl serial,
                req_goal_id = None, req_map_frame = None, req_map_goal_xy = None,
                req_map_goal_yaw_rad = None, req_displacement_m = Some (the_fin d),
                req_source = None \<rparr>))))"

definition parse_task_navigation_request ::
  "(pyfloat \<Rightarrow> string) \<Rightarrow> (json \<Rightarrow> (nat list \<times> pyfloat list) res) \<Rightarrow> json
     \<Rightarrow> NavigationTaskRequest option res" where
  "parse_task_navigation_request fl asarray v =
     (case v of JObj status \<Rightarrow>
        raise_if (get_or JNull status ''schema'' \<noteq> JStr ''z_manip.task_status.v1'')
          (ValueError ''unsupported task status schema'')
        (if str_value fl (get_or (JStr []) status ''phase'') \<noteq> ''coarse_nav'' then Inr None
         else
           let instr = py_strip (str_value fl (get_or (JStr []) status ''instruction''));
               work_pose = get_or JNull status ''work_pose'' in
           raise_if (instr = []) (ValueError ''coarse navigation instruction is empty'')
           (rbind (if work_pose \<noteq> JNull then parse_work_pose fl asarray instr work_pose
                   else parse_legacy_standoff fl instr status) (\<lambda>r. Inr (Some r))))
      | _ \<Rightarrow> Inl (ValueError ''task status must be an object''))"

section \<open>Decisions\<close>

definition nav_decision :: "CoarseNavigationCore \<Rightarrow> NavDecision" where
  "nav_decision s =
     \<lparr> decision_phase = nav_phase s, waypoint_xy = None, decision_cancel = False, coarse_ready = False,
       request_reacquire = False, decision_reason = [], decision_replans = replan_count s,
       decision_reacquisitions = reacquisition_count s \<rparr>"

definition nav_note :: "string \<Rightarrow> CoarseNavigationCore \<Rightarrow> NavDecision nav_op" where
  "nav_note why s = (Inr ((nav_decision s)\<lparr> decision_reason := why \<rparr>), s)"

definition nav_hold :: "string \<Rightarrow> CoarseNavigationCore \<Rightarrow> NavDecision nav_op" where
  "nav_hold why s = (Inr ((nav_decision s)\<lparr> decision_cancel := True, decision_reason := why \<rparr>), s)"

definition nav_ready :: "string \<Rightarrow> CoarseNavigationCore \<Rightarrow> NavDecision nav_op" where
  "nav_ready why s =
     (Inr ((nav_decision s)\<lparr> decision_cancel := True, coarse_ready := True, decision_reason := why \<rparr>), s)"

definition nav_fail_with :: "string \<Rightarrow> CoarseNavigationCore \<Rightarrow> NavDecision nav_op" where
  "nav_fail_with why s = nav_hold why (s\<lparr> nav_phase := NAV_FAILED, nav_failure_reason := why \<rparr>)"

definition nav_reacquire ::
  "NavigationConfig \<Rightarrow> real \<Rightarrow> string \<Rightarrow> CoarseNavigationCore \<Rightarrow> NavDecision nav_op" where
  "nav_reacquire c stamp why s0 =
     (let s = s0\<lparr> reacquisition_count := reacquisition_count s0 + 1 \<rparr> in
      if max_reacquisitions c < reacquisition_count s then
        nav_fail_with ''persistent target tracking reacquisition budget exhausted'' s
      else
        let t = s\<lparr> nav_phase := NAV_REACQUIRE, phase_started_at := Some stamp, still_since := None \<rparr> in
        (Inr ((nav_decision t)\<lparr> decision_cancel := True, request_reacquire := True, decision_reason := why \<rparr>), t))"

definition nav_finite_time :: "pyfloat \<Rightarrow> real res" where
  "nav_finite_time v =
     raise_if (\<not> isfinite v) (ValueError ''navigation time must be finite'') (Inr (the_fin v))"

definition nav_xy :: "pyfloat list option \<Rightarrow> string \<Rightarrow> point res" where
  "nav_xy v label =
     (case v of
        Some [x, y] \<Rightarrow>
          if isfinite x \<and> isfinite y then Inr (the_fin x, the_fin y)
          else Inl (ValueError (label @ '' must be a finite 2-vector''))
      | _ \<Rightarrow> Inl (ValueError (label @ '' must be a finite 2-vector'')))"

section \<open>Task lifecycle\<close>

definition nav_begin :: "string \<Rightarrow> string \<Rightarrow> pyfloat \<Rightarrow> CoarseNavigationCore \<Rightarrow> unit nav_op" where
  "nav_begin instr key at_s s =
     gbind (nav_finite_time at_s) s (\<lambda>stamp.
     guard (py_strip instr = [] \<or> py_strip key = [])
       (ValueError ''instruction and task key must be non-empty'') s
       (Inr (), navigation_init
          \<lparr> nav_instruction := py_strip instr, nav_task_key := py_strip key,
            nav_phase := NAV_WAIT_OBSERVATION, started_at := Some stamp, phase_started_at := Some stamp \<rparr>))"

definition nav_reset :: "CoarseNavigationCore \<Rightarrow> unit nav_op" where
  "nav_reset s = (Inr (), navigation_init)"

definition nav_fail :: "string \<Rightarrow> CoarseNavigationCore \<Rightarrow> NavDecision nav_op" where
  "nav_fail why s =
     guard (py_strip why = []) (ValueError ''navigation failure reason must be non-empty'') s
       (nav_fail_with (py_strip why) s)"

definition arm_current_goal :: "CoarseNavigationCore \<Rightarrow> unit nav_op" where
  "arm_current_goal s =
     guard (nav_phase s \<noteq> NAV_NAVIGATING \<or> goal_xy s = None)
       (RuntimeError ''cannot arm a goal that has not been planned'') s
       (Inr (), s\<lparr> goal_reached_armed := True, still_since := None \<rparr>)"

definition revoke_explicit_ready :: "real \<Rightarrow> CoarseNavigationCore \<Rightarrow> unit nav_op" where
  "revoke_explicit_ready stamp s =
     guard (nav_phase s \<noteq> NAV_READY \<or> \<not> uses_explicit_goal s)
       (RuntimeError ''only an explicit READY goal can be revoked'') s
       (Inr (), s\<lparr> nav_phase := NAV_NAVIGATING, phase_started_at := Some stamp, still_since := None,
                   goal_reached_armed := False, explicit_handoff_active := False,
                   explicit_resume_pending := True, progress_window_started_at_s := Some stamp,
                   progress_samples := [], last_progress_odom_stamp_s := None,
                   last_fresh_progress_at_s := Some stamp, progress_window_duration_s := 0,
                   progress_net_decrease_m := None, progress_slope_mps := None,
                   progress_odom_age_s := None \<rparr>)"

definition wait_for_complete_observation ::
  "NavigationConfig \<Rightarrow> real \<Rightarrow> string \<Rightarrow> bool \<Rightarrow> CoarseNavigationCore \<Rightarrow> NavDecision nav_op" where
  "wait_for_complete_observation c stamp why allow_reacquire s =
     (if observation_wait_timeout_s c < stamp - the (phase_started_at s) then
        (if \<not> allow_reacquire then nav_fail_with (why @ '' timed out'') s
         else nav_reacquire c stamp (why @ '' timed out'') s)
      else nav_note why s)"

section \<open>Odometry and progress\<close>

definition odom_stamp_if_fresh ::
  "NavigationConfig \<Rightarrow> NavInput \<Rightarrow> real \<Rightarrow> CoarseNavigationCore \<Rightarrow> real option \<times> CoarseNavigationCore" where
  "odom_stamp_if_fresh c v stamp s =
     (case odom_stamp_s v of
        Some (Fin odom) \<Rightarrow>
          let age = stamp - odom; t = s\<lparr> progress_odom_age_s := Some age \<rparr> in
          if age < - (1 / 1000000) \<or> odometry_timeout_s c < age then (None, t) else (Some odom, t)
      | _ \<Rightarrow> (None, s\<lparr> progress_odom_age_s := None \<rparr>))"

definition reset_progress_window ::
  "NavigationConfig \<Rightarrow> NavInput \<Rightarrow> real \<Rightarrow> real \<Rightarrow> CoarseNavigationCore \<Rightarrow> CoarseNavigationCore" where
  "reset_progress_window c v stamp goal_distance s =
     (case odom_stamp_if_fresh c v stamp
             (s\<lparr> progress_window_started_at_s := Some stamp, progress_samples := [],
                 last_progress_odom_stamp_s := None, last_fresh_progress_at_s := None,
                 progress_window_duration_s := 0, progress_net_decrease_m := None,
                 progress_slope_mps := None \<rparr>) of
        (None, t) \<Rightarrow> t
      | (Some odom, t) \<Rightarrow>
          t\<lparr> progress_samples := progress_samples t @ [(odom, goal_distance)],
             last_progress_odom_stamp_s := Some odom, last_fresh_progress_at_s := Some stamp \<rparr>)"

definition mean :: "real list \<Rightarrow> real" where
  "mean xs = sum_list xs / of_nat (length xs)"

definition dot :: "real list \<Rightarrow> real list \<Rightarrow> real" where
  "dot xs ys = sum_list (map2 (*) xs ys)"

definition median :: "real list \<Rightarrow> real" where
  "median xs =
     (let ys = sort xs; n = length ys in
      if odd n then ys ! (n div 2) else (ys ! (n div 2 - 1) + ys ! (n div 2)) / 2)"

text \<open>The first sample moved to the start of the window, on the line to the second.\<close>

definition clip_samples :: "real \<Rightarrow> (real \<times> real) list \<Rightarrow> (real \<times> real) list option" where
  "clip_samples cutoff samples =
     (case samples of
        (t0, d0) # (t1, d1) # rest \<Rightarrow>
          if t0 < cutoff then
            (if t1 \<le> t0 then None
             else Some ((cutoff, d0 + (cutoff - t0) / (t1 - t0) * (d1 - d0)) # (t1, d1) # rest))
          else Some samples
      | _ \<Rightarrow> Some samples)"

definition progress_slope :: "real list \<Rightarrow> real list \<Rightarrow> real option" where
  "progress_slope stamps distances =
     (let centered = map (\<lambda>t. t - mean stamps) stamps; denominator = dot centered centered in
      if denominator \<le> 0 then None
      else Some (- (dot centered (map (\<lambda>d. d - mean distances) distances) / denominator)))"

definition net_decrease :: "real \<Rightarrow> real \<Rightarrow> real \<Rightarrow> (real \<times> real) list \<Rightarrow> real option" where
  "net_decrease band cutoff end_stamp samples =
     (let start_distances = map snd (filter (\<lambda>x. fst x \<le> cutoff + band) samples);
          end_distances = map snd (filter (\<lambda>x. end_stamp - band \<le> fst x) samples) in
      if start_distances = [] \<or> end_distances = [] then None
      else Some (median start_distances - median end_distances))"

definition progress_window_metrics ::
  "NavigationConfig \<Rightarrow> (real \<times> real) list \<Rightarrow> (real \<times> real \<times> real) option" where
  "progress_window_metrics c samples0 =
     (if length samples0 < 2 then None
      else
        let end_stamp = fst (last samples0); cutoff = end_stamp - stall_timeout_s c in
        if cutoff < fst (hd samples0) then None
        else
          Option.bind (clip_samples cutoff samples0) (\<lambda>samples.
          Option.bind (progress_slope (map fst samples) (map snd samples)) (\<lambda>slope.
          Option.bind (net_decrease (min 1 (stall_timeout_s c / 8)) cutoff end_stamp samples) (\<lambda>net.
          Some (end_stamp - cutoff, net, slope)))))"

fun trim_samples :: "real \<Rightarrow> (real \<times> real) list \<Rightarrow> (real \<times> real) list" where
  "trim_samples cutoff (a # b # xs) =
     (if fst b \<le> cutoff then trim_samples cutoff (b # xs) else a # b # xs)"
| "trim_samples cutoff xs = xs"

definition record_goal_progress ::
  "NavigationConfig \<Rightarrow> NavInput \<Rightarrow> real \<Rightarrow> real \<Rightarrow> CoarseNavigationCore
     \<Rightarrow> bool option \<times> CoarseNavigationCore" where
  "record_goal_progress c v stamp goal_distance s0 =
     (case odom_stamp_if_fresh c v stamp s0 of
        (None, s) \<Rightarrow> (None, s)
      | (Some odom, s) \<Rightarrow>
          if (case last_progress_odom_stamp_s s of None \<Rightarrow> False | Some previous \<Rightarrow> odom \<le> previous) then (None, s)
          else
            let kept = trim_samples (odom - stall_timeout_s c) (progress_samples s @ [(odom, goal_distance)]);
                t = s\<lparr> last_progress_odom_stamp_s := Some odom, last_fresh_progress_at_s := Some stamp,
                        progress_samples := kept \<rparr> in
            (case progress_window_metrics c kept of
               None \<Rightarrow>
                 (None, if kept = [] then t
                        else t\<lparr> progress_window_duration_s := max 0 (odom - fst (hd kept)) \<rparr>)
             | Some (duration, net, slope) \<Rightarrow>
                 (Some (progress_min_net_decrease_m c \<le> net \<and> progress_min_slope_mps c \<le> slope),
                  t\<lparr> progress_window_duration_s := duration, progress_net_decrease_m := Some net,
                     progress_slope_mps := Some slope \<rparr>)))"

definition stale_odometry_timeout :: "NavigationConfig \<Rightarrow> real \<Rightarrow> CoarseNavigationCore \<Rightarrow> bool" where
  "stale_odometry_timeout c stamp s =
     (case (if last_fresh_progress_at_s s \<noteq> None then last_fresh_progress_at_s s
            else progress_window_started_at_s s) of
        None \<Rightarrow> False
      | Some since \<Rightarrow> stall_timeout_s c < stamp - since)"

section \<open>Waypoints\<close>

definition norm2 :: "point \<Rightarrow> real" where
  "norm2 p = sqrt (fst p * fst p + snd p * snd p)"

definition diff2 :: "point \<Rightarrow> point \<Rightarrow> point" where
  "diff2 p q = (fst p - fst q, snd p - snd q)"

text \<open>The point of the ray from the base to the target at the bounded travel.\<close>

definition ray_waypoint :: "NavigationConfig \<Rightarrow> real \<Rightarrow> point \<Rightarrow> point \<Rightarrow> point" where
  "ray_waypoint c displacement base target =
     (let direction = diff2 target base; distance = norm2 direction;
          travel = min (min (max displacement (min_displacement_m c)) (max_displacement_m c)) distance in
      (fst base + travel * fst direction / distance, snd base + travel * snd direction / distance))"

text \<open>The tail of \<open>_plan\<close>, from the check of the goal mode on.\<close>

definition commit_plan ::
  "NavigationConfig \<Rightarrow> NavInput \<Rightarrow> real \<Rightarrow> bool \<Rightarrow> point \<Rightarrow> point \<Rightarrow> point option
     \<Rightarrow> CoarseNavigationCore \<Rightarrow> NavDecision nav_op" where
  "commit_plan c v stamp is_replan base proposed target s0 =
     (let explicit = (target = None); mode = (if explicit then ''explicit'' else ''legacy'') in
      if goal_mode s0 \<noteq> None \<and> goal_mode s0 \<noteq> Some mode then
        nav_fail_with ''navigation goal mode changed without a new task key'' s0
      else
        let s = (if is_replan then s0\<lparr> replan_count := replan_count s0 + 1 \<rparr> else s0) in
        if is_replan \<and> max_replans c < replan_count s then
          nav_fail_with ''coarse navigation replan budget exhausted'' s
        else
          let t = (reset_progress_window c v stamp (norm2 (diff2 proposed base))
                    (s\<lparr> goal_xy := Some proposed, uses_explicit_goal := explicit, goal_mode := Some mode,
                        planned_target_xy := target, nav_phase := NAV_NAVIGATING,
                        phase_started_at := Some stamp \<rparr>))
                  \<lparr> still_since := None, goal_reached_armed := False, explicit_handoff_active := False,
                    explicit_resume_pending := False \<rparr> in
          (Inr ((nav_decision t)\<lparr> waypoint_xy := Some proposed \<rparr>), t))"

fun usable_displacement :: "pyfloat option \<Rightarrow> bool" where
  "usable_displacement (Some (Fin d)) = (0 < d)"
| "usable_displacement _ = False"

definition nav_plan ::
  "NavigationConfig \<Rightarrow> NavInput \<Rightarrow> real \<Rightarrow> bool \<Rightarrow> CoarseNavigationCore \<Rightarrow> NavDecision nav_op" where
  "nav_plan c v stamp is_replan s =
     gbind (nav_xy (base_xy v) ''base position'') s (\<lambda>base.
     if explicit_goal_xy v \<noteq> None then
       gbind (nav_xy (explicit_goal_xy v) ''explicit map goal'') s (\<lambda>proposed.
       commit_plan c v stamp is_replan base proposed None s)
     else
       gbind (nav_xy (target_xy v) ''target position'') s (\<lambda>target.
       if \<not> usable_displacement (suggested_displacement_m v) then
         nav_fail_with ''reachability standoff displacement is unavailable'' s
       else if norm2 (diff2 target base) < 1 / 10000 then
         nav_fail_with ''observed target direction is degenerate'' s
       else
         commit_plan c v stamp is_replan base
           (ray_waypoint c (the_fin (the (suggested_displacement_m v))) base target) (Some target) s))"

section \<open>Handoff\<close>

definition some_decision :: "NavDecision nav_op \<Rightarrow> NavDecision option nav_op" where
  "some_decision r = obind r (\<lambda>d t. (Inr (Some d), t))"

text \<open>The common end of both handoffs: stop, stay still for the settle time, then hand over.\<close>

definition settle_handoff ::
  "NavigationConfig \<Rightarrow> NavInput \<Rightarrow> real \<Rightarrow> string \<Rightarrow> string \<Rightarrow> CoarseNavigationCore
     \<Rightarrow> NavDecision option nav_op" where
  "settle_handoff c v stamp moving settling s =
     some_decision
       (if Fin (still_speed_mps c) < base_speed_mps v then nav_hold moving (s\<lparr> still_since := None \<rparr>)
        else
          let t = (if still_since s = None then s\<lparr> still_since := Some stamp \<rparr> else s) in
          if stamp - the (still_since t) < still_settle_s c then nav_hold settling t
          else nav_ready [] (t\<lparr> nav_phase := NAV_READY \<rparr>))"

definition near_handoff ::
  "NavigationConfig \<Rightarrow> NavInput \<Rightarrow> real \<Rightarrow> CoarseNavigationCore \<Rightarrow> NavDecision option nav_op" where
  "near_handoff c v stamp s =
     (case target_depth_m v of
        Some (Fin depth) \<Rightarrow>
          if depth \<le> 0 then some_decision (nav_fail_with ''observed target depth is invalid'' s)
          else if near_target_depth_m c < depth then (Inr None, s\<lparr> still_since := None \<rparr>)
          else settle_handoff c v stamp ''near target; waiting for stop''
                 ''settling before visual handoff'' s
      | _ \<Rightarrow> some_decision (nav_fail_with ''observed target depth is invalid'' s))"

definition exit_tolerance :: "NavigationConfig \<Rightarrow> real" where
  "exit_tolerance c = explicit_goal_tolerance_m c + explicit_goal_handoff_hysteresis_m c"

definition explicit_goal_handoff ::
  "NavigationConfig \<Rightarrow> NavInput \<Rightarrow> real \<Rightarrow> real \<Rightarrow> CoarseNavigationCore \<Rightarrow> NavDecision option nav_op" where
  "explicit_goal_handoff c v stamp goal_distance s0 =
     (let s1 = (if \<not> explicit_handoff_active s0 \<and> goal_distance \<le> explicit_goal_tolerance_m c
                then s0\<lparr> explicit_handoff_active := True \<rparr> else s0);
          s2 = (if explicit_handoff_active s1 \<and> exit_tolerance c < goal_distance
                then s1\<lparr> explicit_handoff_active := False, still_since := None \<rparr> else s1) in
      if \<not> explicit_handoff_active s2 then
        let s3 = s2\<lparr> still_since := None \<rparr> in
        if goal_reached v then
          some_decision (nav_note ''goal_reached ignored outside explicit XY tolerance'' s3)
        else (Inr None, s3)
      else settle_handoff c v stamp ''within coarse work-pose tolerance; waiting for stop''
             ''settling inside coarse work-pose tolerance'' s2)"

section \<open>The tick\<close>

text \<open>Navigation health lost: hold, spend one replan per loss, bound its duration.\<close>

definition nav_unhealthy ::
  "NavigationConfig \<Rightarrow> real \<Rightarrow> CoarseNavigationCore \<Rightarrow> NavDecision nav_op" where
  "nav_unhealthy c stamp s0 =
     obind (if nav_phase s0 = NAV_READY then revoke_explicit_ready stamp s0 else (Inr (), s0)) (\<lambda>_ s1.
     let s = (if health_loss_since s1 = None
              then s1\<lparr> health_loss_since := Some stamp, replan_count := replan_count s1 + 1 \<rparr> else s1) in
     if max_replans c < replan_count s then
       nav_fail_with ''navigation health recovery budget exhausted'' s
     else if stall_timeout_s c < stamp - the (health_loss_since s) then
       nav_fail_with ''navigation health did not recover before timeout'' s
     else nav_hold ''navigation unhealthy; holding for recovery'' s)"

definition waiting_phase :: "NavPhase \<Rightarrow> bool" where
  "waiting_phase p = (p = NAV_WAIT_OBSERVATION \<or> p = NAV_REACQUIRE)"

definition target_fresh :: "NavigationConfig \<Rightarrow> NavInput \<Rightarrow> real \<Rightarrow> bool" where
  "target_fresh c v stamp =
     (perception_valid v \<and>
      (case target_stamp_s v of
         Some (Fin t) \<Rightarrow> 0 \<le> stamp - t \<and> stamp - t \<le> target_timeout_s c
       | _ \<Rightarrow> False))"

definition target_lost ::
  "NavigationConfig \<Rightarrow> real \<Rightarrow> CoarseNavigationCore \<Rightarrow> NavDecision nav_op" where
  "target_lost c stamp s =
     (let overdue = observation_wait_timeout_s c < stamp - the (phase_started_at s) in
      if nav_phase s = NAV_WAIT_OBSERVATION then
        (if overdue then nav_reacquire c stamp ''initial target observation timed out'' s
         else nav_note ''waiting for fresh target observation'' s)
      else if nav_phase s = NAV_REACQUIRE then
        (if overdue then nav_reacquire c stamp ''target reacquisition timed out'' s
         else nav_hold ''reacquiring target'' s)
      else nav_reacquire c stamp ''persistent target tracking lost'' s)"

definition odometry_lost ::
  "NavigationConfig \<Rightarrow> real \<Rightarrow> bool \<Rightarrow> CoarseNavigationCore \<Rightarrow> NavDecision nav_op" where
  "odometry_lost c stamp explicit_requested s0 =
     (if nav_phase s0 = NAV_READY then
        let s = s0\<lparr> replan_count := replan_count s0 + 1 \<rparr> in
        if max_replans c < replan_count s then
          nav_fail_with ''explicit READY odometry recovery budget exhausted'' s
        else obind (revoke_explicit_ready stamp s) (\<lambda>_ t.
          nav_hold ''explicit READY revoked while odometry is stale'' t)
      else if waiting_phase (nav_phase s0) then
        wait_for_complete_observation c stamp ''waiting for fresh SLAM odometry'' (\<not> explicit_requested) s0
      else if stale_odometry_timeout c stamp s0 then
        nav_fail_with ''fresh SLAM odometry unavailable for progress window'' s0
      else nav_note ''waiting for fresh SLAM odometry'' s0)"

text \<open>The guarded reads of the tick: base position and the goal or the target with its standoff.\<close>

definition complete_observation :: "NavInput \<Rightarrow> bool" where
  "complete_observation v =
     (is_ok (nav_xy (base_xy v) ''base position'') \<and>
      (if explicit_goal_xy v \<noteq> None then is_ok (nav_xy (explicit_goal_xy v) ''explicit map goal'')
       else is_ok (nav_xy (target_xy v) ''target position'')
            \<and> usable_displacement (suggested_displacement_m v)))"

text \<open>The reason a tick contradicts the goal the task is committed to.\<close>

definition goal_conflict :: "NavInput \<Rightarrow> CoarseNavigationCore \<Rightarrow> string option" where
  "goal_conflict v s =
     (if goal_mode s = None then None
      else if uses_explicit_goal s then
        (case nav_xy (explicit_goal_xy v) ''explicit map goal'' of
           Inl _ \<Rightarrow> Some ''active explicit map goal is unavailable''
         | Inr g \<Rightarrow> if Some g \<noteq> goal_xy s then Some ''explicit map goal changed without a new task key'' else None)
      else if explicit_goal_xy v \<noteq> None then Some ''navigation goal mode changed without a new task key''
      else None)"

text \<open>The legacy end of a tick: a target that moved is planned again.\<close>

definition follow_target ::
  "NavigationConfig \<Rightarrow> NavInput \<Rightarrow> real \<Rightarrow> point option \<Rightarrow> CoarseNavigationCore \<Rightarrow> NavDecision nav_op" where
  "follow_target c v stamp target s =
     (if \<not> uses_explicit_goal s then
        guard (target = None \<or> planned_target_xy s = None) AssertionError s
        (if goal_update_threshold_m c < norm2 (diff2 (the target) (the (planned_target_xy s)))
         then nav_plan c v stamp True s else nav_note [] s)
      else nav_note [] s)"

definition follow_goal ::
  "NavigationConfig \<Rightarrow> NavInput \<Rightarrow> real \<Rightarrow> point option \<Rightarrow> real \<Rightarrow> CoarseNavigationCore \<Rightarrow> NavDecision nav_op" where
  "follow_goal c v stamp target goal_distance s0 =
     (case record_goal_progress c v stamp goal_distance s0 of
        (progress, s) \<Rightarrow>
          if progress = Some False then nav_plan c v stamp True s
          else if goal_reached v \<and> \<not> uses_explicit_goal s then nav_plan c v stamp True s
          else follow_target c v stamp target s)"

definition track_goal ::
  "NavigationConfig \<Rightarrow> NavInput \<Rightarrow> real \<Rightarrow> CoarseNavigationCore \<Rightarrow> NavDecision nav_op" where
  "track_goal c v stamp s =
     guard (nav_phase s \<noteq> NAV_NAVIGATING \<and> nav_phase s \<noteq> NAV_READY) AssertionError s
     (guard (goal_xy s = None) AssertionError s
     (gbind (nav_xy (base_xy v) ''base position'') s (\<lambda>base.
      gbind (if uses_explicit_goal s then Inr None
             else rbind (nav_xy (target_xy v) ''target position'') (\<lambda>p. Inr (Some p))) s (\<lambda>target.
      let goal_distance = norm2 (diff2 (the (goal_xy s)) base) in
      if nav_phase s = NAV_READY then
        (if goal_distance \<le> exit_tolerance c
         then nav_ready ''coarse work pose remains inside handoff hysteresis'' s
         else nav_plan c v stamp True s)
      else if uses_explicit_goal s then
        obind (explicit_goal_handoff c v stamp goal_distance s) (\<lambda>handoff t.
          case handoff of Some d \<Rightarrow> (Inr d, t) | None \<Rightarrow> follow_goal c v stamp target goal_distance t)
      else follow_goal c v stamp target goal_distance s))))"

definition dispatch ::
  "NavigationConfig \<Rightarrow> NavInput \<Rightarrow> real \<Rightarrow> bool \<Rightarrow> bool \<Rightarrow> CoarseNavigationCore \<Rightarrow> NavDecision nav_op" where
  "dispatch c v stamp explicit_requested health_recovered s =
     obind (if \<not> explicit_requested then near_handoff c v stamp s else (Inr None, s)) (\<lambda>handoff t.
     case handoff of
       Some d \<Rightarrow> (Inr d, t)
     | None \<Rightarrow>
         if waiting_phase (nav_phase t) then nav_plan c v stamp (nav_phase t = NAV_REACQUIRE) t
         else if explicit_resume_pending t then nav_plan c v stamp False t
         else if health_recovered then nav_plan c v stamp False t
         else track_goal c v stamp t)"

definition nav_healthy ::
  "NavigationConfig \<Rightarrow> NavInput \<Rightarrow> real \<Rightarrow> bool \<Rightarrow> CoarseNavigationCore \<Rightarrow> NavDecision nav_op" where
  "nav_healthy c v stamp health_recovered s0 =
     (let explicit_requested = (uses_explicit_goal s0 \<or> explicit_goal_xy v \<noteq> None) in
      if \<not> explicit_requested \<and> \<not> target_fresh c v stamp then target_lost c stamp s0
      else if \<not> isfinite (base_speed_mps v) \<or> base_speed_mps v < 0 then
        (if waiting_phase (nav_phase s0) then
           wait_for_complete_observation c stamp ''waiting for finite SLAM velocity'' (\<not> explicit_requested) s0
         else nav_fail_with ''base speed is invalid'' s0)
      else
        case odom_stamp_if_fresh c v stamp s0 of
          (None, s) \<Rightarrow> odometry_lost c stamp explicit_requested s
        | (Some _, s) \<Rightarrow>
            if \<not> complete_observation v then
              (if waiting_phase (nav_phase s) then
                 wait_for_complete_observation c stamp ''waiting for complete navigation observation''
                   (\<not> explicit_requested) s
               else nav_fail_with ''navigation observation became incomplete'' s)
            else
              (case goal_conflict v s of
                 Some why \<Rightarrow> nav_fail_with why s
               | None \<Rightarrow> dispatch c v stamp explicit_requested health_recovered s))"

definition nav_update ::
  "NavigationConfig \<Rightarrow> NavInput \<Rightarrow> CoarseNavigationCore \<Rightarrow> NavDecision nav_op" where
  "nav_update c v s =
     (if nav_phase s = NAV_IDLE \<or> nav_phase s = NAV_FAILED then nav_note [] s
      else if nav_phase s = NAV_READY \<and> \<not> uses_explicit_goal s then nav_note [] s
      else
        gbind (nav_finite_time (stamp_s v)) s (\<lambda>stamp.
        guard (started_at s = None \<or> phase_started_at s = None) AssertionError s
        (if stamp < the (phase_started_at s) then nav_fail_with ''navigation time moved backwards'' s
         else if navigation_timeout_s c < stamp - the (started_at s) then
           nav_fail_with ''coarse navigation timeout'' s
         else if \<not> navigation_healthy v then nav_unhealthy c stamp s
         else nav_healthy c v stamp (health_loss_since s \<noteq> None) (s\<lparr> health_loss_since := None \<rparr>))))"

end
