(* ===== verification/Navigation_Laws.thy ===== *)
theory Navigation_Laws
  imports Navigation_Core
begin

text \<open>
  Laws of the coarse navigation policy. One relation describes what a tick may do with the task it is
  given (\<open>tick_ok\<close>); it is proved leaf by leaf for the stages of \<open>nav_update\<close>, and the properties
  of whole tasks follow by induction over the ticks.
\<close>

section \<open>The invariant of the core\<close>

definition nav_inv :: "NavigationConfig \<Rightarrow> CoarseNavigationCore \<Rightarrow> bool" where
  "nav_inv c s =
     ((nav_phase s \<noteq> NAV_IDLE \<and> nav_phase s \<noteq> NAV_FAILED \<longrightarrow> started_at s \<noteq> None \<and> phase_started_at s \<noteq> None) \<and>
      (nav_phase s = NAV_NAVIGATING \<longrightarrow>
         goal_xy s \<noteq> None \<and> goal_mode s \<noteq> None \<and> (\<not> uses_explicit_goal s \<longrightarrow> planned_target_xy s \<noteq> None)) \<and>
      (nav_phase s = NAV_READY \<and> uses_explicit_goal s \<longrightarrow>
         goal_xy s \<noteq> None \<and> goal_mode s \<noteq> None \<and> health_loss_since s = None) \<and>
      (uses_explicit_goal s \<longleftrightarrow> goal_mode s = Some ''explicit'') \<and>
      (uses_explicit_goal s \<longrightarrow> \<not> waiting_phase (nav_phase s)) \<and>
      (nav_phase s \<noteq> NAV_FAILED \<longrightarrow>
         0 \<le> replan_count s \<and> replan_count s \<le> max_replans c \<and> reacquisition_count s \<le> max_reacquisitions c))"

text \<open>
  Waypoints the policy may still publish without spending a replan: the first one of the task, and
  the one owed after a lost health or a revoked handoff, which was paid for when the loss was counted.
\<close>

definition credits :: "CoarseNavigationCore \<Rightarrow> int" where
  "credits s =
     of_bool (nav_phase s = NAV_WAIT_OBSERVATION)
     + of_bool (health_loss_since s \<noteq> None \<or> explicit_resume_pending s)"

lemma credits_nonneg: "0 \<le> credits s"
  by (simp add: credits_def)

definition same_task :: "CoarseNavigationCore \<Rightarrow> CoarseNavigationCore \<Rightarrow> bool" where
  "same_task s t =
     (started_at t = started_at s \<and> (nav_phase s \<noteq> NAV_IDLE \<longrightarrow> nav_phase t \<noteq> NAV_IDLE) \<and>
      (uses_explicit_goal s \<longrightarrow> uses_explicit_goal t \<and> goal_xy t = goal_xy s))"

definition nav_link :: "NavigationConfig \<Rightarrow> int \<Rightarrow> CoarseNavigationCore \<Rightarrow> CoarseNavigationCore \<Rightarrow> bool" where
  "nav_link c k s t =
     (nav_inv c t \<and> same_task s t \<and>
      (nav_phase t \<noteq> NAV_FAILED \<longrightarrow> credits t + replan_count s \<le> k + replan_count t))"

section \<open>What a tick measured\<close>

definition odometry_fresh :: "NavigationConfig \<Rightarrow> NavInput \<Rightarrow> real \<Rightarrow> bool" where
  "odometry_fresh c v stamp =
     (case odom_stamp_s v of
        Some (Fin odom) \<Rightarrow> - (1 / 1000000) \<le> stamp - odom \<and> stamp - odom \<le> odometry_timeout_s c
      | _ \<Rightarrow> False)"

definition measured :: "NavigationConfig \<Rightarrow> NavInput \<Rightarrow> bool" where
  "measured c v =
     (navigation_healthy v \<and> isfinite (stamp_s v) \<and> isfinite (base_speed_mps v) \<and> 0 \<le> base_speed_mps v
      \<and> odometry_fresh c v (the_fin (stamp_s v)) \<and> complete_observation v
      \<and> (explicit_goal_xy v \<noteq> None \<or> target_fresh c v (the_fin (stamp_s v))))"

definition slow :: "NavigationConfig \<Rightarrow> NavInput \<Rightarrow> bool" where
  "slow c v = (base_speed_mps v \<le> Fin (still_speed_mps c))"

text \<open>The robot is where the handoff may happen: near the target, or near the explicit goal.\<close>

definition inside :: "NavigationConfig \<Rightarrow> NavInput \<Rightarrow> CoarseNavigationCore \<Rightarrow> bool" where
  "inside c v t =
     (if uses_explicit_goal t then
        (\<exists>base goal. nav_xy (base_xy v) ''base position'' = Inr base \<and> goal_xy t = Some goal
           \<and> norm2 (diff2 goal base) \<le> exit_tolerance c)
      else (\<exists>depth. target_depth_m v = Some (Fin depth) \<and> 0 < depth \<and> depth \<le> near_target_depth_m c))"

section \<open>The contract of a tick\<close>

definition waypoint_ok :: "NavigationConfig \<Rightarrow> NavInput \<Rightarrow> NavDecision \<Rightarrow> CoarseNavigationCore \<Rightarrow> bool" where
  "waypoint_ok c v d t =
     (case waypoint_xy d of
        None \<Rightarrow> True
      | Some p \<Rightarrow>
          nav_phase t = NAV_NAVIGATING \<and> goal_xy t = Some p \<and> \<not> coarse_ready d \<and>
          (if uses_explicit_goal t then nav_xy (explicit_goal_xy v) ''explicit map goal'' = Inr p
           else (\<exists>base target x. nav_xy (base_xy v) ''base position'' = Inr base
                   \<and> nav_xy (target_xy v) ''target position'' = Inr target
                   \<and> suggested_displacement_m v = Some (Fin x) \<and> 0 < x
                   \<and> 1 / 10000 \<le> norm2 (diff2 target base) \<and> p = ray_waypoint c x base target)))"

definition ready_ok ::
  "NavigationConfig \<Rightarrow> NavInput \<Rightarrow> CoarseNavigationCore \<Rightarrow> NavDecision \<Rightarrow> CoarseNavigationCore \<Rightarrow> bool" where
  "ready_ok c v s d t =
     (coarse_ready d \<longrightarrow>
        nav_phase t = NAV_READY \<and> decision_cancel d \<and> measured c v \<and> inside c v t \<and>
        (nav_phase s \<noteq> NAV_READY \<longrightarrow>
           slow c v \<and> (\<exists>since. still_since t = Some since
                          \<and> still_settle_s c \<le> the_fin (stamp_s v) - since)))"

definition still_step :: "NavigationConfig \<Rightarrow> NavInput \<Rightarrow> CoarseNavigationCore \<Rightarrow> CoarseNavigationCore \<Rightarrow> bool" where
  "still_step c v s t =
     (nav_phase t = NAV_FAILED
      \<or> nav_phase s = NAV_READY \<and> nav_phase t = NAV_READY
      \<or> still_since t = None
      \<or> measured c v \<and> slow c v \<and> still_since t = Some (the_fin (stamp_s v))
      \<or> nav_phase s \<noteq> NAV_READY \<and> still_since t = still_since s \<and> (measured c v \<longrightarrow> slow c v))"

definition tick_ok ::
  "NavigationConfig \<Rightarrow> NavInput \<Rightarrow> int \<Rightarrow> CoarseNavigationCore \<Rightarrow> NavDecision nav_op \<Rightarrow> bool" where
  "tick_ok c v k s r =
     (\<exists>d t. r = (Inr d, t) \<and> nav_link c (k - of_bool (waypoint_xy d \<noteq> None)) s t
        \<and> waypoint_ok c v d t \<and> ready_ok c v s d t \<and> still_step c v s t
        \<and> decision_phase d = nav_phase t)"

lemmas tick_defs =
  tick_ok_def nav_link_def waypoint_ok_def ready_ok_def nav_decision_def

section \<open>Leaves\<close>

lemma tick_note:
  "nav_link c k s t \<Longrightarrow> still_step c v s t \<Longrightarrow> tick_ok c v k s (nav_note why t)"
  by (simp add: tick_defs nav_note_def)

lemma tick_hold:
  "nav_link c k s t \<Longrightarrow> still_step c v s t \<Longrightarrow> tick_ok c v k s (nav_hold why t)"
  by (simp add: tick_defs nav_hold_def)

lemma inv_failed: "nav_inv c t \<Longrightarrow> nav_inv c (t\<lparr> nav_phase := NAV_FAILED, nav_failure_reason := why \<rparr>)"
  by (simp add: nav_inv_def waiting_phase_def)

lemma tick_fail:
  "uses_explicit_goal t \<longleftrightarrow> goal_mode t = Some ''explicit'' \<Longrightarrow> same_task s t \<Longrightarrow>
   tick_ok c v k s (nav_fail_with why t)"
  by (simp add: tick_defs nav_fail_with_def nav_hold_def nav_inv_def still_step_def same_task_def
      waiting_phase_def)

lemma tick_reacquire:
  assumes "nav_link c k s t" and "\<not> uses_explicit_goal t" and "nav_phase t \<noteq> NAV_FAILED" and "nav_phase t \<noteq> NAV_IDLE"
    and "0 \<le> max_reacquisitions c"
  shows "tick_ok c v k s (nav_reacquire c stamp why t)"
proof (cases "max_reacquisitions c < reacquisition_count t + 1")
  case True
  then have "nav_reacquire c stamp why t =
      nav_fail_with ''persistent target tracking reacquisition budget exhausted''
        (t\<lparr> reacquisition_count := reacquisition_count t + 1 \<rparr>)"
    by (simp add: nav_reacquire_def)
  then show ?thesis
    using assms by (simp only:) (rule tick_fail, simp_all add: nav_link_def nav_inv_def same_task_def)
next
  case False
  then show ?thesis
    using assms
    by (auto simp: nav_reacquire_def tick_defs nav_inv_def same_task_def still_step_def
        waiting_phase_def credits_def of_bool_def split: if_splits)
qed

lemma nav_xy_None [simp]: "nav_xy None l = Inl (ValueError (l @ '' must be a finite 2-vector''))"
  by (simp add: nav_xy_def)

section \<open>The odometry and progress bookkeeping leaves the task alone\<close>

lemma odometry_fresh_iff:
  "odometry_fresh c v stamp \<longleftrightarrow>
     (\<exists>odom. odom_stamp_s v = Some (Fin odom) \<and> - (1 / 1000000) \<le> stamp - odom
        \<and> stamp - odom \<le> odometry_timeout_s c)"
  by (simp add: odometry_fresh_def split: option.split pyfloat.split)

lemma odom_stamp_cases:
  obtains (fresh) odom where "odom_stamp_s v = Some (Fin odom)" "odometry_fresh c v stamp"
      "odom_stamp_if_fresh c v stamp s = (Some odom, s\<lparr> progress_odom_age_s := Some (stamp - odom) \<rparr>)"
  | (stale) age where "\<not> odometry_fresh c v stamp"
      "odom_stamp_if_fresh c v stamp s = (None, s\<lparr> progress_odom_age_s := age \<rparr>)"
proof (cases "odometry_fresh c v stamp")
  case True
  then obtain odom where o: "odom_stamp_s v = Some (Fin odom)" "- (1 / 1000000) \<le> stamp - odom"
      "stamp - odom \<le> odometry_timeout_s c"
    unfolding odometry_fresh_iff by blast
  show ?thesis by (rule fresh [OF o(1) True]) (use o in \<open>simp add: odom_stamp_if_fresh_def Let_def\<close>)
next
  case False
  have "\<exists>age. odom_stamp_if_fresh c v stamp s = (None, s\<lparr> progress_odom_age_s := age \<rparr>)"
    using False
    by (auto simp: odom_stamp_if_fresh_def odometry_fresh_def Let_def split: option.split pyfloat.split)
  then show ?thesis using stale [OF False] by blast
qed

text \<open>The part of the state that navigation decisions depend on, apart from the progress window.\<close>

definition core_view :: "CoarseNavigationCore \<Rightarrow> _" where
  "core_view s =
     (nav_phase s, replan_count s, reacquisition_count s, goal_xy s, uses_explicit_goal s, goal_mode s,
      planned_target_xy s, started_at s, phase_started_at s, still_since s, health_loss_since s,
      explicit_resume_pending s)"

lemma core_viewD:
  assumes "core_view t = core_view s"
  shows "nav_phase t = nav_phase s" "replan_count t = replan_count s"
    "reacquisition_count t = reacquisition_count s" "goal_xy t = goal_xy s"
    "uses_explicit_goal t = uses_explicit_goal s" "goal_mode t = goal_mode s"
    "planned_target_xy t = planned_target_xy s" "started_at t = started_at s"
    "phase_started_at t = phase_started_at s" "still_since t = still_since s"
    "health_loss_since t = health_loss_since s" "explicit_resume_pending t = explicit_resume_pending s"
  using assms by (simp_all add: core_view_def)

lemma view_link:
  assumes "core_view t' = core_view t"
  shows "nav_link c k s t' = nav_link c k s t"
  by (simp add: nav_link_def nav_inv_def same_task_def credits_def core_viewD [OF assms])

lemma view_still:
  assumes "core_view t' = core_view t"
  shows "still_step c v s t' = still_step c v s t"
  by (simp add: still_step_def core_viewD [OF assms])

lemma view_reset_progress [simp]: "core_view (reset_progress_window c v stamp g s) = core_view s"
  by (auto simp: reset_progress_window_def odom_stamp_if_fresh_def core_view_def Let_def
      split: option.split pyfloat.split)

lemmas reset_progress_keeps [simp] = core_viewD [OF view_reset_progress]

lemma view_record_progress [simp]: "core_view (snd (record_goal_progress c v stamp g s)) = core_view s"
proof (cases rule: odom_stamp_cases [of v c stamp s])
  case (fresh odom)
  then show ?thesis
    by (auto simp: record_goal_progress_def core_view_def Let_def split: option.split)
next
  case (stale age)
  then show ?thesis by (simp add: record_goal_progress_def core_view_def)
qed

section \<open>Planning\<close>

text \<open>The state a plan may be made in, seen from the state \<open>s\<close> the tick started in.\<close>

definition plannable :: "NavigationConfig \<Rightarrow> NavInput \<Rightarrow> int \<Rightarrow> bool \<Rightarrow> CoarseNavigationCore \<Rightarrow> CoarseNavigationCore \<Rightarrow> bool" where
  "plannable c v k is_replan s t =
     (nav_link c k s t \<and> complete_observation v \<and> goal_conflict v t = None \<and> health_loss_since t = None
      \<and> nav_phase t \<noteq> NAV_FAILED \<and> nav_phase t \<noteq> NAV_IDLE
      \<and> (is_replan \<or> replan_count s + 1 \<le> k + replan_count t))"

lemma plan_accounts:
  assumes "plannable c v k is_replan s t" and "u = t\<lparr> replan_count := replan_count t + 1 \<rparr>"
  shows "same_task s u" "uses_explicit_goal u \<longleftrightarrow> goal_mode u = Some ''explicit''"
  using assms by (auto simp: plannable_def nav_link_def nav_inv_def same_task_def)

lemma tick_commit:
  assumes p: "plannable c v k is_replan s t"
    and e: "target = None \<Longrightarrow> nav_xy (explicit_goal_xy v) ''explicit map goal'' = Inr proposed"
    and l: "\<And>q. target = Some q \<Longrightarrow> explicit_goal_xy v = None \<and> nav_xy (base_xy v) ''base position'' = Inr base
        \<and> nav_xy (target_xy v) ''target position'' = Inr q \<and> suggested_displacement_m v = Some (Fin x) \<and> 0 < x
        \<and> 1 / 10000 \<le> norm2 (diff2 q base) \<and> proposed = ray_waypoint c x base q"
  shows "tick_ok c v k s (commit_plan c v stamp is_replan base proposed target t)"
proof -
  have link: "nav_link c k s t" and h: "health_loss_since t = None"
    using p by (simp_all add: plannable_def)
  have goal: "goal_xy t = Some proposed \<and> target = None" if "uses_explicit_goal t"
    using that p e l
    by (cases target) (auto simp: plannable_def goal_conflict_def nav_link_def nav_inv_def nav_xy_def
        split: sum.splits if_splits)
  define mode where "mode = (if target = None then ''explicit'' else ''legacy'')"
  define r where "r = (if is_replan then t\<lparr> replan_count := replan_count t + 1 \<rparr> else t)"
  have r: "same_task s r" "uses_explicit_goal r \<longleftrightarrow> goal_mode r = Some ''explicit''"
    using link by (auto simp: r_def nav_link_def nav_inv_def same_task_def)
  consider (conflict) "goal_mode t \<noteq> None \<and> goal_mode t \<noteq> Some mode"
    | (spent) "goal_mode t = None \<or> goal_mode t = Some mode" "is_replan \<and> max_replans c < replan_count r"
    | (planned) "goal_mode t = None \<or> goal_mode t = Some mode" "\<not> (is_replan \<and> max_replans c < replan_count r)"
    by metis
  then show ?thesis
  proof cases
    case conflict
    then have "commit_plan c v stamp is_replan base proposed target t =
        nav_fail_with ''navigation goal mode changed without a new task key'' t"
      by (simp add: commit_plan_def Let_def mode_def)
    then show ?thesis using link by (simp only:) (rule tick_fail, simp_all add: nav_link_def nav_inv_def)
  next
    case spent
    then have "commit_plan c v stamp is_replan base proposed target t =
        nav_fail_with ''coarse navigation replan budget exhausted'' r"
      unfolding commit_plan_def Let_def mode_def [symmetric] r_def [symmetric] by auto
    then show ?thesis using r by (simp only:) (rule tick_fail)
  next
    case planned
    define u where "u = (reset_progress_window c v stamp (norm2 (diff2 proposed base))
        (r\<lparr> goal_xy := Some proposed, uses_explicit_goal := (target = None), goal_mode := Some mode,
            planned_target_xy := target, nav_phase := NAV_NAVIGATING, phase_started_at := Some stamp \<rparr>))
        \<lparr> still_since := None, goal_reached_armed := False, explicit_handoff_active := False,
          explicit_resume_pending := False \<rparr>"
    have u: "nav_phase u = NAV_NAVIGATING" "goal_xy u = Some proposed" "uses_explicit_goal u \<longleftrightarrow> target = None"
        "goal_mode u = Some mode" "planned_target_xy u = target" "phase_started_at u = Some stamp"
        "started_at u = started_at t" "replan_count u = replan_count r" "still_since u = None"
        "reacquisition_count u = reacquisition_count t" "health_loss_since u = None"
        "explicit_resume_pending u = False"
      using h by (simp_all add: u_def r_def)
    have eq: "commit_plan c v stamp is_replan base proposed target t =
        (Inr ((nav_decision u)\<lparr> waypoint_xy := Some proposed \<rparr>), u)"
      using planned unfolding commit_plan_def Let_def mode_def [symmetric] r_def [symmetric] u_def by auto
    have "credits t + replan_count s \<le> k + replan_count t" "0 \<le> replan_count t" "replan_count t \<le> max_replans c"
      using p by (simp_all add: plannable_def nav_link_def nav_inv_def)
    then have "replan_count t \<le> replan_count r" "replan_count r \<le> max_replans c"
        "replan_count s + 1 \<le> k + replan_count r" "0 \<le> replan_count t"
      using planned(2) p credits_nonneg [of t] by (auto simp: r_def plannable_def)
    moreover from p have "started_at t \<noteq> None" "reacquisition_count t \<le> max_reacquisitions c" "same_task s t"
      by (simp_all add: plannable_def nav_link_def nav_inv_def)
    moreover have "same_task s u"
      using goal \<open>same_task s t\<close> by (auto simp: same_task_def u)
    ultimately have "nav_link c (k - 1) s u"
      by (simp add: nav_link_def nav_inv_def u mode_def waiting_phase_def credits_def)
    moreover have "waypoint_ok c v ((nav_decision u)\<lparr> waypoint_xy := Some proposed \<rparr>) u"
      using e l by (cases target) (auto simp: waypoint_ok_def u nav_decision_def)
    ultimately show ?thesis
      by (simp add: eq tick_ok_def ready_ok_def still_step_def u nav_decision_def)
  qed
qed

lemma nav_xy_okE: "is_ok (nav_xy p l) \<Longrightarrow> (\<And>q. nav_xy p l = Inr q \<Longrightarrow> P) \<Longrightarrow> P"
  by (auto simp: is_ok_iff)

lemma usable_displacement_iff: "usable_displacement d \<longleftrightarrow> (\<exists>x. d = Some (Fin x) \<and> 0 < x)"
  by (cases d rule: usable_displacement.cases) auto

lemma tick_plan:
  assumes p: "plannable c v k is_replan s t"
  shows "tick_ok c v k s (nav_plan c v stamp is_replan t)"
proof -
  have ok: "complete_observation v" and t: "same_task s t" "uses_explicit_goal t \<longleftrightarrow> goal_mode t = Some ''explicit''"
    using p by (simp_all add: plannable_def nav_link_def nav_inv_def)
  from ok obtain base where b: "nav_xy (base_xy v) ''base position'' = Inr base"
    by (auto simp: complete_observation_def is_ok_iff)
  show ?thesis
  proof (cases "explicit_goal_xy v")
    case None
    then obtain q x where q: "nav_xy (target_xy v) ''target position'' = Inr q"
        "suggested_displacement_m v = Some (Fin x)" "0 < x"
      using ok by (auto simp: complete_observation_def is_ok_iff usable_displacement_iff)
    show ?thesis
    proof (cases "norm2 (diff2 q base) < 1 / 10000")
      case True
      then have "nav_plan c v stamp is_replan t = nav_fail_with ''observed target direction is degenerate'' t"
        by (simp add: nav_plan_def b None q)
      then show ?thesis using tick_fail t by simp
    next
      case False
      then have "nav_plan c v stamp is_replan t =
          commit_plan c v stamp is_replan base (ray_waypoint c x base q) (Some q) t"
        by (simp add: nav_plan_def b None q)
      moreover have "tick_ok c v k s (commit_plan c v stamp is_replan base (ray_waypoint c x base q) (Some q) t)"
        by (rule tick_commit [where x = x, OF p]) (use False None b q in auto)
      ultimately show ?thesis by simp
    qed
  next
    case (Some e)
    then obtain g where g: "nav_xy (explicit_goal_xy v) ''explicit map goal'' = Inr g"
      using ok by (auto simp: complete_observation_def is_ok_iff)
    then have "nav_plan c v stamp is_replan t = commit_plan c v stamp is_replan base g None t"
      by (simp add: nav_plan_def b Some)
    moreover have "tick_ok c v k s (commit_plan c v stamp is_replan base g None t)"
      by (rule tick_commit [OF p]) (use g in auto)
    ultimately show ?thesis by simp
  qed
qed

section \<open>Handoff\<close>

lemma obind_some_decision:
  "tick_ok c v k s q \<Longrightarrow>
     obind (some_decision q) (\<lambda>h t. case h of None \<Rightarrow> F t | Some d \<Rightarrow> (Inr d, t)) = q"
  by (auto simp: tick_ok_def some_decision_def)

lemma link_still: "nav_link c k s (t\<lparr> still_since := x \<rparr>) = nav_link c k s t"
  by (simp add: nav_link_def nav_inv_def same_task_def credits_def)

lemma link_age: "nav_link c k s (t\<lparr> progress_odom_age_s := x \<rparr>) = nav_link c k s t"
  by (simp add: nav_link_def nav_inv_def same_task_def credits_def)

lemma link_handoff: "nav_link c k s (t\<lparr> explicit_handoff_active := x \<rparr>) = nav_link c k s t"
  by (simp add: nav_link_def nav_inv_def same_task_def credits_def)

lemmas link_frames [simp] = link_still link_age link_handoff

lemma still_None: "still_step c v s (t\<lparr> still_since := None \<rparr>)"
  by (simp add: still_step_def)

lemma inside_phase: "inside c v (t\<lparr> nav_phase := p \<rparr>) = inside c v t"
  by (simp add: inside_def)

lemma tick_ready:
  assumes "nav_link c k s t" and "nav_phase t \<noteq> NAV_FAILED" "nav_phase t \<noteq> NAV_IDLE"
    and "uses_explicit_goal t \<Longrightarrow> nav_phase t = NAV_NAVIGATING" and "health_loss_since t = None"
    and "measured c v" "slow c v" "inside c v t" and "still_since t = Some since"
    and "still_settle_s c \<le> the_fin (stamp_s v) - since"
    and "nav_phase s \<noteq> NAV_READY" and "still_step c v s t"
  shows "tick_ok c v k s (nav_ready why (t\<lparr> nav_phase := NAV_READY \<rparr>))"
proof -
  let ?u = "t\<lparr> nav_phase := NAV_READY \<rparr>"
  have "nav_inv c ?u"
    using assms(1-5) by (auto simp: nav_link_def nav_inv_def waiting_phase_def)
  moreover have "same_task s ?u" "credits ?u \<le> credits t"
    using assms(1) by (simp_all add: nav_link_def same_task_def credits_def)
  ultimately have "nav_link c k s ?u"
    using assms(1,2) by (simp add: nav_link_def)
  moreover have "still_step c v s ?u"
    using assms(2,11,12) by (auto simp: still_step_def)
  ultimately show ?thesis
    using assms by (simp add: tick_ok_def nav_ready_def waypoint_ok_def ready_ok_def nav_decision_def inside_phase)
qed

definition decides ::
  "NavigationConfig \<Rightarrow> NavInput \<Rightarrow> int \<Rightarrow> CoarseNavigationCore \<Rightarrow> NavDecision option nav_op \<Rightarrow> bool" where
  "decides c v k s r = (\<exists>q. r = some_decision q \<and> tick_ok c v k s q)"

lemma decidesI: "tick_ok c v k s q \<Longrightarrow> decides c v k s (some_decision q)"
  unfolding decides_def by blast

lemma settle_tick:
  assumes link: "nav_link c k s t" and ph: "nav_phase t \<noteq> NAV_FAILED" "nav_phase t \<noteq> NAV_IDLE"
    and e: "uses_explicit_goal t \<Longrightarrow> nav_phase t = NAV_NAVIGATING" and h: "health_loss_since t = None"
    and m: "measured c v" and i: "inside c v t" and s: "nav_phase s \<noteq> NAV_READY" "still_since t = still_since s"
    and stamp: "stamp = the_fin (stamp_s v)"
  shows "decides c v k s (settle_handoff c v stamp moving settling t)"
proof (cases "Fin (still_speed_mps c) < base_speed_mps v")
  case True
  then have "settle_handoff c v stamp moving settling t =
      some_decision (nav_hold moving (t\<lparr> still_since := None \<rparr>))"
    by (simp add: settle_handoff_def)
  then show ?thesis using decidesI [OF tick_hold [OF _ still_None]] link by simp
next
  case False
  then have slow: "slow c v" using m by (auto simp: slow_def measured_def)
  define u where "u = (if still_since t = None then t\<lparr> still_since := Some stamp \<rparr> else t)"
  obtain since where since: "still_since u = Some since" by (cases "still_since t") (auto simp: u_def)
  have u: "nav_link c k s u" "still_step c v s u" "inside c v u" "nav_phase u = nav_phase t"
      "uses_explicit_goal u = uses_explicit_goal t" "health_loss_since u = None"
    using link s i slow m h by (auto simp: u_def still_step_def stamp inside_def)
  have "settle_handoff c v stamp moving settling t = some_decision
      (if stamp - since < still_settle_s c then nav_hold settling u else nav_ready [] (u\<lparr> nav_phase := NAV_READY \<rparr>))"
    using False since by (simp add: settle_handoff_def u_def [symmetric] Let_def)
  moreover have "tick_ok c v k s (nav_ready [] (u\<lparr> nav_phase := NAV_READY \<rparr>))" if "\<not> stamp - since < still_settle_s c"
    by (rule tick_ready [OF u(1) _ _ _ u(6) m slow u(3) since]) (use that u ph e s stamp in auto)
  ultimately show ?thesis using tick_hold [OF u(1,2)] by (simp add: decidesI)
qed

text \<open>
  A handoff test either decides the tick, or passes it on with the stillness forgotten.
\<close>

definition handoff_ok ::
  "NavigationConfig \<Rightarrow> NavInput \<Rightarrow> int \<Rightarrow> CoarseNavigationCore \<Rightarrow> CoarseNavigationCore \<Rightarrow> NavDecision option nav_op \<Rightarrow> bool" where
  "handoff_ok c v k s t r =
     ((\<exists>u. r = (Inr None, u) \<and> core_view u = core_view (t\<lparr> still_since := None \<rparr>))
      \<or> decides c v k s r)"

lemma near_handoff_ok:
  assumes link: "nav_link c k s t" and ph: "nav_phase t \<noteq> NAV_FAILED" "nav_phase t \<noteq> NAV_IDLE"
    and e: "\<not> uses_explicit_goal t" and h: "health_loss_since t = None"
    and m: "measured c v" and s: "nav_phase s \<noteq> NAV_READY" "still_since t = still_since s"
    and stamp: "stamp = the_fin (stamp_s v)"
  shows "handoff_ok c v k s t (near_handoff c v stamp t)"
proof (cases "\<exists>depth. target_depth_m v = Some (Fin depth) \<and> 0 < depth")
  case True
  then obtain depth where d: "target_depth_m v = Some (Fin depth)" "0 < depth" by blast
  show ?thesis
  proof (cases "near_target_depth_m c < depth")
    case True
    then show ?thesis using d by (simp add: handoff_ok_def near_handoff_def core_view_def)
  next
    case False
    then have "inside c v t" using d e by (simp add: inside_def)
    then show ?thesis
      using settle_tick [OF link ph _ h m _ s stamp] e d False by (simp add: handoff_ok_def near_handoff_def)
  qed
next
  case False
  then have "near_handoff c v stamp t = some_decision (nav_fail_with ''observed target depth is invalid'' t)"
    by (auto simp: near_handoff_def split: option.split pyfloat.split)
  moreover have "tick_ok c v k s (nav_fail_with ''observed target depth is invalid'' t)"
    by (rule tick_fail) (use link in \<open>simp_all add: nav_link_def nav_inv_def\<close>)
  ultimately show ?thesis by (simp add: handoff_ok_def decidesI)
qed

lemma explicit_handoff_ok:
  assumes link: "nav_link c k s t" and ph: "nav_phase t = NAV_NAVIGATING" and h: "health_loss_since t = None"
    and e: "uses_explicit_goal t"
    and b: "nav_xy (base_xy v) ''base position'' = Inr base" and g: "goal_xy t = Some goal"
    and d: "far = norm2 (diff2 goal base)"
    and m: "measured c v" and s: "nav_phase s \<noteq> NAV_READY" "still_since t = still_since s"
    and stamp: "stamp = the_fin (stamp_s v)"
  shows "handoff_ok c v k s t (explicit_goal_handoff c v stamp far t)"
proof -
  define t1 where "t1 = (if \<not> explicit_handoff_active t \<and> far \<le> explicit_goal_tolerance_m c
      then t\<lparr> explicit_handoff_active := True \<rparr> else t)"
  define t2 where "t2 = (if explicit_handoff_active t1 \<and> exit_tolerance c < far
      then t1\<lparr> explicit_handoff_active := False, still_since := None \<rparr> else t1)"
  have t1: "core_view t1 = core_view t" "nav_link c k s t1" using link by (auto simp: t1_def core_view_def)
  show ?thesis
  proof (cases "explicit_handoff_active t2")
    case True
    then have eq: "t2 = t1" and "far \<le> exit_tolerance c" by (auto simp: t2_def split: if_splits)
    then have "inside c v t2"
      using e b g d core_viewD [OF t1(1)] by (simp add: inside_def)
    then have "decides c v k s (settle_handoff c v stamp ''within coarse work-pose tolerance; waiting for stop''
        ''settling inside coarse work-pose tolerance'' t2)"
      by (intro settle_tick) (use eq ph h m s stamp t1 core_viewD [OF t1(1)] in auto)
    then show ?thesis
      using True by (simp add: handoff_ok_def explicit_goal_handoff_def Let_def t1_def [symmetric] t2_def [symmetric])
  next
    case False
    have v: "core_view (t2\<lparr> still_since := None \<rparr>) = core_view (t\<lparr> still_since := None \<rparr>)"
      by (auto simp: t2_def t1_def core_view_def)
    have "nav_link c k s (t2\<lparr> still_since := None \<rparr>)"
      using link unfolding view_link [OF v] by simp
    then have "tick_ok c v k s (nav_note why (t2\<lparr> still_since := None \<rparr>))" for why
      by (rule tick_note) (rule still_None)
    moreover have "explicit_goal_handoff c v stamp far t =
        (if goal_reached v then some_decision (nav_note ''goal_reached ignored outside explicit XY tolerance''
            (t2\<lparr> still_since := None \<rparr>)) else (Inr None, t2\<lparr> still_since := None \<rparr>))"
      using False by (simp add: explicit_goal_handoff_def Let_def t1_def [symmetric] t2_def [symmetric])
    ultimately show ?thesis using v by (simp add: handoff_ok_def decidesI)
  qed
qed

section \<open>Stages of a tick\<close>

definition in_tick ::
  "NavigationConfig \<Rightarrow> NavInput \<Rightarrow> int \<Rightarrow> CoarseNavigationCore \<Rightarrow> CoarseNavigationCore \<Rightarrow> bool" where
  "in_tick c v k s t =
     (nav_link c k s t \<and> nav_phase t = nav_phase s \<and> still_since t = still_since s \<and> health_loss_since t = None
      \<and> replan_count t = replan_count s \<and> nav_phase t \<noteq> NAV_IDLE \<and> nav_phase t \<noteq> NAV_FAILED
      \<and> (nav_phase t = NAV_READY \<longrightarrow> uses_explicit_goal t)
      \<and> isfinite (stamp_s v) \<and> navigation_healthy v \<and> 0 \<le> max_reacquisitions c)"

lemma in_tick_fail: "in_tick c v k s t \<Longrightarrow> tick_ok c v k s (nav_fail_with why t)"
  by (rule tick_fail) (simp_all add: in_tick_def nav_link_def nav_inv_def)

lemma in_tick_still:
  "in_tick c v k s t \<Longrightarrow> nav_phase t \<noteq> NAV_READY \<Longrightarrow> \<not> measured c v \<Longrightarrow> still_step c v s t"
  by (simp add: in_tick_def still_step_def)

lemma in_tick_age: "in_tick c v k s t \<Longrightarrow> in_tick c v k s (t\<lparr> progress_odom_age_s := x \<rparr>)"
  by (auto simp: in_tick_def)

lemma in_tick_reacquire:
  "in_tick c v k s t \<Longrightarrow> \<not> uses_explicit_goal t \<Longrightarrow> tick_ok c v k s (nav_reacquire c stamp why t)"
  by (rule tick_reacquire) (auto simp: in_tick_def)

lemma in_tick_waiting:
  "in_tick c v k s t \<Longrightarrow> waiting_phase (nav_phase t) \<Longrightarrow> \<not> uses_explicit_goal t \<and> nav_phase t \<noteq> NAV_READY"
  by (auto simp: in_tick_def nav_link_def nav_inv_def waiting_phase_def)

lemma tick_wait:
  assumes t: "in_tick c v k s t" and w: "waiting_phase (nav_phase t)" and m: "\<not> measured c v"
  shows "tick_ok c v k s (wait_for_complete_observation c stamp why allowed t)"
  using in_tick_fail [OF t] in_tick_reacquire [OF t] in_tick_waiting [OF t w] tick_note [OF _ in_tick_still [OF t _ m]] t
  by (simp add: wait_for_complete_observation_def in_tick_def)

lemma tick_target_lost:
  assumes t: "in_tick c v k s t" and e: "\<not> uses_explicit_goal t" and m: "\<not> measured c v"
  shows "tick_ok c v k s (target_lost c stamp t)"
proof -
  have s: "still_step c v s t"
    using in_tick_still [OF t _ m] t e by (auto simp: in_tick_def)
  have l: "nav_link c k s t" using t by (simp add: in_tick_def)
  show ?thesis
    using in_tick_reacquire [OF t e] tick_note [OF l s] tick_hold [OF l s] by (simp add: target_lost_def Let_def)
qed

text \<open>Revoking an explicit READY for a counted loss.\<close>

lemma revoked_link:
  assumes link: "nav_link c k s t" and r: "nav_phase t = NAV_READY" "uses_explicit_goal t"
    and b: "replan_count t + 1 \<le> max_replans c"
    and u: "core_view u =
      (NAV_NAVIGATING, replan_count t + 1, reacquisition_count t, goal_xy t, True, goal_mode t, planned_target_xy t,
       started_at t, Some stamp, None, h, True)"
  shows "nav_link c k s u" "still_step c v s u"
proof -
  have f: "nav_phase u = NAV_NAVIGATING" "replan_count u = replan_count t + 1" "goal_xy u = goal_xy t"
      "reacquisition_count u = reacquisition_count t" "uses_explicit_goal u" "goal_mode u = goal_mode t"
      "started_at u = started_at t" "phase_started_at u = Some stamp" "still_since u = None"
      "explicit_resume_pending u"
    using u by (simp_all add: core_view_def)
  have "nav_inv c u" "same_task s u" "credits u = 1"
    using link r b by (auto simp: nav_link_def nav_inv_def same_task_def f waiting_phase_def credits_def)
  then show "nav_link c k s u"
    using link r credits_nonneg [of t] by (simp add: nav_link_def f)
  show "still_step c v s u" by (simp add: still_step_def f)
qed

lemma tick_unhealthy:
  assumes inv: "nav_inv c s" and p: "nav_phase s \<noteq> NAV_IDLE" "nav_phase s \<noteq> NAV_FAILED"
    and e: "nav_phase s = NAV_READY \<Longrightarrow> uses_explicit_goal s" and h: "\<not> navigation_healthy v"
  shows "tick_ok c v (credits s) s (nav_unhealthy c stamp s)"
proof (cases "nav_phase s = NAV_READY")
  case True
  define u where "u = snd (revoke_explicit_ready stamp s)\<lparr> health_loss_since := Some stamp, replan_count := replan_count s + 1 \<rparr>"
  have i: "uses_explicit_goal s" "health_loss_since s = None" and link: "nav_link c (credits s) s s"
    using inv True e by (simp_all add: nav_inv_def nav_link_def same_task_def)
  have eq: "nav_unhealthy c stamp s =
      (if max_replans c < replan_count s + 1 then nav_fail_with ''navigation health recovery budget exhausted'' u
       else if stall_timeout_s c < 0 then nav_fail_with ''navigation health did not recover before timeout'' u
       else nav_hold ''navigation unhealthy; holding for recovery'' u)"
    using True i by (simp add: nav_unhealthy_def revoke_explicit_ready_def guard_def u_def Let_def)
  have view: "core_view u = (NAV_NAVIGATING, replan_count s + 1, reacquisition_count s, goal_xy s, True, goal_mode s,
      planned_target_xy s, started_at s, Some stamp, None, Some stamp, True)"
    using True i by (simp add: u_def revoke_explicit_ready_def guard_def core_view_def)
  have "tick_ok c v (credits s) s (nav_fail_with why u)" for why
    by (rule tick_fail) (use inv i view in \<open>auto simp: core_view_def nav_inv_def same_task_def\<close>)
  then show ?thesis
    using revoked_link [OF link True i(1) _ view] tick_hold by (simp add: eq)
next
  case False
  define u where "u = (if health_loss_since s = None
      then s\<lparr> health_loss_since := Some stamp, replan_count := replan_count s + 1 \<rparr> else s)"
  have m: "\<not> measured c v" using h by (simp add: measured_def)
  have eq: "nav_unhealthy c stamp s =
      (if max_replans c < replan_count u then nav_fail_with ''navigation health recovery budget exhausted'' u
       else if stall_timeout_s c < stamp - the (health_loss_since u)
       then nav_fail_with ''navigation health did not recover before timeout'' u
       else nav_hold ''navigation unhealthy; holding for recovery'' u)"
    using False by (simp add: nav_unhealthy_def u_def [symmetric] Let_def)
  have f: "tick_ok c v (credits s) s (nav_fail_with why u)" for why
    by (rule tick_fail) (use inv in \<open>auto simp: u_def nav_inv_def same_task_def\<close>)
  have "nav_link c (credits s) s u" if "replan_count u \<le> max_replans c"
    using inv False p that by (auto simp: nav_link_def nav_inv_def same_task_def u_def credits_def split: if_splits)
  moreover have "still_step c v s u" using m False by (simp add: still_step_def u_def)
  ultimately show ?thesis using f tick_hold by (simp add: eq)
qed

lemma tick_odometry_lost:
  assumes t: "in_tick c v k s t" and m: "\<not> measured c v"
  shows "tick_ok c v k s (odometry_lost c stamp explicit_requested t)"
proof (cases "nav_phase t = NAV_READY")
  case True
  define r where "r = t\<lparr> replan_count := replan_count t + 1 \<rparr>"
  define u where "u = snd (revoke_explicit_ready stamp r)"
  have e: "uses_explicit_goal t" and l: "nav_link c k s t" using t True by (simp_all add: in_tick_def)
  have eq: "odometry_lost c stamp explicit_requested t =
      (if max_replans c < replan_count t + 1 then nav_fail_with ''explicit READY odometry recovery budget exhausted'' r
       else nav_hold ''explicit READY revoked while odometry is stale'' u)"
    using True e by (simp add: odometry_lost_def revoke_explicit_ready_def guard_def r_def u_def Let_def)
  have view: "core_view u = (NAV_NAVIGATING, replan_count t + 1, reacquisition_count t, goal_xy t, True, goal_mode t,
      planned_target_xy t, started_at t, Some stamp, None, health_loss_since t, True)"
    using True e by (simp add: u_def r_def revoke_explicit_ready_def guard_def core_view_def)
  have "tick_ok c v k s (nav_fail_with why r)" for why
    by (rule tick_fail) (use l in \<open>auto simp: r_def nav_link_def nav_inv_def same_task_def\<close>)
  then show ?thesis using revoked_link [OF l True e _ view] tick_hold by (simp add: eq)
next
  case False
  have l: "nav_link c k s t" and st: "still_step c v s t"
    using t in_tick_still [OF t False m] by (simp_all add: in_tick_def)
  show ?thesis
    using False in_tick_fail [OF t] tick_wait [OF t _ m] tick_note [OF l st] by (simp add: odometry_lost_def)
qed

lemma view_conflict:
  assumes "core_view t' = core_view t"
  shows "goal_conflict v t' = goal_conflict v t"
  by (simp only: goal_conflict_def core_viewD [OF assms])

lemma conflict_still: "goal_conflict v (u\<lparr> still_since := x \<rparr>) = goal_conflict v u"
  by (simp add: goal_conflict_def cong: sum.case_cong)

lemma view_plannable:
  assumes "core_view t' = core_view t"
  shows "plannable c v k b s t' = plannable c v k b s t"
  by (simp add: plannable_def core_viewD [OF assms] view_link [OF assms] view_conflict [OF assms])

text \<open>A committed goal is followed once the stillness is forgotten.\<close>

definition following :: "NavigationConfig \<Rightarrow> NavInput \<Rightarrow> int \<Rightarrow> CoarseNavigationCore \<Rightarrow> CoarseNavigationCore \<Rightarrow> bool" where
  "following c v k s t = (plannable c v k True s t \<and> nav_phase t = NAV_NAVIGATING \<and> still_since t = None)"

lemma view_following:
  assumes "core_view t' = core_view t"
  shows "following c v k s t' = following c v k s t"
  by (simp add: following_def core_viewD [OF assms] view_plannable [OF assms])

lemma tick_follow:
  assumes t: "following c v k s t" and q: "\<not> uses_explicit_goal t \<Longrightarrow> target \<noteq> None"
  shows "tick_ok c v k s (follow_goal c v stamp target gap t)"
proof -
  obtain progress u where p: "record_goal_progress c v stamp gap t = (progress, u)" by force
  have view: "core_view u = core_view t" using view_record_progress [of c v stamp gap t] p by simp
  have u: "following c v k s u" using t view_following [OF view] by simp
  have plan: "tick_ok c v k s (nav_plan c v stamp True u)"
    using u by (intro tick_plan) (simp add: following_def)
  have quiet: "tick_ok c v k s (nav_note [] u)"
    using u by (intro tick_note) (simp_all add: following_def plannable_def still_step_def)
  have "planned_target_xy u \<noteq> None" if "\<not> uses_explicit_goal u"
    using u that by (simp add: following_def plannable_def nav_link_def nav_inv_def)
  then show ?thesis
    using plan quiet q core_viewD(5) [OF view] by (auto simp: follow_goal_def p follow_target_def guard_def)
qed

lemma conflict_free:
  assumes "goal_conflict v t = None" and "goal_mode t \<noteq> None"
  shows "uses_explicit_goal t \<longleftrightarrow> explicit_goal_xy v \<noteq> None"
  using assms by (cases "explicit_goal_xy v") (auto simp: goal_conflict_def split: if_splits)

lemma tick_track:
  assumes t: "in_tick c v k s t \<and> complete_observation v \<and> goal_conflict v t = None \<and> measured c v"
    and u: "core_view u = core_view t \<or> \<not> uses_explicit_goal t \<and> core_view u = core_view (t\<lparr> still_since := None \<rparr>)"
    and n: "nav_phase u = NAV_NAVIGATING \<or> nav_phase u = NAV_READY"
    and l: "\<not> uses_explicit_goal u \<Longrightarrow> still_since u = None"
    and stamp: "stamp = the_fin (stamp_s v)"
  shows "tick_ok c v k s (track_goal c v stamp u)"
proof -
  have same: "nav_phase u = nav_phase t" "goal_xy u = goal_xy t" "uses_explicit_goal u = uses_explicit_goal t"
      "goal_mode u = goal_mode t" "health_loss_since u = None" "replan_count u = replan_count t"
    using u t by (auto simp: core_view_def in_tick_def)
  have "nav_link c k s t" using t by (simp add: in_tick_def)
  then have link: "nav_link c k s u"
    using u view_link [of u t] view_link [of u "t\<lparr> still_since := None \<rparr>"] by (elim disjE conjE) simp_all
  have conflict: "goal_conflict v u = None"
    using t by (simp only: goal_conflict_def same)
  have inv: "goal_xy u \<noteq> None" "goal_mode u \<noteq> None"
  proof -
    have "nav_phase u = NAV_READY \<longrightarrow> uses_explicit_goal u" using t same by (simp add: in_tick_def)
    moreover have "nav_inv c u" using link by (simp add: nav_link_def)
    ultimately show "goal_xy u \<noteq> None" "goal_mode u \<noteq> None" using n unfolding nav_inv_def by blast+
  qed
  then obtain goal where g: "goal_xy u = Some goal" by blast
  obtain base where b: "nav_xy (base_xy v) ''base position'' = Inr base"
    using t by (auto simp: complete_observation_def is_ok_iff)
  define target where "target = (if uses_explicit_goal u then None
      else Some (case nav_xy (target_xy v) ''target position'' of Inr q \<Rightarrow> q))"
  have q: "(if uses_explicit_goal u then Inr None
      else rbind (nav_xy (target_xy v) ''target position'') (\<lambda>p. Inr (Some p))) = Inr target"
    using t conflict_free [OF conflict inv(2)]
    by (auto simp: complete_observation_def is_ok_iff target_def)
  have plannable: "plannable c v k True s u"
    using t link conflict n same(5) by (auto simp: plannable_def)
  define gap where "gap = norm2 (diff2 goal base)"
  have eq: "track_goal c v stamp u =
      (if nav_phase u = NAV_READY then
         (if gap \<le> exit_tolerance c
          then nav_ready ''coarse work pose remains inside handoff hysteresis'' u else nav_plan c v stamp True u)
       else if uses_explicit_goal u then
         obind (explicit_goal_handoff c v stamp gap u) (\<lambda>h w.
           case h of None \<Rightarrow> follow_goal c v stamp target gap w | Some d \<Rightarrow> (Inr d, w))
       else follow_goal c v stamp target gap u)"
    using n by (elim disjE) (simp_all add: track_goal_def g b q gap_def [symmetric] guard_def Let_def cong: option.case_cong)
  consider (ready) "nav_phase u = NAV_READY" | (explicit) "nav_phase u = NAV_NAVIGATING" "uses_explicit_goal u"
    | (legacy) "nav_phase u = NAV_NAVIGATING" "\<not> uses_explicit_goal u"
    using n by blast
  then show ?thesis
  proof cases
    case ready
    then have e: "uses_explicit_goal u" using t same by (simp add: in_tick_def)
    have s: "nav_phase s = NAV_READY" using t ready same by (simp add: in_tick_def)
    have "tick_ok c v k s (nav_ready why u)" if "gap \<le> exit_tolerance c" for why
      using link ready e s t b g that
      by (simp add: tick_ok_def nav_ready_def waypoint_ok_def ready_ok_def nav_decision_def inside_def still_step_def gap_def)
    then show ?thesis using tick_plan [OF plannable] ready by (simp add: eq)
  next
    case explicit
    have "handoff_ok c v k s u (explicit_goal_handoff c v stamp gap u)"
      by (rule explicit_handoff_ok [OF link explicit(1) same(5) explicit(2) b g gap_def])
        (use t u same explicit stamp core_viewD [of u t] in \<open>auto simp: in_tick_def\<close>)
    then consider (pass) w where "explicit_goal_handoff c v stamp gap u = (Inr None, w)"
          "core_view w = core_view (u\<lparr> still_since := None \<rparr>)"
      | (decided) d where "explicit_goal_handoff c v stamp gap u = some_decision d" "tick_ok c v k s d"
      unfolding handoff_ok_def decides_def by blast
    then show ?thesis
    proof cases
      case pass
      have "following c v k s (u\<lparr> still_since := None \<rparr>)"
        using plannable explicit by (simp add: following_def plannable_def conflict_still)
      then have "following c v k s w" using view_following [OF pass(2)] by simp
      moreover have "uses_explicit_goal w" using pass(2) explicit by (simp add: core_view_def)
      ultimately show ?thesis using pass explicit tick_follow [of c v k s w target stamp gap] by (simp add: eq)
    next
      case decided
      then show ?thesis using explicit obind_some_decision [OF decided(2)] by (simp add: eq)
    qed
  next
    case legacy
    then have "following c v k s u" using plannable l by (simp add: following_def)
    then show ?thesis using legacy tick_follow [of c v k s u target stamp gap] by (simp add: eq target_def)
  qed
qed

lemma tick_dispatch:
  assumes t: "in_tick c v k s t \<and> complete_observation v \<and> goal_conflict v t = None \<and> measured c v"
    and k: "recovered \<Longrightarrow> 1 \<le> k" and stamp: "stamp = the_fin (stamp_s v)"
  shows "tick_ok c v k s (dispatch c v stamp (uses_explicit_goal t \<or> explicit_goal_xy v \<noteq> None) recovered t)"
proof -
  have link: "nav_link c k s t" and ph: "nav_phase t \<noteq> NAV_FAILED" "nav_phase t \<noteq> NAV_IDLE"
    and h: "health_loss_since t = None" and n: "replan_count t = replan_count s"
    and r: "nav_phase t = NAV_READY \<longrightarrow> uses_explicit_goal t" and ss: "nav_phase t = nav_phase s" "still_since t = still_since s"
    using t by (auto simp: in_tick_def)
  have cr: "credits t \<le> k" using link ph n by (simp add: nav_link_def)
  define rest where "rest = (\<lambda>u. if waiting_phase (nav_phase u) then nav_plan c v stamp (nav_phase u = NAV_REACQUIRE) u
      else if explicit_resume_pending u then nav_plan c v stamp False u
      else if recovered then nav_plan c v stamp False u else track_goal c v stamp u)"
  have rest: "tick_ok c v k s (rest u)"
    if u: "core_view u = core_view t \<or> \<not> uses_explicit_goal t \<and> core_view u = core_view (t\<lparr> still_since := None \<rparr>)"
      and l: "\<not> uses_explicit_goal u \<Longrightarrow> waiting_phase (nav_phase u) \<or> still_since u = None" for u
  proof -
    have same: "nav_phase u = nav_phase t" "goal_xy u = goal_xy t" "uses_explicit_goal u = uses_explicit_goal t"
        "goal_mode u = goal_mode t" "health_loss_since u = None" "replan_count u = replan_count t"
        "explicit_resume_pending u = explicit_resume_pending t"
      using u h by (auto simp: core_view_def)
    have "nav_link c k s u"
      using link u view_link [of u t] view_link [of u "t\<lparr> still_since := None \<rparr>"] by (elim disjE conjE) simp_all
    moreover have "goal_conflict v u = None" using t by (simp only: goal_conflict_def same)
    ultimately have plan: "tick_ok c v k s (nav_plan c v stamp b u)" if "b \<or> 1 \<le> k" for b
      using that t same ph n by (intro tick_plan) (auto simp: plannable_def)
    have one: "1 \<le> k" if "nav_phase t = NAV_WAIT_OBSERVATION \<or> explicit_resume_pending t"
      using that cr by (auto simp: credits_def of_bool_def split: if_splits)
    show ?thesis
    proof (cases "waiting_phase (nav_phase u) \<or> explicit_resume_pending u \<or> recovered")
      case True
      then show ?thesis using plan one k same by (auto simp: rest_def waiting_phase_def)
    next
      case False
      then have "nav_phase u = NAV_NAVIGATING \<or> nav_phase u = NAV_READY"
        using ph same by (cases "nav_phase u") (auto simp: waiting_phase_def)
      then show ?thesis
        using False tick_track [OF t u _ _ stamp] l by (simp add: rest_def)
    qed
  qed
  show ?thesis
  proof (cases "uses_explicit_goal t \<or> explicit_goal_xy v \<noteq> None")
    case True
    then have "dispatch c v stamp (uses_explicit_goal t \<or> explicit_goal_xy v \<noteq> None) recovered t = rest t"
      by (simp add: dispatch_def rest_def)
    moreover have "tick_ok c v k s (rest t)"
    proof (rule rest)
      show "waiting_phase (nav_phase t) \<or> still_since t = None" if "\<not> uses_explicit_goal t"
      proof -
        have "goal_mode t = None" using that True t conflict_free [of v t] by blast
        then have "nav_phase t \<noteq> NAV_NAVIGATING" using link by (auto simp: nav_link_def nav_inv_def)
        then show ?thesis using ph r that by (cases "nav_phase t") (auto simp: waiting_phase_def)
      qed
    qed simp
    ultimately show ?thesis by simp
  next
    case False
    have "handoff_ok c v k s t (near_handoff c v stamp t)"
      by (rule near_handoff_ok [OF link ph _ h]) (use False t r ss stamp in auto)
    then consider (pass) w where "near_handoff c v stamp t = (Inr None, w)"
          "core_view w = core_view (t\<lparr> still_since := None \<rparr>)"
      | (decided) d where "near_handoff c v stamp t = some_decision d" "tick_ok c v k s d"
      unfolding handoff_ok_def decides_def by blast
    then show ?thesis
    proof cases
      case pass
      then have "dispatch c v stamp (uses_explicit_goal t \<or> explicit_goal_xy v \<noteq> None) recovered t = rest w"
        using False by (simp add: dispatch_def rest_def)
      moreover have "still_since w = None" using pass(2) by (simp add: core_view_def)
      ultimately show ?thesis using rest [of w] pass(2) False by simp
    next
      case decided
      then show ?thesis using False obind_some_decision [OF decided(2)] by (simp add: dispatch_def)
    qed
  qed
qed

lemma tick_healthy:
  assumes t: "in_tick c v k s t" and k: "recovered \<Longrightarrow> 1 \<le> k" and stamp: "stamp = the_fin (stamp_s v)"
  shows "tick_ok c v k s (nav_healthy c v stamp recovered t)"
proof -
  let ?e = "uses_explicit_goal t \<or> explicit_goal_xy v \<noteq> None"
  consider (lost) "\<not> ?e" "\<not> target_fresh c v stamp"
    | (speed) "?e \<or> target_fresh c v stamp" "\<not> isfinite (base_speed_mps v) \<or> base_speed_mps v < 0"
    | (seen) "?e \<or> target_fresh c v stamp" "isfinite (base_speed_mps v)" "\<not> base_speed_mps v < 0"
    by blast
  then show ?thesis
  proof cases
    case lost
    then have "\<not> measured c v" using stamp by (simp add: measured_def)
    then show ?thesis using lost tick_target_lost [OF t] by (simp add: nav_healthy_def Let_def)
  next
    case speed
    then have m: "\<not> measured c v" by (auto simp: measured_def isfinite_iff)
    have "nav_healthy c v stamp recovered t = (if waiting_phase (nav_phase t) then
           wait_for_complete_observation c stamp ''waiting for finite SLAM velocity'' (\<not> ?e) t
         else nav_fail_with ''base speed is invalid'' t)"
      using speed by (auto simp: nav_healthy_def Let_def)
    then show ?thesis using tick_wait [OF t _ m] in_tick_fail [OF t] by simp
  next
    case seen
    show ?thesis
    proof (cases rule: odom_stamp_cases [of v c stamp t])
      case (stale age)
      then have m: "\<not> measured c v" using stamp by (simp add: measured_def)
      have "nav_healthy c v stamp recovered t = odometry_lost c stamp ?e (t\<lparr> progress_odom_age_s := age \<rparr>)"
        using seen stale(2) by (auto simp: nav_healthy_def Let_def)
      then show ?thesis using tick_odometry_lost [OF in_tick_age [OF t] m] by simp
    next
      case (fresh odom)
      define u where "u = t\<lparr> progress_odom_age_s := Some (stamp - odom) \<rparr>"
      have u: "in_tick c v k s u" unfolding u_def by (rule in_tick_age [OF t])
      have e: "uses_explicit_goal u = uses_explicit_goal t" by (simp add: u_def)
      have eq: "nav_healthy c v stamp recovered t =
          (if \<not> complete_observation v then
             (if waiting_phase (nav_phase u) then
                wait_for_complete_observation c stamp ''waiting for complete navigation observation'' (\<not> ?e) u
              else nav_fail_with ''navigation observation became incomplete'' u)
           else (case goal_conflict v u of Some why \<Rightarrow> nav_fail_with why u
                 | None \<Rightarrow> dispatch c v stamp (uses_explicit_goal u \<or> explicit_goal_xy v \<noteq> None) recovered u))"
        using seen fresh(3) by (auto simp: nav_healthy_def Let_def u_def split: option.split)
      show ?thesis
      proof (cases "complete_observation v")
        case False
        then have m: "\<not> measured c v" by (simp add: measured_def)
        then show ?thesis using False tick_wait [OF u _ m] in_tick_fail [OF u] by (simp add: eq)
      next
        case True
        have "measured c v" if "explicit_goal_xy v \<noteq> None \<or> target_fresh c v stamp"
          using True seen fresh(2) t stamp that by (auto simp: measured_def in_tick_def isfinite_iff)
        moreover have "explicit_goal_xy v \<noteq> None" if "uses_explicit_goal t" "goal_conflict v u = None"
        proof -
          have "goal_mode u \<noteq> None" using u that e by (auto simp: in_tick_def nav_link_def nav_inv_def)
          then show ?thesis using conflict_free [OF that(2)] that e by simp
        qed
        ultimately have "measured c v" if "goal_conflict v u = None" using seen(1) that by blast
        then show ?thesis
          using True in_tick_fail [OF u] tick_dispatch [where s = s and t = u, OF _ k stamp] u
          by (cases "goal_conflict v u") (simp_all add: eq)
      qed
    qed
  qed
qed

lemma nav_update_tick:
  assumes inv: "nav_inv c s" and st: "isfinite (stamp_s v)" and b: "0 \<le> max_reacquisitions c"
    and live: "nav_phase s \<noteq> NAV_IDLE" "nav_phase s \<noteq> NAV_FAILED"
    and a: "nav_phase s = NAV_READY \<Longrightarrow> uses_explicit_goal s"
  shows "tick_ok c v (credits s) s (nav_update c v s)"
proof -
  obtain x y where x: "started_at s = Some x" "phase_started_at s = Some y"
    using inv live by (auto simp: nav_inv_def)
  define stamp where "stamp = the_fin (stamp_s v)"
  have eq: "nav_update c v s =
      (if stamp < y then nav_fail_with ''navigation time moved backwards'' s
       else if navigation_timeout_s c < stamp - x then nav_fail_with ''coarse navigation timeout'' s
       else if \<not> navigation_healthy v then nav_unhealthy c stamp s
       else nav_healthy c v stamp (health_loss_since s \<noteq> None) (s\<lparr> health_loss_since := None \<rparr>))"
    using live a st x by (auto simp: nav_update_def nav_finite_time_def raise_if_def guard_def stamp_def)
  have fail: "tick_ok c v (credits s) s (nav_fail_with why s)" for why
    by (rule tick_fail) (use inv in \<open>simp_all add: nav_inv_def same_task_def\<close>)
  have u: "tick_ok c v (credits s) s (nav_unhealthy c stamp s)" if "\<not> navigation_healthy v"
    by (rule tick_unhealthy) (use inv live a that in auto)
  have "tick_ok c v (credits s) s (nav_healthy c v stamp (health_loss_since s \<noteq> None) (s\<lparr> health_loss_since := None \<rparr>))"
    if h: "navigation_healthy v"
  proof (rule tick_healthy [OF _ _ stamp_def])
    have "nav_inv c (s\<lparr> health_loss_since := None \<rparr>)" using inv by (simp add: nav_inv_def)
    moreover have "credits (s\<lparr> health_loss_since := None \<rparr>) \<le> credits s" by (simp add: credits_def)
    ultimately show "in_tick c v (credits s) s (s\<lparr> health_loss_since := None \<rparr>)"
      using live a st b h by (auto simp: in_tick_def nav_link_def same_task_def)
  qed (simp add: credits_def)
  then show ?thesis using fail u by (simp add: eq)
qed

section \<open>Runs\<close>

datatype nav_event =
    NavBegin string string pyfloat
  | NavReset
  | NavFail string
  | NavArm
  | NavTick NavInput

fun nav_step :: "NavigationConfig \<Rightarrow> CoarseNavigationCore \<Rightarrow> nav_event \<Rightarrow> CoarseNavigationCore" where
  "nav_step c s (NavBegin i k t) = snd (nav_begin i k t s)"
| "nav_step c s NavReset = snd (nav_reset s)"
| "nav_step c s (NavFail why) = snd (nav_fail why s)"
| "nav_step c s NavArm = snd (arm_current_goal s)"
| "nav_step c s (NavTick v) = snd (nav_update c v s)"

fun in_task :: "nav_event \<Rightarrow> bool" where
  "in_task (NavBegin _ _ _) = False"
| "in_task NavReset = False"
| "in_task _ = True"

definition nav_dormant :: "CoarseNavigationCore \<Rightarrow> bool" where
  "nav_dormant s =
     (nav_phase s = NAV_IDLE \<or> nav_phase s = NAV_FAILED \<or> nav_phase s = NAV_READY \<and> \<not> uses_explicit_goal s)"

lemma nav_update_dormant: "nav_dormant s \<Longrightarrow> nav_update c v s = nav_note [] s"
  by (auto simp: nav_dormant_def nav_update_def)

lemma nav_update_bad_clock:
  "\<not> nav_dormant s \<Longrightarrow> \<not> isfinite (stamp_s v) \<Longrightarrow>
     nav_update c v s = (Inl (ValueError ''navigation time must be finite''), s)"
  by (auto simp: nav_dormant_def nav_update_def nav_finite_time_def raise_if_def)

lemma config_budgets:
  "navigation_config_post_init c = Inr () \<Longrightarrow> 0 \<le> max_reacquisitions c \<and> 0 \<le> max_replans c"
  by (simp add: navigation_config_post_init_def)

text \<open>The three ways a tick can go.\<close>

lemma nav_update_cases:
  assumes "nav_inv c s" and "navigation_config_post_init c = Inr ()"
  obtains (dormant) "nav_dormant s" "nav_update c v s = nav_note [] s"
  | (bad_clock) "\<not> nav_dormant s" "\<not> isfinite (stamp_s v)"
      "nav_update c v s = (Inl (ValueError ''navigation time must be finite''), s)"
  | (tick) d t where "\<not> nav_dormant s" "isfinite (stamp_s v)" "nav_update c v s = (Inr d, t)"
      "nav_link c (credits s - of_bool (waypoint_xy d \<noteq> None)) s t" "waypoint_ok c v d t"
      "ready_ok c v s d t" "still_step c v s t"
proof (cases "nav_dormant s")
  case True
  then show ?thesis using dormant nav_update_dormant by blast
next
  case live: False
  show ?thesis
  proof (cases "isfinite (stamp_s v)")
    case True
    have "tick_ok c v (credits s) s (nav_update c v s)"
      using nav_update_tick [OF assms(1) True] config_budgets [OF assms(2)] live by (auto simp: nav_dormant_def)
    then show ?thesis using tick [OF live True] unfolding tick_ok_def by blast
  next
    case False
    then show ?thesis using bad_clock live nav_update_bad_clock by blast
  qed
qed

lemma inv_init: "navigation_config_post_init c = Inr () \<Longrightarrow> nav_inv c navigation_init"
  by (drule config_budgets) (simp add: nav_inv_def navigation_init_def waiting_phase_def)

lemma nav_begin_cases:
  "snd (nav_begin i k t s) = s \<or>
   (\<exists>x. t = Fin x \<and> py_strip i \<noteq> [] \<and> py_strip k \<noteq> [] \<and> nav_begin i k t s = (Inr (), navigation_init
      \<lparr> nav_instruction := py_strip i, nav_task_key := py_strip k,
        nav_phase := NAV_WAIT_OBSERVATION, started_at := Some x, phase_started_at := Some x \<rparr>))"
  by (cases t) (auto simp: nav_begin_def nav_finite_time_def raise_if_def guard_def)

lemma inv_begin:
  assumes "nav_inv c s" and "navigation_config_post_init c = Inr ()"
  shows "nav_inv c (snd (nav_begin i k t s))"
proof -
  have "nav_inv c (navigation_init\<lparr> nav_instruction := py_strip i, nav_task_key := py_strip k,
      nav_phase := NAV_WAIT_OBSERVATION, started_at := Some x, phase_started_at := Some x \<rparr>)" for x
    using config_budgets [OF assms(2)] by (simp add: nav_inv_def navigation_init_def waiting_phase_def)
  then show ?thesis using nav_begin_cases [of i k t s] assms(1) by (elim disjE exE conjE) simp_all
qed

lemma arm_cases:
  "snd (arm_current_goal s) = s \<or> snd (arm_current_goal s) = s\<lparr> goal_reached_armed := True, still_since := None \<rparr>"
  by (simp add: arm_current_goal_def guard_def)

lemma inv_armed: "nav_inv c (s\<lparr> goal_reached_armed := a, still_since := x \<rparr>) = nav_inv c s"
  by (simp add: nav_inv_def)

lemma inv_arm: "nav_inv c s \<Longrightarrow> nav_inv c (snd (arm_current_goal s))"
  using arm_cases [of s] by (elim disjE) (simp_all add: inv_armed)

lemma inv_nav_fail: "nav_inv c s \<Longrightarrow> nav_inv c (snd (nav_fail why s))"
  by (simp add: nav_fail_def guard_def nav_fail_with_def nav_hold_def inv_failed)

lemma inv_nav_update:
  assumes "nav_inv c s" and "navigation_config_post_init c = Inr ()"
  shows "nav_inv c (snd (nav_update c v s))"
  using assms by (cases rule: nav_update_cases [OF assms, of v]) (auto simp: nav_note_def nav_link_def)

interpretation nav: invariant_machine "nav_step c"
  "\<lambda>s. navigation_config_post_init c = Inr () \<longrightarrow> nav_inv c s"
proof
  fix s e
  assume "navigation_config_post_init c = Inr () \<longrightarrow> nav_inv c s"
  then show "navigation_config_post_init c = Inr () \<longrightarrow> nav_inv c (nav_step c s e)"
    using inv_begin inv_arm inv_nav_fail inv_nav_update inv_init
    by (cases e) (auto simp: nav_reset_def)
qed

lemma reachable_inv:
  "navigation_config_post_init c = Inr () \<Longrightarrow> nav_inv c (foldl (nav_step c) navigation_init es)"
  using nav.run_inv [of c navigation_init es] inv_init by blast

section \<open>Tasks\<close>

text \<open>The number of waypoints a sequence of calls publishes.\<close>

fun published :: "NavigationConfig \<Rightarrow> CoarseNavigationCore \<Rightarrow> nav_event list \<Rightarrow> nat" where
  "published c s [] = 0"
| "published c s (e # es) =
     (case e of
        NavTick v \<Rightarrow> (case fst (nav_update c v s) of Inr d \<Rightarrow> of_bool (waypoint_xy d \<noteq> None) | Inl _ \<Rightarrow> 0)
      | _ \<Rightarrow> 0) + published c (nav_step c s e) es"

lemma failed_stays: "nav_phase s = NAV_FAILED \<Longrightarrow> in_task e \<Longrightarrow> nav_phase (nav_step c s e) = NAV_FAILED"
  by (cases e) (auto simp: nav_fail_def guard_def nav_fail_with_def nav_hold_def arm_current_goal_def
      nav_update_def nav_note_def)

interpretation nav_latch: latched_machine "nav_step c" "\<lambda>s. nav_phase s = NAV_FAILED" "\<lambda>e. \<not> in_task e"
  by unfold_locales (simp add: failed_stays)

lemma failed_publishes_nothing: "nav_phase s = NAV_FAILED \<Longrightarrow> list_all in_task es \<Longrightarrow> published c s es = 0"
proof (induction es arbitrary: s)
  case (Cons e es)
  moreover have "fst (nav_update c v s) = Inr (nav_decision s\<lparr> decision_reason := [] \<rparr>)" for v
    using Cons.prems by (simp add: nav_update_def nav_note_def)
  ultimately show ?case
    using failed_stays [of s e c] by (simp add: nav_decision_def split: nav_event.split)
qed simp

lemma update_account:
  assumes inv: "nav_inv c s" and c: "navigation_config_post_init c = Inr ()" and r: "nav_update c v s = (r, t)"
  shows "nav_phase t = NAV_FAILED \<or> nav_phase s = NAV_FAILED \<or>
         credits t + (case r of Inr d \<Rightarrow> of_bool (waypoint_xy d \<noteq> None) | Inl _ \<Rightarrow> 0) + replan_count s \<le>
         credits s + replan_count t"
    and "nav_phase t = NAV_FAILED \<Longrightarrow> r = Inr d \<Longrightarrow> waypoint_xy d = None"
proof -
  show "nav_phase t = NAV_FAILED \<or> nav_phase s = NAV_FAILED \<or>
         credits t + (case r of Inr d \<Rightarrow> of_bool (waypoint_xy d \<noteq> None) | Inl _ \<Rightarrow> 0) + replan_count s \<le>
         credits s + replan_count t"
    by (cases rule: nav_update_cases [OF inv c, of v])
      (use r in \<open>auto simp: nav_note_def nav_decision_def nav_link_def split: sum.splits\<close>)
  show "waypoint_xy d = None" if "nav_phase t = NAV_FAILED" "r = Inr d"
    by (cases rule: nav_update_cases [OF inv c, of v])
      (use r that in \<open>auto simp: nav_note_def nav_decision_def waypoint_ok_def split: option.splits\<close>)
qed

lemma step_account:
  assumes inv: "nav_inv c s" and c: "navigation_config_post_init c = Inr ()" and e: "in_task e"
    and t: "t = nav_step c s e" and s: "nav_phase s \<noteq> NAV_FAILED"
  shows "if nav_phase t = NAV_FAILED then published c s [e] = 0
         else credits t + int (published c s [e]) + replan_count s \<le> credits s + replan_count t"
proof (cases e)
  case (NavTick v)
  obtain r u where r: "nav_update c v s = (r, u)" by force
  show ?thesis
    using update_account [OF inv c r] s t NavTick r by (auto split: sum.splits)
next
  case NavArm
  then show ?thesis using arm_cases [of s] t s by (auto simp: credits_def)
qed (use e t s in \<open>auto simp: nav_fail_def guard_def nav_fail_with_def nav_hold_def\<close>)

lemma published_bound:
  assumes "navigation_config_post_init c = Inr ()"
  shows "nav_inv c s \<Longrightarrow> nav_phase s \<noteq> NAV_FAILED \<Longrightarrow> list_all in_task es \<Longrightarrow>
    int (published c s es) + replan_count s \<le> credits s + max_replans c"
proof (induction es arbitrary: s)
  case Nil
  then show ?case using credits_nonneg [of s] by (simp add: nav_inv_def)
next
  case (Cons e es)
  define t where "t = nav_step c s e"
  have t: "nav_inv c t" using nav.step_inv [of c s e] assms Cons.prems by (simp add: t_def)
  have split: "published c s (e # es) = published c s [e] + published c t es" by (simp add: t_def)
  have a: "if nav_phase t = NAV_FAILED then published c s [e] = 0
         else credits t + int (published c s [e]) + replan_count s \<le> credits s + replan_count t"
    using step_account [OF Cons.prems(1) assms _ t_def Cons.prems(2)] Cons.prems(3) by simp
  show ?case
  proof (cases "nav_phase t = NAV_FAILED")
    case True
    then have "published c t es = 0" using failed_publishes_nothing Cons.prems(3) by simp
    then show ?thesis
      using a True split Cons.prems(1,2) credits_nonneg [of s] by (simp add: nav_inv_def)
  next
    case False
    have "int (published c t es) + replan_count t \<le> credits t + max_replans c"
      using Cons.IH [OF t False] Cons.prems(3) by simp
    then show ?thesis using a False unfolding split by simp
  qed
qed

lemma nav_begun:
  assumes "nav_begin instr key at_s s = (Inr (), s1)" and "navigation_config_post_init c = Inr ()"
  obtains x where "at_s = Fin x" "started_at s1 = Some x" "nav_phase s1 = NAV_WAIT_OBSERVATION" "credits s1 = 1"
    "replan_count s1 = 0" "still_since s1 = None" "nav_inv c s1"
proof -
  from assms(1) obtain x where x: "at_s = Fin x" "s1 = navigation_init
      \<lparr> nav_instruction := py_strip instr, nav_task_key := py_strip key,
        nav_phase := NAV_WAIT_OBSERVATION, started_at := Some x, phase_started_at := Some x \<rparr>"
    by (cases at_s) (auto simp: nav_begin_def nav_finite_time_def raise_if_def)
  moreover have "nav_inv c s1"
    using config_budgets [OF assms(2)] by (simp add: x(2) nav_inv_def navigation_init_def waiting_phase_def)
  ultimately show ?thesis using that by (simp add: navigation_init_def credits_def)
qed

lemma task_inv:
  assumes "nav_begin instr key at_s s = (Inr (), s1)" and "navigation_config_post_init c = Inr ()"
  shows "nav_inv c (foldl (nav_step c) s1 es)"
  using nav_begun [OF assms] nav.run_inv [of c s1 es] assms(2) by blast

text \<open>A navigation task publishes at most one waypoint more than its replan budget, whatever the
  ticks bring: the first plan, and one per counted replan, lost health or revoked handoff. While the task has not
  failed, both its recovery counters are within their budgets.
\<close>

theorem waypoints_within_replan_budget:
  assumes "navigation_config_post_init c = Inr ()"
    and "nav_begin instr key at_s s = (Inr (), s1)"
    and "list_all in_task es"
  shows "int (published c s1 es) \<le> max_replans c + 1 \<and>
    (nav_phase (foldl (nav_step c) s1 es) \<noteq> NAV_FAILED \<longrightarrow>
       replan_count (foldl (nav_step c) s1 es) \<le> max_replans c
       \<and> reacquisition_count (foldl (nav_step c) s1 es) \<le> max_reacquisitions c)"
proof (rule nav_begun [OF assms(2,1)])
  fix x
  assume s1: "nav_phase s1 = NAV_WAIT_OBSERVATION" "credits s1 = 1" "replan_count s1 = 0" "nav_inv c s1"
  then have "int (published c s1 es) \<le> max_replans c + 1"
    using published_bound [OF assms(1) s1(4) _ assms(3)] by simp
  moreover have "nav_inv c (foldl (nav_step c) s1 es)" by (rule task_inv [OF assms(2,1)])
  ultimately show ?thesis by (simp add: nav_inv_def)
qed

definition demo_tick :: "real \<Rightarrow> NavInput" where
  "demo_tick t =
     \<lparr> stamp_s = Fin t, perception_valid = True, target_stamp_s = Some (Fin t), target_depth_m = Some (Fin 1),
       base_xy = Some [Fin 0, Fin 0], target_xy = Some [Fin 1, Fin 0], suggested_displacement_m = Some (Fin 1),
       base_speed_mps = Fin 0, odom_stamp_s = Some (Fin t), navigation_healthy = True, goal_reached = False,
       explicit_goal_xy = None \<rparr>"

definition demo_start :: CoarseNavigationCore where
  "demo_start = snd (nav_begin ''pick'' ''task'' (Fin 0) navigation_init)"

lemma demo_begin: "nav_begin ''pick'' ''task'' (Fin 0) navigation_init = (Inr (), demo_start)"
  by (simp add: demo_start_def nav_begin_def nav_finite_time_def raise_if_def guard_def py_strip_def py_space_def
      char_ord_def)

lemma demo_config: "navigation_config_post_init default_navigation_config = Inr ()"
  by (simp add: navigation_config_post_init_def default_navigation_config_def raise_if_def)

theorem waypoints_within_replan_budget_witness:
  "int (published default_navigation_config demo_start [NavTick (demo_tick 1), NavArm, NavTick (demo_tick 2)]) \<le> 4"
  using waypoints_within_replan_budget [OF demo_config demo_begin, of "[NavTick (demo_tick 1), NavArm, NavTick (demo_tick 2)]"]
  by (simp add: default_navigation_config_def)

section \<open>Deadline\<close>

definition nav_finished :: "CoarseNavigationCore \<Rightarrow> bool" where
  "nav_finished s = (nav_phase s = NAV_FAILED \<or> nav_phase s = NAV_READY \<and> \<not> uses_explicit_goal s)"

interpretation nav_end: latched_machine "nav_step c" nav_finished "\<lambda>e. \<not> in_task e"
proof
  show "nav_finished (nav_step c s e)" if "nav_finished s" "\<not> \<not> in_task e" for s e
    using that
    by (cases e) (auto simp: nav_finished_def nav_fail_def guard_def nav_fail_with_def nav_hold_def
        arm_current_goal_def nav_update_def nav_note_def)
qed

lemma step_started: 
  assumes "nav_inv c s" and "navigation_config_post_init c = Inr ()" and "in_task e"
  shows "same_task s (nav_step c s e)"
proof (cases e)
  case (NavTick v)
  then show ?thesis
    by (cases rule: nav_update_cases [OF assms(1,2), of v]) (auto simp: nav_note_def same_task_def nav_link_def)
next
  case NavArm
  then show ?thesis using arm_cases [of s] by (auto simp: same_task_def)
qed (use assms(3) in \<open>auto simp: same_task_def nav_fail_def guard_def nav_fail_with_def nav_hold_def\<close>)

lemma same_task_trans: "same_task s t \<Longrightarrow> same_task t u \<Longrightarrow> same_task s u"
  by (auto simp: same_task_def)

lemma run_same_task:
  "nav_inv c s \<Longrightarrow> navigation_config_post_init c = Inr () \<Longrightarrow> list_all in_task es \<Longrightarrow>
   same_task s (foldl (nav_step c) s es)"
proof (induction es arbitrary: s)
  case (Cons e es)
  have "nav_inv c (nav_step c s e)" using nav.step_inv [of c s e] Cons.prems by blast
  then show ?case using Cons step_started [of c s e] same_task_trans by auto
qed (simp add: same_task_def)

lemma dormant_in_task:
  assumes "nav_begin instr key at_s s = (Inr (), s1)" and "navigation_config_post_init c = Inr ()" and "list_all in_task es"
  shows "nav_phase (foldl (nav_step c) s1 es) \<noteq> NAV_IDLE"
  using nav_begun [OF assms(1,2)] run_same_task [of c s1 es] assms(2,3) unfolding same_task_def by (metis NavPhase.distinct(1))

text \<open>A tick more than the navigation timeout after the beginning of its task ends the task: unless
  the legacy handoff is already complete, the policy fails with a cancel of the navigation, and no
  later tick or adapter call of the task revives it.
\<close>

theorem navigation_deadline_ends_task:
  assumes "navigation_config_post_init c = Inr ()"
    and "nav_begin instr key (Fin x) s = (Inr (), s1)"
    and "list_all in_task es"
    and "stamp_s v = Fin t" and "navigation_timeout_s c < t - x"
    and "nav_update c v (foldl (nav_step c) s1 es) = (r, u)"
    and "list_all in_task later"
  shows "(nav_finished (foldl (nav_step c) s1 es) \<or> (\<exists>d. r = Inr d \<and> decision_cancel d \<and> decision_phase d = NAV_FAILED))
    \<and> nav_finished (foldl (nav_step c) u later)"
proof -
  let ?s = "foldl (nav_step c) s1 es"
  have inv: "nav_inv c ?s" by (rule task_inv [OF assms(2,1)])
  have idle: "nav_phase ?s \<noteq> NAV_IDLE" by (rule dormant_in_task [OF assms(2,1,3)])
  have x: "started_at ?s = Some x"
  proof (rule nav_begun [OF assms(2,1)])
    fix y
    assume "Fin x = Fin y" "started_at s1 = Some y" "nav_inv c s1"
    then show ?thesis using run_same_task [of c s1 es] assms(1,3) by (simp add: same_task_def)
  qed
  have r: "nav_update c v ?s =
      (if t < the (phase_started_at ?s) then nav_fail_with ''navigation time moved backwards'' ?s
       else nav_fail_with ''coarse navigation timeout'' ?s)" if live: "\<not> nav_finished ?s"
  proof -
    have "phase_started_at ?s \<noteq> None" using inv live idle by (simp add: nav_inv_def nav_finished_def)
    moreover have "nav_phase ?s \<noteq> NAV_FAILED" "\<not> (nav_phase ?s = NAV_READY \<and> \<not> uses_explicit_goal ?s)"
      using live by (simp_all add: nav_finished_def)
    ultimately show ?thesis
      using idle x assms(4,5) by (auto simp: nav_update_def nav_finite_time_def raise_if_def guard_def)
  qed
  have "nav_finished u \<and> (nav_finished ?s \<or> (\<exists>d. r = Inr d \<and> decision_cancel d \<and> decision_phase d = NAV_FAILED))"
  proof (cases "nav_finished ?s")
    case True
    then have "nav_update c v ?s = nav_note [] ?s"
      by (intro nav_update_dormant) (auto simp: nav_finished_def nav_dormant_def)
    then show ?thesis using True assms(6) by (simp add: nav_note_def)
  next
    case False
    then show ?thesis
      using r assms(6) by (auto simp: nav_fail_with_def nav_hold_def nav_decision_def nav_finished_def split: if_splits)
  qed
  then show ?thesis using nav_end.run_latched [of u later c] assms(7) by (simp add: list_all_iff)
qed

theorem navigation_deadline_ends_task_witness:
  "nav_finished (foldl (nav_step default_navigation_config)
     (snd (nav_update default_navigation_config (demo_tick 91) demo_start)) [NavTick (demo_tick 92)])"
  using navigation_deadline_ends_task [OF demo_config demo_begin, of "[]" "demo_tick 91" 91
      "fst (nav_update default_navigation_config (demo_tick 91) demo_start)"
      "snd (nav_update default_navigation_config (demo_tick 91) demo_start)" "[NavTick (demo_tick 92)]"]
  by (simp add: demo_tick_def default_navigation_config_def)

section \<open>Errors\<close>

text \<open>Whatever sequence of calls preceded it, a tick raises only for a non-finite time, and then
  leaves the policy as it was: the assertions on the start times, on the phase, on the goal and on the planned
  target never fail, and no position of a checked observation is refused later in the tick.
\<close>

theorem nav_update_raises_only_for_bad_clock:
  assumes "navigation_config_post_init c = Inr ()"
    and "nav_update c v (foldl (nav_step c) navigation_init es) = (Inl e, t)"
  shows "e = ValueError ''navigation time must be finite'' \<and> \<not> isfinite (stamp_s v)
    \<and> t = foldl (nav_step c) navigation_init es"
  by (cases rule: nav_update_cases [OF reachable_inv [OF assms(1)] assms(1), of es v])
    (use assms(2) in \<open>auto simp: nav_note_def\<close>)

definition demo_bad_tick :: NavInput where
  "demo_bad_tick = (demo_tick 1)\<lparr> stamp_s := NaN \<rparr>"

theorem nav_update_raises_only_for_bad_clock_witness:
  "fst (nav_update default_navigation_config demo_bad_tick demo_start) =
     Inl (ValueError ''navigation time must be finite'')"
proof -
  have s: "foldl (nav_step default_navigation_config) navigation_init [NavBegin ''pick'' ''task'' (Fin 0)] = demo_start"
    by (simp add: demo_start_def)
  have "nav_phase demo_start = NAV_WAIT_OBSERVATION"
    using nav_begun [OF demo_begin demo_config] by metis
  then obtain e t where r: "nav_update default_navigation_config demo_bad_tick demo_start = (Inl e, t)"
    using nav_update_bad_clock [of demo_start demo_bad_tick default_navigation_config]
    by (simp add: nav_dormant_def demo_bad_tick_def)
  then show ?thesis
    using nav_update_raises_only_for_bad_clock [OF demo_config, of demo_bad_tick "[NavBegin ''pick'' ''task'' (Fin 0)]" e t] s
    by simp
qed

section \<open>Waypoints\<close>

lemma norm2_scale: "norm2 (k * x, k * y) = \<bar>k\<bar> * norm2 (x, y)"
proof -
  have "k * x * (k * x) + k * y * (k * y) = k\<^sup>2 * (x * x + y * y)" by (simp add: power2_eq_square algebra_simps)
  then show ?thesis by (simp add: norm2_def real_sqrt_mult)
qed

lemma ray_waypoint_between:
  assumes c: "navigation_config_post_init c = Inr ()" and x: "0 < x" and far: "1 / 10000 \<le> norm2 (diff2 target base)"
  obtains part where "0 < part" "part \<le> 1"
    "ray_waypoint c x base target = (fst base + part * (fst target - fst base), snd base + part * (snd target - snd base))"
    "norm2 (diff2 (ray_waypoint c x base target) base) \<le> max_displacement_m c"
proof -
  define D where "D = norm2 (diff2 target base)"
  define travel where "travel = min (min (max x (min_displacement_m c)) (max_displacement_m c)) D"
  have D: "0 < D" using far by (simp add: D_def)
  have lim: "0 < min_displacement_m c" "0 < max_displacement_m c"
    using c by (simp_all add: navigation_config_post_init_def)
  have t: "0 < travel" "travel \<le> D" "travel \<le> max_displacement_m c"
    using D lim x by (auto simp: travel_def)
  have r: "ray_waypoint c x base target =
      (fst base + travel / D * (fst target - fst base), snd base + travel / D * (snd target - snd base))"
    by (simp add: ray_waypoint_def Let_def D_def travel_def diff2_def)
  have "diff2 (ray_waypoint c x base target) base =
      (travel / D * fst (diff2 target base), travel / D * snd (diff2 target base))"
    unfolding r by (simp add: diff2_def)
  then have "norm2 (diff2 (ray_waypoint c x base target) base) = \<bar>travel / D\<bar> * D"
    by (simp only: norm2_scale prod.collapse D_def)
  then have "norm2 (diff2 (ray_waypoint c x base target) base) = travel"
    using D t by simp
  then show ?thesis using that [of "travel / D"] t D r by simp
qed

text \<open>A waypoint is the goal the core is committed to. In an explicit task it is the requested map
  goal, which never changes; in a legacy task it is a point between the base and the observed target, at most the
  maximal displacement away from the base. It is never published together with the handoff.
\<close>

theorem waypoint_is_goal_or_bounded_step:
  assumes "navigation_config_post_init c = Inr ()"
    and "nav_update c v (foldl (nav_step c) navigation_init es) = (Inr d, t)"
    and "waypoint_xy d = Some p"
  shows "goal_xy t = Some p \<and> \<not> coarse_ready d \<and>
    (uses_explicit_goal (foldl (nav_step c) navigation_init es) \<longrightarrow>
       uses_explicit_goal t \<and> goal_xy (foldl (nav_step c) navigation_init es) = Some p) \<and>
    (if uses_explicit_goal t then nav_xy (explicit_goal_xy v) ''explicit map goal'' = Inr p
     else (\<exists>base target part. nav_xy (base_xy v) ''base position'' = Inr base
             \<and> nav_xy (target_xy v) ''target position'' = Inr target \<and> 0 < part \<and> part \<le> 1
             \<and> p = (fst base + part * (fst target - fst base), snd base + part * (snd target - snd base))
             \<and> norm2 (diff2 p base) \<le> max_displacement_m c))"
proof -
  let ?s = "foldl (nav_step c) navigation_init es"
  have w: "waypoint_ok c v d t \<and> same_task ?s t"
    by (cases rule: nav_update_cases [OF reachable_inv [OF assms(1)] assms(1), of es v])
      (use assms(2,3) in \<open>auto simp: nav_note_def nav_decision_def nav_link_def\<close>)
  moreover have "\<exists>base target part. nav_xy (base_xy v) ''base position'' = Inr base
             \<and> nav_xy (target_xy v) ''target position'' = Inr target \<and> 0 < part \<and> part \<le> 1
             \<and> p = (fst base + part * (fst target - fst base), snd base + part * (snd target - snd base))
             \<and> norm2 (diff2 p base) \<le> max_displacement_m c" if e: "\<not> uses_explicit_goal t"
  proof -
    from w e assms(3) obtain base target x where b: "nav_xy (base_xy v) ''base position'' = Inr base"
        "nav_xy (target_xy v) ''target position'' = Inr target" "0 < x"
        "1 / 10000 \<le> norm2 (diff2 target base)" "p = ray_waypoint c x base target"
      unfolding waypoint_ok_def by auto
    show ?thesis by (rule ray_waypoint_between [OF assms(1) b(3,4)]) (use b in blast)
  qed
  ultimately show ?thesis using assms(3) by (auto simp: waypoint_ok_def same_task_def)
qed

definition demo_goal_tick :: "real \<Rightarrow> NavInput" where
  "demo_goal_tick t = (demo_tick t)\<lparr> explicit_goal_xy := Some [Fin 2, Fin 0] \<rparr>"

lemma demo_waypoint:
  "\<exists>d t. nav_update default_navigation_config (demo_goal_tick 1) demo_start = (Inr d, t) \<and> waypoint_xy d = Some (2, 0)"
  by (simp add: demo_start_def nav_begin_def nav_finite_time_def raise_if_def guard_def py_strip_def py_space_def
      char_ord_def navigation_init_def nav_update_def demo_goal_tick_def demo_tick_def default_navigation_config_def
      nav_healthy_def odom_stamp_if_fresh_def complete_observation_def nav_xy_def goal_conflict_def
      dispatch_def waiting_phase_def nav_plan_def commit_plan_def Let_def)

theorem waypoint_is_goal_or_bounded_step_witness:
  "\<exists>d t. nav_update default_navigation_config (demo_goal_tick 1) demo_start = (Inr d, t)
     \<and> waypoint_xy d = Some (2, 0) \<and> goal_xy t = Some (2, 0)"
proof -
  obtain d t where r: "nav_update default_navigation_config (demo_goal_tick 1) demo_start = (Inr d, t)"
      "waypoint_xy d = Some (2, 0)"
    using demo_waypoint by blast
  moreover have s: "foldl (nav_step default_navigation_config) navigation_init [NavBegin ''pick'' ''task'' (Fin 0)] = demo_start"
    by (simp add: demo_start_def)
  ultimately show ?thesis
    using waypoint_is_goal_or_bounded_step [OF demo_config, of "demo_goal_tick 1" "[NavBegin ''pick'' ''task'' (Fin 0)]" d t "(2, 0)"]
    by auto
qed

section \<open>Handoff after a settled stretch\<close>

text \<open>The ticks since the one that started the stillness clock.\<close>

definition settled_since :: "NavigationConfig \<Rightarrow> nav_event list \<Rightarrow> real \<Rightarrow> bool" where
  "settled_since c es t0 =
     (\<exists>before v0 after. es = before @ NavTick v0 # after \<and> stamp_s v0 = Fin t0 \<and> measured c v0 \<and> slow c v0
        \<and> (\<forall>w. NavTick w \<in> set after \<longrightarrow> measured c w \<longrightarrow> slow c w))"

definition still_history :: "NavigationConfig \<Rightarrow> nav_event list \<Rightarrow> CoarseNavigationCore \<Rightarrow> bool" where
  "still_history c es s =
     (nav_phase s \<noteq> NAV_FAILED \<and> nav_phase s \<noteq> NAV_READY \<longrightarrow>
        (\<forall>t0. still_since s = Some t0 \<longrightarrow> settled_since c es t0))"

lemma settled_now:
  "measured c v \<Longrightarrow> slow c v \<Longrightarrow> settled_since c (es @ [NavTick v]) (the_fin (stamp_s v))"
  unfolding settled_since_def
  by (intro exI [of _ es] exI [of _ v] exI [of _ "[]"]) (auto simp: measured_def isfinite_iff)

lemma settled_more:
  assumes "settled_since c es t0" and "\<And>w. e = NavTick w \<Longrightarrow> measured c w \<Longrightarrow> slow c w"
  shows "settled_since c (es @ [e]) t0"
proof -
  obtain before v0 after where b: "es = before @ NavTick v0 # after" "stamp_s v0 = Fin t0" "measured c v0" "slow c v0"
      "\<forall>w. NavTick w \<in> set after \<longrightarrow> measured c w \<longrightarrow> slow c w"
    using assms(1) unfolding settled_since_def by blast
  show ?thesis
    unfolding settled_since_def
    by (intro exI [of _ before] exI [of _ v0] exI [of _ "after @ [e]"]) (use b assms(2) in auto)
qed

lemma still_settled:
  assumes "still_step c v s t" and "still_history c es s" and "nav_phase s \<noteq> NAV_FAILED" and "nav_phase t \<noteq> NAV_FAILED"
    and "nav_phase s = NAV_READY \<Longrightarrow> nav_phase t \<noteq> NAV_READY" and "still_since t = Some t0"
  shows "settled_since c (es @ [NavTick v]) t0"
  using assms settled_now [of c v es] settled_more [of c es t0 "NavTick v"]
  by (auto simp: still_step_def still_history_def)

lemma history_step:
  assumes inv: "nav_inv c s" and c: "navigation_config_post_init c = Inr ()" and e: "in_task e"
    and h: "still_history c es s" and i: "nav_phase s \<noteq> NAV_IDLE"
  shows "still_history c (es @ [e]) (nav_step c s e)"
proof (cases e)
  case (NavTick v)
  show ?thesis
    using inv c
  proof (cases rule: nav_update_cases [where v = v])
    case dormant
    then show ?thesis
      using NavTick i by (auto simp: still_history_def nav_dormant_def nav_note_def)
  next
    case bad_clock
    then show ?thesis
      using h NavTick settled_more [of c es _ "NavTick v"] by (auto simp: still_history_def measured_def)
  next
    case (tick d t)
    then show ?thesis
      using still_settled [OF tick(7) h] NavTick by (auto simp: still_history_def nav_dormant_def)
  qed
next
  case NavArm
  then show ?thesis
    using arm_cases [of s] h settled_more [of c es _ NavArm] by (auto simp: still_history_def)
qed (use e h settled_more [of c es _ e] in
    \<open>auto simp: still_history_def nav_fail_def guard_def nav_fail_with_def nav_hold_def\<close>)

lemma task_history:
  assumes b: "nav_begin instr key at_s s = (Inr (), s1)" and c: "navigation_config_post_init c = Inr ()"
  shows "list_all in_task es \<Longrightarrow> still_history c es (foldl (nav_step c) s1 es)"
proof (induction es rule: rev_induct)
  case Nil
  have "still_since s1 = None" using nav_begun [OF b c] by metis
  then show ?case by (simp add: still_history_def)
next
  case (snoc e es)
  then show ?case
    using history_step [OF task_inv [OF b c] c _ _ dormant_in_task [OF b c], of e es es] by simp
qed

text \<open>C13: The handoff to the visual servo is reported only when the tick measured everything it rests on
  (healthy navigation, finite speed, fresh odometry, a complete observation, a fresh target or the
  explicit goal) and the robot is near the target or within the hysteresis of the explicit goal. The tick
  that reaches the handoff is slow, and so was an earlier measured tick at least the settle time
  before, with every measured tick in between.
\<close>

theorem handoff_only_after_settled_stretch:
  assumes "navigation_config_post_init c = Inr ()"
    and "nav_begin instr key at_s s = (Inr (), s1)"
    and "list_all in_task es"
    and "nav_update c v (foldl (nav_step c) s1 es) = (Inr d, t)"
    and "coarse_ready d"
  shows "measured c v \<and> inside c v t \<and> decision_cancel d \<and> nav_phase t = NAV_READY \<and>
    (nav_phase (foldl (nav_step c) s1 es) \<noteq> NAV_READY \<longrightarrow>
       slow c v \<and> (\<exists>t0. settled_since c (es @ [NavTick v]) t0 \<and> still_settle_s c \<le> the_fin (stamp_s v) - t0))"
  using task_inv [OF assms(2,1), of es] assms(1)
proof (cases rule: nav_update_cases [where v = v])
  case dormant
  then show ?thesis using assms(4,5) by (auto simp: nav_note_def nav_decision_def)
next
  case bad_clock
  then show ?thesis using assms(4) by simp
next
  case (tick d' t')
  then have eq: "d' = d" "t' = t" using assms(4) by simp_all
  have "nav_phase (foldl (nav_step c) s1 es) \<noteq> NAV_FAILED" using tick(1) by (simp add: nav_dormant_def)
  then show ?thesis
    using tick(6) assms(5) still_settled [OF tick(7) task_history [OF assms(2,1,3)]]
    unfolding eq ready_ok_def by auto
qed

definition demo_events :: "nav_event list" where
  "demo_events = [NavTick (demo_tick 1)]"

lemma demo_ready:
  "\<exists>d t. nav_update default_navigation_config (demo_tick 2)
       (foldl (nav_step default_navigation_config) demo_start demo_events) = (Inr d, t) \<and> coarse_ready d"
  by (simp add: demo_events_def demo_start_def nav_begin_def nav_finite_time_def raise_if_def guard_def py_strip_def
      py_space_def char_ord_def navigation_init_def nav_update_def demo_tick_def default_navigation_config_def
      nav_healthy_def target_fresh_def odom_stamp_if_fresh_def complete_observation_def nav_xy_def goal_conflict_def
      dispatch_def near_handoff_def settle_handoff_def some_decision_def nav_hold_def nav_ready_def nav_decision_def
      Let_def)

theorem handoff_only_after_settled_stretch_witness:
  "\<exists>d t. nav_update default_navigation_config (demo_tick 2)
       (foldl (nav_step default_navigation_config) demo_start demo_events) = (Inr d, t)
     \<and> coarse_ready d \<and> inside default_navigation_config (demo_tick 2) t"
proof -
  obtain d t where r: "nav_update default_navigation_config (demo_tick 2)
       (foldl (nav_step default_navigation_config) demo_start demo_events) = (Inr d, t)" "coarse_ready d"
    using demo_ready by blast
  then show ?thesis
    using handoff_only_after_settled_stretch [OF demo_config demo_begin _ r] by (simp add: demo_events_def)
qed

section \<open>Progress\<close>

definition rising :: "(real \<times> real) list \<Rightarrow> bool" where
  "rising xs = (sorted_wrt (<) (map fst xs) \<and> sorted (map snd xs))"

lemma rising_Cons: "rising (a # xs) \<Longrightarrow> rising xs"
  by (simp add: rising_def)

lemma trim_window:
  assumes "rising (a # b # xs)" and "fst a \<le> cutoff" and "cutoff < fst (last (b # xs))"
  obtains p q rest where "trim_samples cutoff (a # b # xs) = p # q # rest" "rising (p # q # rest)"
    "fst p \<le> cutoff" "cutoff < fst q" "last (q # rest) = last (b # xs)"
  using assms
proof (induction xs arbitrary: a b thesis)
  case Nil
  then show ?case by simp
next
  case (Cons x xs)
  show ?case
  proof (cases "fst b \<le> cutoff")
    case True
    show ?thesis
      by (rule Cons.IH [of b x]) (use True Cons.prems rising_Cons in auto)
  next
    case False
    then show ?thesis using Cons.prems by simp
  qed
qed

lemma clip_window:
  assumes r: "rising (p # q # rest)" and p: "fst p \<le> cutoff" and q: "cutoff < fst q"
  obtains d where "clip_samples cutoff (p # q # rest) = Some ((cutoff, d) # q # rest)" "rising ((cutoff, d) # q # rest)"
proof (cases "fst p < cutoff")
  case True
  define k where "k = (cutoff - fst p) / (fst q - fst p)"
  have k: "0 \<le> k" "k \<le> 1" using True q by (simp_all add: k_def)
  have "snd p \<le> snd q" using r by (simp add: rising_def)
  then have "k * (snd q - snd p) \<le> 1 * (snd q - snd p)" using k by (intro mult_right_mono) auto
  then have "snd p + k * (snd q - snd p) \<le> snd q" by simp
  then have "rising ((cutoff, snd p + k * (snd q - snd p)) # q # rest)"
    using r q by (auto simp: rising_def)
  moreover have "clip_samples cutoff (p # q # rest) = Some ((cutoff, snd p + k * (snd q - snd p)) # q # rest)"
    using True q by (cases p; cases q) (simp add: clip_samples_def k_def)
  ultimately show ?thesis using that by blast
next
  case False
  then obtain d where "p = (cutoff, d)" using p by (cases p) simp
  then show ?thesis using that [of d] r by (cases q) (simp add: clip_samples_def)
qed

lemma dot_sum: "length xs = length ys \<Longrightarrow> dot xs ys = (\<Sum>i<length xs. xs ! i * ys ! i)"
  by (simp add: dot_def sum_list_sum_nth atLeast0LessThan)

lemma sum_centered: "(\<Sum>i<length xs. xs ! i - mean xs) = 0" if "xs \<noteq> []"
  using that by (simp add: mean_def sum_list_sum_nth atLeast0LessThan sum_subtractf)

lemma dot_centered_nonneg:
  fixes xs ys :: "real list"
  assumes "sorted xs" "sorted ys" "length xs = length ys" "xs \<noteq> []"
  shows "0 \<le> dot (map (\<lambda>x. x - mean xs) xs) (map (\<lambda>y. y - mean ys) ys)"
proof -
  let ?n = "length xs"
  define a where "a = (\<lambda>i. xs ! i - mean xs)"
  define b where "b = (\<lambda>i. ys ! i - mean ys)"
  have "of_nat ?n * (\<Sum>k = 0..<?n. a k * - b k) \<le> (\<Sum>k = 0..<?n. a k) * (\<Sum>k = 0..<?n. - b k)"
    using assms by (intro Chebyshev_sum_upper) (auto simp: a_def b_def sorted_iff_nth_mono)
  moreover have "(\<Sum>k = 0..<?n. a k) = 0"
    using sum_centered [OF assms(4)] by (simp add: a_def atLeast0LessThan)
  ultimately have "0 \<le> real ?n * (\<Sum>k = 0..<?n. a k * b k)" by (simp add: sum_negf)
  then have "0 \<le> (\<Sum>k = 0..<?n. a k * b k)" using assms(4) by (simp add: zero_le_mult_iff)
  then show ?thesis using assms(3) by (simp add: dot_sum a_def b_def atLeast0LessThan)
qed

lemma dot_self_pos:
  assumes "x \<in> set xs" and "x \<noteq> 0"
  shows "0 < dot xs xs"
proof -
  obtain i where i: "i < length xs" "xs ! i = x" using assms(1) by (auto simp: in_set_conv_nth)
  have "0 < (\<Sum>i<length xs. xs ! i * xs ! i)"
    by (rule sum_pos2 [of _ i]) (use i assms(2) in \<open>auto simp: zero_less_mult_iff linorder_neq_iff\<close>)
  then show ?thesis by (simp add: dot_sum)
qed

lemma slope_nonpos:
  assumes r: "rising xs" and l: "2 \<le> length xs"
  obtains k where "progress_slope (map fst xs) (map snd xs) = Some k" "k \<le> 0"
proof -
  define ts where "ts = map fst xs"
  define ds where "ds = map snd xs"
  define m where "m = map (\<lambda>t. t - mean ts) ts"
  have len: "length ts = length ds" "2 \<le> length ts" and s: "sorted_wrt (<) ts" "sorted ds"
    using r l by (simp_all add: ts_def ds_def rising_def)
  have "ts ! 0 < ts ! 1" by (rule strictly_increasing_le [OF s(1)]) (use len in auto)
  then have "ts ! 0 - mean ts \<noteq> 0 \<or> ts ! 1 - mean ts \<noteq> 0" by linarith
  moreover have "ts ! 0 - mean ts \<in> set m" "ts ! 1 - mean ts \<in> set m" using len by (auto simp: m_def intro!: imageI nth_mem)
  ultimately have pos: "0 < dot m m" using dot_self_pos by blast
  have "0 \<le> dot m (map (\<lambda>d. d - mean ds) ds)"
    unfolding m_def by (rule dot_centered_nonneg) (use len s in \<open>auto simp: strict_sorted_iff\<close>)
  then have "- (dot m (map (\<lambda>d. d - mean ds) ds) / dot m m) \<le> 0" using pos by simp
  moreover have "progress_slope (map fst xs) (map snd xs) = Some (- (dot m (map (\<lambda>d. d - mean ds) ds) / dot m m))"
    using pos by (simp add: progress_slope_def Let_def ts_def [symmetric] ds_def [symmetric] m_def [symmetric])
  ultimately show ?thesis using that by blast
qed

lemma metrics_not_progress:
  assumes r: "rising xs" and l: "2 \<le> length xs" and w: "fst (hd xs) \<le> fst (last xs) - stall_timeout_s c"
    and c: "0 < stall_timeout_s c"
  obtains window net slope where
    "progress_window_metrics c (trim_samples (fst (last xs) - stall_timeout_s c) xs) = Some (window, net, slope)" "slope \<le> 0"
proof -
  define cutoff where "cutoff = fst (last xs) - stall_timeout_s c"
  obtain a b zs where xs: "xs = a # b # zs" using l by (cases xs; cases "tl xs") auto
  have cut: "fst a \<le> cutoff" "cutoff < fst (last (b # zs))" "rising (a # b # zs)"
    using w c r by (simp_all add: cutoff_def xs)
  obtain p q rest where t: "trim_samples cutoff xs = p # q # rest" "rising (p # q # rest)" "fst p \<le> cutoff"
      "cutoff < fst q" "last (q # rest) = last xs"
    by (rule trim_window [OF cut(3,1,2)]) (simp add: xs)
  obtain d where d: "clip_samples cutoff (p # q # rest) = Some ((cutoff, d) # q # rest)"
      "rising ((cutoff, d) # q # rest)"
    by (rule clip_window [OF t(2-4)])
  let ?ys = "(cutoff, d) # q # rest"
  obtain k where k: "progress_slope (map fst ?ys) (map snd ?ys) = Some k" "k \<le> 0"
    by (rule slope_nonpos [OF d(2)]) simp
  define band where "band = min 1 (stall_timeout_s c / 8)"
  have band: "0 < band" using c by (simp add: band_def)
  have "(cutoff, d) \<in> set (filter (\<lambda>x. fst x \<le> cutoff + band) ?ys)" using band by simp
  moreover have "last (q # rest) \<in> set (filter (\<lambda>x. fst (last xs) - band \<le> fst x) ?ys)"
    using band t(5) last_in_set [of "q # rest"] by (auto simp del: last_ConsR)
  ultimately have "filter (\<lambda>x. fst x \<le> cutoff + band) ?ys \<noteq> []" "filter (\<lambda>x. fst (last xs) - band \<le> fst x) ?ys \<noteq> []"
    by (metis empty_iff empty_set)+
  then obtain n where n: "net_decrease band cutoff (fst (last xs)) ?ys = Some n"
    by (simp only: net_decrease_def Let_def map_is_Nil_conv if_False simp_thms)
  have "progress_window_metrics c (p # q # rest) = Some (fst (last xs) - cutoff, n, k)"
    using t(3) d(1) k(1) n t(5)
    by (simp add: progress_window_metrics_def Let_def cutoff_def [symmetric] band_def [symmetric] split: if_splits)
  then show ?thesis using that k(2) t(1) by (simp add: cutoff_def)
qed

text \<open>A robot that does not come closer is seen: when fresh odometry completes a progress window
  over which the measured goal distance never decreased, the tick reports no progress, which the policy answers with
  a counted replan. The slope is the least-squares slope over the window whose start is interpolated
  between the two samples around it.
\<close>

theorem full_window_without_approach_is_a_stall:
  assumes "navigation_config_post_init c = Inr ()"
    and "odom_stamp_s v = Some (Fin odom)" and "odometry_fresh c v stamp"
    and "last_progress_odom_stamp_s s = Some previous" and "previous < odom"
    and "rising (progress_samples s @ [(odom, gap)])"
    and "progress_samples s \<noteq> []" and "fst (hd (progress_samples s)) \<le> odom - stall_timeout_s c"
  shows "fst (record_goal_progress c v stamp gap s) = Some False"
proof -
  let ?xs = "progress_samples s @ [(odom, gap)]"
  have lim: "0 < stall_timeout_s c" "0 < progress_min_slope_mps c"
    using assms(1) by (simp_all add: navigation_config_post_init_def)
  have w: "fst (hd ?xs) \<le> fst (last ?xs) - stall_timeout_s c" "2 \<le> length ?xs"
    using assms(7,8) by (cases "progress_samples s"; simp)+
  obtain window net slope where m: "progress_window_metrics c (trim_samples (odom - stall_timeout_s c) ?xs) =
      Some (window, net, slope)" "slope \<le> 0"
    using metrics_not_progress [OF assms(6) w(2,1) lim(1)] by auto
  have "odom_stamp_if_fresh c v stamp s = (Some odom, s\<lparr> progress_odom_age_s := Some (stamp - odom) \<rparr>)"
    by (cases rule: odom_stamp_cases [of v c stamp s]) (use assms(2,3) in auto)
  then show ?thesis using assms(4,5) m lim by (simp add: record_goal_progress_def Let_def)
qed

definition demo_stalled :: CoarseNavigationCore where
  "demo_stalled = navigation_init\<lparr> progress_samples := [(1, 2)], last_progress_odom_stamp_s := Some 1 \<rparr>"

theorem full_window_without_approach_is_a_stall_witness:
  "fst (record_goal_progress default_navigation_config (demo_tick 10) 10 2 demo_stalled) = Some False"
  by (rule full_window_without_approach_is_a_stall [OF demo_config, where odom = 10 and previous = 1])
    (simp_all add: demo_tick_def odometry_fresh_def demo_stalled_def navigation_init_def default_navigation_config_def rising_def)

end
