(* ===== verification/Servo_Phase.thy ===== *)
theory Servo_Phase
  imports Json
begin

text \<open>
  The phase vocabulary of the depth servo, \<open>src/z_manip/control/servo_phase.py\<close>: the phases, the policy row of each
  with the checks its constructor makes, the fail-closed lookup by the string of a status document, and the checks the module
  runs when it is imported. \<open>ReactivePhase\<close> is the controller's subset of the phases in \<open>reactive_servo.py\<close>.
\<close>

datatype ExpiryAction = STOP_AND_DEGRADE | ESCALATE_VIEW_RECOVERY | NO_ACTION

datatype BaseOwner = OWNER_VISUAL_SERVO | OWNER_ZERO_HOLD

datatype ServoPhase =
    SP_IDLE | SP_STARTING | SP_STOPPED | SP_EXITED
  | SP_ACQUIRING | SP_WAITING_TARGET | SP_TRANSFORM_UNAVAILABLE | SP_BASE_APPROACH | SP_POSTURE_ADJUST
  | SP_REACQUIRE | SP_TRACKING_HOLD | SP_VIEW_RECOVERY | SP_SEARCH_REQUIRED | SP_HANDOFF_PROBE
  | SP_HANDOFF_SETTLE | SP_HANDOFF_READY
  | SP_APPROACH | SP_REACHED | SP_POSTURE_SHADOW_VERIFIED | SP_POSTURE_BLOCKED | SP_SETTLING | SP_TRACKING_LOST
  | SP_WHOLE_BODY_APPROACH | SP_WHOLE_BODY_POSTURE | SP_WHOLE_BODY_SHADOW | SP_WHOLE_BODY_BLOCKED
  | SP_HANDOFF_ABANDONED
  | SP_BLOCKED | SP_DEGRADED | SP_GRASP_STARTED

definition servo_phases :: "ServoPhase list" where
  "servo_phases =
     [SP_IDLE, SP_STARTING, SP_STOPPED, SP_EXITED, SP_ACQUIRING, SP_WAITING_TARGET, SP_TRANSFORM_UNAVAILABLE,
      SP_BASE_APPROACH, SP_POSTURE_ADJUST, SP_REACQUIRE, SP_TRACKING_HOLD, SP_VIEW_RECOVERY, SP_SEARCH_REQUIRED,
      SP_HANDOFF_PROBE, SP_HANDOFF_SETTLE, SP_HANDOFF_READY, SP_APPROACH, SP_REACHED, SP_POSTURE_SHADOW_VERIFIED,
      SP_POSTURE_BLOCKED, SP_SETTLING, SP_TRACKING_LOST, SP_WHOLE_BODY_APPROACH, SP_WHOLE_BODY_POSTURE,
      SP_WHOLE_BODY_SHADOW, SP_WHOLE_BODY_BLOCKED, SP_HANDOFF_ABANDONED, SP_BLOCKED, SP_DEGRADED, SP_GRASP_STARTED]"

fun servo_phase_value :: "ServoPhase \<Rightarrow> string" where
  "servo_phase_value SP_IDLE = ''idle''"
| "servo_phase_value SP_STARTING = ''starting''"
| "servo_phase_value SP_STOPPED = ''stopped''"
| "servo_phase_value SP_EXITED = ''exited''"
| "servo_phase_value SP_ACQUIRING = ''acquiring''"
| "servo_phase_value SP_WAITING_TARGET = ''waiting_target''"
| "servo_phase_value SP_TRANSFORM_UNAVAILABLE = ''transform_unavailable''"
| "servo_phase_value SP_BASE_APPROACH = ''base_approach''"
| "servo_phase_value SP_POSTURE_ADJUST = ''posture_adjust''"
| "servo_phase_value SP_REACQUIRE = ''reacquiring''"
| "servo_phase_value SP_TRACKING_HOLD = ''tracking_hold''"
| "servo_phase_value SP_VIEW_RECOVERY = ''view_recovery''"
| "servo_phase_value SP_SEARCH_REQUIRED = ''search_required''"
| "servo_phase_value SP_HANDOFF_PROBE = ''handoff_probe''"
| "servo_phase_value SP_HANDOFF_SETTLE = ''handoff_settle''"
| "servo_phase_value SP_HANDOFF_READY = ''handoff_ready''"
| "servo_phase_value SP_APPROACH = ''approach''"
| "servo_phase_value SP_REACHED = ''reached''"
| "servo_phase_value SP_POSTURE_SHADOW_VERIFIED = ''posture_shadow_verified''"
| "servo_phase_value SP_POSTURE_BLOCKED = ''posture_blocked''"
| "servo_phase_value SP_SETTLING = ''settling''"
| "servo_phase_value SP_TRACKING_LOST = ''tracking_lost''"
| "servo_phase_value SP_WHOLE_BODY_APPROACH = ''whole_body_approach''"
| "servo_phase_value SP_WHOLE_BODY_POSTURE = ''whole_body_posture''"
| "servo_phase_value SP_WHOLE_BODY_SHADOW = ''whole_body_shadow''"
| "servo_phase_value SP_WHOLE_BODY_BLOCKED = ''whole_body_blocked''"
| "servo_phase_value SP_HANDOFF_ABANDONED = ''handoff_abandoned''"
| "servo_phase_value SP_BLOCKED = ''blocked''"
| "servo_phase_value SP_DEGRADED = ''degraded''"
| "servo_phase_value SP_GRASP_STARTED = ''grasp_started''"

text \<open>\<open>ServoPhase(text)\<close>; \<open>None\<close> is the ValueError.\<close>

definition servo_phase_of :: "string \<Rightarrow> ServoPhase option" where
  "servo_phase_of text_value = find (\<lambda>p. servo_phase_value p = text_value) servo_phases"

fun expiry_value :: "ExpiryAction \<Rightarrow> string" where
  "expiry_value STOP_AND_DEGRADE = ''stop_and_degrade''"
| "expiry_value ESCALATE_VIEW_RECOVERY = ''escalate_view_recovery''"
| "expiry_value NO_ACTION = ''none''"

fun owner_value :: "BaseOwner \<Rightarrow> string" where
  "owner_value OWNER_VISUAL_SERVO = ''visual_servo''"
| "owner_value OWNER_ZERO_HOLD = ''zero_hold''"

section \<open>Policies\<close>

record PhasePolicy =
  deadline_s :: "real option"
  on_expiry :: ExpiryAction
  heartbeat_required :: bool
  expected_base_owner :: BaseOwner
  is_terminal :: bool
  is_loss_stair :: bool
  is_handoff :: bool
  is_posture_wait :: bool
  counts_no_progress :: bool
  escalate_on_observation :: bool

definition phase_policy_post_init :: "PhasePolicy \<Rightarrow> unit res" where
  "phase_policy_post_init p =
     raise_if (case deadline_s p of None \<Rightarrow> False | Some d \<Rightarrow> d < 0)
       (ValueError ''phase deadline must be finite and non-negative'')
     (raise_if (deadline_s p \<noteq> None \<and> on_expiry p = NO_ACTION)
       (ValueError ''a phase with a deadline must name a real expiry action'')
     (raise_if (deadline_s p = None \<and> on_expiry p \<noteq> NO_ACTION)
       (ValueError ''a phase without a deadline cannot name an expiry action'')
     (raise_if (deadline_s p = None \<and> \<not> is_terminal p)
       (ValueError (''only a terminal phase may be exempt from a deadline; '' @
                    ''every non-terminal phase must carry one''))
     (raise_if (is_terminal p \<and> counts_no_progress p)
       (ValueError (''a terminal phase must not accumulate the cross-phase '' @
                    ''no-progress budget; the supervisor acts on it immediately''))
     (raise_if (escalate_on_observation p \<and> on_expiry p \<noteq> ESCALATE_VIEW_RECOVERY)
       (ValueError (''a phase the supervisor escalates on sight must also name '' @
                    ''ESCALATE_VIEW_RECOVERY as its expiry action; otherwise '' @
                    ''the supervisor and the table disagree about the same phase''))
     (raise_if (escalate_on_observation p \<and> is_terminal p)
       (ValueError ''a terminal phase cannot be escalated on observation'') (Inr ())))))))"

text \<open>A row with the defaults of the optional fields.\<close>

definition policy_row :: "real option \<Rightarrow> ExpiryAction \<Rightarrow> bool \<Rightarrow> BaseOwner \<Rightarrow> bool \<Rightarrow> PhasePolicy" where
  "policy_row deadline action heartbeat owner terminal =
     \<lparr> deadline_s = deadline, on_expiry = action, heartbeat_required = heartbeat, expected_base_owner = owner,
       is_terminal = terminal, is_loss_stair = False, is_handoff = False, is_posture_wait = False,
       counts_no_progress = True, escalate_on_observation = False \<rparr>"

definition terminal_row :: "bool \<Rightarrow> bool \<Rightarrow> PhasePolicy" where
  "terminal_row heartbeat handoff =
     (policy_row None NO_ACTION heartbeat OWNER_ZERO_HOLD True)\<lparr> is_handoff := handoff, counts_no_progress := False \<rparr>"

definition DEFAULT_DEADLINE_S :: real where
  "DEFAULT_DEADLINE_S = 12"

definition NO_PROGRESS_DEADLINE_S :: real where
  "NO_PROGRESS_DEADLINE_S = 20"

definition MIN_EFFECTIVE_BASE_COMMAND :: real where
  "MIN_EFFECTIVE_BASE_COMMAND = 5 / 1000"

definition SHIPPED_TRACKING_LOSS_GRACE_S :: real where
  "SHIPPED_TRACKING_LOSS_GRACE_S = 275 / 100"

definition MIN_VIEW_RECOVERY_DEADLINE_S :: real where
  "MIN_VIEW_RECOVERY_DEADLINE_S = 1"

definition UNREPORTED_PHASE :: string where
  "UNREPORTED_PHASE = ''phase_unreported''"

definition view_recovery_deadline_s :: "pyfloat option \<Rightarrow> real" where
  "view_recovery_deadline_s configured =
     (let grace = (case configured of
                     Some (Fin g) \<Rightarrow> if g \<le> 0 then SHIPPED_TRACKING_LOSS_GRACE_S else g
                   | _ \<Rightarrow> SHIPPED_TRACKING_LOSS_GRACE_S)
      in min (max grace MIN_VIEW_RECOVERY_DEADLINE_S) NO_PROGRESS_DEADLINE_S)"

definition UNKNOWN_PHASE_POLICY :: PhasePolicy where
  "UNKNOWN_PHASE_POLICY = policy_row (Some 5) STOP_AND_DEGRADE True OWNER_ZERO_HOLD False"

text \<open>The shapes the rows of the table share.\<close>

definition hold_row :: "real \<Rightarrow> ExpiryAction \<Rightarrow> PhasePolicy" where
  "hold_row d action = policy_row (Some d) action True OWNER_ZERO_HOLD False"

definition loss_row :: "real \<Rightarrow> ExpiryAction \<Rightarrow> PhasePolicy" where
  "loss_row d action = (hold_row d action)\<lparr> is_loss_stair := True \<rparr>"

definition posture_row :: PhasePolicy where
  "posture_row = (hold_row DEFAULT_DEADLINE_S STOP_AND_DEGRADE)\<lparr> is_posture_wait := True \<rparr>"

definition drive_row :: "real \<Rightarrow> PhasePolicy" where
  "drive_row d = policy_row (Some d) STOP_AND_DEGRADE True OWNER_VISUAL_SERVO False"

fun PHASE_POLICY :: "ServoPhase \<Rightarrow> PhasePolicy" where
  "PHASE_POLICY SP_IDLE = terminal_row False False"
| "PHASE_POLICY SP_STOPPED = terminal_row False False"
| "PHASE_POLICY SP_EXITED = terminal_row True False"
| "PHASE_POLICY SP_STARTING = (hold_row 30 STOP_AND_DEGRADE)\<lparr> counts_no_progress := False \<rparr>"
| "PHASE_POLICY SP_ACQUIRING = loss_row DEFAULT_DEADLINE_S STOP_AND_DEGRADE"
| "PHASE_POLICY SP_WAITING_TARGET = loss_row 20 ESCALATE_VIEW_RECOVERY"
| "PHASE_POLICY SP_TRANSFORM_UNAVAILABLE = loss_row 8 STOP_AND_DEGRADE"
| "PHASE_POLICY SP_TRACKING_LOST = loss_row 20 ESCALATE_VIEW_RECOVERY"
| "PHASE_POLICY SP_TRACKING_HOLD = loss_row 8 STOP_AND_DEGRADE"
| "PHASE_POLICY SP_REACQUIRE = loss_row 12 STOP_AND_DEGRADE"
| "PHASE_POLICY SP_VIEW_RECOVERY = loss_row SHIPPED_TRACKING_LOSS_GRACE_S STOP_AND_DEGRADE"
| "PHASE_POLICY SP_SEARCH_REQUIRED = (loss_row 20 ESCALATE_VIEW_RECOVERY)\<lparr> escalate_on_observation := True \<rparr>"
| "PHASE_POLICY SP_POSTURE_ADJUST = posture_row"
| "PHASE_POLICY SP_POSTURE_SHADOW_VERIFIED = posture_row"
| "PHASE_POLICY SP_POSTURE_BLOCKED = posture_row\<lparr> is_loss_stair := True \<rparr>"
| "PHASE_POLICY SP_WHOLE_BODY_POSTURE = posture_row"
| "PHASE_POLICY SP_SETTLING = hold_row DEFAULT_DEADLINE_S STOP_AND_DEGRADE"
| "PHASE_POLICY SP_APPROACH = drive_row DEFAULT_DEADLINE_S"
| "PHASE_POLICY SP_BASE_APPROACH = drive_row DEFAULT_DEADLINE_S"
| "PHASE_POLICY SP_WHOLE_BODY_APPROACH = drive_row DEFAULT_DEADLINE_S"
| "PHASE_POLICY SP_WHOLE_BODY_SHADOW = drive_row DEFAULT_DEADLINE_S"
| "PHASE_POLICY SP_WHOLE_BODY_BLOCKED = drive_row 8"
| "PHASE_POLICY SP_HANDOFF_PROBE = terminal_row True True"
| "PHASE_POLICY SP_HANDOFF_READY = terminal_row True True"
| "PHASE_POLICY SP_REACHED = terminal_row True True"
| "PHASE_POLICY SP_HANDOFF_SETTLE = hold_row 5 STOP_AND_DEGRADE"
| "PHASE_POLICY SP_HANDOFF_ABANDONED =
     (policy_row (Some 0) STOP_AND_DEGRADE True OWNER_ZERO_HOLD True)\<lparr> counts_no_progress := False \<rparr>"
| "PHASE_POLICY SP_BLOCKED = terminal_row False False"
| "PHASE_POLICY SP_DEGRADED = terminal_row False False"
| "PHASE_POLICY SP_GRASP_STARTED = terminal_row False False"

definition phase_policy :: "string \<Rightarrow> PhasePolicy" where
  "phase_policy name =
     (case servo_phase_of name of None \<Rightarrow> UNKNOWN_PHASE_POLICY | Some p \<Rightarrow> PHASE_POLICY p)"

definition is_known_phase :: "string \<Rightarrow> bool" where
  "is_known_phase name = (servo_phase_of name \<noteq> None)"

section \<open>Checks at import\<close>

definition REACTIVE_PHASES :: "string list" where
  "REACTIVE_PHASES =
     [''acquiring'', ''waiting_target'', ''transform_unavailable'', ''base_approach'', ''posture_adjust'',
      ''reacquiring'', ''tracking_hold'', ''view_recovery'', ''search_required'', ''handoff_probe'',
      ''handoff_settle'', ''handoff_ready'']"

definition unknown_reactive :: "string list" where
  "unknown_reactive = filter (\<lambda>v. v \<notin> set (map servo_phase_value servo_phases)) REACTIVE_PHASES"

definition outlives_no_progress :: "PhasePolicy \<Rightarrow> bool" where
  "outlives_no_progress p =
     (counts_no_progress p \<and> (case deadline_s p of None \<Rightarrow> False | Some d \<Rightarrow> NO_PROGRESS_DEADLINE_S < d))"

definition check_no_progress_bound :: "unit res" where
  "check_no_progress_bound =
     raise_if (list_ex (\<lambda>p. outlives_no_progress (PHASE_POLICY p)) servo_phases)
       (RuntimeError ''NO_PROGRESS_DEADLINE_S is tighter than the per-phase deadline of a counting phase'')
     (raise_if (\<not> counts_no_progress UNKNOWN_PHASE_POLICY \<or> deadline_s UNKNOWN_PHASE_POLICY = None) AssertionError
     (raise_if (outlives_no_progress UNKNOWN_PHASE_POLICY)
       (RuntimeError ''the unknown-phase deadline exceeds the no-progress bound'') (Inr ())))"

definition check_derived_view_recovery_bound :: "unit res" where
  "check_derived_view_recovery_bound =
     raise_if (\<not> counts_no_progress (PHASE_POLICY SP_VIEW_RECOVERY)) AssertionError
     (raise_if (list_ex (\<lambda>g. view_recovery_deadline_s g \<le> 0 \<or> NO_PROGRESS_DEADLINE_S < view_recovery_deadline_s g)
         [None, Some (Fin 0), Some (Fin (- 1)), Some NaN, Some (Fin 1000000000),
          Some (Fin MIN_VIEW_RECOVERY_DEADLINE_S), Some (Fin SHIPPED_TRACKING_LOSS_GRACE_S)])
       (RuntimeError ''the derived view_recovery deadline is out of bounds'') (Inr ()))"

definition select_phases :: "(PhasePolicy \<Rightarrow> bool) \<Rightarrow> string list" where
  "select_phases P = map servo_phase_value (filter (\<lambda>p. P (PHASE_POLICY p)) servo_phases)"

definition HANDOFF_PHASES :: "string list" where
  "HANDOFF_PHASES = select_phases is_handoff"

definition TERMINAL_PHASES :: "string list" where
  "TERMINAL_PHASES = select_phases is_terminal"

definition EAGER_RECOVERY_PHASES :: "string list" where
  "EAGER_RECOVERY_PHASES = select_phases escalate_on_observation"

definition LOSS_STAIR_PHASES :: "string list" where
  "LOSS_STAIR_PHASES = select_phases is_loss_stair"

definition POSTURE_WAIT_PHASES :: "string list" where
  "POSTURE_WAIT_PHASES = select_phases is_posture_wait"

definition HEARTBEAT_EXEMPT_PHASES :: "string list" where
  "HEARTBEAT_EXEMPT_PHASES = select_phases (\<lambda>p. \<not> heartbeat_required p)"

definition DRIVING_PHASES :: "string list" where
  "DRIVING_PHASES = select_phases (\<lambda>p. expected_base_owner p = OWNER_VISUAL_SERVO)"

definition RECOVERY_ESCALATION_PHASES :: "string list" where
  "RECOVERY_ESCALATION_PHASES = select_phases (\<lambda>p. on_expiry p = ESCALATE_VIEW_RECOVERY)"

definition NO_PROGRESS_PHASES :: "string list" where
  "NO_PROGRESS_PHASES = select_phases counts_no_progress"

lemmas row_defs =
  policy_row_def terminal_row_def hold_row_def loss_row_def posture_row_def drive_row_def UNKNOWN_PHASE_POLICY_def
  DEFAULT_DEADLINE_S_def SHIPPED_TRACKING_LOSS_GRACE_S_def NO_PROGRESS_DEADLINE_S_def

lemma in_servo_phases: "p \<in> set servo_phases"
  by (cases p) (simp_all add: servo_phases_def)

lemma phase_values_distinct: "distinct (map servo_phase_value servo_phases)"
  by (simp add: servo_phases_def)

lemma phase_value_inj: "servo_phase_value p = servo_phase_value q \<Longrightarrow> p = q"
  using phase_values_distinct in_servo_phases by (auto simp: distinct_map inj_on_def)

lemma servo_phase_of_value: "servo_phase_of (servo_phase_value p) = Some p"
proof -
  have "find (\<lambda>q. servo_phase_value q = servo_phase_value p) servo_phases \<noteq> None"
    using in_servo_phases [of p] by (auto simp: find_None_iff)
  then show ?thesis by (auto simp: servo_phase_of_def find_Some_iff dest: phase_value_inj)
qed

section \<open>Every phase is bounded\<close>

lemma rows_accepted: "phase_policy_post_init (PHASE_POLICY p) = Inr ()"
  by (cases p) (simp_all add: phase_policy_post_init_def raise_if_def row_defs)

lemma rows_within_no_progress: "\<not> outlives_no_progress (PHASE_POLICY p)"
  by (cases p) (simp_all add: outlives_no_progress_def row_defs)

lemma unknown_accepted: "phase_policy_post_init UNKNOWN_PHASE_POLICY = Inr ()"
  by (simp add: phase_policy_post_init_def raise_if_def row_defs)

lemma unknown_within_no_progress: "\<not> outlives_no_progress UNKNOWN_PHASE_POLICY"
  by (simp add: outlives_no_progress_def row_defs)

lemma policy_accepted: "phase_policy_post_init (phase_policy name) = Inr ()"
  by (simp add: phase_policy_def rows_accepted unknown_accepted split: option.split)

lemma policy_within_no_progress: "\<not> outlives_no_progress (phase_policy name)"
  by (simp add: phase_policy_def rows_within_no_progress unknown_within_no_progress split: option.split)

text \<open>What an accepted row promises.\<close>

lemma accepted_row:
  assumes "phase_policy_post_init p = Inr ()"
  shows "\<not> is_terminal p \<Longrightarrow> deadline_s p \<noteq> None" "deadline_s p \<noteq> None \<longleftrightarrow> on_expiry p \<noteq> NO_ACTION"
    "counts_no_progress p \<Longrightarrow> \<not> is_terminal p" "deadline_s p = Some d \<Longrightarrow> 0 \<le> d"
    "escalate_on_observation p \<Longrightarrow> on_expiry p = ESCALATE_VIEW_RECOVERY"
  using assms by (auto simp: phase_policy_post_init_def)

lemmas policy_row_facts = accepted_row [OF policy_accepted]

end
