(* ===== verification/Reactive_Watchdog.thy ===== *)
theory Reactive_Watchdog
  imports Servo_Phase Interfaces
begin

text \<open>
  The bounded-wait supervision of \<open>src/scripts/runtime/go2w_reactive_supervision.py\<close>: what the supervisor reads from a
  depth-servo status document, \<open>ReactivePhaseWatchdog\<close> with its per-phase deadline, its cross-phase
  accumulator and its heartbeat, and the replay of recorded traces. A status document is the member list of a decoded
  JSON object; the text of a float is the argument \<open>fl\<close>. Times of the monotonic clock are checked floats;
  the wall clock is an integer number of nanoseconds. Reading a JSON integer that exceeds the range of a double
  raises OverflowError, as \<open>float()\<close> does.
\<close>

type_synonym document = "(string \<times> json) list"

section \<open>Reading a status document\<close>

definition mapping_of :: "json \<Rightarrow> document" where
  "mapping_of v = (case v of JObj ms \<Rightarrow> ms | _ \<Rightarrow> [])"

abbreviation member :: "document \<Rightarrow> string \<Rightarrow> json" where
  "member \<equiv> get_or JNull"

fun finite_value :: "json \<Rightarrow> real option res" where
  "finite_value (JInt i) = rbind (float_value (JInt i)) (\<lambda>x. Inr (if isfinite x then Some (the_fin x) else None))"
| "finite_value (JFloat x) = Inr (if isfinite x then Some (the_fin x) else None)"
| "finite_value _ = Inr None"

record PostureFeedback =
  fb_available :: bool
  fb_fresh :: bool
  fb_age_s :: "real option"
  fb_phase :: string
  fb_owner :: string
  fb_detail :: string
  fb_current_height_m :: "real option"
  fb_target_height_m :: "real option"
  fb_current_pitch_rad :: "real option"
  fb_target_pitch_rad :: "real option"

definition posture_feedback_snapshot :: "(pyfloat \<Rightarrow> string) \<Rightarrow> document \<Rightarrow> PostureFeedback res" where
  "posture_feedback_snapshot fl runtime =
     (let wrapper = mapping_of (member runtime ''posture_status'');
          inner = mapping_of (member wrapper ''document'');
          doc = (if inner \<noteq> [] then inner else wrapper);
          feedback = mapping_of (member doc ''feedback'');
          body = mapping_of (member doc ''body_height'');
          attitude = mapping_of (member doc ''attitude'') in
      rbind (finite_value (member wrapper ''age_s'')) (\<lambda>wrapper_age.
      rbind (finite_value (member body ''feedback_age_s'')) (\<lambda>feedback_age.
      rbind (finite_value (member body ''current_m'')) (\<lambda>height.
      rbind (finite_value (member body ''target_m'')) (\<lambda>target_height.
      rbind (finite_value (member attitude ''current_pitch_rad'')) (\<lambda>pitch.
      rbind (finite_value (member attitude ''target_pitch_rad'')) (\<lambda>target_pitch.
      Inr \<lparr> fb_available = (member doc ''schema'' = JStr ''z_manip.go2w_posture_status.v1''),
            fb_fresh = (member feedback ''fresh'' = JBool True),
            fb_age_s = (if wrapper_age \<noteq> None then wrapper_age else feedback_age),
            fb_phase = str_value fl (get_or (JStr ''unavailable'') doc ''phase''),
            fb_owner = str_value fl (get_or (JStr ''unavailable'') doc ''command_owner''),
            fb_detail = str_value fl (get_or (JStr []) doc ''detail''),
            fb_current_height_m = height, fb_target_height_m = target_height,
            fb_current_pitch_rad = pitch, fb_target_pitch_rad = target_pitch \<rparr>)))))))"

definition or_zero :: "real option \<Rightarrow> real" where
  "or_zero v = (case v of None \<Rightarrow> 0 | Some x \<Rightarrow> x)"

definition base_command_magnitude :: "(pyfloat \<Rightarrow> string) \<Rightarrow> document \<Rightarrow> real res" where
  "base_command_magnitude fl runtime =
     (let output = mapping_of (member runtime ''output'');
          live = (str_value fl (get_or (JStr []) runtime ''mode'') = ''live'');
          linear_key = (if live then ''published_linear_x'' else ''proposed_linear_x'');
          yaw_key = (if live then ''published_angular_z'' else ''proposed_angular_z'') in
      rbind (finite_value (member output linear_key)) (\<lambda>lin.
      rbind (finite_value (member output yaw_key)) (\<lambda>yaw.
      Inr (max \<bar>or_zero lin\<bar> \<bar>or_zero yaw\<bar>))))"

definition base_is_commanding :: "(pyfloat \<Rightarrow> string) \<Rightarrow> document \<Rightarrow> bool res" where
  "base_is_commanding fl runtime =
     rbind (base_command_magnitude fl runtime) (\<lambda>m. Inr (MIN_EFFECTIVE_BASE_COMMAND \<le> m))"

definition servo_tracking_loss_grace_s :: "document \<Rightarrow> real option res" where
  "servo_tracking_loss_grace_s runtime =
     finite_value (member (mapping_of (member runtime ''limits'')) ''tracking_loss_grace_s'')"

record Owners =
  own_base :: string
  own_body :: string
  own_arm_view :: string
  own_optimizer :: string

definition ownership_snapshot :: "(pyfloat \<Rightarrow> string) \<Rightarrow> document \<Rightarrow> Owners res" where
  "ownership_snapshot fl runtime =
     rbind (posture_feedback_snapshot fl runtime) (\<lambda>posture.
     let arm_view = mapping_of (member (mapping_of (member runtime ''reactive'')) ''arm_view'');
         arm_feedback = mapping_of (member runtime ''arm_view_status'') in
     rbind (base_is_commanding fl runtime) (\<lambda>commanding.
     let arm_owner0 = str_value fl (get_or (JStr []) arm_feedback ''owner'');
         arm_owner =
           (if arm_owner0 \<noteq> [] then arm_owner0
            else if str_value fl (get_or (JStr ''hold'') arm_view ''mode'') \<notin> {'''', ''hold''}
            then ''intent_only'' else ''none'');
         whole_body = mapping_of (member runtime ''whole_body'');
         inner = mapping_of (member whole_body ''command'');
         optimizer = (if inner \<noteq> [] then inner else mapping_of (member runtime ''optimizer''));
         backend = member optimizer ''backend''; opt_owner = member optimizer ''owner'' in
     Inr \<lparr> own_base = owner_value (if commanding then OWNER_VISUAL_SERVO else OWNER_ZERO_HOLD),
           own_body = fb_owner posture, own_arm_view = arm_owner,
           own_optimizer = str_value fl
             (if truthy backend then backend else if truthy opt_owner then opt_owner
              else JStr (if member whole_body ''enabled'' = JBool True then ''initializing'' else ''unavailable'')) \<rparr>))"

section \<open>The watchdog\<close>

record ReactiveWatchdogConfig =
  posture_wait_timeout_s :: real
  feedback_freshness_s :: real
  state_heartbeat_timeout_s :: real
  max_state_future_s :: real

definition watchdog_config_post_init :: "ReactiveWatchdogConfig \<Rightarrow> unit res" where
  "watchdog_config_post_init c =
     raise_if (posture_wait_timeout_s c \<le> 0) (ValueError ''posture wait timeout must be finite and positive'')
     (raise_if (feedback_freshness_s c \<le> 0) (ValueError ''feedback freshness must be finite and positive'')
     (raise_if (state_heartbeat_timeout_s c \<le> 0) (ValueError ''state heartbeat timeout must be finite and positive'')
     (raise_if (max_state_future_s c < 0)
       (ValueError ''maximum state future allowance must be finite and non-negative'') (Inr ()))))"

definition default_watchdog_config :: ReactiveWatchdogConfig where
  "default_watchdog_config =
     \<lparr> posture_wait_timeout_s = 12, feedback_freshness_s = 3 / 4, state_heartbeat_timeout_s = 3 / 2,
       max_state_future_s = 1 / 4 \<rparr>"

record ReactiveWatchdogDecision =
  wd_phase :: string
  phase_elapsed_s :: real
  wd_deadline_s :: "real option"
  timed_out :: bool
  code :: "string option"
  message :: string
  feedback :: "PostureFeedback option"
  owners :: "Owners option"
  wd_heartbeat_required :: bool
  heartbeat_valid :: bool
  heartbeat_updated_unix_ns :: "int option"
  heartbeat_age_s :: "real option"
  heartbeat_elapsed_s :: real
  heartbeat_deadline_s :: "real option"
  wd_on_expiry :: string
  wd_expected_base_owner :: string
  base_owner_mismatch :: bool
  wd_is_terminal :: bool
  phase_known :: bool
  wd_no_progress_s :: real
  no_progress_deadline_s :: "real option"

record ReactivePhaseWatchdog =
  watched_phase :: "string option"
  phase_started_s :: "real option"
  no_progress_s :: real
  last_observe_s :: "real option"
  heartbeat_stamp_ns :: "int option"
  heartbeat_progress_s :: "real option"
  last_decision :: ReactiveWatchdogDecision

type_synonym 'a watchdog_op = "('a, ReactivePhaseWatchdog) outcome"

definition idle_decision :: ReactiveWatchdogDecision where
  "idle_decision =
     \<lparr> wd_phase = ''idle'', phase_elapsed_s = 0, wd_deadline_s = None, timed_out = False, code = None,
       message = ''idle'', feedback = None, owners = None, wd_heartbeat_required = False, heartbeat_valid = False,
       heartbeat_updated_unix_ns = None, heartbeat_age_s = None, heartbeat_elapsed_s = 0,
       heartbeat_deadline_s = None, wd_on_expiry = expiry_value NO_ACTION,
       wd_expected_base_owner = owner_value OWNER_ZERO_HOLD, base_owner_mismatch = False, wd_is_terminal = False,
       phase_known = True, wd_no_progress_s = 0, no_progress_deadline_s = None \<rparr>"

definition watchdog_reset :: ReactivePhaseWatchdog where
  "watchdog_reset =
     \<lparr> watched_phase = None, phase_started_s = None, no_progress_s = 0, last_observe_s = None,
       heartbeat_stamp_ns = None, heartbeat_progress_s = None, last_decision = idle_decision \<rparr>"

definition note_supervisor_progress :: "ReactivePhaseWatchdog \<Rightarrow> ReactivePhaseWatchdog" where
  "note_supervisor_progress w = w\<lparr> no_progress_s := 0 \<rparr>"

definition deadline_for :: "ReactiveWatchdogConfig \<Rightarrow> string \<Rightarrow> document \<Rightarrow> real option res" where
  "deadline_for c name runtime =
     (if is_posture_wait (phase_policy name) then Inr (Some (posture_wait_timeout_s c))
      else if name = servo_phase_value SP_VIEW_RECOVERY then
        rbind (servo_tracking_loss_grace_s runtime) (\<lambda>g. Inr (Some (view_recovery_deadline_s (map_option Fin g))))
      else Inr (deadline_s (phase_policy name)))"

definition reported_phase :: "(pyfloat \<Rightarrow> string) \<Rightarrow> document \<Rightarrow> string" where
  "reported_phase fl runtime =
     (let top = member runtime ''phase''; nested = member (mapping_of (member runtime ''reactive'')) ''phase'' in
      str_value fl (if truthy top then top else if truthy nested then nested else JStr UNREPORTED_PHASE))"

text \<open>The phase timer: a new phase group restarts it, and so does an effective command of a driving phase.\<close>

definition enter_phase :: "string \<Rightarrow> real \<Rightarrow> ReactivePhaseWatchdog \<Rightarrow> ReactivePhaseWatchdog" where
  "enter_phase name now w =
     (let grp = (if is_posture_wait (phase_policy name) then ''posture_wait'' else name) in
      if Some grp \<noteq> watched_phase w then w\<lparr> watched_phase := Some grp, phase_started_s := Some now \<rparr> else w)"

definition accumulate :: "PhasePolicy \<Rightarrow> bool \<Rightarrow> real \<Rightarrow> ReactivePhaseWatchdog \<Rightarrow> ReactivePhaseWatchdog" where
  "accumulate policy commanding now w =
     (let delta = (case last_observe_s w of None \<Rightarrow> 0 | Some t \<Rightarrow> max 0 (now - t)) in
      w\<lparr> last_observe_s := Some now,
         no_progress_s := (if commanding then 0
                           else if counts_no_progress policy then no_progress_s w + delta else no_progress_s w) \<rparr>)"

definition document_stamp :: "document \<Rightarrow> int option" where
  "document_stamp runtime =
     (case member runtime ''updated_unix_ns'' of JInt n \<Rightarrow> if 0 < n then Some n else None | _ \<Rightarrow> None)"

text \<open>The reason a heartbeat is invalid, and the watchdog after its bookkeeping.\<close>

definition check_heartbeat ::
  "ReactiveWatchdogConfig \<Rightarrow> real \<Rightarrow> int \<Rightarrow> int option \<Rightarrow> ReactivePhaseWatchdog
     \<Rightarrow> string option \<times> ReactivePhaseWatchdog" where
  "check_heartbeat c now wall_ns stamp w =
     (let (invalid, w1) =
            (case stamp of
               None \<Rightarrow> (Some ''state document has no updated_unix_ns heartbeat'', w)
             | Some n \<Rightarrow>
                 if of_int (wall_ns - n) / 1000000000 < - max_state_future_s c then
                   (Some ''state heartbeat timestamp is in the future'', w)
                 else if (case heartbeat_stamp_ns w of None \<Rightarrow> False | Some m \<Rightarrow> n < m) then
                   (Some ''state heartbeat timestamp moved backwards'', w)
                 else
                   (None, if heartbeat_stamp_ns w \<noteq> Some n
                          then w\<lparr> heartbeat_stamp_ns := Some n, heartbeat_progress_s := Some now \<rparr> else w))
      in (invalid, if heartbeat_progress_s w1 = None then w1\<lparr> heartbeat_progress_s := Some now \<rparr> else w1))"

text \<open>The verdict on a heartbeat: whether its deadline expired, and the reason.\<close>

definition heartbeat_verdict ::
  "ReactiveWatchdogConfig \<Rightarrow> PhasePolicy \<Rightarrow> string option \<Rightarrow> real option \<Rightarrow> real \<Rightarrow> bool \<times> string option" where
  "heartbeat_verdict c policy invalid age elapsed =
     (if \<not> heartbeat_required policy then (False, invalid)
      else if invalid \<noteq> None then (is_handoff policy \<or> state_heartbeat_timeout_s c \<le> elapsed, invalid)
      else if age \<noteq> None \<and> state_heartbeat_timeout_s c < the age then
        (True, Some ''state heartbeat is older than its deadline'')
      else if state_heartbeat_timeout_s c \<le> elapsed then (True, Some ''state heartbeat stopped advancing'')
      else (False, None))"

definition posture_timeout :: "ReactiveWatchdogConfig \<Rightarrow> PostureFeedback \<Rightarrow> Owners \<Rightarrow> string \<times> string" where
  "posture_timeout c fb own =
     (if \<not> fb_available fb \<or> \<not> fb_fresh fb \<or> (case fb_age_s fb of None \<Rightarrow> True | Some a \<Rightarrow> feedback_freshness_s c < a) then
        (''POSTURE_FEEDBACK_TIMEOUT'',
         ''posture executor feedback is unavailable or stale; reactive control degraded to a stationary terminal state'')
      else if own_arm_view own = ''intent_only'' then
        (''ARM_VIEW_FEEDBACK_TIMEOUT'',
         ''arm-view intent has no measured executor owner; reactive control degraded to a stationary terminal state'')
      else
        (''POSTURE_SETTLE_TIMEOUT'',
         ''measured posture did not settle before the bounded deadline; reactive control degraded to a stationary terminal state''))"

definition phase_timeout :: "string \<Rightarrow> bool \<Rightarrow> real \<Rightarrow> real \<Rightarrow> string \<times> string" where
  "phase_timeout name mismatch elapsed bound =
     (if mismatch then
        (''BASE_COMMAND_STALL_TIMEOUT'',
         ''phase '' @ py_repr name @ '' claims the base ('' @ owner_value (expected_base_owner (phase_policy name)) @
         '') but has commanded exactly zero for '' @ fmt_fixed 2 elapsed @ ''s (deadline '' @ fmt_fixed 2 bound @
         ''s); the base is stopped with no owner driving it'')
      else if \<not> is_known_phase name then
        (''UNKNOWN_PHASE_TIMEOUT'',
         ''phase '' @ py_repr name @ '' is not in the servo phase table; it was bounded by the fail-closed unknown-phase deadline ('' @
         fmt_fixed 2 bound @ ''s) after '' @ fmt_fixed 2 elapsed @ ''s'')
      else
        (''PHASE_DEADLINE_TIMEOUT'',
         ''phase '' @ py_repr name @ '' exceeded its '' @ fmt_fixed 2 bound @ ''s bounded wait ('' @ fmt_fixed 2 elapsed @
         ''s elapsed) without reaching a terminal state''))"

definition progress_timeout :: "string \<Rightarrow> real \<Rightarrow> real \<Rightarrow> string \<times> string" where
  "progress_timeout name stalled elapsed =
     (''BASE_PROGRESS_STALL_TIMEOUT'',
      ''the base has issued no effective command for '' @ fmt_fixed 2 stalled @ ''s across phase changes (bound '' @
      fmt_fixed 2 NO_PROGRESS_DEADLINE_S @ ''s); the current phase '' @ py_repr name @ '' has only been held '' @
      fmt_fixed 2 elapsed @ ''s, so no per-phase deadline expired -- the run is not advancing'')"

text \<open>The end of \<open>observe\<close>, from the heartbeat bookkeeping to the decision.\<close>

definition decide ::
  "ReactiveWatchdogConfig \<Rightarrow> string \<Rightarrow> PostureFeedback \<Rightarrow> Owners \<Rightarrow> bool \<Rightarrow> real \<Rightarrow> real option \<Rightarrow> int option
     \<Rightarrow> int \<Rightarrow> real \<Rightarrow> ReactivePhaseWatchdog \<Rightarrow> ReactiveWatchdogDecision \<times> ReactivePhaseWatchdog" where
  "decide c name fb own commanding elapsed bound stamp wall_ns now w0 =
     (let policy = phase_policy name;
          mismatch = (expected_base_owner policy = OWNER_VISUAL_SERVO \<and> \<not> commanding);
          stalled = no_progress_s w0;
          stall_bound = (if counts_no_progress policy then Some NO_PROGRESS_DEADLINE_S else None);
          stall_out = (counts_no_progress policy \<and> NO_PROGRESS_DEADLINE_S \<le> stalled);
          phase_out = (case bound of None \<Rightarrow> False | Some d \<Rightarrow> d \<le> elapsed);
          age = map_option (\<lambda>n. of_int (wall_ns - n) / 1000000000) stamp;
          (invalid, w) = check_heartbeat c now wall_ns stamp w0;
          beat_elapsed = max 0 (now - the (heartbeat_progress_s w));
          (beat_out, why) = heartbeat_verdict c policy invalid age beat_elapsed;
          verdict =
            (if is_posture_wait policy \<and> phase_out then Some (posture_timeout c fb own)
             else if beat_out then
               Some (''REACTIVE_STATE_HEARTBEAT_TIMEOUT'',
                     (case why of None \<Rightarrow> ''state heartbeat deadline expired'' | Some r \<Rightarrow> r) @
                     ''; reactive control degraded to a stationary terminal state'')
             else if phase_out then Some (phase_timeout name mismatch elapsed (the bound))
             else if stall_out then Some (progress_timeout name stalled elapsed)
             else None);
          d = \<lparr> wd_phase = name, phase_elapsed_s = elapsed, wd_deadline_s = bound,
                timed_out = (phase_out \<or> stall_out \<or> beat_out), code = map_option fst verdict,
                message = (case verdict of None \<Rightarrow> ''phase is progressing within its bounded wait'' | Some v \<Rightarrow> snd v),
                feedback = Some fb, owners = Some own, wd_heartbeat_required = heartbeat_required policy,
                heartbeat_valid = (invalid = None), heartbeat_updated_unix_ns = stamp, heartbeat_age_s = age,
                heartbeat_elapsed_s = beat_elapsed,
                heartbeat_deadline_s = (if heartbeat_required policy then Some (state_heartbeat_timeout_s c) else None),
                wd_on_expiry = expiry_value (if beat_out then STOP_AND_DEGRADE
                                             else if phase_out \<or> stall_out then on_expiry policy else NO_ACTION),
                wd_expected_base_owner = owner_value (expected_base_owner policy), base_owner_mismatch = mismatch,
                wd_is_terminal = is_terminal policy, phase_known = is_known_phase name,
                wd_no_progress_s = stalled, no_progress_deadline_s = stall_bound \<rparr>
      in (d, w\<lparr> last_decision := d \<rparr>))"

definition observe ::
  "(pyfloat \<Rightarrow> string) \<Rightarrow> ReactiveWatchdogConfig \<Rightarrow> document \<Rightarrow> pyfloat \<Rightarrow> int \<Rightarrow> ReactivePhaseWatchdog
     \<Rightarrow> ReactiveWatchdogDecision watchdog_op" where
  "observe fl c runtime now_s wall_ns w =
     guard (\<not> isfinite now_s) (ValueError ''watchdog timestamp must be finite'') w
     (let now = the_fin now_s; name = reported_phase fl runtime; policy = phase_policy name; w1 = enter_phase name now w in
      gbind (posture_feedback_snapshot fl runtime) w1 (\<lambda>fb.
      gbind (ownership_snapshot fl runtime) w1 (\<lambda>own.
      gbind (base_is_commanding fl runtime) w1 (\<lambda>commanding.
      let w2 = (if expected_base_owner policy = OWNER_VISUAL_SERVO \<and> commanding
                then w1\<lparr> phase_started_s := Some now \<rparr> else w1) in
      guard (phase_started_s w2 = None) AssertionError w2
      (let elapsed = max 0 (now - the (phase_started_s w2)); w3 = accumulate policy commanding now w2 in
       gbind (deadline_for c name runtime) w3 (\<lambda>bound.
       guard (wall_ns \<le> 0) (ValueError ''watchdog wall timestamp must be a positive integer'') w3
       (case decide c name fb own commanding elapsed bound (document_stamp runtime) wall_ns now w3 of
          (d, w4) \<Rightarrow> (Inr d, w4))))))))"

section \<open>Replay of recorded traces\<close>

record StallRun =
  run_start_unix_ns :: int
  run_end_unix_ns :: int
  run_samples :: nat
  run_phases :: "string list"

definition row_stamp :: "document \<Rightarrow> int option" where
  "row_stamp row =
     (case member row ''updated_unix_ns'' of JInt n \<Rightarrow> if n < 0 then None else Some n | _ \<Rightarrow> None)"

definition row_phase :: "(pyfloat \<Rightarrow> string) \<Rightarrow> document \<Rightarrow> string" where
  "row_phase fl row = str_value fl (get_or (JStr ''unknown'') row ''phase'')"

definition extend_run :: "int \<Rightarrow> string \<Rightarrow> StallRun option \<Rightarrow> StallRun" where
  "extend_run stamp name act =
     (case act of
        None \<Rightarrow> \<lparr> run_start_unix_ns = stamp, run_end_unix_ns = stamp, run_samples = 1, run_phases = [name] \<rparr>
      | Some r \<Rightarrow> r\<lparr> run_end_unix_ns := stamp, run_samples := run_samples r + 1,
                    run_phases := (if name \<in> set (run_phases r) then run_phases r else run_phases r @ [name]) \<rparr>)"

fun zero_command_runs :: "(pyfloat \<Rightarrow> string) \<Rightarrow> document list \<Rightarrow> StallRun option \<Rightarrow> StallRun list res" where
  "zero_command_runs fl [] act = Inr (case act of None \<Rightarrow> [] | Some r \<Rightarrow> [r])"
| "zero_command_runs fl (row # rows) act =
     (case row_stamp row of
        None \<Rightarrow> zero_command_runs fl rows act
      | Some stamp \<Rightarrow>
          let name = row_phase fl row in
          rbind (base_is_commanding fl row) (\<lambda>commanding.
          if commanding then
            rbind (zero_command_runs fl rows None) (\<lambda>rest. Inr ((case act of None \<Rightarrow> [] | Some r \<Rightarrow> [r]) @ rest))
          else if \<not> counts_no_progress (phase_policy name) then zero_command_runs fl rows act
          else zero_command_runs fl rows (Some (extend_run stamp name act))))"

definition run_duration_s :: "StallRun \<Rightarrow> real" where
  "run_duration_s r = max 0 (of_int (run_end_unix_ns r - run_start_unix_ns r) / 1000000000)"

definition no_progress_runs :: "(pyfloat \<Rightarrow> string) \<Rightarrow> document list \<Rightarrow> StallRun list res" where
  "no_progress_runs fl rows =
     rbind (zero_command_runs fl rows None) (\<lambda>runs.
     Inr (filter (\<lambda>r. \<not> run_duration_s r < NO_PROGRESS_DEADLINE_S) runs))"

record ReplaySpan =
  span_phase :: string
  span_start_unix_ns :: int
  span_end_unix_ns :: int
  span_samples :: nat
  all_zero_command :: bool
  last_reason :: string

definition row_is_zero :: "document \<Rightarrow> bool res" where
  "row_is_zero row =
     (let output = mapping_of (member row ''output'') in
      rbind (finite_value (member output ''published_linear_x'')) (\<lambda>lin.
      rbind (finite_value (member output ''published_angular_z'')) (\<lambda>yaw.
      Inr (\<bar>or_zero lin\<bar> \<le> 1 / 1000000000 \<and> \<bar>or_zero yaw\<bar> \<le> 1 / 1000000000))))"

fun phase_spans :: "(pyfloat \<Rightarrow> string) \<Rightarrow> document list \<Rightarrow> ReplaySpan option \<Rightarrow> ReplaySpan list res" where
  "phase_spans fl [] act = Inr (case act of None \<Rightarrow> [] | Some s \<Rightarrow> [s])"
| "phase_spans fl (row # rows) act =
     (case row_stamp row of
        None \<Rightarrow> phase_spans fl rows act
      | Some stamp \<Rightarrow>
          let name = row_phase fl row;
              reason = str_value fl (get_or (JStr []) (mapping_of (member row ''output'')) ''reason'') in
          rbind (row_is_zero row) (\<lambda>zero.
          if (case act of None \<Rightarrow> True | Some s \<Rightarrow> span_phase s \<noteq> name) then
            rbind (phase_spans fl rows
                (Some \<lparr> span_phase = name, span_start_unix_ns = stamp, span_end_unix_ns = stamp, span_samples = 1,
                        all_zero_command = zero, last_reason = reason \<rparr>))
              (\<lambda>rest. Inr ((case act of None \<Rightarrow> [] | Some s \<Rightarrow> [s]) @ rest))
          else
            phase_spans fl rows
              (map_option (\<lambda>s. s\<lparr> span_end_unix_ns := stamp, span_samples := span_samples s + 1,
                                 all_zero_command := (all_zero_command s \<and> zero),
                                 last_reason := (if reason \<noteq> [] then reason else last_reason s) \<rparr>) act)))"

definition span_duration_s :: "ReplaySpan \<Rightarrow> real" where
  "span_duration_s s = max 0 (of_int (span_end_unix_ns s - span_start_unix_ns s) / 1000000000)"

definition span_stalls :: "real \<Rightarrow> ReplaySpan \<Rightarrow> bool" where
  "span_stalls threshold s =
     (let policy = phase_policy (span_phase s) in
      \<not> is_terminal policy \<and>
      (case deadline_s policy of
         None \<Rightarrow> False
       | Some d \<Rightarrow> all_zero_command s \<and> min threshold d \<le> span_duration_s s))"

definition span_code :: "ReplaySpan \<Rightarrow> string" where
  "span_code s =
     (let policy = phase_policy (span_phase s) in
      if is_posture_wait policy then ''POSTURE_WAIT_STALL''
      else if expected_base_owner policy = OWNER_VISUAL_SERVO then ''BASE_COMMAND_STALL''
      else ''PHASE_DEADLINE_STALL'')"

record ReplaySummary =
  record_count :: nat
  replay_spans :: "ReplaySpan list"
  replay_stalls :: "(ReplaySpan \<times> string) list"
  no_progress_stalls :: "StallRun list"
  passed :: bool

definition replay_trace :: "(pyfloat \<Rightarrow> string) \<Rightarrow> real \<Rightarrow> json list \<Rightarrow> ReplaySummary res" where
  "replay_trace fl threshold records =
     (let rows = concat (map (\<lambda>v. case v of JObj ms \<Rightarrow> [ms] | _ \<Rightarrow> []) records) in
      rbind (no_progress_runs fl rows) (\<lambda>runs.
      rbind (phase_spans fl rows None) (\<lambda>spans.
      let stalls = map (\<lambda>s. (s, span_code s)) (filter (span_stalls threshold) spans) in
      Inr \<lparr> record_count = length rows, replay_spans = spans, replay_stalls = stalls,
            no_progress_stalls = runs, passed = (stalls = [] \<and> runs = []) \<rparr>)))"

end
