(* ===== verification/Watchdog_Laws.thy ===== *)
theory Watchdog_Laws
  imports Reactive_Watchdog
begin

text \<open>
  Laws of the reactive supervision: every timeout names an action, a quiet decision means that every bound of the phase
  still holds, a parked base is noticed across the phases that count, and where the replay of a trace differs from
  the deployed watchdog.
\<close>

section \<open>The table bounds every phase\<close>

lemma expiry_value_none: "expiry_value a = ''none'' \<longleftrightarrow> a = NO_ACTION"
  by (cases a) simp_all

lemma deadline_for_Some:
  assumes "deadline_for c name runtime = Inr b" and "\<not> is_terminal (phase_policy name)"
  shows "b \<noteq> None"
  using assms policy_row_facts(1) [of name] by (cases b) (auto simp: deadline_for_def split: if_splits)

lemma terminal_not_special:
  "is_terminal (PHASE_POLICY p) \<Longrightarrow> \<not> is_posture_wait (PHASE_POLICY p)"
  by (cases p) (simp_all add: row_defs)

lemma deadline_for_action:
  assumes "deadline_for c name runtime = Inr (Some b)"
  shows "on_expiry (phase_policy name) \<noteq> NO_ACTION"
proof (cases "is_terminal (phase_policy name)")
  case False
  then show ?thesis using policy_row_facts(1,2) [of name] by blast
next
  case True
  have "\<not> is_posture_wait (phase_policy name)"
    using True terminal_not_special by (auto simp: phase_policy_def row_defs split: option.splits)
  moreover have "name \<noteq> servo_phase_value SP_VIEW_RECOVERY"
    using True by (auto simp: phase_policy_def servo_phase_of_value [of SP_VIEW_RECOVERY, simplified] row_defs)
  ultimately show ?thesis
    using assms policy_row_facts(2) [of name] by (auto simp: deadline_for_def)
qed


section \<open>One observation\<close>

text \<open>The part of the watchdog that the per-phase timer does not touch.\<close>

definition progress_view :: "ReactivePhaseWatchdog \<Rightarrow> real \<times> real option \<times> int option \<times> real option" where
  "progress_view w = (no_progress_s w, last_observe_s w, heartbeat_stamp_ns w, heartbeat_progress_s w)"

lemma view_enter_phase [simp]: "progress_view (enter_phase name now w) = progress_view w"
  by (simp add: enter_phase_def progress_view_def Let_def)

lemma view_started [simp]: "progress_view (w\<lparr> phase_started_s := x \<rparr>) = progress_view w"
  by (simp add: progress_view_def)

lemma observe_cases:
  assumes name: "name = reported_phase fl runtime"
  obtains (early) e u where "observe fl c runtime now_s wall_ns w = (Inl e, u)" "progress_view u = progress_view w"
  | (late) e now commanding v where "now_s = Fin now" "base_is_commanding fl runtime = Inr commanding"
      "progress_view v = progress_view w"
      "observe fl c runtime now_s wall_ns w = (Inl e, accumulate (phase_policy name) commanding now v)"
  | (decided) now fb own commanding elapsed bound v d u where "now_s = Fin now" "0 < wall_ns"
      "base_is_commanding fl runtime = Inr commanding" "deadline_for c name runtime = Inr bound"
      "progress_view v = progress_view w" "observe fl c runtime now_s wall_ns w = (Inr d, u)"
      "decide c name fb own commanding elapsed bound (document_stamp runtime) wall_ns now
         (accumulate (phase_policy name) commanding now v) = (d, u)"
proof (cases now_s)
  case (Fin now)
  define v0 where "v0 = enter_phase name now w"
  have v0: "progress_view v0 = progress_view w" by (simp add: v0_def)
  show ?thesis
  proof (cases "posture_feedback_snapshot fl runtime")
    case (Inl e)
    then show ?thesis using early [of e v0] Fin v0
      by (simp add: observe_def guard_def Let_def name [symmetric] v0_def [symmetric])
  next
    case fb: (Inr fb)
    show ?thesis
    proof (cases "ownership_snapshot fl runtime")
      case (Inl e)
      then show ?thesis using early [of e v0] Fin v0 fb
        by (simp add: observe_def guard_def Let_def name [symmetric] v0_def [symmetric])
    next
      case own: (Inr own)
      then obtain commanding where cmd: "base_is_commanding fl runtime = Inr commanding"
        by (auto simp: ownership_snapshot_def Let_def)
      define v where "v = (if expected_base_owner (phase_policy name) = OWNER_VISUAL_SERVO \<and> commanding
          then v0\<lparr> phase_started_s := Some now \<rparr> else v0)"
      have v: "progress_view v = progress_view w" by (simp add: v_def v0)
      let ?acc = "accumulate (phase_policy name) commanding now v"
      have eq: "observe fl c runtime now_s wall_ns w =
          guard (phase_started_s v = None) AssertionError v
            (gbind (deadline_for c name runtime) ?acc (\<lambda>bound.
             guard (wall_ns \<le> 0) (ValueError ''watchdog wall timestamp must be a positive integer'') ?acc
             (case decide c name fb own commanding (max 0 (now - the (phase_started_s v))) bound (document_stamp runtime)
                     wall_ns now ?acc of (d, w4) \<Rightarrow> (Inr d, w4))))"
        unfolding observe_def Let_def Fin the_fin.simps name [symmetric] fb own cmd gbind.simps
          v0_def [symmetric] v_def [symmetric]
        by (simp add: guard_def)
      show ?thesis
      proof (cases "phase_started_s v = None")
        case True
        then show ?thesis using early [of AssertionError v] v by (simp add: eq guard_def)
      next
        case False
        show ?thesis
        proof (cases "deadline_for c name runtime")
          case (Inl e)
          then show ?thesis using late [OF Fin cmd v, of e] False by (simp add: eq guard_def)
        next
          case (Inr bound)
          obtain d u where "decide c name fb own commanding (max 0 (now - the (phase_started_s v))) bound
              (document_stamp runtime) wall_ns now ?acc = (d, u)" by force
          then show ?thesis
            using late [OF Fin cmd v] decided [OF Fin _ cmd Inr v] False Inr
            by (cases "wall_ns \<le> 0") (auto simp: eq guard_def)
        qed
      qed
    qed
  qed
qed (use early [of "ValueError ''watchdog timestamp must be finite''" w] in \<open>simp_all add: observe_def guard_def\<close>)

text \<open>The fields of a decision, by the verdicts it is built from.\<close>

lemma decide_fields:
  assumes e: "decide c name fb own commanding elapsed bound stamp wall_ns now w = (d, u)"
    and p_def: "p = phase_policy name"
    and stall_out_def: "stall_out \<longleftrightarrow> counts_no_progress p \<and> NO_PROGRESS_DEADLINE_S \<le> no_progress_s w"
    and phase_out_def: "phase_out = (case bound of None \<Rightarrow> False | Some b \<Rightarrow> b \<le> elapsed)"
  obtains invalid v beat_out why where "check_heartbeat c now wall_ns stamp w = (invalid, v)"
    "heartbeat_verdict c p invalid (map_option (\<lambda>n. of_int (wall_ns - n) / 1000000000) stamp)
       (max 0 (now - the (heartbeat_progress_s v))) = (beat_out, why)"
    "u = v\<lparr> last_decision := d \<rparr>" "wd_phase d = name" "phase_elapsed_s d = elapsed" "wd_deadline_s d = bound"
    "timed_out d \<longleftrightarrow> phase_out \<or> stall_out \<or> beat_out" "code d \<noteq> None \<longleftrightarrow> phase_out \<or> stall_out \<or> beat_out"
    "wd_on_expiry d = expiry_value (if beat_out then STOP_AND_DEGRADE else if phase_out \<or> stall_out then on_expiry p else NO_ACTION)"
    "heartbeat_valid d \<longleftrightarrow> invalid = None" "heartbeat_updated_unix_ns d = stamp"
    "heartbeat_elapsed_s d = max 0 (now - the (heartbeat_progress_s v))" "wd_no_progress_s d = no_progress_s w"
proof -
  obtain invalid v where h: "check_heartbeat c now wall_ns stamp w = (invalid, v)" by force
  obtain beat_out why where b: "heartbeat_verdict c p invalid (map_option (\<lambda>n. of_int (wall_ns - n) / 1000000000) stamp)
       (max 0 (now - the (heartbeat_progress_s v))) = (beat_out, why)" by force
  have "d = fst (decide c name fb own commanding elapsed bound stamp wall_ns now w)"
    "u = snd (decide c name fb own commanding elapsed bound stamp wall_ns now w)" using e by simp_all
  note du = this [unfolded decide_def Let_def h prod.case p_def [symmetric] b]
  show ?thesis
    by (rule that [OF h b]) (simp_all add: du phase_out_def stall_out_def)
qed

text \<open>The phase table bounds every phase string a status document can carry. A phase that is not
  terminal has a deadline of at most thirty seconds with a real action, one that counts for the cross-phase budget has one
  within that budget, an unknown string gets five seconds and a stop, and the deadline derived from the servo's own grace
  stays between one and twenty seconds. Every row passes its constructor and the checks made at import succeed.\<close>

theorem every_phase_is_bounded:
  "phase_policy_post_init (phase_policy name) = Inr ()
   \<and> (is_terminal (phase_policy name) \<or>
        (\<exists>d. deadline_s (phase_policy name) = Some d \<and> 0 \<le> d \<and> d \<le> 30 \<and> on_expiry (phase_policy name) \<noteq> NO_ACTION))
   \<and> (counts_no_progress (phase_policy name) = False \<or>
        (\<exists>d. deadline_s (phase_policy name) = Some d \<and> d \<le> NO_PROGRESS_DEADLINE_S))
   \<and> (is_known_phase name \<or> deadline_s (phase_policy name) = Some 5 \<and> on_expiry (phase_policy name) = STOP_AND_DEGRADE)
   \<and> 1 \<le> view_recovery_deadline_s g \<and> view_recovery_deadline_s g \<le> NO_PROGRESS_DEADLINE_S
   \<and> check_no_progress_bound = Inr () \<and> check_derived_view_recovery_bound = Inr () \<and> unknown_reactive = []"
proof (intro conjI)
  have long: "deadline_s (PHASE_POLICY p) = Some d \<Longrightarrow> d \<le> 30" for p d by (cases p) (auto simp: row_defs)
  have "d \<le> 30" if "deadline_s (phase_policy name) = Some d" for d
    using that long by (auto simp: phase_policy_def row_defs split: option.splits)
  then show "is_terminal (phase_policy name) \<or>
        (\<exists>d. deadline_s (phase_policy name) = Some d \<and> 0 \<le> d \<and> d \<le> 30 \<and> on_expiry (phase_policy name) \<noteq> NO_ACTION)"
    using policy_row_facts [of name] by fastforce
  show "counts_no_progress (phase_policy name) = False \<or>
        (\<exists>d. deadline_s (phase_policy name) = Some d \<and> d \<le> NO_PROGRESS_DEADLINE_S)"
    using policy_row_facts(1,3) [of name] policy_within_no_progress [of name]
    by (force simp: outlives_no_progress_def)
  show "check_no_progress_bound = Inr ()"
    using rows_within_no_progress unknown_within_no_progress
    by (simp add: check_no_progress_bound_def raise_if_def list_ex_iff UNKNOWN_PHASE_POLICY_def policy_row_def)
  show "check_derived_view_recovery_bound = Inr ()"
    by (simp add: check_derived_view_recovery_bound_def raise_if_def view_recovery_deadline_s_def Let_def row_defs
        MIN_VIEW_RECOVERY_DEADLINE_S_def)
  show "unknown_reactive = []"
    by (simp add: unknown_reactive_def REACTIVE_PHASES_def servo_phases_def)
qed (use policy_accepted in \<open>auto simp: is_known_phase_def phase_policy_def UNKNOWN_PHASE_POLICY_def policy_row_def
      view_recovery_deadline_s_def Let_def MIN_VIEW_RECOVERY_DEADLINE_S_def NO_PROGRESS_DEADLINE_S_def\<close>)

section \<open>Timeouts and quiet decisions\<close>

text \<open>A decision of the watchdog that timed out always names an action that stops or escalates and carries a
  code, and a decision that did not names none: there is no expiry without a consequence.\<close>

theorem timeout_always_names_an_action:
  assumes "observe fl c runtime now_s wall_ns w = (Inr d, u)"
  shows "(timed_out d \<longleftrightarrow> wd_on_expiry d \<noteq> ''none'') \<and> (timed_out d \<longleftrightarrow> code d \<noteq> None)"
  using refl [of "reported_phase fl runtime"]
proof (cases rule: observe_cases [where c = c and now_s = now_s and wall_ns = wall_ns and w = w])
  case (decided now fb own commanding elapsed bound v d' u')
  let ?p = "phase_policy (reported_phase fl runtime)"
  have eq: "d' = d" "u' = u" using decided(6) assms by simp_all
  have stall: "on_expiry ?p \<noteq> NO_ACTION" if "counts_no_progress ?p"
    using policy_row_facts(1-3) that by blast
  have phase: "on_expiry ?p \<noteq> NO_ACTION" if "bound = Some b" for b
    using deadline_for_action decided(4) that by blast
  show ?thesis
    by (rule decide_fields [OF decided(7) refl refl refl])
      (use stall phase in \<open>auto simp: eq expiry_value_none split: option.splits if_splits\<close>)
qed (use assms in simp_all)

lemma handoff_needs_heartbeat: "is_handoff (phase_policy name) \<Longrightarrow> heartbeat_required (phase_policy name)"
proof -
  have "is_handoff (PHASE_POLICY p) \<Longrightarrow> heartbeat_required (PHASE_POLICY p)" for p by (cases p) (simp_all add: row_defs)
  then show "is_handoff (phase_policy name) \<Longrightarrow> heartbeat_required (phase_policy name)"
    by (auto simp: phase_policy_def row_defs split: option.splits)
qed

lemma valid_heartbeat:
  assumes "check_heartbeat c now wall_ns stamp w = (None, v)"
  obtains n where "stamp = Some n" "- max_state_future_s c \<le> of_int (wall_ns - n) / 1000000000"
    "heartbeat_stamp_ns v = Some n" "opt_le (heartbeat_stamp_ns w) (Some n)"
  using assms by (auto simp: check_heartbeat_def opt_le_def Let_def split: option.splits if_splits prod.splits)

text \<open>A decision that did not time out means that every bound of its phase still holds: a phase that is not
  terminal is within its deadline, a counting phase within the cross-phase budget, the heartbeat has advanced
  recently where one is required, and a handoff phase, which opens an arm transaction, is accepted only from a
  document whose stamp is valid and fresh.\<close>

theorem quiet_decision_means_bounds_hold:
  assumes "observe fl c runtime now_s wall_ns w = (Inr d, u)" and "\<not> timed_out d"
  shows "(\<not> is_terminal (phase_policy (wd_phase d)) \<longrightarrow> (\<exists>b. wd_deadline_s d = Some b \<and> phase_elapsed_s d < b))
    \<and> (counts_no_progress (phase_policy (wd_phase d)) \<longrightarrow> wd_no_progress_s d < NO_PROGRESS_DEADLINE_S)
    \<and> (heartbeat_required (phase_policy (wd_phase d)) \<longrightarrow> heartbeat_elapsed_s d < state_heartbeat_timeout_s c)
    \<and> (is_handoff (phase_policy (wd_phase d)) \<longrightarrow>
         heartbeat_valid d \<and> (\<exists>n. heartbeat_updated_unix_ns d = Some n
           \<and> - max_state_future_s c \<le> of_int (wall_ns - n) / 1000000000
           \<and> of_int (wall_ns - n) / 1000000000 \<le> state_heartbeat_timeout_s c))"
  using refl [of "reported_phase fl runtime"]
proof (cases rule: observe_cases [where c = c and now_s = now_s and wall_ns = wall_ns and w = w])
  case (decided now fb own commanding elapsed bound v d' u')
  have eq: "d' = d" "u' = u" using decided(6) assms(1) by simp_all
  show ?thesis
  proof (rule decide_fields [OF decided(7) refl refl refl], unfold eq)
    fix invalid v' beat_out why
    let ?p = "phase_policy (reported_phase fl runtime)" and ?stamp = "document_stamp runtime"
    assume h: "check_heartbeat c now wall_ns ?stamp (accumulate ?p commanding now v) = (invalid, v')"
      and b: "heartbeat_verdict c ?p invalid (map_option (\<lambda>n. of_int (wall_ns - n) / 1000000000) ?stamp)
                (max 0 (now - the (heartbeat_progress_s v'))) = (beat_out, why)"
      and d: "wd_phase d = reported_phase fl runtime" "phase_elapsed_s d = elapsed" "wd_deadline_s d = bound"
        "heartbeat_valid d \<longleftrightarrow> invalid = None" "heartbeat_updated_unix_ns d = ?stamp"
        "heartbeat_elapsed_s d = max 0 (now - the (heartbeat_progress_s v'))"
        "wd_no_progress_s d = no_progress_s (accumulate ?p commanding now v)"
      and t: "timed_out d \<longleftrightarrow> (case bound of None \<Rightarrow> False | Some b \<Rightarrow> b \<le> elapsed)
        \<or> (counts_no_progress ?p \<and> NO_PROGRESS_DEADLINE_S \<le> no_progress_s (accumulate ?p commanding now v)) \<or> beat_out"
    have quiet: "\<not> beat_out" using t assms(2) by simp
    have beat: "heartbeat_elapsed_s d < state_heartbeat_timeout_s c
        \<and> (invalid \<noteq> None \<longrightarrow> \<not> is_handoff ?p)
        \<and> (\<forall>n. invalid = None \<and> ?stamp = Some n \<longrightarrow> of_int (wall_ns - n) / 1000000000 \<le> state_heartbeat_timeout_s c)"
      if "heartbeat_required ?p"
      using b quiet that d(6) by (auto simp: heartbeat_verdict_def not_le split: if_splits)
    have "heartbeat_valid d \<and> (\<exists>n. heartbeat_updated_unix_ns d = Some n
           \<and> - max_state_future_s c \<le> of_int (wall_ns - n) / 1000000000
           \<and> of_int (wall_ns - n) / 1000000000 \<le> state_heartbeat_timeout_s c)" if "is_handoff ?p"
    proof -
      have "invalid = None" using beat handoff_needs_heartbeat that by blast
      then show ?thesis
        using valid_heartbeat [of c now wall_ns ?stamp] h beat handoff_needs_heartbeat [OF that] d(4,5) by metis
    qed
    moreover have "\<exists>b. wd_deadline_s d = Some b \<and> phase_elapsed_s d < b" if "\<not> is_terminal ?p"
      using deadline_for_Some [OF decided(4) that] t assms(2) d(2,3) by (auto simp: not_le)
    ultimately show ?thesis using beat t assms(2) d(1,7) by auto
  qed
qed (use assms in simp_all)

section \<open>A parked base\<close>

type_synonym observation = "document \<times> pyfloat \<times> int"

definition watch_step :: "(pyfloat \<Rightarrow> string) \<Rightarrow> ReactiveWatchdogConfig \<Rightarrow> ReactivePhaseWatchdog \<Rightarrow> observation \<Rightarrow> ReactivePhaseWatchdog" where
  "watch_step fl c w ob = (case ob of (runtime, now_s, wall_ns) \<Rightarrow> snd (observe fl c runtime now_s wall_ns w))"

text \<open>The document shows no effective command, in a phase where that counts.\<close>

definition parked :: "(pyfloat \<Rightarrow> string) \<Rightarrow> document \<Rightarrow> bool" where
  "parked fl runtime =
     (base_is_commanding fl runtime \<noteq> Inr True \<and> counts_no_progress (phase_policy (reported_phase fl runtime)))"

text \<open>The accumulator covers the time between \<open>t0\<close> and the last observation.\<close>

definition covers :: "real \<Rightarrow> ReactivePhaseWatchdog \<Rightarrow> bool" where
  "covers t0 w = (\<exists>t. last_observe_s w = Some t \<and> t - t0 \<le> no_progress_s w)"

lemma view_covers: "progress_view v = progress_view w \<Longrightarrow> covers t0 v = covers t0 w"
  by (simp add: covers_def progress_view_def)

lemma covers_accumulate:
  assumes "covers t0 v" and "counts_no_progress p"
  shows "covers t0 (accumulate p False now v)" "now - t0 \<le> no_progress_s (accumulate p False now v)"
  using assms by (auto simp: covers_def accumulate_def Let_def max_def)

lemma check_heartbeat_view:
  "check_heartbeat c now wall_ns stamp w = (invalid, v) \<Longrightarrow>
     no_progress_s v = no_progress_s w \<and> last_observe_s v = last_observe_s w"
  by (auto simp: check_heartbeat_def Let_def split: option.splits if_splits prod.splits)

lemma covers_observe:
  assumes p: "parked fl runtime" and w: "covers t0 w"
  shows "covers t0 (snd (observe fl c runtime now_s wall_ns w))"
  using refl [of "reported_phase fl runtime"]
proof (cases rule: observe_cases [where c = c and now_s = now_s and wall_ns = wall_ns and w = w])
  case (early e u)
  then show ?thesis using view_covers [OF early(2)] w by simp
next
  case (late e now commanding v)
  have "commanding = False" "counts_no_progress (phase_policy (reported_phase fl runtime))"
    using p late(2) by (simp_all add: parked_def)
  moreover have "covers t0 v" using view_covers [OF late(3)] w by simp
  ultimately show ?thesis unfolding late(4) by (simp add: covers_accumulate(1))
next
  case (decided now fb own commanding elapsed bound v d u)
  have "commanding = False" "counts_no_progress (phase_policy (reported_phase fl runtime))"
    using p decided(3) by (simp_all add: parked_def)
  moreover have "covers t0 v" using view_covers [OF decided(5)] w by simp
  ultimately have acc: "covers t0 (accumulate (phase_policy (reported_phase fl runtime)) commanding now v)"
    by (simp add: covers_accumulate(1))
  show ?thesis
    by (rule decide_fields [OF decided(7) refl refl refl])
      (use acc in \<open>auto simp: decided(6) covers_def dest: check_heartbeat_view\<close>)
qed

lemma covers_run:
  "\<forall>ob \<in> set obs. parked fl (fst ob) \<Longrightarrow> covers t0 w \<Longrightarrow> covers t0 (foldl (watch_step fl c) w obs)"
  by (induction obs arbitrary: w) (auto simp: watch_step_def covers_observe)

text \<open>C14: Changing phases does not hide a parked base, as long as every reported phase, known or not, is one in which
  missing progress counts and the supervisor notes no progress of its own (a phase that does not count, such as idle,
  pauses the accumulator). If no document of a sequence shows an effective command, then an observation that returns
  a decision twenty seconds or more after the first has timed out and names an action, even when observations in between
  raised and the clock jumped.\<close>

theorem parked_base_is_noticed_across_counting_phases:
  assumes "last_observe_s w = Some t0" and "0 \<le> no_progress_s w"
    and "\<forall>ob \<in> set obs. parked fl (fst ob)" and "parked fl runtime"
    and "observe fl c runtime (Fin now) wall_ns (foldl (watch_step fl c) w obs) = (Inr d, u)"
    and "t0 + NO_PROGRESS_DEADLINE_S \<le> now"
  shows "timed_out d \<and> wd_on_expiry d \<noteq> ''none'' \<and> NO_PROGRESS_DEADLINE_S \<le> wd_no_progress_s d"
proof -
  let ?w = "foldl (watch_step fl c) w obs"
  have "covers t0 ?w"
    by (rule covers_run [OF assms(3)]) (use assms(1,2) in \<open>simp add: covers_def\<close>)
  show ?thesis
    using refl [of "reported_phase fl runtime"]
  proof (cases rule: observe_cases [where c = c and now_s = "Fin now" and wall_ns = wall_ns and w = ?w])
    case (decided now' fb own commanding elapsed bound v d' u')
    let ?p = "phase_policy (reported_phase fl runtime)"
    have eq: "d' = d" "u' = u" "now' = now" using decided(1,6) assms(5) by simp_all
    have count: "counts_no_progress ?p" "commanding = False"
      using assms(4) decided(3) by (simp_all add: parked_def)
    have "covers t0 v" using \<open>covers t0 ?w\<close> view_covers [OF decided(5)] by simp
    then have stall: "NO_PROGRESS_DEADLINE_S \<le> no_progress_s (accumulate ?p commanding now v)"
      using covers_accumulate(2) [of t0 v ?p now] count assms(6) by simp
    have action: "on_expiry ?p \<noteq> NO_ACTION" using policy_row_facts(1-3) count(1) by blast
    show ?thesis
      by (rule decide_fields [OF decided(7) refl refl refl])
        (use stall action in \<open>auto simp: eq count(1) expiry_value_none\<close>)
  qed (use assms(5) in simp_all)
qed

section \<open>Replay and the deployed watchdog\<close>

definition no_text :: "pyfloat \<Rightarrow> string" where
  "no_text x = []"

definition trace_row :: "int \<Rightarrow> string \<Rightarrow> document" where
  "trace_row seconds name =
     [(''phase'', JStr name), (''updated_unix_ns'', JInt (seconds * 1000000000)), (''mode'', JStr ''live''),
      (''output'', JObj [(''published_linear_x'', JFloat (Fin 0)), (''published_angular_z'', JFloat (Fin 0))])]"

definition paused_trace :: "document list" where
  "paused_trace = [trace_row 100 ''approach'', trace_row 121 ''idle'', trace_row 122 ''approach'']"

text \<open>Every row observed at the time of its stamp, and the decisions made.\<close>

fun live_decisions :: "(pyfloat \<Rightarrow> string) \<Rightarrow> ReactiveWatchdogConfig \<Rightarrow> ReactivePhaseWatchdog \<Rightarrow> document list \<Rightarrow> bool list" where
  "live_decisions fl c w [] = []"
| "live_decisions fl c w (row # rows) =
     (let stamp = (case document_stamp row of Some n \<Rightarrow> n | None \<Rightarrow> 1) in
      case observe fl c row (Fin (of_int stamp / 1000000000)) stamp w of
        (Inr d, u) \<Rightarrow> timed_out d # live_decisions fl c u rows
      | (Inl e, u) \<Rightarrow> live_decisions fl c u rows)"

text \<open>The replay of a trace is not the twin of the deployed watchdog it is documented to be: the watchdog pauses its
  accumulator in a phase that does not count, while the replay measures the wall time of the whole run. A trace
  with one second of parked base around a pause of twenty seconds fails the replay and never times out live.\<close>

theorem replay_counts_the_pause_the_watchdog_skips:
  "map_option (\<lambda>s. (passed s, map run_duration_s (no_progress_stalls s)))
     (case replay_trace no_text 30 (map JObj paused_trace) of Inr s \<Rightarrow> Some s | Inl _ \<Rightarrow> None) = Some (False, [22])
   \<and> live_decisions no_text default_watchdog_config watchdog_reset paused_trace = [False, False, False]"
  by code_simp

section \<open>Instances\<close>

definition demo_watch :: ReactivePhaseWatchdog where
  "demo_watch = snd (observe no_text default_watchdog_config (trace_row 100 ''approach'') (Fin 100) 100000000000 watchdog_reset)"

definition demo_flap :: "observation list" where
  "demo_flap = [(trace_row 110 ''transform_unavailable'', Fin 110, 110000000000)]"

lemma returns: "is_ok (fst r) \<Longrightarrow> \<exists>d u. r = (Inr d, u)"
  by (cases r; cases "fst r") auto

theorem timeout_always_names_an_action_witness:
  "\<exists>d u. observe no_text default_watchdog_config (trace_row 100 ''handoff_abandoned'') (Fin 100) 100000000000 watchdog_reset = (Inr d, u)
     \<and> timed_out d = True \<and> (wd_on_expiry d \<noteq> ''none'')"
proof -
  have "is_ok (fst (observe no_text default_watchdog_config (trace_row 100 ''handoff_abandoned'') (Fin 100) 100000000000 watchdog_reset))"
    by code_simp
  then obtain d u where r: "observe no_text default_watchdog_config (trace_row 100 ''handoff_abandoned'') (Fin 100) 100000000000 watchdog_reset = (Inr d, u)"
    using returns by blast
  moreover have "live_decisions no_text default_watchdog_config watchdog_reset [trace_row 100 ''handoff_abandoned''] = [True]"
    by code_simp
  moreover have "document_stamp (trace_row 100 ''handoff_abandoned'') = Some 100000000000" by code_simp
  ultimately have "timed_out d" by simp
  then show ?thesis using timeout_always_names_an_action [OF r] r by auto
qed

theorem quiet_decision_means_bounds_hold_witness:
  "\<exists>d u. observe no_text default_watchdog_config (trace_row 100 ''handoff_ready'') (Fin 100) 100000000000 watchdog_reset = (Inr d, u)
     \<and> wd_phase d = ''handoff_ready'' \<and> heartbeat_valid d"
proof -
  let ?o = "observe no_text default_watchdog_config (trace_row 100 ''handoff_ready'') (Fin 100) 100000000000 watchdog_reset"
  have "(case ?o of (Inr d, u) \<Rightarrow> (timed_out d, wd_phase d) | _ \<Rightarrow> (True, [])) = (False, ''handoff_ready'')"
    by code_simp
  then obtain d u where r: "?o = (Inr d, u)" and q: "\<not> timed_out d" "wd_phase d = ''handoff_ready''"
    by (auto split: prod.splits sum.splits)
  moreover have "is_handoff (phase_policy ''handoff_ready'')" by code_simp
  ultimately show ?thesis using quiet_decision_means_bounds_hold [OF r q(1)] by simp
qed

theorem parked_base_is_noticed_across_counting_phases_witness:
  "\<exists>d u. observe no_text default_watchdog_config (trace_row 120 ''approach'') (Fin 120) 120000000000
       (foldl (watch_step no_text default_watchdog_config) demo_watch demo_flap) = (Inr d, u) \<and> timed_out d"
proof -
  let ?o = "observe no_text default_watchdog_config (trace_row 120 ''approach'') (Fin 120) 120000000000
       (foldl (watch_step no_text default_watchdog_config) demo_watch demo_flap)"
  have "is_ok (fst ?o)" by code_simp
  then obtain d u where r: "?o = (Inr d, u)" using returns by blast
  have w: "last_observe_s demo_watch = Some 100" "no_progress_s demo_watch = 0" by code_simp+
  have p: "parked no_text (trace_row 110 ''transform_unavailable'')" "parked no_text (trace_row 120 ''approach'')"
    by code_simp+
  have "timed_out d"
    using parked_base_is_noticed_across_counting_phases [OF w(1) _ _ p(2) r] w(2) p(1)
    by (simp add: demo_flap_def NO_PROGRESS_DEADLINE_S_def)
  then show ?thesis using r by blast
qed

end
