(* ===== verification/Reactive_Servo.thy ===== *)
theory Reactive_Servo
  imports Servo_Phase
begin

text \<open>
  The reactive target controller of the depth servo, \<open>src/z_manip/control/reactive_servo.py\<close>: the target expressed in the
  camera, base and arm frames, the measurement-aware damping of the view loop, and the controller that turns one tracked
  target per tick into base, posture and arm-view intents. The numbers of a configuration and of a target are
  finite floats, so reals; a tick's time and lateral offset may be any float and are checked as the code does.
\<close>

type_synonym point3 = "real \<times> real \<times> real"

definition clamp_between :: "real \<Rightarrow> real \<Rightarrow> real \<Rightarrow> real" where
  "clamp_between x low high = min (max x low) high"

section \<open>Target geometry\<close>

definition point3 :: "pyfloat list \<Rightarrow> string \<Rightarrow> point3 res" where
  "point3 xs what =
     (case xs of
        [Fin x, Fin y, Fin z] \<Rightarrow> Inr (x, y, z)
      | _ \<Rightarrow> Inl (ValueError (what @ '' must contain exactly three finite values'')))"

text \<open>A list whose rows differ in length is refused by NumPy itself, also with a ValueError.\<close>

definition finite_matrix4 :: "pyfloat list list \<Rightarrow> bool" where
  "finite_matrix4 T = (length T = 4 \<and> list_all (\<lambda>r. length r = 4 \<and> list_all isfinite r) T)"

text \<open>\<open>np.allclose(row, (0, 0, 0, 1), atol=1e-8)\<close> with NumPy's relative tolerance 1e-5.\<close>

definition homogeneous_row :: "real list \<Rightarrow> bool" where
  "homogeneous_row r =
     list_all2 (\<lambda>a b. \<bar>a - b\<bar> \<le> 1 / 10 ^ 8 + 1 / 10 ^ 5 * \<bar>b\<bar>) r [0, 0, 0, 1]"

definition row_dot :: "real list \<Rightarrow> real list \<Rightarrow> real" where
  "row_dot r p = sum_list (map2 (*) r p)"

definition transform_point :: "pyfloat list list \<Rightarrow> pyfloat list \<Rightarrow> point3 res" where
  "transform_point T p =
     raise_if (\<not> finite_matrix4 T) (ValueError ''point transform must be a finite 4x4 matrix'')
     (let M = map (map the_fin) T in
      raise_if (\<not> homogeneous_row (M ! 3)) (ValueError ''point transform must have a homogeneous final row'')
      (rbind (point3 p ''source point'') (\<lambda>(x, y, z).
       let h = map (\<lambda>r. row_dot r [x, y, z, 1]) M in
       raise_if (\<bar>h ! 3\<bar> < 1 / 10 ^ 12) (ValueError ''point transform produced an invalid homogeneous point'')
       (Inr (h ! 0 / h ! 3, h ! 1 / h ! 3, h ! 2 / h ! 3)))))"

record TargetGeometry =
  camera_xyz_m :: point3
  base_xyz_m :: point3
  arm_xyz_m :: point3
  camera_range_m :: real
  camera_elevation_rad :: real
  base_planar_distance_m :: real
  base_range_m :: real
  base_bearing_rad :: real
  target_height_m :: real
  arm_range_m :: real

fun px :: "point3 \<Rightarrow> real" where
  "px (x, y, z) = x"

fun py :: "point3 \<Rightarrow> real" where
  "py (x, y, z) = y"

fun pz :: "point3 \<Rightarrow> real" where
  "pz (x, y, z) = z"

fun norm3 :: "point3 \<Rightarrow> real" where
  "norm3 (x, y, z) = sqrt (x * x + y * y + z * z)"

definition from_frames :: "pyfloat list \<Rightarrow> pyfloat list \<Rightarrow> pyfloat list \<Rightarrow> TargetGeometry res" where
  "from_frames camera_xyz base_xyz arm_xyz =
     rbind (point3 camera_xyz ''camera target'') (\<lambda>camera.
     rbind (point3 base_xyz ''base target'') (\<lambda>base.
     rbind (point3 arm_xyz ''arm target'') (\<lambda>arm.
     raise_if (pz camera \<le> 0) (ValueError ''camera target must be in front of the optical frame'')
     (Inr \<lparr> camera_xyz_m = camera, base_xyz_m = base, arm_xyz_m = arm, camera_range_m = norm3 camera,
            camera_elevation_rad = atan2 (- py camera) (pz camera),
            base_planar_distance_m = sqrt (px base * px base + py base * py base), base_range_m = norm3 base,
            base_bearing_rad = atan2 (py base) (px base), target_height_m = pz base,
            arm_range_m = norm3 arm \<rparr>))))"

definition fin_point :: "point3 \<Rightarrow> pyfloat list" where
  "fin_point p = [Fin (px p), Fin (py p), Fin (pz p)]"

definition from_camera ::
  "pyfloat list \<Rightarrow> pyfloat list list \<Rightarrow> pyfloat list list \<Rightarrow> TargetGeometry res" where
  "from_camera camera_xyz T_base_camera T_arm_camera =
     rbind (point3 camera_xyz ''camera target'') (\<lambda>camera.
     raise_if (pz camera \<le> 0) (ValueError ''camera target must be in front of the optical frame'')
     (rbind (transform_point T_base_camera (fin_point camera)) (\<lambda>base.
      rbind (transform_point T_arm_camera (fin_point camera)) (\<lambda>arm.
      from_frames (fin_point camera) (fin_point base) (fin_point arm)))))"

section \<open>Phases and intents\<close>

datatype ReactivePhase =
    RP_ACQUIRING | RP_WAITING_TARGET | RP_TRANSFORM_UNAVAILABLE | RP_BASE_APPROACH | RP_POSTURE_ADJUST
  | RP_REACQUIRE | RP_TRACKING_HOLD | RP_VIEW_RECOVERY | RP_SEARCH_REQUIRED | RP_HANDOFF_PROBE
  | RP_HANDOFF_SETTLE | RP_HANDOFF_READY

fun reactive_phase_value :: "ReactivePhase \<Rightarrow> string" where
  "reactive_phase_value RP_ACQUIRING = ''acquiring''"
| "reactive_phase_value RP_WAITING_TARGET = ''waiting_target''"
| "reactive_phase_value RP_TRANSFORM_UNAVAILABLE = ''transform_unavailable''"
| "reactive_phase_value RP_BASE_APPROACH = ''base_approach''"
| "reactive_phase_value RP_POSTURE_ADJUST = ''posture_adjust''"
| "reactive_phase_value RP_REACQUIRE = ''reacquiring''"
| "reactive_phase_value RP_TRACKING_HOLD = ''tracking_hold''"
| "reactive_phase_value RP_VIEW_RECOVERY = ''view_recovery''"
| "reactive_phase_value RP_SEARCH_REQUIRED = ''search_required''"
| "reactive_phase_value RP_HANDOFF_PROBE = ''handoff_probe''"
| "reactive_phase_value RP_HANDOFF_SETTLE = ''handoff_settle''"
| "reactive_phase_value RP_HANDOFF_READY = ''handoff_ready''"

datatype ArmViewMode = VIEW_HOLD | VIEW_TRACK | VIEW_LOOK_UP | VIEW_LOOK_DOWN | VIEW_SEARCH

record BaseMotionIntent =
  linear_x_mps :: real
  angular_z_rps :: real

record PostureIntent =
  body_height_delta_m :: real
  pitch_delta_rad :: real

record ArmViewIntent =
  view_mode :: ArmViewMode
  yaw_error_rad :: real
  pitch_error_rad :: real
  extension_fraction :: real

definition no_motion :: BaseMotionIntent where
  "no_motion = \<lparr> linear_x_mps = 0, angular_z_rps = 0 \<rparr>"

definition no_posture :: PostureIntent where
  "no_posture = \<lparr> body_height_delta_m = 0, pitch_delta_rad = 0 \<rparr>"

definition hold_view :: ArmViewIntent where
  "hold_view = \<lparr> view_mode = VIEW_HOLD, yaw_error_rad = 0, pitch_error_rad = 0, extension_fraction = 0 \<rparr>"

section \<open>View damping\<close>

record ViewMeasurementDampingConfig =
  damping_enabled :: bool
  stability_alpha :: real
  nominal_update_period_s :: real
  nominal_latency_s :: real
  min_rate_scale :: real

definition view_damping_post_init :: "ViewMeasurementDampingConfig \<Rightarrow> unit res" where
  "view_damping_post_init c =
     raise_if (list_ex (\<lambda>x. x \<le> 0) [stability_alpha c, nominal_update_period_s c, nominal_latency_s c])
       (ValueError ''view damping timing and alpha must be finite and positive'')
     (raise_if (\<not> (0 < stability_alpha c \<and> stability_alpha c < 1))
       (ValueError ''view damping stability_alpha must be within (0, 1)'')
     (raise_if (\<not> (0 \<le> min_rate_scale c \<and> min_rate_scale c \<le> 1))
       (ValueError ''view damping min_rate_scale must be within [0, 1]'') (Inr ())))"

definition effective_delay_s :: "ViewMeasurementDampingConfig \<Rightarrow> pyfloat option \<Rightarrow> real" where
  "effective_delay_s c update_period =
     (case update_period of
        Some (Fin p) \<Rightarrow> if 0 < p then p else nominal_update_period_s c
      | _ \<Rightarrow> nominal_update_period_s c) + nominal_latency_s c"

definition rate_cap_rps :: "ViewMeasurementDampingConfig \<Rightarrow> real \<Rightarrow> pyfloat option \<Rightarrow> real" where
  "rate_cap_rps c view_error update_period =
     stability_alpha c * \<bar>view_error\<bar> / effective_delay_s c update_period"

text \<open>A view error that is not finite makes the cap infinite or NaN, and the command passes.\<close>

definition rate_scale ::
  "ViewMeasurementDampingConfig \<Rightarrow> pyfloat \<Rightarrow> pyfloat \<Rightarrow> pyfloat option \<Rightarrow> real" where
  "rate_scale c view_error commanded_rate update_period =
     (if \<not> damping_enabled c then 1
      else
        case commanded_rate of
          Fin rate \<Rightarrow>
            if \<bar>rate\<bar> \<le> 1 / 10 ^ 9 then 1
            else
              (case view_error of
                 Fin err \<Rightarrow>
                   let cap = rate_cap_rps c err update_period in
                   if \<bar>rate\<bar> \<le> cap then 1 else max (min_rate_scale c) (cap / \<bar>rate\<bar>)
               | _ \<Rightarrow> 1)
        | _ \<Rightarrow> 1)"

section \<open>Configuration\<close>

record ReactiveServoConfig =
  desired_planar_standoff_m :: real
  posture_entry_planar_m :: real
  handoff_planar_max_m :: real
  handoff_lateral_tolerance_m :: real
  handoff_arm_min_range_m :: real
  handoff_arm_max_range_m :: real
  handoff_arm_min_height_m :: real
  handoff_arm_max_height_m :: real
  camera_handoff_depth_m :: real
  camera_handoff_planar_slack_m :: real
  camera_hard_min_depth_m :: real
  preferred_target_height_m :: real
  target_height_deadband_m :: real
  desired_camera_elevation_rad :: real
  camera_elevation_soft_limit_rad :: real
  camera_elevation_hard_limit_rad :: real
  linear_gain :: real
  servo_yaw_gain :: real
  max_forward_mps :: real
  max_yaw_rps :: real
  yaw_deadband_rad :: real
  elevation_approach_speed_floor :: real
  posture_height_gain :: real
  posture_pitch_gain :: real
  max_height_step_m :: real
  max_pitch_step_rad :: real
  preferred_arm_range_m :: real
  max_arm_view_extension_fraction :: real
  tracking_loss_grace_s :: real
  tracking_hold_s :: real
  reacquire_stable_s :: real
  handoff_settle_s :: real

definition servo_positive_fields :: "ReactiveServoConfig \<Rightarrow> real list" where
  "servo_positive_fields c =
     [desired_planar_standoff_m c, posture_entry_planar_m c, handoff_planar_max_m c, handoff_lateral_tolerance_m c,
      handoff_arm_min_range_m c, handoff_arm_max_range_m c, camera_handoff_depth_m c, camera_handoff_planar_slack_m c,
      camera_hard_min_depth_m c, target_height_deadband_m c, camera_elevation_soft_limit_rad c,
      camera_elevation_hard_limit_rad c, linear_gain c, servo_yaw_gain c, max_forward_mps c, max_yaw_rps c,
      posture_height_gain c, posture_pitch_gain c, max_height_step_m c, max_pitch_step_rad c, preferred_arm_range_m c,
      tracking_loss_grace_s c, reacquire_stable_s c]"

definition servo_config_post_init :: "ReactiveServoConfig \<Rightarrow> unit res" where
  "servo_config_post_init c =
     raise_if (list_ex (\<lambda>x. x \<le> 0) (servo_positive_fields c))
       (ValueError ''reactive-servo limits must be finite and positive'')
     (raise_if (posture_entry_planar_m c \<le> handoff_planar_max_m c)
       (ValueError ''posture entry must be outside the handoff corridor'')
     (raise_if (handoff_arm_max_range_m c \<le> handoff_arm_min_range_m c) (ValueError ''invalid arm range corridor'')
     (raise_if (handoff_arm_max_height_m c \<le> handoff_arm_min_height_m c) (ValueError ''invalid arm height corridor'')
     (raise_if (camera_handoff_depth_m c \<le> camera_hard_min_depth_m c)
       (ValueError ''camera hard depth limit must precede handoff depth'')
     (raise_if (camera_elevation_hard_limit_rad c \<le> camera_elevation_soft_limit_rad c)
       (ValueError ''camera soft elevation limit must precede hard limit'')
     (raise_if (\<not> (0 \<le> max_arm_view_extension_fraction c \<and> max_arm_view_extension_fraction c \<le> 1))
       (ValueError ''arm extension fraction must be within [0, 1]'')
     (raise_if (\<not> (0 \<le> elevation_approach_speed_floor c \<and> elevation_approach_speed_floor c \<le> 1))
       (ValueError ''elevation approach speed floor must be within [0, 1]'')
     (raise_if (tracking_hold_s c < 0 \<or> tracking_loss_grace_s c \<le> tracking_hold_s c)
       (ValueError ''tracking hold must be shorter than loss grace'')
     (raise_if (handoff_settle_s c < 0)
       (ValueError ''handoff settle time must be finite and non-negative'') (Inr ()))))))))))"

section \<open>The controller\<close>

record ReactiveServoDecision =
  servo_phase :: ReactivePhase
  base_intent :: BaseMotionIntent
  posture_intent :: PostureIntent
  arm_view :: ArmViewIntent
  decision_geometry :: "TargetGeometry option"
  handoff_ready :: bool
  needs_ik_probe :: bool
  decision_reason :: string

record ReactiveTargetController =
  seen_posture_actionable :: bool
  controller_phase :: ReactivePhase
  last_geometry :: "TargetGeometry option"
  last_seen_s :: "real option"
  posture_requested :: bool
  reacquire_since_s :: "real option"
  handoff_since_s :: "real option"

record ReactiveInput =
  input_geometry :: "TargetGeometry option"
  input_now_s :: pyfloat
  input_tracking :: bool
  body_settled :: bool
  ik_feasible :: "bool option"
  desired_target_lateral_m :: pyfloat
  body_posture_actionable :: bool

definition controller_reset :: ReactiveTargetController where
  "controller_reset =
     \<lparr> seen_posture_actionable = True, controller_phase = RP_WAITING_TARGET, last_geometry = None,
       last_seen_s = None, posture_requested = False, reacquire_since_s = None, handoff_since_s = None \<rparr>"

text \<open>A decision that keeps the base and the body where they are.\<close>

definition stay_put ::
  "ReactivePhase \<Rightarrow> ArmViewIntent \<Rightarrow> TargetGeometry option \<Rightarrow> string \<Rightarrow> ReactiveServoDecision" where
  "stay_put p view g why =
     \<lparr> servo_phase = p, base_intent = no_motion, posture_intent = no_posture, arm_view = view, decision_geometry = g,
       handoff_ready = False, needs_ik_probe = False, decision_reason = why \<rparr>"

definition elevation_error :: "ReactiveServoConfig \<Rightarrow> TargetGeometry \<Rightarrow> real" where
  "elevation_error c g = camera_elevation_rad g - desired_camera_elevation_rad c"

definition height_error :: "ReactiveServoConfig \<Rightarrow> TargetGeometry \<Rightarrow> real" where
  "height_error c g = target_height_m g - preferred_target_height_m c"

definition arm_view_of :: "ReactiveServoConfig \<Rightarrow> TargetGeometry \<Rightarrow> bool \<Rightarrow> ArmViewIntent" where
  "arm_view_of c g search =
     (let err = elevation_error c g in
      \<lparr> view_mode = (if search then VIEW_SEARCH
                     else if camera_elevation_soft_limit_rad c < err then VIEW_LOOK_UP
                     else if err < - camera_elevation_soft_limit_rad c then VIEW_LOOK_DOWN
                     else VIEW_TRACK),
        yaw_error_rad = base_bearing_rad g, pitch_error_rad = err,
        extension_fraction = clamp_between ((arm_range_m g - preferred_arm_range_m c) / (35 / 100)) 0
                               (max_arm_view_extension_fraction c) \<rparr>)"

definition posture_of :: "ReactiveServoConfig \<Rightarrow> TargetGeometry \<Rightarrow> PostureIntent" where
  "posture_of c g =
     \<lparr> body_height_delta_m =
         clamp_between (posture_height_gain c * height_error c g) (- max_height_step_m c) (max_height_step_m c),
       pitch_delta_rad =
         clamp_between (posture_pitch_gain c * elevation_error c g) (- max_pitch_step_rad c) (max_pitch_step_rad c) \<rparr>"

definition arm_corridor_ok :: "ReactiveServoConfig \<Rightarrow> TargetGeometry \<Rightarrow> bool" where
  "arm_corridor_ok c g =
     (handoff_arm_min_range_m c \<le> arm_range_m g \<and> arm_range_m g \<le> handoff_arm_max_range_m c
      \<and> handoff_arm_min_height_m c \<le> pz (arm_xyz_m g) \<and> pz (arm_xyz_m g) \<le> handoff_arm_max_height_m c)"

definition lateral_aligned :: "ReactiveServoConfig \<Rightarrow> TargetGeometry \<Rightarrow> real \<Rightarrow> bool" where
  "lateral_aligned c g lat = (\<bar>py (base_xyz_m g) - lat\<bar> \<le> handoff_lateral_tolerance_m c)"

definition handoff_geometry_ok :: "ReactiveServoConfig \<Rightarrow> TargetGeometry \<Rightarrow> real \<Rightarrow> bool" where
  "handoff_geometry_ok c g lat =
     (base_planar_distance_m g \<le> handoff_planar_max_m c \<and> lateral_aligned c g lat \<and> arm_corridor_ok c g
      \<and> \<bar>camera_elevation_rad g\<bar> \<le> camera_elevation_hard_limit_rad c)"

definition near_field_handoff :: "ReactiveServoConfig \<Rightarrow> TargetGeometry \<Rightarrow> real \<Rightarrow> bool" where
  "near_field_handoff c g lat =
     (pz (camera_xyz_m g) \<le> camera_handoff_depth_m c
      \<and> base_planar_distance_m g \<le> handoff_planar_max_m c + camera_handoff_planar_slack_m c
      \<and> lateral_aligned c g lat \<and> arm_corridor_ok c g)"

definition hard_near_field :: "ReactiveServoConfig \<Rightarrow> TargetGeometry \<Rightarrow> bool" where
  "hard_near_field c g = (pz (camera_xyz_m g) \<le> camera_hard_min_depth_m c)"

definition handoff_candidate :: "ReactiveServoConfig \<Rightarrow> TargetGeometry \<Rightarrow> real \<Rightarrow> bool" where
  "handoff_candidate c g lat = (near_field_handoff c g lat \<or> hard_near_field c g \<or> handoff_geometry_ok c g lat)"

subsection \<open>Loss of the target\<close>

definition servo_lost ::
  "ReactiveServoConfig \<Rightarrow> real \<Rightarrow> ReactiveTargetController \<Rightarrow> ReactiveServoDecision \<times> ReactiveTargetController" where
  "servo_lost c now s =
     (case (last_geometry s, last_seen_s s) of
        (Some g, Some seen) \<Rightarrow>
          let age = max 0 (now - seen) in
          if age \<le> tracking_hold_s c then
            (stay_put RP_TRACKING_HOLD hold_view (Some g)
               (''brief tracker gap; freeze base/posture commands and retain '' @ ''the last filtered viewing ray''),
             s\<lparr> controller_phase := RP_TRACKING_HOLD \<rparr>)
          else if age \<le> tracking_loss_grace_s c then
            ((stay_put RP_VIEW_RECOVERY (arm_view_of c g True) (Some g)
               ''hold the base and recover the last observed viewing ray'')
               \<lparr> posture_intent := if seen_posture_actionable s then posture_of c g else no_posture \<rparr>,
             s\<lparr> handoff_since_s := None, controller_phase := RP_VIEW_RECOVERY \<rparr>)
          else
            (stay_put RP_SEARCH_REQUIRED (arm_view_of c g True) (Some g)
               ''tracking-loss grace expired; start bounded wrist/body search'',
             s\<lparr> controller_phase := RP_SEARCH_REQUIRED, handoff_since_s := None \<rparr>)
      | _ \<Rightarrow>
          (stay_put RP_ACQUIRING hold_view None
             (''no 3-D target has been received yet; hold the base and '' @ ''the seeded view while acquisition completes''),
           s\<lparr> controller_phase := RP_ACQUIRING \<rparr>))"

subsection \<open>Base approach\<close>

definition desired_forward_m :: "ReactiveServoConfig \<Rightarrow> real \<Rightarrow> real" where
  "desired_forward_m c lat =
     sqrt (max (desired_planar_standoff_m c * desired_planar_standoff_m c - lat * lat) (5 / 100 * (5 / 100)))"

definition approach_ramp :: "ReactiveServoConfig \<Rightarrow> real \<Rightarrow> real" where
  "approach_ramp c excess =
     (let span = camera_elevation_hard_limit_rad c - camera_elevation_soft_limit_rad c;
          ramp = 1 - excess / span * (1 - elevation_approach_speed_floor c)
      in clamp_between ramp (elevation_approach_speed_floor c) 1)"

definition forward_speed :: "ReactiveServoConfig \<Rightarrow> TargetGeometry \<Rightarrow> real \<Rightarrow> real" where
  "forward_speed c g lat =
     (let distance_error = max 0 (px (base_xyz_m g) - desired_forward_m c lat);
          speed = min (linear_gain c * distance_error) (max_forward_mps c);
          excess = \<bar>elevation_error c g\<bar> - camera_elevation_soft_limit_rad c
      in if 0 < excess then speed * approach_ramp c excess else speed)"

definition steering_rate :: "ReactiveServoConfig \<Rightarrow> TargetGeometry \<Rightarrow> real \<Rightarrow> real" where
  "steering_rate c g lat =
     (let bearing = atan2 (py (base_xyz_m g) - lat) (max (px (base_xyz_m g)) (5 / 100))
      in if \<bar>bearing\<bar> \<le> yaw_deadband_rad c then 0
         else clamp_between (servo_yaw_gain c * bearing) (- max_yaw_rps c) (max_yaw_rps c))"

definition base_approach ::
  "ReactiveServoConfig \<Rightarrow> TargetGeometry \<Rightarrow> real \<Rightarrow> ReactiveServoDecision" where
  "base_approach c g lat =
     (stay_put RP_BASE_APPROACH (arm_view_of c g False) (Some g)
        (if handoff_geometry_ok c g lat then ''inside the coarse arm corridor; waiting for an IK-feasible grasp''
         else ''approaching with ground-plane Euclidean distance''))
     \<lparr> base_intent := \<lparr> linear_x_mps = forward_speed c g lat, angular_z_rps = steering_rate c g lat \<rparr> \<rparr>"

subsection \<open>A tracked target\<close>

text \<open>The near-field boundary: freeze the view, hand over when the corridor and the IK probe agree.\<close>

definition near_field_decision ::
  "ReactiveServoConfig \<Rightarrow> ReactiveInput \<Rightarrow> TargetGeometry \<Rightarrow> real \<Rightarrow> ReactiveServoDecision" where
  "near_field_decision c v g lat =
     (if handoff_geometry_ok c g lat \<and> ik_feasible v = Some True then
        (stay_put RP_HANDOFF_READY hold_view (Some g) ''D435 near-field handoff reached with an IK-feasible grasp'')
        \<lparr> handoff_ready := True \<rparr>
      else
        (stay_put RP_HANDOFF_PROBE hold_view (Some g)
           (if hard_near_field c g
            then ''D435 hard near-field floor reached; freeze the viewing pose '' @ ''and start close-range planning''
            else ''D435 soft near-field boundary reached; start close-range '' @ ''planning before depth is lost''))
        \<lparr> needs_ik_probe := ik_feasible v = None \<rparr>)"

definition corridor_decision ::
  "ReactiveServoConfig \<Rightarrow> ReactiveInput \<Rightarrow> TargetGeometry \<Rightarrow> ReactiveServoDecision" where
  "corridor_decision c v g =
     (if ik_feasible v = Some True then
        (stay_put RP_HANDOFF_READY (arm_view_of c g False) (Some g)
           ''3-D arm corridor and explicit IK probe both passed'')\<lparr> handoff_ready := True \<rparr>
      else
        (stay_put RP_HANDOFF_PROBE (arm_view_of c g False) (Some g)
           (if ik_feasible v = None then ''3-D corridor reached; waiting for downstream IK probe''
            else ''IK probe rejected this work pose; base remains stopped''))
        \<lparr> needs_ik_probe := ik_feasible v = None \<rparr>)"

definition view_at_risk :: "ReactiveServoConfig \<Rightarrow> TargetGeometry \<Rightarrow> bool" where
  "view_at_risk c g =
     (camera_elevation_soft_limit_rad c < \<bar>elevation_error c g\<bar> \<or> target_height_deadband_m c < \<bar>height_error c g\<bar>)"

definition posture_adjust ::
  "ReactiveServoConfig \<Rightarrow> TargetGeometry \<Rightarrow> string \<Rightarrow> ReactiveServoDecision" where
  "posture_adjust c g why =
     (stay_put RP_POSTURE_ADJUST (arm_view_of c g False) (Some g) why)\<lparr> posture_intent := posture_of c g \<rparr>"

text \<open>No posture request pending: start one, hand over, or drive.\<close>

definition settled_decision ::
  "ReactiveServoConfig \<Rightarrow> ReactiveInput \<Rightarrow> TargetGeometry \<Rightarrow> real \<Rightarrow> ReactiveTargetController
     \<Rightarrow> ReactiveServoDecision \<times> ReactiveTargetController" where
  "settled_decision c v g lat s =
     (if base_planar_distance_m g \<le> posture_entry_planar_m c \<and> view_at_risk c g \<and> body_posture_actionable v then
        (posture_adjust c g ''target height/elevation risks leaving the wrist-camera view'',
         s\<lparr> posture_requested := True, controller_phase := RP_POSTURE_ADJUST \<rparr>)
      else if handoff_geometry_ok c g lat then
        (corridor_decision c v g, s\<lparr> controller_phase := servo_phase (corridor_decision c v g) \<rparr>)
      else (base_approach c g lat, s\<lparr> controller_phase := RP_BASE_APPROACH \<rparr>))"

definition posture_stage ::
  "ReactiveServoConfig \<Rightarrow> ReactiveInput \<Rightarrow> TargetGeometry \<Rightarrow> real \<Rightarrow> real \<Rightarrow> ReactiveTargetController
     \<Rightarrow> ReactiveServoDecision \<times> ReactiveTargetController" where
  "posture_stage c v g now lat s0 =
     (let s = (if body_posture_actionable v then s0
               else s0\<lparr> posture_requested := False, reacquire_since_s := None \<rparr>) in
      if \<not> posture_requested s then settled_decision c v g lat s
      else if \<not> body_settled v then
        (posture_adjust c g ''waiting for measured body/arm viewing pose to settle'',
         s\<lparr> controller_phase := RP_POSTURE_ADJUST \<rparr>)
      else
        let since = (case reacquire_since_s s of None \<Rightarrow> now | Some t \<Rightarrow> t) in
        if now - since + 1 / 10 ^ 9 < reacquire_stable_s c then
          (stay_put RP_REACQUIRE (arm_view_of c g False) (Some g)
             ''rebuilding a stable 3-D track after posture motion'',
           s\<lparr> reacquire_since_s := Some since, controller_phase := RP_REACQUIRE \<rparr>)
        else settled_decision c v g lat (s\<lparr> posture_requested := False, reacquire_since_s := None \<rparr>))"

definition servo_tracked ::
  "ReactiveServoConfig \<Rightarrow> ReactiveInput \<Rightarrow> TargetGeometry \<Rightarrow> real \<Rightarrow> real \<Rightarrow> ReactiveTargetController
     \<Rightarrow> ReactiveServoDecision \<times> ReactiveTargetController" where
  "servo_tracked c v g now lat s0 =
     (let since = (if \<not> handoff_candidate c g lat then None
                   else case handoff_since_s s0 of None \<Rightarrow> Some now | Some t \<Rightarrow> Some t);
          s = s0\<lparr> last_geometry := Some g, last_seen_s := Some now, handoff_since_s := since \<rparr>;
          quiet = s\<lparr> posture_requested := False, reacquire_since_s := None \<rparr> in
      if handoff_candidate c g lat \<and> now - the since + 1 / 10 ^ 9 < handoff_settle_s c then
        (stay_put RP_HANDOFF_SETTLE hold_view (Some g)
           (''handoff corridor reached; wait for stepping/image motion '' @ ''to settle before the close-range capture''),
         quiet\<lparr> controller_phase := RP_HANDOFF_SETTLE \<rparr>)
      else if near_field_handoff c g lat \<or> hard_near_field c g then
        (near_field_decision c v g lat,
         quiet\<lparr> controller_phase := servo_phase (near_field_decision c v g lat) \<rparr>)
      else posture_stage c v g now lat s)"

definition finite_or :: "pyfloat \<Rightarrow> string \<Rightarrow> real res" where
  "finite_or x why = (case x of Fin r \<Rightarrow> Inr r | _ \<Rightarrow> Inl (ValueError why))"

definition servo_update ::
  "ReactiveServoConfig \<Rightarrow> ReactiveInput \<Rightarrow> ReactiveTargetController
     \<Rightarrow> (ReactiveServoDecision, ReactiveTargetController) outcome" where
  "servo_update c v s =
     gbind (finite_or (input_now_s v) ''reactive-servo timestamp must be finite'') s (\<lambda>now.
     gbind (finite_or (desired_target_lateral_m v) ''desired target lateral offset must be finite'') s (\<lambda>lat.
     case (if input_tracking v then input_geometry v else None) of
       None \<Rightarrow>
         (case servo_lost c now
                 (s\<lparr> reacquire_since_s := None, seen_posture_actionable := body_posture_actionable v \<rparr>) of
            (d, t) \<Rightarrow> (Inr d, t))
     | Some g \<Rightarrow> (case servo_tracked c v g now lat s of (d, t) \<Rightarrow> (Inr d, t))))"

end
