(* ===== verification/Reactive_Laws.thy ===== *)
theory Reactive_Laws
  imports Reactive_Servo Interfaces
begin

text \<open>
  Properties of the reactive target controller: bounded intents, motion only in the phases the servo phase table gives to the
  visual servo, the loss stair as a function of the last tracked tick, the evidence behind every handoff, and the rotation
  the view damping lets through.
\<close>

section \<open>Intents\<close>

text \<open>What a decision may ask of the base, the body and the arm.\<close>

definition intents_within :: "ReactiveServoConfig \<Rightarrow> ReactiveInput \<Rightarrow> ReactiveServoDecision \<Rightarrow> bool" where
  "intents_within c v d =
     (0 \<le> linear_x_mps (base_intent d) \<and> linear_x_mps (base_intent d) \<le> max_forward_mps c
      \<and> \<bar>angular_z_rps (base_intent d)\<bar> \<le> max_yaw_rps c
      \<and> \<bar>body_height_delta_m (posture_intent d)\<bar> \<le> max_height_step_m c
      \<and> \<bar>pitch_delta_rad (posture_intent d)\<bar> \<le> max_pitch_step_rad c
      \<and> 0 \<le> extension_fraction (arm_view d)
      \<and> extension_fraction (arm_view d) \<le> max_arm_view_extension_fraction c
      \<and> (base_intent d = no_motion \<or> servo_phase d = RP_BASE_APPROACH \<and> input_tracking v)
      \<and> (posture_intent d = no_posture \<or> body_posture_actionable v \<and> servo_phase d \<in> {RP_POSTURE_ADJUST, RP_VIEW_RECOVERY}))"

lemma clamp_between_bounds:
  "low \<le> high \<Longrightarrow> low \<le> clamp_between x low high \<and> clamp_between x low high \<le> high"
  by (simp add: clamp_between_def)

lemma clamp_between_abs: "0 \<le> b \<Longrightarrow> \<bar>clamp_between x (- b) b\<bar> \<le> b"
  using clamp_between_bounds [of "- b" b x] by (simp add: abs_le_iff)

lemma servo_config_positive: "servo_config_post_init c = Inr () \<Longrightarrow> x \<in> set (servo_positive_fields c) \<Longrightarrow> 0 < x"
  by (auto simp: servo_config_post_init_def list_ex_iff not_le)

lemma servo_config_facts:
  assumes "servo_config_post_init c = Inr ()"
  shows "0 < max_forward_mps c" "0 < max_yaw_rps c" "0 < max_height_step_m c" "0 < max_pitch_step_rad c" "0 < linear_gain c"
    and "0 \<le> max_arm_view_extension_fraction c"
    and "0 \<le> elevation_approach_speed_floor c" "elevation_approach_speed_floor c \<le> 1"
    and "0 \<le> tracking_hold_s c" "tracking_hold_s c < tracking_loss_grace_s c" "0 \<le> handoff_settle_s c"
  using assms servo_config_positive [OF assms]
  by (auto simp: servo_positive_fields_def servo_config_post_init_def)

lemma forward_speed_bounds:
  assumes c: "servo_config_post_init c = Inr ()"
  shows "0 \<le> forward_speed c g lat \<and> forward_speed c g lat \<le> max_forward_mps c"
proof -
  note f = servo_config_facts [OF c]
  define speed where "speed = min (linear_gain c * max 0 (px (base_xyz_m g) - desired_forward_m c lat)) (max_forward_mps c)"
  have speed: "0 \<le> speed" "speed \<le> max_forward_mps c" using f by (simp_all add: speed_def)
  have ramp: "0 \<le> approach_ramp c e \<and> approach_ramp c e \<le> 1" for e
    using clamp_between_bounds [OF f(8)] f(7) unfolding approach_ramp_def Let_def by (meson order_trans)
  have "0 \<le> speed * approach_ramp c e \<and> speed * approach_ramp c e \<le> max_forward_mps c" for e
    using ramp [of e] speed mult_left_le [of "approach_ramp c e" speed] by (auto intro: order_trans)
  then show ?thesis using speed by (simp add: forward_speed_def Let_def speed_def [symmetric])
qed

lemma steering_rate_bound: "servo_config_post_init c = Inr () \<Longrightarrow> \<bar>steering_rate c g lat\<bar> \<le> max_yaw_rps c"
  using clamp_between_abs [of "max_yaw_rps c"] servo_config_facts(2) [of c]
  by (auto simp: steering_rate_def Let_def)

lemma view_extension_bounds:
  "servo_config_post_init c = Inr () \<Longrightarrow>
   0 \<le> extension_fraction (arm_view_of c g b) \<and> extension_fraction (arm_view_of c g b) \<le> max_arm_view_extension_fraction c"
  using clamp_between_bounds servo_config_facts(6) by (simp add: arm_view_of_def Let_def)

lemma posture_bounds:
  "servo_config_post_init c = Inr () \<Longrightarrow>
   \<bar>body_height_delta_m (posture_of c g)\<bar> \<le> max_height_step_m c \<and> \<bar>pitch_delta_rad (posture_of c g)\<bar> \<le> max_pitch_step_rad c"
  using clamp_between_abs servo_config_facts(3,4) by (simp add: posture_of_def less_imp_le)

lemmas quiet_defs = stay_put_def no_motion_def no_posture_def hold_view_def

named_theorems intents

lemma stay_put_within [intents]:
  assumes "servo_config_post_init c = Inr ()"
  shows "intents_within c v (stay_put p hold_view go why)"
    and "intents_within c v (stay_put p (arm_view_of c g b) go why)"
  using assms servo_config_facts [OF assms(1)] view_extension_bounds [OF assms(1)]
  by (auto simp: intents_within_def quiet_defs)

lemma posture_within [intents]:
  assumes "servo_config_post_init c = Inr ()" and "body_posture_actionable v" and "p \<in> {RP_POSTURE_ADJUST, RP_VIEW_RECOVERY}"
  shows "intents_within c v ((stay_put p (arm_view_of c g b) go why)\<lparr> posture_intent := posture_of c g \<rparr>)"
  using assms servo_config_facts [OF assms(1)] view_extension_bounds [OF assms(1)] posture_bounds [OF assms(1)]
  by (auto simp: intents_within_def stay_put_def no_motion_def)

lemma approach_within [intents]:
  assumes "servo_config_post_init c = Inr ()" and "input_tracking v"
  shows "intents_within c v (base_approach c g lat)"
  using assms servo_config_facts [OF assms(1)] view_extension_bounds [OF assms(1)] forward_speed_bounds [OF assms(1)]
    steering_rate_bound [OF assms(1)]
  by (auto simp: intents_within_def base_approach_def stay_put_def no_posture_def)

lemma flags_keep_within [intents]:
  "intents_within c v (d\<lparr> handoff_ready := b \<rparr>) = intents_within c v d"
  "intents_within c v (d\<lparr> needs_ik_probe := b \<rparr>) = intents_within c v d"
  by (simp_all add: intents_within_def)

lemma within_no_posture: "(stay_put p view g why)\<lparr> posture_intent := no_posture \<rparr> = stay_put p view g why"
  by (simp add: stay_put_def)

lemma settled_within:
  "servo_config_post_init c = Inr () \<Longrightarrow> input_tracking v \<Longrightarrow> intents_within c v (fst (settled_decision c v g lat s))"
  by (auto simp: settled_decision_def posture_adjust_def corridor_decision_def intents)

lemma tracked_within:
  "servo_config_post_init c = Inr () \<Longrightarrow> input_tracking v \<Longrightarrow> intents_within c v (fst (servo_tracked c v g now lat s))"
  by (auto simp: servo_tracked_def posture_stage_def Let_def near_field_decision_def posture_adjust_def intents settled_within)

lemma lost_within:
  "servo_config_post_init c = Inr () \<Longrightarrow> seen_posture_actionable s = body_posture_actionable v \<Longrightarrow>
   intents_within c v (fst (servo_lost c now s))"
  by (auto simp: servo_lost_def Let_def intents within_no_posture split: option.split)

text \<open>The two ways a tick returns.\<close>

lemma servo_update_cases [consumes 1, case_names lost tracked]:
  assumes "servo_update c v s = (Inr d, t)"
  obtains now lat where "input_now_s v = Fin now" "desired_target_lateral_m v = Fin lat"
      "\<not> input_tracking v \<or> input_geometry v = None"
      "(d, t) = servo_lost c now (s\<lparr> reacquire_since_s := None, seen_posture_actionable := body_posture_actionable v \<rparr>)"
  | now lat g where "input_now_s v = Fin now" "desired_target_lateral_m v = Fin lat" "input_tracking v"
      "input_geometry v = Some g" "(d, t) = servo_tracked c v g now lat s"
  using assms
  by (auto simp: servo_update_def finite_or_def split: pyfloat.splits if_splits option.splits prod.splits)

text \<open>Every intent of the reactive controller is within its configured limits, the base moves only in the approach
  phase on a tracked target (the phase the servo phase table gives to the visual servo), and the body posture is asked for only when
  the platform can act on it.\<close>

theorem reactive_intents_bounded:
  assumes "servo_config_post_init c = Inr ()" and "servo_update c v s = (Inr d, t)"
  shows "intents_within c v d
    \<and> (base_intent d \<noteq> no_motion \<longrightarrow>
         expected_base_owner (phase_policy (reactive_phase_value (servo_phase d))) = OWNER_VISUAL_SERVO)"
proof -
  from assms(2) have "intents_within c v d"
  proof (cases rule: servo_update_cases)
    case (lost now lat)
    show ?thesis using lost_within [OF assms(1), of "s\<lparr> reacquire_since_s := None, seen_posture_actionable := body_posture_actionable v \<rparr>" v now]
        lost(4) [symmetric] by simp
  next
    case (tracked now lat g)
    show ?thesis using tracked_within [OF assms(1) tracked(3)] tracked(5) [symmetric] by (metis fst_conv)
  qed
  moreover have "expected_base_owner (phase_policy (reactive_phase_value RP_BASE_APPROACH)) = OWNER_VISUAL_SERVO"
    by code_simp
  ultimately show ?thesis by (auto simp: intents_within_def)
qed

text \<open>A deployment's configuration, its angles in rounded radians, and a target inside its handoff corridor.\<close>

definition sample_servo_config :: ReactiveServoConfig where
  "sample_servo_config =
     \<lparr> desired_planar_standoff_m = 52 / 100, posture_entry_planar_m = 85 / 100, handoff_planar_max_m = 62 / 100,
       handoff_lateral_tolerance_m = 7 / 100, handoff_arm_min_range_m = 2 / 10, handoff_arm_max_range_m = 8 / 10,
       handoff_arm_min_height_m = - 4 / 10, handoff_arm_max_height_m = 65 / 100, camera_handoff_depth_m = 52 / 100,
       camera_handoff_planar_slack_m = 15 / 100, camera_hard_min_depth_m = 38 / 100, preferred_target_height_m = - 1 / 10,
       target_height_deadband_m = 8 / 100, desired_camera_elevation_rad = - 14 / 100,
       camera_elevation_soft_limit_rad = 28 / 100, camera_elevation_hard_limit_rad = 45 / 100, linear_gain = 65 / 100,
       servo_yaw_gain = 7 / 10, max_forward_mps = 18 / 100, max_yaw_rps = 12 / 100, yaw_deadband_rad = 12 / 100,
       elevation_approach_speed_floor = 1 / 4, posture_height_gain = 55 / 100, posture_pitch_gain = 7 / 10,
       max_height_step_m = 1 / 10, max_pitch_step_rad = 17 / 100, preferred_arm_range_m = 55 / 100,
       max_arm_view_extension_fraction = 65 / 100, tracking_loss_grace_s = 275 / 100, tracking_hold_s = 1 / 2,
       reacquire_stable_s = 1 / 4, handoff_settle_s = 3 / 10 \<rparr>"

definition sample_target :: TargetGeometry where
  "sample_target =
     \<lparr> camera_xyz_m = (0, 0, 1 / 2), base_xyz_m = (1 / 2, 0, - 1 / 10), arm_xyz_m = (4 / 10, 0, 0), camera_range_m = 1 / 2,
       camera_elevation_rad = 0, base_planar_distance_m = 1 / 2, base_range_m = 51 / 100, base_bearing_rad = 0,
       target_height_m = - 1 / 10, arm_range_m = 4 / 10 \<rparr>"

definition sample_tick :: "real \<Rightarrow> TargetGeometry option \<Rightarrow> ReactiveInput" where
  "sample_tick now g =
     \<lparr> input_geometry = g, input_now_s = Fin now, input_tracking = g \<noteq> None, body_settled = True,
       ik_feasible = Some True, desired_target_lateral_m = Fin 0, body_posture_actionable = True \<rparr>"

definition far_target :: TargetGeometry where
  "far_target = sample_target\<lparr> camera_xyz_m := (0, 0, 2), base_xyz_m := (2, 0, - 1 / 10), base_planar_distance_m := 2 \<rparr>"

lemma sample_servo_config_ok: "servo_config_post_init sample_servo_config = Inr ()"
  by code_simp

lemmas sample_servo_eval =
  servo_update_def sample_tick_def finite_or_def servo_tracked_def servo_lost_def posture_stage_def settled_decision_def
  near_field_decision_def stay_put_def far_target_def sample_target_def sample_servo_config_def handoff_candidate_def
  near_field_handoff_def hard_near_field_def handoff_geometry_ok_def lateral_aligned_def arm_corridor_ok_def
  controller_reset_def Let_def

lemma far_target_approach:
  "servo_update sample_servo_config (sample_tick 0 (Some far_target)) controller_reset
     = (Inr (base_approach sample_servo_config far_target 0),
        controller_reset\<lparr> last_geometry := Some far_target, last_seen_s := Some 0,
                          controller_phase := RP_BASE_APPROACH \<rparr>)"
  by (simp add: sample_servo_eval)

theorem reactive_intents_bounded_witness:
  "intents_within sample_servo_config (sample_tick 0 (Some far_target))
     (base_approach sample_servo_config far_target 0)"
  using reactive_intents_bounded [OF sample_servo_config_ok far_target_approach] by simp

section \<open>Runs\<close>

definition servo_step :: "ReactiveServoConfig \<Rightarrow> ReactiveTargetController \<Rightarrow> ReactiveInput \<Rightarrow> ReactiveTargetController" where
  "servo_step c s v = snd (servo_update c v s)"

definition servo_run :: "ReactiveServoConfig \<Rightarrow> ReactiveInput list \<Rightarrow> ReactiveTargetController" where
  "servo_run c vs = foldl (servo_step c) controller_reset vs"

lemma servo_run_Nil [simp]: "servo_run c [] = controller_reset"
  by (simp add: servo_run_def)

lemma servo_run_snoc [simp]: "servo_run c (vs @ [v]) = servo_step c (servo_run c vs) v"
  by (simp add: servo_run_def)

text \<open>The target a tick is given: a tick with a time or an offset that is not finite raises before it reads it.\<close>

definition tick_target :: "ReactiveInput \<Rightarrow> (TargetGeometry \<times> real \<times> real) option" where
  "tick_target v =
     (case (input_now_s v, desired_target_lateral_m v, if input_tracking v then input_geometry v else None) of
        (Fin now, Fin lat, Some g) \<Rightarrow> Some (g, now, lat)
      | _ \<Rightarrow> None)"

lemma servo_update_atomic: "atomic s (servo_update c v s)"
  by (auto simp: servo_update_def atomic_def finite_or_def split: pyfloat.split option.split prod.split sum.split)

lemma servo_step_cases [case_names raised lost tracked]:
  obtains (raised) e where "servo_update c v s = (Inl e, s)" "servo_step c s v = s" "tick_target v = None"
    "\<not> (isfinite (input_now_s v) \<and> isfinite (desired_target_lateral_m v))"
  | (lost) d t now lat where "servo_update c v s = (Inr d, t)" "servo_step c s v = t" "tick_target v = None"
      "input_now_s v = Fin now" "desired_target_lateral_m v = Fin lat"
      "(d, t) = servo_lost c now (s\<lparr> reacquire_since_s := None, seen_posture_actionable := body_posture_actionable v \<rparr>)"
  | (tracked) d t g now lat where "servo_update c v s = (Inr d, t)" "servo_step c s v = t"
      "tick_target v = Some (g, now, lat)" "(d, t) = servo_tracked c v g now lat s"
proof (cases "fst (servo_update c v s)")
  case (Inl e)
  with servo_update_atomic [of s c v] have "servo_update c v s = (Inl e, s)"
    by (cases "servo_update c v s") (simp add: atomic_def)
  moreover from this have "\<not> (isfinite (input_now_s v) \<and> isfinite (desired_target_lateral_m v))"
    by (auto simp: servo_update_def finite_or_def isfinite_iff split: prod.splits option.splits)
  ultimately show ?thesis
    by (intro raised) (auto simp: servo_step_def tick_target_def split: pyfloat.splits)
next
  case (Inr d)
  then have "servo_update c v s = (Inr d, servo_step c s v)" by (metis prod.collapse servo_step_def)
  then show ?thesis
  proof (cases rule: servo_update_cases)
    case l: (lost now lat)
    then show ?thesis
      by (intro lost [OF \<open>servo_update c v s = (Inr d, servo_step c s v)\<close> refl _ l(1,2,4)])
        (auto simp: tick_target_def)
  next
    case t: (tracked now lat g)
    then show ?thesis
      by (intro tracked [OF \<open>servo_update c v s = (Inr d, servo_step c s v)\<close> refl _ t(5)])
        (auto simp: tick_target_def)
  qed
qed

lemma tick_target_input:
  "tick_target v = Some (g, now, lat) \<longleftrightarrow>
     input_now_s v = Fin now \<and> desired_target_lateral_m v = Fin lat \<and> input_tracking v \<and> input_geometry v = Some g"
  by (auto simp: tick_target_def split: pyfloat.splits option.splits if_splits)

section \<open>The loss stair\<close>

text \<open>The last tracked target of a history.\<close>

definition last_tracked :: "ReactiveInput list \<Rightarrow> (TargetGeometry \<times> real) option" where
  "last_tracked vs =
     foldl (\<lambda>seen v. case tick_target v of None \<Rightarrow> seen | Some (g, now, _) \<Rightarrow> Some (g, now)) None vs"

lemma last_tracked_snoc [simp]:
  "last_tracked (vs @ [v]) =
     (case tick_target v of None \<Rightarrow> last_tracked vs | Some (g, now, _) \<Rightarrow> Some (g, now))"
  unfolding last_tracked_def by simp

lemma last_tracked_Nil [simp]: "last_tracked [] = None"
  by (simp add: last_tracked_def)

definition remembered :: "ReactiveTargetController \<Rightarrow> (TargetGeometry \<times> real) option" where
  "remembered s = (case (last_geometry s, last_seen_s s) of (Some g, Some seen) \<Rightarrow> Some (g, seen) | _ \<Rightarrow> None)"

lemma settled_keeps:
  "last_geometry (snd (settled_decision c v g lat s)) = last_geometry s"
  "last_seen_s (snd (settled_decision c v g lat s)) = last_seen_s s"
  "handoff_since_s (snd (settled_decision c v g lat s)) = handoff_since_s s"
  by (simp_all add: settled_decision_def)

lemma posture_stage_keeps:
  "last_geometry (snd (posture_stage c v g now lat s)) = last_geometry s"
  "last_seen_s (snd (posture_stage c v g now lat s)) = last_seen_s s"
  "handoff_since_s (snd (posture_stage c v g now lat s)) = handoff_since_s s"
  by (simp_all add: posture_stage_def Let_def settled_keeps)

lemma tracked_state:
  "last_geometry (snd (servo_tracked c v g now lat s)) = Some g"
  "last_seen_s (snd (servo_tracked c v g now lat s)) = Some now"
  "handoff_since_s (snd (servo_tracked c v g now lat s)) =
     (if \<not> handoff_candidate c g lat then None
      else case handoff_since_s s of None \<Rightarrow> Some now | Some t \<Rightarrow> Some t)"
  by (simp_all add: servo_tracked_def Let_def posture_stage_keeps)

lemma lost_keeps_memory:
  "last_geometry (snd (servo_lost c now s)) = last_geometry s"
  "last_seen_s (snd (servo_lost c now s)) = last_seen_s s"
  by (simp_all add: servo_lost_def Let_def split: option.split)

lemma remembered_step:
  "remembered (servo_step c s v) = (case tick_target v of None \<Rightarrow> remembered s | Some (g, now, _) \<Rightarrow> Some (g, now))"
proof (cases rule: servo_step_cases [where c = c and v = v and s = s])
  case (raised e)
  then show ?thesis by simp
next
  case (lost d t now lat)
  then have "t = snd (servo_lost c now (s\<lparr> reacquire_since_s := None, seen_posture_actionable := body_posture_actionable v \<rparr>))"
    by (metis snd_conv)
  then show ?thesis using lost(2,3) by (simp add: remembered_def lost_keeps_memory)
next
  case (tracked d t g now lat)
  then have "t = snd (servo_tracked c v g now lat s)" by (metis snd_conv)
  then show ?thesis using tracked(2,3) by (simp add: remembered_def tracked_state)
qed

lemma remembered_run: "remembered (servo_run c vs) = last_tracked vs"
proof (induction vs rule: rev_induct)
  case Nil
  show ?case by (simp add: remembered_def controller_reset_def)
next
  case (snoc v vs)
  then show ?case by (simp add: remembered_step split: option.split)
qed

text \<open>The stair as a function of the history alone.\<close>

definition stair_phase :: "ReactiveServoConfig \<Rightarrow> real \<Rightarrow> (TargetGeometry \<times> real) option \<Rightarrow> ReactivePhase" where
  "stair_phase c now seen =
     (case seen of
        None \<Rightarrow> RP_ACQUIRING
      | Some (_, at_time) \<Rightarrow>
          if max 0 (now - at_time) \<le> tracking_hold_s c then RP_TRACKING_HOLD
          else if max 0 (now - at_time) \<le> tracking_loss_grace_s c then RP_VIEW_RECOVERY
          else RP_SEARCH_REQUIRED)"

lemma servo_lost_phase:
  "servo_phase (fst (servo_lost c now s)) = stair_phase c now (remembered s)"
  "base_intent (fst (servo_lost c now s)) = no_motion"
  "handoff_ready (fst (servo_lost c now s)) = False"
  "decision_geometry (fst (servo_lost c now s)) = map_option fst (remembered s)"
  by (auto simp: servo_lost_def stair_phase_def remembered_def stay_put_def Let_def split: option.split)

text \<open>C16: Without a tracked target a tick answers the loss stair of the last tracked tick of its history: acquiring while
  no target was ever tracked, then hold, view recovery and search by the time since the target was seen, the base at rest.\<close>

theorem loss_stair_refines_history:
  assumes "input_now_s v = Fin now" and "isfinite (desired_target_lateral_m v)"
    and "\<not> input_tracking v \<or> input_geometry v = None"
  shows "\<exists>d t. servo_update c v (servo_run c vs) = (Inr d, t)
    \<and> servo_phase d = stair_phase c now (last_tracked vs) \<and> base_intent d = no_motion \<and> \<not> handoff_ready d
    \<and> decision_geometry d = map_option fst (last_tracked vs)"
proof (cases rule: servo_step_cases [where c = c and v = v and s = "servo_run c vs"])
  case (raised e)
  then show ?thesis using assms by simp
next
  case (lost d t now' lat)
  define u where "u = (servo_run c vs)\<lparr> reacquire_since_s := None, seen_posture_actionable := body_posture_actionable v \<rparr>"
  have "remembered u = last_tracked vs"
    by (simp add: u_def remembered_run [of c, symmetric]) (simp add: remembered_def)
  moreover have "d = fst (servo_lost c now u)" using lost(4,6) assms(1) unfolding u_def by (metis fst_conv pyfloat.inject)
  ultimately show ?thesis using lost(1) servo_lost_phase [of c now u] by simp
next
  case (tracked d t g now' lat)
  then show ?thesis using assms by (auto simp: tick_target_input)
qed

theorem loss_stair_refines_history_witness:
  "\<exists>d t. servo_update sample_servo_config (sample_tick 4 None)
           (servo_run sample_servo_config [sample_tick 0 (Some sample_target)]) = (Inr d, t)
     \<and> servo_phase d = RP_SEARCH_REQUIRED \<and> base_intent d = no_motion"
proof -
  have "stair_phase sample_servo_config 4 (last_tracked [sample_tick 0 (Some sample_target)]) = RP_SEARCH_REQUIRED"
    by code_simp
  then show ?thesis
    using loss_stair_refines_history [of "sample_tick 4 None" 4 sample_servo_config "[sample_tick 0 (Some sample_target)]"]
    by (auto simp: sample_tick_def)
qed

section \<open>Handoff\<close>

text \<open>A tick that keeps the handoff corridor: it raises, tracks a candidate, or is within the tracking hold.\<close>

definition candidate_tick :: "ReactiveServoConfig \<Rightarrow> ReactiveInput \<Rightarrow> bool" where
  "candidate_tick c v = (case tick_target v of None \<Rightarrow> False | Some (g, _, lat) \<Rightarrow> handoff_candidate c g lat)"

definition keeps_corridor :: "ReactiveServoConfig \<Rightarrow> ReactiveTargetController \<Rightarrow> ReactiveInput \<Rightarrow> bool" where
  "keeps_corridor c s v =
     (candidate_tick c v
      \<or> (case fst (servo_update c v s) of Inl _ \<Rightarrow> True | Inr d \<Rightarrow> servo_phase d = RP_TRACKING_HOLD))"

text \<open>Since \<open>since\<close> the ticks of the history have kept the corridor.\<close>

definition corridor_since :: "ReactiveServoConfig \<Rightarrow> ReactiveInput list \<Rightarrow> real \<Rightarrow> bool" where
  "corridor_since c vs since =
     (\<exists>pre w post. vs = pre @ w # post \<and> input_now_s w = Fin since \<and> candidate_tick c w
        \<and> admissible_run (servo_step c) (keeps_corridor c) (servo_run c (pre @ [w])) post)"

lemma admissible_run_snoc:
  "admissible_run step ok s (es @ [e]) \<longleftrightarrow> admissible_run step ok s es \<and> ok (foldl step s es) e"
  by (induction es arbitrary: s) auto

lemma corridor_since_extend:
  assumes "corridor_since c vs since" and "keeps_corridor c (servo_run c vs) v"
  shows "corridor_since c (vs @ [v]) since"
proof -
  from assms(1) obtain pre w post where h: "vs = pre @ w # post" "input_now_s w = Fin since" "candidate_tick c w"
      "admissible_run (servo_step c) (keeps_corridor c) (servo_run c (pre @ [w])) post"
    by (auto simp: corridor_since_def)
  then have "servo_run c vs = foldl (servo_step c) (servo_run c (pre @ [w])) post" by (simp add: servo_run_def)
  then have "admissible_run (servo_step c) (keeps_corridor c) (servo_run c (pre @ [w])) (post @ [v])"
    using h(4) assms(2) by (simp add: admissible_run_snoc)
  then show ?thesis using h(1-3) unfolding corridor_since_def by (intro exI [of _ pre] exI [of _ w] exI [of _ "post @ [v]"]) simp
qed

lemma corridor_since_start:
  "input_now_s v = Fin since \<Longrightarrow> candidate_tick c v \<Longrightarrow> corridor_since c (vs @ [v]) since"
  unfolding corridor_since_def by (intro exI [of _ vs] exI [of _ v] exI [of _ "[]"]) simp

lemma lost_since:
  "handoff_since_s (snd (servo_lost c now s)) = Some since \<Longrightarrow>
   handoff_since_s s = Some since \<and>
   (servo_phase (fst (servo_lost c now s)) = RP_TRACKING_HOLD \<or> servo_phase (fst (servo_lost c now s)) = RP_ACQUIRING)"
  by (auto simp: servo_lost_def Let_def stay_put_def split: option.splits if_splits)

lemma acquiring_without_since: "remembered (servo_run c vs) = None \<Longrightarrow> handoff_since_s (servo_run c vs) = None"
proof (induction vs rule: rev_induct)
  case Nil
  show ?case by (simp add: controller_reset_def)
next
  case (snoc v vs)
  show ?case
  proof (cases rule: servo_step_cases [where c = c and v = v and s = "servo_run c vs"])
    case (raised e)
    then show ?thesis using snoc by simp
  next
    case (lost d t now lat)
    define u where "u = (servo_run c vs)\<lparr> reacquire_since_s := None, seen_posture_actionable := body_posture_actionable v \<rparr>"
    have "handoff_since_s u = None" using snoc lost(3) by (simp add: u_def remembered_step)
    moreover have "t = snd (servo_lost c now u)" using lost(6) unfolding u_def by (metis snd_conv)
    ultimately have "handoff_since_s t = None" using lost_since [of c now u] by (cases "handoff_since_s t") auto
    then show ?thesis using lost(2) by simp
  next
    case (tracked d t g now lat)
    then have "remembered (servo_run c (vs @ [v])) \<noteq> None" using remembered_step [of c "servo_run c vs" v] by simp
    then show ?thesis using snoc.prems by simp
  qed
qed

lemma since_recorded: "handoff_since_s (servo_run c vs) = Some since \<Longrightarrow> corridor_since c vs since"
proof (induction vs arbitrary: since rule: rev_induct)
  case Nil
  then show ?case by (simp add: controller_reset_def)
next
  case (snoc v vs)
  show ?case
  proof (cases rule: servo_step_cases [where c = c and v = v and s = "servo_run c vs"])
    case (raised e)
    then show ?thesis using snoc by (auto intro!: corridor_since_extend simp: keeps_corridor_def)
  next
    case (lost d t now lat)
    define u where "u = (servo_run c vs)\<lparr> reacquire_since_s := None, seen_posture_actionable := body_posture_actionable v \<rparr>"
    have d: "d = fst (servo_lost c now u)" "t = snd (servo_lost c now u)"
      using lost(6) unfolding u_def by (metis fst_conv, metis snd_conv)
    have h: "handoff_since_s u = Some since" "servo_phase d = RP_TRACKING_HOLD \<or> servo_phase d = RP_ACQUIRING"
      using lost_since [of c now u since] snoc.prems lost(2) d by simp_all
    have "remembered (servo_run c vs) \<noteq> None" using acquiring_without_since [of c vs] h(1) by (cases "remembered (servo_run c vs)") (simp_all add: u_def)
    then have "servo_phase d \<noteq> RP_ACQUIRING"
      unfolding d(1) servo_lost_phase by (auto simp: u_def stair_phase_def remembered_def split: option.splits)
    then show ?thesis
      using h lost(1) by (intro corridor_since_extend snoc.IH) (auto simp: keeps_corridor_def u_def)
  next
    case (tracked d t g now lat)
    have s: "handoff_since_s t = (if \<not> handoff_candidate c g lat then None
        else case handoff_since_s (servo_run c vs) of None \<Rightarrow> Some now | Some t \<Rightarrow> Some t)"
      using tracked_state(3) tracked(4) by (metis snd_conv)
    then have cand: "candidate_tick c v" using snoc.prems tracked(2,3) by (auto simp: candidate_tick_def split: if_splits)
    show ?thesis
    proof (cases "handoff_since_s (servo_run c vs)")
      case None
      then have "input_now_s v = Fin since"
        using s snoc.prems tracked(2,3) by (auto simp: tick_target_input split: if_splits)
      then show ?thesis using cand by (rule corridor_since_start)
    next
      case (Some at_time)
      then show ?thesis using s snoc tracked(2) cand
        by (auto intro!: corridor_since_extend simp: keeps_corridor_def split: if_splits)
    qed
  qed
qed

lemma settled_ready:
  "handoff_ready (fst (settled_decision c v g lat s)) \<Longrightarrow>
   ik_feasible v = Some True \<and> handoff_geometry_ok c g lat \<and> servo_phase (fst (settled_decision c v g lat s)) = RP_HANDOFF_READY"
  by (auto simp: settled_decision_def corridor_decision_def posture_adjust_def base_approach_def stay_put_def split: if_splits)

lemma tracked_ready:
  assumes "handoff_ready (fst (servo_tracked c v g now lat s))"
  shows "ik_feasible v = Some True" "handoff_geometry_ok c g lat" "servo_phase (fst (servo_tracked c v g now lat s)) = RP_HANDOFF_READY"
    "handoff_settle_s c \<le> now - the (handoff_since_s (snd (servo_tracked c v g now lat s))) + 1 / 10 ^ 9"
proof -
  have *: "ik_feasible v = Some True \<and> handoff_geometry_ok c g lat \<and> servo_phase (fst (servo_tracked c v g now lat s)) = RP_HANDOFF_READY"
    using assms settled_ready
    by (force simp: servo_tracked_def posture_stage_def near_field_decision_def posture_adjust_def stay_put_def Let_def
          split: if_splits)
  then show "ik_feasible v = Some True" "handoff_geometry_ok c g lat"
    "servo_phase (fst (servo_tracked c v g now lat s)) = RP_HANDOFF_READY" by simp_all
  then have "handoff_candidate c g lat" by (simp add: handoff_candidate_def)
  with * show "handoff_settle_s c \<le> now - the (handoff_since_s (snd (servo_tracked c v g now lat s))) + 1 / 10 ^ 9"
    unfolding tracked_state by (auto simp: servo_tracked_def stay_put_def Let_def not_less split: if_splits)
qed

text \<open>C15: The reactive controller declares a handoff only when the IK probe explicitly succeeded on this tick, its target is
  inside the 3-D corridor, and the history has kept the handoff corridor, gaps within the tracking hold included, for the
  whole settle time.\<close>

theorem handoff_ready_only_after_settled_corridor:
  assumes "servo_update c v (servo_run c vs) = (Inr d, t)" and "handoff_ready d"
  shows "servo_phase d = RP_HANDOFF_READY \<and> ik_feasible v = Some True \<and>
    (\<exists>g now lat since. tick_target v = Some (g, now, lat) \<and> handoff_geometry_ok c g lat
       \<and> handoff_settle_s c \<le> now - since + 1 / 10 ^ 9 \<and> corridor_since c (vs @ [v]) since)"
proof (cases rule: servo_step_cases [where c = c and v = v and s = "servo_run c vs"])
  case (raised e)
  then show ?thesis using assms by simp
next
  case (lost d' t' now lat)
  then have "d = fst (servo_lost c now ((servo_run c vs)\<lparr> reacquire_since_s := None, seen_posture_actionable := body_posture_actionable v \<rparr>))"
    using assms(1) by (metis fst_conv sum.inject(2) Pair_inject)
  then show ?thesis using assms(2) servo_lost_phase(3) by metis
next
  case (tracked d' t' g now lat)
  then have d: "d = fst (servo_tracked c v g now lat (servo_run c vs))" "t = snd (servo_tracked c v g now lat (servo_run c vs))"
    using assms(1) by (metis fst_conv sum.inject(2) Pair_inject, metis snd_conv Pair_inject)
  note ready = tracked_ready [OF assms(2) [unfolded d(1)]]
  have "handoff_since_s t \<noteq> None"
    using ready(2) unfolding d(2) tracked_state by (auto simp: handoff_candidate_def split: option.split)
  then obtain since where since: "handoff_since_s t = Some since" by auto
  moreover have "servo_run c (vs @ [v]) = t" using assms(1) by (simp add: servo_step_def)
  ultimately have "corridor_since c (vs @ [v]) since" using since_recorded by metis
  then show ?thesis using ready since tracked(3) unfolding d by auto
qed

theorem handoff_ready_only_after_settled_corridor_witness:
  "\<exists>since. handoff_settle_s sample_servo_config \<le> 1 - since + 1 / 10 ^ 9
     \<and> corridor_since sample_servo_config [sample_tick 0 (Some sample_target), sample_tick (1 / 4) None, sample_tick 1 (Some sample_target)] since"
proof -
  let ?vs = "[sample_tick 0 (Some sample_target), sample_tick (1 / 4) None]"
  let ?r = "servo_update sample_servo_config (sample_tick 1 (Some sample_target)) (servo_run sample_servo_config ?vs)"
  have r: "case fst ?r of Inl _ \<Rightarrow> False | Inr d \<Rightarrow> handoff_ready d"
    by (simp add: servo_run_def servo_step_def sample_servo_eval)
  then obtain d where d: "?r = (Inr d, snd ?r)" "handoff_ready d"
    by (cases ?r; cases "fst ?r") auto
  show ?thesis
    using handoff_ready_only_after_settled_corridor [OF d] by (auto simp: tick_target_input sample_tick_def)
qed

section \<open>Damping\<close>

text \<open>The damping scales a commanded view rate by a factor between its floor and one. On a finite measured
  error the rotation over the loop delay stays within the stable fraction of that error, unless the floor or the
  pass-through of a vanishing command lets more through.\<close>

theorem damped_rotation_bounded:
  assumes "view_damping_post_init c = Inr ()"
  shows "min_rate_scale c \<le> rate_scale c err rate period \<and> rate_scale c err rate period \<le> 1
    \<and> (damping_enabled c \<and> err = Fin e \<and> rate = Fin w \<longrightarrow>
         rate_scale c err rate period * \<bar>w\<bar> * effective_delay_s c period
           \<le> max (stability_alpha c * \<bar>e\<bar>)
                 (max (min_rate_scale c * \<bar>w\<bar> * effective_delay_s c period) (1 / 10 ^ 9 * effective_delay_s c period)))"
proof -
  from assms have c: "0 < nominal_update_period_s c" "0 < nominal_latency_s c" "0 < stability_alpha c"
      "0 \<le> min_rate_scale c" "min_rate_scale c \<le> 1"
    by (auto simp: view_damping_post_init_def)
  define D where "D = effective_delay_s c period"
  have D: "0 < D" using c by (auto simp: D_def effective_delay_s_def split: option.split pyfloat.split)
  have cap: "rate_cap_rps c x period * D = stability_alpha c * \<bar>x\<bar>" for x
    using D by (simp add: rate_cap_rps_def D_def [symmetric])
  have cap0: "0 \<le> rate_cap_rps c x period" for x
    using D c by (simp add: rate_cap_rps_def D_def [symmetric])
  have range: "min_rate_scale c \<le> rate_scale c err rate period \<and> rate_scale c err rate period \<le> 1"
    using c by (auto simp: rate_scale_def Let_def field_simps split: pyfloat.split)
  have "rate_scale c (Fin e) (Fin w) period * \<bar>w\<bar> * D
      \<le> max (stability_alpha c * \<bar>e\<bar>) (max (min_rate_scale c * \<bar>w\<bar> * D) (1 / 10 ^ 9 * D))" if en: "damping_enabled c"
  proof -
    consider "\<bar>w\<bar> \<le> 1 / 10 ^ 9" | "1 / 10 ^ 9 < \<bar>w\<bar>" "\<bar>w\<bar> \<le> rate_cap_rps c e period"
      | "1 / 10 ^ 9 < \<bar>w\<bar>" "rate_cap_rps c e period < \<bar>w\<bar>" by linarith
    then show ?thesis
    proof cases
      case 1
      then have "\<bar>w\<bar> * D \<le> 1 / 10 ^ 9 * D" using D by (intro mult_right_mono) auto
      then show ?thesis using 1 en by (simp add: rate_scale_def le_max_iff_disj)
    next
      case 2
      then have "\<bar>w\<bar> * D \<le> stability_alpha c * \<bar>e\<bar>" using D cap [of e] by (metis less_imp_le mult_right_mono)
      then show ?thesis using 2 en by (simp add: rate_scale_def le_max_iff_disj)
    next
      case 3
      then have "max (min_rate_scale c) (rate_cap_rps c e period / \<bar>w\<bar>) * \<bar>w\<bar> * D
          = max (min_rate_scale c * \<bar>w\<bar> * D) (rate_cap_rps c e period * D)"
        using D by (simp add: max_def field_simps)
      moreover have "rate_scale c (Fin e) (Fin w) period = max (min_rate_scale c) (rate_cap_rps c e period / \<bar>w\<bar>)"
        using 3 en by (simp add: rate_scale_def Let_def)
      ultimately show ?thesis by (simp only: cap) (auto simp: le_max_iff_disj intro: linear)
    qed
  qed
  then show ?thesis using range D_def by auto
qed

text \<open>The floor does let more through: a camera already on the target keeps a twentieth of any commanded rate.\<close>

lemma damping_floor_rotates_centred_view:
  "rate_scale \<lparr> damping_enabled = True, stability_alpha = 1 / 2, nominal_update_period_s = 133 / 1000,
       nominal_latency_s = 1 / 4, min_rate_scale = 1 / 20 \<rparr> (Fin 0) (Fin 1) None = 1 / 20"
  by (simp add: rate_scale_def rate_cap_rps_def)

theorem damped_rotation_bounded_witness:
  "let c = \<lparr> damping_enabled = True, stability_alpha = 1 / 2, nominal_update_period_s = 133 / 1000,
             nominal_latency_s = 1 / 4, min_rate_scale = 1 / 20 \<rparr>
   in rate_scale c (Fin (1 / 10)) (Fin 1) None * 1 * (383 / 1000) \<le> 1 / 20"
  using damped_rotation_bounded [of "\<lparr> damping_enabled = True, stability_alpha = 1 / 2, nominal_update_period_s = 133 / 1000,
             nominal_latency_s = 1 / 4, min_rate_scale = 1 / 20 \<rparr>" "Fin (1 / 10)" "Fin 1" None "1 / 10" 1]
  by (simp add: view_damping_post_init_def effective_delay_s_def raise_if_def)

end
