(* ===== verification/Go2w_Posture.thy ===== *)
theory Go2w_Posture
  imports Json Interfaces
begin

text \<open>
  The body-posture command contract of the quadruped, \<open>src/z_manip/control/go2w_posture.py\<close>: the arbiter that serializes
  the command families with Full Stop above them, the feedback-verified adapter around it, and the reading of the
  robot's state messages. The transport is an argument: what a request is answered with, or the exception it
  raises. A configured limit and the values of a stored target or feedback are finite floats, so reals.
\<close>

section \<open>Commands\<close>

datatype CommandOwner = OWN_NONE | OWN_BASE | OWN_POSTURE | OWN_FEEDBACK | OWN_FULL_STOP

datatype PosturePhase =
    PP_IDLE | PP_WAITING_BASE_QUIET | PP_COMMANDING | PP_SETTLING | PP_REACHED | PP_BLOCKED | PP_FAULT | PP_STOPPED

datatype SportCommand = STOP_MOVE | EULER | MOVE | BODY_HEIGHT | GET_BODY_HEIGHT

fun owner_text :: "CommandOwner \<Rightarrow> string" where
  "owner_text OWN_NONE = ''none''"
| "owner_text OWN_BASE = ''base''"
| "owner_text OWN_POSTURE = ''posture''"
| "owner_text OWN_FEEDBACK = ''feedback''"
| "owner_text OWN_FULL_STOP = ''full_stop''"

fun posture_phase_text :: "PosturePhase \<Rightarrow> string" where
  "posture_phase_text PP_IDLE = ''idle''"
| "posture_phase_text PP_WAITING_BASE_QUIET = ''waiting_base_quiet''"
| "posture_phase_text PP_COMMANDING = ''commanding''"
| "posture_phase_text PP_SETTLING = ''settling''"
| "posture_phase_text PP_REACHED = ''reached''"
| "posture_phase_text PP_BLOCKED = ''blocked''"
| "posture_phase_text PP_FAULT = ''fault''"
| "posture_phase_text PP_STOPPED = ''stopped''"

fun sport_command_text :: "SportCommand \<Rightarrow> string" where
  "sport_command_text STOP_MOVE = ''StopMove''"
| "sport_command_text EULER = ''Euler''"
| "sport_command_text MOVE = ''Move''"
| "sport_command_text BODY_HEIGHT = ''BodyHeight''"
| "sport_command_text GET_BODY_HEIGHT = ''GetBodyHeight''"

fun SPORT_API_ID :: "SportCommand \<Rightarrow> int" where
  "SPORT_API_ID STOP_MOVE = 1003"
| "SPORT_API_ID EULER = 1007"
| "SPORT_API_ID MOVE = 1008"
| "SPORT_API_ID BODY_HEIGHT = 1013"
| "SPORT_API_ID GET_BODY_HEIGHT = 1024"

record SportRequest =
  sport_command :: SportCommand
  sport_parameter :: "(string \<times> real) list"

definition wire_document :: "SportRequest \<Rightarrow> json" where
  "wire_document r =
     JObj [(''api_id'', JInt (SPORT_API_ID (sport_command r))),
           (''parameter'', JObj (map (\<lambda>(k, x). (k, JFloat (Fin x))) (sport_parameter r)))]"

section \<open>Limits, target and feedback\<close>

record PostureLimits =
  min_body_height_m :: real
  max_body_height_m :: real
  max_abs_roll_rad :: real
  max_abs_pitch_rad :: real
  max_abs_yaw_rad :: real
  body_height_step_m :: real
  max_angle_step_rad :: real
  min_command_period_s :: real
  feedback_timeout_s :: real
  quiet_linear_speed_mps :: real
  quiet_yaw_rate_rps :: real
  height_tolerance_m :: real
  angle_tolerance_rad :: real
  settle_time_s :: real
  allow_posture_while_moving :: bool

definition posture_limits_post_init :: "PostureLimits \<Rightarrow> unit res" where
  "posture_limits_post_init l =
     raise_if (max_body_height_m l \<le> min_body_height_m l) (ValueError ''body-height limits are reversed'')
     (raise_if (list_ex (\<lambda>x. x \<le> 0)
         [max_abs_roll_rad l, max_abs_pitch_rad l, max_abs_yaw_rad l, body_height_step_m l, max_angle_step_rad l,
          min_command_period_s l, feedback_timeout_s l, quiet_linear_speed_mps l, quiet_yaw_rate_rps l,
          height_tolerance_m l, angle_tolerance_rad l, settle_time_s l])
       (ValueError ''posture rates, bounds, and tolerances must be positive'') (Inr ()))"

record PostureTarget =
  goal_height_m :: real
  goal_roll_rad :: real
  goal_pitch_rad :: real
  goal_yaw_rad :: real

record PostureFeedback =
  fb_stamp_s :: real
  fb_height_m :: real
  fb_roll_rad :: real
  fb_pitch_rad :: real
  fb_yaw_rad :: real
  fb_linear_x_mps :: real
  fb_linear_y_mps :: real
  fb_yaw_rate_rps :: real
  fb_source :: string

text \<open>The constructor, on the floats in the order of the fields.\<close>

definition make_feedback :: "pyfloat list \<Rightarrow> string \<Rightarrow> PostureFeedback res" where
  "make_feedback xs source =
     raise_if (\<not> list_all isfinite xs) (ValueError ''posture feedback must be finite'')
     (raise_if (source = []) (ValueError ''posture feedback source is required'')
     (let v = (\<lambda>i. the_fin (xs ! i)) in
      Inr \<lparr> fb_stamp_s = v 0, fb_height_m = v 1, fb_roll_rad = v 2, fb_pitch_rad = v 3, fb_yaw_rad = v 4,
            fb_linear_x_mps = v 5, fb_linear_y_mps = v 6, fb_yaw_rate_rps = v 7, fb_source = source \<rparr>))"

definition planar_speed_mps :: "PostureFeedback \<Rightarrow> real" where
  "planar_speed_mps f = sqrt (fb_linear_x_mps f * fb_linear_x_mps f + fb_linear_y_mps f * fb_linear_y_mps f)"

record CommandEvidence =
  ev_sequence :: int
  ev_name :: "string option"
  ev_api_id :: "int option"
  ev_parameter :: "(string \<times> real) list"
  ev_would_send :: bool
  ev_sent :: bool
  ev_accepted :: "bool option"
  ev_reason :: string

record PostureOutput =
  out_phase :: PosturePhase
  out_owner :: CommandOwner
  out_target :: "PostureTarget option"
  out_feedback :: "PostureFeedback option"
  out_feedback_age_s :: "real option"
  out_command :: CommandEvidence

definition clamp_step :: "real \<Rightarrow> real \<Rightarrow> real \<Rightarrow> real" where
  "clamp_step current goal maximum = current + min (max (goal - current) (- maximum)) maximum"

section \<open>The arbiter\<close>

record SportCommandArbiter =
  queued_moves :: "SportRequest list"
  queued_posture :: "SportRequest list"
  queued_feedback :: "SportRequest list"
  queued_stop :: "SportRequest option"
  arbiter_owner :: CommandOwner

definition arbiter_init :: SportCommandArbiter where
  "arbiter_init =
     \<lparr> queued_moves = [], queued_posture = [], queued_feedback = [], queued_stop = None, arbiter_owner = OWN_NONE \<rparr>"

definition stop_request :: SportRequest where
  "stop_request = \<lparr> sport_command = STOP_MOVE, sport_parameter = [] \<rparr>"

definition arbiter_full_stop :: "SportCommandArbiter \<Rightarrow> SportCommandArbiter" where
  "arbiter_full_stop a =
     \<lparr> queued_moves = [], queued_posture = [], queued_feedback = [], queued_stop = Some stop_request,
       arbiter_owner = OWN_FULL_STOP \<rparr>"

text \<open>The move and feedback queues hold one request: a new one replaces it.\<close>

definition arbiter_submit :: "SportRequest \<Rightarrow> SportCommandArbiter \<Rightarrow> SportCommandArbiter" where
  "arbiter_submit r a =
     (if sport_command r = STOP_MOVE then arbiter_full_stop a
      else if queued_stop a \<noteq> None then a
      else
        case sport_command r of
          MOVE \<Rightarrow> a\<lparr> queued_moves := [r] \<rparr>
        | GET_BODY_HEIGHT \<Rightarrow> a\<lparr> queued_feedback := [r] \<rparr>
        | _ \<Rightarrow> a\<lparr> queued_posture := queued_posture a @ [r] \<rparr>)"

definition arbiter_clear_stop :: "SportCommandArbiter \<Rightarrow> SportCommandArbiter" where
  "arbiter_clear_stop a =
     a\<lparr> queued_stop := None,
        arbiter_owner := if arbiter_owner a = OWN_FULL_STOP then OWN_NONE else arbiter_owner a \<rparr>"

definition arbiter_pop_next :: "SportCommandArbiter \<Rightarrow> SportRequest option \<times> SportCommandArbiter" where
  "arbiter_pop_next a =
     (case queued_stop a of
        Some r \<Rightarrow> (Some r, a\<lparr> queued_stop := None, arbiter_owner := OWN_FULL_STOP \<rparr>)
      | None \<Rightarrow>
          (case queued_posture a of
             r # rs \<Rightarrow> (Some r, a\<lparr> queued_posture := rs, arbiter_owner := OWN_POSTURE \<rparr>)
           | [] \<Rightarrow>
               if queued_feedback a \<noteq> [] then
                 (Some (last (queued_feedback a)),
                  a\<lparr> queued_feedback := butlast (queued_feedback a), arbiter_owner := OWN_FEEDBACK \<rparr>)
               else if queued_moves a \<noteq> [] then
                 (Some (last (queued_moves a)), a\<lparr> queued_moves := butlast (queued_moves a), arbiter_owner := OWN_BASE \<rparr>)
               else (None, a\<lparr> arbiter_owner := OWN_NONE \<rparr>)))"

definition arbiter_pending :: "SportCommandArbiter \<Rightarrow> nat" where
  "arbiter_pending a =
     length (queued_moves a) + length (queued_posture a) + length (queued_feedback a)
     + (if queued_stop a \<noteq> None then 1 else 0)"

section \<open>The adapter\<close>

datatype PostureMode = SHADOW | LIVE

record Go2WPostureAdapter =
  adapter_mode :: PostureMode
  adapter_limits :: PostureLimits
  adapter_arbiter :: SportCommandArbiter
  adapter_target :: "PostureTarget option"
  adapter_feedback :: "PostureFeedback option"
  adapter_phase :: PosturePhase
  last_command_s :: "real option"
  settled_since_s :: "real option"
  adapter_sequence :: int
  last_evidence :: CommandEvidence

type_synonym 'a posture_op = "('a, Go2WPostureAdapter) outcome"

type_synonym sport_transport = "SportRequest \<Rightarrow> json res"

definition quiet_evidence :: "int \<Rightarrow> string \<Rightarrow> CommandEvidence" where
  "quiet_evidence n why =
     \<lparr> ev_sequence = n, ev_name = None, ev_api_id = None, ev_parameter = [], ev_would_send = False, ev_sent = False,
       ev_accepted = None, ev_reason = why \<rparr>"

definition adapter_init :: "string \<Rightarrow> PostureLimits \<Rightarrow> sport_transport option \<Rightarrow> SportCommandArbiter \<Rightarrow> Go2WPostureAdapter res" where
  "adapter_init mode limits transport arbiter =
     raise_if (mode \<notin> {''shadow'', ''live''}) (ValueError ''mode must be shadow or live'')
     (raise_if (mode = ''live'' \<and> transport = None)
       (ValueError ''live posture control requires an injected transport'')
     (Inr \<lparr> adapter_mode = if mode = ''live'' then LIVE else SHADOW, adapter_limits = limits, adapter_arbiter = arbiter,
            adapter_target = None, adapter_feedback = None, adapter_phase = PP_IDLE, last_command_s = None,
            settled_since_s = None, adapter_sequence = 0, last_evidence = quiet_evidence 0 ''idle'' \<rparr>))"

text \<open>\<open>set_target\<close>, on the height, roll, pitch and yaw of the target.\<close>

definition set_target ::
  "pyfloat \<Rightarrow> pyfloat \<Rightarrow> pyfloat \<Rightarrow> pyfloat \<Rightarrow> Go2WPostureAdapter \<Rightarrow> unit posture_op" where
  "set_target height roll pitch yaw s =
     (let l = adapter_limits s in
      guard (\<not> list_all isfinite [height, roll, pitch, yaw]) (ValueError ''posture target must be finite'') s
      (guard (\<not> (min_body_height_m l \<le> the_fin height \<and> the_fin height \<le> max_body_height_m l))
        (ValueError ''body-height target is outside the configured envelope'') s
      (guard (max_abs_roll_rad l < \<bar>the_fin roll\<bar>) (ValueError ''roll target is outside the configured envelope'') s
      (guard (max_abs_pitch_rad l < \<bar>the_fin pitch\<bar>) (ValueError ''pitch target is outside the configured envelope'') s
      (guard (max_abs_yaw_rad l < \<bar>the_fin yaw\<bar>) (ValueError ''yaw target is outside the configured envelope'') s
      (Inr (), s\<lparr> adapter_target := Some \<lparr> goal_height_m = the_fin height, goal_roll_rad = the_fin roll,
                                          goal_pitch_rad = the_fin pitch, goal_yaw_rad = the_fin yaw \<rparr>,
                  adapter_phase := PP_COMMANDING, settled_since_s := None,
                  last_evidence := quiet_evidence (adapter_sequence s) ''new target awaits robot evidence'' \<rparr>))))))"

definition posture_observe :: "PostureFeedback \<Rightarrow> Go2WPostureAdapter \<Rightarrow> unit posture_op" where
  "posture_observe f s =
     guard (case adapter_feedback s of None \<Rightarrow> False | Some old \<Rightarrow> fb_stamp_s f < fb_stamp_s old)
       (ValueError ''posture feedback time moved backwards'') s
       (Inr (), s\<lparr> adapter_feedback := Some f \<rparr>)"

definition posture_cancel :: "bool \<Rightarrow> Go2WPostureAdapter \<Rightarrow> Go2WPostureAdapter" where
  "posture_cancel full_stop s =
     s\<lparr> adapter_target := None, settled_since_s := None,
        adapter_phase := if full_stop then PP_STOPPED else PP_IDLE,
        adapter_arbiter := if full_stop then arbiter_full_stop (adapter_arbiter s) else adapter_arbiter s,
        last_evidence :=
          (quiet_evidence (adapter_sequence s)
             (if full_stop then ''full stop pre-empted posture'' else ''posture cancelled''))
          \<lparr> ev_name := if full_stop then Some (sport_command_text STOP_MOVE) else None,
             ev_api_id := if full_stop then Some (SPORT_API_ID STOP_MOVE) else None, ev_would_send := full_stop \<rparr> \<rparr>"

subsection \<open>Robot verdicts\<close>

text \<open>\<open>value[key]\<close> of a decoded value; every failure is one of the exceptions the caller handles.\<close>

definition subscript :: "json \<Rightarrow> string \<Rightarrow> json option" where
  "subscript v k = (case v of JObj ms \<Rightarrow> jget ms k | _ \<Rightarrow> None)"

text \<open>\<open>int(value)\<close>: \<open>Inr None\<close> is the handled ValueError or TypeError; an infinite float raises OverflowError.\<close>

definition int_of_value :: "json \<Rightarrow> int option res" where
  "int_of_value v =
     (case v of
        JInt i \<Rightarrow> Inr (Some i)
      | JFloat (Fin x) \<Rightarrow> Inr (Some (if 0 \<le> x then \<lfloor>x\<rfloor> else \<lceil>x\<rceil>))
      | JFloat NaN \<Rightarrow> Inr None
      | JFloat _ \<Rightarrow> Inl (OverflowError ''cannot convert float infinity to integer'')
      | JStr s \<Rightarrow> Inr (py_int s)
      | _ \<Rightarrow> Inr None)"

definition sport_response_code :: "json \<Rightarrow> int option res" where
  "sport_response_code response =
     (case subscript response ''data'' of
        None \<Rightarrow> Inr None
      | Some d \<Rightarrow>
          (case subscript d ''header'' of
             None \<Rightarrow> Inr None
           | Some h \<Rightarrow>
               (case subscript h ''status'' of
                  None \<Rightarrow> Inr None
                | Some st \<Rightarrow> (case subscript st ''code'' of None \<Rightarrow> Inr None | Some v \<Rightarrow> int_of_value v))))"

definition code_text :: "int option \<Rightarrow> string" where
  "code_text c = (case c of None \<Rightarrow> ''None'' | Some i \<Rightarrow> show_int i)"

text \<open>\<open>_dispatch\<close>: count, and in live mode send and read the verdict.\<close>

definition posture_dispatch ::
  "sport_transport option \<Rightarrow> SportRequest \<Rightarrow> Go2WPostureAdapter \<Rightarrow> CommandEvidence posture_op" where
  "posture_dispatch transport r s0 =
     (let s = s0\<lparr> adapter_sequence := adapter_sequence s0 + 1 \<rparr>;
          e = \<lparr> ev_sequence = adapter_sequence s, ev_name = Some (sport_command_text (sport_command r)),
                ev_api_id = Some (SPORT_API_ID (sport_command r)), ev_parameter = sport_parameter r,
                ev_would_send = True, ev_sent = False, ev_accepted = None,
                ev_reason = ''shadow: command not transmitted'' \<rparr> in
      if adapter_mode s = SHADOW then (Inr e, s)
      else
        guard (transport = None) AssertionError s
        (gbind (the transport r) s (\<lambda>response.
         gbind (sport_response_code response) s (\<lambda>code.
         (Inr (e\<lparr> ev_sent := True, ev_accepted := Some (code = Some 0),
                  ev_reason := ''robot response code='' @ code_text code \<rparr>), s)))))"

definition dispatch_full_stop :: "sport_transport option \<Rightarrow> Go2WPostureAdapter \<Rightarrow> CommandEvidence posture_op" where
  "dispatch_full_stop transport s0 =
     (let s1 = posture_cancel True s0; (r, a) = arbiter_pop_next (adapter_arbiter s1); s = s1\<lparr> adapter_arbiter := a \<rparr> in
      guard (r = None \<or> sport_command (the r) \<noteq> STOP_MOVE) AssertionError s
      (obind (posture_dispatch transport (the r) s) (\<lambda>e t. (Inr e, t\<lparr> last_evidence := e \<rparr>))))"

subsection \<open>The tick\<close>

definition posture_output :: "real \<Rightarrow> string \<Rightarrow> Go2WPostureAdapter \<Rightarrow> PostureOutput" where
  "posture_output now why s =
     \<lparr> out_phase = adapter_phase s, out_owner = arbiter_owner (adapter_arbiter s), out_target = adapter_target s,
       out_feedback = adapter_feedback s,
       out_feedback_age_s = map_option (\<lambda>f. max 0 (now - fb_stamp_s f)) (adapter_feedback s),
       out_command = if why \<noteq> [] then quiet_evidence (adapter_sequence s) why else last_evidence s \<rparr>"

definition base_quiet :: "PostureLimits \<Rightarrow> PostureFeedback \<Rightarrow> bool" where
  "base_quiet l f = (planar_speed_mps f \<le> quiet_linear_speed_mps l \<and> \<bar>fb_yaw_rate_rps f\<bar> \<le> quiet_yaw_rate_rps l)"

definition posture_inside :: "PostureLimits \<Rightarrow> PostureTarget \<Rightarrow> PostureFeedback \<Rightarrow> bool" where
  "posture_inside l g f =
     (\<bar>goal_height_m g - fb_height_m f\<bar> \<le> height_tolerance_m l
      \<and> list_all (\<lambda>e. \<bar>e\<bar> \<le> angle_tolerance_rad l)
          [goal_roll_rad g - fb_roll_rad f, goal_pitch_rad g - fb_pitch_rad f, goal_yaw_rad g - fb_yaw_rad f])"

definition height_request :: "PostureLimits \<Rightarrow> PostureTarget \<Rightarrow> PostureFeedback \<Rightarrow> SportRequest" where
  "height_request l g f =
     \<lparr> sport_command = BODY_HEIGHT,
       sport_parameter = [(''data'', clamp_step (fb_height_m f) (goal_height_m g) (body_height_step_m l))] \<rparr>"

definition euler_request :: "PostureLimits \<Rightarrow> PostureTarget \<Rightarrow> PostureFeedback \<Rightarrow> SportRequest" where
  "euler_request l g f =
     \<lparr> sport_command = EULER,
       sport_parameter =
         [(''x'', clamp_step (fb_roll_rad f) (goal_roll_rad g) (max_angle_step_rad l)),
          (''y'', clamp_step (fb_pitch_rad f) (goal_pitch_rad g) (max_angle_step_rad l)),
          (''z'', clamp_step (fb_yaw_rad f) (goal_yaw_rad g) (max_angle_step_rad l))] \<rparr>"

definition command_posture ::
  "sport_transport option \<Rightarrow> real \<Rightarrow> PostureTarget \<Rightarrow> PostureFeedback \<Rightarrow> Go2WPostureAdapter
     \<Rightarrow> PostureOutput posture_op" where
  "command_posture transport now g f s0 =
     (let l = adapter_limits s0;
          a = (if arbiter_pending (adapter_arbiter s0) = 0
               then arbiter_submit (euler_request l g f) (arbiter_submit (height_request l g f) (adapter_arbiter s0))
               else adapter_arbiter s0);
          (r, b) = arbiter_pop_next a; s = s0\<lparr> adapter_arbiter := b \<rparr> in
      guard (r = None) AssertionError s
      (obind (posture_dispatch transport (the r) s) (\<lambda>e t.
       let u = t\<lparr> last_evidence := e, last_command_s := Some now,
                  adapter_phase := if ev_accepted e \<noteq> Some False then PP_COMMANDING else PP_FAULT \<rparr> in
       (Inr (posture_output now [] u), u))))"

definition posture_tick ::
  "sport_transport option \<Rightarrow> pyfloat \<Rightarrow> Go2WPostureAdapter \<Rightarrow> PostureOutput posture_op" where
  "posture_tick transport now_s s =
     guard (\<not> isfinite now_s) (ValueError ''posture clock must be finite'') s
     (let now = the_fin now_s; l = adapter_limits s;
          end_in = (\<lambda>p why t. let u = t\<lparr> adapter_phase := p \<rparr> in (Inr (posture_output now why u), u)) in
      case adapter_target s of
        None \<Rightarrow> (Inr (posture_output now [] s), s)
      | Some g \<Rightarrow>
          (case adapter_feedback s of
             None \<Rightarrow> end_in PP_BLOCKED ''measured body feedback is unavailable'' s
           | Some f \<Rightarrow>
               if feedback_timeout_s l < max 0 (now - fb_stamp_s f) then
                 end_in PP_BLOCKED ''measured body feedback is stale'' s
               else if arbiter_owner (adapter_arbiter s) = OWN_FULL_STOP then
                 end_in PP_STOPPED ''full stop owns the command channel'' s
               else if adapter_mode s = LIVE \<and> ev_sent (last_evidence s) \<and> ev_accepted (last_evidence s) \<noteq> Some True then
                 end_in PP_FAULT [] (s\<lparr> settled_since_s := None \<rparr>)
               else if \<not> allow_posture_while_moving l \<and> \<not> base_quiet l f then
                 end_in PP_WAITING_BASE_QUIET ''waiting for base velocity to settle'' (s\<lparr> settled_since_s := None \<rparr>)
               else if posture_inside l g f then
                 (let since = (case settled_since_s s of None \<Rightarrow> now | Some t \<Rightarrow> t) in
                  end_in (if settle_time_s l \<le> now - since + 1 / 10 ^ 9 then PP_REACHED else PP_SETTLING) []
                    (s\<lparr> settled_since_s := Some since \<rparr>))
               else
                 (let t = s\<lparr> settled_since_s := None \<rparr> in
                  if (case last_command_s s of None \<Rightarrow> False | Some c \<Rightarrow> now - c < min_command_period_s l) then
                    end_in PP_COMMANDING ''posture command rate limited'' t
                  else command_posture transport now g f t)))"

section \<open>The status document\<close>

definition number_of :: "('a \<Rightarrow> real) \<Rightarrow> 'a option \<Rightarrow> json" where
  "number_of g x = (case x of None \<Rightarrow> JNull | Some y \<Rightarrow> JFloat (Fin (g y)))"

definition error_of :: "(PostureTarget \<Rightarrow> real) \<Rightarrow> (PostureFeedback \<Rightarrow> real) \<Rightarrow> PostureOutput \<Rightarrow> json" where
  "error_of goal current p =
     (case (out_target p, out_feedback p) of
        (Some g, Some f) \<Rightarrow> JFloat (Fin (goal g - current f))
      | _ \<Rightarrow> JNull)"

definition evidence_document :: "CommandEvidence \<Rightarrow> json" where
  "evidence_document e =
     JObj [(''sequence'', JInt (ev_sequence e)),
           (''name'', case ev_name e of None \<Rightarrow> JNull | Some x \<Rightarrow> JStr x),
           (''api_id'', case ev_api_id e of None \<Rightarrow> JNull | Some i \<Rightarrow> JInt i),
           (''parameter'', JObj (map (\<lambda>(k, x). (k, JFloat (Fin x))) (ev_parameter e))),
           (''would_send'', JBool (ev_would_send e)), (''sent'', JBool (ev_sent e)),
           (''accepted'', case ev_accepted e of None \<Rightarrow> JNull | Some b \<Rightarrow> JBool b),
           (''reason'', JStr (ev_reason e))]"

definition status_document :: "string \<Rightarrow> PostureOutput \<Rightarrow> json" where
  "status_document mode p =
     JObj [(''schema'', JStr ''z_manip.go2w_posture_status.v1''),
       (''mode'', JStr mode),
       (''phase'', JStr (posture_phase_text (out_phase p))),
       (''command_owner'', JStr (owner_text (out_owner p))),
       (''body_height'', JObj
          [(''current_m'', number_of fb_height_m (out_feedback p)), (''target_m'', number_of goal_height_m (out_target p)),
           (''error_m'', error_of goal_height_m fb_height_m p), (''feedback_age_s'', number_of id (out_feedback_age_s p))]),
       (''attitude'', JObj
          [(''current_roll_rad'', number_of fb_roll_rad (out_feedback p)),
           (''current_pitch_rad'', number_of fb_pitch_rad (out_feedback p)),
           (''current_yaw_rad'', number_of fb_yaw_rad (out_feedback p)),
           (''target_roll_rad'', number_of goal_roll_rad (out_target p)),
           (''target_pitch_rad'', number_of goal_pitch_rad (out_target p)),
           (''target_yaw_rad'', number_of goal_yaw_rad (out_target p)),
           (''pitch_error_rad'', error_of goal_pitch_rad fb_pitch_rad p)]),
       (''base'', JObj
          [(''linear_speed_mps'', number_of planar_speed_mps (out_feedback p)),
           (''yaw_rate_rps'', number_of fb_yaw_rate_rps (out_feedback p)),
           (''quiet'', case out_feedback p of None \<Rightarrow> JNull
              | Some f \<Rightarrow> JBool (planar_speed_mps f \<le> 35 / 1000 \<and> \<bar>fb_yaw_rate_rps f\<bar> \<le> 5 / 100))]),
       (''feedback'', JObj
          [(''fresh'', JBool (out_feedback_age_s p \<noteq> None \<and> out_phase p \<noteq> PP_BLOCKED)),
           (''source'', case out_feedback p of None \<Rightarrow> JNull | Some f \<Rightarrow> JStr (fb_source f))]),
       (''command'', evidence_document (out_command p))]"

section \<open>The robot's state message\<close>

text \<open>\<open>feedback_from_mapping\<close>, on the members of the decoded message.\<close>

definition three_numbers :: "json option \<Rightarrow> json list option" where
  "three_numbers v = (case v of Some (JArr xs) \<Rightarrow> if length xs < 3 then None else Some xs | _ \<Rightarrow> None)"

definition feedback_from_mapping :: "(string \<times> json) list \<Rightarrow> pyfloat \<Rightarrow> PostureFeedback res" where
  "feedback_from_mapping message stamp =
     (case get_or (JObj message) message ''data'' of
        JObj data \<Rightarrow>
          (let imu = (case get_or (JObj []) data ''imu_state'' of JObj ms \<Rightarrow> ms | _ \<Rightarrow> []);
               rpy = (case jget imu ''rpy'' of Some v \<Rightarrow> Some v | None \<Rightarrow> jget data ''rpy'');
               velocity = get_or (JArr [JFloat (Fin 0), JFloat (Fin 0), JFloat (Fin 0)]) data ''velocity'' in
           (case three_numbers rpy of
              None \<Rightarrow> Inl (ValueError ''sport state lacks measured roll/pitch/yaw'')
            | Some r \<Rightarrow>
           (case three_numbers (Some velocity) of
              None \<Rightarrow> Inl (ValueError ''sport state velocity must contain x/y/yaw'')
            | Some v \<Rightarrow>
           (case jget data ''body_height'' of
              None \<Rightarrow> Inl (ValueError ''sport state lacks measured body_height'')
            | Some h \<Rightarrow>
              rbind (float_value h) (\<lambda>height. rbind (float_value (r ! 0)) (\<lambda>roll.
              rbind (float_value (r ! 1)) (\<lambda>pitch. rbind (float_value (r ! 2)) (\<lambda>yaw.
              rbind (float_value (v ! 0)) (\<lambda>vx. rbind (float_value (v ! 1)) (\<lambda>vy.
              rbind (float_value (v ! 2)) (\<lambda>rate.
                make_feedback [stamp, height, roll, pitch, yaw, vx, vy, rate] ''sport_mode_state'')))))))))))
      | _ \<Rightarrow> Inl (ValueError ''sport state payload must be a mapping''))"

end
