(* ===== verification/Go2w_Laws.thy ===== *)
theory Go2w_Laws
  imports Go2w_Posture
begin

text \<open>
  What the posture contract promises: Full Stop keeps the command channel until it is cleared, a command needs fresh
  evidence and is a bounded step towards the target, and what the queue of a pair does to a target that changes.
\<close>

section \<open>The adapter as a machine\<close>

datatype posture_event =
    SetTarget pyfloat pyfloat pyfloat pyfloat
  | Feedback PostureFeedback
  | Cancel bool
  | StopNow "sport_transport option"
  | Tick "sport_transport option" pyfloat
  | ClearStop

fun posture_step :: "Go2WPostureAdapter \<Rightarrow> posture_event \<Rightarrow> Go2WPostureAdapter" where
  "posture_step s (SetTarget h r p y) = snd (set_target h r p y s)"
| "posture_step s (Feedback f) = snd (posture_observe f s)"
| "posture_step s (Cancel full) = posture_cancel full s"
| "posture_step s (StopNow t) = snd (dispatch_full_stop t s)"
| "posture_step s (Tick t now) = snd (posture_tick t now s)"
| "posture_step s ClearStop = s\<lparr> adapter_arbiter := arbiter_clear_stop (adapter_arbiter s) \<rparr>"

definition full_stopped :: "Go2WPostureAdapter \<Rightarrow> bool" where
  "full_stopped s = (arbiter_owner (adapter_arbiter s) = OWN_FULL_STOP)"

fun commands_stop :: "posture_event \<Rightarrow> bool" where
  "commands_stop (StopNow t) = True"
| "commands_stop e = False"

lemmas arbiter_defs =
  arbiter_pop_next_def arbiter_full_stop_def arbiter_submit_def arbiter_clear_stop_def arbiter_pending_def

lemma snd_gbind: "(\<And>x. snd (f x) = s) \<Longrightarrow> snd (gbind m s f) = s"
  by (cases m) auto

lemma dispatch_frame:
  "snd (posture_dispatch t r s) = s\<lparr> adapter_sequence := adapter_sequence s + 1 \<rparr>"
  unfolding posture_dispatch_def Let_def guard_def by (simp add: snd_gbind)

lemma dispatch_evidence:
  assumes "posture_dispatch t r s = (Inr e, s')"
  shows "ev_sequence e = adapter_sequence s + 1 \<and> ev_name e = Some (sport_command_text (sport_command r))
    \<and> ev_api_id e = Some (SPORT_API_ID (sport_command r)) \<and> ev_parameter e = sport_parameter r \<and> ev_would_send e
    \<and> (ev_sent e \<longleftrightarrow> adapter_mode s = LIVE)"
  using assms by (cases "adapter_mode s") (auto simp: posture_dispatch_def Let_def)

section \<open>Full Stop\<close>

lemma full_stop_pops:
  "arbiter_pop_next (arbiter_full_stop a) =
     (Some stop_request, (arbiter_full_stop a)\<lparr> queued_stop := None \<rparr>)"
  by (simp add: arbiter_defs)

lemma set_target_frame:
  "adapter_arbiter (snd (set_target h r p y s)) = adapter_arbiter s \<and> adapter_sequence (snd (set_target h r p y s)) = adapter_sequence s"
  by (auto simp: set_target_def Let_def guard_def)

lemma observe_frame:
  "adapter_arbiter (snd (posture_observe f s)) = adapter_arbiter s \<and> adapter_sequence (snd (posture_observe f s)) = adapter_sequence s"
  by (auto simp: posture_observe_def guard_def)

lemma stopped_tick:
  assumes "full_stopped s"
  shows "adapter_arbiter (snd (posture_tick t now s)) = adapter_arbiter s
    \<and> adapter_sequence (snd (posture_tick t now s)) = adapter_sequence s"
  using assms
  by (auto simp: posture_tick_def guard_def Let_def full_stopped_def split: option.splits)

definition stop_latched :: "int \<Rightarrow> Go2WPostureAdapter \<Rightarrow> bool" where
  "stop_latched n s = (full_stopped s \<and> adapter_sequence s = n)"

interpretation posture_stop: latched_machine posture_step "stop_latched n" "\<lambda>e. e = ClearStop \<or> commands_stop e"
proof
  fix s e
  assume "stop_latched n s" "\<not> (e = ClearStop \<or> commands_stop e)"
  then show "stop_latched n (posture_step s e)"
    by (cases e)
      (simp_all add: stop_latched_def full_stopped_def set_target_frame observe_frame stopped_tick posture_cancel_def
        arbiter_full_stop_def)
qed

section \<open>Commands\<close>

lemma clamp_step_between:
  assumes "0 < m"
  shows "\<bar>clamp_step c g m - c\<bar> \<le> m \<and> min c g \<le> clamp_step c g m \<and> clamp_step c g m \<le> max c g"
  using assms by (auto simp: clamp_step_def min_def max_def)

text \<open>What a tick checks before it commands.\<close>

definition may_command :: "real \<Rightarrow> PostureTarget \<Rightarrow> PostureFeedback \<Rightarrow> Go2WPostureAdapter \<Rightarrow> bool" where
  "may_command now g f s =
     (let l = adapter_limits s in
      adapter_target s = Some g \<and> adapter_feedback s = Some f \<and> now - fb_stamp_s f \<le> feedback_timeout_s l
      \<and> \<not> full_stopped s
      \<and> (adapter_mode s = LIVE \<and> ev_sent (last_evidence s) \<longrightarrow> ev_accepted (last_evidence s) = Some True)
      \<and> (allow_posture_while_moving l \<or> base_quiet l f) \<and> \<not> posture_inside l g f
      \<and> (\<forall>c. last_command_s s = Some c \<longrightarrow> min_command_period_s l \<le> now - c))"

lemma tick_cases:
  assumes "posture_tick t now s = (r, s')"
  shows "adapter_sequence s' = adapter_sequence s \<and> adapter_arbiter s' = adapter_arbiter s
    \<or> (\<exists>x g f. now = Fin x \<and> may_command x g f s
         \<and> command_posture t x g f (s\<lparr> settled_since_s := None \<rparr>) = (r, s'))"
  using assms
  by (cases now) (auto simp: posture_tick_def guard_def Let_def may_command_def full_stopped_def
      split: option.splits if_splits)

definition next_pair :: "PostureTarget \<Rightarrow> PostureFeedback \<Rightarrow> Go2WPostureAdapter \<Rightarrow> SportCommandArbiter" where
  "next_pair g f s =
     (let l = adapter_limits s; a = adapter_arbiter s in
      if arbiter_pending a = 0 then arbiter_submit (euler_request l g f) (arbiter_submit (height_request l g f) a) else a)"

lemma fresh_pair_first:
  assumes "arbiter_pending a = 0" "sport_command h = BODY_HEIGHT" "sport_command e = EULER"
  shows "arbiter_pop_next (arbiter_submit e (arbiter_submit h a))
    = (Some h, a\<lparr> queued_posture := [e], arbiter_owner := OWN_POSTURE \<rparr>)"
  using assms by (cases "queued_stop a") (auto simp: arbiter_defs)

lemma pending_pops: "arbiter_pending a \<noteq> 0 \<Longrightarrow> \<exists>q b. arbiter_pop_next a = (Some q, b)"
  by (auto simp: arbiter_defs split: option.splits list.splits)

lemma next_pair_pops: "\<exists>q b. arbiter_pop_next (next_pair g f s) = (Some q, b)"
  using pending_pops [of "adapter_arbiter s"]
  by (cases "arbiter_pending (adapter_arbiter s) = 0")
    (auto simp: next_pair_def Let_def fresh_pair_first height_request_def euler_request_def)

lemma command_posture_runs:
  obtains q b where "arbiter_pop_next (next_pair g f s) = (Some q, b)"
    and "command_posture t x g f s = obind (posture_dispatch t q (s\<lparr> adapter_arbiter := b \<rparr>)) (\<lambda>e t.
       let u = t\<lparr> last_evidence := e, last_command_s := Some x,
                  adapter_phase := if ev_accepted e \<noteq> Some False then PP_COMMANDING else PP_FAULT \<rparr> in
       (Inr (posture_output x [] u), u))"
proof -
  obtain q b where "arbiter_pop_next (next_pair g f s) = (Some q, b)" using next_pair_pops by blast
  moreover from this have "command_posture t x g f s = obind (posture_dispatch t q (s\<lparr> adapter_arbiter := b \<rparr>)) (\<lambda>e t.
       let u = t\<lparr> last_evidence := e, last_command_s := Some x,
                  adapter_phase := if ev_accepted e \<noteq> Some False then PP_COMMANDING else PP_FAULT \<rparr> in
       (Inr (posture_output x [] u), u))"
    by (simp add: command_posture_def next_pair_def Let_def guard_def)
  ultimately show ?thesis by (rule that)
qed

lemma command_posture_ok:
  assumes "command_posture t x g f s = (Inr out, s')"
  shows "\<exists>q b. arbiter_pop_next (next_pair g f s) = (Some q, b) \<and> adapter_arbiter s' = b
    \<and> ev_name (last_evidence s') = Some (sport_command_text (sport_command q))
    \<and> ev_parameter (last_evidence s') = sport_parameter q \<and> (ev_sent (last_evidence s') \<longleftrightarrow> adapter_mode s = LIVE)
    \<and> last_command_s s' = Some x \<and> adapter_sequence s' = adapter_sequence s + 1"
proof -
  obtain q b where qb: "arbiter_pop_next (next_pair g f s) = (Some q, b)"
    and run: "command_posture t x g f s = obind (posture_dispatch t q (s\<lparr> adapter_arbiter := b \<rparr>)) (\<lambda>e t.
       let u = t\<lparr> last_evidence := e, last_command_s := Some x,
                  adapter_phase := if ev_accepted e \<noteq> Some False then PP_COMMANDING else PP_FAULT \<rparr> in
       (Inr (posture_output x [] u), u))"
    by (rule command_posture_runs)
  obtain e d where e: "posture_dispatch t q (s\<lparr> adapter_arbiter := b \<rparr>) = (Inr e, d)"
    using assms run by (cases "posture_dispatch t q (s\<lparr> adapter_arbiter := b \<rparr>)"; cases "fst (posture_dispatch t q (s\<lparr> adapter_arbiter := b \<rparr>))") auto
  then have "d = s\<lparr> adapter_arbiter := b, adapter_sequence := adapter_sequence s + 1 \<rparr>"
    using dispatch_frame [of t q "s\<lparr> adapter_arbiter := b \<rparr>"] by simp
  then show ?thesis using qb assms run e dispatch_evidence [OF e] by (auto simp: Let_def)
qed

lemma busy_queue_head:
  assumes "queued_stop a = None" "queued_posture a = q # qs"
  shows "arbiter_pending a \<noteq> 0" and "arbiter_pop_next a = (Some q, a\<lparr> queued_posture := qs, arbiter_owner := OWN_POSTURE \<rparr>)"
  using assms by (auto simp: arbiter_defs)

section \<open>The properties\<close>

text \<open>C25: Full Stop sends exactly one StopMove, empties every queue and keeps the channel: whatever targets, feedback,
  cancellations and ticks follow, nothing is dispatched until the stop is cleared. This holds whatever the robot
  answers, and also when the transport raises.\<close>

theorem full_stop_silences_posture:
  assumes "dispatch_full_stop t s = (r, s')"
    and "\<forall>e \<in> set es. e \<noteq> ClearStop \<and> \<not> commands_stop e"
  shows "adapter_sequence s' = adapter_sequence s + 1 \<and> arbiter_pending (adapter_arbiter s') = 0
    \<and> (\<forall>e. r = Inr e \<longrightarrow> ev_name e = Some ''StopMove'' \<and> ev_api_id e = Some 1003 \<and> ev_parameter e = [])
    \<and> full_stopped (foldl posture_step s' es) \<and> adapter_sequence (foldl posture_step s' es) = adapter_sequence s'"
proof -
  let ?a = "(arbiter_full_stop (adapter_arbiter s))\<lparr> queued_stop := None \<rparr>"
  let ?s = "(posture_cancel True s)\<lparr> adapter_arbiter := ?a \<rparr>"
  have run: "(r, s') = obind (posture_dispatch t stop_request ?s) (\<lambda>e t. (Inr e, t\<lparr> last_evidence := e \<rparr>))"
    using assms(1) by (simp add: dispatch_full_stop_def posture_cancel_def full_stop_pops stop_request_def guard_def Let_def)
  obtain x d where x: "posture_dispatch t stop_request ?s = (x, d)" by fastforce
  have d: "d = ?s\<lparr> adapter_sequence := adapter_sequence ?s + 1 \<rparr>"
    using dispatch_frame [of t stop_request ?s] x by simp
  have s': "adapter_arbiter s' = ?a \<and> adapter_sequence s' = adapter_sequence s + 1"
    using run x d by (cases x) (auto simp: posture_cancel_def)
  have e: "ev_name e = Some ''StopMove'' \<and> ev_api_id e = Some 1003 \<and> ev_parameter e = []" if "r = Inr e" for e
    using that run x dispatch_evidence [of t stop_request ?s e d] by (cases x) (auto simp: stop_request_def)
  have latched: "stop_latched (adapter_sequence s') s'"
    using s' by (simp add: stop_latched_def full_stopped_def arbiter_full_stop_def)
  have "stop_latched (adapter_sequence s') (foldl posture_step s' es)"
    by (rule posture_stop.run_latched [OF latched]) (use assms(2) in auto)
  then show ?thesis using s' e by (simp add: stop_latched_def arbiter_defs)
qed

text \<open>A tick that dispatches had a target, feedback within its timeout, a quiet base unless moving is allowed, no
  Full Stop, no unaccepted earlier verdict in live mode and the command period behind it. With empty queues it sends
  the body height, between the measured and the wanted one and within one step of the measured; shadow mode never
  marks it sent.\<close>

theorem posture_command_needs_evidence:
  assumes "posture_limits_post_init (adapter_limits s) = Inr ()"
    and "posture_tick t now s = (Inr out, s')" and "adapter_sequence s' \<noteq> adapter_sequence s"
  shows "\<exists>x g f. now = Fin x \<and> may_command x g f s \<and> last_command_s s' = Some x
    \<and> adapter_sequence s' = adapter_sequence s + 1 \<and> (adapter_mode s = SHADOW \<longrightarrow> \<not> ev_sent (last_evidence s'))
    \<and> (arbiter_pending (adapter_arbiter s) = 0 \<longrightarrow> (\<exists>h. ev_parameter (last_evidence s') = [(''data'', h)]
         \<and> ev_name (last_evidence s') = Some ''BodyHeight'' \<and> \<bar>h - fb_height_m f\<bar> \<le> body_height_step_m (adapter_limits s)
         \<and> min (fb_height_m f) (goal_height_m g) \<le> h \<and> h \<le> max (fb_height_m f) (goal_height_m g)))"
proof -
  obtain x g f where now: "now = Fin x" and may: "may_command x g f s"
    and run: "command_posture t x g f (s\<lparr> settled_since_s := None \<rparr>) = (Inr out, s')"
    using tick_cases [OF assms(2)] assms(3) by blast
  have pos: "0 < body_height_step_m (adapter_limits s)"
    using assms(1) by (auto simp: posture_limits_post_init_def not_le)
  show ?thesis
    using now may command_posture_ok [OF run] clamp_step_between [OF pos, of "fb_height_m f" "goal_height_m g"]
    by (fastforce simp: next_pair_def Let_def fresh_pair_first height_request_def euler_request_def)
qed

text \<open>A posture command left in the queue is the next one sent, as it was computed. Cancelling the motion and
  setting another target leave it there, so the rest of the old pair is dispatched under the new target.\<close>

theorem queued_posture_survives_retarget:
  assumes "queued_stop (adapter_arbiter s) = None" and "queued_posture (adapter_arbiter s) = q # qs"
    and "u = snd (set_target h ro p y (posture_cancel False s))"
    and "posture_tick t now u = (Inr out, s')" and "adapter_sequence s' \<noteq> adapter_sequence u"
  shows "ev_name (last_evidence s') = Some (sport_command_text (sport_command q))
    \<and> ev_parameter (last_evidence s') = sport_parameter q \<and> queued_posture (adapter_arbiter s') = qs"
proof -
  have a: "adapter_arbiter u = adapter_arbiter s"
    using assms(3) by (simp add: set_target_frame posture_cancel_def)
  obtain x g f where run: "command_posture t x g f (u\<lparr> settled_since_s := None \<rparr>) = (Inr out, s')"
    using tick_cases [OF assms(4)] assms(5) by blast
  show ?thesis
    using command_posture_ok [OF run] busy_queue_head [OF assms(1,2)] a by (auto simp: next_pair_def Let_def)
qed

subsection \<open>Witnesses\<close>

definition demo_limits :: PostureLimits where
  "demo_limits =
     \<lparr> min_body_height_m = - 12 / 100, max_body_height_m = 2 / 100, max_abs_roll_rad = 14 / 100,
       max_abs_pitch_rad = 21 / 100, max_abs_yaw_rad = 14 / 100, body_height_step_m = 1 / 100,
       max_angle_step_rad = 35 / 1000, min_command_period_s = 2 / 10, feedback_timeout_s = 5 / 10,
       quiet_linear_speed_mps = 35 / 1000, quiet_yaw_rate_rps = 5 / 100, height_tolerance_m = 12 / 1000,
       angle_tolerance_rad = 35 / 1000, settle_time_s = 35 / 100, allow_posture_while_moving = False \<rparr>"

definition demo_standing :: PostureFeedback where
  "demo_standing =
     \<lparr> fb_stamp_s = 1, fb_height_m = 0, fb_roll_rad = 0, fb_pitch_rad = 0, fb_yaw_rad = 0, fb_linear_x_mps = 0,
       fb_linear_y_mps = 0, fb_yaw_rate_rps = 0, fb_source = ''sport_mode_state'' \<rparr>"

text \<open>A shadow adapter with the given queue, a target 5 cm down and pitched, and fresh feedback.\<close>

definition demo_adapter :: "SportRequest list \<Rightarrow> Go2WPostureAdapter" where
  "demo_adapter queue =
     \<lparr> adapter_mode = SHADOW, adapter_limits = demo_limits, adapter_arbiter = arbiter_init\<lparr> queued_posture := queue \<rparr>,
       adapter_target = Some \<lparr> goal_height_m = - 5 / 100, goal_roll_rad = 0, goal_pitch_rad = 1 / 10, goal_yaw_rad = 0 \<rparr>,
       adapter_feedback = Some demo_standing, adapter_phase = PP_COMMANDING, last_command_s = None,
       settled_since_s = None, adapter_sequence = 0, last_evidence = quiet_evidence 0 ''idle'' \<rparr>"

lemmas demo_posture_defs =
  demo_adapter_def demo_limits_def demo_standing_def posture_tick_def guard_def Let_def arbiter_init_def base_quiet_def
  planar_speed_mps_def posture_inside_def command_posture_def arbiter_defs height_request_def euler_request_def
  posture_dispatch_def quiet_evidence_def

lemma full_stop_silences_posture_witness:
  "let s' = snd (dispatch_full_stop None (demo_adapter [])) in
   adapter_sequence s' = 1
   \<and> full_stopped (foldl posture_step s' [SetTarget (Fin 0) (Fin 0) (Fin 0) (Fin 0), Cancel False, Tick None (Fin 2)])"
  using full_stop_silences_posture [of None "demo_adapter []" "fst (dispatch_full_stop None (demo_adapter []))"
      "snd (dispatch_full_stop None (demo_adapter []))"
      "[SetTarget (Fin 0) (Fin 0) (Fin 0) (Fin 0), Cancel False, Tick None (Fin 2)]"]
  by (simp add: Let_def demo_adapter_def)

lemma demo_tick:
  "\<exists>out. posture_tick None (Fin 1) (demo_adapter []) = (Inr out, snd (posture_tick None (Fin 1) (demo_adapter [])))
     \<and> adapter_sequence (snd (posture_tick None (Fin 1) (demo_adapter []))) = 1"
  by (simp add: demo_posture_defs)

lemma posture_command_needs_evidence_witness:
  "\<exists>x g f. Fin 1 = Fin x \<and> may_command x g f (demo_adapter [])"
  using demo_tick posture_command_needs_evidence [of "demo_adapter []" None "Fin 1"]
  by (force simp: posture_limits_post_init_def demo_adapter_def demo_limits_def raise_if_def)

definition demo_euler :: SportRequest where
  "demo_euler = \<lparr> sport_command = EULER, sport_parameter = [(''x'', 0), (''y'', 35 / 1000), (''z'', 0)] \<rparr>"

text \<open>After a cancellation the new target keeps the body level, and the next tick still sends the old pitch.\<close>

abbreviation demo_retargeted :: Go2WPostureAdapter where
  "demo_retargeted \<equiv>
     snd (set_target (Fin (- 5 / 100)) (Fin 0) (Fin 0) (Fin 0) (posture_cancel False (demo_adapter [demo_euler])))"

lemma demo_retargeted_tick:
  "\<exists>out. posture_tick None (Fin 1) demo_retargeted = (Inr out, snd (posture_tick None (Fin 1) demo_retargeted))
     \<and> adapter_sequence (snd (posture_tick None (Fin 1) demo_retargeted)) \<noteq> adapter_sequence demo_retargeted"
  by (simp add: demo_posture_defs set_target_def posture_cancel_def demo_euler_def)

lemma queued_posture_survives_retarget_witness:
  "ev_parameter (last_evidence (snd (posture_tick None (Fin 1) demo_retargeted)))
     = [(''x'', 0), (''y'', 35 / 1000), (''z'', 0)]"
proof -
  obtain out where
    "posture_tick None (Fin 1) demo_retargeted = (Inr out, snd (posture_tick None (Fin 1) demo_retargeted))"
    "adapter_sequence (snd (posture_tick None (Fin 1) demo_retargeted)) \<noteq> adapter_sequence demo_retargeted"
    using demo_retargeted_tick by blast
  from queued_posture_survives_retarget [OF _ _ refl this, where q = demo_euler and qs = "[]"] show ?thesis
    by (simp add: demo_adapter_def arbiter_init_def demo_euler_def)
qed

end
