(* ===== verification/Json_Text.thy ===== *)
theory Json_Text
  imports Json "HOL-Library.AList" "HOL-Library.Char_ord" "HOL-Library.List_Lexorder"
begin

text \<open>
  The text side of JSON, as the sources use Python's \<open>json\<close> module: \<open>json.loads\<close>, plain or with an
  \<open>object_pairs_hook\<close> that refuses repeated keys and a \<open>parse_constant\<close> for NaN and the
  infinities, and \<open>json.dumps\<close> with sorted keys and no spaces. The limit of Python's recursion depth is not
  modelled.

  The decoder reads the text from left to right, so the exception is that of the first violation met: a syntax
  error (\<open>Inl None\<close>, the \<open>JSONDecodeError\<close>) or what a hook raised (\<open>Inl (Some e)\<close>). Strings hold
  characters of one byte; an escape of a code point above 255 is outside this alphabet and reads as a
  syntax error. The position a \<open>JSONDecodeError\<close> reports is not modelled.
\<close>

section \<open>Scanning\<close>

definition json_ws :: "char \<Rightarrow> bool" where
  "json_ws c = (char_ord c \<in> {9, 10, 13, 32})"

definition skip_ws :: "string \<Rightarrow> string" where
  "skip_ws s = dropWhile json_ws s"

abbreviation dquote :: char where "dquote \<equiv> CHR 0x22"

abbreviation bslash :: char where "bslash \<equiv> CHR 0x5C"

definition hex_val :: "char \<Rightarrow> nat option" where
  "hex_val c =
     (let n = char_ord c
      in if 48 \<le> n \<and> n \<le> 57 then Some (n - 48)
         else if 97 \<le> n \<and> n \<le> 102 then Some (n - 87)
         else if 65 \<le> n \<and> n \<le> 70 then Some (n - 55) else None)"

definition decode_hex4 :: "char \<Rightarrow> char \<Rightarrow> char \<Rightarrow> char \<Rightarrow> char option" where
  "decode_hex4 a b c d =
     (case (hex_val a, hex_val b, hex_val c, hex_val d) of
        (Some w, Some x, Some y, Some z) \<Rightarrow>
          (let n = ((w * 16 + x) * 16 + y) * 16 + z in if n < 256 then Some (char_of n) else None)
      | _ \<Rightarrow> None)"

definition simple_escape :: "char \<Rightarrow> char option" where
  "simple_escape c =
     (if c = dquote \<or> c = bslash \<or> c = CHR ''/'' then Some c
      else if c = CHR ''b'' then Some (char_of (8::nat))
      else if c = CHR ''f'' then Some (char_of (12::nat))
      else if c = CHR ''n'' then Some (char_of (10::nat))
      else if c = CHR ''r'' then Some (char_of (13::nat))
      else if c = CHR ''t'' then Some (char_of (9::nat)) else None)"

text \<open>The body of a string literal, after its opening quote: its value and the text behind it.\<close>

fun scan_string :: "string \<Rightarrow> (string \<times> string) option" where
  "scan_string [] = None"
| "scan_string (c # cs) =
     (if c = dquote then Some ([], cs)
      else if c = bslash then
        (case cs of
           [] \<Rightarrow> None
         | e # r \<Rightarrow>
             (if e = CHR ''u'' then
                (case r of
                   h1 # h2 # h3 # h4 # r' \<Rightarrow>
                     (case decode_hex4 h1 h2 h3 h4 of
                        None \<Rightarrow> None
                      | Some ch \<Rightarrow> map_option (\<lambda>(t, q). (ch # t, q)) (scan_string r'))
                 | _ \<Rightarrow> None)
              else (case simple_escape e of
                      None \<Rightarrow> None
                    | Some ch \<Rightarrow> map_option (\<lambda>(t, q). (ch # t, q)) (scan_string r))))
      else if char_ord c < 32 then None
      else map_option (\<lambda>(t, q). (c # t, q)) (scan_string cs))"

text \<open>The fraction and the exponent of a number are read only when a digit follows.\<close>

definition scan_fraction :: "string \<Rightarrow> string \<times> string" where
  "scan_fraction s =
     (case s of
        p # d # r \<Rightarrow> if p = CHR ''.'' \<and> is_digit d
                     then (p # takeWhile is_digit (d # r), dropWhile is_digit (d # r)) else ([], s)
      | _ \<Rightarrow> ([], s))"

definition scan_exponent :: "string \<Rightarrow> string \<times> string" where
  "scan_exponent s =
     (case s of
        e # r \<Rightarrow>
          (if e = CHR ''e'' \<or> e = CHR ''E'' then
             let (sign, ds) = (case r of g # r' \<Rightarrow> if g = CHR ''+'' \<or> g = CHR ''-'' then ([g], r') else ([], r)
                               | [] \<Rightarrow> ([], []))
             in (case ds of d # _ \<Rightarrow> if is_digit d
                                     then (e # sign @ takeWhile is_digit ds, dropWhile is_digit ds) else ([], s)
                 | [] \<Rightarrow> ([], s))
           else ([], s))
      | [] \<Rightarrow> ([], s))"

definition scan_integer :: "string \<Rightarrow> (string \<times> string) option" where
  "scan_integer s =
     (let (sign, body) = (case s of c # cs \<Rightarrow> if c = CHR ''-'' then ([c], cs) else ([], s) | [] \<Rightarrow> ([], []))
      in case body of
           [] \<Rightarrow> None
         | c # cs \<Rightarrow>
             (if c = CHR ''0'' then Some (sign @ [c], cs)
              else if is_digit c then Some (sign @ takeWhile is_digit body, dropWhile is_digit body)
              else None))"

definition scan_number :: "string \<Rightarrow> (json \<times> string) option" where
  "scan_number s =
     (case scan_integer s of
        None \<Rightarrow> None
      | Some (digits, r) \<Rightarrow>
          let (frac, r1) = scan_fraction r; (expo, r2) = scan_exponent r1 in
          if frac = [] \<and> expo = [] then map_option (\<lambda>n. (JInt n, r2)) (py_int digits)
          else map_option (\<lambda>x. (JFloat x, r2)) (py_float (digits @ frac @ expo)))"

section \<open>Decoding\<close>

text \<open>
  The hooks: the exception for a repeated key, or none when the dict keeps the last of its values, and the exception
  or the value of a non-finite constant.
\<close>

record json_hooks =
  dup_key :: "(string \<Rightarrow> exn) option"
  nonfinite :: "string \<Rightarrow> exn + pyfloat"

type_synonym 'a decoded = "exn option + 'a"

fun dbind :: "'a decoded \<Rightarrow> ('a \<Rightarrow> 'b decoded) \<Rightarrow> 'b decoded" where
  "dbind (Inl e) f = Inl e"
| "dbind (Inr x) f = f x"

text \<open>The first key that an earlier member already has.\<close>

fun first_duplicate :: "string list \<Rightarrow> (string \<times> json) list \<Rightarrow> string option" where
  "first_duplicate seen [] = None"
| "first_duplicate seen ((k, v) # ms) =
     (if k \<in> set seen then Some k else first_duplicate (k # seen) ms)"

text \<open>The dict of the members: a repeated key keeps its first place and its last value.\<close>

definition last_wins :: "(string \<times> json) list \<Rightarrow> (string \<times> json) list" where
  "last_wins ms = foldl (\<lambda>d (k, v). AList.update k v d) [] ms"

definition pairs_hook :: "json_hooks \<Rightarrow> (string \<times> json) list \<Rightarrow> json decoded" where
  "pairs_hook h ms =
     (case first_duplicate [] ms of
        None \<Rightarrow> Inr (JObj ms)
      | Some k \<Rightarrow> (case dup_key h of None \<Rightarrow> Inr (JObj (last_wins ms)) | Some err \<Rightarrow> Inl (Some (err k))))"

text \<open>\<open>json.loads(text)\<close> without hooks.\<close>

definition plain_hooks :: json_hooks where
  "plain_hooks =
     \<lparr> dup_key = None,
       nonfinite = (\<lambda>c. Inr (if c = ''NaN'' then NaN else if c = ''Infinity'' then PosInf else NegInf)) \<rparr>"

definition decode_constant :: "json_hooks \<Rightarrow> string \<Rightarrow> string \<Rightarrow> (json \<times> string) decoded" where
  "decode_constant h c s =
     (case nonfinite h c of Inl e \<Rightarrow> Inl (Some e) | Inr x \<Rightarrow> Inr (JFloat x, drop (length c) s))"

text \<open>A literal, a constant or a number.\<close>

definition decode_atom :: "json_hooks \<Rightarrow> string \<Rightarrow> (json \<times> string) decoded" where
  "decode_atom h s =
     (if prefix ''null'' s then Inr (JNull, drop 4 s)
      else if prefix ''true'' s then Inr (JBool True, drop 4 s)
      else if prefix ''false'' s then Inr (JBool False, drop 5 s)
      else if prefix ''NaN'' s then decode_constant h ''NaN'' s
      else if prefix ''Infinity'' s then decode_constant h ''Infinity'' s
      else if prefix ''-Infinity'' s then decode_constant h ''-Infinity'' s
      else (case scan_number s of None \<Rightarrow> Inl None | Some r \<Rightarrow> Inr r))"

text \<open>
  The recursive descent, with the nesting depth bounded by fuel: of two nested calls one reads a
  character, so twice the length of the text is always enough (\<open>decode_fuel\<close>).
\<close>

fun decode_value :: "json_hooks \<Rightarrow> nat \<Rightarrow> string \<Rightarrow> (json \<times> string) decoded"
and decode_members :: "json_hooks \<Rightarrow> nat \<Rightarrow> string \<Rightarrow> ((string \<times> json) list \<times> string) decoded"
and decode_items :: "json_hooks \<Rightarrow> nat \<Rightarrow> string \<Rightarrow> (json list \<times> string) decoded" where
  "decode_value h 0 s = Inl None"
| "decode_value h (Suc n) s =
     (case s of
        [] \<Rightarrow> Inl None
      | c # cs \<Rightarrow>
          if c = dquote then
            (case scan_string cs of None \<Rightarrow> Inl None | Some (t, r) \<Rightarrow> Inr (JStr t, r))
          else if c = CHR ''{'' then
            (case skip_ws cs of
               [] \<Rightarrow> Inl None
             | d # r \<Rightarrow>
                 if d = CHR ''}'' then dbind (pairs_hook h []) (\<lambda>v. Inr (v, r))
                 else dbind (decode_members h n (d # r)) (\<lambda>(ms, q). dbind (pairs_hook h ms) (\<lambda>v. Inr (v, q))))
          else if c = CHR ''['' then
            (case skip_ws cs of
               [] \<Rightarrow> Inl None
             | d # r \<Rightarrow>
                 if d = CHR '']'' then Inr (JArr [], r)
                 else dbind (decode_items h n (d # r)) (\<lambda>(vs, q). Inr (JArr vs, q)))
          else decode_atom h s)"
| "decode_members h 0 s = Inl None"
| "decode_members h (Suc n) s =
     (case s of
        [] \<Rightarrow> Inl None
      | c # cs \<Rightarrow>
          if c \<noteq> dquote then Inl None
          else (case scan_string cs of
             None \<Rightarrow> Inl None
           | Some (k, r) \<Rightarrow>
               (case skip_ws r of
                  [] \<Rightarrow> Inl None
                | d # r1 \<Rightarrow>
                    if d \<noteq> CHR '':'' then Inl None
                    else dbind (decode_value h n (skip_ws r1)) (\<lambda>(v, r2).
                      case skip_ws r2 of
                        [] \<Rightarrow> Inl None
                      | e # r3 \<Rightarrow>
                          if e = CHR ''}'' then Inr ([(k, v)], r3)
                          else if e = CHR '','' then
                            dbind (decode_members h n (skip_ws r3)) (\<lambda>(ms, q). Inr ((k, v) # ms, q))
                          else Inl None))))"
| "decode_items h 0 s = Inl None"
| "decode_items h (Suc n) s =
     dbind (decode_value h n s) (\<lambda>(v, r).
       case skip_ws r of
         [] \<Rightarrow> Inl None
       | e # r1 \<Rightarrow>
           if e = CHR '']'' then Inr ([v], r1)
           else if e = CHR '','' then dbind (decode_items h n (skip_ws r1)) (\<lambda>(vs, q). Inr (v # vs, q))
           else Inl None)"

definition json_loads :: "json_hooks \<Rightarrow> string \<Rightarrow> json decoded" where
  "json_loads h s =
     dbind (decode_value h (Suc (2 * length s)) (skip_ws s))
       (\<lambda>(v, r). if skip_ws r = [] then Inr v else Inl None)"

section \<open>Encoding\<close>

definition escape_char :: "char \<Rightarrow> string" where
  "escape_char c =
     (let n = char_ord c
      in if c = dquote \<or> c = bslash then [bslash, c]
         else if n = 10 then [bslash, CHR ''n'']
         else if n = 13 then [bslash, CHR ''r'']
         else if n = 9 then [bslash, CHR ''t'']
         else if n = 12 then [bslash, CHR ''f'']
         else if n = 8 then [bslash, CHR ''b'']
         else if n < 32 \<or> 126 < n
           then [bslash, CHR ''u'', CHR ''0'', CHR ''0'', hex_digit (n div 16), hex_digit (n mod 16)]
         else [c])"

definition dumps_str :: "string \<Rightarrow> string" where
  "dumps_str s = dquote # concat (map escape_char s) @ [dquote]"

fun commas :: "string list \<Rightarrow> string" where
  "commas [] = []"
| "commas [x] = x"
| "commas (x # y # zs) = x @ CHR '','' # commas (y # zs)"

text \<open>A scalar member value of the protocols' messages; the text of a float is not modelled.\<close>

fun dumps_scalar :: "json \<Rightarrow> string option" where
  "dumps_scalar (JStr s) = Some (dumps_str s)"
| "dumps_scalar (JBool b) = Some (if b then ''true'' else ''false'')"
| "dumps_scalar (JInt i) = Some (show_int i)"
| "dumps_scalar JNull = Some ''null''"
| "dumps_scalar _ = None"

definition dumps_member :: "string \<times> json \<Rightarrow> string option" where
  "dumps_member m = map_option (\<lambda>t. dumps_str (fst m) @ CHR '':'' # t) (dumps_scalar (snd m))"

fun all_some :: "'a option list \<Rightarrow> 'a list option" where
  "all_some [] = Some []"
| "all_some (None # xs) = None"
| "all_some (Some x # xs) = map_option ((#) x) (all_some xs)"

text \<open>\<open>json.dumps(payload, separators=(',', ':'))\<close> of an object of scalars, and the same with \<open>sort_keys=True\<close>.\<close>

definition dumps_object :: "(string \<times> json) list \<Rightarrow> string option" where
  "dumps_object ms = map_option (\<lambda>ts. CHR ''{'' # commas ts @ [CHR ''}'']) (all_some (map dumps_member ms))"

definition json_dumps :: "(string \<times> json) list \<Rightarrow> string option" where
  "json_dumps ms = dumps_object (sort_key fst ms)"

text \<open>\<open>repr\<close> of a list of strings, as the key mismatch messages print it.\<close>

fun join_with :: "string \<Rightarrow> string list \<Rightarrow> string" where
  "join_with sep [] = []"
| "join_with sep [x] = x"
| "join_with sep (x # y # zs) = x @ sep @ join_with sep (y # zs)"

definition repr_list :: "string list \<Rightarrow> string" where
  "repr_list xs = ''['' @ join_with '', '' (map py_repr xs) @ '']''"

text \<open>\<open>sorted(a - b)\<close> of two key sets given as lists.\<close>

definition sorted_minus :: "string list \<Rightarrow> string list \<Rightarrow> string list" where
  "sorted_minus a b = sort (remdups (filter (\<lambda>k. k \<notin> set b) a))"

section \<open>The fuel is enough\<close>

lemma dbind_Inr_iff [simp]: "dbind m f = Inr y \<longleftrightarrow> (\<exists>x. m = Inr x \<and> f x = Inr y)"
  by (cases m) auto

lemma skip_ws_length: "length (skip_ws s) \<le> length s"
  by (simp add: skip_ws_def length_dropWhile_le)

lemma skip_ws_Cons_length: "skip_ws s = c # r \<Longrightarrow> length r < length s"
  using skip_ws_length [of s] by simp

lemma scan_string_shorter: "scan_string s = Some (t, r) \<Longrightarrow> length r < length s"
  by (induction s arbitrary: t r rule: scan_string.induct)
    (fastforce split: if_splits option.splits list.splits)+

lemma scan_fraction_length: "scan_fraction s = (f, r) \<Longrightarrow> length r \<le> length s"
  by (auto simp: scan_fraction_def length_dropWhile_le le_SucI split: list.splits if_splits)

lemma scan_exponent_length: "scan_exponent s = (f, r) \<Longrightarrow> length r \<le> length s"
  by (auto simp: scan_exponent_def length_dropWhile_le le_SucI split: list.splits if_splits)

lemma scan_integer_shorter: "scan_integer s = Some (d, r) \<Longrightarrow> length r < length s"
  by (auto simp: scan_integer_def length_dropWhile_le le_imp_less_Suc less_SucI split: list.splits if_splits)

lemma scan_number_shorter: "scan_number s = Some (v, r) \<Longrightarrow> length r < length s"
  by (auto simp: scan_number_def split: option.splits prod.splits if_splits
      dest!: scan_integer_shorter scan_fraction_length scan_exponent_length)

lemma decode_atom_shorter: "decode_atom h s = Inr (v, r) \<Longrightarrow> length r < length s"
  by (auto simp: decode_atom_def decode_constant_def split: if_splits option.splits sum.splits
      dest: prefix_length_le scan_number_shorter)

lemma decode_members_step:
  assumes "decode_members h (Suc n) s = Inr (ms, r)"
  obtains c cs k q d r1 v r2 e r3 where "s = c # cs" "scan_string cs = Some (k, q)" "skip_ws q = d # r1"
    "decode_value h n (skip_ws r1) = Inr (v, r2)" "skip_ws r2 = e # r3"
    "ms = [(k, v)] \<and> r = r3 \<or> (\<exists>ms'. decode_members h n (skip_ws r3) = Inr (ms', r) \<and> ms = (k, v) # ms')"
proof -
  obtain c cs where s: "s = c # cs" using assms by (cases s) simp_all
  have c: "c = dquote" using assms s by (cases "c = dquote") simp_all
  obtain k q where k: "scan_string cs = Some (k, q)" using assms s c by (cases "scan_string cs") auto
  obtain d r1 where d: "skip_ws q = d # r1" using assms s c k by (cases "skip_ws q") simp_all
  have "d = CHR '':''" using assms s c k d by (cases "d = CHR '':''") simp_all
  then obtain v r2 where v: "decode_value h n (skip_ws r1) = Inr (v, r2)"
    and rest: "(case skip_ws r2 of [] \<Rightarrow> Inl None
       | e # r3 \<Rightarrow> if e = CHR ''}'' then Inr ([(k, v)], r3)
                  else if e = CHR '','' then dbind (decode_members h n (skip_ws r3)) (\<lambda>(ms, q). Inr ((k, v) # ms, q))
                  else Inl None) = Inr (ms, r)"
    using assms s c k d by (cases "decode_value h n (skip_ws r1)") auto
  obtain e r3 where e: "skip_ws r2 = e # r3" using rest by (cases "skip_ws r2") simp_all
  have "ms = [(k, v)] \<and> r = r3 \<or> (\<exists>ms'. decode_members h n (skip_ws r3) = Inr (ms', r) \<and> ms = (k, v) # ms')"
    using rest e by (auto split: if_splits)
  then show thesis using that s k d v e by blast
qed

lemma decode_items_step:
  assumes "decode_items h (Suc n) s = Inr (vs, r)"
  obtains v r2 e r3 where "decode_value h n s = Inr (v, r2)" "skip_ws r2 = e # r3"
    "vs = [v] \<and> r = r3 \<or> (\<exists>vs'. decode_items h n (skip_ws r3) = Inr (vs', r) \<and> vs = v # vs')"
proof -
  obtain v r2 where v: "decode_value h n s = Inr (v, r2)"
    and rest: "(case skip_ws r2 of [] \<Rightarrow> Inl None
       | e # r3 \<Rightarrow> if e = CHR '']'' then Inr ([v], r3)
                  else if e = CHR '','' then dbind (decode_items h n (skip_ws r3)) (\<lambda>(vs, q). Inr (v # vs, q))
                  else Inl None) = Inr (vs, r)"
    using assms by (cases "decode_value h n s") auto
  obtain e r3 where e: "skip_ws r2 = e # r3" using rest by (cases "skip_ws r2") simp_all
  have "vs = [v] \<and> r = r3 \<or> (\<exists>vs'. decode_items h n (skip_ws r3) = Inr (vs', r) \<and> vs = v # vs')"
    using rest e by (auto split: if_splits)
  then show thesis using that v e by blast
qed

lemma decode_shorter:
  "decode_value h n s = Inr (v, r) \<Longrightarrow> length r < length s"
  "decode_members h n s = Inr (ms, r) \<Longrightarrow> length r < length s"
  "decode_items h n s = Inr (vs, r) \<Longrightarrow> length r < length s"
proof (induction n arbitrary: s v ms vs r)
  case (Suc n)
  {
    case 1
    then obtain c cs where [simp]: "s = c # cs" by (cases s) simp_all
    show ?case
    proof (cases "c = CHR ''{'' \<or> c = CHR ''[''")
      case True
      with 1 show ?thesis
        by (cases "skip_ws cs"; auto split: if_splits prod.splits
            dest!: Suc.IH(2,3) skip_ws_Cons_length)
    next
      case False
      with 1 show ?thesis
        by (cases "c = dquote") (auto split: option.splits dest!: scan_string_shorter decode_atom_shorter)
    qed
  next
    case 2
    then obtain c cs k q d r1 v r2 e r3 where *: "s = c # cs" "scan_string cs = Some (k, q)" "skip_ws q = d # r1"
      "decode_value h n (skip_ws r1) = Inr (v, r2)" "skip_ws r2 = e # r3"
      "ms = [(k, v)] \<and> r = r3 \<or> (\<exists>ms'. decode_members h n (skip_ws r3) = Inr (ms', r) \<and> ms = (k, v) # ms')"
      by (rule decode_members_step)
    have "length q < length cs" "length r1 < length q" "length r2 < length (skip_ws r1)" "length r3 < length r2"
      by (rule scan_string_shorter [OF *(2)] skip_ws_Cons_length [OF *(3)] Suc.IH(1) [OF *(4)] skip_ws_Cons_length [OF *(5)])+
    moreover have "r = r3 \<or> length r < length (skip_ws r3)" using *(6) Suc.IH(2) [of "skip_ws r3" _ r] by blast
    ultimately show ?case using *(1) skip_ws_length [of r1] skip_ws_length [of r3] by auto
  next
    case 3
    then obtain v r2 e r3 where *: "decode_value h n s = Inr (v, r2)" "skip_ws r2 = e # r3"
      "vs = [v] \<and> r = r3 \<or> (\<exists>vs'. decode_items h n (skip_ws r3) = Inr (vs', r) \<and> vs = v # vs')"
      by (rule decode_items_step)
    have "length r2 < length s" "length r3 < length r2" 
      by (rule Suc.IH(1) [OF *(1)] skip_ws_Cons_length [OF *(2)])+
    moreover have "r = r3 \<or> length r < length (skip_ws r3)" using *(3) Suc.IH(3) [of "skip_ws r3" _ r] by blast
    ultimately show ?case using skip_ws_length [of r3] by auto
  }
qed simp_all

lemma decode_fuel:
  "2 * length s < n \<Longrightarrow> 2 * length s < m \<Longrightarrow> decode_value h n s = decode_value h m s"
  "2 * length s < n \<Longrightarrow> 2 * length s < m \<Longrightarrow> decode_members h n s = decode_members h m s"
  "2 * length s + 1 < n \<Longrightarrow> 2 * length s + 1 < m \<Longrightarrow> decode_items h n s = decode_items h m s"
proof (induction n arbitrary: s m)
  case (Suc n)
  {
    case 1
    then obtain k where [simp]: "m = Suc k" by (cases m) simp_all
    show ?case
    proof (cases s)
      case [simp]: (Cons c cs)
      show ?thesis
      proof (cases "skip_ws cs")
        case (Cons d r)
        then have "length (d # r) \<le> length cs" using skip_ws_length [of cs] by simp
        then have "decode_members h n (d # r) = decode_members h k (d # r)"
          "decode_items h n (d # r) = decode_items h k (d # r)"
          using 1 Suc.IH(2) [of "d # r" k] Suc.IH(3) [of "d # r" k] by simp_all
        then show ?thesis using Cons by simp
      qed simp
    qed simp
  next
    case 2
    then obtain k where [simp]: "m = Suc k" by (cases m) simp_all
    have vals: "decode_value h n (skip_ws q) = decode_value h k (skip_ws q)"
      and mems: "decode_members h n (skip_ws q) = decode_members h k (skip_ws q)" if "length q < length s" for q
      using 2 Suc.IH(1) [of "skip_ws q" k] Suc.IH(2) [of "skip_ws q" k] skip_ws_length [of q] that by simp_all
    show ?case
    proof (cases s)
      case [simp]: (Cons c cs)
      show ?thesis
      proof (cases "scan_string cs")
        case [simp]: (Some kr)
        obtain ky r where [simp]: "kr = (ky, r)" by (cases kr)
        have r: "length r < length cs" using scan_string_shorter [of cs ky r] by simp
        show ?thesis
        proof (cases "skip_ws r")
          case [simp]: (Cons d r1)
          have r1: "length r1 < length r" by (rule skip_ws_Cons_length) simp
          have e: "decode_value h n (skip_ws r1) = decode_value h k (skip_ws r1)"
            by (rule vals) (use r r1 in simp)
          show ?thesis
          proof (cases "decode_value h k (skip_ws r1)")
            case [simp]: (Inr vr)
            obtain v r2 where [simp]: "vr = (v, r2)" by (cases vr)
            have r2: "length r2 < length s"
              using decode_shorter(1) [of h k "skip_ws r1" v r2] skip_ws_length [of r1] r r1 by simp
            show ?thesis
            proof (cases "skip_ws r2")
              case [simp]: (Cons d2 r3)
              have "length r3 < length s" using skip_ws_Cons_length [of r2 d2 r3] r2 by simp
              then show ?thesis using e mems [of r3] by simp
            qed (use e in simp)
          qed (use e in simp)
        qed simp
      qed simp
    qed simp
  next
    case 3
    then obtain k where [simp]: "m = Suc k" by (cases m) simp_all
    have e: "decode_value h n s = decode_value h k s" using 3 Suc.IH(1) [of s k] by simp
    show ?case
    proof (cases "decode_value h k s")
      case [simp]: (Inr vr)
      obtain v r where [simp]: "vr = (v, r)" by (cases vr)
      have r: "length r < length s" using decode_shorter(1) [of h k s v r] by simp
      show ?thesis
      proof (cases "skip_ws r")
        case [simp]: (Cons d r1)
        have "length (skip_ws r1) < length s"
          using skip_ws_Cons_length [of r d r1] skip_ws_length [of r1] r by simp
        then show ?thesis using e 3 Suc.IH(3) [of "skip_ws r1" k] by simp
      qed (use e in simp)
    qed (use e in simp)
  }
qed simp_all

section \<open>Unique keys\<close>

text \<open>No object of a decoded document has a key twice, at any depth.\<close>

fun unique_keys :: "json \<Rightarrow> bool" where
  "unique_keys (JArr vs) = list_all unique_keys vs"
| "unique_keys (JObj ms) = (distinct (map fst ms) \<and> list_all (\<lambda>m. unique_keys (snd m)) ms)"
| "unique_keys _ = True"

lemma first_duplicate_None:
  "first_duplicate seen ms = None \<Longrightarrow> distinct (map fst ms) \<and> set (map fst ms) \<inter> set seen = {}"
  by (induction seen ms rule: first_duplicate.induct) (auto split: if_splits)

lemma last_wins_members:
  assumes "distinct (map fst d)" "set d \<subseteq> A" "set ms \<subseteq> A"
  shows "distinct (map fst (foldl (\<lambda>d (k, v). AList.update k v d) d ms))
    \<and> set (foldl (\<lambda>d (k, v). AList.update k v d) d ms) \<subseteq> A"
  using assms
proof (induction ms arbitrary: d)
  case (Cons m ms)
  obtain k v where m: "m = (k, v)" by fastforce
  have "set (AList.update k v d) \<subseteq> insert (k, v) (set d)" for d
    by (induction d) auto
  then have "set (AList.update k v d) \<subseteq> A" using Cons.prems m by fastforce
  then show ?case using Cons.IH [of "AList.update k v d"] Cons.prems by (simp add: m distinct_update)
qed simp

lemma pairs_hook_Inr:
  "pairs_hook h ms = Inr v \<Longrightarrow> \<exists>ds. v = JObj ds \<and> distinct (map fst ds) \<and> (\<forall>m \<in> set ds. m \<in> set ms)"
  using last_wins_members [of "[]" "set ms" ms]
  by (auto simp: pairs_hook_def last_wins_def dest: first_duplicate_None split: option.splits)

lemma decode_atom_unique: "decode_atom h s = Inr (v, r) \<Longrightarrow> unique_keys v"
  by (auto simp: decode_atom_def decode_constant_def scan_number_def split: if_splits option.splits prod.splits sum.splits)

lemma decode_unique_keys:
  "decode_value h n s = Inr (v, r) \<Longrightarrow> unique_keys v"
  "decode_members h n s = Inr (ms, r) \<Longrightarrow> list_all (\<lambda>m. unique_keys (snd m)) ms"
  "decode_items h n s = Inr (vs, r) \<Longrightarrow> list_all unique_keys vs"
proof (induction n arbitrary: s v ms vs r)
  case (Suc n)
  {
    case 1
    then obtain c cs where [simp]: "s = c # cs" by (cases s) simp_all
    show ?case
    proof (cases "c = CHR ''{'' \<or> c = CHR ''[''")
      case True
      with 1 show ?thesis
        by (cases "skip_ws cs"; auto split: if_splits prod.splits simp: list_all_iff dest!: Suc.IH(2,3) pairs_hook_Inr)
    next
      case False
      with 1 show ?thesis by (cases "c = dquote") (auto split: option.splits dest!: decode_atom_unique)
    qed
  next
    case 2
    then show ?case by (rule decode_members_step) (auto dest: Suc.IH(1,2))
  next
    case 3
    then show ?case by (rule decode_items_step) (auto dest: Suc.IH(1,3))
  }
qed simp_all

lemma json_loads_unique_keys: "json_loads h s = Inr v \<Longrightarrow> unique_keys v"
  by (auto simp: json_loads_def split: if_splits prod.splits dest: decode_unique_keys(1)
      simp del: decode_value.simps)

section \<open>Round trip\<close>

lemma hex_val_digit: "n < 16 \<Longrightarrow> hex_val (hex_digit n) = Some n"
  by (auto simp: hex_val_def hex_digit_def char_ord_def Let_def)

lemma decode_hex4_escape:
  "n < 256 \<Longrightarrow> decode_hex4 (CHR ''0'') (CHR ''0'') (hex_digit (n div 16)) (hex_digit (n mod 16)) = Some (char_of n)"
  by (simp add: decode_hex4_def hex_val_digit less_mult_imp_div_less)
    (simp add: hex_val_def char_ord_def)

lemma scan_escape_char:
  "scan_string (escape_char c @ rest) = map_option (\<lambda>(t, q). (c # t, q)) (scan_string rest)"
proof -
  have n: "char_ord c < 256" by (simp add: char_ord_def)
  have eq: "char_of (char_ord c) = c" by (simp add: char_ord_def)
  have c: "c = char_of m" if "char_ord c = m" for m using that eq by simp
  show ?thesis
    using decode_hex4_escape [OF n] eq
    by (auto simp: escape_char_def simple_escape_def Let_def dest!: c)
qed

lemma scan_dumps_str: "scan_string (concat (map escape_char s) @ dquote # rest) = Some (s, rest)"
  by (induction s) (simp_all add: scan_escape_char)

text \<open>The scalars whose text this theory reads back: strings, booleans and null.\<close>

fun textual :: "json \<Rightarrow> bool" where
  "textual (JStr _) = True"
| "textual (JBool _) = True"
| "textual JNull = True"
| "textual _ = False"

lemma textual_dumps: "textual v \<Longrightarrow> \<exists>t. dumps_scalar v = Some t"
  by (cases v) simp_all

lemma decode_scalar:
  assumes "textual v" "dumps_scalar v = Some t"
  shows "decode_value h (Suc n) (t @ rest) = Inr (v, rest)" "skip_ws (t @ rest) = t @ rest"
  using assms
  by (cases v; auto simp: dumps_str_def scan_dumps_str decode_atom_def skip_ws_def json_ws_def char_ord_def)+

lemma skip_ws_punct [simp]:
  "skip_ws (CHR '','' # r) = CHR '','' # r" "skip_ws (CHR ''}'' # r) = CHR ''}'' # r"
  "skip_ws (CHR '':'' # r) = CHR '':'' # r" "skip_ws (dquote # r) = dquote # r"
  by (simp_all add: skip_ws_def json_ws_def char_ord_def)

lemma all_some_Cons:
  "all_some (x # xs) = Some ys \<longleftrightarrow> (\<exists>y zs. x = Some y \<and> all_some xs = Some zs \<and> ys = y # zs)"
  by (cases x) auto

lemma dumps_start:
  assumes "all_some (map dumps_member ms) = Some ts" "ms \<noteq> []"
  obtains r u us where "commas ts = dquote # r" "ts = u # us"
proof (cases ms)
  case (Cons m ms')
  with assms(1) obtain y zs where y: "dumps_member m = Some y" "ts = y # zs" by (auto simp: all_some_Cons)
  from y(1) obtain r where "y = dquote # r" by (auto simp: dumps_member_def dumps_str_def)
  then show thesis using that y(2) by (cases zs) auto
qed (use assms in simp)

lemma decode_members_dumps:
  assumes "ms \<noteq> []" "list_all (\<lambda>m. textual (snd m)) ms" "all_some (map dumps_member ms) = Some ts" "length ms < n"
  shows "decode_members h n (commas ts @ CHR ''}'' # rest) = Inr (ms, rest)"
  using assms
proof (induction ms arbitrary: ts n)
  case (Cons m ms)
  obtain k v where m: "m = (k, v)" by (cases m)
  obtain i where n: "n = Suc (Suc i)" using Cons.prems(4) by (cases n; cases "n - 1") auto
  obtain t us where t: "dumps_scalar v = Some t" and ts: "ts = (dumps_str k @ CHR '':'' # t) # us"
    and us: "all_some (map dumps_member ms) = Some us"
    using Cons.prems(2,3) textual_dumps [of v] by (auto simp: m dumps_member_def [of "(k, v)"])
  have head: "decode_value h (Suc i) (t @ q) = Inr (v, q)" "skip_ws (t @ q) = t @ q" for q
    using decode_scalar [OF _ t] Cons.prems(2) m by auto
  show ?case
  proof (cases ms)
    case Nil
    then show ?thesis using us ts by (simp add: n m dumps_str_def scan_dumps_str head del: decode_value.simps)
  next
    case (Cons m' ms')
    then have ne: "ms \<noteq> []" and all: "list_all (\<lambda>m. textual (snd m)) ms" using Cons.prems(2) by simp_all
    have ih: "decode_members h (Suc i) (commas us @ CHR ''}'' # rest) = Inr (ms, rest)"
      by (rule Cons.IH [OF ne all us]) (use Cons.prems(4) n in simp)
    obtain r u us' where r: "commas us = dquote # r" and us': "us = u # us'" by (rule dumps_start [OF us ne])
    have "commas ts = dumps_str k @ CHR '':'' # t @ CHR '','' # commas us" by (simp add: ts us')
    then show ?thesis using ih by (simp add: n m dumps_str_def scan_dumps_str head r del: decode_value.simps)
  qed
qed simp

lemma first_duplicate_distinct:
  "distinct (map fst ms) \<Longrightarrow> set seen \<inter> set (map fst ms) = {} \<Longrightarrow> first_duplicate seen ms = None"
  by (induction seen ms rule: first_duplicate.induct) auto

lemma distinct_sort_key: "distinct (map fst (sort_key fst ms)) = distinct (map fst ms)"
  by (simp add: distinct_map)

lemma textual_dumps_object:
  assumes "list_all (\<lambda>m. textual (snd m)) ms"
  shows "\<exists>out. dumps_object ms = Some out"
proof -
  have "\<exists>ts. all_some (map dumps_member ms) = Some ts"
    using assms by (induction ms) (auto simp: dumps_member_def all_some_Cons dest!: textual_dumps)
  then show ?thesis by (auto simp: dumps_object_def)
qed

lemma textual_json_dumps:
  "list_all (\<lambda>m. textual (snd m)) ms \<Longrightarrow> \<exists>out. json_dumps ms = Some out"
  unfolding json_dumps_def by (rule textual_dumps_object) (simp add: list_all_iff)

lemma loads_dumps_object:
  assumes "ms \<noteq> []" "distinct (map fst ms)" "list_all (\<lambda>m. textual (snd m)) ms" "dumps_object ms = Some out"
  shows "json_loads h out = Inr (JObj ms)"
proof -
  obtain ts where ts: "all_some (map dumps_member ms) = Some ts" and out: "out = CHR ''{'' # commas ts @ [CHR ''}'']"
    using assms(4) by (auto simp: dumps_object_def)
  obtain i where i: "length ms < i" "2 * length out < i"
    by (rule that [of "Suc (length ms + 2 * length out)"]) simp_all
  have d: "decode_members h i (commas ts @ CHR ''}'' # []) = Inr (ms, [])"
    by (rule decode_members_dumps [OF assms(1,3) ts]) (rule i)
  obtain r where start: "commas ts = dquote # r" by (rule dumps_start [OF ts assms(1)])
  have "decode_value h (Suc i) out = Inr (JObj ms, [])"
    using start d first_duplicate_distinct [of ms "[]"] assms(2) by (simp add: out pairs_hook_def)
  moreover have "decode_value h (Suc (2 * length out)) out = decode_value h (Suc i) out"
    by (rule decode_fuel) (use i in simp_all)
  moreover have "skip_ws out = out" by (simp add: out skip_ws_def json_ws_def char_ord_def)
  ultimately show ?thesis by (simp add: json_loads_def skip_ws_def)
qed

lemma loads_dumps:
  assumes "ms \<noteq> []" "distinct (map fst ms)" "list_all (\<lambda>m. textual (snd m)) ms" "json_dumps ms = Some out"
  shows "json_loads h out = Inr (JObj (sort_key fst ms))"
proof (rule loads_dumps_object)
  show "sort_key fst ms \<noteq> []" using assms(1) by (metis length_sort length_0_conv)
qed (use assms in \<open>simp_all add: list_all_iff distinct_sort_key json_dumps_def\<close>)

end
