(* ===== verification/Place_Transaction.thy ===== *)
theory Place_Transaction
  imports Json_Text Interfaces
begin

text \<open>
  One placement transaction between the task node and the placement node.

  \<open>src/ros2/z_manip_place/z_manip_place/transaction.py\<close>: the identity of a request (goal and executor epoch), the
  abort command and the terminal failure as messages, and \<open>PlacementTransactionLifecycle\<close>, which owns one request
  at a time, hands its worker a generation-bound token and bounds its life by a ROS and a wall deadline.
  \<open>src/ros2/z_manip_task/z_manip_task/place_transaction.py\<close>: the task's side of the two messages. Messages are the JSON
  texts that travel on the topics; an argument of another type than its annotation is not modelled.
\<close>

section \<open>Strict messages\<close>

definition TRANSACTION_CONTROL_SCHEMA :: string where
  "TRANSACTION_CONTROL_SCHEMA = ''z_manip.place_transaction_control.v1''"

definition PLACE_STATUS_SCHEMA :: string where
  "PLACE_STATUS_SCHEMA = ''z_manip.place_status.v2''"

text \<open>Both modules have their own copy of the decoder and its hooks; they differ in the exception they raise.\<close>

definition strict_hooks :: "(string \<Rightarrow> exn) \<Rightarrow> json_hooks" where
  "strict_hooks err =
     \<lparr> dup_key = Some (\<lambda>k. err (''duplicate JSON key: '' @ k)),
       nonfinite = (\<lambda>c. Inl (err (''non-finite JSON constant: '' @ c))) \<rparr>"

definition strict_object :: "(string \<Rightarrow> exn) \<Rightarrow> string \<Rightarrow> string \<Rightarrow> (string \<times> json) list res" where
  "strict_object err payload label =
     (case json_loads (strict_hooks err) payload of
        Inl None \<Rightarrow> Inl (err (label @ '' is not valid JSON''))
      | Inl (Some e) \<Rightarrow> Inl e
      | Inr (JObj ms) \<Rightarrow> Inr ms
      | Inr _ \<Rightarrow> Inl (err (label @ '' must be a JSON object'')))"

definition bounded_text :: "nat \<Rightarrow> string \<Rightarrow> bool" where
  "bounded_text limit s = (py_strip s \<noteq> [] \<and> length s \<le> limit)"

definition identity_text :: "(string \<Rightarrow> exn) \<Rightarrow> json \<Rightarrow> string \<Rightarrow> string res" where
  "identity_text err v label =
     (case v of
        JStr s \<Rightarrow> raise_if (\<not> bounded_text 256 s) (err (label @ '' must be a bounded non-empty string'')) (Inr s)
      | _ \<Rightarrow> Inl (err (label @ '' must be a bounded non-empty string'')))"

definition keys_mismatch :: "string \<Rightarrow> string list \<Rightarrow> (string \<times> json) list \<Rightarrow> string" where
  "keys_mismatch label expected ms =
     label @ '' keys mismatch; missing='' @ repr_list (sorted_minus expected (map fst ms)) @
     '', unknown='' @ repr_list (sorted_minus (map fst ms) expected)"

definition jvalue :: "(string \<times> json) list \<Rightarrow> string \<Rightarrow> json" where
  "jvalue ms k = (case jget ms k of None \<Rightarrow> JNull | Some v \<Rightarrow> v)"

section \<open>The placement node's messages\<close>

record PlaceTransactionIdentity =
  tx_goal_id :: string
  tx_epoch :: string

definition make_identity :: "json \<Rightarrow> json \<Rightarrow> PlaceTransactionIdentity res" where
  "make_identity goal epoch =
     rbind (identity_text PlaceTransactionError goal ''goal_id'') (\<lambda>g.
     rbind (identity_text PlaceTransactionError epoch ''executor_epoch'') (\<lambda>e.
     Inr \<lparr> tx_goal_id = g, tx_epoch = e \<rparr>))"

record PlaceTransactionControl =
  control_action :: string
  control_identity :: PlaceTransactionIdentity

definition make_control :: "json \<Rightarrow> PlaceTransactionIdentity \<Rightarrow> PlaceTransactionControl res" where
  "make_control action ident =
     raise_if (action \<noteq> JStr ''abort'') (PlaceTransactionError ''transaction control action must be abort'')
       (Inr \<lparr> control_action = ''abort'', control_identity = ident \<rparr>)"

definition control_to_payload :: "PlaceTransactionControl \<Rightarrow> (string \<times> json) list" where
  "control_to_payload c =
     [(''schema'', JStr TRANSACTION_CONTROL_SCHEMA), (''action'', JStr (control_action c)),
      (''goal_id'', JStr (tx_goal_id (control_identity c))),
      (''executor_epoch'', JStr (tx_epoch (control_identity c)))]"

definition control_to_json :: "PlaceTransactionControl \<Rightarrow> string" where
  "control_to_json c = the (json_dumps (control_to_payload c))"

definition control_keys :: "string list" where
  "control_keys = [''schema'', ''action'', ''goal_id'', ''executor_epoch'']"

definition parse_transaction_control :: "string \<Rightarrow> PlaceTransactionControl res" where
  "parse_transaction_control payload =
     rbind (strict_object PlaceTransactionError payload ''placement transaction control'') (\<lambda>ms.
     raise_if (set (map fst ms) \<noteq> set control_keys)
       (PlaceTransactionError (keys_mismatch ''placement transaction control'' control_keys ms))
     (raise_if (jvalue ms ''schema'' \<noteq> JStr TRANSACTION_CONTROL_SCHEMA)
       (PlaceTransactionError ''unsupported placement transaction control schema'')
     (rbind (make_identity (jvalue ms ''goal_id'') (jvalue ms ''executor_epoch'')) (\<lambda>ident.
      make_control (jvalue ms ''action'') ident))))"

definition parse_region_transaction_identity :: "string \<Rightarrow> PlaceTransactionIdentity res" where
  "parse_region_transaction_identity payload =
     rbind (strict_object PlaceTransactionError payload ''placement region request'') (\<lambda>ms.
     raise_if (jvalue ms ''schema_version'' \<noteq> JInt 2)
       (PlaceTransactionError ''unsupported placement region request schema'')
     (make_identity (jvalue ms ''goal_id'') (jvalue ms ''executor_epoch'')))"

record PlaceTerminalFailure =
  failed_identity :: PlaceTransactionIdentity
  failed_reason :: string

definition make_terminal_failure :: "PlaceTransactionIdentity \<Rightarrow> string \<Rightarrow> PlaceTerminalFailure res" where
  "make_terminal_failure ident why =
     raise_if (\<not> bounded_text 1024 why) (PlaceTransactionError ''terminal failure reason is invalid'')
       (Inr \<lparr> failed_identity = ident, failed_reason = why \<rparr>)"

definition failure_to_payload :: "PlaceTerminalFailure \<Rightarrow> (string \<times> json) list" where
  "failure_to_payload f =
     [(''schema'', JStr PLACE_STATUS_SCHEMA), (''state'', JStr ''failed''), (''terminal'', JBool True),
      (''goal_id'', JStr (tx_goal_id (failed_identity f))),
      (''executor_epoch'', JStr (tx_epoch (failed_identity f))), (''reason'', JStr (failed_reason f))]"

definition failure_to_json :: "PlaceTerminalFailure \<Rightarrow> string" where
  "failure_to_json f = the (json_dumps (failure_to_payload f))"

section \<open>The task node's side\<close>

definition transaction_abort_json :: "string \<Rightarrow> string \<Rightarrow> string res" where
  "transaction_abort_json goal epoch =
     rbind (identity_text PlaceTransactionProtocolError (JStr goal) ''goal_id'') (\<lambda>g.
     rbind (identity_text PlaceTransactionProtocolError (JStr epoch) ''executor_epoch'') (\<lambda>e.
     Inr (the (json_dumps
       [(''schema'', JStr TRANSACTION_CONTROL_SCHEMA), (''action'', JStr ''abort''),
        (''goal_id'', JStr g), (''executor_epoch'', JStr e)]))))"

record TaskPlaceFailure =
  tpf_goal_id :: string
  tpf_epoch :: string
  tpf_reason :: string

definition status_keys :: "string list" where
  "status_keys = [''schema'', ''state'', ''terminal'', ''goal_id'', ''executor_epoch'', ''reason'']"

definition parse_terminal_place_status :: "string \<Rightarrow> TaskPlaceFailure option res" where
  "parse_terminal_place_status payload =
     rbind (strict_object PlaceTransactionProtocolError payload ''placement status'') (\<lambda>ms.
     if jget ms ''schema'' \<noteq> Some (JStr PLACE_STATUS_SCHEMA) then Inr None
     else raise_if (set (map fst ms) \<noteq> set status_keys)
            (PlaceTransactionProtocolError (keys_mismatch ''placement status'' status_keys ms))
     (raise_if (jvalue ms ''state'' \<noteq> JStr ''failed'' \<or> jvalue ms ''terminal'' \<noteq> JBool True)
       (PlaceTransactionProtocolError ''placement status v2 must be a terminal failure'')
     (case jvalue ms ''reason'' of
        JStr why \<Rightarrow>
          raise_if (\<not> bounded_text 1024 why)
            (PlaceTransactionProtocolError ''placement failure reason is invalid'')
          (rbind (identity_text PlaceTransactionProtocolError (jvalue ms ''goal_id'') ''goal_id'') (\<lambda>g.
           rbind (identity_text PlaceTransactionProtocolError (jvalue ms ''executor_epoch'') ''executor_epoch'') (\<lambda>e.
           Inr (Some \<lparr> tpf_goal_id = g, tpf_epoch = e, tpf_reason = why \<rparr>))))
      | _ \<Rightarrow> Inl (PlaceTransactionProtocolError ''placement failure reason is invalid''))))"

section \<open>The lifecycle\<close>

record PlaceTransactionToken =
  token_identity :: PlaceTransactionIdentity
  token_generation :: int

datatype LifecycleState = LC_IDLE | LC_PENDING | LC_PLANNING | LC_ARMED

fun lifecycle_text :: "LifecycleState \<Rightarrow> string" where
  "lifecycle_text LC_IDLE = ''idle''"
| "lifecycle_text LC_PENDING = ''pending''"
| "lifecycle_text LC_PLANNING = ''planning''"
| "lifecycle_text LC_ARMED = ''armed''"

record PlacementTransactionLifecycle =
  ros_timeout_ns :: int
  wall_timeout_s :: real
  lc_generation :: int
  lc_identity :: "PlaceTransactionIdentity option"
  lc_state :: LifecycleState
  started_ros_ns :: "int option"
  last_ros_ns :: "int option"
  started_wall_s :: "real option"
  last_wall_s :: "real option"

type_synonym 'a lifecycle_op = "('a, PlacementTransactionLifecycle) outcome"

definition lifecycle_reset :: "PlacementTransactionLifecycle \<Rightarrow> PlacementTransactionLifecycle" where
  "lifecycle_reset l =
     l\<lparr> lc_generation := lc_generation l + 1, lc_identity := None, lc_state := LC_IDLE,
        started_ros_ns := None, last_ros_ns := None, started_wall_s := None, last_wall_s := None \<rparr>"

definition lifecycle_init :: "pyfloat \<Rightarrow> pyfloat \<Rightarrow> PlacementTransactionLifecycle res" where
  "lifecycle_init ros_timeout_s wall_s =
     raise_if (\<not> isfinite ros_timeout_s \<or> ros_timeout_s \<le> 0)
       (PlaceTransactionError ''ros_timeout_s must be finite and positive'')
     (raise_if (\<not> isfinite wall_s \<or> wall_s \<le> 0)
       (PlaceTransactionError ''wall_timeout_s must be finite and positive'')
     (Inr (lifecycle_reset
        \<lparr> ros_timeout_ns = py_round (the_fin ros_timeout_s * 1000000000), wall_timeout_s = the_fin wall_s,
          lc_generation = 0, lc_identity = None, lc_state = LC_IDLE, started_ros_ns = None,
          last_ros_ns = None, started_wall_s = None, last_wall_s = None \<rparr>)))"

definition lifecycle_active :: "PlacementTransactionLifecycle \<Rightarrow> bool" where
  "lifecycle_active l = (lc_identity l \<noteq> None \<and> lc_state l \<in> {LC_PENDING, LC_PLANNING, LC_ARMED})"

definition lifecycle_armed :: "PlacementTransactionLifecycle \<Rightarrow> bool" where
  "lifecycle_armed l = (lc_identity l \<noteq> None \<and> lc_state l = LC_ARMED)"

definition validate_clocks :: "int \<Rightarrow> pyfloat \<Rightarrow> unit res" where
  "validate_clocks now_ros_ns now_wall_s =
     raise_if (now_ros_ns < 0) (PlaceTransactionError ''transaction ROS clock is invalid'')
     (raise_if (\<not> isfinite now_wall_s \<or> now_wall_s < 0)
       (PlaceTransactionError ''transaction wall clock is invalid'') (Inr ()))"

definition lifecycle_begin ::
  "PlaceTransactionIdentity \<Rightarrow> int \<Rightarrow> pyfloat \<Rightarrow> PlacementTransactionLifecycle \<Rightarrow> PlaceTransactionToken lifecycle_op" where
  "lifecycle_begin ident now_ros_ns now_wall_s l =
     guard (lifecycle_active l) (PlaceTransactionError ''a placement transaction is already active'') l
     (gbind (validate_clocks now_ros_ns now_wall_s) l (\<lambda>_.
      let g = lc_generation l + 1; w = the_fin now_wall_s in
      (Inr \<lparr> token_identity = ident, token_generation = g \<rparr>,
       l\<lparr> lc_generation := g, lc_identity := Some ident, lc_state := LC_PENDING,
          started_ros_ns := Some now_ros_ns, last_ros_ns := Some now_ros_ns,
          started_wall_s := Some w, last_wall_s := Some w \<rparr>)))"

definition token_matches :: "PlaceTransactionToken \<Rightarrow> PlacementTransactionLifecycle \<Rightarrow> bool" where
  "token_matches tok l =
     (lc_identity l = Some (token_identity tok) \<and> lc_generation l = token_generation tok \<and> lifecycle_active l)"

definition start_planning :: "PlaceTransactionToken \<Rightarrow> PlacementTransactionLifecycle \<Rightarrow> unit lifecycle_op" where
  "start_planning tok l =
     guard (\<not> token_matches tok l \<or> lc_state l \<noteq> LC_PENDING)
       (PlaceTransactionError ''placement planning token is stale'') l
       (Inr (), l\<lparr> lc_state := LC_PLANNING \<rparr>)"

definition lifecycle_arm ::
  "PlaceTransactionToken \<Rightarrow> int \<Rightarrow> pyfloat \<Rightarrow> PlacementTransactionLifecycle \<Rightarrow> unit lifecycle_op" where
  "lifecycle_arm tok now_ros_ns now_wall_s l =
     guard (\<not> token_matches tok l \<or> lc_state l \<noteq> LC_PLANNING)
       (PlaceTransactionError ''aborted or stale planning worker cannot arm'') l
     (gbind (validate_clocks now_ros_ns now_wall_s) l (\<lambda>_.
      guard (last_ros_ns l = None \<or> last_wall_s l = None) AssertionError l
     (guard (now_ros_ns < the (last_ros_ns l))
       (PlaceTransactionError ''placement transaction ROS clock moved backwards before arm'') l
     (guard (the_fin now_wall_s < the (last_wall_s l))
       (PlaceTransactionError ''placement transaction wall clock moved backwards before arm'') l
     (guard (started_ros_ns l = None \<or> started_wall_s l = None) AssertionError l
     (guard (ros_timeout_ns l \<le> now_ros_ns - the (started_ros_ns l))
       (PlaceTransactionError ''placement transaction ROS-time deadline exceeded before arm'') l
     (guard (wall_timeout_s l \<le> the_fin now_wall_s - the (started_wall_s l))
       (PlaceTransactionError ''placement transaction wall-time deadline exceeded before arm'') l
       (Inr (), l\<lparr> lc_state := LC_ARMED, last_ros_ns := Some now_ros_ns,
                   last_wall_s := Some (the_fin now_wall_s) \<rparr>))))))))"

definition lifecycle_abort ::
  "PlaceTransactionControl \<Rightarrow> PlacementTransactionLifecycle \<Rightarrow> bool lifecycle_op" where
  "lifecycle_abort c l =
     (if \<not> lifecycle_active l \<or> Some (control_identity c) \<noteq> lc_identity l then (Inr False, l)
      else (Inr True, lifecycle_reset l))"

text \<open>The terminal reason of a watchdog tick, if there is one; the assertions of the code are its first check.\<close>

definition watchdog_verdict :: "int \<Rightarrow> real \<Rightarrow> PlacementTransactionLifecycle \<Rightarrow> string option" where
  "watchdog_verdict now_ros_ns w l =
     (if now_ros_ns < the (last_ros_ns l) then Some ''placement transaction ROS clock moved backwards''
      else if w < the (last_wall_s l) then Some ''placement transaction wall clock moved backwards''
      else if ros_timeout_ns l \<le> now_ros_ns - the (started_ros_ns l) then
        Some (''placement transaction '' @ lifecycle_text (lc_state l) @ '' ROS-time deadline exceeded'')
      else if wall_timeout_s l \<le> w - the (started_wall_s l) then
        Some (''placement transaction '' @ lifecycle_text (lc_state l) @ '' wall-time deadline exceeded'')
      else None)"

definition watchdog_reason ::
  "int \<Rightarrow> pyfloat \<Rightarrow> PlacementTransactionLifecycle \<Rightarrow> string option lifecycle_op" where
  "watchdog_reason now_ros_ns now_wall_s l =
     (if \<not> lifecycle_active l then (Inr None, l)
      else (case validate_clocks now_ros_ns now_wall_s of
         Inl _ \<Rightarrow> (Inr (Some ''placement transaction watchdog clock is invalid''), lifecycle_reset l)
       | Inr _ \<Rightarrow>
           guard (last_ros_ns l = None \<or> started_ros_ns l = None \<or> last_wall_s l = None \<or> started_wall_s l = None)
             AssertionError l
           (case watchdog_verdict now_ros_ns (the_fin now_wall_s) l of
              Some why \<Rightarrow> (Inr (Some why), lifecycle_reset l)
            | None \<Rightarrow> (Inr None, l\<lparr> last_ros_ns := Some now_ros_ns, last_wall_s := Some (the_fin now_wall_s) \<rparr>))))"

section \<open>Runs of the lifecycle\<close>

datatype lifecycle_event =
    LcBegin PlaceTransactionIdentity int pyfloat
  | LcStart PlaceTransactionToken
  | LcArm PlaceTransactionToken int pyfloat
  | LcAbort PlaceTransactionControl
  | LcWatchdog int pyfloat
  | LcReset

fun lifecycle_step :: "PlacementTransactionLifecycle \<Rightarrow> lifecycle_event \<Rightarrow> PlacementTransactionLifecycle" where
  "lifecycle_step l (LcBegin i r w) = snd (lifecycle_begin i r w l)"
| "lifecycle_step l (LcStart t) = snd (start_planning t l)"
| "lifecycle_step l (LcArm t r w) = snd (lifecycle_arm t r w l)"
| "lifecycle_step l (LcAbort c) = snd (lifecycle_abort c l)"
| "lifecycle_step l (LcWatchdog r w) = snd (watchdog_reason r w l)"
| "lifecycle_step l LcReset = lifecycle_reset l"

text \<open>An owned request has its four clock readings, and the last ones are not before the first.\<close>

definition lifecycle_inv :: "PlacementTransactionLifecycle \<Rightarrow> bool" where
  "lifecycle_inv l \<longleftrightarrow>
     (lc_identity l = None \<longleftrightarrow> lc_state l = LC_IDLE) \<and>
     (lc_identity l \<noteq> None \<longrightarrow>
        (\<exists>r0 r w0 w. started_ros_ns l = Some r0 \<and> last_ros_ns l = Some r \<and> started_wall_s l = Some w0 \<and>
           last_wall_s l = Some w \<and> r0 \<le> r \<and> w0 \<le> w))"

lemma lifecycle_init_inv: "lifecycle_init a b = Inr l \<Longrightarrow> lifecycle_inv l"
  by (auto simp: lifecycle_init_def lifecycle_reset_def lifecycle_inv_def)

lemma lifecycle_reset_inv [simp]: "lifecycle_inv (lifecycle_reset l)"
  by (simp add: lifecycle_reset_def lifecycle_inv_def)

lemma lifecycle_active_iff: "lifecycle_inv l \<Longrightarrow> lifecycle_active l \<longleftrightarrow> lc_identity l \<noteq> None"
  by (cases "lc_state l") (auto simp: lifecycle_active_def lifecycle_inv_def)

lemmas lifecycle_guards = guard_def validate_clocks_def raise_if_def Let_def

text \<open>What one operation can do to an owned request: keep it with its start times, or end it.\<close>

definition same_request :: "PlacementTransactionLifecycle \<Rightarrow> PlacementTransactionLifecycle \<Rightarrow> bool" where
  "same_request l m \<longleftrightarrow>
     lc_generation m = lc_generation l \<and> lc_identity m = lc_identity l \<and>
     started_ros_ns m = started_ros_ns l \<and> started_wall_s m = started_wall_s l \<and>
     ros_timeout_ns m = ros_timeout_ns l \<and> wall_timeout_s m = wall_timeout_s l"

definition owned :: "PlaceTransactionIdentity \<Rightarrow> int \<Rightarrow> real \<Rightarrow> PlacementTransactionLifecycle \<Rightarrow> PlacementTransactionLifecycle" where
  "owned i r w l =
     l\<lparr> lc_generation := lc_generation l + 1, lc_identity := Some i, lc_state := LC_PENDING,
        started_ros_ns := Some r, last_ros_ns := Some r, started_wall_s := Some w, last_wall_s := Some w \<rparr>"

lemma owned_inv [simp]: "lifecycle_inv (owned i r w l)"
  by (simp add: owned_def lifecycle_inv_def)

lemma begin_cases:
  "(\<exists>e. lifecycle_begin i r w l = (Inl e, l) \<and> e \<noteq> AssertionError) \<or>
   (\<not> lifecycle_active l \<and> isfinite w \<and> lifecycle_begin i r w l =
      (Inr \<lparr> token_identity = i, token_generation = lc_generation l + 1 \<rparr>, owned i r (the_fin w) l))"
  by (simp add: lifecycle_begin_def lifecycle_guards owned_def)

lemma start_planning_step: "snd (start_planning t l) = l \<or>
    token_matches t l \<and> snd (start_planning t l) = l\<lparr> lc_state := LC_PLANNING \<rparr>"
  by (simp add: start_planning_def guard_def)

definition clock_tick :: "int \<Rightarrow> real \<Rightarrow> PlacementTransactionLifecycle \<Rightarrow> PlacementTransactionLifecycle" where
  "clock_tick r w l = l\<lparr> last_ros_ns := Some r, last_wall_s := Some w \<rparr>"

text \<open>The clock readings of a call are in order and before both deadlines.\<close>

definition in_time :: "int \<Rightarrow> pyfloat \<Rightarrow> PlacementTransactionLifecycle \<Rightarrow> bool" where
  "in_time r w l \<longleftrightarrow> isfinite w \<and> the (last_ros_ns l) \<le> r \<and> the (last_wall_s l) \<le> the_fin w \<and>
     r - the (started_ros_ns l) < ros_timeout_ns l \<and> the_fin w - the (started_wall_s l) < wall_timeout_s l"

lemma clock_tick_inv:
  "lifecycle_inv l \<Longrightarrow> in_time r w l \<Longrightarrow> lifecycle_inv (clock_tick r (the_fin w) l)"
  by (auto simp: lifecycle_inv_def clock_tick_def in_time_def)

lemma inv_clocks:
  assumes "lifecycle_inv l" "lc_identity l \<noteq> None"
  obtains r0 r1 w0 w1 where "started_ros_ns l = Some r0" "last_ros_ns l = Some r1" "started_wall_s l = Some w0"
    "last_wall_s l = Some w1"
  using assms by (auto simp: lifecycle_inv_def)

lemma arm_step:
  assumes "lifecycle_inv l"
  shows "(\<exists>e. lifecycle_arm t r w l = (Inl e, l) \<and> e \<noteq> AssertionError) \<or>
    (token_matches t l \<and> lc_state l = LC_PLANNING \<and> in_time r w l \<and>
     lifecycle_arm t r w l = (Inr (), (clock_tick r (the_fin w) l)\<lparr> lc_state := LC_ARMED \<rparr>))"
proof (cases "token_matches t l \<and> lc_state l = LC_PLANNING")
  case True
  then have own: "lc_identity l \<noteq> None" by (simp add: token_matches_def)
  obtain r0 r1 w0 w1 where "started_ros_ns l = Some r0" "last_ros_ns l = Some r1" "started_wall_s l = Some w0"
    "last_wall_s l = Some w1" by (rule inv_clocks [OF assms own])
  with True show ?thesis
    by (simp add: lifecycle_arm_def lifecycle_guards in_time_def clock_tick_def not_less)
next
  case False
  then show ?thesis by (auto simp: lifecycle_arm_def guard_def)
qed

lemma watchdog_step:
  assumes "lifecycle_inv l"
  shows "(lc_identity l = None \<and> watchdog_reason r w l = (Inr None, l)) \<or>
    (lc_identity l \<noteq> None \<and> \<not> in_time r w l \<and> (\<exists>why. watchdog_reason r w l = (Inr (Some why), lifecycle_reset l))) \<or>
    (lc_identity l \<noteq> None \<and> r < 0 \<and> (\<exists>why. watchdog_reason r w l = (Inr (Some why), lifecycle_reset l))) \<or>
    (lc_identity l \<noteq> None \<and> w < 0 \<and> (\<exists>why. watchdog_reason r w l = (Inr (Some why), lifecycle_reset l))) \<or>
    (lc_identity l \<noteq> None \<and> in_time r w l \<and> watchdog_reason r w l = (Inr None, clock_tick r (the_fin w) l))"
proof (cases "lc_identity l = None")
  case True
  then show ?thesis by (simp add: watchdog_reason_def lifecycle_active_iff [OF assms])
next
  case False
  show ?thesis
  proof (cases "r < 0 \<or> \<not> isfinite w \<or> w < 0")
    case True
    then show ?thesis using False
      by (auto simp: watchdog_reason_def lifecycle_active_iff [OF assms] validate_clocks_def raise_if_def in_time_def)
  next
    case ok: False
    obtain r0 r1 w0 w1 where "started_ros_ns l = Some r0" "last_ros_ns l = Some r1" "started_wall_s l = Some w0"
      "last_wall_s l = Some w1" by (rule inv_clocks [OF assms False])
    with ok False show ?thesis
      by (simp add: watchdog_reason_def lifecycle_active_iff [OF assms] validate_clocks_def raise_if_def guard_def
          watchdog_verdict_def in_time_def clock_tick_def not_less)
  qed
qed

lemma same_request_updates [simp]:
  "same_request l l" "same_request l (clock_tick r w l)" "same_request l (l\<lparr> lc_state := x \<rparr>)"
  "same_request l ((clock_tick r w l)\<lparr> lc_state := x \<rparr>)"
  by (simp_all add: same_request_def clock_tick_def)

lemma inv_set_state:
  "lifecycle_inv l \<Longrightarrow> lc_identity l \<noteq> None \<Longrightarrow> x \<noteq> LC_IDLE \<Longrightarrow> lifecycle_inv (l\<lparr> lc_state := x \<rparr>)"
  by (auto simp: lifecycle_inv_def)

lemma reset_generation [simp]: "lc_generation (lifecycle_reset l) = lc_generation l + 1"
  by (simp add: lifecycle_reset_def)

lemma lifecycle_step_cases:
  assumes "lifecycle_inv l"
  shows "lifecycle_inv (lifecycle_step l e) \<and>
    (same_request l (lifecycle_step l e) \<or> lc_generation l < lc_generation (lifecycle_step l e))"
proof (cases e)
  case (LcBegin i r w)
  then show ?thesis using begin_cases [of i r w l] assms by (auto simp: owned_def [of i r "the_fin w" l, symmetric])
     (simp_all add: owned_def)
next
  case (LcStart t)
  then show ?thesis using start_planning_step [of t l] assms inv_set_state [of l LC_PLANNING]
    by (auto simp: token_matches_def)
next
  case (LcArm t r w)
  have "token_matches t l \<Longrightarrow> in_time r w l \<Longrightarrow>
      lifecycle_inv ((clock_tick r (the_fin w) l)\<lparr> lc_state := LC_ARMED \<rparr>)"
    using inv_set_state [OF clock_tick_inv [OF assms], of r w LC_ARMED] by (simp add: token_matches_def clock_tick_def)
  then show ?thesis using arm_step [OF assms, of t r w] assms by (auto simp: LcArm)
next
  case (LcAbort c)
  then show ?thesis using assms by (simp add: lifecycle_abort_def)
next
  case (LcWatchdog r w)
  then show ?thesis using watchdog_step [OF assms, of r w] assms clock_tick_inv [OF assms, of r w] by auto
qed simp

interpretation placement: capability lifecycle_step lifecycle_inv lc_generation "\<lambda>l t. token_matches t l" token_generation
proof
  fix l e and t :: PlaceTransactionToken
  assume inv: "lifecycle_inv l"
  show "lifecycle_inv (lifecycle_step l e)" using lifecycle_step_cases [OF inv] by blast
  show "lc_generation l \<le> lc_generation (lifecycle_step l e)"
    using lifecycle_step_cases [OF inv, of e] by (auto simp: same_request_def)
  show "token_matches t l \<Longrightarrow> token_generation t = lc_generation l" by (simp add: token_matches_def)
qed

lemma run_same_request:
  assumes "lifecycle_inv l"
  shows "same_request l (foldl lifecycle_step l es) \<or> lc_generation l < lc_generation (foldl lifecycle_step l es)"
  using assms
proof (induction es rule: rev_induct)
  case (snoc e es)
  have "lifecycle_inv (foldl lifecycle_step l es)" by (rule placement.run_inv [OF snoc.prems])
  from lifecycle_step_cases [OF this, of e] snoc show ?case by (auto simp: same_request_def)
qed simp

lemma token_matches_same:
  assumes "lifecycle_inv s" "same_request m s" "token_matches tok m"
  shows "token_matches tok s"
  using assms lifecycle_active_iff [OF assms(1)] by (auto simp: token_matches_def same_request_def)

text \<open>A request accepted in a reachable state.\<close>

lemma begin_facts:
  assumes "lifecycle_init a b = Inr l0" "l = foldl lifecycle_step l0 es" "lifecycle_begin i r w l = (Inr tok, m)"
  shows "lifecycle_inv m" "token_matches tok m" "token_generation tok = lc_generation m" "lc_identity m \<noteq> None"
    "isfinite w" "m = owned i r (the_fin w) l"
proof -
  have "lifecycle_inv l" using placement.run_inv [OF lifecycle_init_inv [OF assms(1)]] assms(2) by simp
  with assms(3) begin_cases [of i r w l] show "isfinite w" and m: "m = owned i r (the_fin w) l" by auto
  have tok: "tok = \<lparr> token_identity = i, token_generation = lc_generation l + 1 \<rparr>"
    using assms(3) begin_cases [of i r w l] by auto
  show "lifecycle_inv m" by (simp add: m)
  show "token_matches tok m" "token_generation tok = lc_generation m" "lc_identity m \<noteq> None"
    by (simp_all add: m tok owned_def token_matches_def lifecycle_active_def)
qed

lemma lost_token:
  assumes "lifecycle_inv m" "token_matches tok m" "\<not> token_matches tok (foldl lifecycle_step m fs)"
  shows "token_generation tok < lc_generation (foldl lifecycle_step m fs)"
  using run_same_request [OF assms(1), of fs] assms(2,3) placement.run_inv [OF assms(1), of fs]
    token_matches_same [of "foldl lifecycle_step m fs" m tok]
  by (auto simp: token_matches_def)

section \<open>Properties of the lifecycle\<close>

text \<open>C34: The token handed out for a placement request is a capability of that request alone: it matches when issued, and
  once an abort, a watchdog tick or a reset took it away, no sequence of later operations (new requests of the same
  identity included) makes it match again.\<close>

theorem revoked_token_never_matches_again:
  assumes "lifecycle_init a b = Inr l0" and "l = foldl lifecycle_step l0 es"
    and "lifecycle_begin i r w l = (Inr tok, m)"
  shows "token_matches tok m \<and>
    (\<not> token_matches tok (foldl lifecycle_step m fs) \<longrightarrow> \<not> token_matches tok (foldl lifecycle_step m (fs @ gs)))"
proof -
  note m = begin_facts [OF assms]
  have "\<not> token_matches tok (foldl lifecycle_step (foldl lifecycle_step m fs) gs)"
    if "\<not> token_matches tok (foldl lifecycle_step m fs)"
    using placement.revoked [OF placement.run_inv [OF m(1)] lost_token [OF m(1,2) that]] .
  then show ?thesis using m(2) by simp
qed

definition demo_request :: PlaceTransactionIdentity where
  "demo_request = \<lparr> tx_goal_id = ''goal-1'', tx_epoch = ''epoch-a'' \<rparr>"

definition demo_lifecycle :: PlacementTransactionLifecycle where
  "demo_lifecycle =
     \<lparr> ros_timeout_ns = 5000000000, wall_timeout_s = 8, lc_generation = 1, lc_identity = None, lc_state = LC_IDLE,
       started_ros_ns = None, last_ros_ns = None, started_wall_s = None, last_wall_s = None \<rparr>"

definition demo_token :: PlaceTransactionToken where
  "demo_token = \<lparr> token_identity = demo_request, token_generation = 2 \<rparr>"

lemma demo_lifecycle_begins:
  "lifecycle_init (Fin 5) (Fin 8) = Inr demo_lifecycle"
  "lifecycle_begin demo_request 100 (Fin 1) demo_lifecycle = (Inr demo_token, owned demo_request 100 1 demo_lifecycle)"
  by (simp_all add: lifecycle_init_def raise_if_def lifecycle_reset_def demo_lifecycle_def py_round_def Let_def
      lifecycle_begin_def guard_def lifecycle_active_def validate_clocks_def demo_token_def owned_def)

lemma revoked_token_never_matches_again_witness:
  "\<not> token_matches demo_token (foldl lifecycle_step (owned demo_request 100 1 demo_lifecycle)
     ([LcAbort \<lparr> control_action = ''abort'', control_identity = demo_request \<rparr>] @
      [LcBegin demo_request 200 (Fin 2), LcStart demo_token]))"
proof -
  have "\<not> token_matches demo_token (foldl lifecycle_step (owned demo_request 100 1 demo_lifecycle)
     [LcAbort \<lparr> control_action = ''abort'', control_identity = demo_request \<rparr>])" by code_simp
  then show ?thesis
    using revoked_token_never_matches_again [OF demo_lifecycle_begins(1) _ demo_lifecycle_begins(2), of "[]"]
    by (simp only: foldl.simps(1)) blast
qed

text \<open>The deadlines of a request are those of its beginning: as long as the token matches, whatever planning, arming and
  watchdog calls were made, a watchdog tick at a time past either deadline (or at a clock that is not finite) ends the
  request with a reason and revokes the token, and arming at that time is refused.\<close>

theorem expired_request_is_ended:
  assumes "lifecycle_init a b = Inr l0" and "l = foldl lifecycle_step l0 es"
    and "lifecycle_begin i r w l = (Inr tok, m)"
    and "s = foldl lifecycle_step m fs" and "token_matches tok s"
    and "ros_timeout_ns l \<le> r' - r \<or> \<not> isfinite w' \<or> wall_timeout_s l \<le> the_fin w' - the_fin w"
  shows "(\<exists>why h. watchdog_reason r' w' s = (Inr (Some why), h) \<and> \<not> token_matches tok h) \<and>
    (\<exists>e. lifecycle_arm tok r' w' s = (Inl e, s))"
proof -
  note m = begin_facts [OF assms(1-3)]
  have inv: "lifecycle_inv s" using placement.run_inv [OF m(1), of fs] assms(4) by simp
  have "same_request m s"
    using run_same_request [OF m(1), of fs] assms(4,5) m(3) by (auto simp: token_matches_def)
  then have "\<not> in_time r' w' s" using assms(6) m(6) by (auto simp: in_time_def same_request_def owned_def)
  moreover have "lc_identity s \<noteq> None" using assms(5) by (simp add: token_matches_def)
  moreover have "\<not> token_matches tok (lifecycle_reset s)" by (simp add: token_matches_def lifecycle_reset_def)
  ultimately show ?thesis using watchdog_step [OF inv, of r' w'] arm_step [OF inv, of tok r' w'] by auto
qed

lemma expired_request_is_ended_witness:
  "\<exists>e. lifecycle_arm demo_token 5000000100 (Fin 2)
     (foldl lifecycle_step (owned demo_request 100 1 demo_lifecycle) [LcStart demo_token, LcWatchdog 4000000000 (Fin 2)])
   = (Inl e, foldl lifecycle_step (owned demo_request 100 1 demo_lifecycle) [LcStart demo_token, LcWatchdog 4000000000 (Fin 2)])"
proof -
  have "token_matches demo_token (foldl lifecycle_step (owned demo_request 100 1 demo_lifecycle)
      [LcStart demo_token, LcWatchdog 4000000000 (Fin 2)])" by code_simp
  moreover have "ros_timeout_ns demo_lifecycle \<le> 5000000100 - 100" by (simp add: demo_lifecycle_def)
  ultimately show ?thesis
    using expired_request_is_ended [OF demo_lifecycle_begins(1) _ demo_lifecycle_begins(2) refl, of "[]"]
    by (simp only: foldl.simps(1)) blast
qed

section \<open>Messages between the two nodes\<close>

lemma jget_sort_key: "distinct (map fst ms) \<Longrightarrow> jget (sort_key fst ms) k = jget ms k"
  using map_of_inject_set [of "sort_key fst ms" ms] by (simp add: jget_map_of distinct_sort_key)

lemma strict_object_dumps:
  assumes "ms \<noteq> []" "distinct (map fst ms)" "list_all (\<lambda>m. textual (snd m)) ms"
  shows "strict_object err (the (json_dumps ms)) label = Inr (sort_key fst ms)"
proof -
  obtain out where out: "json_dumps ms = Some out" using textual_json_dumps [OF assms(3)] ..
  show ?thesis by (simp add: strict_object_def out loads_dumps [OF assms out])
qed

text \<open>C35: The abort command survives the trip between the nodes: the text the task sends for an accepted goal and epoch
  is the one the placement node's own encoder writes, its parser reads back exactly that identity, and the command
  then resets the active transaction of that identity and leaves every other state alone.\<close>

theorem abort_message_ends_exactly_its_request:
  assumes "transaction_abort_json goal epoch = Inr out"
  shows "let c = \<lparr> control_action = ''abort'', control_identity = \<lparr> tx_goal_id = goal, tx_epoch = epoch \<rparr> \<rparr> in
    out = control_to_json c \<and> parse_transaction_control out = Inr c \<and>
    lifecycle_abort c l =
      (if lifecycle_active l \<and> lc_identity l = Some (control_identity c) then (Inr True, lifecycle_reset l)
       else (Inr False, l))"
proof -
  let ?c = "\<lparr> control_action = ''abort'', control_identity = \<lparr> tx_goal_id = goal, tx_epoch = epoch \<rparr> \<rparr>"
  let ?ms = "control_to_payload ?c"
  have b: "bounded_text 256 goal" "bounded_text 256 epoch" and out: "out = control_to_json ?c"
    using assms by (auto simp: transaction_abort_json_def identity_text_def control_to_json_def control_to_payload_def)
  have d: "?ms \<noteq> []" "distinct (map fst ?ms)" "list_all (\<lambda>m. textual (snd m)) ?ms"
    by (simp_all add: control_to_payload_def)
  have "strict_object PlaceTransactionError out ''placement transaction control'' = Inr (sort_key fst ?ms)"
    unfolding out control_to_json_def by (rule strict_object_dumps [OF d])
  moreover have "set (map fst (sort_key fst ?ms)) = set control_keys"
    by (auto simp: control_to_payload_def control_keys_def)
  moreover have "jvalue (sort_key fst ?ms) k = jvalue ?ms k" for k by (simp add: jvalue_def jget_sort_key [OF d(2)])
  ultimately have "parse_transaction_control out = Inr ?c"
    using b by (simp add: parse_transaction_control_def raise_if_def make_identity_def identity_text_def make_control_def)
      (simp add: jvalue_def control_to_payload_def)
  then show ?thesis using out by (auto simp: lifecycle_abort_def)
qed

lemma abort_message_ends_exactly_its_request_witness:
  "\<exists>out. transaction_abort_json ''goal-1'' ''epoch-a'' = Inr out \<and>
     parse_transaction_control out =
       Inr \<lparr> control_action = ''abort'', control_identity = \<lparr> tx_goal_id = ''goal-1'', tx_epoch = ''epoch-a'' \<rparr> \<rparr>"
proof -
  obtain out where "transaction_abort_json ''goal-1'' ''epoch-a'' = Inr out"
    by (simp add: transaction_abort_json_def identity_text_def raise_if_def bounded_text_def py_defs)
  then show ?thesis using abort_message_ends_exactly_its_request [of _ _ out] by (auto simp: Let_def)
qed

text \<open>A terminal failure survives the trip back: for every identity and reason the placement node accepts, the task's
  parser reads from the published text the same goal, epoch and reason.\<close>

theorem failure_message_roundtrip:
  assumes "make_identity (JStr goal) (JStr epoch) = Inr ident" and "make_terminal_failure ident why = Inr f"
  shows "parse_terminal_place_status (failure_to_json f) =
    Inr (Some \<lparr> tpf_goal_id = goal, tpf_epoch = epoch, tpf_reason = why \<rparr>)"
proof -
  have b: "bounded_text 256 goal" "bounded_text 256 epoch" "bounded_text 1024 why"
    and f: "f = \<lparr> failed_identity = \<lparr> tx_goal_id = goal, tx_epoch = epoch \<rparr>, failed_reason = why \<rparr>"
    using assms by (auto simp: make_identity_def make_terminal_failure_def identity_text_def)
  let ?ms = "failure_to_payload f"
  have d: "?ms \<noteq> []" "distinct (map fst ?ms)" "list_all (\<lambda>m. textual (snd m)) ?ms"
    by (simp_all add: failure_to_payload_def)
  have "strict_object PlaceTransactionProtocolError (failure_to_json f) ''placement status'' = Inr (sort_key fst ?ms)"
    unfolding failure_to_json_def by (rule strict_object_dumps [OF d])
  moreover have "set (map fst (sort_key fst ?ms)) = set status_keys"
    by (auto simp: failure_to_payload_def status_keys_def)
  moreover have "jvalue (sort_key fst ?ms) k = jvalue ?ms k" "jget (sort_key fst ?ms) k = jget ?ms k" for k
    by (simp_all add: jvalue_def jget_sort_key [OF d(2)])
  ultimately show ?thesis
    using b by (simp add: parse_terminal_place_status_def raise_if_def)
      (simp add: jvalue_def failure_to_payload_def f identity_text_def raise_if_def)
qed

lemma failure_message_roundtrip_witness:
  "parse_terminal_place_status (failure_to_json
     \<lparr> failed_identity = demo_request, failed_reason = ''no reachable pose'' \<rparr>) =
   Inr (Some \<lparr> tpf_goal_id = ''goal-1'', tpf_epoch = ''epoch-a'', tpf_reason = ''no reachable pose'' \<rparr>)"
  by (rule failure_message_roundtrip [of _ _ demo_request])
    (simp_all add: make_identity_def make_terminal_failure_def identity_text_def raise_if_def bounded_text_def
      demo_request_def py_defs)

end
