(* ===== verification/Trajectory_Digest.thy ===== *)
theory Trajectory_Digest
  imports Prelude "HOL-Library.Word"
begin

text \<open>
  \<open>src/z_manip/trajectory_digest.py\<close>: the canonical bytes of a joint trajectory, which a placement contract binds by
  their SHA-256 digest. Bytes are 8-bit words. A float64 is its 64-bit IEEE pattern, since the code hashes
  \<open>struct.pack('>d', number)\<close> and so distinguishes what the pattern distinguishes (the two zeros too). The hash
  itself (\<open>hashlib\<close>) is an argument: a function from bytes to the hexadecimal digest.
\<close>

type_synonym byte = "8 word"
type_synonym float64 = "64 word"

section \<open>Packing\<close>

text \<open>\<open>struct.pack\<close> in big-endian order: the lowest \<open>k\<close> bytes of a number.\<close>

fun be_bytes :: "nat \<Rightarrow> nat \<Rightarrow> byte list" where
  "be_bytes 0 n = []"
| "be_bytes (Suc k) n = be_bytes k (n div 256) @ [of_nat (n mod 256)]"

definition pack_I :: "nat \<Rightarrow> byte list" where
  "pack_I n = be_bytes 4 n"

definition pack_q :: "int \<Rightarrow> byte list" where
  "pack_q i = be_bytes 8 (nat (i mod 2 ^ 64))"

definition pack_d :: "float64 \<Rightarrow> byte list" where
  "pack_d x = be_bytes 8 (unat x)"

text \<open>Finite: the eleven exponent bits are not all ones.\<close>

definition float64_finite :: "float64 \<Rightarrow> bool" where
  "float64_finite x = (unat x div 2 ^ 52 mod 2 ^ 11 \<noteq> 2 ^ 11 - 1)"

definition utf8_char :: "char \<Rightarrow> byte list" where
  "utf8_char c =
     (let n = char_ord c in
      if n < 128 then [of_nat n] else [of_nat (192 + n div 64), of_nat (128 + n mod 64)])"

definition utf8 :: "string \<Rightarrow> byte list" where
  "utf8 s = concat (map utf8_char s)"

section \<open>The fields\<close>

record Duration =
  sec :: int
  nanosec :: int

record TrajectoryPoint =
  positions :: "float64 list"
  velocities :: "float64 list"
  accelerations :: "float64 list"
  effort :: "float64 list"
  time_from_start :: Duration

record JointTrajectory =
  frame_id :: string
  header_stamp :: Duration
  joint_names :: "string list"
  points :: "TrajectoryPoint list"

definition SCHEMA_PREFIX :: "byte list" where
  "SCHEMA_PREFIX = utf8 ''z_manip.joint_trajectory.sha256.v1'' @ [0]"

definition unsigned_check :: "int \<Rightarrow> string \<Rightarrow> int \<Rightarrow> int res" where
  "unsigned_check v label maximum =
     raise_if (\<not> (0 \<le> v \<and> v \<le> maximum)) (ValueError (label @ '' is outside its unsigned integer range'')) (Inr v)"

definition signed_check :: "int \<Rightarrow> string \<Rightarrow> int res" where
  "signed_check v label =
     raise_if (\<not> (- (2 ^ 63) \<le> v \<and> v < 2 ^ 63)) (ValueError (label @ '' is outside the signed 64-bit range'')) (Inr v)"

definition text_bytes :: "string \<Rightarrow> string \<Rightarrow> byte list res" where
  "text_bytes v label =
     raise_if (v = [] \<or> v \<noteq> py_strip v) (ValueError (label @ '' must be a non-empty trimmed string''))
     (raise_if (2 ^ 32 \<le> length (utf8 v)) (ValueError (label @ '' exceeds the canonical string limit''))
       (Inr (pack_I (length (utf8 v)) @ utf8 v)))"

text \<open>The first entry that is not finite makes the sequence invalid, with its index in the message.\<close>

fun float64_entries :: "string \<Rightarrow> nat \<Rightarrow> float64 list \<Rightarrow> byte list res" where
  "float64_entries label i [] = Inr []"
| "float64_entries label i (x # xs) =
     raise_if (\<not> float64_finite x) (ValueError (label @ ''['' @ show_nat i @ ''] must be finite float64 data''))
       (rbind (float64_entries label (i + 1) xs) (\<lambda>bs. Inr (pack_d x @ bs)))"

definition float64_sequence :: "float64 list \<Rightarrow> string \<Rightarrow> nat \<Rightarrow> bool \<Rightarrow> byte list res" where
  "float64_sequence xs label joint_count required =
     raise_if (\<not> (length xs = joint_count \<or> \<not> required \<and> length xs = 0))
       (ValueError (label @ '' length must be '' @ show_nat joint_count @ (if required then [] else '' or zero'')))
     (rbind (float64_entries label 0 xs) (\<lambda>bs. Inr (pack_I (length xs) @ bs)))"

definition duration_bytes :: "Duration \<Rightarrow> string \<Rightarrow> byte list res" where
  "duration_bytes d label =
     rbind (signed_check (sec d) (label @ ''.sec'')) (\<lambda>seconds.
     rbind (unsigned_check (nanosec d) (label @ ''.nanosec'') 999999999) (\<lambda>nanoseconds.
     raise_if (seconds < 0) (ValueError (label @ '' cannot be negative''))
       (Inr (pack_q seconds @ pack_I (nat nanoseconds)))))"

section \<open>The digest\<close>

text \<open>Each piece of the message in order; the first exception ends the update sequence.\<close>

fun updates :: "byte list res list \<Rightarrow> byte list res" where
  "updates [] = Inr []"
| "updates (p # ps) = rbind p (\<lambda>b. rbind (updates ps) (\<lambda>bs. Inr (b @ bs)))"

definition point_updates :: "nat \<Rightarrow> nat \<Rightarrow> TrajectoryPoint \<Rightarrow> byte list res" where
  "point_updates joint_count i p =
     (let label = ''points['' @ show_nat i @ ''].'' in
      updates
        [float64_sequence (positions p) (label @ ''positions'') joint_count True,
         float64_sequence (velocities p) (label @ ''velocities'') joint_count False,
         float64_sequence (accelerations p) (label @ ''accelerations'') joint_count False,
         float64_sequence (effort p) (label @ ''effort'') joint_count False,
         duration_bytes (time_from_start p) (label @ ''time_from_start'')])"

definition canonical_bytes :: "JointTrajectory \<Rightarrow> byte list res" where
  "canonical_bytes t =
     (let names = joint_names t; trajectory_points = points t in
      raise_if (names = [] \<or> 2 ^ 32 \<le> length names)
        (ValueError ''joint_names must be a bounded non-empty sequence'')
     (raise_if (\<not> distinct names) (ValueError ''joint_names must be unique'')
     (raise_if (trajectory_points = [] \<or> 2 ^ 32 \<le> length trajectory_points)
        (ValueError ''trajectory points must be a bounded non-empty sequence'')
     (updates
        ([Inr SCHEMA_PREFIX, text_bytes (frame_id t) ''frame_id'', duration_bytes (header_stamp t) ''header_stamp'',
          Inr (pack_I (length names))] @
         map (\<lambda>(i, n). text_bytes n (''joint_names['' @ show_nat i @ '']'')) (enumerate 0 names) @
         [Inr (pack_I (length trajectory_points))] @
         map (\<lambda>(i, p). point_updates (length names) i p) (enumerate 0 trajectory_points))))))"

definition canonical_joint_trajectory_sha256 :: "(byte list \<Rightarrow> string) \<Rightarrow> JointTrajectory \<Rightarrow> string res" where
  "canonical_joint_trajectory_sha256 sha256_hex t = rbind (canonical_bytes t) (\<lambda>bs. Inr (sha256_hex bs))"

section \<open>Self-delimiting encodings\<close>

text \<open>
  An encoding is self-delimiting when the end of a code word can be found from its start: two texts that begin
  with code words agree only if the encoded values and the rests agree.
\<close>

locale self_delimiting =
  fixes encode :: "'a \<Rightarrow> byte list"
    and valid :: "'a \<Rightarrow> bool"
  assumes delimited: "valid x \<Longrightarrow> valid y \<Longrightarrow> encode x @ r = encode y @ s \<Longrightarrow> x = y \<and> r = s"
begin

lemma injective: "valid x \<Longrightarrow> valid y \<Longrightarrow> encode x = encode y \<Longrightarrow> x = y"
  using delimited [of x y "[]" "[]"] by simp

lemma concat_injective:
  assumes nonempty: "\<And>x. encode x \<noteq> []"
  shows "list_all valid xs \<Longrightarrow> list_all valid ys \<Longrightarrow> concat (map encode xs) = concat (map encode ys) \<Longrightarrow> xs = ys"
proof (induction xs arbitrary: ys)
  case Nil
  then show ?case by (cases ys) (simp_all add: nonempty)
next
  case (Cons x xs)
  have "ys \<noteq> []" using Cons.prems(3) nonempty [of x] by auto
  then obtain y zs where ys: "ys = y # zs" by (cases ys) simp_all
  have "x = y \<and> concat (map encode xs) = concat (map encode zs)"
    using Cons.prems ys by (intro delimited) simp_all
  then show ?case using Cons.IH [of zs] Cons.prems ys by auto
qed

lemma delimited_list:
  "list_all valid xs \<Longrightarrow> list_all valid ys \<Longrightarrow> length xs = length ys \<Longrightarrow>
   concat (map encode xs) @ r = concat (map encode ys) @ s \<Longrightarrow> xs = ys \<and> r = s"
proof (induction xs arbitrary: ys)
  case (Cons x xs)
  then obtain y zs where ys: "ys = y # zs" by (cases ys) auto
  have "x = y \<and> concat (map encode xs) @ r = concat (map encode zs) @ s"
    using Cons.prems ys by (intro delimited) simp_all
  then show ?case using Cons.IH [of zs] Cons.prems ys by auto
qed simp

end

lemma byte_of_nat_inject: "a < 256 \<Longrightarrow> b < 256 \<Longrightarrow> (of_nat a :: byte) = of_nat b \<longleftrightarrow> a = b"
  by (simp add: word_of_nat_eq_iff take_bit_eq_mod)

lemma length_be_bytes [simp]: "length (be_bytes k n) = k"
  by (induction k arbitrary: n) simp_all

lemma be_bytes_inject: "m < 256 ^ k \<Longrightarrow> n < 256 ^ k \<Longrightarrow> be_bytes k m = be_bytes k n \<Longrightarrow> m = n"
proof (induction k arbitrary: m n)
  case (Suc k)
  have "m div 256 = n div 256" using Suc.prems by (intro Suc.IH) (auto simp: less_mult_imp_div_less mult.commute)
  moreover have "m mod 256 = n mod 256" using Suc.prems(3) by (auto simp: byte_of_nat_inject)
  ultimately show ?case by (metis div_mult_mod_eq)
qed simp

lemma be_bytes_delimited:
  "m < 256 ^ k \<Longrightarrow> n < 256 ^ k \<Longrightarrow> be_bytes k m @ r = be_bytes k n @ s \<Longrightarrow> m = n \<and> r = s"
  using be_bytes_inject by (simp add: append_eq_append_conv)

definition valid_u32 :: "nat \<Rightarrow> bool" where "valid_u32 n = (n < 2 ^ 32)"
definition valid_i64 :: "int \<Rightarrow> bool" where "valid_i64 i = (- (2 ^ 63) \<le> i \<and> i < 2 ^ 63)"

interpretation u32: self_delimiting pack_I valid_u32
proof
  fix x y r s assume "valid_u32 x" "valid_u32 y" "pack_I x @ r = pack_I y @ s"
  then show "x = y \<and> r = s" by (intro be_bytes_delimited [of x 4]) (simp_all add: pack_I_def valid_u32_def)
qed

lemma mod_i64_inject:
  assumes "valid_i64 x" "valid_i64 y" "x mod 2 ^ 64 = y mod 2 ^ 64" shows "x = y"
proof -
  have "(2 :: int) ^ 64 dvd x - y" using assms(3) by (simp add: mod_eq_dvd_iff)
  then obtain k where k: "x - y = 2 ^ 64 * k" by (auto simp: dvd_def)
  have "\<bar>x - y\<bar> < 2 ^ 64" using assms(1,2) by (auto simp: valid_i64_def abs_if)
  then have "k = 0" using k by (cases "k = 0") (auto simp: abs_mult)
  then show ?thesis using k by simp
qed

interpretation i64: self_delimiting pack_q valid_i64
proof
  fix x y r s assume "valid_i64 x" "valid_i64 y" "pack_q x @ r = pack_q y @ s"
  moreover have "nat (i mod 2 ^ 64) < 256 ^ 8" for i :: int
    using pos_mod_bound [of "2 ^ 64" i] by (simp add: nat_less_iff)
  ultimately have "nat (x mod 2 ^ 64) = nat (y mod 2 ^ 64) \<and> r = s"
    by (intro be_bytes_delimited [of _ 8]) (simp_all add: pack_q_def)
  then show "x = y \<and> r = s" using mod_i64_inject \<open>valid_i64 x\<close> \<open>valid_i64 y\<close> by (simp add: eq_nat_nat_iff)
qed

interpretation f64: self_delimiting pack_d "\<lambda>_. True"
proof
  fix x y :: float64 and r s assume e: "pack_d x @ r = pack_d y @ s"
  have "unat z < 256 ^ 8" for z :: float64 using unsigned_less [of z] by simp
  then have "unat x = unat y \<and> r = s" using be_bytes_delimited [of "unat x" 8 "unat y" r s] e by (simp add: pack_d_def)
  then show "x = y \<and> r = s" by (auto intro: unsigned_word_eqI)
qed

interpretation utf8_chars: self_delimiting utf8_char "\<lambda>_. True"
proof
  fix c d :: char and r s assume e: "utf8_char c @ r = utf8_char d @ s"
  let ?m = "char_ord c" and ?n = "char_ord d"
  have b: "?m < 256" "?n < 256" by (simp_all add: char_ord_def)
  have "?m = ?n \<and> r = s"
  proof (cases "?m < 128")
    case True
    then show ?thesis using e b
      by (cases "?n < 128") (auto simp: utf8_char_def Let_def byte_of_nat_inject simp del: of_nat_add)
  next
    case False
    with e b have "\<not> ?n < 128"
      by (auto simp: utf8_char_def Let_def byte_of_nat_inject simp del: of_nat_add)
    with e b False have "?m div 64 = ?n div 64" "?m mod 64 = ?n mod 64" "r = s"
      by (auto simp: utf8_char_def Let_def byte_of_nat_inject simp del: of_nat_add)
    then show ?thesis by (metis div_mult_mod_eq)
  qed
  then show "c = d \<and> r = s" by (simp add: char_ord_def)
qed

section \<open>The code of a trajectory\<close>

text \<open>The bytes of each field as a total function, and the values the checks accept.\<close>

definition text_code :: "string \<Rightarrow> byte list" where
  "text_code v = pack_I (length (utf8 v)) @ utf8 v"

definition text_ok :: "string \<Rightarrow> bool" where
  "text_ok v = (v \<noteq> [] \<and> v = py_strip v \<and> length (utf8 v) < 2 ^ 32)"

definition duration_code :: "Duration \<Rightarrow> byte list" where
  "duration_code d = pack_q (sec d) @ pack_I (nat (nanosec d))"

definition duration_ok :: "Duration \<Rightarrow> bool" where
  "duration_ok d = (0 \<le> sec d \<and> sec d < 2 ^ 63 \<and> 0 \<le> nanosec d \<and> nanosec d \<le> 999999999)"

definition floats_code :: "float64 list \<Rightarrow> byte list" where
  "floats_code xs = pack_I (length xs) @ concat (map pack_d xs)"

definition floats_ok :: "float64 list \<Rightarrow> bool" where
  "floats_ok xs = (length xs < 2 ^ 32)"

definition point_code :: "TrajectoryPoint \<Rightarrow> byte list" where
  "point_code p = floats_code (positions p) @ floats_code (velocities p) @ floats_code (accelerations p) @
     floats_code (effort p) @ duration_code (time_from_start p)"

definition point_ok :: "TrajectoryPoint \<Rightarrow> bool" where
  "point_ok p = (floats_ok (positions p) \<and> floats_ok (velocities p) \<and> floats_ok (accelerations p) \<and>
     floats_ok (effort p) \<and> duration_ok (time_from_start p))"

definition trajectory_code :: "JointTrajectory \<Rightarrow> byte list" where
  "trajectory_code t = SCHEMA_PREFIX @ text_code (frame_id t) @ duration_code (header_stamp t) @
     pack_I (length (joint_names t)) @ concat (map text_code (joint_names t)) @
     pack_I (length (points t)) @ concat (map point_code (points t))"

definition trajectory_ok :: "JointTrajectory \<Rightarrow> bool" where
  "trajectory_ok t = (text_ok (frame_id t) \<and> duration_ok (header_stamp t) \<and> length (joint_names t) < 2 ^ 32 \<and>
     list_all text_ok (joint_names t) \<and> length (points t) < 2 ^ 32 \<and> list_all point_ok (points t))"

interpretation texts: self_delimiting text_code text_ok
proof
  fix x y r s assume ok: "text_ok x" "text_ok y" and e: "text_code x @ r = text_code y @ s"
  have "length (utf8 x) = length (utf8 y) \<and> utf8 x @ r = utf8 y @ s"
    using e ok by (intro u32.delimited) (simp_all add: text_code_def text_ok_def valid_u32_def)
  then have "utf8 x = utf8 y \<and> r = s" using append_eq_append_conv by blast
  moreover have "utf8_char c \<noteq> []" for c by (simp add: utf8_char_def Let_def)
  ultimately show "x = y \<and> r = s"
    using utf8_chars.concat_injective [of x y] by (simp add: utf8_def list_all_iff)
qed

interpretation durations: self_delimiting duration_code duration_ok
proof
  fix x y r s assume ok: "duration_ok x" "duration_ok y" and e: "duration_code x @ r = duration_code y @ s"
  have "sec x = sec y \<and> pack_I (nat (nanosec x)) @ r = pack_I (nat (nanosec y)) @ s"
    using e ok by (intro i64.delimited) (simp_all add: duration_code_def duration_ok_def valid_i64_def)
  moreover from this have "nat (nanosec x) = nat (nanosec y) \<and> r = s"
    using ok by (intro u32.delimited) (simp_all add: duration_ok_def valid_u32_def nat_less_iff)
  ultimately show "x = y \<and> r = s" using ok by (auto simp: duration_ok_def eq_nat_nat_iff)
qed

interpretation float_lists: self_delimiting floats_code floats_ok
proof
  fix x y r s assume ok: "floats_ok x" "floats_ok y" and e: "floats_code x @ r = floats_code y @ s"
  have "length x = length y \<and> concat (map pack_d x) @ r = concat (map pack_d y) @ s"
    using e ok by (intro u32.delimited) (simp_all add: floats_code_def floats_ok_def valid_u32_def)
  then show "x = y \<and> r = s" by (intro f64.delimited_list) (simp_all add: list_all_iff)
qed

interpretation point_codes: self_delimiting point_code point_ok
proof
  fix x y r s assume ok: "point_ok x" "point_ok y" and e: "point_code x @ r = point_code y @ s"
  note okd = ok [unfolded point_ok_def]
  have 1: "positions x = positions y \<and>
      floats_code (velocities x) @ floats_code (accelerations x) @ floats_code (effort x) @ duration_code (time_from_start x) @ r =
      floats_code (velocities y) @ floats_code (accelerations y) @ floats_code (effort y) @ duration_code (time_from_start y) @ s"
    using e okd by (intro float_lists.delimited) (simp_all add: point_code_def)
  then have 2: "velocities x = velocities y \<and>
      floats_code (accelerations x) @ floats_code (effort x) @ duration_code (time_from_start x) @ r =
      floats_code (accelerations y) @ floats_code (effort y) @ duration_code (time_from_start y) @ s"
    using okd by (intro float_lists.delimited) simp_all
  then have 3: "accelerations x = accelerations y \<and>
      floats_code (effort x) @ duration_code (time_from_start x) @ r =
      floats_code (effort y) @ duration_code (time_from_start y) @ s"
    using okd by (intro float_lists.delimited) simp_all
  then have 4: "effort x = effort y \<and> duration_code (time_from_start x) @ r = duration_code (time_from_start y) @ s"
    using okd by (intro float_lists.delimited) simp_all
  then have "time_from_start x = time_from_start y \<and> r = s" using okd by (intro durations.delimited) simp_all
  with 1 2 3 4 show "x = y \<and> r = s" by simp
qed

interpretation trajectories: self_delimiting trajectory_code trajectory_ok
proof
  fix x y r s assume ok: "trajectory_ok x" "trajectory_ok y" and e: "trajectory_code x @ r = trajectory_code y @ s"
  note okd = ok [unfolded trajectory_ok_def]
  let ?names = "\<lambda>t. concat (map text_code (joint_names t))" and ?pts = "\<lambda>t. concat (map point_code (points t))"
  have 1: "frame_id x = frame_id y \<and>
      duration_code (header_stamp x) @ pack_I (length (joint_names x)) @ ?names x @ pack_I (length (points x)) @ ?pts x @ r =
      duration_code (header_stamp y) @ pack_I (length (joint_names y)) @ ?names y @ pack_I (length (points y)) @ ?pts y @ s"
    using e okd by (intro texts.delimited) (simp_all add: trajectory_code_def)
  then have 2: "header_stamp x = header_stamp y \<and>
      pack_I (length (joint_names x)) @ ?names x @ pack_I (length (points x)) @ ?pts x @ r =
      pack_I (length (joint_names y)) @ ?names y @ pack_I (length (points y)) @ ?pts y @ s"
    using okd by (intro durations.delimited) simp_all
  then have 3: "length (joint_names x) = length (joint_names y) \<and>
      ?names x @ pack_I (length (points x)) @ ?pts x @ r = ?names y @ pack_I (length (points y)) @ ?pts y @ s"
    using okd by (intro u32.delimited) (simp_all add: valid_u32_def)
  then have 4: "joint_names x = joint_names y \<and>
      pack_I (length (points x)) @ ?pts x @ r = pack_I (length (points y)) @ ?pts y @ s"
    using okd by (intro texts.delimited_list) simp_all
  then have 5: "length (points x) = length (points y) \<and> ?pts x @ r = ?pts y @ s"
    using okd by (intro u32.delimited) (simp_all add: valid_u32_def)
  then have "points x = points y \<and> r = s" using okd by (intro point_codes.delimited_list) simp_all
  with 1 2 4 show "x = y \<and> r = s" by simp
qed

section \<open>What the code hashes\<close>

lemma updates_append: "updates (ps @ qs) = Inr b \<longleftrightarrow> (\<exists>c d. updates ps = Inr c \<and> updates qs = Inr d \<and> b = c @ d)"
  by (induction ps arbitrary: b) auto

lemma updates_map:
  assumes "\<And>x c. x \<in> set xs \<Longrightarrow> f x = Inr c \<Longrightarrow> ok x \<and> c = code x"
  shows "updates (map f xs) = Inr b \<Longrightarrow> list_all ok xs \<and> b = concat (map code xs)"
  using assms
proof (induction xs arbitrary: b)
  case (Cons x xs)
  then obtain c d where c: "f x = Inr c" "updates (map f xs) = Inr d" "b = c @ d" by auto
  then have "list_all ok xs \<and> d = concat (map code xs)" using Cons.IH [of d] Cons.prems(2) by simp
  then show ?case using Cons.prems(2) [OF _ c(1)] c(3) by simp
qed simp

lemma enumerate_values:
  "map (\<lambda>x. g (snd x)) (enumerate i xs) = map g xs" "list_all (\<lambda>x. q (snd x)) (enumerate i xs) = list_all q xs"
  by (induction xs arbitrary: i) simp_all

lemma text_bytes_code: "text_bytes v label = Inr b \<Longrightarrow> text_ok v \<and> b = text_code v"
  by (auto simp: text_bytes_def text_ok_def text_code_def not_le)

lemma duration_bytes_code: "duration_bytes d label = Inr b \<Longrightarrow> duration_ok d \<and> b = duration_code d"
  by (auto simp: duration_bytes_def signed_check_def unsigned_check_def duration_ok_def duration_code_def not_less)

lemma float64_entries_code: "float64_entries label i xs = Inr b \<Longrightarrow> b = concat (map pack_d xs)"
  by (induction xs arbitrary: i b) auto

lemma float64_sequence_code:
  "float64_sequence xs label n req = Inr b \<Longrightarrow> n < 2 ^ 32 \<Longrightarrow> floats_ok xs \<and> b = floats_code xs"
  by (auto simp: float64_sequence_def floats_ok_def floats_code_def dest: float64_entries_code)

lemma point_updates_code:
  "point_updates n i p = Inr b \<Longrightarrow> n < 2 ^ 32 \<Longrightarrow> point_ok p \<and> b = point_code p"
  by (auto simp: point_updates_def Let_def point_ok_def point_code_def
      dest!: float64_sequence_code duration_bytes_code)

lemma canonical_bytes_code:
  assumes "canonical_bytes t = Inr b" shows "trajectory_ok t \<and> b = trajectory_code t"
proof -
  let ?ns = "enumerate 0 (joint_names t)" and ?ps = "enumerate 0 (points t)"
  from assms obtain nb pb fb hb where bounds: "length (joint_names t) < 2 ^ 32" "length (points t) < 2 ^ 32"
    and ns: "updates (map (\<lambda>(i, n). text_bytes n (''joint_names['' @ show_nat i @ '']'')) ?ns) = Inr nb"
    and ps: "updates (map (\<lambda>(i, p). point_updates (length (joint_names t)) i p) ?ps) = Inr pb"
    and head: "text_bytes (frame_id t) ''frame_id'' = Inr fb" "duration_bytes (header_stamp t) ''header_stamp'' = Inr hb"
    and b: "b = SCHEMA_PREFIX @ fb @ hb @ pack_I (length (joint_names t)) @ nb @ pack_I (length (points t)) @ pb"
    by (auto simp: canonical_bytes_def Let_def updates_append not_le)
  have "list_all (\<lambda>x. text_ok (snd x)) ?ns \<and> nb = concat (map (\<lambda>x. text_code (snd x)) ?ns)"
    by (rule updates_map [OF _ ns]) (auto dest!: text_bytes_code)
  moreover have "list_all (\<lambda>x. point_ok (snd x)) ?ps \<and> pb = concat (map (\<lambda>x. point_code (snd x)) ?ps)"
    by (rule updates_map [OF _ ps]) (auto dest!: point_updates_code [OF _ bounds(1)])
  ultimately show ?thesis
    using text_bytes_code [OF head(1)] duration_bytes_code [OF head(2)] bounds b
    by (simp add: trajectory_ok_def trajectory_code_def enumerate_values)
qed

text \<open>C40: The canonical bytes determine the trajectory: two trajectories that the checks accept and that are hashed from the
  same bytes agree in frame, stamp, joint names and in every point, field by field and bit by bit.\<close>

theorem canonical_bytes_injective:
  assumes "canonical_bytes t = Inr b" and "canonical_bytes u = Inr b"
  shows "t = u"
  using canonical_bytes_code [OF assms(1)] canonical_bytes_code [OF assms(2)] trajectories.injective [of t u] by simp

definition demo_trajectory :: JointTrajectory where
  "demo_trajectory =
     \<lparr> frame_id = ''map'', header_stamp = \<lparr> sec = 1, nanosec = 2 \<rparr>, joint_names = [''j1''],
       points = [\<lparr> positions = [0x3FF0000000000000], velocities = [], accelerations = [], effort = [],
                   time_from_start = \<lparr> sec = 0, nanosec = 5 \<rparr> \<rparr>] \<rparr>"

lemma demo_trajectory_bytes: "\<exists>b. canonical_bytes demo_trajectory = Inr b"
  by (simp add: canonical_bytes_def demo_trajectory_def Let_def raise_if_def text_bytes_def duration_bytes_def
      signed_check_def unsigned_check_def point_updates_def float64_sequence_def float64_finite_def utf8_def utf8_char_def
      py_defs enumerate_eq_zip)

lemma canonical_bytes_injective_witness:
  "\<exists>b. canonical_bytes demo_trajectory = Inr b \<and> {u. canonical_bytes u = Inr b} = {demo_trajectory}"
proof -
  obtain b where b: "canonical_bytes demo_trajectory = Inr b" using demo_trajectory_bytes ..
  then show ?thesis using canonical_bytes_injective [OF _ b] by blast
qed

end
