(* ===== verification/Place_Contract.thy ===== *)
theory Place_Contract
  imports Json_Text Trajectory_Digest
begin

text \<open>
  The placement plan as it reaches the task (\<open>src/ros2/z_manip_task/z_manip_task/core.py\<close>): the JSON contract
  (\<open>parse_place_contract\<close>), the check that binds a separately delivered trajectory to it
  (\<open>validate_place_trajectory_content\<close>), the split of the joined path into the three phases
  (\<open>split_placement_trajectory\<close>) and the gripper apertures (\<open>grasp_close_aperture\<close>,
  \<open>validate_grasp_aperture_contract\<close>). The position a JSON syntax error reports is left out of its message.
\<close>

section \<open>The contract\<close>

definition PLACE_CONTRACT_SCHEMA :: string where
  "PLACE_CONTRACT_SCHEMA = ''z_manip.place_contract.v2''"

definition PLACE_CONTRACT_FIELDS :: "string list" where
  "PLACE_CONTRACT_FIELDS =
     [''schema'', ''schema_version'', ''goal_id'', ''frame_id'', ''joint_names'', ''phase_start_indices'',
      ''point_count'', ''trajectory_topic'', ''trajectory_digest_sha256'', ''request_id'', ''producer_epoch'',
      ''generation'', ''observation_stamp_ns'', ''observation_frame_id'', ''executor_epoch'',
      ''trajectory_contract_id'', ''trajectory_command_highwater'', ''trajectory_source_highwater_ns'',
      ''gripper_command_highwater'', ''gripper_source_highwater_ns'']"

definition contract_hooks :: json_hooks where
  "contract_hooks =
     \<lparr> dup_key = Some (\<lambda>k. ValueError (''placement trajectory contract repeats field '' @ py_repr k)),
       nonfinite = (\<lambda>c. Inl (ValueError (''placement trajectory contract contains non-finite '' @ c))) \<rparr>"

definition member :: "(string \<times> json) list \<Rightarrow> string \<Rightarrow> json" where
  "member ms k = (case jget ms k of None \<Rightarrow> JNull | Some v \<Rightarrow> v)"

fun token_value :: "json \<Rightarrow> bool" where
  "token_value (JStr s) = (py_strip s \<noteq> [] \<and> s = py_strip s \<and> length s \<le> 256)"
| "token_value _ = False"

fun integer_value :: "bool \<Rightarrow> json \<Rightarrow> bool" where
  "integer_value positive (JInt i) = ((if positive then 1 else 0) \<le> i \<and> i < 2 ^ 63)"
| "integer_value positive _ = False"

text \<open>The loops over the field names: the first field that fails names the exception.\<close>

fun check_tokens :: "(string \<times> json) list \<Rightarrow> string list \<Rightarrow> unit res" where
  "check_tokens ms [] = Inr ()"
| "check_tokens ms (k # ks) =
     raise_if (\<not> token_value (member ms k)) (ValueError (''placement trajectory contract '' @ k @ '' is invalid''))
       (check_tokens ms ks)"

fun check_integers :: "(string \<times> json) list \<Rightarrow> bool \<Rightarrow> string list \<Rightarrow> unit res" where
  "check_integers ms positive [] = Inr ()"
| "check_integers ms positive (k # ks) =
     raise_if (\<not> integer_value positive (member ms k))
       (ValueError (''placement trajectory contract '' @ k @ '' must be a '' @
                    (if positive then ''positive'' else ''nonnegative'') @ '' integer''))
       (check_integers ms positive ks)"

definition token_fields :: "string list" where
  "token_fields =
     [''goal_id'', ''frame_id'', ''trajectory_topic'', ''trajectory_digest_sha256'', ''request_id'',
      ''producer_epoch'', ''observation_frame_id'', ''executor_epoch'', ''trajectory_contract_id'']"

definition positive_fields :: "string list" where
  "positive_fields =
     [''point_count'', ''generation'', ''observation_stamp_ns'', ''trajectory_command_highwater'',
      ''gripper_command_highwater'']"

definition nonnegative_fields :: "string list" where
  "nonnegative_fields = [''trajectory_source_highwater_ns'', ''gripper_source_highwater_ns'']"

fun lowercase_sha256 :: "json \<Rightarrow> bool" where
  "lowercase_sha256 (JStr d) = (length d = 64 \<and> list_all (\<lambda>c. c \<in> set ''0123456789abcdef'') d)"
| "lowercase_sha256 _ = False"

fun joint_name_value :: "json \<Rightarrow> bool" where
  "joint_name_value (JStr s) = (s \<noteq> [] \<and> s = py_strip s \<and> length s \<le> 256)"
| "joint_name_value _ = False"

fun joint_names_value :: "json \<Rightarrow> bool" where
  "joint_names_value (JArr vs) = (vs \<noteq> [] \<and> list_all joint_name_value vs \<and> distinct vs)"
| "joint_names_value _ = False"

fun index_value :: "json \<Rightarrow> bool" where
  "index_value (JInt i) = (0 \<le> i)"
| "index_value _ = False"

fun phase_keys_value :: "json \<Rightarrow> bool" where
  "phase_keys_value (JObj ms) = (set (map fst ms) = {''transit'', ''approach'', ''retreat''})"
| "phase_keys_value _ = False"

fun phase_indices_value :: "json \<Rightarrow> bool" where
  "phase_indices_value (JObj ms) = list_all (\<lambda>m. index_value (snd m)) ms"
| "phase_indices_value _ = False"

definition check_place_contract :: "(string \<times> json) list \<Rightarrow> unit res" where
  "check_place_contract ms =
     raise_if (set (map fst ms) \<noteq> set PLACE_CONTRACT_FIELDS)
       (ValueError (''placement trajectory contract fields are not exact: missing='' @
          repr_list (sorted_minus PLACE_CONTRACT_FIELDS (map fst ms)) @ '', unknown='' @
          repr_list (sorted_minus (map fst ms) PLACE_CONTRACT_FIELDS)))
     (raise_if (member ms ''schema'' \<noteq> JStr PLACE_CONTRACT_SCHEMA \<or> member ms ''schema_version'' \<noteq> JInt 2)
       (ValueError ''unsupported placement trajectory contract schema'')
     (rbind (check_tokens ms token_fields) (\<lambda>_.
      rbind (check_integers ms True positive_fields) (\<lambda>_.
      rbind (check_integers ms False nonnegative_fields) (\<lambda>_.
      raise_if (member ms ''trajectory_contract_id'' \<noteq> member ms ''goal_id'')
        (ValueError ''placement trajectory contract future trajectory identity mismatches goal'')
     (raise_if (\<not> lowercase_sha256 (member ms ''trajectory_digest_sha256''))
        (ValueError ''placement trajectory contract digest must be lowercase SHA-256'')
     (raise_if (\<not> joint_names_value (member ms ''joint_names''))
        (ValueError ''placement trajectory contract joint names are invalid'')
     (raise_if (\<not> phase_keys_value (member ms ''phase_start_indices''))
        (ValueError ''placement trajectory contract phase indices are invalid'')
     (raise_if (\<not> phase_indices_value (member ms ''phase_start_indices''))
        (ValueError ''placement trajectory contract phase indices are invalid'')
        (Inr ()))))))))))"

definition parse_place_contract :: "string \<Rightarrow> (string \<times> json) list res" where
  "parse_place_contract raw =
     (case json_loads contract_hooks raw of
        Inl None \<Rightarrow> Inl (ValueError ''placement trajectory contract is invalid JSON'')
      | Inl (Some e) \<Rightarrow> Inl e
      | Inr (JObj ms) \<Rightarrow> rbind (check_place_contract ms) (\<lambda>_. Inr ms)
      | Inr _ \<Rightarrow> Inl (ValueError ''placement trajectory contract must be a JSON object''))"

section \<open>The delivered trajectory\<close>

definition content_error :: "exn \<Rightarrow> exn" where
  "content_error e =
     (case e of ValueError m \<Rightarrow> ValueError (''placement trajectory content is invalid: '' @ m) | _ \<Rightarrow> e)"

definition validate_place_trajectory_content ::
  "(byte list \<Rightarrow> string) \<Rightarrow> (string \<times> json) list \<Rightarrow> JointTrajectory \<Rightarrow> string \<Rightarrow> unit res" where
  "validate_place_trajectory_content sha256_hex contract t expected_topic =
     raise_if (expected_topic = [] \<or> expected_topic \<noteq> py_strip expected_topic)
       (ValueError ''expected placement trajectory topic is invalid'')
     (raise_if (jget contract ''trajectory_topic'' \<noteq> Some (JStr expected_topic))
       (ValueError ''placement trajectory topic does not match its contract'')
     (case canonical_joint_trajectory_sha256 sha256_hex t of
        Inl e \<Rightarrow> Inl (content_error e)
      | Inr digest \<Rightarrow>
          raise_if (jget contract ''frame_id'' \<noteq> Some (JStr (frame_id t)))
            (ValueError ''placement trajectory frame does not match its contract'')
          (raise_if (jget contract ''trajectory_digest_sha256'' \<noteq> Some (JStr digest))
            (ValueError ''placement trajectory content digest does not match its contract'') (Inr ()))))"

section \<open>The three phases\<close>

record PlacementTrajectorySegment =
  seg_name :: string
  seg_positions :: "pyfloat list list"
  seg_times_s :: "pyfloat list"

definition phase_names :: "string list" where
  "phase_names = [''transit'', ''approach'', ''retreat'']"

fun strictly_increasing :: "pyfloat list \<Rightarrow> bool" where
  "strictly_increasing (a # b # ts) = (\<not> b \<le> a \<and> strictly_increasing (b # ts))"
| "strictly_increasing _ = True"

text \<open>\<open>rows[begin:end]\<close> with the sample before the phase, if there is one.\<close>

definition py_slice :: "nat \<Rightarrow> nat \<Rightarrow> 'a list \<Rightarrow> 'a list" where
  "py_slice b e xs = take (e - b) (drop b xs)"

definition cut_segment ::
  "pyfloat list list \<Rightarrow> pyfloat list \<Rightarrow> string \<Rightarrow> nat \<Rightarrow> nat \<Rightarrow> PlacementTrajectorySegment res" where
  "cut_segment rows stamps name start stop =
     (let b = (if 0 < start then start - 1 else start); segment_rows = py_slice b stop rows; segment_times = py_slice b stop stamps
      in raise_if (length segment_rows < 2) (ValueError (''placement '' @ name @ '' segment contains no motion''))
           (Inr \<lparr> seg_name = ''place_'' @ name, seg_positions = segment_rows,
                  seg_times_s = map (\<lambda>v. v - hd segment_times) segment_times \<rparr>))"

definition placement_rows_check :: "pyfloat list list \<Rightarrow> pyfloat list \<Rightarrow> unit res" where
  "placement_rows_check rows stamps =
     raise_if (length rows < 4 \<or> length stamps \<noteq> length rows)
       (ValueError ''placement trajectory is too short or misaligned'')
     (raise_if (length (hd rows) < 1 \<or> list_ex (\<lambda>row. length row \<noteq> length (hd rows)) rows)
       (ValueError ''placement trajectory joint width changed'')
     (raise_if (\<not> list_all (list_all isfinite) rows)
       (ValueError ''placement trajectory positions are non-finite'')
     (raise_if (\<not> list_all isfinite stamps) (ValueError ''placement trajectory times are non-finite'')
     (raise_if (hd stamps < 0 \<or> \<not> strictly_increasing stamps)
       (ValueError ''placement trajectory times must increase strictly'') (Inr ())))))"

definition split_placement_trajectory ::
  "pyfloat list list \<Rightarrow> pyfloat list \<Rightarrow> (string \<times> int) list \<Rightarrow> PlacementTrajectorySegment list res" where
  "split_placement_trajectory rows stamps phase_start_indices =
     rbind (placement_rows_check rows stamps) (\<lambda>_.
     raise_if (set (map fst phase_start_indices) \<noteq> set phase_names)
       (ValueError ''placement trajectory must declare all phases'')
     (let start = (\<lambda>name. the (map_of phase_start_indices name));
          s0 = start ''transit''; s1 = start ''approach''; s2 = start ''retreat''; n = length rows in
      raise_if (\<not> (s0 = 0 \<and> 0 < s1 \<and> s1 < s2 \<and> s2 < int n)) (ValueError ''placement phase indices are invalid'')
      (rbind (cut_segment rows stamps ''transit'' (nat s0) (nat s1)) (\<lambda>a.
       rbind (cut_segment rows stamps ''approach'' (nat s1) (nat s2)) (\<lambda>b.
       rbind (cut_segment rows stamps ''retreat'' (nat s2) n) (\<lambda>c.
       Inr [a, b, c]))))))"

section \<open>Gripper apertures\<close>

definition float_max :: "pyfloat \<Rightarrow> pyfloat \<Rightarrow> pyfloat" where
  "float_max a b = (if a < b then b else a)"

definition float_min :: "pyfloat \<Rightarrow> pyfloat \<Rightarrow> pyfloat" where
  "float_min a b = (if b < a then b else a)"

definition grasp_close_aperture ::
  "pyfloat option \<Rightarrow> pyfloat \<Rightarrow> pyfloat \<Rightarrow> pyfloat \<Rightarrow> pyfloat \<Rightarrow> pyfloat res" where
  "grasp_close_aperture required_width fallback squeeze minimum maximum =
     raise_if (\<not> list_all isfinite [fallback, squeeze, minimum, maximum])
       (ValueError ''gripper aperture settings must be finite'')
     (raise_if (squeeze < 0 \<or> \<not> (0 \<le> minimum \<and> minimum < maximum))
       (ValueError ''configured gripper aperture bounds are invalid'')
     (rbind (case required_width of
               None \<Rightarrow> Inr fallback
             | Some w \<Rightarrow>
                 raise_if (\<not> isfinite w \<or> w < 0)
                   (ValueError ''planned grasp width must be finite and non-negative'') (Inr (w - squeeze)))
       (\<lambda>v. Inr (float_min (float_max v minimum) maximum))))"

definition validate_grasp_aperture_contract ::
  "pyfloat \<Rightarrow> pyfloat \<Rightarrow> pyfloat \<Rightarrow> pyfloat \<Rightarrow> pyfloat \<Rightarrow> pyfloat \<Rightarrow> pyfloat \<Rightarrow> unit res" where
  "validate_grasp_aperture_contract candidate_min candidate_max open_aperture squeeze command_min command_max margin =
     raise_if (\<not> list_all isfinite
         [candidate_min, candidate_max, open_aperture, squeeze, command_min, command_max, margin])
       (ValueError ''grasp aperture contract values must be finite'')
     (raise_if (\<not> (0 \<le> candidate_min \<and> candidate_min < candidate_max))
       (ValueError ''candidate aperture interval is invalid'')
     (raise_if (\<not> (0 \<le> command_min \<and> command_min < command_max))
       (ValueError ''gripper command interval is invalid'')
     (raise_if (squeeze < 0 \<or> margin \<le> 0) (ValueError ''squeeze and contact margin are invalid'')
     (raise_if (command_max < open_aperture \<or> open_aperture \<le> candidate_max)
       (ValueError ''candidate or open aperture exceeds the actuator contract'')
     (rbind (grasp_close_aperture (Some candidate_max) command_min squeeze command_min command_max)
       (\<lambda>widest_close.
         raise_if (open_aperture - (margin + margin) \<le> widest_close + margin)
           (ValueError ''planner widths leave no grasp-verification contact interval'') (Inr ())))))))"

section \<open>Accepted contracts\<close>

lemma check_tokens_Inr: "check_tokens ms ks = Inr () \<longleftrightarrow> list_all (\<lambda>k. token_value (member ms k)) ks"
  by (induction ks) simp_all

lemma check_integers_Inr:
  "check_integers ms b ks = Inr () \<longleftrightarrow> list_all (\<lambda>k. integer_value b (member ms k)) ks"
  by (induction ks) simp_all

lemma token_valueE: "token_value v \<Longrightarrow> (\<And>s. v = JStr s \<Longrightarrow> s \<noteq> [] \<Longrightarrow> s = py_strip s \<Longrightarrow> length s \<le> 256 \<Longrightarrow> thesis) \<Longrightarrow> thesis"
  by (cases v) auto

lemma integer_valueE:
  "integer_value b v \<Longrightarrow> (\<And>i. v = JInt i \<Longrightarrow> (if b then 1 else 0) \<le> i \<Longrightarrow> i < 2 ^ 63 \<Longrightarrow> thesis) \<Longrightarrow> thesis"
  by (cases v) auto

text \<open>A contract text is accepted only if it is an object that has exactly the twenty fields, each once, with the
  versioned schema, the goal id as trajectory contract id, a digest of 64 characters, executor high-water marks that are
  positive integers below \<open>2^63\<close> with non-negative source times, and one non-negative integer start index for each of the
  three phases (an object again without repeated keys).\<close>

theorem parse_place_contract_wf:
  assumes "parse_place_contract raw = Inr ms"
  shows "distinct (map fst ms) \<and> set (map fst ms) = set PLACE_CONTRACT_FIELDS \<and>
    member ms ''schema'' = JStr ''z_manip.place_contract.v2'' \<and> member ms ''schema_version'' = JInt 2 \<and>
    (\<exists>goal. goal \<noteq> [] \<and> length goal \<le> 256 \<and> member ms ''goal_id'' = JStr goal \<and>
       member ms ''trajectory_contract_id'' = JStr goal) \<and>
    (\<exists>d. member ms ''trajectory_digest_sha256'' = JStr d \<and> length d = 64) \<and>
    (\<exists>c tn g gn. member ms ''trajectory_command_highwater'' = JInt c \<and> 0 < c \<and> c < 2 ^ 63 \<and>
       member ms ''trajectory_source_highwater_ns'' = JInt tn \<and> 0 \<le> tn \<and>
       member ms ''gripper_command_highwater'' = JInt g \<and> 0 < g \<and> g < 2 ^ 63 \<and>
       member ms ''gripper_source_highwater_ns'' = JInt gn \<and> 0 \<le> gn) \<and>
    (\<exists>ix. member ms ''phase_start_indices'' = JObj ix \<and> distinct (map fst ix) \<and>
       set (map fst ix) = {''transit'', ''approach'', ''retreat''} \<and>
       list_all (\<lambda>m. \<exists>i. snd m = JInt i \<and> 0 \<le> i) ix)"
proof -
  have load: "json_loads contract_hooks raw = Inr (JObj ms)" and check: "check_place_contract ms = Inr ()"
    using assms by (auto simp: parse_place_contract_def split: sum.splits option.splits json.splits)
  have uniq: "distinct (map fst ms)" "list_all (\<lambda>m. unique_keys (snd m)) ms"
    using json_loads_unique_keys [OF load] by simp_all
  have keys: "set (map fst ms) = set PLACE_CONTRACT_FIELDS"
    and schema: "member ms ''schema'' = JStr PLACE_CONTRACT_SCHEMA" "member ms ''schema_version'' = JInt 2"
    and tokens: "list_all (\<lambda>k. token_value (member ms k)) token_fields"
    and pos: "list_all (\<lambda>k. integer_value True (member ms k)) positive_fields"
    and nonneg: "list_all (\<lambda>k. integer_value False (member ms k)) nonnegative_fields"
    and goal: "member ms ''trajectory_contract_id'' = member ms ''goal_id''"
    and digest: "lowercase_sha256 (member ms ''trajectory_digest_sha256'')"
    and pk: "phase_keys_value (member ms ''phase_start_indices'')"
    and pi: "phase_indices_value (member ms ''phase_start_indices'')"
    using check by (simp_all add: check_place_contract_def check_tokens_Inr check_integers_Inr)
  have t: "token_value (member ms ''goal_id'')" using tokens by (simp add: token_fields_def)
  have c: "integer_value True (member ms ''trajectory_command_highwater'')"
    "integer_value True (member ms ''gripper_command_highwater'')" using pos by (simp_all add: positive_fields_def)
  have n: "integer_value False (member ms ''trajectory_source_highwater_ns'')"
    "integer_value False (member ms ''gripper_source_highwater_ns'')" using nonneg by (simp_all add: nonnegative_fields_def)
  obtain ix where ix: "member ms ''phase_start_indices'' = JObj ix" using pk by (cases "member ms ''phase_start_indices''") auto
  then have "(''phase_start_indices'', JObj ix) \<in> set ms"
    by (auto simp: member_def jget_map_of dest: map_of_SomeD split: option.splits)
  then have ux: "distinct (map fst ix)" using uniq(2) by (auto simp: list_all_iff)
  have il: "list_all (\<lambda>m. \<exists>i. snd m = JInt i \<and> 0 \<le> i) ix"
    using pi ix by (auto simp: list_all_iff elim!: index_value.elims)
  have "\<exists>d. member ms ''trajectory_digest_sha256'' = JStr d \<and> length d = 64"
    using digest by (cases "member ms ''trajectory_digest_sha256''") auto
  moreover have "\<exists>g. g \<noteq> [] \<and> length g \<le> 256 \<and> member ms ''goal_id'' = JStr g \<and> member ms ''trajectory_contract_id'' = JStr g"
    using t goal by (auto elim: token_valueE)
  moreover have "\<exists>c tn g gn. member ms ''trajectory_command_highwater'' = JInt c \<and> 0 < c \<and> c < 2 ^ 63 \<and>
       member ms ''trajectory_source_highwater_ns'' = JInt tn \<and> 0 \<le> tn \<and>
       member ms ''gripper_command_highwater'' = JInt g \<and> 0 < g \<and> g < 2 ^ 63 \<and>
       member ms ''gripper_source_highwater_ns'' = JInt gn \<and> 0 \<le> gn"
    using c n by (auto elim!: integer_valueE)
  ultimately show ?thesis
    using uniq(1) keys schema ix ux pk il by (simp add: PLACE_CONTRACT_SCHEMA_def)
qed

text \<open>A contract as the placement node writes it.\<close>

definition quoted :: "string \<Rightarrow> string" where
  "quoted s = dquote # s @ [dquote]"

definition demo_fields :: "(string \<times> string) list" where
  "demo_fields =
     [(''schema'', quoted ''z_manip.place_contract.v2''), (''schema_version'', ''2''), (''goal_id'', quoted ''g1''),
      (''frame_id'', quoted ''base''), (''joint_names'', ''['' @ quoted ''j1'' @ '']''),
      (''phase_start_indices'', ''{'' @ quoted ''transit'' @ '':0,'' @ quoted ''approach'' @ '':2,'' @ quoted ''retreat'' @ '':4}''),
      (''point_count'', ''6''), (''trajectory_topic'', quoted ''/t''),
      (''trajectory_digest_sha256'', quoted (replicate 64 (CHR ''0''))), (''request_id'', quoted ''r''),
      (''producer_epoch'', quoted ''e''), (''generation'', ''1''), (''observation_stamp_ns'', ''5''),
      (''observation_frame_id'', quoted ''m''), (''executor_epoch'', quoted ''x''),
      (''trajectory_contract_id'', quoted ''g1''), (''trajectory_command_highwater'', ''7''),
      (''trajectory_source_highwater_ns'', ''0''), (''gripper_command_highwater'', ''3''),
      (''gripper_source_highwater_ns'', ''9'')]"

definition demo_contract_text :: string where
  "demo_contract_text = ''{'' @ commas (map (\<lambda>(k, v). quoted k @ '':'' @ v) demo_fields) @ ''}''"

lemma parse_place_contract_wf_witness:
  "\<exists>ms. parse_place_contract demo_contract_text = Inr ms \<and> set (map fst ms) = set PLACE_CONTRACT_FIELDS"
proof -
  have "is_ok (parse_place_contract demo_contract_text)" by code_simp
  then obtain ms where "parse_place_contract demo_contract_text = Inr ms" by (auto simp: is_ok_iff)
  then show ?thesis using parse_place_contract_wf by blast
qed

section \<open>Accepted trajectories\<close>

text \<open>A contract admits one trajectory only: if two delivered trajectories pass the content check of the same contract,
  they are equal, or two different byte strings with the same digest have been found (a collision of the hash).\<close>

theorem contract_admits_one_trajectory:
  assumes "validate_place_trajectory_content sha256_hex contract t topic = Inr ()"
    and "validate_place_trajectory_content sha256_hex contract u topic' = Inr ()"
  shows "t = u \<or> (\<exists>b c. canonical_bytes t = Inr b \<and> canonical_bytes u = Inr c \<and> b \<noteq> c \<and> sha256_hex b = sha256_hex c)"
proof -
  have *: "\<exists>b. canonical_bytes v = Inr b \<and> jget contract ''trajectory_digest_sha256'' = Some (JStr (sha256_hex b))"
    if "validate_place_trajectory_content sha256_hex contract v p = Inr ()" for v p
  proof (cases "canonical_bytes v")
    case (Inl e)
    then show ?thesis using that
      by (simp add: validate_place_trajectory_content_def canonical_joint_trajectory_sha256_def)
  next
    case (Inr b)
    then show ?thesis using that
      by (simp add: validate_place_trajectory_content_def canonical_joint_trajectory_sha256_def)
  qed
  obtain b c where b: "canonical_bytes t = Inr b" "canonical_bytes u = Inr c" "sha256_hex b = sha256_hex c"
    using * [OF assms(1)] * [OF assms(2)] by auto
  have "t = u" if "b = c"
  proof (rule trajectories.injective)
    show "trajectory_ok t" "trajectory_ok u" using b canonical_bytes_code by blast+
    show "trajectory_code t = trajectory_code u" using b canonical_bytes_code that by metis
  qed
  then show ?thesis using b by blast
qed

text \<open>A stand-in for the digest with which the check can be run: the bytes of the trajectory as hexadecimal text.\<close>

definition hex_text :: "byte list \<Rightarrow> string" where
  "hex_text bs = concat (map (\<lambda>b. [hex_digit (unat b div 16), hex_digit (unat b mod 16)]) bs)"

definition demo_binding :: "(string \<times> json) list" where
  "demo_binding =
     [(''trajectory_topic'', JStr ''/place''), (''frame_id'', JStr ''map''),
      (''trajectory_digest_sha256'',
       JStr (case canonical_joint_trajectory_sha256 hex_text demo_trajectory of Inr d \<Rightarrow> d | Inl _ \<Rightarrow> []))]"

lemma contract_admits_one_trajectory_witness:
  "\<exists>b c. canonical_bytes demo_trajectory = Inr b \<and> canonical_bytes demo_trajectory = Inr c \<and> hex_text b = hex_text c"
proof -
  obtain b where b: "canonical_bytes demo_trajectory = Inr b" using demo_trajectory_bytes ..
  have "validate_place_trajectory_content hex_text demo_binding demo_trajectory ''/place'' = Inr ()"
    by (simp add: validate_place_trajectory_content_def raise_if_def demo_binding_def b py_defs
        canonical_joint_trajectory_sha256_def) (simp add: demo_trajectory_def)
  from contract_admits_one_trajectory [OF this this] show ?thesis using b by blast
qed

section \<open>The split path\<close>

lemma strictly_increasing_drop: "strictly_increasing ts \<Longrightarrow> strictly_increasing (drop n ts)"
proof (induction n arbitrary: ts)
  case (Suc n)
  then show ?case by (cases ts; cases "tl ts") auto
qed simp

lemma strictly_increasing_take: "strictly_increasing ts \<Longrightarrow> strictly_increasing (take n ts)"
proof (induction ts arbitrary: n rule: strictly_increasing.induct)
  case (1 a b ts)
  then have "strictly_increasing (take (Suc m) (b # ts))" for m by (simp only: strictly_increasing.simps)
  then have "strictly_increasing (b # take m ts)" for m by simp
  then show ?case using 1(2) by (auto simp: take_Cons split: nat.splits)
qed (auto simp: take_Cons split: nat.splits)

lemma strictly_increasing_rebased:
  "strictly_increasing ts \<Longrightarrow> list_all isfinite ts \<Longrightarrow> strictly_increasing (map (\<lambda>v. v - Fin o1) ts)"
  by (induction ts rule: strictly_increasing.induct) (auto elim!: isfiniteE)

lemma slice_facts:
  assumes "b < e" "e \<le> length xs"
  shows "length (py_slice b e xs) = e - b" "hd (py_slice b e xs) = xs ! b" "last (py_slice b e xs) = xs ! (e - 1)"
    "set (py_slice b e xs) \<subseteq> set xs"
proof -
  have ne: "py_slice b e xs \<noteq> []" using assms by (simp add: py_slice_def)
  show l: "length (py_slice b e xs) = e - b" using assms by (simp add: py_slice_def)
  show "hd (py_slice b e xs) = xs ! b" using assms by (simp add: py_slice_def hd_drop_conv_nth)
  show "last (py_slice b e xs) = xs ! (e - 1)" using assms ne by (simp add: last_conv_nth l) (simp add: py_slice_def)
  show "set (py_slice b e xs) \<subseteq> set xs" by (auto simp: py_slice_def dest: in_set_takeD in_set_dropD)
qed

lemma take_tl_slice: "0 < b \<Longrightarrow> b \<le> e \<Longrightarrow> take b xs @ tl (py_slice (b - 1) e xs) = take e xs"
  by (simp add: py_slice_def tl_take tl_drop take_add [symmetric] drop_Suc [symmetric]) 

text \<open>One accepted segment: at least two samples, time rebased to zero and strictly increasing.\<close>

definition segment_ok :: "PlacementTrajectorySegment \<Rightarrow> bool" where
  "segment_ok s = (2 \<le> length (seg_positions s) \<and> length (seg_times_s s) = length (seg_positions s) \<and>
     hd (seg_times_s s) = Fin 0 \<and> strictly_increasing (seg_times_s s))"

lemma cut_segment_ok:
  assumes "cut_segment rows stamps name start stop = Inr s" "placement_rows_check rows stamps = Inr ()"
    "start < stop" "stop \<le> length rows"
  shows "segment_ok s" "seg_name s = ''place_'' @ name" "seg_positions s = py_slice (start - 1) stop rows"
proof -
  define b where "b = start - 1"
  have len: "length stamps = length rows" and inc: "strictly_increasing stamps" and fin: "list_all isfinite stamps"
    using assms(2) by (simp_all add: placement_rows_check_def)
  have b: "(if 0 < start then start - 1 else start) = b" by (simp add: b_def)
  have s: "s = \<lparr> seg_name = ''place_'' @ name, seg_positions = py_slice b stop rows,
      seg_times_s = map (\<lambda>v. v - hd (py_slice b stop stamps)) (py_slice b stop stamps) \<rparr>"
    and two: "2 \<le> length (py_slice b stop rows)"
    using assms(1) by (auto simp: cut_segment_def Let_def b)
  have bs: "b < stop" "stop \<le> length stamps" using assms(3,4) len by (simp_all add: b_def)
  have finl: "list_all isfinite (py_slice b stop stamps)"
    using fin slice_facts(4) [OF bs] by (auto simp: list_all_iff)
  have ne: "py_slice b stop stamps \<noteq> []" using slice_facts(1) [OF bs] bs by auto
  obtain o1 where o1: "hd (py_slice b stop stamps) = Fin o1"
    using finl ne by (cases "py_slice b stop stamps") (auto elim: isfiniteE)
  have "strictly_increasing (py_slice b stop stamps)"
    by (simp add: py_slice_def inc strictly_increasing_take strictly_increasing_drop)
  from strictly_increasing_rebased [OF this finl, of o1]
  have "strictly_increasing (seg_times_s s)" by (simp add: s o1)
  moreover have "hd (seg_times_s s) = Fin 0" using ne by (simp add: s hd_map o1)
  moreover have "length (seg_times_s s) = length (seg_positions s)"
    using slice_facts(1) [OF bs] slice_facts(1) [of b stop rows] bs assms(4) by (simp add: s)
  ultimately show "segment_ok s" using two by (simp add: segment_ok_def s)
  show "seg_name s = ''place_'' @ name" "seg_positions s = py_slice (start - 1) stop rows" by (simp_all add: s b_def)
qed

text \<open>The split around the release loses nothing: an accepted path is cut into transit, approach and retreat, each with at
  least two samples and times that start at zero and strictly increase; each phase starts at the sample the previous one
  ends in, and joined at these samples the three are the whole path.\<close>

theorem split_covers_path:
  assumes "split_placement_trajectory rows stamps idx = Inr segs"
  shows "\<exists>a b c. segs = [a, b, c] \<and> map seg_name segs = [''place_transit'', ''place_approach'', ''place_retreat''] \<and>
    list_all segment_ok segs \<and>
    last (seg_positions a) = hd (seg_positions b) \<and> last (seg_positions b) = hd (seg_positions c) \<and>
    seg_positions a @ tl (seg_positions b) @ tl (seg_positions c) = rows"
proof -
  let ?s = "\<lambda>name. the (map_of idx name)"
  obtain a b c where segs: "segs = [a, b, c]" and check: "placement_rows_check rows stamps = Inr ()"
    and ix: "?s ''transit'' = 0" "0 < ?s ''approach''" "?s ''approach'' < ?s ''retreat''" "?s ''retreat'' < int (length rows)"
    and a: "cut_segment rows stamps ''transit'' (nat (?s ''transit'')) (nat (?s ''approach'')) = Inr a"
    and b: "cut_segment rows stamps ''approach'' (nat (?s ''approach'')) (nat (?s ''retreat'')) = Inr b"
    and c: "cut_segment rows stamps ''retreat'' (nat (?s ''retreat'')) (length rows) = Inr c"
    using assms by (auto simp: split_placement_trajectory_def Let_def)
  define p q where "p = nat (?s ''approach'')" and "q = nat (?s ''retreat'')"
  have pq: "0 < p" "p < q" "q < length rows" using ix by (auto simp: p_def q_def)
  note ca = cut_segment_ok [OF a [folded p_def] check] and cb = cut_segment_ok [OF b [folded p_def q_def] check]
    and cc = cut_segment_ok [OF c [folded q_def] check]
  have pos: "seg_positions a = py_slice 0 p rows" "seg_positions b = py_slice (p - 1) q rows"
    "seg_positions c = py_slice (q - 1) (length rows) rows"
    using ca(3) cb(3) cc(3) pq ix(1) by simp_all
  have "last (seg_positions a) = hd (seg_positions b)" "last (seg_positions b) = hd (seg_positions c)"
    using slice_facts(3) [of 0 p rows] slice_facts(2) [of "p - 1" q rows] slice_facts(3) [of "p - 1" q rows]
      slice_facts(2) [of "q - 1" "length rows" rows] pq by (simp_all add: pos)
  moreover have "seg_positions a @ tl (seg_positions b) @ tl (seg_positions c) = rows"
    using take_tl_slice [of p q rows] take_tl_slice [of q "length rows" rows] pq
    by (simp add: pos append_assoc [symmetric] del: append_assoc) (simp add: py_slice_def)
  ultimately show ?thesis
    using ca(1,2) cb(1,2) cc(1,2) pq ix(1) by (simp add: segs)
qed

lemma split_covers_path_witness:
  "\<exists>segs. split_placement_trajectory [[Fin 0], [Fin 1], [Fin 2], [Fin 3]] [Fin 0, Fin 1, Fin 2, Fin 3]
      [(''transit'', 0), (''approach'', 2), (''retreat'', 3)] = Inr segs \<and> list_all segment_ok segs"
proof -
  have "is_ok (split_placement_trajectory [[Fin 0], [Fin 1], [Fin 2], [Fin 3]] [Fin 0, Fin 1, Fin 2, Fin 3]
      [(''transit'', 0), (''approach'', 2), (''retreat'', 3)])" by code_simp
  then obtain segs where "split_placement_trajectory [[Fin 0], [Fin 1], [Fin 2], [Fin 3]] [Fin 0, Fin 1, Fin 2, Fin 3]
      [(''transit'', 0), (''approach'', 2), (''retreat'', 3)] = Inr segs" by (auto simp: is_ok_iff)
  then show ?thesis using split_covers_path by blast
qed

section \<open>Apertures\<close>

text \<open>If the aperture contract is accepted, closing on any candidate width of the planner's interval commands an
  aperture inside the actuator's interval, and between that aperture plus the contact margin and the open aperture
  minus twice the margin there is room for a held object: the verification interval is never empty.\<close>

theorem accepted_apertures_leave_contact_interval:
  assumes "validate_grasp_aperture_contract (Fin wmin) (Fin wmax) (Fin opn) (Fin sq) (Fin lo) (Fin hi) (Fin margin) = Inr ()"
    and "wmin \<le> w" and "w \<le> wmax" and "lo \<le> fb" and "fb \<le> hi"
  shows "\<exists>x. grasp_close_aperture (Some (Fin w)) (Fin fb) (Fin sq) (Fin lo) (Fin hi) = Inr (Fin x) \<and>
    lo \<le> x \<and> x \<le> hi \<and> x < opn \<and> x + margin < opn - 2 * margin"
proof -
  have c: "0 \<le> wmin" "wmin < wmax" "0 \<le> lo" "lo < hi" "0 \<le> sq" "0 < margin" "opn \<le> hi" "wmax < opn"
    and open1: "min (max (wmax - sq) lo) hi + margin < opn - (margin + margin)"
    using assms(1)
    by (auto simp: validate_grasp_aperture_contract_def grasp_close_aperture_def float_min_def float_max_def
        min_def max_def not_less split: if_splits)
  have "grasp_close_aperture (Some (Fin w)) (Fin fb) (Fin sq) (Fin lo) (Fin hi) = Inr (Fin (min (max (w - sq) lo) hi))"
    using c assms(2) by (auto simp: grasp_close_aperture_def raise_if_def float_min_def float_max_def min_def max_def)
  moreover have "min (max (w - sq) lo) hi \<le> min (max (wmax - sq) lo) hi"
    using assms(3) by (intro min.mono max.mono) simp_all
  moreover have "lo \<le> min (max (w - sq) lo) hi" "min (max (w - sq) lo) hi \<le> hi" using c by simp_all
  ultimately show ?thesis using open1 c by auto
qed

lemma accepted_apertures_leave_contact_interval_witness:
  "\<exists>x. grasp_close_aperture (Some (Fin 0.05)) (Fin 0.01) (Fin 0.005) (Fin 0) (Fin 0.08) = Inr (Fin x) \<and>
     (0::real) \<le> x \<and> x \<le> 0.08 \<and> x < 0.08 \<and> x + 0.005 < 0.08 - 2 * 0.005"
  by (rule accepted_apertures_leave_contact_interval [of "0.01" "0.06"])
    (auto simp: validate_grasp_aperture_contract_def grasp_close_aperture_def raise_if_def float_min_def float_max_def)

end
