(* ===== verification/Place_Execution.thy ===== *)
theory Place_Execution
  imports Json Interfaces
begin

text \<open>
  \<open>PlaceExecutionCorrelation\<close> of \<open>src/ros2/z_manip_place/z_manip_place/core.py\<close>: the chain of executor reports that one
  placement must produce in order (approach active and succeeded, a measured gripper release, retreat active and
  succeeded), each bound to the executor epoch, the trajectory contract and high-water marks frozen when the chain was armed.
  Values that reach the class untyped are decoded values of any type.
\<close>

section \<open>State\<close>

datatype ChainState =
    CH_IDLE | CH_AWAIT_APPROACH_ACTIVE | CH_AWAIT_APPROACH_SUCCESS | CH_AWAIT_RELEASE
  | CH_AWAIT_RETREAT_ACTIVE | CH_AWAIT_RETREAT_SUCCESS | CH_COMPLETE | CH_INVALID

record PlaceExecutionCorrelation =
  chain_state :: ChainState
  chain_goal_id :: string
  chain_epoch :: string
  chain_contract_id :: string
  trajectory_command_highwater :: int
  gripper_command_highwater :: int
  trajectory_source_highwater_ns :: int
  gripper_source_highwater_ns :: int
  approach_command_id :: "int option"
  approach_source_stamp_ns :: "int option"
  release_gripper_command_id :: "int option"
  release_source_stamp_ns :: "int option"
  retreat_command_id :: "int option"
  retreat_source_stamp_ns :: "int option"
  latest_gripper_command_id :: int
  latest_gripper_source_stamp_ns :: int
  pre_release_gripper_command_id :: "int option"
  pre_release_gripper_source_stamp_ns :: "int option"
  chain_failure :: string

type_synonym chain_op = "(unit, PlaceExecutionCorrelation) outcome"

definition chain_reset :: PlaceExecutionCorrelation where
  "chain_reset =
     \<lparr> chain_state = CH_IDLE, chain_goal_id = [], chain_epoch = [], chain_contract_id = [],
       trajectory_command_highwater = 0, gripper_command_highwater = 0, trajectory_source_highwater_ns = 0,
       gripper_source_highwater_ns = 0, approach_command_id = None, approach_source_stamp_ns = None,
       release_gripper_command_id = None, release_source_stamp_ns = None, retreat_command_id = None,
       retreat_source_stamp_ns = None, latest_gripper_command_id = 0, latest_gripper_source_stamp_ns = 0,
       pre_release_gripper_command_id = None, pre_release_gripper_source_stamp_ns = None, chain_failure = [] \<rparr>"

definition chain_armed :: "PlaceExecutionCorrelation \<Rightarrow> bool" where
  "chain_armed s = (chain_state s \<notin> {CH_IDLE, CH_INVALID, CH_COMPLETE})"

section \<open>Checked values\<close>

definition chain_identity :: "json \<Rightarrow> string \<Rightarrow> string res" where
  "chain_identity v label =
     (case v of
        JStr s \<Rightarrow>
          raise_if (py_strip s = [] \<or> 256 < length s)
            (PlacementContractError (label @ '' must be a bounded non-empty string'')) (Inr (py_strip s))
      | _ \<Rightarrow> Inl (PlacementContractError (label @ '' must be a bounded non-empty string'')))"

definition bounded_int :: "(int \<Rightarrow> bool) \<Rightarrow> string \<Rightarrow> json \<Rightarrow> int res" where
  "bounded_int P why v =
     (case v of
        JInt i \<Rightarrow> raise_if (\<not> P i) (PlacementContractError why) (Inr i)
      | _ \<Rightarrow> Inl (PlacementContractError why))"

definition nonnegative_command_id :: "json \<Rightarrow> string \<Rightarrow> int res" where
  "nonnegative_command_id v label = bounded_int (\<lambda>i. 0 \<le> i) (label @ '' command_id must be nonnegative'') v"

definition nonnegative_stamp :: "json \<Rightarrow> string \<Rightarrow> int res" where
  "nonnegative_stamp v label =
     bounded_int (\<lambda>i. 0 \<le> i \<and> i < 2 ^ 63) (label @ '' source stamp must be nonnegative'') v"

definition positive_command_id :: "json \<Rightarrow> string \<Rightarrow> int res" where
  "positive_command_id v label = bounded_int (\<lambda>i. 0 < i) (label @ '' command_id must be positive'') v"

definition positive_stamp :: "json \<Rightarrow> string \<Rightarrow> int res" where
  "positive_stamp v label = bounded_int (\<lambda>i. 0 < i \<and> i < 2 ^ 63) (label @ '' must be a positive integer ns stamp'') v"

section \<open>Arming\<close>

record ArmRequest =
  arm_goal_id :: json
  arm_executor_epoch :: json
  arm_contract_id :: json
  arm_trajectory_command :: json
  arm_gripper_command :: json
  arm_trajectory_source_ns :: json
  arm_gripper_source_ns :: json

definition chain_arm :: "ArmRequest \<Rightarrow> PlaceExecutionCorrelation \<Rightarrow> chain_op" where
  "chain_arm a s0 =
     (let s = chain_reset in
      gbind (chain_identity (arm_goal_id a) ''place goal'') s (\<lambda>goal.
      let s = s\<lparr> chain_goal_id := goal \<rparr> in
      gbind (chain_identity (arm_executor_epoch a) ''executor epoch'') s (\<lambda>epoch.
      let s = s\<lparr> chain_epoch := epoch \<rparr> in
      gbind (chain_identity (arm_contract_id a) ''trajectory contract'') s (\<lambda>contract.
      let s = s\<lparr> chain_contract_id := contract \<rparr> in
      gbind (nonnegative_command_id (arm_trajectory_command a) ''trajectory high-water'') s (\<lambda>tc.
      let s = s\<lparr> trajectory_command_highwater := tc \<rparr> in
      gbind (nonnegative_command_id (arm_gripper_command a) ''gripper high-water'') s (\<lambda>gc.
      let s = s\<lparr> gripper_command_highwater := gc \<rparr> in
      gbind (nonnegative_stamp (arm_trajectory_source_ns a) ''trajectory high-water'') s (\<lambda>ts.
      let s = s\<lparr> trajectory_source_highwater_ns := ts \<rparr> in
      gbind (nonnegative_stamp (arm_gripper_source_ns a) ''gripper high-water'') s (\<lambda>gs.
      (Inr (), s\<lparr> gripper_source_highwater_ns := gs, latest_gripper_command_id := gc,
                  latest_gripper_source_stamp_ns := gs, chain_state := CH_AWAIT_APPROACH_ACTIVE \<rparr>)))))))))"

section \<open>Reports\<close>

definition invalidate :: "string \<Rightarrow> PlaceExecutionCorrelation \<Rightarrow> chain_op" where
  "invalidate reason s =
     (Inl (PlacementContractError reason), s\<lparr> chain_failure := reason, chain_state := CH_INVALID \<rparr>)"

text \<open>\<open>try: ... except PlacementContractError as error: self._invalidate(str(error))\<close>.\<close>

definition or_invalidate ::
  "'a res \<Rightarrow> PlaceExecutionCorrelation \<Rightarrow> ('a \<Rightarrow> chain_op) \<Rightarrow> chain_op" where
  "or_invalidate r s k =
     (case r of
        Inl (PlacementContractError reason) \<Rightarrow> invalidate reason s
      | Inl e \<Rightarrow> (Inl e, s)
      | Inr x \<Rightarrow> k x)"

definition validate_epoch :: "json \<Rightarrow> PlaceExecutionCorrelation \<Rightarrow> unit res" where
  "validate_epoch v s =
     rbind (chain_identity v ''executor epoch'') (\<lambda>e.
     raise_if (e \<noteq> chain_epoch s)
       (PlacementContractError ''executor epoch changed during placement execution'') (Inr ()))"

definition validate_trajectory_contract :: "json \<Rightarrow> PlaceExecutionCorrelation \<Rightarrow> unit res" where
  "validate_trajectory_contract v s =
     rbind (chain_identity v ''trajectory contract'') (\<lambda>e.
     raise_if (e \<noteq> chain_contract_id s)
       (PlacementContractError ''trajectory status belongs to a different contract'') (Inr ()))"

record TrajectoryReport =
  report_status :: string
  report_segment :: string
  report_command_id :: json
  report_epoch :: json
  report_contract_id :: json
  report_source_stamp_ns :: json

definition report_identity :: "TrajectoryReport \<Rightarrow> PlaceExecutionCorrelation \<Rightarrow> (int \<times> int) res" where
  "report_identity r s =
     rbind (positive_command_id (report_command_id r) (report_segment r)) (\<lambda>command.
     rbind (positive_stamp (report_source_stamp_ns r) (report_segment r @ '' source'')) (\<lambda>stamp.
     rbind (validate_epoch (report_epoch r) s) (\<lambda>_.
     rbind (validate_trajectory_contract (report_contract_id r) s) (\<lambda>_. Inr (command, stamp)))))"

text \<open>A repeated report of the approach that already succeeded.\<close>

definition approach_replay :: "TrajectoryReport \<Rightarrow> int \<Rightarrow> int \<Rightarrow> PlaceExecutionCorrelation \<Rightarrow> bool" where
  "approach_replay r command stamp s =
     (report_segment r = ''place_approach'' \<and> report_status r = ''succeeded''
      \<and> Some command = approach_command_id s \<and> Some stamp = approach_source_stamp_ns s)"

definition approach_active :: "TrajectoryReport \<Rightarrow> int \<Rightarrow> int \<Rightarrow> PlaceExecutionCorrelation \<Rightarrow> chain_op" where
  "approach_active r command stamp s =
     (if report_segment r \<noteq> ''place_approach'' \<or> report_status r \<noteq> ''active'' then
        invalidate ''place approach must start with active status'' s
      else if command \<le> trajectory_command_highwater s \<or> stamp \<le> trajectory_source_highwater_ns s then
        invalidate ''place approach did not exceed execution high-water'' s
      else (Inr (), s\<lparr> approach_command_id := Some command, approach_source_stamp_ns := Some stamp,
                       chain_state := CH_AWAIT_APPROACH_SUCCESS \<rparr>))"

definition approach_success :: "TrajectoryReport \<Rightarrow> int \<Rightarrow> int \<Rightarrow> PlaceExecutionCorrelation \<Rightarrow> chain_op" where
  "approach_success r command stamp s =
     (if report_segment r \<noteq> ''place_approach'' then invalidate ''place retreat arrived before release'' s
      else if Some command \<noteq> approach_command_id s then
        invalidate ''place approach command_id changed before success'' s
      else if Some stamp \<noteq> approach_source_stamp_ns s then
        invalidate ''place approach source identity changed before success'' s
      else if report_status r = ''succeeded'' then
        (Inr (), s\<lparr> pre_release_gripper_command_id := Some (latest_gripper_command_id s),
                    pre_release_gripper_source_stamp_ns := Some (latest_gripper_source_stamp_ns s),
                    chain_state := CH_AWAIT_RELEASE \<rparr>)
      else (Inr (), s))"

definition retreat_active :: "TrajectoryReport \<Rightarrow> int \<Rightarrow> int \<Rightarrow> PlaceExecutionCorrelation \<Rightarrow> chain_op" where
  "retreat_active r command stamp s =
     (if approach_replay r command stamp s then (Inr (), s)
      else if report_segment r \<noteq> ''place_retreat'' \<or> report_status r \<noteq> ''active'' then
        invalidate ''place retreat must start with active status'' s
      else
        guard (approach_command_id s = None \<or> release_source_stamp_ns s = None) AssertionError s
        (if command \<le> the (approach_command_id s) then
           invalidate ''place retreat command_id did not follow approach'' s
         else if stamp \<le> the (release_source_stamp_ns s) then
           invalidate ''place retreat source did not follow release'' s
         else (Inr (), s\<lparr> retreat_command_id := Some command, retreat_source_stamp_ns := Some stamp,
                          chain_state := CH_AWAIT_RETREAT_SUCCESS \<rparr>)))"

definition retreat_success :: "TrajectoryReport \<Rightarrow> int \<Rightarrow> int \<Rightarrow> PlaceExecutionCorrelation \<Rightarrow> chain_op" where
  "retreat_success r command stamp s =
     (if report_segment r \<noteq> ''place_retreat'' then invalidate ''place approach replayed after release'' s
      else if Some command \<noteq> retreat_command_id s then
        invalidate ''place retreat command_id changed before success'' s
      else if Some stamp \<noteq> retreat_source_stamp_ns s then
        invalidate ''place retreat source identity changed before success'' s
      else if report_status r = ''succeeded'' then (Inr (), s\<lparr> chain_state := CH_COMPLETE \<rparr>)
      else (Inr (), s))"

definition after_completion :: "TrajectoryReport \<Rightarrow> int \<Rightarrow> int \<Rightarrow> PlaceExecutionCorrelation \<Rightarrow> chain_op" where
  "after_completion r command stamp s =
     (if report_segment r = ''place_retreat'' \<and> report_status r = ''succeeded''
         \<and> Some command = retreat_command_id s \<and> Some stamp = retreat_source_stamp_ns s
      then (Inr (), s)
      else invalidate ''trajectory status changed after completed retreat'' s)"

definition observe_trajectory :: "TrajectoryReport \<Rightarrow> PlaceExecutionCorrelation \<Rightarrow> chain_op" where
  "observe_trajectory r s =
     (if chain_state s \<in> {CH_IDLE, CH_INVALID} then
        invalidate ''place execution status arrived outside an active chain'' s
      else if report_status r \<notin> {''active'', ''succeeded''} then
        invalidate ''place execution status is not active or succeeded'' s
      else if report_segment r \<notin> {''place_approach'', ''place_retreat''} then
        invalidate ''place execution segment is not approach or retreat'' s
      else
        or_invalidate (report_identity r s) s (\<lambda>(command, stamp).
          case chain_state s of
            CH_AWAIT_APPROACH_ACTIVE \<Rightarrow> approach_active r command stamp s
          | CH_AWAIT_APPROACH_SUCCESS \<Rightarrow> approach_success r command stamp s
          | CH_AWAIT_RELEASE \<Rightarrow>
              if approach_replay r command stamp s then (Inr (), s)
              else invalidate ''trajectory status arrived before measured release'' s
          | CH_AWAIT_RETREAT_ACTIVE \<Rightarrow> retreat_active r command stamp s
          | CH_AWAIT_RETREAT_SUCCESS \<Rightarrow> retreat_success r command stamp s
          | CH_COMPLETE \<Rightarrow> after_completion r command stamp s
          | _ \<Rightarrow> invalidate ''place execution chain is in an invalid state'' s))"

record GripperReport =
  gripper_command_id :: json
  gripper_epoch :: json
  gripper_source_stamp_ns :: json

definition observe_gripper_command :: "GripperReport \<Rightarrow> PlaceExecutionCorrelation \<Rightarrow> chain_op" where
  "observe_gripper_command r s =
     or_invalidate
       (rbind (nonnegative_command_id (gripper_command_id r) ''gripper'') (\<lambda>command.
        rbind (nonnegative_stamp (gripper_source_stamp_ns r) ''gripper'') (\<lambda>stamp.
        rbind (validate_epoch (gripper_epoch r) s) (\<lambda>_. Inr (command, stamp))))) s (\<lambda>(command, stamp).
     if command < latest_gripper_command_id s then invalidate ''gripper command identity moved backwards'' s
     else if stamp < latest_gripper_source_stamp_ns s then
       invalidate ''gripper command source clock moved backwards'' s
     else if command = latest_gripper_command_id s then
       (if stamp \<noteq> latest_gripper_source_stamp_ns s then
          invalidate ''gripper command source changed without a new command'' s
        else (Inr (), s))
     else if stamp \<le> latest_gripper_source_stamp_ns s then
       invalidate ''new gripper command did not advance its source time'' s
     else (Inr (), s\<lparr> latest_gripper_command_id := command, latest_gripper_source_stamp_ns := stamp \<rparr>))"

definition is_new_release :: "int \<Rightarrow> json \<Rightarrow> int \<Rightarrow> PlaceExecutionCorrelation \<Rightarrow> bool" where
  "is_new_release command epoch stamp s =
     (epoch = JStr (chain_epoch s) \<and> chain_state s = CH_AWAIT_RELEASE
      \<and> (case (approach_source_stamp_ns s, pre_release_gripper_command_id s, pre_release_gripper_source_stamp_ns s) of
           (Some approach_stamp, Some before, Some before_stamp) \<Rightarrow>
             command = latest_gripper_command_id s \<and> before < command
             \<and> stamp = latest_gripper_source_stamp_ns s \<and> before_stamp < stamp \<and> approach_stamp < stamp
         | _ \<Rightarrow> False))"

definition observe_release :: "GripperReport \<Rightarrow> PlaceExecutionCorrelation \<Rightarrow> chain_op" where
  "observe_release r s =
     (if chain_state s \<noteq> CH_AWAIT_RELEASE then
        invalidate ''measured release arrived outside approach/retreat boundary'' s
      else
        or_invalidate
          (rbind (positive_command_id (gripper_command_id r) ''release gripper'') (\<lambda>command.
           rbind (positive_stamp (gripper_source_stamp_ns r) ''release gripper source'') (\<lambda>stamp.
           rbind (validate_epoch (gripper_epoch r) s) (\<lambda>_. Inr (command, stamp))))) s (\<lambda>(command, stamp).
        if \<not> is_new_release command (gripper_epoch r) stamp s then
          invalidate ''release gripper command does not strictly follow approach success'' s
        else (Inr (), s\<lparr> release_gripper_command_id := Some command, release_source_stamp_ns := Some stamp,
                         chain_state := CH_AWAIT_RETREAT_ACTIVE \<rparr>)))"

section \<open>Runs\<close>

datatype chain_event =
    ChainReset
  | ChainArm ArmRequest
  | ChainTrajectory TrajectoryReport
  | ChainGripper GripperReport
  | ChainRelease GripperReport

fun chain_apply :: "PlaceExecutionCorrelation \<Rightarrow> chain_event \<Rightarrow> chain_op" where
  "chain_apply s ChainReset = (Inr (), chain_reset)"
| "chain_apply s (ChainArm a) = chain_arm a s"
| "chain_apply s (ChainTrajectory r) = observe_trajectory r s"
| "chain_apply s (ChainGripper r) = observe_gripper_command r s"
| "chain_apply s (ChainRelease r) = observe_release r s"

definition chain_step :: "PlaceExecutionCorrelation \<Rightarrow> chain_event \<Rightarrow> PlaceExecutionCorrelation" where
  "chain_step s e = snd (chain_apply s e)"

definition chain_run :: "chain_event list \<Rightarrow> PlaceExecutionCorrelation" where
  "chain_run es = foldl chain_step chain_reset es"

fun restarts :: "chain_event \<Rightarrow> bool" where
  "restarts ChainReset = True"
| "restarts (ChainArm _) = True"
| "restarts _ = False"

text \<open>The events since the chain was last armed or reset.\<close>

definition since_restart :: "chain_event list \<Rightarrow> chain_event list" where
  "since_restart es = rev (takeWhile (\<lambda>e. \<not> restarts e) (rev es))"

section \<open>Fail closed\<close>

lemma or_invalidate_cases:
  assumes "\<And>e. r = Inl e \<Longrightarrow> \<exists>m. e = PlacementContractError m"
  obtains m where "or_invalidate r s k = invalidate m s" | x where "r = Inr x" "or_invalidate r s k = k x"
  using assms by (cases r) (fastforce simp: or_invalidate_def split: exn.splits)+

definition contract_error :: "'a res \<Rightarrow> bool" where
  "contract_error r = (\<forall>e. r = Inl e \<longrightarrow> (\<exists>m. e = PlacementContractError m))"

lemma contract_error_rules:
  "contract_error (Inr x)"
  "contract_error (Inl (PlacementContractError m))"
  "contract_error m1 \<Longrightarrow> (\<And>x. contract_error (f x)) \<Longrightarrow> contract_error (rbind m1 f)"
  "contract_error k \<Longrightarrow> contract_error (raise_if b (PlacementContractError m) k)"
  by (cases m1; auto simp: contract_error_def raise_if_def)+

lemma checks_contract_error:
  "contract_error (chain_identity v l)" "contract_error (bounded_int P l v)"
  by (auto simp: chain_identity_def bounded_int_def contract_error_rules split: json.split)

lemmas chain_checks =
  nonnegative_command_id_def nonnegative_stamp_def positive_command_id_def positive_stamp_def validate_epoch_def
  validate_trajectory_contract_def report_identity_def

lemma report_identity_error: "contract_error (report_identity r s)"
  by (simp add: chain_checks contract_error_rules checks_contract_error)

lemma gripper_check_error:
  "contract_error (rbind (nonnegative_command_id v ''gripper'') (\<lambda>command.
        rbind (nonnegative_stamp w ''gripper'') (\<lambda>stamp. rbind (validate_epoch x s) (\<lambda>_. Inr (command, stamp)))))"
  "contract_error (rbind (positive_command_id v ''release gripper'') (\<lambda>command.
        rbind (positive_stamp w ''release gripper source'') (\<lambda>stamp. rbind (validate_epoch x s) (\<lambda>_. Inr (command, stamp)))))"
  by (simp_all add: chain_checks contract_error_rules checks_contract_error)

text \<open>How a report can end: refused with the chain invalid, or accepted by one of the transitions.\<close>

definition refused :: "PlaceExecutionCorrelation \<Rightarrow> chain_op \<Rightarrow> bool" where
  "refused s r = (\<exists>m. r = invalidate m s)"

lemma refused_invalidate [simp]: "refused s (invalidate m s)"
  by (auto simp: refused_def)

lemma or_invalidate_refused:
  assumes "contract_error r"
  shows "refused s (or_invalidate r s k) \<or> (\<exists>x. r = Inr x \<and> or_invalidate r s k = k x)"
  by (rule or_invalidate_cases [of r s k]) (use assms in \<open>auto simp: contract_error_def\<close>)

lemma bounded_int_Inr [simp]: "bounded_int P m v = Inr i \<longleftrightarrow> v = JInt i \<and> P i"
  by (cases v) (auto simp: bounded_int_def)

text \<open>A trajectory report with the identity the chain was armed for.\<close>

definition owned_report ::
  "string \<Rightarrow> string \<Rightarrow> string \<Rightarrow> string \<Rightarrow> int \<Rightarrow> int \<Rightarrow> chain_event \<Rightarrow> bool" where
  "owned_report epoch contract segment status command stamp e =
     (case e of
        ChainTrajectory r \<Rightarrow>
          report_segment r = segment \<and> report_status r = status \<and> report_command_id r = JInt command
          \<and> report_source_stamp_ns r = JInt stamp \<and> chain_identity (report_epoch r) ''executor epoch'' = Inr epoch
          \<and> chain_identity (report_contract_id r) ''trajectory contract'' = Inr contract
      | _ \<Rightarrow> False)"

definition owned_release :: "string \<Rightarrow> int \<Rightarrow> int \<Rightarrow> chain_event \<Rightarrow> bool" where
  "owned_release epoch command stamp e =
     (case e of
        ChainRelease r \<Rightarrow>
          gripper_command_id r = JInt command \<and> gripper_source_stamp_ns r = JInt stamp \<and> gripper_epoch r = JStr epoch
      | _ \<Rightarrow> False)"

inductive chain_move :: "PlaceExecutionCorrelation \<Rightarrow> chain_event \<Rightarrow> PlaceExecutionCorrelation \<Rightarrow> bool" where
  stay: "chain_state s \<noteq> CH_IDLE \<Longrightarrow> chain_state s \<noteq> CH_INVALID \<Longrightarrow> chain_move s (ChainTrajectory r) s"
| approach_starts: "chain_state s = CH_AWAIT_APPROACH_ACTIVE \<Longrightarrow> owned_report (chain_epoch s) (chain_contract_id s) ''place_approach'' ''active'' command stamp e \<Longrightarrow>
    trajectory_command_highwater s < command \<Longrightarrow> trajectory_source_highwater_ns s < stamp \<Longrightarrow>
    chain_move s e (s\<lparr> approach_command_id := Some command, approach_source_stamp_ns := Some stamp,
                      chain_state := CH_AWAIT_APPROACH_SUCCESS \<rparr>)"
| approach_ends: "chain_state s = CH_AWAIT_APPROACH_SUCCESS \<Longrightarrow>
    approach_command_id s = Some command \<Longrightarrow> approach_source_stamp_ns s = Some stamp \<Longrightarrow>
    owned_report (chain_epoch s) (chain_contract_id s) ''place_approach'' ''succeeded'' command stamp e \<Longrightarrow>
    chain_move s e (s\<lparr> pre_release_gripper_command_id := Some (latest_gripper_command_id s),
                      pre_release_gripper_source_stamp_ns := Some (latest_gripper_source_stamp_ns s),
                      chain_state := CH_AWAIT_RELEASE \<rparr>)"
| released: "is_new_release command (JStr (chain_epoch s)) stamp s \<Longrightarrow> owned_release (chain_epoch s) command stamp e \<Longrightarrow>
    chain_move s e (s\<lparr> release_gripper_command_id := Some command, release_source_stamp_ns := Some stamp,
                      chain_state := CH_AWAIT_RETREAT_ACTIVE \<rparr>)"
| retreat_starts: "chain_state s = CH_AWAIT_RETREAT_ACTIVE \<Longrightarrow> owned_report (chain_epoch s) (chain_contract_id s) ''place_retreat'' ''active'' command stamp e \<Longrightarrow>
    the (approach_command_id s) < command \<Longrightarrow> the (release_source_stamp_ns s) < stamp \<Longrightarrow>
    chain_move s e (s\<lparr> retreat_command_id := Some command, retreat_source_stamp_ns := Some stamp,
                      chain_state := CH_AWAIT_RETREAT_SUCCESS \<rparr>)"
| retreat_ends: "chain_state s = CH_AWAIT_RETREAT_SUCCESS \<Longrightarrow>
    retreat_command_id s = Some command \<Longrightarrow> retreat_source_stamp_ns s = Some stamp \<Longrightarrow>
    owned_report (chain_epoch s) (chain_contract_id s) ''place_retreat'' ''succeeded'' command stamp e \<Longrightarrow> chain_move s e (s\<lparr> chain_state := CH_COMPLETE \<rparr>)"
| gripper_same: "chain_move s (ChainGripper r) s"
| gripper_moves: "latest_gripper_command_id s < command \<Longrightarrow> latest_gripper_source_stamp_ns s < stamp \<Longrightarrow>
    chain_move s (ChainGripper r) (s\<lparr> latest_gripper_command_id := command, latest_gripper_source_stamp_ns := stamp \<rparr>)"

lemma report_identity_Inr:
  "report_identity r s = Inr (command, stamp) \<Longrightarrow>
   owned_report (chain_epoch s) (chain_contract_id s) (report_segment r) (report_status r) command stamp (ChainTrajectory r)"
  by (auto simp: chain_checks owned_report_def)

text \<open>Every report is refused, trips one of the assertions the code makes, or is one of the transitions.\<close>

definition assertion_stop :: "PlaceExecutionCorrelation \<Rightarrow> bool" where
  "assertion_stop s =
     (chain_state s = CH_AWAIT_RETREAT_ACTIVE \<and> (approach_command_id s = None \<or> release_source_stamp_ns s = None))"

lemma trajectory_outcomes:
  assumes "\<not> assertion_stop s"
  shows "refused s (observe_trajectory r s) \<or> (\<exists>t. observe_trajectory r s = (Inr (), t) \<and> chain_move s (ChainTrajectory r) t)"
proof (cases "chain_state s \<in> {CH_IDLE, CH_INVALID} \<or> report_status r \<notin> {''active'', ''succeeded''}
    \<or> report_segment r \<notin> {''place_approach'', ''place_retreat''}")
  case True
  then show ?thesis by (auto simp: observe_trajectory_def)
next
  case False
  define k where "k = (\<lambda>(command, stamp). case chain_state s of
            CH_AWAIT_APPROACH_ACTIVE \<Rightarrow> approach_active r command stamp s
          | CH_AWAIT_APPROACH_SUCCESS \<Rightarrow> approach_success r command stamp s
          | CH_AWAIT_RELEASE \<Rightarrow>
              if approach_replay r command stamp s then (Inr (), s)
              else invalidate ''trajectory status arrived before measured release'' s
          | CH_AWAIT_RETREAT_ACTIVE \<Rightarrow> retreat_active r command stamp s
          | CH_AWAIT_RETREAT_SUCCESS \<Rightarrow> retreat_success r command stamp s
          | CH_COMPLETE \<Rightarrow> after_completion r command stamp s
          | _ \<Rightarrow> invalidate ''place execution chain is in an invalid state'' s)"
  have o: "observe_trajectory r s = or_invalidate (report_identity r s) s k"
    using False by (simp add: observe_trajectory_def k_def)
  from or_invalidate_refused [OF report_identity_error, of s r s k]
  consider "refused s (observe_trajectory r s)"
    | command stamp where "report_identity r s = Inr (command, stamp)" "observe_trajectory r s = k (command, stamp)"
    unfolding o by auto
  then show ?thesis
  proof cases
    case 1
    then show ?thesis by simp
  next
    case (2 command stamp)
    note own = report_identity_Inr [OF 2(1)]
    have "refused s (k (command, stamp)) \<or> (\<exists>t. k (command, stamp) = (Inr (), t) \<and> chain_move s (ChainTrajectory r) t)"
    proof (cases "chain_state s")
      case CH_AWAIT_APPROACH_ACTIVE
      then show ?thesis using own chain_move.approach_starts [OF CH_AWAIT_APPROACH_ACTIVE, of command stamp "ChainTrajectory r"]
        by (auto simp: k_def approach_active_def not_le)
    next
      case CH_AWAIT_APPROACH_SUCCESS
      then show ?thesis using own chain_move.approach_ends [OF CH_AWAIT_APPROACH_SUCCESS, of command stamp "ChainTrajectory r"]
          chain_move.stay [of s r]
        by (auto simp: k_def approach_success_def)
    next
      case CH_AWAIT_RELEASE
      then show ?thesis using chain_move.stay [of s r] by (auto simp: k_def)
    next
      case CH_AWAIT_RETREAT_ACTIVE
      then show ?thesis using own chain_move.retreat_starts [OF CH_AWAIT_RETREAT_ACTIVE, of command stamp "ChainTrajectory r"]
          chain_move.stay [of s r] assms
        by (auto simp: k_def retreat_active_def guard_def assertion_stop_def not_le)
    next
      case CH_AWAIT_RETREAT_SUCCESS
      then show ?thesis using own chain_move.retreat_ends [OF CH_AWAIT_RETREAT_SUCCESS, of command stamp "ChainTrajectory r"]
          chain_move.stay [of s r]
        by (auto simp: k_def retreat_success_def)
    next
      case CH_COMPLETE
      then show ?thesis using chain_move.stay [of s r] by (auto simp: k_def after_completion_def)
    qed (use False in auto)
    then show ?thesis using 2(2) by simp
  qed
qed

text \<open>A checked operation is refused or does what its continuation does.\<close>

lemma checked_outcomes:
  assumes "contract_error chk" and "\<And>x. chk = Inr x \<Longrightarrow> refused s (k x) \<or> (\<exists>t. k x = (Inr (), t) \<and> M t)"
  shows "refused s (or_invalidate chk s k) \<or> (\<exists>t. or_invalidate chk s k = (Inr (), t) \<and> M t)"
  using or_invalidate_refused [OF assms(1), of s k] assms(2) by metis

lemma gripper_outcomes:
  "refused s (observe_gripper_command r s)
   \<or> (\<exists>t. observe_gripper_command r s = (Inr (), t) \<and> chain_move s (ChainGripper r) t)"
  unfolding observe_gripper_command_def
proof (rule checked_outcomes [OF gripper_check_error(1)], goal_cases)
  case (1 x)
  obtain command stamp where [simp]: "x = (command, stamp)" by (cases x)
  show ?case
    using chain_move.gripper_same [of s r] chain_move.gripper_moves [of s command stamp r] by (simp add: not_less not_le)
qed

lemma release_outcomes:
  "refused s (observe_release r s) \<or> (\<exists>t. observe_release r s = (Inr (), t) \<and> chain_move s (ChainRelease r) t)"
proof (cases "chain_state s = CH_AWAIT_RELEASE")
  case False
  then show ?thesis by (simp add: observe_release_def)
next
  case True
  then have o: "observe_release r s =
      or_invalidate
          (rbind (positive_command_id (gripper_command_id r) ''release gripper'') (\<lambda>command.
           rbind (positive_stamp (gripper_source_stamp_ns r) ''release gripper source'') (\<lambda>stamp.
           rbind (validate_epoch (gripper_epoch r) s) (\<lambda>_. Inr (command, stamp))))) s (\<lambda>(command, stamp).
        if \<not> is_new_release command (gripper_epoch r) stamp s then
          invalidate ''release gripper command does not strictly follow approach success'' s
        else (Inr (), s\<lparr> release_gripper_command_id := Some command, release_source_stamp_ns := Some stamp,
                         chain_state := CH_AWAIT_RETREAT_ACTIVE \<rparr>))"
    by (simp add: observe_release_def)
  show ?thesis unfolding o
  proof (rule checked_outcomes [OF gripper_check_error(2)], goal_cases)
    case (1 x)
    obtain command stamp where x: "x = (command, stamp)" by (cases x)
    have "chain_move s (ChainRelease r) (s\<lparr> release_gripper_command_id := Some command,
        release_source_stamp_ns := Some stamp, chain_state := CH_AWAIT_RETREAT_ACTIVE \<rparr>)"
      if new: "is_new_release command (gripper_epoch r) stamp s"
    proof -
      from new have e: "gripper_epoch r = JStr (chain_epoch s)" by (simp add: is_new_release_def)
      have "owned_release (chain_epoch s) command stamp (ChainRelease r)"
        using 1 e by (auto simp: x owned_release_def positive_command_id_def positive_stamp_def)
      then show ?thesis using new unfolding e by (rule chain_move.released [rotated])
    qed
    then show ?case by (simp add: x)
  qed
qed

section \<open>The chain\<close>

text \<open>Events of a history that satisfy a list of predicates in this order.\<close>

definition in_order :: "('e \<Rightarrow> bool) list \<Rightarrow> 'e list \<Rightarrow> bool" where
  "in_order ps es = (\<exists>xs. subseq xs es \<and> list_all2 (\<lambda>p x. p x) ps xs)"

lemma in_order_Nil [simp]: "in_order [] es"
  by (auto simp: in_order_def)

lemma in_order_more: "in_order ps es \<Longrightarrow> in_order ps (es @ [e])"
  by (auto simp: in_order_def)

lemma in_order_snoc: "in_order ps es \<Longrightarrow> p e \<Longrightarrow> in_order (ps @ [p]) (es @ [e])"
  unfolding in_order_def by (metis list_all2_appendI list_emb_append_mono subseq_order.order_refl list_all2_Cons list_all2_Nil)

text \<open>How far a chain has come, and what it has seen to get there.\<close>

fun chain_rank :: "ChainState \<Rightarrow> nat" where
  "chain_rank CH_AWAIT_APPROACH_SUCCESS = 1"
| "chain_rank CH_AWAIT_RELEASE = 2"
| "chain_rank CH_AWAIT_RETREAT_ACTIVE = 3"
| "chain_rank CH_AWAIT_RETREAT_SUCCESS = 4"
| "chain_rank CH_COMPLETE = 5"
| "chain_rank _ = 0"

definition chain_links :: "PlaceExecutionCorrelation \<Rightarrow> (chain_event \<Rightarrow> bool) list" where
  "chain_links s =
     [owned_report (chain_epoch s) (chain_contract_id s) ''place_approach'' ''active'' (the (approach_command_id s)) (the (approach_source_stamp_ns s)),
      owned_report (chain_epoch s) (chain_contract_id s) ''place_approach'' ''succeeded'' (the (approach_command_id s)) (the (approach_source_stamp_ns s)),
      owned_release (chain_epoch s) (the (release_gripper_command_id s)) (the (release_source_stamp_ns s)),
      owned_report (chain_epoch s) (chain_contract_id s) ''place_retreat'' ''active'' (the (retreat_command_id s)) (the (retreat_source_stamp_ns s)),
      owned_report (chain_epoch s) (chain_contract_id s) ''place_retreat'' ''succeeded'' (the (retreat_command_id s)) (the (retreat_source_stamp_ns s))]"

definition chain_numbers :: "PlaceExecutionCorrelation \<Rightarrow> bool" where
  "chain_numbers s =
     ((chain_state s \<notin> {CH_IDLE, CH_INVALID} \<longrightarrow> gripper_command_highwater s \<le> latest_gripper_command_id s)
      \<and> (1 \<le> chain_rank (chain_state s) \<longrightarrow>
           (\<exists>a sa. approach_command_id s = Some a \<and> approach_source_stamp_ns s = Some sa
              \<and> trajectory_command_highwater s < a \<and> trajectory_source_highwater_ns s < sa))
      \<and> (2 \<le> chain_rank (chain_state s) \<longrightarrow>
           (\<exists>p. pre_release_gripper_command_id s = Some p \<and> gripper_command_highwater s \<le> p))
      \<and> (3 \<le> chain_rank (chain_state s) \<longrightarrow>
           (\<exists>r sr. release_gripper_command_id s = Some r \<and> release_source_stamp_ns s = Some sr
              \<and> gripper_command_highwater s < r \<and> the (approach_source_stamp_ns s) < sr))
      \<and> (4 \<le> chain_rank (chain_state s) \<longrightarrow>
           (\<exists>b sb. retreat_command_id s = Some b \<and> retreat_source_stamp_ns s = Some sb
              \<and> the (approach_command_id s) < b \<and> the (release_source_stamp_ns s) < sb)))"

definition chain_inv :: "PlaceExecutionCorrelation \<Rightarrow> chain_event list \<Rightarrow> bool" where
  "chain_inv s es = (chain_numbers s \<and> in_order (take (chain_rank (chain_state s)) (chain_links s)) es)"

lemma move_keeps_inv:
  assumes "chain_move s e t" and "chain_inv s es"
  shows "chain_inv t (es @ [e])"
  using assms
proof cases
  case (approach_starts command stamp)
  have "in_order ([] @ [owned_report (chain_epoch t) (chain_contract_id t) ''place_approach'' ''active'' command stamp]) (es @ [e])"
    by (rule in_order_snoc) (use approach_starts in simp_all)
  then show ?thesis using assms(2) approach_starts
    by (simp add: chain_inv_def chain_numbers_def chain_links_def)
next
  case (approach_ends command stamp)
  have "in_order ([owned_report (chain_epoch s) (chain_contract_id s) ''place_approach'' ''active'' command stamp]
      @ [owned_report (chain_epoch s) (chain_contract_id s) ''place_approach'' ''succeeded'' command stamp]) (es @ [e])"
    by (rule in_order_snoc) (use assms(2) approach_ends in \<open>simp_all add: chain_inv_def chain_links_def\<close>)
  then show ?thesis using assms(2) approach_ends
    by (simp add: chain_inv_def chain_numbers_def chain_links_def numeral_2_eq_2)
next
  case (released command stamp)
  then have st: "chain_state s = CH_AWAIT_RELEASE" by (simp add: is_new_release_def)
  have "in_order (take 2 (chain_links s) @ [owned_release (chain_epoch s) command stamp]) (es @ [e])"
    by (rule in_order_snoc) (use assms(2) released st in \<open>simp_all add: chain_inv_def\<close>)
  then show ?thesis using assms(2) released st
    by (auto simp: chain_inv_def chain_numbers_def chain_links_def numeral_2_eq_2 numeral_3_eq_3 is_new_release_def
          split: option.splits)
next
  case (retreat_starts command stamp)
  have "in_order (take 3 (chain_links s) @ [owned_report (chain_epoch s) (chain_contract_id s) ''place_retreat'' ''active'' command stamp]) (es @ [e])"
    by (rule in_order_snoc) (use assms(2) retreat_starts in \<open>simp_all add: chain_inv_def\<close>)
  then show ?thesis using assms(2) retreat_starts
    by (simp add: chain_inv_def chain_numbers_def chain_links_def numeral_3_eq_3 numeral_eq_Suc)
next
  case (retreat_ends command stamp)
  have "in_order (take 4 (chain_links s) @ [owned_report (chain_epoch s) (chain_contract_id s) ''place_retreat'' ''succeeded'' command stamp]) (es @ [e])"
    by (rule in_order_snoc) (use assms(2) retreat_ends in \<open>simp_all add: chain_inv_def\<close>)
  then show ?thesis using assms(2) retreat_ends
    by (simp add: chain_inv_def chain_numbers_def chain_links_def numeral_eq_Suc)
qed (use assms(2) in \<open>auto simp: chain_inv_def chain_numbers_def chain_links_def in_order_more\<close>)

lemma inv_no_assertion: "chain_inv s es \<Longrightarrow> \<not> assertion_stop s"
  by (auto simp: chain_inv_def chain_numbers_def assertion_stop_def)

lemma invalid_inv: "chain_inv s es \<Longrightarrow> chain_inv (snd (invalidate m s)) fs"
  by (simp add: chain_inv_def chain_numbers_def invalidate_def)

text \<open>An event that does not restart the chain is refused or is a transition.\<close>

lemma report_outcomes:
  assumes "\<not> restarts e" and "chain_inv s es"
  shows "refused s (chain_apply s e) \<or> (\<exists>t. chain_apply s e = (Inr (), t) \<and> chain_move s e t)"
  using assms trajectory_outcomes gripper_outcomes release_outcomes inv_no_assertion [OF assms(2)]
  by (cases e) auto

lemma since_restart_snoc: "since_restart (es @ [e]) = (if restarts e then [] else since_restart es @ [e])"
  by (simp add: since_restart_def)

lemma idle_inv: "chain_state s = CH_IDLE \<Longrightarrow> chain_inv s es"
  by (simp add: chain_inv_def chain_numbers_def)

text \<open>Arming either arms or raises with the chain idle.\<close>

definition idle_or_armed :: "chain_op \<Rightarrow> bool" where
  "idle_or_armed r =
     (chain_inv (snd r) []
      \<and> (\<forall>e. fst r = Inl e \<longrightarrow> (\<exists>m. e = PlacementContractError m) \<and> chain_state (snd r) = CH_IDLE))"

lemma idle_or_armed_gbind:
  "contract_error m \<Longrightarrow> chain_state s = CH_IDLE \<Longrightarrow> (\<And>x. idle_or_armed (f x)) \<Longrightarrow> idle_or_armed (gbind m s f)"
  by (cases m) (auto simp: idle_or_armed_def contract_error_def idle_inv)

lemma arm_idle_or_armed: "idle_or_armed (chain_arm a s)"
  unfolding chain_arm_def Let_def
  by (intro idle_or_armed_gbind)
    (simp_all add: chain_checks checks_contract_error chain_reset_def idle_or_armed_def chain_inv_def chain_numbers_def)

lemma run_inv_chain: "chain_inv (chain_run es) (since_restart es)"
proof (induction es rule: rev_induct)
  case Nil
  show ?case by (simp add: chain_run_def since_restart_def chain_inv_def chain_numbers_def chain_reset_def)
next
  case (snoc e es)
  have run: "chain_run (es @ [e]) = snd (chain_apply (chain_run es) e)" by (simp add: chain_run_def chain_step_def)
  show ?case
  proof (cases "restarts e")
    case True
    then show ?thesis unfolding run since_restart_snoc
      using arm_idle_or_armed by (cases e) (simp_all add: idle_inv chain_reset_def idle_or_armed_def)
  next
    case False
    then show ?thesis unfolding run since_restart_snoc
      using report_outcomes [OF False snoc] move_keeps_inv [OF _ snoc] invalid_inv [OF snoc] by (auto simp: refused_def)
  qed
qed

text \<open>C36: A placement chain is complete only if, since it was last armed, it has seen in this order the active and the succeeded report
  of one approach, a measured release, and the active and the succeeded report of one retreat, all of the armed epoch and contract:
  the approach above the frozen high-water marks, the release command newer than the frozen one and later
  than the approach, the retreat later than both.\<close>

theorem complete_only_after_ordered_chain:
  assumes "chain_state (chain_run es) = CH_COMPLETE"
  shows "\<exists>a sa r sr b sb. let s = chain_run es in
    in_order [owned_report (chain_epoch s) (chain_contract_id s) ''place_approach'' ''active'' a sa, owned_report (chain_epoch s) (chain_contract_id s) ''place_approach'' ''succeeded'' a sa,
              owned_release (chain_epoch s) r sr,
              owned_report (chain_epoch s) (chain_contract_id s) ''place_retreat'' ''active'' b sb, owned_report (chain_epoch s) (chain_contract_id s) ''place_retreat'' ''succeeded'' b sb]
             (since_restart es)
    \<and> trajectory_command_highwater s < a \<and> a < b \<and> gripper_command_highwater s < r
    \<and> trajectory_source_highwater_ns s < sa \<and> sa < sr \<and> sr < sb"
  using run_inv_chain [of es] assms
  by (auto simp: chain_inv_def chain_numbers_def chain_links_def Let_def) blast

definition sample_arm :: ArmRequest where
  "sample_arm =
     \<lparr> arm_goal_id = JStr ''g'', arm_executor_epoch = JStr ''e'', arm_contract_id = JStr ''c'', arm_trajectory_command = JInt 4,
       arm_gripper_command = JInt 2, arm_trajectory_source_ns = JInt 10, arm_gripper_source_ns = JInt 9 \<rparr>"

definition sample_report :: "string \<Rightarrow> string \<Rightarrow> int \<Rightarrow> int \<Rightarrow> chain_event" where
  "sample_report segment status command stamp =
     ChainTrajectory \<lparr> report_status = status, report_segment = segment, report_command_id = JInt command,
       report_epoch = JStr ''e'', report_contract_id = JStr ''c'', report_source_stamp_ns = JInt stamp \<rparr>"

definition sample_gripper :: GripperReport where
  "sample_gripper = \<lparr> gripper_command_id = JInt 3, gripper_epoch = JStr ''e'', gripper_source_stamp_ns = JInt 20 \<rparr>"

definition sample_chain :: "chain_event list" where
  "sample_chain =
     [ChainArm sample_arm, sample_report ''place_approach'' ''active'' 5 11, sample_report ''place_approach'' ''succeeded'' 5 11,
      ChainGripper sample_gripper, ChainRelease sample_gripper,
      sample_report ''place_retreat'' ''active'' 6 21, sample_report ''place_retreat'' ''succeeded'' 6 21]"

theorem complete_only_after_ordered_chain_witness:
  "chain_state (chain_run sample_chain) = CH_COMPLETE
   \<and> (\<exists>a b. trajectory_command_highwater (chain_run sample_chain) < a \<and> a < (b :: int))"
proof -
  have c: "chain_state (chain_run sample_chain) = CH_COMPLETE" by code_simp
  then show ?thesis using complete_only_after_ordered_chain [OF c] by (auto simp: Let_def)
qed

section \<open>Refusals\<close>

lemma refused_raises: "refused s r \<Longrightarrow> \<exists>m. fst r = Inl (PlacementContractError m) \<and> chain_state (snd r) = CH_INVALID"
  by (auto simp: refused_def invalidate_def)

lemma stopped_chain_step:
  assumes "chain_state s = CH_IDLE \<or> chain_state s = CH_INVALID" and "\<not> restarts e"
  shows "chain_state (chain_step s e) = CH_IDLE \<or> chain_state (chain_step s e) = CH_INVALID"
proof (cases e)
  case (ChainTrajectory r)
  then show ?thesis using assms by (auto simp: chain_step_def observe_trajectory_def invalidate_def)
next
  case (ChainGripper r)
  from gripper_outcomes [of s r] show ?thesis
  proof (elim disjE exE conjE)
    assume "refused s (observe_gripper_command r s)"
    then show ?thesis using refused_raises ChainGripper by (fastforce simp: chain_step_def)
  next
    fix t assume t: "observe_gripper_command r s = (Inr (), t)" and m: "chain_move s (ChainGripper r) t"
    from m have "chain_state t = chain_state s"
      by cases (auto simp: owned_report_def owned_release_def)
    then show ?thesis using t assms ChainGripper by (simp add: chain_step_def)
  qed
next
  case (ChainRelease r)
  then show ?thesis using assms by (auto simp: chain_step_def observe_release_def invalidate_def)
qed (use assms in auto)

interpretation stopped_chain: latched_machine chain_step
  "\<lambda>s. chain_state s = CH_IDLE \<or> chain_state s = CH_INVALID" restarts
  by unfold_locales (rule stopped_chain_step)

text \<open>A report that raises does so with the contract error only and leaves the chain stopped, and a stopped chain
  stays stopped whatever is reported until it is armed again.\<close>

theorem refused_report_stops_the_chain:
  assumes "fst (chain_apply (chain_run es) e) = Inl x" and "\<forall>f \<in> set fs. \<not> restarts f"
  shows "(\<exists>m. x = PlacementContractError m) \<and>
    (let s = chain_run (es @ e # fs) in \<not> chain_armed s \<and> chain_state s \<noteq> CH_COMPLETE)"
proof -
  let ?s = "chain_step (chain_run es) e"
  have "(\<exists>m. x = PlacementContractError m) \<and> (chain_state ?s = CH_IDLE \<or> chain_state ?s = CH_INVALID)"
  proof (cases "restarts e")
    case True
    then show ?thesis using assms(1) arm_idle_or_armed by (cases e) (auto simp: chain_step_def idle_or_armed_def)
  next
    case False
    then show ?thesis using report_outcomes [OF False run_inv_chain [of es]] assms(1) refused_raises
      by (fastforce simp: chain_step_def)
  qed
  moreover from this have "chain_state (foldl chain_step ?s fs) = CH_IDLE \<or> chain_state (foldl chain_step ?s fs) = CH_INVALID"
    using stopped_chain.run_latched [OF _ assms(2)] by blast
  moreover have "chain_run (es @ e # fs) = foldl chain_step ?s fs" by (simp add: chain_run_def)
  ultimately show ?thesis by (auto simp: chain_armed_def Let_def)
qed

theorem refused_report_stops_the_chain_witness:
  "\<not> chain_armed (chain_run (take 2 sample_chain @ sample_report ''place_retreat'' ''active'' 6 21 # drop 2 sample_chain))"
proof -
  have "fst (chain_apply (chain_run (take 2 sample_chain)) (sample_report ''place_retreat'' ''active'' 6 21))
      = Inl (PlacementContractError ''place retreat arrived before release'')" by code_simp
  then show ?thesis
    using refused_report_stops_the_chain [of "take 2 sample_chain" "sample_report ''place_retreat'' ''active'' 6 21"
        "PlacementContractError ''place retreat arrived before release''" "drop 2 sample_chain"]
    by (simp add: sample_chain_def sample_report_def Let_def numeral_2_eq_2)
qed

end
