(* ===== verification/Placement_Motion.thy ===== *)
theory Placement_Motion
  imports Prelude
begin

text \<open>
  The joint trajectory of one placement (\<open>src/ros2/z_manip_place/z_manip_place/core.py\<close>): the audited
  contract with the checks of its constructor (\<open>PlacementTrajectoryContract\<close>) and the joining of the planner's three
  untrusted segments into it (\<open>combine_trajectory_segments\<close>). An array of positions is the list of its rows.
\<close>

section \<open>The contract\<close>

record TrajectoryWaypoint =
  way_positions :: "pyfloat list"
  way_time_s :: pyfloat
  way_phase :: string

record RawTrajectorySegment =
  raw_phase :: string
  raw_joint_names :: "string list"
  raw_positions :: "pyfloat list list"
  raw_times_s :: "pyfloat list"

record PlacementTrajectoryContract =
  ptc_goal_id :: string
  ptc_frame_id :: string
  ptc_joint_names :: "string list"
  ptc_points :: "TrajectoryWaypoint list"
  ptc_phase_starts :: "(string \<times> int) list"

definition valid_phases :: "string list" where
  "valid_phases = [''transit'', ''approach'', ''retreat'']"

definition finite_vector :: "pyfloat list \<Rightarrow> nat \<Rightarrow> string \<Rightarrow> unit res" where
  "finite_vector xs n label =
     raise_if (length xs \<noteq> n \<or> \<not> list_all isfinite xs)
       (PlacementContractError (label @ '' must be a finite '' @ show_nat n @ ''-vector'')) (Inr ())"

fun check_waypoints :: "nat \<Rightarrow> pyfloat \<Rightarrow> TrajectoryWaypoint list \<Rightarrow> unit res" where
  "check_waypoints n previous [] = Inr ()"
| "check_waypoints n previous (p # ps) =
     rbind (finite_vector (way_positions p) n ''trajectory positions'') (\<lambda>_.
     raise_if (\<not> isfinite (way_time_s p) \<or> way_time_s p \<le> previous)
       (PlacementContractError ''trajectory times must increase strictly'')
     (raise_if (way_phase p \<notin> set valid_phases)
       (PlacementContractError (''unknown trajectory phase '' @ py_repr (way_phase p)))
     (check_waypoints n (way_time_s p) ps)))"

text \<open>\<open>dict(pairs)\<close>: the last pair of a key counts.\<close>

definition dict_of :: "(string \<times> int) list \<Rightarrow> string \<rightharpoonup> int" where
  "dict_of ps = map_of (rev ps)"

definition contract_post_init :: "PlacementTrajectoryContract \<Rightarrow> unit res" where
  "contract_post_init c =
     raise_if (ptc_goal_id c = [] \<or> ptc_frame_id c = [])
       (PlacementContractError ''trajectory goal and frame must be non-empty'')
     (raise_if (ptc_joint_names c = [] \<or> \<not> distinct (ptc_joint_names c))
       (PlacementContractError ''trajectory joint names must be unique'')
     (raise_if (length (ptc_points c) < 2) (PlacementContractError ''placement trajectory needs at least two points'')
     (rbind (check_waypoints (length (ptc_joint_names c)) (Fin (- 1)) (ptc_points c)) (\<lambda>_.
      let starts = dict_of (ptc_phase_starts c); start = (\<lambda>k. the (starts k)) in
      raise_if (set (map fst (ptc_phase_starts c)) \<noteq> set valid_phases)
        (PlacementContractError ''trajectory must declare all three phases'')
      (raise_if (\<not> (start ''transit'' = 0 \<and> 0 \<le> start ''approach'' \<and> start ''approach'' \<le> start ''retreat''))
        (PlacementContractError ''trajectory phase indices are out of order'')
      (raise_if (int (length (ptc_points c)) \<le> start ''retreat'')
        (PlacementContractError ''trajectory phase index exceeds point count'') (Inr ())))))))"

section \<open>Joining the segments\<close>

text \<open>What the loop carries: points and phase starts so far, the time and the positions it has reached.\<close>

record JoinState =
  join_points :: "TrajectoryWaypoint list"
  join_starts :: "(string \<times> int) list"
  join_time :: pyfloat
  join_previous :: "pyfloat list"

definition index_of :: "string list \<Rightarrow> string \<Rightarrow> nat" where
  "index_of names n = length (takeWhile (\<lambda>x. x \<noteq> n) names)"

definition reorder_row :: "string list \<Rightarrow> string list \<Rightarrow> pyfloat list \<Rightarrow> pyfloat list" where
  "reorder_row expected incoming row = map (\<lambda>n. row ! index_of incoming n) expected"

fun strictly_up :: "pyfloat list \<Rightarrow> bool" where
  "strictly_up (a # b # xs) = (a < b \<and> strictly_up (b # xs))"
| "strictly_up _ = True"

text \<open>\<open>np.max(np.abs(a - b))\<close> of two finite vectors of the same positive length.\<close>

definition max_error :: "pyfloat list \<Rightarrow> pyfloat list \<Rightarrow> real" where
  "max_error a b = Max (set (map2 (\<lambda>x y. \<bar>the_fin x - the_fin y\<bar>) a b))"

definition check_segment :: "string list \<Rightarrow> RawTrajectorySegment \<Rightarrow> unit res" where
  "check_segment expected seg =
     (let names = raw_joint_names seg; rows = raw_positions seg; times = raw_times_s seg in
      raise_if (\<not> distinct names \<or> set names \<noteq> set expected)
        (PlacementContractError (raw_phase seg @ '' segment joints do not match the configured arm''))
      (raise_if (list_ex (\<lambda>r. length r \<noteq> length names) rows \<or> length rows < 2)
        (PlacementContractError (raw_phase seg @ '' segment needs at least two arm waypoints''))
      (raise_if (length times \<noteq> length rows \<or> \<not> list_all isfinite times)
        (PlacementContractError (raw_phase seg @ '' segment times are malformed''))
      (raise_if (hd times < 0 \<or> \<not> strictly_up times)
        (PlacementContractError (raw_phase seg @ '' segment times must increase strictly''))
      (raise_if (\<not> list_all (list_all isfinite) (map (reorder_row expected names) rows))
        (PlacementContractError (raw_phase seg @ '' segment positions contain non-finite values'')) (Inr ()))))))"

text \<open>The waypoints a segment adds; the first row of a later segment is the last one of its predecessor.\<close>

definition segment_points :: "string list \<Rightarrow> RawTrajectorySegment \<Rightarrow> JoinState \<Rightarrow> TrajectoryWaypoint list" where
  "segment_points expected seg j =
     (let rows = map (reorder_row expected (raw_joint_names seg)) (raw_positions seg);
          times = raw_times_s seg;
          first = (if join_points j = [] then 0 else 1);
          base = (if join_points j = [] then 0 else join_time j)
      in map (\<lambda>i. \<lparr> way_positions = rows ! i, way_time_s = base + (times ! i - hd times), way_phase = raw_phase seg \<rparr>)
           [first ..< length rows])"

definition join_segment :: "string list \<Rightarrow> real \<Rightarrow> RawTrajectorySegment \<Rightarrow> JoinState \<Rightarrow> JoinState res" where
  "join_segment expected tolerance seg j =
     rbind (check_segment expected seg) (\<lambda>_.
     let rows = map (reorder_row expected (raw_joint_names seg)) (raw_positions seg);
         start_error = max_error (hd rows) (join_previous j);
         start = int (length (join_points j));
         points = join_points j @ segment_points expected seg j in
     raise_if (tolerance < start_error)
       (PlacementContractError (raw_phase seg @ '' starts '' @ fmt_fixed 4 start_error @ '' rad from the prior state''))
     (raise_if (int (length points) \<le> start)
       (PlacementContractError (raw_phase seg @ '' segment adds no motion''))
     (Inr \<lparr> join_points = points, join_starts = join_starts j @ [(raw_phase seg, start)],
            join_time = way_time_s (last points), join_previous = last rows \<rparr>)))"

fun join_segments :: "string list \<Rightarrow> real \<Rightarrow> RawTrajectorySegment list \<Rightarrow> JoinState \<Rightarrow> JoinState res" where
  "join_segments expected tolerance [] j = Inr j"
| "join_segments expected tolerance (seg # segs) j =
     rbind (join_segment expected tolerance seg j) (join_segments expected tolerance segs)"

definition combine_trajectory_segments ::
  "string \<Rightarrow> string \<Rightarrow> string list \<Rightarrow> pyfloat list \<Rightarrow> RawTrajectorySegment list \<Rightarrow> pyfloat
     \<Rightarrow> PlacementTrajectoryContract res" where
  "combine_trajectory_segments goal frame expected start segs tolerance =
     raise_if (expected = [] \<or> \<not> distinct expected) (PlacementContractError ''expected trajectory joints must be unique'')
     (raise_if (map raw_phase segs \<noteq> valid_phases)
       (PlacementContractError ''planner segments must be transit/approach/retreat'')
     (raise_if (\<not> isfinite tolerance \<or> tolerance \<le> 0)
       (PlacementContractError ''trajectory continuity tolerance must be positive'')
     (rbind (finite_vector start (length expected) ''trajectory start'') (\<lambda>_.
      rbind (join_segments expected (the_fin tolerance) segs
              \<lparr> join_points = [], join_starts = [], join_time = 0, join_previous = start \<rparr>) (\<lambda>j.
      let c = \<lparr> ptc_goal_id = goal, ptc_frame_id = frame, ptc_joint_names = expected, ptc_points = join_points j,
                ptc_phase_starts = join_starts j \<rparr> in
      rbind (contract_post_init c) (\<lambda>_. Inr c))))))"

section \<open>The clock of the joined trajectory\<close>

definition times_of :: "TrajectoryWaypoint list \<Rightarrow> real list" where
  "times_of ps = map (\<lambda>p. the_fin (way_time_s p)) ps"

definition waypoint_ok :: "nat \<Rightarrow> TrajectoryWaypoint \<Rightarrow> bool" where
  "waypoint_ok n p =
     (length (way_positions p) = n \<and> list_all isfinite (way_positions p) \<and> isfinite (way_time_s p)
      \<and> way_phase p \<in> set valid_phases)"

lemma check_waypoints_iff:
  "check_waypoints n (Fin a) ps = Inr () \<longleftrightarrow> list_all (waypoint_ok n) ps \<and> sorted_wrt (<) (a # times_of ps)"
proof (induction ps arbitrary: a)
  case Nil
  show ?case by (simp add: times_of_def)
next
  case (Cons p ps)
  show ?case
  proof (cases "way_time_s p")
    case (Fin t)
    have "check_waypoints n (Fin a) (p # ps) = Inr () \<longleftrightarrow> waypoint_ok n p \<and> a < t \<and> check_waypoints n (Fin t) ps = Inr ()"
      by (auto simp: Fin finite_vector_def waypoint_ok_def not_le)
    also have "\<dots> \<longleftrightarrow> list_all (waypoint_ok n) (p # ps) \<and> sorted_wrt (<) (a # times_of (p # ps))"
      by (auto simp: Cons.IH times_of_def Fin)
    finally show ?thesis .
  qed (auto simp: waypoint_ok_def)
qed

lemma strictly_up_sorted:
  "list_all isfinite ts \<Longrightarrow> strictly_up ts \<Longrightarrow> sorted_wrt (<) (map the_fin ts)"
proof (induction ts rule: strictly_up.induct)
  case (1 a b xs)
  then have s: "sorted_wrt (<) (map the_fin (b # xs))" and ab: "the_fin a < the_fin b"
    by (cases a; cases b; auto)+
  then show ?case by (auto intro: less_trans)
qed auto

text \<open>An accepted segment: its rows and times, and how long it takes.\<close>

definition segment_ok :: "string list \<Rightarrow> RawTrajectorySegment \<Rightarrow> bool" where
  "segment_ok expected seg =
     (distinct (raw_joint_names seg) \<and> set (raw_joint_names seg) = set expected
      \<and> list_all (\<lambda>r. length r = length (raw_joint_names seg)) (raw_positions seg) \<and> 2 \<le> length (raw_positions seg)
      \<and> length (raw_times_s seg) = length (raw_positions seg) \<and> list_all isfinite (raw_times_s seg)
      \<and> sorted_wrt (<) (map the_fin (raw_times_s seg))
      \<and> list_all (list_all isfinite) (map (reorder_row expected (raw_joint_names seg)) (raw_positions seg)))"

lemma check_segment_Inr: "check_segment expected seg = Inr () \<Longrightarrow> segment_ok expected seg"
  by (auto simp: check_segment_def segment_ok_def list_ex_iff list_all_iff Let_def intro: strictly_up_sorted [unfolded list_all_iff])

definition segment_rows :: "string list \<Rightarrow> RawTrajectorySegment \<Rightarrow> pyfloat list list" where
  "segment_rows expected seg = map (reorder_row expected (raw_joint_names seg)) (raw_positions seg)"

definition segment_duration :: "RawTrajectorySegment \<Rightarrow> real" where
  "segment_duration seg = the_fin (last (raw_times_s seg)) - the_fin (hd (raw_times_s seg))"

text \<open>The state of the loop: waypoints of the right kind with a clock that starts at zero and only goes up.\<close>

definition join_inv :: "nat \<Rightarrow> JoinState \<Rightarrow> bool" where
  "join_inv n j =
     (list_all (waypoint_ok n) (join_points j) \<and> sorted_wrt (<) (- 1 # times_of (join_points j))
      \<and> (join_points j \<noteq> [] \<longrightarrow>
           hd (times_of (join_points j)) = 0 \<and> join_time j = Fin (last (times_of (join_points j)))
           \<and> join_previous j = way_positions (last (join_points j))))"

lemma segment_points_time:
  assumes "segment_ok expected seg" and "i < length (raw_positions seg)" and "0 < i"
  shows "the_fin (hd (raw_times_s seg)) < the_fin (raw_times_s seg ! i)"
proof -
  have "map the_fin (raw_times_s seg) ! 0 < map the_fin (raw_times_s seg) ! i"
    using assms by (intro strictly_increasing_le) (auto simp: segment_ok_def)
  then show ?thesis using assms by (cases "raw_times_s seg") (auto simp: segment_ok_def)
qed

lemma segment_times_fin:
  assumes "segment_ok expected seg" and "i < length (raw_positions seg)"
  shows "raw_times_s seg ! i = Fin (the_fin (raw_times_s seg ! i))" "hd (raw_times_s seg) = Fin (the_fin (hd (raw_times_s seg)))"
proof -
  have "isfinite (raw_times_s seg ! i)" "isfinite (hd (raw_times_s seg))"
    using assms by (auto simp: segment_ok_def list_all_iff intro!: hd_in_set)
  then show "raw_times_s seg ! i = Fin (the_fin (raw_times_s seg ! i))" "hd (raw_times_s seg) = Fin (the_fin (hd (raw_times_s seg)))"
    by auto
qed

lemma map_nth_from: "map ((!) xs) [k ..< length xs] = drop k xs"
  by (rule nth_equalityI) auto

text \<open>The points a segment adds, and when they are due.\<close>

lemma added_points:
  assumes ok: "segment_ok expected seg" and j: "join_inv n j" and n: "n = length expected"
    and ph: "raw_phase seg \<in> set valid_phases"
  defines "first \<equiv> (if join_points j = [] then 0 else 1)"
  defines "base \<equiv> (if join_points j = [] then 0 else last (times_of (join_points j)))"
  shows "times_of (segment_points expected seg j)
      = map (\<lambda>i. base + (the_fin (raw_times_s seg ! i) - the_fin (hd (raw_times_s seg)))) [first ..< length (raw_positions seg)]"
    and "map way_positions (segment_points expected seg j) = drop first (segment_rows expected seg)"
    and "map way_phase (segment_points expected seg j) = replicate (length (raw_positions seg) - first) (raw_phase seg)"
    and "list_all (waypoint_ok n) (segment_points expected seg j)"
proof -
  let ?rows = "segment_rows expected seg"
  have len: "length ?rows = length (raw_positions seg)" by (simp add: segment_rows_def)
  have p: "segment_points expected seg j = map (\<lambda>i. \<lparr> way_positions = ?rows ! i,
       way_time_s = Fin (base + (the_fin (raw_times_s seg ! i) - the_fin (hd (raw_times_s seg)))), way_phase = raw_phase seg \<rparr>)
       [first ..< length (raw_positions seg)]"
    unfolding segment_points_def Let_def segment_rows_def [symmetric] len first_def
  proof (rule map_cong [OF refl])
    fix i assume "i \<in> set [if join_points j = [] then 0 else 1..<length (raw_positions seg)]"
    then have i: "i < length (raw_positions seg)" by auto
    have "(if join_points j = [] then 0 else join_time j) = Fin base"
      using j by (simp add: join_inv_def base_def zero_pyfloat_def)
    moreover obtain a b where "raw_times_s seg ! i = Fin a" "hd (raw_times_s seg) = Fin b"
      using segment_times_fin [OF ok i] by blast
    ultimately have "(if join_points j = [] then 0 else join_time j) + (raw_times_s seg ! i - hd (raw_times_s seg))
        = Fin (base + (the_fin (raw_times_s seg ! i) - the_fin (hd (raw_times_s seg))))"
      by simp
    then show "\<lparr>way_positions = ?rows ! i, way_time_s = (if join_points j = [] then 0 else join_time j) + (raw_times_s seg ! i - hd (raw_times_s seg)),
          way_phase = raw_phase seg\<rparr> = \<lparr>way_positions = ?rows ! i, way_time_s = Fin (base + (the_fin (raw_times_s seg ! i) - the_fin (hd (raw_times_s seg)))),
          way_phase = raw_phase seg\<rparr>" by simp
  qed
  show "times_of (segment_points expected seg j)
      = map (\<lambda>i. base + (the_fin (raw_times_s seg ! i) - the_fin (hd (raw_times_s seg)))) [first ..< length (raw_positions seg)]"
    by (simp add: times_of_def p)
  show "map way_positions (segment_points expected seg j) = drop first ?rows"
    by (simp add: p comp_def len [symmetric] map_nth_from)
  show "map way_phase (segment_points expected seg j) = replicate (length (raw_positions seg) - first) (raw_phase seg)"
    by (simp add: p comp_def map_replicate_const)
  have "length (?rows ! i) = n \<and> list_all isfinite (?rows ! i)" if "i < length (raw_positions seg)" for i
    using ok that n by (auto simp: segment_rows_def reorder_row_def segment_ok_def list_all_length)
  then show "list_all (waypoint_ok n) (segment_points expected seg j)"
    using ph by (auto simp: p list_all_iff waypoint_ok_def)
qed

lemma sorted_times_append:
  fixes xs ys :: "real list"
  assumes "sorted_wrt (<) (-1 # xs)" and "sorted_wrt (<) ys" and "ys \<noteq> []"
    and "xs \<noteq> [] \<Longrightarrow> last xs < hd ys" and "xs = [] \<Longrightarrow> -1 < hd ys"
  shows "sorted_wrt (<) (-1 # (xs @ ys))"
proof -
  have up: "hd ys \<le> y" if "y \<in> set ys" for y
    using assms(2,3) that by (cases ys) auto
  have low: "x \<le> last xs" if "x \<in> set xs" for x
    using assms(1) that by (induction xs) (auto simp: less_imp_le split: if_splits dest: last_in_set)
  have "x < y" if "x \<in> set (-1 # xs)" "y \<in> set ys" for x y
  proof (cases "xs = []")
    case True
    then show ?thesis using assms(5) up [OF that(2)] that(1) by simp
  next
    case False
    then have "-1 < last xs" using assms(1) last_in_set by simp
    then have "x \<le> last xs" using that(1) low by auto
    then show ?thesis using assms(4) [OF False] up [OF that(2)] by simp
  qed
  then show ?thesis using assms(1,2) by (auto simp: sorted_wrt_append)
qed

text \<open>One turn of the loop.\<close>

definition joined :: "string list \<Rightarrow> real \<Rightarrow> RawTrajectorySegment \<Rightarrow> JoinState \<Rightarrow> JoinState \<Rightarrow> bool" where
  "joined expected tolerance seg j j' =
     (segment_ok expected seg \<and> max_error (hd (segment_rows expected seg)) (join_previous j) \<le> tolerance
      \<and> join_points j' = join_points j @ segment_points expected seg j
      \<and> join_starts j' = join_starts j @ [(raw_phase seg, int (length (join_points j)))]
      \<and> join_previous j' = last (segment_rows expected seg))"

lemma join_segment_inv:
  assumes r: "join_segment expected tolerance seg j = Inr j'" and j: "join_inv n j" and n: "n = length expected"
    and ph: "raw_phase seg \<in> set valid_phases"
  shows "joined expected tolerance seg j j' \<and> join_inv n j' \<and> join_points j' \<noteq> []
    \<and> last (times_of (join_points j')) =
        (if join_points j = [] then 0 else last (times_of (join_points j))) + segment_duration seg"
proof -
  from r have ok: "segment_ok expected seg"
    by (auto simp: join_segment_def dest: check_segment_Inr)
  let ?add = "segment_points expected seg j"
  let ?rows = "segment_rows expected seg"
  define first where "first = (if join_points j = [] then 0 else (1::nat))"
  define base where "base = (if join_points j = [] then 0 else last (times_of (join_points j)))"
  define L where "L = length (raw_positions seg)"
  define due where "due = (\<lambda>i. base + (the_fin (raw_times_s seg ! i) - the_fin (hd (raw_times_s seg))))"
  note added = added_points [OF ok j n ph, folded first_def base_def L_def, folded due_def]
  have L: "2 \<le> L" "first < L" using ok by (auto simp: L_def first_def segment_ok_def)
  have up: "the_fin (raw_times_s seg ! i) < the_fin (raw_times_s seg ! k)" if "i < k" "k < L" for i k
    using strictly_increasing_le [of "map the_fin (raw_times_s seg)" i k] ok that by (simp add: segment_ok_def L_def)
  have hd0: "hd (raw_times_s seg) = raw_times_s seg ! 0" using ok by (intro hd_conv_nth) (auto simp: segment_ok_def)
  have tadd: "times_of ?add \<noteq> []" "hd (times_of ?add) = due first" "last (times_of ?add) = due (L - 1)"
    using L by (auto simp: added(1) hd_map last_map)
  have sorted: "sorted_wrt (<) (times_of ?add)"
    unfolding added(1) sorted_wrt_map
    by (rule sorted_wrt_mono_rel [OF _ sorted_wrt_upt]) (auto simp: due_def up)
  have due0: "due 0 = base" by (simp add: due_def hd0)
  have first_due: "join_points j \<noteq> [] \<Longrightarrow> base < due first"
    using up [of 0 1] L by (simp add: due_def hd0 first_def)
  have last_due: "due (L - 1) = base + segment_duration seg"
    using ok by (simp add: due_def segment_duration_def last_conv_nth segment_ok_def L_def)
      (metis L(1) L_def One_nat_def last_conv_nth length_0_conv not_numeral_le_zero)
  from r have j': "j' = \<lparr> join_points = join_points j @ ?add, join_starts = join_starts j @ [(raw_phase seg, int (length (join_points j)))],
            join_time = way_time_s (last (join_points j @ ?add)), join_previous = last ?rows \<rparr>"
      and err: "max_error (hd ?rows) (join_previous j) \<le> tolerance"
    by (auto simp: join_segment_def Let_def segment_rows_def [symmetric] not_less)
  have ne: "?add \<noteq> []" using tadd(1) by (auto simp: times_of_def)
  have times': "times_of (join_points j') = times_of (join_points j) @ times_of ?add" by (simp add: j' times_of_def)
  have "sorted_wrt (<) (- 1 # times_of (join_points j'))"
    unfolding times'
  proof (rule sorted_times_append [OF _ sorted tadd(1)])
    show "sorted_wrt (<) (- 1 # times_of (join_points j))" using j by (simp add: join_inv_def)
    show "last (times_of (join_points j)) < hd (times_of ?add)" if "times_of (join_points j) \<noteq> []"
      unfolding tadd(2) using first_due that by (auto simp: base_def times_of_def)
    show "- 1 < hd (times_of ?add)" if "times_of (join_points j) = []"
      unfolding tadd(2) using that due0 by (simp add: first_def base_def times_of_def)
  qed
  moreover have "hd (times_of (join_points j')) = 0"
  proof (cases "join_points j = []")
    case True
    then have "hd (times_of (join_points j')) = due first" by (simp only: times' tadd(2) [symmetric]) (simp add: times_of_def)
    then show ?thesis using True due0 by (simp add: first_def base_def)
  next
    case False
    then have "times_of (join_points j) \<noteq> []" by (simp add: times_of_def)
    then show ?thesis using j False by (simp add: times' join_inv_def)
  qed
  moreover have "join_time j' = Fin (last (times_of (join_points j')))"
  proof -
    have "isfinite (way_time_s (last ?add))" using added(4) ne by (simp add: list_all_iff waypoint_ok_def)
    then show ?thesis using ne by (auto simp: j' times_of_def last_map)
  qed
  moreover have "join_previous j' = way_positions (last (join_points j'))"
  proof -
    have "way_positions (last ?add) = last (map way_positions ?add)" using ne by (simp add: last_map)
    also have "\<dots> = last ?rows" using L by (simp add: added(2) last_drop segment_rows_def L_def)
    finally show ?thesis using ne by (simp add: j')
  qed
  moreover have "list_all (waypoint_ok n) (join_points j')" using j added(4) by (simp add: j' join_inv_def)
  ultimately have "join_inv n j'" by (simp add: join_inv_def)
  then show ?thesis using ok err ne tadd last_due
    by (simp add: joined_def j') (simp add: times_of_def base_def)
qed

section \<open>The joined trajectory\<close>

text \<open>When the rows of a segment are due if its first one is due at \<open>base\<close>.\<close>

definition segment_times :: "real \<Rightarrow> RawTrajectorySegment \<Rightarrow> real list" where
  "segment_times base seg = map (\<lambda>t. base + (the_fin t - the_fin (hd (raw_times_s seg)))) (raw_times_s seg)"

lemma segment_times_from:
  "map (\<lambda>i. base + (the_fin (raw_times_s seg ! i) - the_fin (hd (raw_times_s seg)))) [k ..< length (raw_times_s seg)]
     = drop k (segment_times base seg)"
  by (rule nth_equalityI) (simp_all add: segment_times_def)

text \<open>What the loop made of the three segments.\<close>

definition joins ::
  "string list \<Rightarrow> real \<Rightarrow> pyfloat list \<Rightarrow> RawTrajectorySegment \<Rightarrow> RawTrajectorySegment \<Rightarrow> RawTrajectorySegment
     \<Rightarrow> PlacementTrajectoryContract \<Rightarrow> bool" where
  "joins expected tolerance start t a r c =
     (segment_ok expected t \<and> segment_ok expected a \<and> segment_ok expected r
      \<and> max_error (hd (segment_rows expected t)) start \<le> tolerance
      \<and> max_error (hd (segment_rows expected a)) (last (segment_rows expected t)) \<le> tolerance
      \<and> max_error (hd (segment_rows expected r)) (last (segment_rows expected a)) \<le> tolerance
      \<and> ptc_joint_names c = expected
      \<and> map way_positions (ptc_points c) =
          segment_rows expected t @ tl (segment_rows expected a) @ tl (segment_rows expected r)
      \<and> map way_phase (ptc_points c) =
          replicate (length (raw_positions t)) ''transit'' @ replicate (length (raw_positions a) - 1) ''approach''
            @ replicate (length (raw_positions r) - 1) ''retreat''
      \<and> ptc_phase_starts c =
          [(''transit'', 0), (''approach'', int (length (raw_positions t))),
           (''retreat'', int (length (raw_positions t)) + int (length (raw_positions a)) - 1)]
      \<and> sorted_wrt (<) (times_of (ptc_points c)) \<and> hd (times_of (ptc_points c)) = 0
      \<and> times_of (ptc_points c) =
          segment_times 0 t @ tl (segment_times (segment_duration t) a)
            @ tl (segment_times (segment_duration t + segment_duration a) r))"

lemma joined_three:
  assumes segs: "map raw_phase [t, a, r] = valid_phases"
    and j: "join_segments expected tolerance [t, a, r]
              \<lparr> join_points = [], join_starts = [], join_time = 0, join_previous = start \<rparr> = Inr j"
  shows "joins expected tolerance start t a r
           \<lparr> ptc_goal_id = goal, ptc_frame_id = frame, ptc_joint_names = expected, ptc_points = join_points j,
             ptc_phase_starts = join_starts j \<rparr>
    \<and> join_inv (length expected) j"
proof -
  define n where "n = length expected"
  let ?j0 = "\<lparr> join_points = [], join_starts = [], join_time = 0, join_previous = start \<rparr>"
  from j obtain j1 j2 where steps: "join_segment expected tolerance t ?j0 = Inr j1" "join_segment expected tolerance a j1 = Inr j2"
      "join_segment expected tolerance r j2 = Inr j" by auto
  have ph: "raw_phase t = ''transit''" "raw_phase a = ''approach''" "raw_phase r = ''retreat''"
    using segs by (simp_all add: valid_phases_def)
  then have vp: "raw_phase t \<in> set valid_phases" "raw_phase a \<in> set valid_phases" "raw_phase r \<in> set valid_phases"
    by (simp_all add: valid_phases_def)
  have inv0: "join_inv n ?j0" by (simp add: join_inv_def times_of_def)
  note i1 = join_segment_inv [OF steps(1) inv0 n_def vp(1)]
  then have inv1: "join_inv n j1" by simp
  note i2 = join_segment_inv [OF steps(2) inv1 n_def vp(2)]
  then have inv2: "join_inv n j2" by simp
  note i3 = join_segment_inv [OF steps(3) inv2 n_def vp(3)]
  then have inv3: "join_inv n j" by simp
  have ok: "segment_ok expected t" "segment_ok expected a" "segment_ok expected r"
    using i1 i2 i3 by (simp_all add: joined_def)
  note p1 = added_points [OF ok(1) inv0 n_def vp(1)]
  note p2 = added_points [OF ok(2) inv1 n_def vp(2)]
  note p3 = added_points [OF ok(3) inv2 n_def vp(3)]
  have pts: "join_points j = segment_points expected t ?j0 @ segment_points expected a j1 @ segment_points expected r j2"
    using i1 i2 i3 by (simp add: joined_def)
  have len: "length (segment_points expected t ?j0) = length (raw_positions t)"
    "length (segment_points expected a j1) = length (raw_positions a) - 1"
    using arg_cong [OF p1(3), of length] arg_cong [OF p2(3), of length] i1 by simp_all
  have starts: "join_starts j = [(''transit'', 0), (''approach'', int (length (raw_positions t))),
           (''retreat'', int (length (raw_positions t)) + int (length (raw_positions a)) - 1)]"
  proof -
    have "joined expected tolerance t ?j0 j1" "joined expected tolerance a j1 j2" "joined expected tolerance r j2 j"
      using i1 i2 i3 by simp_all
    then have js: "join_starts j = [(raw_phase t, 0), (raw_phase a, int (length (segment_points expected t ?j0))),
        (raw_phase r, int (length (segment_points expected t ?j0 @ segment_points expected a j1)))]"
      by (simp add: joined_def)
    have "1 \<le> length (raw_positions a)" using ok(2) by (simp add: segment_ok_def)
    then show ?thesis unfolding js ph length_append len by simp
  qed
  have sorted: "sorted_wrt (<) (times_of (join_points j))" and h: "hd (times_of (join_points j)) = 0"
    using inv3 conjunct1 [OF conjunct2 [OF conjunct2 [OF i3]]] by (simp_all add: join_inv_def)
  have ne: "join_points j1 \<noteq> []" "join_points j2 \<noteq> []" using i1 i2 by simp_all
  have rows: "map way_positions (join_points j) =
      segment_rows expected t @ tl (segment_rows expected a) @ tl (segment_rows expected r)"
    unfolding pts map_append p1(2) p2(2) p3(2) using ne by (simp add: drop_Suc)
  have phases: "map way_phase (join_points j) =
      replicate (length (raw_positions t)) ''transit'' @ replicate (length (raw_positions a) - 1) ''approach''
        @ replicate (length (raw_positions r) - 1) ''retreat''"
    unfolding pts map_append p1(3) p2(3) p3(3) ph using ne by simp
  have clock: "times_of (join_points j) = segment_times 0 t @ tl (segment_times (segment_duration t) a)
      @ tl (segment_times (segment_duration t + segment_duration a) r)"
  proof -
    have due: "length (raw_positions seg) = length (raw_times_s seg)" if "segment_ok expected seg" for seg
      using that by (simp add: segment_ok_def)
    have all: "times_of (join_points j) = times_of (segment_points expected t ?j0) @ times_of (segment_points expected a j1)
        @ times_of (segment_points expected r j2)" by (simp add: pts times_of_def)
    show ?thesis
      unfolding all p1(1) p2(1) p3(1) due [OF ok(1)] due [OF ok(2)] due [OF ok(3)] segment_times_from
      using i1 i2 ne by (simp add: drop_Suc)
  qed
  have errs: "max_error (hd (segment_rows expected t)) start \<le> tolerance"
      "max_error (hd (segment_rows expected a)) (last (segment_rows expected t)) \<le> tolerance"
      "max_error (hd (segment_rows expected r)) (last (segment_rows expected a)) \<le> tolerance"
    using i1 i2 i3 by (simp_all add: joined_def)
  show ?thesis unfolding joins_def using ok errs rows phases starts sorted h clock inv3 by (simp add: n_def)
qed

text \<open>The constructor's checks hold of what the loop builds, its names being given.\<close>

lemma joined_contract:
  assumes e: "expected \<noteq> []" "distinct expected" and names: "goal \<noteq> []" "frame \<noteq> []"
    and js: "joins expected tolerance start t a r c" and inv: "join_inv (length expected) j"
    and c: "c = \<lparr> ptc_goal_id = goal, ptc_frame_id = frame, ptc_joint_names = expected, ptc_points = join_points j,
             ptc_phase_starts = join_starts j \<rparr>"
  shows "contract_post_init c = Inr ()"
proof -
  have lens: "2 \<le> length (raw_positions t)" "2 \<le> length (raw_positions a)" "2 \<le> length (raw_positions r)"
    using js by (simp_all add: joins_def segment_ok_def)
  have len: "length (join_points j) = length (raw_positions t) + (length (raw_positions a) - 1) + (length (raw_positions r) - 1)"
  proof -
    have "length (map way_phase (ptc_points c)) = length (raw_positions t) + (length (raw_positions a) - 1) + (length (raw_positions r) - 1)"
      using js unfolding joins_def by simp
    then show ?thesis by (simp add: c)
  qed
  have starts: "join_starts j = [(''transit'', 0), (''approach'', int (length (raw_positions t))),
           (''retreat'', int (length (raw_positions t)) + int (length (raw_positions a)) - 1)]"
    using js by (simp add: joins_def c)
  have way: "check_waypoints (length expected) (Fin (- 1)) (join_points j) = Inr ()"
    using inv by (simp add: check_waypoints_iff join_inv_def)
  have two: "\<not> length (join_points j) < 2" and
    idx: "\<not> int (length (join_points j)) \<le> int (length (raw_positions t)) + int (length (raw_positions a)) - 1"
    using lens len by linarith+
  have one: "raw_positions a \<noteq> []" using lens(2) by auto
  show ?thesis
    using e names way two idx one
    by (simp add: contract_post_init_def c starts dict_of_def valid_phases_def raise_if_def Let_def insert_commute)
qed

lemma three_segments: "map raw_phase segs = valid_phases \<Longrightarrow> \<exists>t a r. segs = [t, a, r]"
  by (auto simp: valid_phases_def map_eq_Cons_conv)

text \<open>The rows of a segment with every joint looked up by its name, and vectors that differ by at most a tolerance in
  every joint.\<close>

definition rows_by_name :: "string list \<Rightarrow> RawTrajectorySegment \<Rightarrow> pyfloat list list" where
  "rows_by_name expected seg =
     map (\<lambda>row. map (\<lambda>n. the (map_of (zip (raw_joint_names seg) row) n)) expected) (raw_positions seg)"

definition close_to :: "real \<Rightarrow> pyfloat list \<Rightarrow> pyfloat list \<Rightarrow> bool" where
  "close_to tolerance = list_all2 (\<lambda>x y. \<bar>the_fin x - the_fin y\<bar> \<le> tolerance)"

definition segment_wf :: "string list \<Rightarrow> RawTrajectorySegment \<Rightarrow> bool" where
  "segment_wf expected seg \<longleftrightarrow>
     distinct (raw_joint_names seg) \<and> set (raw_joint_names seg) = set expected \<and> 2 \<le> length (raw_positions seg)
     \<and> list_all (\<lambda>row. length row = length (raw_joint_names seg) \<and> list_all isfinite row) (raw_positions seg)
     \<and> length (raw_times_s seg) = length (raw_positions seg) \<and> list_all isfinite (raw_times_s seg)
     \<and> sorted_wrt (<) (map the_fin (raw_times_s seg))"

lemma index_of_nth:
  assumes "n \<in> set names"
  shows "index_of names n < length names" "names ! index_of names n = n"
proof -
  show "index_of names n < length names" using assms
    by (induction names) (auto simp: index_of_def)
  then show "names ! index_of names n = n" using nth_length_takeWhile [of "\<lambda>x. x \<noteq> n" names] by (auto simp: index_of_def)
qed

lemma index_of_by_name:
  assumes "n \<in> set names" "distinct names" "length row = length names"
  shows "map_of (zip names row) n = Some (row ! index_of names n)"
  using map_of_zip_nth [of names row "index_of names n"] index_of_nth [OF assms(1)] assms(2,3) by simp

lemma segment_rows_by_name:
  assumes "segment_ok expected seg"
  shows "segment_rows expected seg = rows_by_name expected seg"
proof -
  have "row ! index_of (raw_joint_names seg) n = the (map_of (zip (raw_joint_names seg) row) n)"
    if "row \<in> set (raw_positions seg)" "n \<in> set expected" for row n
    using assms that index_of_by_name [of n "raw_joint_names seg" row] by (auto simp: segment_ok_def list_all_iff)
  then show ?thesis by (simp add: segment_rows_def rows_by_name_def reorder_row_def)
qed

lemma segment_ok_wf:
  assumes ok: "segment_ok expected seg"
  shows "segment_wf expected seg"
proof -
  have fin: "isfinite (row ! i)" if row: "row \<in> set (raw_positions seg)" and i: "i < length row" for row i
  proof -
    let ?names = "raw_joint_names seg"
    have len: "length row = length ?names" "distinct ?names" using ok row by (auto simp: segment_ok_def list_all_iff)
    then have n: "?names ! i \<in> set ?names" "?names ! i \<in> set expected"
      using i ok nth_mem [of i ?names] by (auto simp: segment_ok_def)
    have "index_of ?names (?names ! i) = i" using index_of_nth [OF n(1)] i len by (simp add: nth_eq_iff_index_eq)
    moreover have "isfinite (row ! index_of ?names (?names ! i))"
      using ok row n(2) by (auto simp: segment_ok_def reorder_row_def list_all_iff)
    ultimately show ?thesis by simp
  qed
  have "list_all isfinite row" if "row \<in> set (raw_positions seg)" for row
    unfolding list_all_length using fin [OF that] by blast
  then show ?thesis using ok by (simp add: segment_ok_def segment_wf_def list_all_iff)
qed

lemma close_to_max_error:
  assumes "max_error a b \<le> tolerance" and "length a = length b"
  shows "close_to tolerance a b"
  unfolding close_to_def list_all2_conv_all_nth
proof (intro conjI allI impI)
  fix i assume "i < length a"
  then have "\<bar>the_fin (a ! i) - the_fin (b ! i)\<bar> \<in> set (map2 (\<lambda>x y. \<bar>the_fin x - the_fin y\<bar>) a b)"
    using assms(2) by (auto simp: in_set_zip intro!: image_eqI [where x = "(a ! i, b ! i)"] exI [of _ i])
  then have "\<bar>the_fin (a ! i) - the_fin (b ! i)\<bar> \<le> max_error a b" unfolding max_error_def by (intro Max_ge) auto
  then show "\<bar>the_fin (a ! i) - the_fin (b ! i)\<bar> \<le> tolerance" using assms(1) by linarith
qed (use assms(2) in simp)

text \<open>The trajectory three segments should become.\<close>

definition assembled ::
  "string list \<Rightarrow> real \<Rightarrow> pyfloat list \<Rightarrow> RawTrajectorySegment \<Rightarrow> RawTrajectorySegment \<Rightarrow> RawTrajectorySegment
     \<Rightarrow> PlacementTrajectoryContract \<Rightarrow> bool" where
  "assembled expected tolerance start t a r c \<longleftrightarrow>
     list_all (segment_wf expected) [t, a, r]
     \<and> close_to tolerance (hd (rows_by_name expected t)) start
     \<and> close_to tolerance (hd (rows_by_name expected a)) (last (rows_by_name expected t))
     \<and> close_to tolerance (hd (rows_by_name expected r)) (last (rows_by_name expected a))
     \<and> ptc_joint_names c = expected
     \<and> map way_positions (ptc_points c) = rows_by_name expected t @ tl (rows_by_name expected a) @ tl (rows_by_name expected r)
     \<and> map way_phase (ptc_points c) =
         replicate (length (raw_positions t)) ''transit'' @ replicate (length (raw_positions a) - 1) ''approach''
           @ replicate (length (raw_positions r) - 1) ''retreat''
     \<and> ptc_phase_starts c =
         [(''transit'', 0), (''approach'', int (length (raw_positions t))),
          (''retreat'', int (length (raw_positions t)) + int (length (raw_positions a)) - 1)]
     \<and> times_of (ptc_points c) =
         segment_times 0 t @ tl (segment_times (segment_duration t) a)
           @ tl (segment_times (segment_duration t + segment_duration a) r)
     \<and> sorted_wrt (<) (times_of (ptc_points c)) \<and> hd (times_of (ptc_points c)) = 0"

lemma joins_assembled:
  assumes "joins expected tolerance start t a r c" and "length start = length expected"
  shows "assembled expected tolerance start t a r c"
proof -
  have ok: "segment_ok expected t" "segment_ok expected a" "segment_ok expected r" using assms(1) by (simp_all add: joins_def)
  note rows = segment_rows_by_name [OF ok(1)] segment_rows_by_name [OF ok(2)] segment_rows_by_name [OF ok(3)]
  have ne: "rows_by_name expected seg \<noteq> []" if "segment_ok expected seg" for seg
    using that by (auto simp: segment_ok_def rows_by_name_def)
  have "length row = length expected" if "row \<in> set (rows_by_name expected seg)" for seg row
    using that by (auto simp: rows_by_name_def)
  then have len: "length (hd (rows_by_name expected seg)) = length expected" "length (last (rows_by_name expected seg)) = length expected"
    if "segment_ok expected seg" for seg
    using ne [OF that] hd_in_set last_in_set by blast+
  have wf: "list_all (segment_wf expected) [t, a, r]" using ok segment_ok_wf by simp
  show ?thesis
    using assms len [OF ok(1)] len [OF ok(2)] len [OF ok(3)]
    unfolding joins_def assembled_def rows by (intro conjI wf close_to_max_error) auto
qed

text \<open>C37: A trajectory the placement node joins passes the checks of its contract and is exactly the three planner segments,
  every joint found by its name and put in the configured order: transit whole, approach and retreat without their
  first row, each phase index at the first row of its phase, every joint within the tolerance at each seam, and a
  clock that starts at zero, only goes up and keeps the time between the rows of each segment.\<close>

theorem joined_trajectory_is_its_segments:
  assumes "combine_trajectory_segments goal frame expected start segs tolerance = Inr c"
  shows "\<exists>t a r. segs = [t, a, r] \<and> assembled expected (the_fin tolerance) start t a r c \<and> contract_post_init c = Inr ()"
proof -
  from assms have ph: "map raw_phase segs = valid_phases" and start: "length start = length expected"
    by (auto simp: combine_trajectory_segments_def finite_vector_def Let_def)
  then obtain t a r where segs: "segs = [t, a, r]" using three_segments by blast
  from assms obtain j where j: "join_segments expected (the_fin tolerance) segs
         \<lparr> join_points = [], join_starts = [], join_time = 0, join_previous = start \<rparr> = Inr j"
      and c: "c = \<lparr> ptc_goal_id = goal, ptc_frame_id = frame, ptc_joint_names = expected, ptc_points = join_points j,
                ptc_phase_starts = join_starts j \<rparr>" "contract_post_init c = Inr ()"
    by (auto simp: combine_trajectory_segments_def Let_def)
  show ?thesis using joined_three [OF ph [unfolded segs] j [unfolded segs]] joins_assembled [OF _ start] segs c by auto
qed

definition sample_segment :: "string \<Rightarrow> real \<Rightarrow> real \<Rightarrow> RawTrajectorySegment" where
  "sample_segment phase x y =
     \<lparr> raw_phase = phase, raw_joint_names = [''b'', ''a''], raw_positions = [[Fin 0, Fin x], [Fin 0, Fin y]],
       raw_times_s = [Fin 0, Fin 1] \<rparr>"

definition sample_segments :: "RawTrajectorySegment list" where
  "sample_segments = [sample_segment ''transit'' 0 1, sample_segment ''approach'' 1 2, sample_segment ''retreat'' 2 0]"

lemma max_error_pair: "max_error [Fin a, Fin b] [Fin x, Fin y] = max \<bar>a - x\<bar> \<bar>b - y\<bar>"
  by (simp add: max_error_def)

lemmas sample_join =
  combine_trajectory_segments_def sample_segments_def sample_segment_def valid_phases_def finite_vector_def raise_if_def
  join_segment_def check_segment_def segment_points_def reorder_row_def index_of_def Let_def max_error_pair
  contract_post_init_def dict_of_def upt_rec zero_pyfloat_def

lemma sample_joined:
  "is_ok (combine_trajectory_segments ''g'' ''f'' [''a'', ''b''] [Fin 0, Fin 0] sample_segments (Fin (1 / 10)))"
  by (simp add: sample_join insert_commute)

theorem joined_trajectory_is_its_segments_witness:
  "\<exists>c. combine_trajectory_segments ''g'' ''f'' [''a'', ''b''] [Fin 0, Fin 0] sample_segments (Fin (1 / 10)) = Inr c
     \<and> map way_positions (ptc_points c) = [[Fin 0, Fin 0], [Fin 1, Fin 0], [Fin 2, Fin 0], [Fin 0, Fin 0]]
     \<and> times_of (ptc_points c) = [0, 1, 2, 3] \<and> contract_post_init c = Inr ()"
proof -
  from sample_joined obtain c where
    c: "combine_trajectory_segments ''g'' ''f'' [''a'', ''b''] [Fin 0, Fin 0] sample_segments (Fin (1 / 10)) = Inr c"
    by (auto simp: is_ok_iff)
  show ?thesis using c joined_trajectory_is_its_segments [OF c]
    by (auto simp: assembled_def sample_segments_def sample_segment_def segment_duration_def rows_by_name_def segment_times_def)
qed

text \<open>In exact arithmetic the constructor's checks never refuse what the loop accepted: with a goal and a frame the
  join succeeds exactly when every segment passes its own audit.\<close>

theorem accepted_segments_make_a_contract:
  assumes "expected \<noteq> []" "distinct expected" "goal \<noteq> []" "frame \<noteq> []" and "0 < tolerance"
    and "finite_vector start (length expected) ''trajectory start'' = Inr ()" and "map raw_phase segs = valid_phases"
  shows "is_ok (combine_trajectory_segments goal frame expected start segs (Fin tolerance))
    \<longleftrightarrow> is_ok (join_segments expected tolerance segs
                \<lparr> join_points = [], join_starts = [], join_time = 0, join_previous = start \<rparr>)" (is "?l \<longleftrightarrow> is_ok ?r")
proof -
  have c: "combine_trajectory_segments goal frame expected start segs (Fin tolerance) =
      rbind ?r (\<lambda>j. let c = \<lparr> ptc_goal_id = goal, ptc_frame_id = frame, ptc_joint_names = expected, ptc_points = join_points j,
                ptc_phase_starts = join_starts j \<rparr> in rbind (contract_post_init c) (\<lambda>_. Inr c))"
    using assms by (simp add: combine_trajectory_segments_def raise_if_def)
  show ?thesis
  proof (cases ?r)
    case (Inr j)
    from three_segments [OF assms(7)] obtain t a r where segs: "segs = [t, a, r]" by blast
    define c0 where "c0 = \<lparr> ptc_goal_id = goal, ptc_frame_id = frame, ptc_joint_names = expected, ptc_points = join_points j,
                ptc_phase_starts = join_starts j \<rparr>"
    have j: "joins expected tolerance start t a r c0 \<and> join_inv (length expected) j"
      unfolding c0_def by (rule joined_three [OF assms(7) [unfolded segs] Inr [unfolded segs]])
    have "contract_post_init c0 = Inr ()"
      by (rule joined_contract [OF assms(1-4) conjunct1 [OF j] conjunct2 [OF j] c0_def])
    then show ?thesis by (simp add: c Inr c0_def [symmetric] Let_def)
  qed (simp add: c)
qed

theorem accepted_segments_make_a_contract_witness:
  "is_ok (join_segments [''a'', ''b''] (1 / 10) sample_segments
     \<lparr> join_points = [], join_starts = [], join_time = 0, join_previous = [Fin 0, Fin 0] \<rparr>)"
  using accepted_segments_make_a_contract
      [of "[''a'', ''b'']" "''g''" "''f''" "1 / 10" "[Fin 0, Fin 0]" sample_segments] sample_joined
  by (simp add: finite_vector_def raise_if_def sample_segments_def sample_segment_def valid_phases_def)

end
