(* ===== verification/Post_Release.thy ===== *)
theory Post_Release
  imports Json_Text
begin

text \<open>
  The evidence that a released object stands where it was planned, from the placement node to the task.

  \<open>PostReleaseVerificationResult\<close> of \<open>src/ros2/z_manip_place/z_manip_place/core.py\<close> is the terminal result with the checks of its
  constructor and its payload; \<open>src/ros2/z_manip_task/z_manip_task/post_release_verification.py\<close> is the task's strict
  reader, with its policy. The conversion of a decoded value to a NumPy array (its shape and its elements, or the
  exception) is an argument. A configured number is a finite float; the position a JSON syntax error reports is left out
  of its message.
\<close>

section \<open>Checks on arrays\<close>

text \<open>\<open>np.isclose\<close> of one element, with the relative tolerance 1e-5 of NumPy.\<close>

definition np_close :: "real \<Rightarrow> real \<Rightarrow> real \<Rightarrow> bool" where
  "np_close atol a b = (\<bar>a - b\<bar> \<le> atol + 1 / 10 ^ 5 * \<bar>b\<bar>)"

text \<open>A 4x4 array as its sixteen elements in row-major order.\<close>

definition rotation_entry :: "real list \<Rightarrow> nat \<Rightarrow> nat \<Rightarrow> real" where
  "rotation_entry d i j = d ! (4 * i + j)"

definition homogeneous_last_row :: "real list \<Rightarrow> bool" where
  "homogeneous_last_row d = list_all2 (np_close (1 / 10 ^ 7)) (drop 12 d) [0, 0, 0, 1]"

definition orthonormal :: "real list \<Rightarrow> bool" where
  "orthonormal d =
     list_all (\<lambda>i. list_all (\<lambda>j.
       np_close (1 / 10 ^ 5)
         (sum_list (map (\<lambda>k. rotation_entry d k i * rotation_entry d k j) [0, 1, 2])) (if i = j then 1 else 0))
       [0, 1, 2]) [0, 1, 2]"

definition rotation_det :: "real list \<Rightarrow> real" where
  "rotation_det d =
     (let r = rotation_entry d in
      r 0 0 * (r 1 1 * r 2 2 - r 1 2 * r 2 1) - r 0 1 * (r 1 0 * r 2 2 - r 1 2 * r 2 0)
      + r 0 2 * (r 1 0 * r 2 1 - r 1 1 * r 2 0))"

section \<open>The placement node's result\<close>

definition POST_RELEASE_VERIFICATION_SCHEMA :: string where
  "POST_RELEASE_VERIFICATION_SCHEMA = ''z_manip.post_release_verification.v2''"

definition POST_RELEASE_VERIFICATION_RESULT :: string where
  "POST_RELEASE_VERIFICATION_RESULT = ''post_release_target_stable_in_region''"

definition POST_RELEASE_FAILURE_RESULT :: string where
  "POST_RELEASE_FAILURE_RESULT = ''post_release_verification_failed''"

definition POST_RELEASE_OBSERVATION_SOURCE :: string where
  "POST_RELEASE_OBSERVATION_SOURCE = ''synchronized_rgbd_pointcloud''"

record ObservedPerceptionIdentity =
  opi_request_id :: string
  opi_producer_epoch :: string
  opi_generation :: int
  opi_stamp_ns :: int
  opi_frame_id :: string

definition observed_identity_post_init :: "ObservedPerceptionIdentity \<Rightarrow> unit res" where
  "observed_identity_post_init i =
     raise_if (list_ex (\<lambda>s. py_strip s = []) [opi_request_id i, opi_producer_epoch i, opi_frame_id i])
       (PlacementContractError ''perception identity strings must be non-empty'')
     (raise_if (256 < length (opi_request_id i) \<or> 128 < length (opi_producer_epoch i) \<or> 256 < length (opi_frame_id i))
       (PlacementContractError ''perception identity string is too long'')
     (raise_if (\<not> (0 < opi_generation i \<and> opi_generation i < 2 ^ 63))
       (PlacementContractError ''perception generation must be positive'')
     (raise_if (\<not> (0 < opi_stamp_ns i \<and> opi_stamp_ns i < 2 ^ 63))
       (PlacementContractError ''perception observation must be a positive integer ns stamp'') (Inr ()))))"

record PostReleaseVerificationResult =
  pr_state :: string
  pr_result :: string
  pr_failure :: string
  pr_goal_id :: string
  pr_identity :: ObservedPerceptionIdentity
  pr_release_command_id :: int
  pr_release_ack_stamp_ns :: int
  pr_observation_start_stamp_ns :: int
  pr_first_observation_stamp_ns :: int
  pr_last_observation_stamp_ns :: int
  pr_first_rgb_stamp_ns :: int
  pr_first_depth_stamp_ns :: int
  pr_first_target_stamp_ns :: int
  pr_last_rgb_stamp_ns :: int
  pr_last_depth_stamp_ns :: int
  pr_last_target_stamp_ns :: int
  pr_last_joint_stamp_ns :: int
  pr_last_execution_received_ns :: int
  pr_sample_count :: int
  pr_target_point_count :: int
  pr_stable_duration_s :: pyfloat
  pr_max_target_motion_m :: pyfloat
  pr_region_support_fraction :: pyfloat
  pr_gripper_clearance_m :: pyfloat
  pr_depth_correspondence_m :: pyfloat
  pr_position_error_m :: pyfloat
  pr_orientation_error_rad :: pyfloat
  pr_upright_error_rad :: pyfloat
  pr_registration_inlier_fraction :: pyfloat
  pr_registration_rms_m :: pyfloat
  pr_orientation_mode :: string
  pr_planned_object_pose :: "pyfloat list list"
  pr_observed_object_center_m :: "pyfloat list"
  pr_rejected_sample_count :: int
  pr_rejected_sample_reasons :: "string list"
  pr_geometry_frame_id :: string

definition finite_transform :: "pyfloat list list \<Rightarrow> string \<Rightarrow> unit res" where
  "finite_transform T label =
     raise_if (\<not> (length T = 4 \<and> list_all (\<lambda>r. length r = 4 \<and> list_all isfinite r) T))
       (PlacementContractError (label @ '' must be a finite 4x4 transform''))
     (let d = map the_fin (concat T) in
      raise_if (\<not> homogeneous_last_row d) (PlacementContractError (label @ '' has an invalid homogeneous row''))
      (raise_if (\<not> orthonormal d) (PlacementContractError (label @ '' rotation is not orthonormal''))
      (raise_if (rotation_det d < 999 / 1000)
        (PlacementContractError (label @ '' rotation is not right handed'')) (Inr ()))))"

definition terminal_metrics :: "PostReleaseVerificationResult \<Rightarrow> pyfloat list" where
  "terminal_metrics r =
     [pr_stable_duration_s r, pr_max_target_motion_m r, pr_region_support_fraction r, pr_gripper_clearance_m r,
      pr_depth_correspondence_m r, pr_position_error_m r, pr_orientation_error_rad r, pr_upright_error_rad r,
      pr_registration_inlier_fraction r, pr_registration_rms_m r]"

definition terminal_counts :: "PostReleaseVerificationResult \<Rightarrow> int list" where
  "terminal_counts r =
     [pr_first_observation_stamp_ns r, pr_last_observation_stamp_ns r, pr_first_rgb_stamp_ns r, pr_first_depth_stamp_ns r,
      pr_first_target_stamp_ns r, pr_last_rgb_stamp_ns r, pr_last_depth_stamp_ns r, pr_last_target_stamp_ns r,
      pr_last_joint_stamp_ns r, pr_last_execution_received_ns r, pr_sample_count r, pr_target_point_count r,
      pr_rejected_sample_count r]"

definition terminal_result_post_init :: "PostReleaseVerificationResult \<Rightarrow> unit res" where
  "terminal_result_post_init r =
     raise_if (pr_state r \<notin> {''verified'', ''failed''}) (PlacementContractError ''terminal verification state is invalid'')
     (raise_if (pr_result r \<noteq> (if pr_state r = ''verified'' then POST_RELEASE_VERIFICATION_RESULT
                               else POST_RELEASE_FAILURE_RESULT))
       (PlacementContractError ''terminal verification result is inconsistent'')
     (raise_if (py_strip (pr_goal_id r) = [] \<or> py_strip (pr_geometry_frame_id r) = [])
       (PlacementContractError ''terminal verification identity is empty'')
     (raise_if (pr_state r = ''verified'' \<and> pr_failure r \<noteq> [])
       (PlacementContractError ''verified terminal result cannot carry a failure'')
     (raise_if (pr_state r = ''failed'' \<and> py_strip (pr_failure r) = [])
       (PlacementContractError ''failed terminal result requires a failure'')
     (raise_if (list_ex (\<lambda>i. i \<le> 0)
         [pr_release_command_id r, pr_release_ack_stamp_ns r, pr_observation_start_stamp_ns r])
       (PlacementContractError ''terminal release identity is malformed'')
     (raise_if (list_ex (\<lambda>i. i < 0) (terminal_counts r))
       (PlacementContractError ''terminal counts or stamps are malformed'')
     (raise_if (list_ex (\<lambda>x. \<not> isfinite x \<or> x < 0) (terminal_metrics r))
       (PlacementContractError ''terminal metrics must be finite and nonnegative'')
     (raise_if (Fin 1 < pr_region_support_fraction r \<or> Fin 1 < pr_registration_inlier_fraction r)
       (PlacementContractError ''terminal fractions cannot exceed one'')
     (raise_if (pr_orientation_mode r \<notin> {''full'', ''axial''})
       (PlacementContractError ''terminal orientation mode is invalid'')
     (rbind (finite_transform (pr_planned_object_pose r) ''terminal planned object pose'') (\<lambda>_.
      raise_if (\<not> (length (pr_observed_object_center_m r) = 3 \<and> list_all isfinite (pr_observed_object_center_m r)))
        (PlacementContractError ''terminal observed object center must be a finite 3-vector'') (Inr ()))))))))))))"

definition to_payload :: "PostReleaseVerificationResult \<Rightarrow> (string \<times> json) list" where
  "to_payload r =
     [(''schema'', JStr POST_RELEASE_VERIFICATION_SCHEMA), (''state'', JStr (pr_state r)), (''result'', JStr (pr_result r)),
      (''failure'', JStr (pr_failure r)), (''observation_source'', JStr POST_RELEASE_OBSERVATION_SOURCE),
      (''goal_id'', JStr (pr_goal_id r)), (''place_goal_id'', JStr (pr_goal_id r)),
      (''release_gripper_command_id'', JInt (pr_release_command_id r)),
      (''request_id'', JStr (opi_request_id (pr_identity r))),
      (''producer_epoch'', JStr (opi_producer_epoch (pr_identity r))),
      (''generation'', JInt (opi_generation (pr_identity r))), (''frame_id'', JStr (opi_frame_id (pr_identity r))),
      (''geometry_frame_id'', JStr (pr_geometry_frame_id r)),
      (''planning_observation_stamp_ns'', JInt (opi_stamp_ns (pr_identity r))),
      (''release_ack_stamp_ns'', JInt (pr_release_ack_stamp_ns r)),
      (''observation_start_stamp_ns'', JInt (pr_observation_start_stamp_ns r)),
      (''first_observation_stamp_ns'', JInt (pr_first_observation_stamp_ns r)),
      (''last_observation_stamp_ns'', JInt (pr_last_observation_stamp_ns r)),
      (''first_status_stamp_ns'', JInt (pr_first_observation_stamp_ns r)),
      (''last_status_stamp_ns'', JInt (pr_last_observation_stamp_ns r)),
      (''first_rgb_stamp_ns'', JInt (pr_first_rgb_stamp_ns r)), (''first_depth_stamp_ns'', JInt (pr_first_depth_stamp_ns r)),
      (''first_target_stamp_ns'', JInt (pr_first_target_stamp_ns r)), (''last_rgb_stamp_ns'', JInt (pr_last_rgb_stamp_ns r)),
      (''last_depth_stamp_ns'', JInt (pr_last_depth_stamp_ns r)), (''last_target_stamp_ns'', JInt (pr_last_target_stamp_ns r)),
      (''last_joint_stamp_ns'', JInt (pr_last_joint_stamp_ns r)),
      (''last_execution_status_received_ns'', JInt (pr_last_execution_received_ns r)),
      (''sample_count'', JInt (pr_sample_count r)), (''target_point_count'', JInt (pr_target_point_count r)),
      (''stable_duration_s'', JFloat (pr_stable_duration_s r)), (''max_target_motion_m'', JFloat (pr_max_target_motion_m r)),
      (''region_support_fraction'', JFloat (pr_region_support_fraction r)),
      (''target_gripper_clearance_m'', JFloat (pr_gripper_clearance_m r)),
      (''target_depth_correspondence_max_error_m'', JFloat (pr_depth_correspondence_m r)),
      (''object_position_error_m'', JFloat (pr_position_error_m r)),
      (''object_orientation_error_rad'', JFloat (pr_orientation_error_rad r)),
      (''object_upright_error_rad'', JFloat (pr_upright_error_rad r)),
      (''object_registration_inlier_fraction'', JFloat (pr_registration_inlier_fraction r)),
      (''object_registration_rms_m'', JFloat (pr_registration_rms_m r)),
      (''object_orientation_mode'', JStr (pr_orientation_mode r)),
      (''planned_object_pose'', JArr (map (\<lambda>row. JArr (map JFloat row)) (pr_planned_object_pose r))),
      (''observed_object_center_m'', JArr (map JFloat (pr_observed_object_center_m r))),
      (''rejected_sample_count'', JInt (pr_rejected_sample_count r)),
      (''rejected_sample_reasons'', JArr (map JStr (pr_rejected_sample_reasons r)))]"

section \<open>The task's expectation and policy\<close>

abbreviation pr_error :: "string \<Rightarrow> exn" where
  "pr_error \<equiv> PostReleaseVerificationError"

definition pr_int :: "(int \<Rightarrow> bool) \<Rightarrow> string \<Rightarrow> json \<Rightarrow> int res" where
  "pr_int P why v = (case v of JInt i \<Rightarrow> raise_if (\<not> P i) (pr_error why) (Inr i) | _ \<Rightarrow> Inl (pr_error why))"

definition positive_int :: "json \<Rightarrow> string \<Rightarrow> int res" where
  "positive_int v label = pr_int (\<lambda>i. 0 < i) (label @ '' must be a positive integer'') v"

definition nonnegative_int :: "json \<Rightarrow> string \<Rightarrow> int res" where
  "nonnegative_int v label = pr_int (\<lambda>i. 0 \<le> i) (label @ '' must be a nonnegative integer'') v"

definition finite_float :: "json \<Rightarrow> string \<Rightarrow> real res" where
  "finite_float v label =
     (if (case v of JInt _ \<Rightarrow> True | JFloat _ \<Rightarrow> True | _ \<Rightarrow> False) then
        rbind (float_value v) (\<lambda>x. case x of Fin y \<Rightarrow> Inr y | _ \<Rightarrow> Inl (pr_error (label @ '' must be finite'')))
      else Inl (pr_error (label @ '' must be numeric'')))"

definition required_string :: "(string \<times> json) list \<Rightarrow> string \<Rightarrow> string res" where
  "required_string ms key =
     (case get_or JNull ms key of
        JStr s \<Rightarrow> raise_if (py_strip s = []) (pr_error (key @ '' must be a non-empty string'')) (Inr s)
      | _ \<Rightarrow> Inl (pr_error (key @ '' must be a non-empty string'')))"

record PlacementObservationIdentity =
  poi_goal_id :: string
  poi_request_id :: string
  poi_producer_epoch :: string
  poi_generation :: int
  poi_frame_id :: string
  poi_planning_stamp_ns :: int
  poi_require_upright :: bool

definition observation_identity_post_init :: "PlacementObservationIdentity \<Rightarrow> unit res" where
  "observation_identity_post_init i =
     raise_if (py_strip (poi_goal_id i) = []) (pr_error ''goal_id must be non-empty'')
     (raise_if (py_strip (poi_request_id i) = []) (pr_error ''request_id must be non-empty'')
     (raise_if (py_strip (poi_producer_epoch i) = []) (pr_error ''producer_epoch must be non-empty'')
     (raise_if (py_strip (poi_frame_id i) = []) (pr_error ''frame_id must be non-empty'')
     (rbind (positive_int (JInt (poi_generation i)) ''generation'') (\<lambda>_.
      rbind (positive_int (JInt (poi_planning_stamp_ns i)) ''planning_observation_stamp_ns'') (\<lambda>_. Inr ()))))))"

record PostReleaseVerificationPolicy =
  pol_timeout_s :: real
  pol_wall_timeout_s :: real
  min_stable_duration_s :: real
  pol_min_samples :: int
  min_target_points :: int
  max_target_motion_m :: real
  min_region_support_fraction :: real
  min_gripper_clearance_m :: real
  max_rgbd_target_skew_s :: real
  max_joint_target_skew_s :: real
  max_target_depth_correspondence_m :: real
  max_object_position_error_m :: real
  max_object_orientation_error_rad :: real
  max_object_upright_error_rad :: real
  min_object_registration_inlier_fraction :: real
  max_object_registration_rms_m :: real

fun first_not_positive :: "(string \<times> real) list \<Rightarrow> unit res" where
  "first_not_positive [] = Inr ()"
| "first_not_positive ((label, x) # xs) =
     raise_if (x \<le> 0) (pr_error (label @ '' must be finite and positive'')) (first_not_positive xs)"

definition policy_post_init :: "PostReleaseVerificationPolicy \<Rightarrow> unit res" where
  "policy_post_init p =
     rbind (first_not_positive
       [(''timeout_s'', pol_timeout_s p), (''wall_timeout_s'', pol_wall_timeout_s p),
        (''min_stable_duration_s'', min_stable_duration_s p), (''min_gripper_clearance_m'', min_gripper_clearance_m p),
        (''max_rgbd_target_skew_s'', max_rgbd_target_skew_s p), (''max_joint_target_skew_s'', max_joint_target_skew_s p),
        (''max_target_depth_correspondence_m'', max_target_depth_correspondence_m p),
        (''max_object_position_error_m'', max_object_position_error_m p),
        (''max_object_orientation_error_rad'', max_object_orientation_error_rad p),
        (''max_object_upright_error_rad'', max_object_upright_error_rad p),
        (''max_object_registration_rms_m'', max_object_registration_rms_m p)]) (\<lambda>_.
     rbind (positive_int (JInt (pol_min_samples p)) ''min_samples'') (\<lambda>_.
     rbind (positive_int (JInt (min_target_points p)) ''min_target_points'') (\<lambda>_.
     raise_if (max_target_motion_m p < 0) (pr_error ''max_target_motion_m cannot be negative'')
     (raise_if (\<not> (0 < min_region_support_fraction p \<and> min_region_support_fraction p \<le> 1))
       (pr_error ''min_region_support_fraction must be in (0, 1]'')
     (raise_if (\<not> (0 < min_object_registration_inlier_fraction p \<and> min_object_registration_inlier_fraction p \<le> 1))
       (pr_error ''min_object_registration_inlier_fraction must be in (0, 1]'')
     (raise_if (pol_timeout_s p \<le> min_stable_duration_s p)
       (pr_error ''timeout_s must exceed the required stable duration'') (Inr ())))))))"

definition validate_place_trajectory_perception_identity ::
  "json \<Rightarrow> PlacementObservationIdentity \<Rightarrow> unit res" where
  "validate_place_trajectory_perception_identity contract expected =
     (case contract of
        JObj ms \<Rightarrow>
          rbind (required_string ms ''goal_id'') (\<lambda>goal.
          rbind (required_string ms ''request_id'') (\<lambda>request.
          rbind (required_string ms ''producer_epoch'') (\<lambda>epoch.
          rbind (positive_int (get_or JNull ms ''generation'') ''generation'') (\<lambda>gen.
          rbind (positive_int (get_or JNull ms ''observation_stamp_ns'') ''observation_stamp_ns'') (\<lambda>stamp.
          rbind (required_string ms ''observation_frame_id'') (\<lambda>frame.
          raise_if ((goal, request, epoch, gen, stamp, frame)
              \<noteq> (poi_goal_id expected, poi_request_id expected, poi_producer_epoch expected, poi_generation expected,
                 poi_planning_stamp_ns expected, poi_frame_id expected))
            (pr_error ''placement trajectory perception identity mismatch'') (Inr ())))))))
      | _ \<Rightarrow> Inl (pr_error ''placement trajectory contract must be an object''))"

section \<open>The task's reader\<close>

record PostReleaseVerificationEvidence =
  ev_verified :: bool
  ev_failure :: string
  ev_goal_id :: string
  ev_release_command_id :: int
  ev_request_id :: string
  ev_producer_epoch :: string
  ev_generation :: int
  ev_frame_id :: string
  ev_planning_stamp_ns :: int
  ev_release_ack_stamp_ns :: int
  ev_observation_start_stamp_ns :: int
  ev_first_observation_stamp_ns :: int
  ev_last_observation_stamp_ns :: int
  ev_sample_count :: int
  ev_target_point_count :: int
  ev_stable_duration_s :: real
  ev_max_target_motion_m :: real
  ev_region_support_fraction :: real
  ev_gripper_clearance_m :: real
  ev_depth_correspondence_m :: real
  ev_position_error_m :: real
  ev_orientation_error_rad :: real
  ev_upright_error_rad :: real
  ev_registration_inlier_fraction :: real
  ev_registration_rms_m :: real
  ev_orientation_mode :: string
  ev_planned_object_pose :: "real list"
  ev_observed_object_center_m :: "real list"
  ev_payload :: "(string \<times> json) list"

definition POST_RELEASE_V2_FIELDS :: "string list" where
  "POST_RELEASE_V2_FIELDS =
     [''schema'', ''state'', ''result'', ''failure'', ''observation_source'', ''goal_id'', ''place_goal_id'',
      ''release_gripper_command_id'', ''request_id'', ''producer_epoch'', ''generation'', ''frame_id'', ''geometry_frame_id'',
      ''planning_observation_stamp_ns'', ''release_ack_stamp_ns'', ''observation_start_stamp_ns'',
      ''first_observation_stamp_ns'', ''last_observation_stamp_ns'', ''first_status_stamp_ns'', ''last_status_stamp_ns'',
      ''first_rgb_stamp_ns'', ''first_depth_stamp_ns'', ''first_target_stamp_ns'', ''last_rgb_stamp_ns'',
      ''last_depth_stamp_ns'', ''last_target_stamp_ns'', ''last_joint_stamp_ns'', ''last_execution_status_received_ns'',
      ''sample_count'', ''target_point_count'', ''stable_duration_s'', ''max_target_motion_m'', ''region_support_fraction'',
      ''target_gripper_clearance_m'', ''target_depth_correspondence_max_error_m'', ''object_position_error_m'',
      ''object_orientation_error_rad'', ''object_upright_error_rad'', ''object_registration_inlier_fraction'',
      ''object_registration_rms_m'', ''object_orientation_mode'', ''planned_object_pose'', ''observed_object_center_m'',
      ''rejected_sample_count'', ''rejected_sample_reasons'']"

text \<open>\<open>try: np.asarray(value, dtype=float) except (TypeError, ValueError)\<close>.\<close>

definition read_array ::
  "(json \<Rightarrow> (nat list \<times> pyfloat list) res) \<Rightarrow> json \<Rightarrow> string \<Rightarrow> (nat list \<times> pyfloat list) res" where
  "read_array asarray v label =
     (case asarray v of
        Inl (TypeError _) \<Rightarrow> Inl (pr_error (label @ '' must be numeric''))
      | Inl (ValueError _) \<Rightarrow> Inl (pr_error (label @ '' must be numeric''))
      | r \<Rightarrow> r)"

definition proper_transform ::
  "(json \<Rightarrow> (nat list \<times> pyfloat list) res) \<Rightarrow> json \<Rightarrow> string \<Rightarrow> real list res" where
  "proper_transform asarray v label =
     rbind (read_array asarray v label) (\<lambda>(shape, d).
     raise_if (shape \<noteq> [4, 4] \<or> length d \<noteq> 16 \<or> \<not> list_all isfinite d) (pr_error (label @ '' must be a finite 4x4 matrix''))
     (let m = map the_fin d in
      raise_if (\<not> homogeneous_last_row m) (pr_error (label @ '' homogeneous row is invalid''))
      (raise_if (\<not> orthonormal m \<or> \<not> np_close (1 / 10 ^ 5) (rotation_det m) 1)
        (pr_error (label @ '' rotation is not proper SE(3)'')) (Inr m))))"

definition finite_three_vector ::
  "(json \<Rightarrow> (nat list \<times> pyfloat list) res) \<Rightarrow> json \<Rightarrow> string \<Rightarrow> real list res" where
  "finite_three_vector asarray v label =
     rbind (read_array asarray v label) (\<lambda>(shape, d).
     raise_if (shape \<noteq> [3] \<or> length d \<noteq> 3 \<or> \<not> list_all isfinite d) (pr_error (label @ '' must be a finite three-vector''))
       (Inr (map the_fin d)))"

definition nonnegative_metric :: "(string \<times> json) list \<Rightarrow> string \<Rightarrow> real res" where
  "nonnegative_metric ms key =
     rbind (finite_float (get_or JNull ms key) key) (\<lambda>x.
     raise_if (x < 0) (pr_error (key @ '' cannot be negative'')) (Inr x))"

text \<open>Reading several keys in order, stopping at the first exception.\<close>

fun read_keys :: "(string \<Rightarrow> 'a res) \<Rightarrow> string list \<Rightarrow> 'a list res" where
  "read_keys f [] = Inr []"
| "read_keys f (k # ks) = rbind (f k) (\<lambda>x. rbind (read_keys f ks) (\<lambda>xs. Inr (x # xs)))"

definition timestamp_keys :: "string list" where
  "timestamp_keys =
     [''first_observation_stamp_ns'', ''last_observation_stamp_ns'', ''first_status_stamp_ns'', ''last_status_stamp_ns'',
      ''first_rgb_stamp_ns'', ''first_depth_stamp_ns'', ''first_target_stamp_ns'', ''last_rgb_stamp_ns'',
      ''last_depth_stamp_ns'', ''last_target_stamp_ns'', ''last_joint_stamp_ns'', ''last_execution_status_received_ns'']"

definition metric_keys :: "string list" where
  "metric_keys =
     [''stable_duration_s'', ''max_target_motion_m'', ''region_support_fraction'', ''target_gripper_clearance_m'',
      ''target_depth_correspondence_max_error_m'', ''object_position_error_m'', ''object_orientation_error_rad'',
      ''object_upright_error_rad'', ''object_registration_inlier_fraction'', ''object_registration_rms_m'']"

fun rejection_list_ok :: "json \<Rightarrow> int \<Rightarrow> bool" where
  "rejection_list_ok (JArr rs) count =
     (list_all (\<lambda>v. case v of JStr s \<Rightarrow> s \<noteq> [] | _ \<Rightarrow> False) rs \<and> int (length rs) \<le> count)"
| "rejection_list_ok _ count = False"

text \<open>The fields of the message that name its owner, as the tuple the code compares.\<close>

record ObservedOwner =
  own_goal :: string
  own_place_goal :: string
  own_request :: string
  own_epoch :: string
  own_generation :: int
  own_frame :: string
  own_planning_stamp :: int
  own_release :: int

definition read_owner :: "(string \<times> json) list \<Rightarrow> ObservedOwner res" where
  "read_owner ms =
     rbind (required_string ms ''goal_id'') (\<lambda>goal.
     rbind (required_string ms ''place_goal_id'') (\<lambda>place_goal.
     rbind (required_string ms ''request_id'') (\<lambda>request.
     rbind (required_string ms ''producer_epoch'') (\<lambda>epoch.
     rbind (required_string ms ''frame_id'') (\<lambda>frame.
     rbind (required_string ms ''geometry_frame_id'') (\<lambda>_.
     rbind (positive_int (get_or JNull ms ''generation'') ''generation'') (\<lambda>gen.
     rbind (nonnegative_int (get_or JNull ms ''release_gripper_command_id'') ''release_gripper_command_id'') (\<lambda>release.
     rbind (positive_int (get_or JNull ms ''planning_observation_stamp_ns'') ''planning_observation_stamp_ns'') (\<lambda>stamp.
     Inr \<lparr> own_goal = goal, own_place_goal = place_goal, own_request = request, own_epoch = epoch, own_generation = gen,
           own_frame = frame, own_planning_stamp = stamp, own_release = release \<rparr>)))))))))"

definition expected_owner :: "PlacementObservationIdentity \<Rightarrow> int \<Rightarrow> ObservedOwner" where
  "expected_owner i release =
     \<lparr> own_goal = poi_goal_id i, own_place_goal = poi_goal_id i, own_request = poi_request_id i,
       own_epoch = poi_producer_epoch i, own_generation = poi_generation i, own_frame = poi_frame_id i,
       own_planning_stamp = poi_planning_stamp_ns i, own_release = release \<rparr>"

text \<open>State, result, failure text and the two release stamps.\<close>

record TerminalHead =
  head_state :: string
  head_result :: string
  head_failure :: string
  head_release_ack :: int
  head_observation_start :: int

definition read_head :: "(string \<times> json) list \<Rightarrow> int \<Rightarrow> TerminalHead res" where
  "read_head ms planning_stamp =
     rbind (required_string ms ''state'') (\<lambda>st.
     rbind (required_string ms ''result'') (\<lambda>res.
     rbind (case get_or JNull ms ''failure'' of JStr f \<Rightarrow> Inr f
            | _ \<Rightarrow> Inl (pr_error ''post-release failure must be a string'')) (\<lambda>fail.
     rbind (positive_int (get_or JNull ms ''release_ack_stamp_ns'') ''release_ack_stamp_ns'') (\<lambda>ack.
     rbind (positive_int (get_or JNull ms ''observation_start_stamp_ns'') ''observation_start_stamp_ns'') (\<lambda>start.
     raise_if (ack \<le> planning_stamp) (pr_error ''release acknowledgement must follow the planning observation'')
     (raise_if (start < ack) (pr_error ''post-release observation window predates release acknowledgement'')
     (Inr \<lparr> head_state = st, head_result = res, head_failure = fail, head_release_ack = ack,
            head_observation_start = start \<rparr>)))))))"

text \<open>The evidence of a message before its state is judged, with the stamps only the judgement of success uses.\<close>

definition read_evidence ::
  "(json \<Rightarrow> (nat list \<times> pyfloat list) res) \<Rightarrow> (string \<times> json) list \<Rightarrow> ObservedOwner \<Rightarrow> TerminalHead
     \<Rightarrow> (PostReleaseVerificationEvidence \<times> int list) res" where
  "read_evidence asarray ms own h =
     rbind (read_keys (\<lambda>k. nonnegative_int (get_or JNull ms k) k) timestamp_keys) (\<lambda>stamps.
     rbind (nonnegative_int (get_or JNull ms ''sample_count'') ''sample_count'') (\<lambda>samples.
     rbind (nonnegative_int (get_or JNull ms ''target_point_count'') ''target_point_count'') (\<lambda>points.
     rbind (nonnegative_int (get_or JNull ms ''rejected_sample_count'') ''rejected_sample_count'') (\<lambda>rejected.
     raise_if (\<not> rejection_list_ok (get_or JNull ms ''rejected_sample_reasons'') rejected)
       (pr_error ''rejected sample diagnostics are malformed'')
     (rbind (read_keys (nonnegative_metric ms) metric_keys) (\<lambda>metrics.
      raise_if (1 < metrics ! 2 \<or> 1 < metrics ! 8) (pr_error ''post-release fractions must be in [0, 1]'')
      (rbind (required_string ms ''object_orientation_mode'') (\<lambda>mode.
       raise_if (mode \<notin> {''full'', ''axial''}) (pr_error ''object_orientation_mode is unsupported'')
       (rbind (proper_transform asarray (get_or JNull ms ''planned_object_pose'') ''planned_object_pose'') (\<lambda>pose.
        rbind (finite_three_vector asarray (get_or JNull ms ''observed_object_center_m'') ''observed_object_center_m'')
          (\<lambda>center.
        Inr (\<lparr> ev_verified = False, ev_failure = head_failure h, ev_goal_id = own_goal own,
               ev_release_command_id = own_release own, ev_request_id = own_request own, ev_producer_epoch = own_epoch own,
               ev_generation = own_generation own, ev_frame_id = own_frame own,
               ev_planning_stamp_ns = own_planning_stamp own, ev_release_ack_stamp_ns = head_release_ack h,
               ev_observation_start_stamp_ns = head_observation_start h,
               ev_first_observation_stamp_ns = stamps ! 0, ev_last_observation_stamp_ns = stamps ! 1,
               ev_sample_count = samples, ev_target_point_count = points, ev_stable_duration_s = metrics ! 0,
               ev_max_target_motion_m = metrics ! 1, ev_region_support_fraction = metrics ! 2,
               ev_gripper_clearance_m = metrics ! 3, ev_depth_correspondence_m = metrics ! 4,
               ev_position_error_m = metrics ! 5, ev_orientation_error_rad = metrics ! 6,
               ev_upright_error_rad = metrics ! 7, ev_registration_inlier_fraction = metrics ! 8,
               ev_registration_rms_m = metrics ! 9, ev_orientation_mode = mode, ev_planned_object_pose = pose,
               ev_observed_object_center_m = center, ev_payload = ms \<rparr>, stamps))))))))))))"

text \<open>The ordering and synchronization of the stamps of a success, in the order of \<open>timestamp_keys\<close>.\<close>

definition verified_stamp_keys :: "(nat \<times> string) list" where
  "verified_stamp_keys =
     [(0, ''first_observation_stamp_ns''), (1, ''last_observation_stamp_ns''), (4, ''first_rgb_stamp_ns''),
      (5, ''first_depth_stamp_ns''), (6, ''first_target_stamp_ns''), (7, ''last_rgb_stamp_ns''), (8, ''last_depth_stamp_ns''),
      (9, ''last_target_stamp_ns''), (10, ''last_joint_stamp_ns''), (11, ''last_execution_status_received_ns'')]"

definition min3 :: "int \<Rightarrow> int \<Rightarrow> int \<Rightarrow> int" where
  "min3 a b c = min a (min b c)"

definition max3 :: "int \<Rightarrow> int \<Rightarrow> int \<Rightarrow> int" where
  "max3 a b c = max a (max b c)"

definition skew_ns :: "real \<Rightarrow> int" where
  "skew_ns seconds = \<lfloor>seconds * 10 ^ 9\<rfloor>"

fun check_positive :: "int list \<Rightarrow> (nat \<times> string) list \<Rightarrow> unit res" where
  "check_positive t [] = Inr ()"
| "check_positive t ((i, key) # ks) = rbind (positive_int (JInt (t ! i)) key) (\<lambda>_. check_positive t ks)"

definition check_verified_stamps ::
  "PostReleaseVerificationPolicy \<Rightarrow> TerminalHead \<Rightarrow> int list \<Rightarrow> unit res" where
  "check_verified_stamps p h t =
     rbind (check_positive t verified_stamp_keys) (\<lambda>_.
     raise_if (t ! 0 \<le> head_observation_start h \<or> t ! 1 \<le> t ! 0 \<or> t ! 2 \<noteq> t ! 0 \<or> t ! 3 \<noteq> t ! 1)
       (pr_error ''post-release observations must strictly follow retreat'')
     (raise_if (t ! 6 \<noteq> t ! 0 \<or> t ! 9 \<noteq> t ! 1) (pr_error ''target and observation stamps must match exactly'')
     (raise_if (min3 (t ! 4) (t ! 5) (t ! 6) \<le> head_observation_start h
                \<or> skew_ns (max_rgbd_target_skew_s p) < max3 (t ! 4) (t ! 5) (t ! 6) - min3 (t ! 4) (t ! 5) (t ! 6))
       (pr_error ''first post-release RGB-D/target sample is not retreat-bounded'')
     (raise_if (skew_ns (max_rgbd_target_skew_s p) < max3 (t ! 7) (t ! 8) (t ! 9) - min3 (t ! 7) (t ! 8) (t ! 9))
       (pr_error ''post-release RGB-D/target stamps exceed the synchronization bound'')
     (raise_if (skew_ns (max_joint_target_skew_s p) < \<bar>t ! 10 - t ! 9\<bar>)
       (pr_error ''post-release arm state exceeds the synchronization bound'')
     (raise_if (t ! 11 < head_release_ack h)
       (pr_error ''post-release gripper feedback predates release'') (Inr ())))))))"

definition stamp_duration_s :: "PostReleaseVerificationEvidence \<Rightarrow> real" where
  "stamp_duration_s e = of_int (ev_last_observation_stamp_ns e - ev_first_observation_stamp_ns e) / 10 ^ 9"

definition metric_failure ::
  "PostReleaseVerificationPolicy \<Rightarrow> bool \<Rightarrow> PostReleaseVerificationEvidence \<Rightarrow> bool" where
  "metric_failure p require_upright e =
     (ev_sample_count e < pol_min_samples p \<or> ev_target_point_count e < min_target_points p
      \<or> ev_stable_duration_s e < min_stable_duration_s p \<or> stamp_duration_s e < min_stable_duration_s p
      \<or> 1 / 10 ^ 6 < \<bar>ev_stable_duration_s e - stamp_duration_s e\<bar>
      \<or> max_target_motion_m p < ev_max_target_motion_m e
      \<or> ev_region_support_fraction e < min_region_support_fraction p
      \<or> ev_gripper_clearance_m e < min_gripper_clearance_m p
      \<or> max_target_depth_correspondence_m p < ev_depth_correspondence_m e
      \<or> max_object_position_error_m p < ev_position_error_m e
      \<or> max_object_orientation_error_rad p < ev_orientation_error_rad e
      \<or> require_upright \<and> max_object_upright_error_rad p < ev_upright_error_rad e
      \<or> ev_registration_inlier_fraction e < min_object_registration_inlier_fraction p
      \<or> max_object_registration_rms_m p < ev_registration_rms_m e)"

text \<open>The judgement of an owned, well-formed message.\<close>

definition judge_evidence ::
  "PostReleaseVerificationPolicy \<Rightarrow> bool \<Rightarrow> TerminalHead \<Rightarrow> PostReleaseVerificationEvidence \<Rightarrow> int list
     \<Rightarrow> PostReleaseVerificationEvidence res" where
  "judge_evidence p require_upright h e stamps =
     (if head_state h = ''failed'' then
        raise_if (head_result h \<noteq> POST_RELEASE_FAILURE_RESULT \<or> py_strip (head_failure h) = [])
          (pr_error ''post-release failure result is malformed'') (Inr e)
      else
        raise_if (head_state h \<noteq> ''verified'' \<or> head_result h \<noteq> POST_RELEASE_VERIFICATION_RESULT \<or> head_failure h \<noteq> [])
          (pr_error ''post-release terminal state/result is invalid'')
        (rbind (check_verified_stamps p h stamps) (\<lambda>_.
         raise_if (metric_failure p require_upright e)
           (pr_error ''post-release geometric evidence does not meet task policy'')
           (Inr (e\<lparr> ev_verified := True, ev_failure := [] \<rparr>)))))"

definition parse_post_release_payload ::
  "(json \<Rightarrow> (nat list \<times> pyfloat list) res) \<Rightarrow> PlacementObservationIdentity \<Rightarrow> int \<Rightarrow> PostReleaseVerificationPolicy
     \<Rightarrow> (string \<times> json) list \<Rightarrow> PostReleaseVerificationEvidence res" where
  "parse_post_release_payload asarray expected release p ms =
     raise_if (set (map fst ms) \<noteq> set POST_RELEASE_V2_FIELDS) (pr_error ''post-release v2 fields are incomplete or unknown'')
     (raise_if (get_or JNull ms ''schema'' \<noteq> JStr POST_RELEASE_VERIFICATION_SCHEMA)
       (pr_error ''post-release schema is unsupported'')
     (raise_if (get_or JNull ms ''observation_source'' \<noteq> JStr POST_RELEASE_OBSERVATION_SOURCE)
       (pr_error ''post-release observation source is invalid'')
     (rbind (read_owner ms) (\<lambda>own.
      raise_if (own \<noteq> expected_owner expected release)
        (pr_error ''post-release goal/release/perception identity mismatch'')
      (rbind (read_head ms (own_planning_stamp own)) (\<lambda>h.
       rbind (read_evidence asarray ms own h) (\<lambda>(e, stamps).
       judge_evidence p (poi_require_upright expected) h e stamps)))))))"

text \<open>Repeated keys are refused; without a \<open>parse_constant\<close> the decoder reads NaN and the infinities as floats.\<close>

definition post_release_hooks :: json_hooks where
  "post_release_hooks =
     \<lparr> dup_key = Some (\<lambda>k. pr_error (''post-release payload repeats field '' @ py_repr k)),
       nonfinite = (\<lambda>c. Inr (if c = ''NaN'' then NaN else if c = ''Infinity'' then PosInf else NegInf)) \<rparr>"

definition parse_post_release_verification ::
  "(json \<Rightarrow> (nat list \<times> pyfloat list) res) \<Rightarrow> PlacementObservationIdentity \<Rightarrow> int \<Rightarrow> PostReleaseVerificationPolicy
     \<Rightarrow> string \<Rightarrow> PostReleaseVerificationEvidence res" where
  "parse_post_release_verification asarray expected release_id p raw =
     rbind (nonnegative_int (JInt release_id) ''expected_release_gripper_command_id'') (\<lambda>release.
     case json_loads post_release_hooks raw of
       Inl None \<Rightarrow> Inl (pr_error ''post-release payload is not valid JSON'')
     | Inl (Some e) \<Rightarrow> Inl e
     | Inr (JObj ms) \<Rightarrow> parse_post_release_payload asarray expected release p ms
     | Inr _ \<Rightarrow> Inl (pr_error ''post-release payload must be an object''))"

end
