(* ===== verification/Post_Release_Laws.thy ===== *)
theory Post_Release_Laws
  imports Post_Release
begin

text \<open>
  What the task knows when it accepts placement evidence, how a result of the placement node is read back,
  and which exceptions a malformed message raises.
\<close>

section \<open>Accepted evidence\<close>























lemma parse_text_Inr:
  assumes "parse_post_release_verification asarray expected release p raw = Inr e"
  obtains ms where "json_loads post_release_hooks raw = Inr (JObj ms)"
    "parse_post_release_payload asarray expected release p ms = Inr e"
  using assms
  by (auto simp: parse_post_release_verification_def nonnegative_int_def pr_int_def split: sum.splits option.splits json.splits)


section \<open>A sample exchange\<close>

text \<open>The reading of plain arrays of numbers, as NumPy documents it.\<close>

definition reads_float_arrays :: "(json \<Rightarrow> (nat list \<times> pyfloat list) res) \<Rightarrow> bool" where
  "reads_float_arrays asarray =
     ((\<forall>xs. asarray (JArr (map JFloat xs)) = Inr ([length xs], xs))
      \<and> (\<forall>rows n. rows \<noteq> [] \<and> (\<forall>r \<in> set rows. length r = n) \<longrightarrow>
           asarray (JArr (map (\<lambda>row. JArr (map JFloat row)) rows)) = Inr ([length rows, n], concat rows)))"

fun plain_number :: "json \<Rightarrow> pyfloat option" where
  "plain_number (JFloat x) = Some x"
| "plain_number _ = None"

fun plain_row :: "json \<Rightarrow> pyfloat list option" where
  "plain_row (JArr vs) = all_some (map plain_number vs)"
| "plain_row _ = None"

definition plain_asarray :: "json \<Rightarrow> (nat list \<times> pyfloat list) res" where
  "plain_asarray v =
     (case plain_row v of
        Some xs \<Rightarrow> Inr ([length xs], xs)
      | None \<Rightarrow>
          (case v of
             JArr vs \<Rightarrow>
               (case all_some (map plain_row vs) of
                  Some rows \<Rightarrow>
                    if rows \<noteq> [] \<and> list_all (\<lambda>r. length r = length (hd rows)) rows
                    then Inr ([length rows, length (hd rows)], concat rows)
                    else Inl (ValueError ''setting an array element with a sequence'')
                | None \<Rightarrow> Inl (ValueError ''could not convert to float''))
           | _ \<Rightarrow> Inl (TypeError ''float() argument must be a string or a real number'')))"

lemma all_some_map_Some: "(\<And>x. f (g x) = Some x) \<Longrightarrow> all_some (map f (map g xs)) = Some xs"
  by (induction xs) auto

lemma plain_asarray_reads: "reads_float_arrays plain_asarray"
proof -
  have row: "plain_row (JArr (map JFloat xs)) = Some xs" for xs
    by (simp del: map_map add: all_some_map_Some)
  have none: "plain_row (JArr (map (\<lambda>row. JArr (map JFloat row)) rows)) = None" if "rows \<noteq> []" for rows
    using that by (cases rows) auto
  have rows: "all_some (map plain_row (map (\<lambda>row. JArr (map JFloat row)) rows)) = Some rows" for rows
    by (rule all_some_map_Some) (rule row)
  show ?thesis
    unfolding reads_float_arrays_def plain_asarray_def using row none rows
    by (auto simp del: map_map plain_row.simps simp: list_all_iff neq_Nil_conv)
qed

definition sample_expected :: PlacementObservationIdentity where
  "sample_expected =
     \<lparr> poi_goal_id = ''g'', poi_request_id = ''r'', poi_producer_epoch = ''e'', poi_generation = 1, poi_frame_id = ''f'',
       poi_planning_stamp_ns = 5, poi_require_upright = True \<rparr>"

definition sample_policy :: PostReleaseVerificationPolicy where
  "sample_policy =
     \<lparr> pol_timeout_s = 2, pol_wall_timeout_s = 12, min_stable_duration_s = 1 / 2, pol_min_samples = 3, min_target_points = 24,
       max_target_motion_m = 25 / 1000, min_region_support_fraction = 8 / 10, min_gripper_clearance_m = 4 / 100,
       max_rgbd_target_skew_s = 25 / 1000, max_joint_target_skew_s = 12 / 100, max_target_depth_correspondence_m = 12 / 1000,
       max_object_position_error_m = 4 / 100, max_object_orientation_error_rad = 35 / 100,
       max_object_upright_error_rad = 26 / 100, min_object_registration_inlier_fraction = 55 / 100,
       max_object_registration_rms_m = 25 / 1000 \<rparr>"

definition sample_result :: PostReleaseVerificationResult where
  "sample_result =
     \<lparr> pr_state = ''verified'', pr_result = POST_RELEASE_VERIFICATION_RESULT, pr_failure = [], pr_goal_id = ''g'',
       pr_identity = \<lparr> opi_request_id = ''r'', opi_producer_epoch = ''e'', opi_generation = 1, opi_stamp_ns = 5,
                       opi_frame_id = ''f'' \<rparr>,
       pr_release_command_id = 7, pr_release_ack_stamp_ns = 6, pr_observation_start_stamp_ns = 8,
       pr_first_observation_stamp_ns = 9, pr_last_observation_stamp_ns = 1000000009, pr_first_rgb_stamp_ns = 9,
       pr_first_depth_stamp_ns = 9, pr_first_target_stamp_ns = 9, pr_last_rgb_stamp_ns = 1000000009,
       pr_last_depth_stamp_ns = 1000000009, pr_last_target_stamp_ns = 1000000009, pr_last_joint_stamp_ns = 1000000009,
       pr_last_execution_received_ns = 1000000009, pr_sample_count = 5, pr_target_point_count = 40,
       pr_stable_duration_s = Fin 1, pr_max_target_motion_m = Fin 0, pr_region_support_fraction = Fin 1,
       pr_gripper_clearance_m = Fin (1 / 10), pr_depth_correspondence_m = Fin 0, pr_position_error_m = Fin 0,
       pr_orientation_error_rad = Fin 0, pr_upright_error_rad = Fin 0, pr_registration_inlier_fraction = Fin 1,
       pr_registration_rms_m = Fin 0, pr_orientation_mode = ''full'',
       pr_planned_object_pose = [[Fin 1, Fin 0, Fin 0, Fin 0], [Fin 0, Fin 1, Fin 0, Fin 0], [Fin 0, Fin 0, Fin 1, Fin 0],
                                 [Fin 0, Fin 0, Fin 0, Fin 1]],
       pr_observed_object_center_m = [Fin 0, Fin 0, Fin 0], pr_rejected_sample_count = 0, pr_rejected_sample_reasons = [],
       pr_geometry_frame_id = ''base'' \<rparr>"

section \<open>Failures reach the task\<close>

text \<open>A result of the transaction the task waits for.\<close>

definition same_owner :: "PostReleaseVerificationResult \<Rightarrow> PlacementObservationIdentity \<Rightarrow> int \<Rightarrow> bool" where
  "same_owner r expected release \<longleftrightarrow>
     expected_owner expected release =
        \<lparr> own_goal = pr_goal_id r, own_place_goal = pr_goal_id r, own_request = opi_request_id (pr_identity r),
          own_epoch = opi_producer_epoch (pr_identity r), own_generation = opi_generation (pr_identity r),
          own_frame = opi_frame_id (pr_identity r), own_planning_stamp = opi_stamp_ns (pr_identity r),
          own_release = pr_release_command_id r \<rparr>"

text \<open>What the reader demands of any result and the constructor of the node does not check: the release after the
  planning observation and the window not before the release, diagnostics without empty texts and not more than the
  rejected samples, and a determinant of the planned pose within \<open>2 * 10 ^ -5\<close> of one.\<close>

definition stamps_readable :: "PostReleaseVerificationResult \<Rightarrow> bool" where
  "stamps_readable r \<longleftrightarrow>
     opi_stamp_ns (pr_identity r) < pr_release_ack_stamp_ns r \<and> pr_release_ack_stamp_ns r \<le> pr_observation_start_stamp_ns r"

definition diagnostics_readable :: "PostReleaseVerificationResult \<Rightarrow> bool" where
  "diagnostics_readable r \<longleftrightarrow>
     list_all (\<lambda>s. s \<noteq> []) (pr_rejected_sample_reasons r)
     \<and> int (length (pr_rejected_sample_reasons r)) \<le> pr_rejected_sample_count r"

definition pose_readable :: "PostReleaseVerificationResult \<Rightarrow> bool" where
  "pose_readable r \<longleftrightarrow> \<bar>rotation_det (map the_fin (concat (pr_planned_object_pose r))) - 1\<bar> \<le> 2 / 10 ^ 5"

text \<open>The values of the payload in the order of the fields.\<close>

definition payload_values :: "PostReleaseVerificationResult \<Rightarrow> json list" where
  "payload_values r =
     [JStr POST_RELEASE_VERIFICATION_SCHEMA,
      JStr (pr_state r),
      JStr (pr_result r),
      JStr (pr_failure r),
      JStr POST_RELEASE_OBSERVATION_SOURCE,
      JStr (pr_goal_id r),
      JStr (pr_goal_id r),
      JInt (pr_release_command_id r),
      JStr (opi_request_id (pr_identity r)),
      JStr (opi_producer_epoch (pr_identity r)),
      JInt (opi_generation (pr_identity r)),
      JStr (opi_frame_id (pr_identity r)),
      JStr (pr_geometry_frame_id r),
      JInt (opi_stamp_ns (pr_identity r)),
      JInt (pr_release_ack_stamp_ns r),
      JInt (pr_observation_start_stamp_ns r),
      JInt (pr_first_observation_stamp_ns r),
      JInt (pr_last_observation_stamp_ns r),
      JInt (pr_first_observation_stamp_ns r),
      JInt (pr_last_observation_stamp_ns r),
      JInt (pr_first_rgb_stamp_ns r),
      JInt (pr_first_depth_stamp_ns r),
      JInt (pr_first_target_stamp_ns r),
      JInt (pr_last_rgb_stamp_ns r),
      JInt (pr_last_depth_stamp_ns r),
      JInt (pr_last_target_stamp_ns r),
      JInt (pr_last_joint_stamp_ns r),
      JInt (pr_last_execution_received_ns r),
      JInt (pr_sample_count r),
      JInt (pr_target_point_count r),
      JFloat (pr_stable_duration_s r),
      JFloat (pr_max_target_motion_m r),
      JFloat (pr_region_support_fraction r),
      JFloat (pr_gripper_clearance_m r),
      JFloat (pr_depth_correspondence_m r),
      JFloat (pr_position_error_m r),
      JFloat (pr_orientation_error_rad r),
      JFloat (pr_upright_error_rad r),
      JFloat (pr_registration_inlier_fraction r),
      JFloat (pr_registration_rms_m r),
      JStr (pr_orientation_mode r),
      JArr (map (\<lambda>row. JArr (map JFloat row)) (pr_planned_object_pose r)),
      JArr (map JFloat (pr_observed_object_center_m r)),
      JInt (pr_rejected_sample_count r),
      JArr (map JStr (pr_rejected_sample_reasons r))]"

lemma payload_zip: "to_payload r = zip POST_RELEASE_V2_FIELDS (payload_values r)"
  by (simp add: to_payload_def POST_RELEASE_V2_FIELDS_def payload_values_def)

lemma payload_lengths: "length POST_RELEASE_V2_FIELDS = 45" "length (payload_values r) = 45"
  by (simp_all add: POST_RELEASE_V2_FIELDS_def payload_values_def)

lemma fields_distinct: "distinct POST_RELEASE_V2_FIELDS"
  by code_simp

lemma payload_known:
  assumes "i < 45"
  shows "get_or JNull (to_payload r) (POST_RELEASE_V2_FIELDS ! i) = payload_values r ! i"
proof -
  have "map_of (zip POST_RELEASE_V2_FIELDS (payload_values r)) (POST_RELEASE_V2_FIELDS ! i) = Some (payload_values r ! i)"
    using assms by (simp add: map_of_zip_nth payload_lengths fields_distinct)
  then show ?thesis by (simp add: get_or_def jget_map_of payload_zip)
qed

lemma payload_fields: "map fst (to_payload r) = POST_RELEASE_V2_FIELDS"
  by (simp add: payload_zip payload_lengths)

lemma payload_owner_members:
  "get_or JNull (to_payload r) ''goal_id'' = JStr (pr_goal_id r)"
  "get_or JNull (to_payload r) ''place_goal_id'' = JStr (pr_goal_id r)"
  "get_or JNull (to_payload r) ''request_id'' = JStr (opi_request_id (pr_identity r))"
  "get_or JNull (to_payload r) ''producer_epoch'' = JStr (opi_producer_epoch (pr_identity r))"
  "get_or JNull (to_payload r) ''frame_id'' = JStr (opi_frame_id (pr_identity r))"
  "get_or JNull (to_payload r) ''geometry_frame_id'' = JStr (pr_geometry_frame_id r)"
  "get_or JNull (to_payload r) ''generation'' = JInt (opi_generation (pr_identity r))"
  "get_or JNull (to_payload r) ''release_gripper_command_id'' = JInt (pr_release_command_id r)"
  "get_or JNull (to_payload r) ''planning_observation_stamp_ns'' = JInt (opi_stamp_ns (pr_identity r))"
  using payload_known [of 5 r] payload_known [of 6 r] payload_known [of 8 r] payload_known [of 9 r] payload_known [of 11 r] payload_known [of 12 r] payload_known [of 10 r] payload_known [of 7 r] payload_known [of 13 r]
  by (simp_all add: POST_RELEASE_V2_FIELDS_def payload_values_def)

lemma payload_head_members:
  "get_or JNull (to_payload r) ''schema'' = JStr POST_RELEASE_VERIFICATION_SCHEMA"
  "get_or JNull (to_payload r) ''observation_source'' = JStr POST_RELEASE_OBSERVATION_SOURCE"
  "get_or JNull (to_payload r) ''state'' = JStr (pr_state r)"
  "get_or JNull (to_payload r) ''result'' = JStr (pr_result r)"
  "get_or JNull (to_payload r) ''failure'' = JStr (pr_failure r)"
  "get_or JNull (to_payload r) ''release_ack_stamp_ns'' = JInt (pr_release_ack_stamp_ns r)"
  "get_or JNull (to_payload r) ''observation_start_stamp_ns'' = JInt (pr_observation_start_stamp_ns r)"
  using payload_known [of 0 r] payload_known [of 4 r] payload_known [of 1 r] payload_known [of 2 r] payload_known [of 3 r] payload_known [of 14 r] payload_known [of 15 r]
  by (simp_all add: POST_RELEASE_V2_FIELDS_def payload_values_def)

lemma payload_count_members:
  "get_or JNull (to_payload r) ''sample_count'' = JInt (pr_sample_count r)"
  "get_or JNull (to_payload r) ''target_point_count'' = JInt (pr_target_point_count r)"
  "get_or JNull (to_payload r) ''rejected_sample_count'' = JInt (pr_rejected_sample_count r)"
  "get_or JNull (to_payload r) ''rejected_sample_reasons'' = JArr (map JStr (pr_rejected_sample_reasons r))"
  using payload_known [of 28 r] payload_known [of 29 r] payload_known [of 43 r] payload_known [of 44 r]
  by (simp_all add: POST_RELEASE_V2_FIELDS_def payload_values_def)

lemma payload_metric_members:
  "get_or JNull (to_payload r) ''object_orientation_mode'' = JStr (pr_orientation_mode r)"
  "get_or JNull (to_payload r) ''planned_object_pose'' = JArr (map (\<lambda>row. JArr (map JFloat row)) (pr_planned_object_pose r))"
  "get_or JNull (to_payload r) ''observed_object_center_m'' = JArr (map JFloat (pr_observed_object_center_m r))"
  using payload_known [of 40 r] payload_known [of 41 r] payload_known [of 42 r]
  by (simp_all add: POST_RELEASE_V2_FIELDS_def payload_values_def)

lemma payload_timestamps:
  "map (get_or JNull (to_payload r)) timestamp_keys =
     map JInt [pr_first_observation_stamp_ns r, pr_last_observation_stamp_ns r, pr_first_observation_stamp_ns r,
       pr_last_observation_stamp_ns r, pr_first_rgb_stamp_ns r, pr_first_depth_stamp_ns r, pr_first_target_stamp_ns r,
       pr_last_rgb_stamp_ns r, pr_last_depth_stamp_ns r, pr_last_target_stamp_ns r, pr_last_joint_stamp_ns r,
       pr_last_execution_received_ns r]"
proof -
  have keys: "timestamp_keys = map ((!) POST_RELEASE_V2_FIELDS) [16, 17, 18, 19, 20, 21, 22, 23, 24, 25, 26, 27]"
    by (simp add: timestamp_keys_def POST_RELEASE_V2_FIELDS_def)
  show ?thesis unfolding keys by (simp add: payload_known) (simp add: payload_values_def)
qed

lemma payload_metrics: "map (get_or JNull (to_payload r)) metric_keys = map JFloat (terminal_metrics r)"
proof -
  have keys: "metric_keys = map ((!) POST_RELEASE_V2_FIELDS) [30, 31, 32, 33, 34, 35, 36, 37, 38, 39]"
    by (simp add: metric_keys_def POST_RELEASE_V2_FIELDS_def)
  show ?thesis unfolding keys by (simp add: payload_known) (simp add: payload_values_def terminal_metrics_def)
qed

lemma parse_of_payload:
  "parse_post_release_payload asarray expected release p (to_payload r) =
     rbind (read_owner (to_payload r)) (\<lambda>own.
      raise_if (own \<noteq> expected_owner expected release)
        (pr_error ''post-release goal/release/perception identity mismatch'')
      (rbind (read_head (to_payload r) (own_planning_stamp own)) (\<lambda>h.
       rbind (read_evidence asarray (to_payload r) own h) (\<lambda>(e, stamps).
       judge_evidence p (poi_require_upright expected) h e stamps))))"
  unfolding parse_post_release_payload_def payload_fields payload_head_members by (simp add: raise_if_def)


text \<open>Reading a list of members whose values are known.\<close>

lemma read_keys_known:
  assumes "map g ks = map h xs" and "\<And>k x. x \<in> set xs \<Longrightarrow> g k = h x \<Longrightarrow> f k = Inr (v x)"
  shows "read_keys f ks = Inr (map v xs)"
  using assms
proof (induction ks arbitrary: xs)
  case (Cons k ks)
  then obtain y ys where xs: "xs = y # ys" "g k = h y" "map g ks = map h ys" by (cases xs) auto
  have "f k = Inr (v y)" using Cons.prems(2) [of y k] xs by simp
  moreover have "read_keys f ks = Inr (map v ys)" using Cons.IH [OF xs(3)] Cons.prems(2) xs(1) by simp
  ultimately show ?case by (simp add: xs(1))
qed simp

lemma result_facts:
  assumes "terminal_result_post_init r = Inr ()"
  shows "\<And>x. x \<in> set (terminal_metrics r) \<Longrightarrow> isfinite x \<and> \<not> x < 0" and "\<And>i. i \<in> set (terminal_counts r) \<Longrightarrow> 0 \<le> i"
    and "0 < pr_release_command_id r" "0 < pr_release_ack_stamp_ns r" "0 < pr_observation_start_stamp_ns r"
    and "py_strip (pr_goal_id r) \<noteq> []" "py_strip (pr_geometry_frame_id r) \<noteq> []"
    and "\<not> Fin 1 < pr_region_support_fraction r" "\<not> Fin 1 < pr_registration_inlier_fraction r"
    and "pr_orientation_mode r \<in> {''full'', ''axial''}" "pr_state r \<in> {''verified'', ''failed''}"
    and "finite_transform (pr_planned_object_pose r) ''terminal planned object pose'' = Inr ()"
    and "length (pr_observed_object_center_m r) = 3" "list_all isfinite (pr_observed_object_center_m r)"
    and "pr_state r = ''failed'' \<Longrightarrow> pr_result r = POST_RELEASE_FAILURE_RESULT \<and> py_strip (pr_failure r) \<noteq> []"
  using assms unfolding terminal_result_post_init_def rbind_Inr_iff raise_if_Inr_iff
  by (auto simp: list_ex_iff not_less)

lemma payload_owner_read:
  assumes "terminal_result_post_init r = Inr ()" and "observed_identity_post_init (pr_identity r) = Inr ()"
    and "same_owner r expected release"
  shows "read_owner (to_payload r) = Inr (expected_owner expected release)"
  using assms result_facts [OF assms(1)]
  by (simp add: read_owner_def required_string_def positive_int_def nonnegative_int_def pr_int_def payload_owner_members
      raise_if_def same_owner_def observed_identity_post_init_def split: if_splits)

lemma payload_head_read:
  assumes "terminal_result_post_init r = Inr ()"
  shows "read_head (to_payload r) (opi_stamp_ns (pr_identity r)) =
    (if stamps_readable r then
       Inr \<lparr> head_state = pr_state r, head_result = pr_result r, head_failure = pr_failure r,
             head_release_ack = pr_release_ack_stamp_ns r, head_observation_start = pr_observation_start_stamp_ns r \<rparr>
     else Inl (pr_error (if pr_release_ack_stamp_ns r \<le> opi_stamp_ns (pr_identity r)
            then ''release acknowledgement must follow the planning observation''
            else ''post-release observation window predates release acknowledgement'')))"
proof -
  have "py_strip (pr_state r) \<noteq> []" "py_strip (pr_result r) \<noteq> []"
    using assms(1) by (auto simp: terminal_result_post_init_def POST_RELEASE_VERIFICATION_RESULT_def
        POST_RELEASE_FAILURE_RESULT_def py_strip_def py_space_def char_ord_def split: if_splits)
  then show ?thesis using result_facts [OF assms(1)]
    by (auto simp: read_head_def required_string_def positive_int_def pr_int_def payload_head_members raise_if_def
        stamps_readable_def not_less)
qed

lemma concat4_length: "length T = 4 \<Longrightarrow> list_all (\<lambda>r. length r = 4) T \<Longrightarrow> length (concat T) = 16"
  by (auto simp: length_Suc_conv numeral_eq_Suc)

lemma pose_read:
  assumes np: "reads_float_arrays asarray" and t: "finite_transform T l = Inr ()"
  shows "proper_transform asarray (JArr (map (\<lambda>row. JArr (map JFloat row)) T)) label =
    (if \<bar>rotation_det (map the_fin (concat T)) - 1\<bar> \<le> 2 / 10 ^ 5 then Inr (map the_fin (concat T))
     else Inl (pr_error (label @ '' rotation is not proper SE(3)'')))"
proof -
  from t have T: "length T = 4" "\<forall>r \<in> set T. length r = 4" "\<forall>r \<in> set T. list_all isfinite r"
      "homogeneous_last_row (map the_fin (concat T))" "orthonormal (map the_fin (concat T))"
    by (auto simp: finite_transform_def Let_def list_all_iff)
  from np have "T \<noteq> [] \<and> (\<forall>r \<in> set T. length r = 4) \<longrightarrow>
      asarray (JArr (map (\<lambda>row. JArr (map JFloat row)) T)) = Inr ([length T, 4], concat T)"
    unfolding reads_float_arrays_def by blast
  with T(1,2) have "asarray (JArr (map (\<lambda>row. JArr (map JFloat row)) T)) = Inr ([4, 4], concat T)"
    by auto
  moreover have "length (concat T) = 16" using T(1,2) concat4_length by (auto simp: list_all_iff)
  moreover have "list_all isfinite (concat T)" using T(3) by (auto simp: list_all_iff)
  ultimately show ?thesis using T(4,5)
    by (simp add: proper_transform_def read_array_def raise_if_def Let_def np_close_def)
qed

lemma center_read:
  assumes "reads_float_arrays asarray" and "length xs = 3" and "list_all isfinite xs"
  shows "finite_three_vector asarray (JArr (map JFloat xs)) label = Inr (map the_fin xs)"
  using assms by (simp add: reads_float_arrays_def finite_three_vector_def read_array_def raise_if_def)

lemma stamps_read:
  assumes "terminal_result_post_init r = Inr ()"
  shows "read_keys (\<lambda>k. nonnegative_int (get_or JNull (to_payload r) k) k) timestamp_keys =
    Inr [pr_first_observation_stamp_ns r, pr_last_observation_stamp_ns r, pr_first_observation_stamp_ns r,
       pr_last_observation_stamp_ns r, pr_first_rgb_stamp_ns r, pr_first_depth_stamp_ns r, pr_first_target_stamp_ns r,
       pr_last_rgb_stamp_ns r, pr_last_depth_stamp_ns r, pr_last_target_stamp_ns r, pr_last_joint_stamp_ns r,
       pr_last_execution_received_ns r]" (is "_ = Inr ?xs")
proof -
  have "read_keys (\<lambda>k. nonnegative_int (get_or JNull (to_payload r) k) k) timestamp_keys = Inr (map (\<lambda>i. i) ?xs)"
  proof (rule read_keys_known [OF payload_timestamps])
    fix k x assume x: "x \<in> set ?xs" "get_or JNull (to_payload r) k = JInt x"
    then have "x \<in> set (terminal_counts r)" by (auto simp: terminal_counts_def)
    then have "0 \<le> x" by (rule result_facts(2) [OF assms])
    then show "nonnegative_int (get_or JNull (to_payload r) k) k = Inr x"
      using x(2) by (simp add: nonnegative_int_def pr_int_def raise_if_def)
  qed
  then show ?thesis by simp
qed

lemma metrics_read:
  assumes "terminal_result_post_init r = Inr ()"
  shows "read_keys (nonnegative_metric (to_payload r)) metric_keys = Inr (map the_fin (terminal_metrics r))"
proof (rule read_keys_known [OF payload_metrics])
  fix k x assume x: "x \<in> set (terminal_metrics r)" "get_or JNull (to_payload r) k = JFloat x"
  then obtain y where "x = Fin y" "0 \<le> y" using result_facts(1) [OF assms x(1)] by (cases x) auto
  then show "nonnegative_metric (to_payload r) k = Inr (the_fin x)"
    using x(2) by (simp add: nonnegative_metric_def finite_float_def raise_if_def)
qed

text \<open>The evidence a result carries.\<close>

definition evidence_of :: "PostReleaseVerificationResult \<Rightarrow> PostReleaseVerificationEvidence" where
  "evidence_of r =
     \<lparr> ev_verified = False, ev_failure = pr_failure r, ev_goal_id = pr_goal_id r,
       ev_release_command_id = pr_release_command_id r, ev_request_id = opi_request_id (pr_identity r),
       ev_producer_epoch = opi_producer_epoch (pr_identity r), ev_generation = opi_generation (pr_identity r),
       ev_frame_id = opi_frame_id (pr_identity r), ev_planning_stamp_ns = opi_stamp_ns (pr_identity r),
       ev_release_ack_stamp_ns = pr_release_ack_stamp_ns r,
       ev_observation_start_stamp_ns = pr_observation_start_stamp_ns r,
       ev_first_observation_stamp_ns = pr_first_observation_stamp_ns r,
       ev_last_observation_stamp_ns = pr_last_observation_stamp_ns r, ev_sample_count = pr_sample_count r,
       ev_target_point_count = pr_target_point_count r, ev_stable_duration_s = the_fin (pr_stable_duration_s r),
       ev_max_target_motion_m = the_fin (pr_max_target_motion_m r),
       ev_region_support_fraction = the_fin (pr_region_support_fraction r),
       ev_gripper_clearance_m = the_fin (pr_gripper_clearance_m r),
       ev_depth_correspondence_m = the_fin (pr_depth_correspondence_m r),
       ev_position_error_m = the_fin (pr_position_error_m r), ev_orientation_error_rad = the_fin (pr_orientation_error_rad r),
       ev_upright_error_rad = the_fin (pr_upright_error_rad r),
       ev_registration_inlier_fraction = the_fin (pr_registration_inlier_fraction r),
       ev_registration_rms_m = the_fin (pr_registration_rms_m r), ev_orientation_mode = pr_orientation_mode r,
       ev_planned_object_pose = map the_fin (concat (pr_planned_object_pose r)),
       ev_observed_object_center_m = map the_fin (pr_observed_object_center_m r), ev_payload = to_payload r \<rparr>"

lemma evidence_read:
  assumes ok: "terminal_result_post_init r = Inr ()" and own: "same_owner r expected release" and np: "reads_float_arrays asarray"
    and h: "read_head (to_payload r) (opi_stamp_ns (pr_identity r)) = Inr h"
  shows "if diagnostics_readable r \<and> pose_readable r
    then \<exists>stamps. read_evidence asarray (to_payload r) (expected_owner expected release) h = Inr (evidence_of r, stamps)
    else \<exists>m. read_evidence asarray (to_payload r) (expected_owner expected release) h = Inl (pr_error m)"
proof -
  note f = result_facts [OF ok]
  have h': "h = \<lparr> head_state = pr_state r, head_result = pr_result r, head_failure = pr_failure r,
          head_release_ack = pr_release_ack_stamp_ns r, head_observation_start = pr_observation_start_stamp_ns r \<rparr>"
    using h payload_head_read [OF ok] by (simp split: if_splits)
  have counts: "0 \<le> pr_sample_count r" "0 \<le> pr_target_point_count r" "0 \<le> pr_rejected_sample_count r"
    by (rule f(2), simp add: terminal_counts_def)+
  have mode: "py_strip (pr_orientation_mode r) \<noteq> []" using f(10) by (auto simp: py_strip_def py_space_def char_ord_def)
  have rej: "rejection_list_ok (JArr (map JStr (pr_rejected_sample_reasons r))) (pr_rejected_sample_count r) = diagnostics_readable r"
    by (simp add: diagnostics_readable_def list.pred_map comp_def)
  have frac: "\<not> 1 < map the_fin (terminal_metrics r) ! 2" "\<not> 1 < map the_fin (terminal_metrics r) ! 8"
    using f(8,9) f(1) [of "pr_region_support_fraction r"] f(1) [of "pr_registration_inlier_fraction r"]
    by (auto simp: terminal_metrics_def)
  note pose = pose_read [OF np f(12), of "''planned_object_pose''", folded pose_readable_def]
  note center = center_read [OF np f(13,14), of "''observed_object_center_m''"]
  have int: "nonnegative_int (JInt i) l = Inr i" if "0 \<le> i" for i l
    using that by (simp add: nonnegative_int_def pr_int_def raise_if_def)
  show ?thesis
    unfolding read_evidence_def stamps_read [OF ok] payload_count_members metrics_read [OF ok] payload_metric_members
    using f(10) mode frac pose center own
    by (auto simp: int counts rej required_string_def payload_metric_members raise_if_def h' evidence_of_def terminal_metrics_def
        same_owner_def simp del: rejection_list_ok.simps)
qed

text \<open>C39: The task reads a terminal failure of the placement node for the transaction it waits for exactly if the release
  follows the planning observation and the window does not start before the release, the diagnostics are within bounds,
  and the determinant of the planned pose is within \<open>2 * 10 ^ -5\<close> of one. Then it learns the reason and the
  whole evidence and does not take it for a success; otherwise the message is refused with the error the
  task handles.\<close>

theorem failed_result_reaches_the_task:
  assumes "terminal_result_post_init r = Inr ()" and "observed_identity_post_init (pr_identity r) = Inr ()"
    and "pr_state r = ''failed''" and "same_owner r expected release" and "reads_float_arrays asarray"
  shows "if stamps_readable r \<and> diagnostics_readable r \<and> pose_readable r
    then parse_post_release_payload asarray expected release p (to_payload r) = Inr (evidence_of r)
      \<and> \<not> ev_verified (evidence_of r) \<and> ev_failure (evidence_of r) = pr_failure r
    else \<exists>m. parse_post_release_payload asarray expected release p (to_payload r) = Inl (PostReleaseVerificationError m)"
proof -
  note own = payload_owner_read [OF assms(1,2,4)]
  have planning: "own_planning_stamp (expected_owner expected release) = opi_stamp_ns (pr_identity r)"
    using assms(4) by (simp add: same_owner_def)
  show ?thesis
  proof (cases "stamps_readable r")
    case False
    then show ?thesis
      unfolding parse_of_payload own using payload_head_read [OF assms(1)] by (simp add: raise_if_def planning)
  next
    case True
    then obtain h where h: "read_head (to_payload r) (opi_stamp_ns (pr_identity r)) = Inr h"
        "head_state h = pr_state r" "head_result h = pr_result r" "head_failure h = pr_failure r"
      using payload_head_read [OF assms(1)] by simp
    show ?thesis
      using evidence_read [OF assms(1,4,5) h(1)] result_facts(15) [OF assms(1,3)] assms(3) True
      unfolding parse_of_payload own
      by (auto simp: raise_if_def planning h judge_evidence_def evidence_of_def split: if_splits)
  qed
qed

definition sample_failure :: PostReleaseVerificationResult where
  "sample_failure = sample_result\<lparr> pr_state := ''failed'', pr_result := POST_RELEASE_FAILURE_RESULT, pr_failure := ''moved'' \<rparr>"

theorem failed_result_reaches_the_task_witness:
  "parse_post_release_payload plain_asarray sample_expected 7 sample_policy (to_payload sample_failure) = Inr (evidence_of sample_failure)"
proof -
  have ok: "terminal_result_post_init sample_failure = Inr ()" "observed_identity_post_init (pr_identity sample_failure) = Inr ()"
    "pr_state sample_failure = ''failed''" "same_owner sample_failure sample_expected 7"
    by code_simp+
  have "stamps_readable sample_failure \<and> diagnostics_readable sample_failure \<and> pose_readable sample_failure" by code_simp
  then show ?thesis
    using failed_result_reaches_the_task [OF ok plain_asarray_reads, of sample_policy] by (simp only: if_True)
qed

text \<open>The node accepts a planned pose the task refuses: one whose rotation is scaled by nine parts in a million is orthonormal for
  both, but its determinant is off by 27 parts in a million. The failure of such a placement is not read.\<close>

definition scaled_pose :: "pyfloat list list" where
  "scaled_pose = [[Fin (1000009 / 1000000), Fin 0, Fin 0, Fin 0], [Fin 0, Fin (1000009 / 1000000), Fin 0, Fin 0],
                  [Fin 0, Fin 0, Fin (1000009 / 1000000), Fin 0], [Fin 0, Fin 0, Fin 0, Fin 1]]"

lemma loose_pose_failure_is_refused:
  "terminal_result_post_init (sample_failure\<lparr> pr_planned_object_pose := scaled_pose \<rparr>) = Inr ()
   \<and> parse_post_release_payload plain_asarray sample_expected 7 sample_policy
       (to_payload (sample_failure\<lparr> pr_planned_object_pose := scaled_pose \<rparr>))
     = Inl (PostReleaseVerificationError ''planned_object_pose rotation is not proper SE(3)'')"
  unfolding parse_of_payload by code_simp

section \<open>Exceptions\<close>

definition only_pr_error :: "'a res \<Rightarrow> bool" where
  "only_pr_error r = (\<forall>e. r = Inl e \<longrightarrow> (\<exists>m. e = PostReleaseVerificationError m))"

lemma only_pr_error_rules:
  "only_pr_error (Inr x)"
  "only_pr_error (Inl (PostReleaseVerificationError m))"
  "only_pr_error k \<Longrightarrow> only_pr_error (raise_if b (PostReleaseVerificationError m) k)"
  "only_pr_error a \<Longrightarrow> (\<And>x. only_pr_error (f x)) \<Longrightarrow> only_pr_error (rbind a f)"
  by (cases a; auto simp: only_pr_error_def raise_if_def)+

lemma only_pr_error_reads:
  "only_pr_error (pr_int P why v)" "only_pr_error (required_string ms k)"
  by (auto simp: pr_int_def required_string_def only_pr_error_rules split: json.split)

lemma only_pr_error_ints: "only_pr_error (positive_int v l)" "only_pr_error (nonnegative_int v l)"
  by (simp_all add: positive_int_def nonnegative_int_def only_pr_error_reads)

lemma only_pr_error_read_keys: "(\<And>k. k \<in> set ks \<Longrightarrow> only_pr_error (f k)) \<Longrightarrow> only_pr_error (read_keys f ks)"
  by (induction ks) (auto intro!: only_pr_error_rules)

text \<open>The metrics of a document are in the range of a double.\<close>

definition double_range :: "json \<Rightarrow> bool" where
  "double_range v = (case v of JInt i \<Rightarrow> \<bar>of_int i\<bar> < float_overflow | _ \<Rightarrow> True)"

lemma only_pr_error_metric: "double_range (get_or JNull ms k) \<Longrightarrow> only_pr_error (nonnegative_metric ms k)"
  by (auto simp: nonnegative_metric_def finite_float_def double_range_def intro!: only_pr_error_rules
      split: json.splits pyfloat.split)

lemma only_pr_error_array:
  assumes "\<forall>v e. asarray v = Inl e \<longrightarrow> (\<exists>m. e = TypeError m \<or> e = ValueError m)"
  shows "only_pr_error (proper_transform asarray v l)" "only_pr_error (finite_three_vector asarray v l)"
proof -
  have "only_pr_error (read_array asarray v l)" for v l
  proof (cases "asarray v")
    case (Inl a)
    then obtain m where "a = TypeError m \<or> a = ValueError m" using assms by blast
    then show ?thesis using Inl by (auto simp: read_array_def only_pr_error_def)
  qed (simp add: read_array_def only_pr_error_def)
  then show "only_pr_error (proper_transform asarray v l)" "only_pr_error (finite_three_vector asarray v l)"
    by (auto simp: proper_transform_def finite_three_vector_def Let_def intro!: only_pr_error_rules)
qed

lemma only_pr_error_stamps: "only_pr_error (check_positive t ks)"
  by (induction ks) (auto intro!: only_pr_error_rules only_pr_error_ints)

lemma only_pr_error_parts:
  "only_pr_error (read_owner ms)" "only_pr_error (read_head ms planning)"
  "only_pr_error (judge_evidence p up h e stamps)"
  by (auto simp: read_owner_def read_head_def judge_evidence_def check_verified_stamps_def
      intro!: only_pr_error_rules only_pr_error_reads only_pr_error_ints only_pr_error_stamps split: json.split)

lemma only_pr_error_evidence:
  assumes "\<forall>v e. asarray v = Inl e \<longrightarrow> (\<exists>m. e = TypeError m \<or> e = ValueError m)"
    and "\<forall>k \<in> set metric_keys. double_range (get_or JNull ms k)"
  shows "only_pr_error (read_evidence asarray ms own h)"
  unfolding read_evidence_def using assms(2)
  by (intro only_pr_error_rules only_pr_error_ints only_pr_error_reads only_pr_error_read_keys only_pr_error_metric
      only_pr_error_array [OF assms(1)]) auto

text \<open>A malformed document raises only the error the task's callback handles, as long as its metrics are in the
  range of a double and NumPy refuses values with its documented exceptions.\<close>

theorem malformed_evidence_raises_the_handled_error:
  assumes "\<forall>v e. asarray v = Inl e \<longrightarrow> (\<exists>m. e = TypeError m \<or> e = ValueError m)"
    and "\<forall>k \<in> set metric_keys. double_range (get_or JNull ms k)"
    and "parse_post_release_payload asarray expected release p ms = Inl e"
  shows "\<exists>m. e = PostReleaseVerificationError m"
proof -
  have "only_pr_error (parse_post_release_payload asarray expected release p ms)"
    unfolding parse_post_release_payload_def
    by (intro only_pr_error_rules only_pr_error_parts)
      (auto intro!: only_pr_error_rules only_pr_error_parts only_pr_error_evidence [OF assms(1,2)])
  then show ?thesis using assms(3) by (simp add: only_pr_error_def)
qed

lemma plain_asarray_exceptions:
  "\<forall>v e. plain_asarray v = Inl e \<longrightarrow> (\<exists>m. e = TypeError m \<or> e = ValueError m)"
  by (auto simp: plain_asarray_def split: option.splits json.splits if_splits)

theorem malformed_evidence_raises_the_handled_error_witness:
  "\<exists>e. parse_post_release_payload plain_asarray sample_expected 8 sample_policy (to_payload sample_result) = Inl e
     \<and> (\<exists>m. e = PostReleaseVerificationError m)"
proof -
  have "parse_post_release_payload plain_asarray sample_expected 8 sample_policy (to_payload sample_result)
      = Inl (pr_error ''post-release goal/release/perception identity mismatch'')"
    unfolding parse_of_payload by code_simp
  moreover have "\<forall>k \<in> set metric_keys. double_range (get_or JNull (to_payload sample_result) k)"
  proof
    fix k assume "k \<in> set metric_keys"
    then have "get_or JNull (to_payload sample_result) k \<in> set (map JFloat (terminal_metrics sample_result))"
      unfolding payload_metrics [symmetric] by simp
    then show "double_range (get_or JNull (to_payload sample_result) k)" by (auto simp: double_range_def)
  qed
  ultimately show ?thesis
    using malformed_evidence_raises_the_handled_error [OF plain_asarray_exceptions] by blast
qed

text \<open>An integer beyond the doubles in a metric escapes as another exception.\<close>

lemma huge_integer_metric_escapes:
  assumes "get_or JNull ms k = JInt (2 ^ 1024)"
  shows "nonnegative_metric ms k = Inl (OverflowError ''int too large to convert to float'')"
  using assms by (simp add: nonnegative_metric_def finite_float_def float_overflow_def)

end
