(* ===== verification/Tracking_Messages.thy ===== *)
theory Tracking_Messages
  imports Json_Text
begin

text \<open>
  The messages and boxes of the perception bridge, \<open>src/ros2/z_manip_ros/z_manip_ros/contract.py\<close>: the grounding request,
  the tracker's frame manifest and failure report as JSON texts, and the pixel box that seeds the tracker. A text the
  decoder refuses is the ValueError the parser raises; the legacy identity is a string when it is given.
\<close>

section \<open>The grounding request\<close>

record GroundingRequest =
  gr_request_id :: string
  gr_instruction :: string
  gr_scope :: string

definition GROUNDING_SCOPES :: "string list" where
  "GROUNDING_SCOPES = [''grasp_only'', ''grasp_for_place'', ''place_support'']"

definition visible_ascii :: "string \<Rightarrow> bool" where
  "visible_ascii s = list_all (\<lambda>c. 33 \<le> char_ord c \<and> char_ord c \<le> 126) s"

definition has_keys :: "string list \<Rightarrow> (string \<times> json) list \<Rightarrow> bool" where
  "has_keys ks ms = (set (map fst ms) = set ks)"

definition unsupported_request :: exn where
  "unsupported_request = ValueError ''unsupported grounding request schema''"

text \<open>The scope, by the version of the envelope.\<close>

definition request_scope :: "(string \<times> json) list \<Rightarrow> string res" where
  "request_scope ms =
     (case jget ms ''schema'' of
        Some (JStr v) \<Rightarrow>
          if v = ''z_manip.grounding_request.v1'' then
            raise_if (\<not> has_keys [''schema'', ''request_id'', ''instruction''] ms) unsupported_request
              (Inr ''grasp_only'')
          else if v = ''z_manip.grounding_request.v2'' then
            raise_if (\<not> has_keys [''schema'', ''request_id'', ''instruction'', ''scope''] ms) unsupported_request
              (case jget ms ''scope'' of
                 Some (JStr t) \<Rightarrow>
                   raise_if (t \<notin> set GROUNDING_SCOPES) (ValueError ''grounding request scope is invalid'') (Inr t)
               | _ \<Rightarrow> Inl (ValueError ''grounding request scope is invalid''))
          else Inl unsupported_request
      | _ \<Rightarrow> Inl unsupported_request)"

definition request_envelope :: "string \<Rightarrow> (string \<times> string \<times> string) res" where
  "request_envelope clean =
     (case json_loads plain_hooks clean of
        Inl _ \<Rightarrow> Inl (ValueError ''grounding request is not valid JSON'')
      | Inr (JObj ms) \<Rightarrow>
          rbind (request_scope ms) (\<lambda>scope.
            (case (jget ms ''request_id'', jget ms ''instruction'') of
               (Some (JStr i), Some (JStr q)) \<Rightarrow> Inr (py_strip i, py_strip q, scope)
             | _ \<Rightarrow> Inl (ValueError ''grounding request identity and instruction must be strings'')))
      | Inr _ \<Rightarrow> Inl unsupported_request)"

definition parse_grounding_request :: "string \<Rightarrow> string option \<Rightarrow> GroundingRequest res" where
  "parse_grounding_request payload legacy_request_id =
     raise_if (py_strip payload = [] \<or> 8192 < length payload)
       (ValueError ''grounding request is not a bounded non-empty string'')
     (let clean = py_strip payload in
      rbind
        (if hd clean \<noteq> CHR ''{'' then
           (case legacy_request_id of
              None \<Rightarrow> Inl (ValueError ''grounding request is not a versioned envelope'')
            | Some i \<Rightarrow> Inr (py_strip i, clean, ''grasp_only''))
         else request_envelope clean)
        (\<lambda>(request_id, instruction, scope).
         raise_if (request_id = [] \<or> 128 < length request_id \<or> \<not> visible_ascii request_id)
           (ValueError ''grounding request identity is invalid'')
         (raise_if (instruction = [] \<or> 4096 < length instruction) (ValueError ''grounding instruction is invalid'')
         (Inr \<lparr> gr_request_id = request_id, gr_instruction = instruction, gr_scope = scope \<rparr>))))"

section \<open>The tracker's reports\<close>

record TrackerFrameManifest =
  tfm_seed_id :: string
  tfm_seed_stamp_ns :: int
  tfm_adapter_generation :: int
  tfm_result_stamp_ns :: int
  tfm_frame_id :: string
  tfm_session_id :: string
  tfm_track_id :: string

fun string_of_value :: "json option \<Rightarrow> string option" where
  "string_of_value (Some (JStr s)) = Some s"
| "string_of_value v = None"

fun int_of_json :: "json option \<Rightarrow> int option" where
  "int_of_json (Some (JInt i)) = Some i"
| "int_of_json v = None"

definition int63_value :: "json option \<Rightarrow> int option" where
  "int63_value v = (case int_of_json v of None \<Rightarrow> None | Some i \<Rightarrow> if 0 \<le> i \<and> i \<le> 2 ^ 63 - 1 then Some i else None)"

definition report_object :: "string \<Rightarrow> exn \<Rightarrow> exn \<Rightarrow> exn \<Rightarrow> string \<Rightarrow> (string \<times> json) list res" where
  "report_object payload unbounded invalid unsupported schema =
     raise_if (4096 < length payload) unbounded
     (case json_loads plain_hooks payload of
        Inl _ \<Rightarrow> Inl invalid
      | Inr (JObj ms) \<Rightarrow> raise_if (string_of_value (jget ms ''schema'') \<noteq> Some schema) unsupported (Inr ms)
      | Inr _ \<Rightarrow> Inl unsupported)"

definition parse_tracker_frame_manifest :: "string \<Rightarrow> TrackerFrameManifest res" where
  "parse_tracker_frame_manifest payload =
     rbind (report_object payload (ValueError ''tracker frame manifest is not a bounded string'')
              (ValueError ''tracker frame manifest is not valid JSON'')
              (ValueError ''unsupported tracker frame manifest schema'') ''z_manip.tracker_frame.v1'') (\<lambda>ms.
     case all_some (map (\<lambda>k. string_of_value (jget ms k)) [''seed_id'', ''frame_id'', ''session_id'', ''track_id'']) of
       None \<Rightarrow> Inl (ValueError ''tracker frame identity fields must be strings'')
     | Some raw \<Rightarrow>
         (let texts = map py_strip raw in
          raise_if (list_ex (\<lambda>t. t = [] \<or> 256 < length t) texts)
            (ValueError ''tracker frame identity fields are invalid'')
          (case all_some (map (\<lambda>k. int63_value (jget ms k)) [''seed_stamp_ns'', ''adapter_generation'', ''result_stamp_ns'']) of
             None \<Rightarrow> Inl (ValueError ''tracker frame integer fields are invalid'')
           | Some ns \<Rightarrow>
               raise_if (ns ! 2 \<le> ns ! 0) (ValueError ''tracker frame does not follow its seed frame'')
               (Inr \<lparr> tfm_seed_id = texts ! 0, tfm_seed_stamp_ns = ns ! 0, tfm_adapter_generation = ns ! 1,
                      tfm_result_stamp_ns = ns ! 2, tfm_frame_id = texts ! 1, tfm_session_id = texts ! 2,
                      tfm_track_id = texts ! 3 \<rparr>))))"

record TrackerFailureReport =
  tfr_seed_id :: string
  tfr_seed_stamp_ns :: int
  tfr_reason_code :: string
  tfr_reason :: string
  tfr_replay_candidates :: int
  tfr_replay_selected :: int
  tfr_replay_span_ns :: int
  tfr_acquisition_live_updates :: int

definition one_line :: "nat \<Rightarrow> string \<Rightarrow> string" where
  "one_line limit s = take limit (py_strip (map (\<lambda>c. if c = CHR 0x0A then CHR '' '' else c) s))"

definition count_value :: "json option \<Rightarrow> int option" where
  "count_value v = (case int_of_json v of None \<Rightarrow> None | Some i \<Rightarrow> if i < 0 then None else Some i)"

definition parse_tracker_failure_report :: "string \<Rightarrow> TrackerFailureReport res" where
  "parse_tracker_failure_report payload =
     rbind (report_object payload (ValueError ''tracker failure payload is not a bounded string'')
              (ValueError ''tracker failure is not valid JSON'')
              (ValueError ''unsupported tracker failure schema'') ''z_manip.tracker_failure.v1'') (\<lambda>ms.
     case all_some (map (\<lambda>k. string_of_value (jget ms k)) [''seed_id'', ''reason_code'', ''reason'']) of
       None \<Rightarrow> Inl (ValueError ''tracker failure fields must be strings'')
     | Some ts \<Rightarrow>
         (case int63_value (jget ms ''seed_stamp_ns'') of
            None \<Rightarrow> Inl (ValueError ''tracker failure seed timestamp is invalid'')
          | Some stamp \<Rightarrow>
              (case all_some (map (\<lambda>k. count_value (jget ms k))
                       [''replay_candidates'', ''replay_selected'', ''replay_span_ns'', ''acquisition_live_updates'']) of
                 None \<Rightarrow> Inl (ValueError ''tracker failure replay counters are invalid'')
               | Some ns \<Rightarrow>
                   raise_if (1000000 < ns ! 0 \<or> 1000000 < ns ! 1 \<or> 86400000000000 < ns ! 2 \<or> 1000000 < ns ! 3)
                     (ValueError ''tracker failure replay counters exceed safety limits'')
                   (raise_if (ns ! 0 < ns ! 1) (ValueError ''tracker failure replay selection exceeds candidates'')
                   (let seed_id = py_strip (ts ! 0); code = one_line 128 (ts ! 1) in
                    raise_if (256 < length seed_id) (ValueError ''tracker failure seed identity exceeds safety limit'')
                    (raise_if (seed_id = [] \<or> code = []) (ValueError ''tracker failure identity or code is empty'')
                    (Inr \<lparr> tfr_seed_id = seed_id, tfr_seed_stamp_ns = stamp, tfr_reason_code = code,
                           tfr_reason = one_line 256 (ts ! 2), tfr_replay_candidates = ns ! 0,
                           tfr_replay_selected = ns ! 1, tfr_replay_span_ns = ns ! 2,
                           tfr_acquisition_live_updates = ns ! 3 \<rparr>)))))))"

section \<open>Boxes\<close>

record PixelBox =
  box_center_x :: real
  box_center_y :: real
  box_size_x :: real
  box_size_y :: real

definition normalized_xyxy_to_pixel_box :: "pyfloat list \<Rightarrow> int \<Rightarrow> int \<Rightarrow> PixelBox res" where
  "normalized_xyxy_to_pixel_box xyxy width height =
     raise_if (length xyxy \<noteq> 4) (ValueError ''xyxy must contain four values'')
     (raise_if (width \<le> 0 \<or> height \<le> 0) (ValueError ''image dimensions must be positive'')
     (raise_if (\<not> list_all (\<lambda>v. isfinite v \<and> 0 \<le> v \<and> v \<le> Fin 1) xyxy)
       (ValueError ''normalized box coordinates must be finite and in [0, 1]'')
     (let v = (\<lambda>i. the_fin (xyxy ! i)) in
      raise_if (v 2 \<le> v 0 \<or> v 3 \<le> v 1) (ValueError ''normalized box must have positive area'')
      (Inr \<lparr> box_center_x = 1 / 2 * (v 0 + v 2) * of_int width, box_center_y = 1 / 2 * (v 1 + v 3) * of_int height,
             box_size_x = (v 2 - v 0) * of_int width, box_size_y = (v 3 - v 1) * of_int height \<rparr>))))"

text \<open>On a finite box, as the dataclass of a converted box holds it.\<close>

definition expand_pixel_box :: "PixelBox \<Rightarrow> int \<Rightarrow> int \<Rightarrow> pyfloat \<Rightarrow> PixelBox res" where
  "expand_pixel_box box width height fraction =
     raise_if (width \<le> 0 \<or> height \<le> 0) (ValueError ''image dimensions must be positive'')
     (raise_if (\<not> isfinite fraction \<or> \<not> (0 \<le> fraction \<and> fraction \<le> Fin 1) \<or> box_size_x box \<le> 0 \<or> box_size_y box \<le> 0)
       (ValueError ''pixel box and expansion fraction are invalid'')
     (let padding = the_fin fraction;
          half_width = box_size_x box * (1 / 2 + padding);
          half_height = box_size_y box * (1 / 2 + padding);
          x1 = max 0 (box_center_x box - half_width);
          y1 = max 0 (box_center_y box - half_height);
          x2 = min (of_int width) (box_center_x box + half_width);
          y2 = min (of_int height) (box_center_y box + half_height) in
      raise_if (x2 \<le> x1 \<or> y2 \<le> y1) (ValueError ''expanded pixel box is empty'')
      (Inr \<lparr> box_center_x = 1 / 2 * (x1 + x2), box_center_y = 1 / 2 * (y1 + y2), box_size_x = x2 - x1,
             box_size_y = y2 - y1 \<rparr>)))"

section \<open>The seed box contains the grounded box\<close>

definition box_inside :: "PixelBox \<Rightarrow> PixelBox \<Rightarrow> bool" where
  "box_inside a b =
     (box_center_x b - box_size_x b / 2 \<le> box_center_x a - box_size_x a / 2
      \<and> box_center_x a + box_size_x a / 2 \<le> box_center_x b + box_size_x b / 2
      \<and> box_center_y b - box_size_y b / 2 \<le> box_center_y a - box_size_y a / 2
      \<and> box_center_y a + box_size_y a / 2 \<le> box_center_y b + box_size_y b / 2)"

definition image_box :: "int \<Rightarrow> int \<Rightarrow> PixelBox" where
  "image_box w h = \<lparr> box_center_x = of_int w / 2, box_center_y = of_int h / 2, box_size_x = of_int w, box_size_y = of_int h \<rparr>"

end
