(* ===== verification/Tracking_Contract.thy ===== *)
theory Tracking_Contract
  imports Interfaces
begin

text \<open>
  The health contract of the perception bridge, \<open>TrackingContract\<close> of \<open>src/ros2/z_manip_ros/z_manip_ros/contract.py\<close>:
  the state machine that admits the tracker's outputs to the controllers, from a request over its grounding to a
  fresh persistent track. A configured limit and a remembered time are finite floats, so reals.
\<close>

section \<open>Phases and failures\<close>

datatype ContractPhase = CP_IDLE | CP_WAITING_FRAME | CP_GROUNDING | CP_WAITING_TRACKER | CP_TRACKING | CP_FAILED

fun contract_phase_text :: "ContractPhase \<Rightarrow> string" where
  "contract_phase_text CP_IDLE = ''idle''"
| "contract_phase_text CP_WAITING_FRAME = ''waiting_frame''"
| "contract_phase_text CP_GROUNDING = ''grounding''"
| "contract_phase_text CP_WAITING_TRACKER = ''waiting_tracker''"
| "contract_phase_text CP_TRACKING = ''tracking''"
| "contract_phase_text CP_FAILED = ''failed''"

datatype FailureCode =
    NO_FAILURE | CAMERA_FRAME_TIMEOUT | GROUNDING_TIMEOUT | GROUNDING_FAILED | TRACKER_ACQUISITION_TIMEOUT
  | TRACKER_REPORTED_LOSS | EMPTY_DETECTIONS | TRACK_ID_CHANGED | TARGET_MISSING | CLOUD_TOO_SMALL
  | TRACKER_DATA_STALE | CLOCK_ROLLBACK

fun failure_code_text :: "FailureCode \<Rightarrow> string" where
  "failure_code_text NO_FAILURE = []"
| "failure_code_text CAMERA_FRAME_TIMEOUT = ''camera_frame_timeout''"
| "failure_code_text GROUNDING_TIMEOUT = ''grounding_timeout''"
| "failure_code_text GROUNDING_FAILED = ''grounding_failed''"
| "failure_code_text TRACKER_ACQUISITION_TIMEOUT = ''tracker_acquisition_timeout''"
| "failure_code_text TRACKER_REPORTED_LOSS = ''tracker_reported_loss''"
| "failure_code_text EMPTY_DETECTIONS = ''empty_detections''"
| "failure_code_text TRACK_ID_CHANGED = ''track_id_changed''"
| "failure_code_text TARGET_MISSING = ''selected_target_missing''"
| "failure_code_text CLOUD_TOO_SMALL = ''selected_cloud_too_small''"
| "failure_code_text TRACKER_DATA_STALE = ''tracker_data_stale''"
| "failure_code_text CLOCK_ROLLBACK = ''clock_rollback''"

section \<open>The contract\<close>

record TrackingContract =
  frame_wait_timeout_s :: real
  grounding_timeout_s :: real
  acquisition_timeout_s :: real
  data_timeout_s :: real
  min_cloud_points :: int
  tc_generation :: int
  last_time_s :: "real option"
  tc_phase :: ContractPhase
  tc_request_id :: string
  tc_instruction :: string
  target_label :: string
  tc_confidence :: real
  tc_failure :: FailureCode
  phase_started_at :: real
  tracker_seen_true :: bool
  tracker_true_at :: "real option"
  detection_ids :: "string set"
  detections_at :: "real option"
  tc_track_id :: string
  target_at :: "real option"
  cloud_at :: "real option"

record ContractSnapshot =
  snap_phase :: ContractPhase
  snap_generation :: int
  snap_request_id :: string
  snap_instruction :: string
  snap_target_label :: string
  snap_confidence :: real
  snap_track_id :: string
  snap_failure :: FailureCode

definition snapshot_valid :: "ContractSnapshot \<Rightarrow> bool" where
  "snapshot_valid p = (snap_phase p = CP_TRACKING)"

type_synonym 'a contract_op = "('a, TrackingContract) outcome"

definition reset_state :: "TrackingContract \<Rightarrow> TrackingContract" where
  "reset_state s =
     s\<lparr> tc_phase := CP_IDLE, tc_request_id := [], tc_instruction := [], target_label := [], tc_confidence := 0,
        tc_failure := NO_FAILURE, phase_started_at := 0, tracker_seen_true := False, tracker_true_at := None,
        detection_ids := {}, detections_at := None, tc_track_id := [], target_at := None, cloud_at := None \<rparr>"

text \<open>The constructor, on the limits as the caller gives them.\<close>

definition contract_init ::
  "pyfloat \<Rightarrow> pyfloat \<Rightarrow> pyfloat \<Rightarrow> pyfloat \<Rightarrow> int \<Rightarrow> TrackingContract res" where
  "contract_init frame_wait grounding acquisition data points =
     raise_if (\<not> list_all (\<lambda>x. isfinite x \<and> 0 < x) [frame_wait, grounding, acquisition, data])
       (ValueError ''contract timeouts must be finite and positive'')
     (raise_if (points < 1) (ValueError ''min_cloud_points must be positive'')
     (Inr \<lparr> frame_wait_timeout_s = the_fin frame_wait, grounding_timeout_s = the_fin grounding,
            acquisition_timeout_s = the_fin acquisition, data_timeout_s = the_fin data, min_cloud_points = points,
            tc_generation = 0, last_time_s = None, tc_phase = CP_IDLE, tc_request_id = [], tc_instruction = [],
            target_label = [], tc_confidence = 0, tc_failure = NO_FAILURE, phase_started_at = 0,
            tracker_seen_true = False, tracker_true_at = None, detection_ids = {}, detections_at = None,
            tc_track_id = [], target_at = None, cloud_at = None \<rparr>))"

definition contract_reset :: "TrackingContract \<Rightarrow> TrackingContract" where
  "contract_reset s = reset_state (s\<lparr> tc_generation := tc_generation s + 1, last_time_s := None \<rparr>)"

definition contract_fail :: "FailureCode \<Rightarrow> TrackingContract \<Rightarrow> TrackingContract" where
  "contract_fail why s = s\<lparr> tc_phase := CP_FAILED, tc_failure := why \<rparr>"

text \<open>\<open>_time\<close>: a clock that goes back fails the contract and answers the last time.\<close>

definition take_time :: "pyfloat \<Rightarrow> TrackingContract \<Rightarrow> real contract_op" where
  "take_time value s =
     guard (\<not> isfinite value) (ValueError ''timestamp must be finite'') s
     (case last_time_s s of
        Some t \<Rightarrow>
          if the_fin value < t then (Inr t, contract_fail CLOCK_ROLLBACK s)
          else (Inr (the_fin value), s\<lparr> last_time_s := Some (the_fin value) \<rparr>)
      | None \<Rightarrow> (Inr (the_fin value), s\<lparr> last_time_s := Some (the_fin value) \<rparr>))"

definition contract_snapshot :: "TrackingContract \<Rightarrow> ContractSnapshot" where
  "contract_snapshot s =
     \<lparr> snap_phase = tc_phase s, snap_generation = tc_generation s, snap_request_id = tc_request_id s,
       snap_instruction = tc_instruction s, snap_target_label = target_label s, snap_confidence = tc_confidence s,
       snap_track_id = tc_track_id s, snap_failure = tc_failure s \<rparr>"

definition stamp_fresh :: "real \<Rightarrow> TrackingContract \<Rightarrow> real option \<Rightarrow> bool" where
  "stamp_fresh now s stamp =
     (case stamp of None \<Rightarrow> False | Some t \<Rightarrow> 0 \<le> now - t \<and> now - t \<le> data_timeout_s s)"

definition data_stamps :: "TrackingContract \<Rightarrow> real option list" where
  "data_stamps s = [tracker_true_at s, detections_at s, target_at s, cloud_at s]"

definition promote_if_complete :: "real \<Rightarrow> TrackingContract \<Rightarrow> TrackingContract" where
  "promote_if_complete now s =
     (if tc_phase s = CP_WAITING_TRACKER \<and> tracker_seen_true s \<and> tc_track_id s \<noteq> []
         \<and> tc_track_id s \<in> detection_ids s \<and> list_all (stamp_fresh now s) (data_stamps s)
      then s\<lparr> tc_phase := CP_TRACKING, phase_started_at := now \<rparr>
      else s)"

subsection \<open>The request and its grounding\<close>

definition printable :: "string \<Rightarrow> bool" where
  "printable s = list_all (\<lambda>c. 33 \<le> char_ord c \<and> char_ord c \<le> 126) s"

definition contract_request :: "string \<Rightarrow> pyfloat \<Rightarrow> string \<Rightarrow> TrackingContract \<Rightarrow> int contract_op" where
  "contract_request instruction now_s request_id s =
     (let query = py_strip instruction; identity = py_strip request_id in
      guard (query = []) (ValueError ''grounding instruction must not be empty'') s
      (guard (identity \<noteq> [] \<and> (128 < length identity \<or> \<not> printable identity))
        (ValueError ''grounding request identity is invalid'') s
      (obind (take_time now_s (s\<lparr> last_time_s := None \<rparr>)) (\<lambda>now t.
       let u = (reset_state (t\<lparr> tc_generation := tc_generation t + 1 \<rparr>))
                 \<lparr> tc_phase := CP_WAITING_FRAME, tc_request_id := identity, tc_instruction := query,
                   phase_started_at := now \<rparr> in
       (Inr (tc_generation u), u)))))"

definition grounding_started :: "int \<Rightarrow> pyfloat \<Rightarrow> TrackingContract \<Rightarrow> bool contract_op" where
  "grounding_started generation now_s s =
     (if generation \<noteq> tc_generation s then (Inr False, s)
      else
        guard (tc_phase s \<noteq> CP_WAITING_FRAME)
          (RuntimeError (''cannot start grounding while '' @ contract_phase_text (tc_phase s))) s
        (obind (take_time now_s (s\<lparr> tc_phase := CP_GROUNDING \<rparr>)) (\<lambda>now t.
         (Inr True, t\<lparr> phase_started_at := now \<rparr>))))"

definition grounding_succeeded ::
  "int \<Rightarrow> string \<Rightarrow> pyfloat \<Rightarrow> pyfloat \<Rightarrow> TrackingContract \<Rightarrow> bool contract_op" where
  "grounding_succeeded generation label conf now_s s =
     (if generation \<noteq> tc_generation s then (Inr False, s)
      else
        guard (tc_phase s \<noteq> CP_GROUNDING)
          (RuntimeError (''cannot finish grounding while '' @ contract_phase_text (tc_phase s))) s
        (guard (py_strip label = [] \<or> \<not> isfinite conf)
          (ValueError ''grounding result needs a label and finite confidence'') s
        (guard (\<not> (0 \<le> conf \<and> conf \<le> Fin 1)) (ValueError ''grounding confidence must be in [0, 1]'') s
        (obind (take_time now_s
                 (s\<lparr> target_label := py_strip label, tc_confidence := the_fin conf, tc_phase := CP_WAITING_TRACKER \<rparr>))
          (\<lambda>now t. (Inr True, t\<lparr> phase_started_at := now \<rparr>))))))"

definition grounding_failed :: "int \<Rightarrow> TrackingContract \<Rightarrow> bool \<times> TrackingContract" where
  "grounding_failed generation s =
     (if generation \<noteq> tc_generation s then (False, s) else (True, contract_fail GROUNDING_FAILED s))"

subsection \<open>The tracker's reports\<close>

definition listening :: "TrackingContract \<Rightarrow> bool" where
  "listening s = (tc_phase s = CP_WAITING_TRACKER \<or> tc_phase s = CP_TRACKING)"

definition tracker_status :: "bool \<Rightarrow> pyfloat \<Rightarrow> TrackingContract \<Rightarrow> unit contract_op" where
  "tracker_status is_tracking now_s s =
     (if \<not> listening s then (Inr (), s)
      else obind (take_time now_s s) (\<lambda>now t.
        if tc_phase t = CP_FAILED then (Inr (), t)
        else if is_tracking then
          (Inr (), promote_if_complete now (t\<lparr> tracker_seen_true := True, tracker_true_at := Some now \<rparr>))
        else if tracker_seen_true t \<or> tc_phase t = CP_TRACKING then (Inr (), contract_fail TRACKER_REPORTED_LOSS t)
        else (Inr (), t)))"

definition tracker_failed :: "pyfloat \<Rightarrow> TrackingContract \<Rightarrow> unit contract_op" where
  "tracker_failed now_s s =
     (if \<not> listening s then (Inr (), s)
      else obind (take_time now_s s) (\<lambda>now t.
        if tc_phase t = CP_FAILED then (Inr (), t) else (Inr (), contract_fail TRACKER_REPORTED_LOSS t)))"

definition clean_ids :: "string list \<Rightarrow> string set" where
  "clean_ids ids = set (filter (\<lambda>i. i \<noteq> []) (map py_strip ids))"

definition tracker_detections :: "string list \<Rightarrow> pyfloat \<Rightarrow> TrackingContract \<Rightarrow> unit contract_op" where
  "tracker_detections track_ids now_s s =
     (if \<not> listening s then (Inr (), s)
      else obind (take_time now_s s) (\<lambda>now t0.
        let ids = clean_ids track_ids;
            t = t0\<lparr> detection_ids := ids, detections_at := if ids \<noteq> {} then Some now else None \<rparr> in
        if tc_phase t = CP_TRACKING \<and> ids = {} then (Inr (), contract_fail EMPTY_DETECTIONS t)
        else if tc_phase t = CP_TRACKING \<and> tc_track_id t \<notin> ids then (Inr (), contract_fail TARGET_MISSING t)
        else (Inr (), promote_if_complete now t)))"

definition selected_target :: "string \<Rightarrow> pyfloat \<Rightarrow> TrackingContract \<Rightarrow> unit contract_op" where
  "selected_target track_id now_s s =
     (let candidate = py_strip track_id in
      if \<not> listening s then (Inr (), s)
      else if candidate = [] then
        (Inr (), if tc_phase s = CP_TRACKING then contract_fail TARGET_MISSING s else s)
      else if tc_track_id s \<noteq> [] \<and> candidate \<noteq> tc_track_id s then (Inr (), contract_fail TRACK_ID_CHANGED s)
      else obind (take_time now_s (s\<lparr> tc_track_id := candidate \<rparr>)) (\<lambda>now t.
        (Inr (), promote_if_complete now (t\<lparr> target_at := Some now \<rparr>))))"

definition selected_cloud :: "int \<Rightarrow> pyfloat \<Rightarrow> TrackingContract \<Rightarrow> unit contract_op" where
  "selected_cloud point_count now_s s =
     (if \<not> listening s then (Inr (), s)
      else if point_count < min_cloud_points s then
        (Inr (), if tc_phase s = CP_TRACKING then contract_fail CLOUD_TOO_SMALL s else s)
      else if tc_track_id s = [] then (Inr (), s)
      else obind (take_time now_s s) (\<lambda>now t.
        (Inr (), promote_if_complete now (t\<lparr> cloud_at := Some now \<rparr>))))"

definition observation_bundle ::
  "string list \<Rightarrow> string \<Rightarrow> int \<Rightarrow> pyfloat \<Rightarrow> TrackingContract \<Rightarrow> unit contract_op" where
  "observation_bundle track_ids selected point_count now_s s =
     (if \<not> listening s then (Inr (), s)
      else obind (take_time now_s s) (\<lambda>now t.
        let ids = clean_ids track_ids; candidate = py_strip selected in
        if tc_phase t = CP_FAILED then (Inr (), t)
        else if ids = {} then (Inr (), contract_fail EMPTY_DETECTIONS t)
        else if candidate = [] \<or> candidate \<notin> ids then (Inr (), contract_fail TARGET_MISSING t)
        else if tc_track_id t \<noteq> [] \<and> candidate \<noteq> tc_track_id t then (Inr (), contract_fail TRACK_ID_CHANGED t)
        else if point_count < min_cloud_points t then (Inr (), contract_fail CLOUD_TOO_SMALL t)
        else (Inr (), promote_if_complete now
               (t\<lparr> detection_ids := ids, tc_track_id := candidate, detections_at := Some now, target_at := Some now,
                  cloud_at := Some now \<rparr>))))"

subsection \<open>The tick\<close>

definition enforce_deadlines :: "real \<Rightarrow> TrackingContract \<Rightarrow> TrackingContract" where
  "enforce_deadlines now s =
     (let elapsed = now - phase_started_at s in
      if tc_phase s = CP_WAITING_FRAME \<and> frame_wait_timeout_s s < elapsed then contract_fail CAMERA_FRAME_TIMEOUT s
      else if tc_phase s = CP_GROUNDING \<and> grounding_timeout_s s < elapsed then contract_fail GROUNDING_TIMEOUT s
      else if tc_phase s = CP_WAITING_TRACKER then
        (if acquisition_timeout_s s < elapsed then contract_fail TRACKER_ACQUISITION_TIMEOUT s
         else promote_if_complete now s)
      else if tc_phase s = CP_TRACKING \<and> \<not> list_all (stamp_fresh now s) (data_stamps s) then
        contract_fail TRACKER_DATA_STALE s
      else s)"

definition contract_tick :: "pyfloat \<Rightarrow> TrackingContract \<Rightarrow> ContractSnapshot contract_op" where
  "contract_tick now_s s =
     obind (take_time now_s s) (\<lambda>now t. let u = enforce_deadlines now t in (Inr (contract_snapshot u), u))"

end
