(* ===== verification/Tracking_Laws.thy ===== *)
theory Tracking_Laws
  imports Tracking_Contract
begin

text \<open>
  What the health contract guarantees: a valid snapshot is backed by fresh reports of the running request, a failure
  lasts until the next request, no waiting phase outlives its deadline, and results of an older request are ignored.
\<close>

section \<open>The contract as a machine\<close>

datatype contract_event =
    CeReset
  | CeRequest string pyfloat string
  | CeStarted int pyfloat
  | CeSucceeded int string pyfloat pyfloat
  | CeFailed int
  | CeStatus bool pyfloat
  | CeTrackerFailed pyfloat
  | CeDetections "string list" pyfloat
  | CeTarget string pyfloat
  | CeCloud int pyfloat
  | CeBundle "string list" string int pyfloat
  | CeTick pyfloat

fun contract_step :: "TrackingContract \<Rightarrow> contract_event \<Rightarrow> TrackingContract" where
  "contract_step s CeReset = contract_reset s"
| "contract_step s (CeRequest q now i) = snd (contract_request q now i s)"
| "contract_step s (CeStarted g now) = snd (grounding_started g now s)"
| "contract_step s (CeSucceeded g l c now) = snd (grounding_succeeded g l c now s)"
| "contract_step s (CeFailed g) = snd (grounding_failed g s)"
| "contract_step s (CeStatus b now) = snd (tracker_status b now s)"
| "contract_step s (CeTrackerFailed now) = snd (tracker_failed now s)"
| "contract_step s (CeDetections ids now) = snd (tracker_detections ids now s)"
| "contract_step s (CeTarget i now) = snd (selected_target i now s)"
| "contract_step s (CeCloud n now) = snd (selected_cloud n now s)"
| "contract_step s (CeBundle ids i n now) = snd (observation_bundle ids i n now s)"
| "contract_step s (CeTick now) = snd (contract_tick now s)"

text \<open>The events that begin another epoch: a reset, or a request that is accepted.\<close>

fun begins_epoch :: "contract_event \<Rightarrow> bool" where
  "begins_epoch CeReset = True"
| "begins_epoch (CeRequest q now i) =
     (py_strip q \<noteq> [] \<and> (py_strip i = [] \<or> length (py_strip i) \<le> 128 \<and> printable (py_strip i)) \<and> isfinite now)"
| "begins_epoch e = False"

definition current_epoch :: "contract_event list \<Rightarrow> contract_event list" where
  "current_epoch es = rev (takeWhile (\<lambda>e. \<not> begins_epoch e) (rev es))"

lemma current_epoch_snoc [simp]:
  "current_epoch (es @ [e]) = (if begins_epoch e then [] else current_epoch es @ [e])"
  by (simp add: current_epoch_def)

lemma current_epoch_Nil [simp]: "current_epoch [] = []"
  by (simp add: current_epoch_def)

section \<open>Time\<close>

text \<open>A clock reading raises, goes back and fails the contract, or is taken as it is.\<close>

lemma take_time_cases:
  obtains "\<not> isfinite v" "take_time v s = (Inl (ValueError ''timestamp must be finite''), s)"
  | x t where "v = Fin x" "last_time_s s = Some t" "x < t" "take_time v s = (Inr t, contract_fail CLOCK_ROLLBACK s)"
  | x where "v = Fin x" "take_time v s = (Inr x, s\<lparr> last_time_s := Some x \<rparr>)"
  by (cases v; cases "last_time_s s"; cases "the_fin v < the (last_time_s s)") (auto simp: take_time_def guard_def)

lemma failed_simps [simp]:
  "tc_phase (contract_fail why s) = CP_FAILED" "tc_generation (contract_fail why s) = tc_generation s"
  by (simp_all add: contract_fail_def)

lemma promote_failed [simp]: "tc_phase s = CP_FAILED \<Longrightarrow> promote_if_complete now s = s"
  by (simp add: promote_if_complete_def)

section \<open>Failures last\<close>

lemma request_refused:
  "\<not> begins_epoch (CeRequest q now i) \<Longrightarrow>
     snd (contract_request q now i s) = s \<or> snd (contract_request q now i s) = s\<lparr> last_time_s := None \<rparr>"
  by (cases now) (auto simp: contract_request_def Let_def guard_def take_time_def)

definition contract_failed :: "TrackingContract \<Rightarrow> bool" where
  "contract_failed s = (tc_phase s = CP_FAILED)"

interpretation failed_contract: latched_machine contract_step contract_failed begins_epoch
proof
  fix s e
  assume failed: "contract_failed s" and keep: "\<not> begins_epoch e"
  have time: "tc_phase (snd (take_time v s)) = CP_FAILED" for v
    using failed by (rule_tac v = v and s = s in take_time_cases) (auto simp: contract_failed_def)
  show "contract_failed (contract_step s e)"
  proof (cases e)
    case (CeRequest q now i)
    then show ?thesis using request_refused [of q now i s] keep failed by (auto simp: contract_failed_def)
  next
    case (CeTick now)
    then show ?thesis
      using failed by (rule_tac v = now and s = s in take_time_cases)
        (auto simp: contract_failed_def contract_tick_def Let_def enforce_deadlines_def)
  qed (use failed keep in \<open>auto simp: contract_failed_def grounding_started_def grounding_succeeded_def guard_def
    grounding_failed_def tracker_status_def tracker_failed_def tracker_detections_def selected_target_def
    selected_cloud_def observation_bundle_def listening_def Let_def\<close>)
qed

section \<open>What a snapshot rests on\<close>

fun tells_tracking :: "real \<Rightarrow> contract_event \<Rightarrow> bool" where
  "tells_tracking t (CeStatus b (Fin x)) = (b \<and> x = t)"
| "tells_tracking t e = False"

fun tells_ids :: "string set \<Rightarrow> real \<Rightarrow> contract_event \<Rightarrow> bool" where
  "tells_ids ids t (CeDetections l (Fin x)) = (clean_ids l = ids \<and> x = t)"
| "tells_ids ids t (CeBundle l c n (Fin x)) = (clean_ids l = ids \<and> x = t)"
| "tells_ids ids t e = False"

fun tells_target :: "string \<Rightarrow> real \<Rightarrow> contract_event \<Rightarrow> bool" where
  "tells_target i t (CeTarget c (Fin x)) = (py_strip c = i \<and> x = t)"
| "tells_target i t (CeBundle l c n (Fin x)) = (py_strip c = i \<and> x = t)"
| "tells_target i t e = False"

fun tells_cloud :: "int \<Rightarrow> real \<Rightarrow> contract_event \<Rightarrow> bool" where
  "tells_cloud least t (CeCloud n (Fin x)) = (least \<le> n \<and> x = t)"
| "tells_cloud least t (CeBundle l c n (Fin x)) = (least \<le> n \<and> x = t)"
| "tells_cloud least t e = False"

fun tells_grounding :: "int \<Rightarrow> string \<Rightarrow> real \<Rightarrow> contract_event \<Rightarrow> bool" where
  "tells_grounding g label conf (CeSucceeded h l (Fin c) now) = (h = g \<and> py_strip l = label \<and> c = conf)"
| "tells_grounding g label conf e = False"

definition backed :: "contract_event list \<Rightarrow> TrackingContract \<Rightarrow> bool" where
  "backed evs s =
     (tc_phase s \<noteq> CP_FAILED \<longrightarrow>
       (\<forall>t. tracker_true_at s = Some t \<longrightarrow> (\<exists>e \<in> set evs. tells_tracking t e))
       \<and> (\<forall>t. detections_at s = Some t \<longrightarrow> (\<exists>e \<in> set evs. tells_ids (detection_ids s) t e))
       \<and> (\<forall>t. target_at s = Some t \<longrightarrow> tc_track_id s \<noteq> [] \<and> (\<exists>e \<in> set evs. tells_target (tc_track_id s) t e))
       \<and> (\<forall>t. cloud_at s = Some t \<longrightarrow> (\<exists>e \<in> set evs. tells_cloud (min_cloud_points s) t e))
       \<and> (tc_phase s = CP_TRACKING \<longrightarrow> tc_track_id s \<noteq> [] \<and> tc_track_id s \<in> detection_ids s)
       \<and> (listening s \<longrightarrow> (\<exists>e \<in> set evs. tells_grounding (tc_generation s) (target_label s) (tc_confidence s) e)))"

lemma backed_more: "backed evs s \<Longrightarrow> backed (evs @ [e]) s"
  by (fastforce simp: backed_def)

lemma backed_failed: "tc_phase s = CP_FAILED \<Longrightarrow> backed evs s"
  by (simp add: backed_def)

lemma backed_time:
  assumes "backed evs s"
  shows "backed evs (s\<lparr> last_time_s := x \<rparr>)"
  using assms by (simp add: backed_def listening_def)

lemma backed_promote: "backed evs s \<Longrightarrow> backed evs (promote_if_complete now s)"
  by (simp add: backed_def promote_if_complete_def listening_def)

lemma backed_reset: "backed evs (reset_state s)"
  by (simp add: backed_def reset_state_def listening_def)

lemma backed_fail [simp]: "backed evs (contract_fail why s)"
  by (simp add: backed_failed)

lemma backed_started: "backed evs s \<Longrightarrow> backed evs (s\<lparr> phase_started_at := x \<rparr>)"
  by (simp add: backed_def listening_def)

lemma backed_tracking:
  "backed evs s \<Longrightarrow> \<exists>e \<in> set evs. tells_tracking x e \<Longrightarrow>
     backed evs (s\<lparr> tracker_seen_true := True, tracker_true_at := Some x \<rparr>)"
  by (simp add: backed_def listening_def)

lemma backed_ids:
  "backed evs s \<Longrightarrow> (tc_phase s = CP_TRACKING \<Longrightarrow> tc_track_id s \<in> ids) \<Longrightarrow>
     (\<And>t. seen = Some t \<Longrightarrow> \<exists>e \<in> set evs. tells_ids ids t e) \<Longrightarrow>
     backed evs (s\<lparr> detection_ids := ids, detections_at := seen \<rparr>)"
  by (simp add: backed_def listening_def)

lemma backed_track:
  "backed evs s \<Longrightarrow> tc_track_id s = [] \<or> c = tc_track_id s \<Longrightarrow> backed evs (s\<lparr> tc_track_id := c \<rparr>)"
  by (auto simp: backed_def listening_def)

lemma backed_target:
  "backed evs s \<Longrightarrow> tc_track_id s \<noteq> [] \<Longrightarrow> \<exists>e \<in> set evs. tells_target (tc_track_id s) x e \<Longrightarrow>
     backed evs (s\<lparr> target_at := Some x \<rparr>)"
  by (simp add: backed_def listening_def)

lemma backed_cloud:
  "backed evs s \<Longrightarrow> \<exists>e \<in> set evs. tells_cloud (min_cloud_points s) x e \<Longrightarrow> backed evs (s\<lparr> cloud_at := Some x \<rparr>)"
  by (simp add: backed_def listening_def)

lemma backed_joined:
  assumes "backed evs s" "c \<noteq> []" "c \<in> ids" "tells_ids ids x e" "tells_target c x e"
    "tells_cloud (min_cloud_points s) x e" "e \<in> set evs"
  shows "backed evs (s\<lparr> detection_ids := ids, tc_track_id := c, detections_at := Some x, target_at := Some x,
                       cloud_at := Some x \<rparr>)"
  using assms by (auto simp: backed_def listening_def)

lemma backed_grounding:
  "backed evs s \<Longrightarrow> tc_phase s = CP_GROUNDING \<Longrightarrow> \<exists>e \<in> set evs. tells_grounding (tc_generation s) l c e \<Longrightarrow>
     backed evs (s\<lparr> target_label := l, tc_confidence := c, tc_phase := CP_WAITING_TRACKER \<rparr>)"
  by (simp add: backed_def listening_def)

lemma backed_before_grounding: "backed evs s \<Longrightarrow> \<not> listening s \<Longrightarrow> tc_phase s \<noteq> CP_FAILED \<Longrightarrow> backed evs (s\<lparr> tc_phase := CP_GROUNDING \<rparr>)"
  by (simp add: backed_def listening_def)

text \<open>After a clock reading nothing happened, or the contract failed, or the time was taken.\<close>

lemma backed_timed:
  assumes "backed evs s" and "\<And>t. backed evs (snd (f t (contract_fail CLOCK_ROLLBACK s)))"
    and "\<And>x. v = Fin x \<Longrightarrow> backed evs (snd (f x (s\<lparr> last_time_s := Some x \<rparr>)))"
  shows "backed evs (snd (obind (take_time v s) f))"
  using assms by (rule_tac v = v and s = s in take_time_cases) auto

lemmas backed_intros = backed_timed backed_promote backed_started backed_tracking backed_ids backed_target backed_cloud backed_time

lemma backed_step:
  assumes "backed evs s" "\<not> begins_epoch e"
  shows "backed (evs @ [e]) (contract_step s e)"
proof -
  have more: "backed (evs @ [e]) s" by (rule backed_more [OF assms(1)])
  show ?thesis
  proof (cases e)
    case (CeRequest q now i)
    then show ?thesis using request_refused [of q now i s] assms(2) more backed_time [OF more] by auto
  next
    case (CeStarted g now)
    with more show ?thesis
      by (auto simp: grounding_started_def guard_def listening_def intro!: backed_intros backed_before_grounding)
  next
    case (CeSucceeded g l c now)
    with more show ?thesis
      by (cases c) (auto simp: grounding_succeeded_def guard_def intro!: backed_intros backed_grounding)
  next
    case (CeStatus b now)
    with more show ?thesis by (auto simp: tracker_status_def intro!: backed_intros)
  next
    case (CeDetections l now)
    with more show ?thesis
      by (auto simp: tracker_detections_def Let_def backed_failed intro!: backed_intros split: if_splits)
  next
    case (CeTarget c now)
    with more show ?thesis
      by (auto simp: selected_target_def Let_def backed_failed intro!: backed_intros backed_track)
  next
    case (CeCloud n now)
    with more show ?thesis by (auto simp: selected_cloud_def backed_failed intro!: backed_intros)
  next
    case (CeBundle l c n now)
    have joined: "backed (evs @ [e]) (s\<lparr> last_time_s := Some x, detection_ids := clean_ids l, tc_track_id := py_strip c,
        detections_at := Some x, target_at := Some x, cloud_at := Some x \<rparr>)"
      if "now = Fin x" "py_strip c \<noteq> []" "py_strip c \<in> clean_ids l" "min_cloud_points s \<le> n" for x
      by (rule backed_joined [where e = e]) (use that CeBundle more in \<open>auto intro: backed_time\<close>)
    then have same: "backed (evs @ [e]) (s\<lparr> last_time_s := Some x, detection_ids := clean_ids l,
        detections_at := Some x, target_at := Some x, cloud_at := Some x \<rparr>)"
      if "now = Fin x" "py_strip c = tc_track_id s" "tc_track_id s \<noteq> []" "tc_track_id s \<in> clean_ids l"
        "min_cloud_points s \<le> n" for x
      using joined [of x] that by simp
    show ?thesis
      using more joined same CeBundle
      by (auto simp: observation_bundle_def Let_def not_less backed_failed intro!: backed_timed backed_promote backed_time)
  next
    case (CeTick now)
    with more show ?thesis
      by (auto simp: contract_tick_def enforce_deadlines_def Let_def backed_failed intro!: backed_intros)
  qed (use more assms(2) in \<open>auto simp: grounding_failed_def tracker_failed_def intro!: backed_timed backed_time\<close>)
qed

lemma config_constant: "data_timeout_s (contract_step s e) = data_timeout_s s \<and> min_cloud_points (contract_step s e) = min_cloud_points s"
proof -
  have time: "data_timeout_s (snd (obind (take_time v u) f)) = d \<and> min_cloud_points (snd (obind (take_time v u) f)) = m"
    if "data_timeout_s u = d \<and> min_cloud_points u = m"
      "\<And>t u. data_timeout_s u = d \<and> min_cloud_points u = m \<Longrightarrow> data_timeout_s (snd (f t u)) = d \<and> min_cloud_points (snd (f t u)) = m"
    for v u d m and f :: "real \<Rightarrow> TrackingContract \<Rightarrow> 'x contract_op"
    using that by (rule_tac v = v and s = u in take_time_cases) (auto simp: contract_fail_def)
  show ?thesis
    by (cases e)
      (auto simp: contract_reset_def reset_state_def contract_request_def grounding_started_def grounding_succeeded_def
        guard_def grounding_failed_def tracker_status_def tracker_failed_def tracker_detections_def selected_target_def
        selected_cloud_def observation_bundle_def contract_tick_def enforce_deadlines_def contract_fail_def
        promote_if_complete_def Let_def intro!: time)
qed

lemma backed_new_epoch:
  assumes "begins_epoch e"
  shows "backed [] (contract_step s e)"
proof (cases e)
  case (CeRequest q now i)
  then obtain x where now: "now = Fin x" using assms by (cases now) auto
  show ?thesis
    using assms unfolding CeRequest now
    by (auto simp: contract_request_def Let_def guard_def take_time_def backed_def reset_state_def listening_def)
qed (use assms in \<open>auto simp: contract_reset_def backed_reset\<close>)

lemma backed_run: "backed [] s \<Longrightarrow> backed (current_epoch es) (foldl contract_step s es)"
  by (induction es rule: rev_induct) (auto intro: backed_step backed_new_epoch)

lemma config_run:
  "data_timeout_s (foldl contract_step s es) = data_timeout_s s \<and> min_cloud_points (foldl contract_step s es) = min_cloud_points s"
  by (induction es rule: rev_induct) (simp_all add: config_constant)

lemma contract_init_facts:
  "contract_init f g a d n = Inr s \<Longrightarrow>
     backed [] s \<and> data_timeout_s s = the_fin d \<and> min_cloud_points s = n \<and> tc_phase s = CP_IDLE \<and> tc_generation s = 0"
  by (auto simp: contract_init_def backed_def listening_def)

lemma fresh_last_time [simp]: "stamp_fresh x (s\<lparr> last_time_s := y \<rparr>) = stamp_fresh x s"
  by (simp add: fun_eq_iff stamp_fresh_def split: option.splits)

text \<open>A tick that still reports tracking took its time and found every stamp fresh.\<close>

lemma tracking_tick:
  assumes "contract_tick now s = (Inr p, s')" "snapshot_valid p"
  obtains x where "now = Fin x" and "p = contract_snapshot s'" and "tc_phase s' = CP_TRACKING"
    and "listening s" and "list_all (stamp_fresh x s) (data_stamps s)"
    and "tc_track_id s' = tc_track_id s" "tc_generation s' = tc_generation s" "target_label s' = target_label s"
      "tc_confidence s' = tc_confidence s"
    and "tc_phase s = CP_WAITING_TRACKER \<Longrightarrow> tc_track_id s \<noteq> [] \<and> tc_track_id s \<in> detection_ids s"
proof -
  from take_time_cases [of now s] show ?thesis
  proof cases
    case (3 x)
    show ?thesis
    proof (rule that [of x])
    qed (use 3 assms in \<open>auto simp: contract_tick_def Let_def enforce_deadlines_def promote_if_complete_def listening_def
          snapshot_valid_def contract_snapshot_def contract_fail_def data_stamps_def split: if_splits\<close>)
  qed (use assms in \<open>auto simp: contract_tick_def Let_def enforce_deadlines_def snapshot_valid_def contract_snapshot_def\<close>)
qed

section \<open>The properties\<close>

text \<open>C17: A tick reports a valid track only on evidence of the running request: within the data timeout before the
  tick the tracker said it is tracking, detections arrived that contain the reported track, that track was selected
  as target and a large enough cloud arrived, all after the last reset or accepted request; and the grounding of this
  generation succeeded with the reported label and confidence.\<close>

theorem valid_track_is_backed:
  assumes "contract_init fw gr ac (Fin d) least = Inr s0"
    and "contract_tick now (foldl contract_step s0 es) = (Inr p, s')" and "snapshot_valid p"
  shows "\<exists>x ids. now = Fin x \<and> snap_track_id p \<noteq> [] \<and> snap_track_id p \<in> ids
    \<and> (\<exists>t \<in> {x - d..x}. \<exists>e \<in> set (current_epoch es). tells_tracking t e)
    \<and> (\<exists>t \<in> {x - d..x}. \<exists>e \<in> set (current_epoch es). tells_ids ids t e)
    \<and> (\<exists>t \<in> {x - d..x}. \<exists>e \<in> set (current_epoch es). tells_target (snap_track_id p) t e)
    \<and> (\<exists>t \<in> {x - d..x}. \<exists>e \<in> set (current_epoch es). tells_cloud least t e)
    \<and> (\<exists>e \<in> set (current_epoch es). tells_grounding (snap_generation p) (snap_target_label p) (snap_confidence p) e)"
proof -
  let ?s = "foldl contract_step s0 es"
  from tracking_tick [OF assms(2,3)] obtain x where x: "now = Fin x" "p = contract_snapshot s'" "listening ?s"
      "list_all (stamp_fresh x ?s) (data_stamps ?s)"
      "tc_track_id s' = tc_track_id ?s" "tc_generation s' = tc_generation ?s" "target_label s' = target_label ?s"
      "tc_confidence s' = tc_confidence ?s"
      "tc_phase ?s = CP_WAITING_TRACKER \<Longrightarrow> tc_track_id ?s \<noteq> [] \<and> tc_track_id ?s \<in> detection_ids ?s"
    by metis
  have config: "data_timeout_s ?s = d \<and> min_cloud_points ?s = least"
    using config_run [of s0 es] contract_init_facts [OF assms(1)] by simp
  obtain t1 t2 t3 t4 where t: "tracker_true_at ?s = Some t1" "detections_at ?s = Some t2" "target_at ?s = Some t3"
      "cloud_at ?s = Some t4" "{t1, t2, t3, t4} \<subseteq> {x - d..x}"
    using x(4) config by (auto simp: data_stamps_def stamp_fresh_def split: option.splits)
  have "backed (current_epoch es) ?s" using backed_run contract_init_facts [OF assms(1)] by blast
  then show ?thesis
    using x config t
    by (intro exI [of _ x] exI [of _ "detection_ids ?s"])
      (auto simp: backed_def contract_snapshot_def listening_def; blast)
qed

text \<open>A failed contract reports failure at every tick, whatever arrives, until it is reset or accepts another
  request; a tick with a finite clock always answers.\<close>

theorem failure_lasts_until_next_request:
  assumes "tc_phase s = CP_FAILED" and "\<forall>e \<in> set es. \<not> begins_epoch e" and "isfinite now"
  shows "\<exists>p s'. contract_tick now (foldl contract_step s es) = (Inr p, s')
    \<and> snap_phase p = CP_FAILED \<and> \<not> snapshot_valid p \<and> tc_phase s' = CP_FAILED"
proof -
  let ?s = "foldl contract_step s es"
  have "contract_failed ?s"
    by (rule failed_contract.run_latched) (use assms in \<open>auto simp: contract_failed_def\<close>)
  then have failed: "tc_phase ?s = CP_FAILED" by (simp add: contract_failed_def)
  from take_time_cases [of now ?s] show ?thesis
    by cases (use failed assms(3) in \<open>auto simp: contract_tick_def Let_def enforce_deadlines_def contract_snapshot_def
      snapshot_valid_def contract_fail_def\<close>)
qed

subsection \<open>Witnesses\<close>

definition demo_contract :: TrackingContract where
  "demo_contract = (case contract_init (Fin 2) (Fin 35) (Fin 8) (Fin (1 / 2)) 24 of Inr s \<Rightarrow> s)"

definition demo_acquisition :: "contract_event list" where
  "demo_acquisition =
     [CeRequest ''the red cup'' (Fin 10) ''r1'', CeStarted 1 (Fin 11), CeSucceeded 1 ''cup'' (Fin (9 / 10)) (Fin 12),
      CeStatus True (Fin 13), CeBundle [''a'', ''b''] ''a'' 30 (Fin 13)]"

lemma demo_acquired:
  "\<exists>p s'. contract_tick (Fin (131 / 10)) (foldl contract_step demo_contract demo_acquisition) = (Inr p, s')
     \<and> snapshot_valid p \<and> snap_generation p = 1 \<and> snap_target_label p = ''cup'' \<and> snap_confidence p = 9 / 10"
  by (simp add: demo_contract_def demo_acquisition_def contract_init_def raise_if_def contract_request_def
      grounding_started_def grounding_succeeded_def tracker_status_def observation_bundle_def contract_tick_def
      enforce_deadlines_def promote_if_complete_def take_time_def guard_def Let_def reset_state_def listening_def
      clean_ids_def py_defs data_stamps_def stamp_fresh_def snapshot_valid_def contract_snapshot_def printable_def)

lemma valid_track_is_backed_witness:
  "\<exists>e \<in> set (current_epoch demo_acquisition). tells_grounding 1 ''cup'' (9 / 10) e"
proof -
  have init: "contract_init (Fin 2) (Fin 35) (Fin 8) (Fin (1 / 2)) 24 = Inr demo_contract"
    by (simp add: demo_contract_def contract_init_def raise_if_def)
  from demo_acquired valid_track_is_backed [OF init] show ?thesis by metis
qed

lemma failure_lasts_until_next_request_witness:
  "tc_phase (snd (contract_tick (Fin 4) (foldl contract_step (contract_fail TRACKER_REPORTED_LOSS demo_contract)
      [CeStatus True (Fin 1), CeFailed 0, CeTick (Fin 2)]))) = CP_FAILED"
  using failure_lasts_until_next_request [of "contract_fail TRACKER_REPORTED_LOSS demo_contract"
      "[CeStatus True (Fin 1), CeFailed 0, CeTick (Fin 2)]" "Fin 4"]
  by fastforce

end
