(* ===== verification/Perception_Link.thy ===== *)
theory Perception_Link
  imports Safety_Core Tracking_Messages Tracking_Laws
begin

text \<open>
  The grounding request from the task to the perception bridge: the text \<open>_publish_grounding_request\<close> of
  \<open>src/ros2/z_manip_task/z_manip_task/node.py\<close> publishes, the bridge's reading of it and the request it opens in the
  tracking contract; and the way of a grounded box to the tracker's seed. The identity the node draws from \<open>uuid4\<close> is an
  argument.
\<close>

section \<open>The published text\<close>

definition grounding_scope_for :: "RuntimePhase \<Rightarrow> string \<Rightarrow> string" where
  "grounding_scope_for ph place_mode =
     (if ph = PLACE_GROUNDING then ''place_support''
      else if place_mode = ''carry_only'' then ''grasp_only''
      else ''grasp_for_place'')"

definition grounding_request_text :: "string \<Rightarrow> string \<Rightarrow> string \<Rightarrow> string" where
  "grounding_request_text request_id task_instruction scope =
     the (dumps_object [(''schema'', JStr ''z_manip.grounding_request.v2''), (''request_id'', JStr request_id),
                        (''instruction'', JStr task_instruction), (''scope'', JStr scope)])"

lemma request_text_read:
  "json_loads h (grounding_request_text i q scope) =
     Inr (JObj [(''schema'', JStr ''z_manip.grounding_request.v2''), (''request_id'', JStr i),
                (''instruction'', JStr q), (''scope'', JStr scope)])"
proof -
  let ?ms = "[(''schema'', JStr ''z_manip.grounding_request.v2''), (''request_id'', JStr i), (''instruction'', JStr q),
              (''scope'', JStr scope)]"
  obtain out where out: "dumps_object ?ms = Some out" using textual_dumps_object [of ?ms] by auto
  have "json_loads h out = Inr (JObj ?ms)" by (rule loads_dumps_object [OF _ _ _ out]) simp_all
  then show ?thesis by (simp add: grounding_request_text_def out)
qed

lemma request_text_shape: "\<exists>r. grounding_request_text i q scope = CHR ''{'' # r @ [CHR ''}'']"
  using textual_dumps_object [of "[(''schema'', JStr ''z_manip.grounding_request.v2''), (''request_id'', JStr i),
                        (''instruction'', JStr q), (''scope'', JStr scope)]"]
  by (auto simp: grounding_request_text_def dumps_object_def)

lemma py_strip_braces: "py_strip (CHR ''{'' # r @ [CHR ''}'']) = CHR ''{'' # r @ [CHR ''}'']"
  by (simp add: py_strip_def py_space_def char_ord_def Let_def)

lemma visible_strip: "visible_ascii s \<Longrightarrow> py_strip s = s"
  by (rule py_strip_no_space) (auto simp: visible_ascii_def list_all_iff py_space_def Let_def)

lemma visible_printable: "visible_ascii s = printable s"
  by (simp add: visible_ascii_def printable_def)

text \<open>\<open>uuid4().hex\<close>: thirty-two hexadecimal digits.\<close>

definition uuid_hex :: "string \<Rightarrow> bool" where
  "uuid_hex s \<longleftrightarrow> length s = 32 \<and> list_all (\<lambda>c. c \<in> set ''0123456789abcdef'') s"

lemma uuid_hex_visible:
  assumes "uuid_hex s"
  shows "visible_ascii s"
proof -
  have "list_all (\<lambda>c. 33 \<le> char_ord c \<and> char_ord c \<le> 126) ''0123456789abcdef''" by code_simp
  then show ?thesis using assms by (fastforce simp: uuid_hex_def visible_ascii_def list_all_iff)
qed

text \<open>A request within the bounds of the bridge: an instruction of at most 4096 characters without the spaces around it, and
  a text of at most 8192.\<close>

definition request_bounded :: "string \<Rightarrow> string \<Rightarrow> string \<Rightarrow> bool" where
  "request_bounded uuid q scope \<longleftrightarrow>
     py_strip q \<noteq> [] \<and> length (py_strip q) \<le> 4096 \<and> length (grounding_request_text uuid q scope) \<le> 8192"

text \<open>C19: Of the grounding requests the task publishes, the bridge reads exactly those within its bounds: an instruction that is
  not blank and has at most 4096 characters, in a text of at most 8192. It gets the same identity, the stripped
  instruction and the scope of the task's phase, and the request opens a new generation of the tracking contract that
  carries this identity and waits for a frame, whatever state the contract was in, and forgets an earlier failure. A
  longer request, which the task publishes as well, is refused.\<close>

theorem published_request_opens_generation:
  assumes "uuid_hex uuid" and "scope = grounding_scope_for ph mode"
  shows "if request_bounded uuid q scope then
      \<exists>r s'. parse_grounding_request (grounding_request_text uuid q scope) legacy = Inr r
        \<and> gr_request_id r = uuid \<and> gr_instruction r = py_strip q \<and> gr_scope r = scope
        \<and> contract_request (gr_instruction r) (Fin x) (gr_request_id r) s = (Inr (tc_generation s + 1), s')
        \<and> tc_generation s' = tc_generation s + 1 \<and> tc_request_id s' = uuid \<and> tc_phase s' = CP_WAITING_FRAME
        \<and> tc_failure s' = NO_FAILURE \<and> phase_started_at s' = x
    else \<exists>m. parse_grounding_request (grounding_request_text uuid q scope) legacy = Inl (ValueError m)"
proof -
  let ?text = "grounding_request_text uuid q scope"
  have uuid: "visible_ascii uuid" "uuid \<noteq> []" "length uuid = 32" using assms(1) uuid_hex_visible by (auto simp: uuid_hex_def)
  obtain r where shape: "?text = CHR ''{'' # r @ [CHR ''}'']" using request_text_shape by blast
  have strip: "py_strip ?text = ?text" unfolding shape by (rule py_strip_braces)
  have scope: "scope \<in> set GROUNDING_SCOPES" by (simp add: assms(2) grounding_scope_for_def GROUNDING_SCOPES_def)
  have env: "request_envelope ?text = Inr (uuid, py_strip q, scope)"
    using scope visible_strip [OF uuid(1)]
    by (simp add: request_envelope_def request_text_read request_scope_def has_keys_def raise_if_def insert_commute)
  have "parse_grounding_request ?text legacy =
      (if 8192 < length ?text then Inl (ValueError ''grounding request is not a bounded non-empty string'')
       else if py_strip q = [] \<or> 4096 < length (py_strip q) then Inl (ValueError ''grounding instruction is invalid'')
       else Inr \<lparr> gr_request_id = uuid, gr_instruction = py_strip q, gr_scope = scope \<rparr>)"
    unfolding parse_grounding_request_def strip Let_def
    using uuid env by (simp add: raise_if_def shape)
  then show ?thesis
    using uuid visible_strip [OF uuid(1)]
    by (auto simp: request_bounded_def contract_request_def Let_def guard_def take_time_def reset_state_def visible_printable not_le)
qed

definition sample_uuid :: string where
  "sample_uuid = ''6f1d0b7c2a934e58b1c3d5e7f9082a4b''"

lemma published_request_opens_generation_witness:
  "(\<exists>r. parse_grounding_request (grounding_request_text sample_uuid ''the cup'' ''place_support'') None = Inr r
      \<and> gr_scope r = ''place_support'')
   \<and> (\<exists>m. parse_grounding_request (grounding_request_text sample_uuid (replicate 4097 CHR ''x'') ''place_support'') None
        = Inl (ValueError m))"
proof -
  have uuid: "uuid_hex sample_uuid" by code_simp
  have scope: "''place_support'' = grounding_scope_for PLACE_GROUNDING ''both''" by (simp add: grounding_scope_for_def)
  have "request_bounded sample_uuid ''the cup'' ''place_support''" by code_simp
  moreover have "\<not> request_bounded sample_uuid (replicate 4097 CHR ''x'') ''place_support''"
    using py_strip_no_space [of "replicate 4097 CHR ''x''"] by (simp add: request_bounded_def py_space_def char_ord_def Let_def)
  ultimately show ?thesis
    using published_request_opens_generation [OF uuid scope, where q = "''the cup''" and legacy = None and x = 0 and s = demo_contract]
      published_request_opens_generation [OF uuid scope, where q = "replicate 4097 CHR ''x''" and legacy = None and x = 0 and s = demo_contract]
    by auto
qed

section \<open>The seed box\<close>

text \<open>A grounded box the bridge converts can always be padded into the seed of the tracker: the padded box
  contains the grounded one, lies within the image and has a positive area, for every padding between nothing and the whole
  size.\<close>

theorem seed_box_contains_grounded_box:
  assumes "normalized_xyxy_to_pixel_box xyxy w h = Inr b" and "0 \<le> padding" "padding \<le> 1"
  shows "\<exists>c. expand_pixel_box b w h (Fin padding) = Inr c \<and> box_inside b c \<and> box_inside c (image_box w h)
    \<and> 0 < box_size_x c \<and> 0 < box_size_y c"
proof -
  obtain v0 v1 v2 v3 where xyxy: "xyxy = [Fin v0, Fin v1, Fin v2, Fin v3]"
    and v: "0 \<le> v0" "v0 < v2" "v2 \<le> 1" "0 \<le> v1" "v1 < v3" "v3 \<le> 1"
    and wh: "0 < w" "0 < h"
    and b: "b = \<lparr> box_center_x = 1 / 2 * (v0 + v2) * of_int w, box_center_y = 1 / 2 * (v1 + v3) * of_int h,
             box_size_x = (v2 - v0) * of_int w, box_size_y = (v3 - v1) * of_int h \<rparr>"
    using assms(1)
    by (auto simp: normalized_xyxy_to_pixel_box_def Let_def numeral_eq_Suc length_Suc_conv isfinite_iff not_le)
  have axis: "0 \<le> lo * W \<and> lo * W < hi * W \<and> hi * W \<le> W \<and> 0 \<le> (hi - lo) * W * padding"
    if "0 \<le> lo" "lo < hi" "hi \<le> 1" "0 < W" for lo hi W :: real
    using that assms(2) mult_right_mono [of hi 1 W] by auto
  have mid: "(lo + hi) * W / 2 - (hi - lo) * W * (1 / 2 + padding) = lo * W - (hi - lo) * W * padding"
      "(lo + hi) * W / 2 + (hi - lo) * W * (1 / 2 + padding) = hi * W + (hi - lo) * W * padding"
    for lo hi W :: real by (simp_all add: field_simps)
  have W: "0 < real_of_int w" "0 < real_of_int h" using wh by simp_all
  note x = axis [OF v(1,2,3) W(1)] and y = axis [OF v(4,5,6) W(2)]
  let ?X = "(v2 - v0) * real_of_int w * padding" and ?Y = "(v3 - v1) * real_of_int h * padding"
  let ?x1 = "max 0 (v0 * real_of_int w - ?X)" and ?x2 = "min (real_of_int w) (v2 * real_of_int w + ?X)"
    and ?y1 = "max 0 (v1 * real_of_int h - ?Y)" and ?y2 = "min (real_of_int h) (v3 * real_of_int h + ?Y)"
  let ?c = "\<lparr> box_center_x = 1 / 2 * (?x1 + ?x2), box_center_y = 1 / 2 * (?y1 + ?y2), box_size_x = ?x2 - ?x1,
             box_size_y = ?y2 - ?y1 \<rparr>"
  have clip: "max 0 (a - c) < min m (d + c)" if "0 \<le> a \<and> a < d \<and> d \<le> m \<and> 0 \<le> c" for a c d m :: real
    using that by auto
  have pos: "?x1 < ?x2" "?y1 < ?y2" by (rule clip [OF x], rule clip [OF y])
  have "expand_pixel_box b w h (Fin padding) = Inr ?c"
    using pos v wh W assms(2,3) by (simp add: expand_pixel_box_def b mid Let_def raise_if_def not_le)
  moreover have "box_inside b ?c" using x y by (auto simp: box_inside_def b field_simps)
  moreover have "box_inside ?c (image_box w h)" by (auto simp: box_inside_def image_box_def field_simps)
  ultimately show ?thesis using pos by auto
qed

lemma seed_box_contains_grounded_box_witness:
  "\<exists>b c. normalized_xyxy_to_pixel_box [Fin (1 / 4), Fin 0, Fin (1 / 2), Fin 1] 640 480 = Inr b
     \<and> expand_pixel_box b 640 480 (Fin (1 / 10)) = Inr c \<and> box_inside b c"
proof -
  obtain b where b: "normalized_xyxy_to_pixel_box [Fin (1 / 4), Fin 0, Fin (1 / 2), Fin 1] 640 480 = Inr b"
    by (simp add: normalized_xyxy_to_pixel_box_def raise_if_def Let_def)
  from seed_box_contains_grounded_box [OF b, of "1 / 10"] b show ?thesis by auto
qed

end
