(* ===== verification/Observation_Bundle.thy ===== *)
theory Observation_Bundle
  imports Prelude "HOL-Library.AList"
begin

text \<open>
  \<open>ExactObservationBundler\<close> of \<open>src/ros2/z_manip_ros/z_manip_ros/contract.py\<close>: the outputs of the tracker arrive on four
  topics, and the bundler joins those of one camera frame and one seed epoch. The content of a message is a
  type parameter. The pending frames are an \<open>OrderedDict\<close>: a list of entries, the oldest first.
\<close>

section \<open>The bundler\<close>

definition BUNDLE_KINDS :: "string list" where
  "BUNDLE_KINDS = [''detections'', ''target'', ''cloud'', ''manifest'']"

record 'p ExactObservationBundle =
  bundle_generation :: int
  bundle_stamp_ns :: int
  bundle_frame_id :: string
  bundle_detections :: 'p
  bundle_target :: 'p
  bundle_cloud :: 'p
  bundle_manifest :: 'p

type_synonym 'p partial_bundle = "(string \<times> 'p) list"

record 'p ExactObservationBundler =
  max_pending_bundles :: int
  ob_generation :: int
  ob_seed_stamp_ns :: "int option"
  last_emitted_stamp_ns :: "int option"
  pending_frames :: "((int \<times> string) \<times> 'p partial_bundle) list"

type_synonym ('a, 'p) bundler_op = "('a, 'p ExactObservationBundler) outcome"

definition int64_stamp :: "int \<Rightarrow> bool" where
  "int64_stamp i = (0 \<le> i \<and> i \<le> 2 ^ 63 - 1)"

definition bundler_reset :: "int \<Rightarrow> int option \<Rightarrow> 'p ExactObservationBundler \<Rightarrow> (unit, 'p) bundler_op" where
  "bundler_reset generation seed s =
     guard (generation < 0) (ValueError ''bundle generation must be a non-negative integer'') s
     (guard (case seed of None \<Rightarrow> False | Some i \<Rightarrow> \<not> int64_stamp i) (ValueError ''bundle seed timestamp is invalid'') s
     (Inr (), s\<lparr> ob_generation := generation, ob_seed_stamp_ns := seed, last_emitted_stamp_ns := seed,
                pending_frames := [] \<rparr>))"

definition bundler_init :: "int \<Rightarrow> 'p ExactObservationBundler res" where
  "bundler_init n =
     raise_if (n < 1) (ValueError ''max_pending_bundles must be a positive integer'')
       (Inr \<lparr> max_pending_bundles = n, ob_generation = 0, ob_seed_stamp_ns = None, last_emitted_stamp_ns = None,
              pending_frames = [] \<rparr>)"

text \<open>\<open>setdefault\<close>, the write and \<open>move_to_end\<close>, then the eviction of the oldest frames.\<close>

definition put_pending ::
  "int \<times> string \<Rightarrow> string \<Rightarrow> 'p \<Rightarrow> ((int \<times> string) \<times> 'p partial_bundle) list
     \<Rightarrow> 'p partial_bundle \<times> ((int \<times> string) \<times> 'p partial_bundle) list" where
  "put_pending key kind payload frames =
     (let partial = AList.update kind payload (case map_of frames key of None \<Rightarrow> [] | Some p \<Rightarrow> p) in
      (partial, filter (\<lambda>f. fst f \<noteq> key) frames @ [(key, partial)]))"

definition evict_oldest :: "int \<Rightarrow> 'f list \<Rightarrow> 'f list" where
  "evict_oldest limit frames = drop (length frames - nat limit) frames"

definition bundler_add ::
  "string \<Rightarrow> int \<Rightarrow> int \<Rightarrow> string \<Rightarrow> 'p \<Rightarrow> 'p ExactObservationBundler
     \<Rightarrow> ('p ExactObservationBundle option, 'p) bundler_op" where
  "bundler_add kind generation stamp frame payload s =
     guard (kind \<notin> set BUNDLE_KINDS) (ValueError ''unknown observation bundle stream'') s
     (case ob_seed_stamp_ns s of
        None \<Rightarrow> (Inr None, s)
      | Some seed \<Rightarrow>
          if generation \<noteq> ob_generation s then (Inr None, s)
          else
            guard (\<not> int64_stamp stamp) (ValueError ''observation timestamp is invalid'') s
            (let clean_frame = py_strip frame in
             guard (clean_frame = [] \<or> 256 < length clean_frame) (ValueError ''observation frame_id is invalid'') s
             (if stamp \<le> seed \<or> (case last_emitted_stamp_ns s of None \<Rightarrow> False | Some t \<Rightarrow> stamp \<le> t)
              then (Inr None, s)
              else
                (let (partial, put) = put_pending (stamp, clean_frame) kind payload (pending_frames s);
                     kept = evict_oldest (max_pending_bundles s) put in
                 if \<not> list_all (\<lambda>k. k \<in> set (map fst partial)) BUNDLE_KINDS then
                   (Inr None, s\<lparr> pending_frames := kept \<rparr>)
                 else
                   (let item = (\<lambda>k. the (map_of partial k)) in
                    (Inr (Some \<lparr> bundle_generation = generation, bundle_stamp_ns = stamp, bundle_frame_id = clean_frame,
                                bundle_detections = item ''detections'', bundle_target = item ''target'',
                                bundle_cloud = item ''cloud'', bundle_manifest = item ''manifest'' \<rparr>),
                     s\<lparr> last_emitted_stamp_ns := Some stamp,
                        pending_frames := filter (\<lambda>f. stamp < fst (fst f)) kept \<rparr>))))))"

section \<open>Runs of one epoch\<close>

record 'p stream_item =
  item_kind :: string
  item_generation :: int
  item_stamp_ns :: int
  item_frame_id :: string
  item_payload :: 'p

definition add_item :: "'p stream_item \<Rightarrow> 'p ExactObservationBundler \<Rightarrow> ('p ExactObservationBundle option, 'p) bundler_op" where
  "add_item a = bundler_add (item_kind a) (item_generation a) (item_stamp_ns a) (item_frame_id a) (item_payload a)"

text \<open>The bundles a run hands out, in order.\<close>

fun emitted :: "'p ExactObservationBundler \<Rightarrow> 'p stream_item list \<Rightarrow> 'p ExactObservationBundle list" where
  "emitted s [] = []"
| "emitted s (a # as) =
     (case add_item a s of
        (Inr (Some b), t) \<Rightarrow> b # emitted t as
      | (r, t) \<Rightarrow> emitted t as)"

text \<open>An item that belongs to the frame of a bundle and carries one of its four parts.\<close>

definition part_of :: "'p ExactObservationBundle \<Rightarrow> string \<Rightarrow> 'p \<Rightarrow> 'p stream_item \<Rightarrow> bool" where
  "part_of b kind payload a =
     (item_kind a = kind \<and> item_payload a = payload \<and> item_generation a = bundle_generation b
      \<and> item_stamp_ns a = bundle_stamp_ns b \<and> py_strip (item_frame_id a) = bundle_frame_id b)"

definition exact_bundle :: "'p stream_item list \<Rightarrow> 'p ExactObservationBundle \<Rightarrow> bool" where
  "exact_bundle as b =
     ((\<exists>a \<in> set as. part_of b ''detections'' (bundle_detections b) a)
      \<and> (\<exists>a \<in> set as. part_of b ''target'' (bundle_target b) a)
      \<and> (\<exists>a \<in> set as. part_of b ''cloud'' (bundle_cloud b) a)
      \<and> (\<exists>a \<in> set as. part_of b ''manifest'' (bundle_manifest b) a))"

text \<open>What is pending: parts of frames newer than the last bundle, each as it arrived, at most the configured number.\<close>

definition frame_holds :: "'p stream_item list \<Rightarrow> int \<Rightarrow> (int \<times> string) \<times> 'p partial_bundle \<Rightarrow> bool" where
  "frame_holds as g f =
     (\<forall>k p. map_of (snd f) k = Some p \<longrightarrow>
        (\<exists>a \<in> set as. item_kind a = k \<and> item_payload a = p \<and> item_generation a = g
           \<and> item_stamp_ns a = fst (fst f) \<and> py_strip (item_frame_id a) = snd (fst f)))"

definition bundler_inv :: "'p stream_item list \<Rightarrow> int \<Rightarrow> int \<Rightarrow> 'p ExactObservationBundler \<Rightarrow> bool" where
  "bundler_inv as g newest s =
     (ob_generation s = g \<and> last_emitted_stamp_ns s = Some newest \<and> 1 \<le> max_pending_bundles s
      \<and> (\<exists>seed. ob_seed_stamp_ns s = Some seed \<and> seed \<le> newest)
      \<and> length (pending_frames s) \<le> nat (max_pending_bundles s)
      \<and> distinct (map fst (pending_frames s))
      \<and> list_all (\<lambda>f. frame_holds as g f \<and> newest < fst (fst f)) (pending_frames s))"

lemma frame_holds_more: "frame_holds as g f \<Longrightarrow> set as \<subseteq> set bs \<Longrightarrow> frame_holds bs g f"
  by (fastforce simp: frame_holds_def)

section \<open>Each item keeps the invariant\<close>

lemma put_pending_facts:
  assumes "put_pending key kind payload frames = (partial, put)" and "distinct (map fst frames)"
  shows "distinct (map fst put)" and "put \<noteq> []"
    and "map_of partial k = (if k = kind then Some payload
           else (case map_of frames key of None \<Rightarrow> None | Some p \<Rightarrow> map_of p k))"
    and "f \<in> set put \<Longrightarrow> f = (key, partial) \<or> f \<in> set frames"
    and "length put \<le> Suc (length frames)" and "last put = (key, partial)"
  using assms
  by (cases "map_of frames key"; auto simp: put_pending_def Let_def update_conv' distinct_map_filter le_SucI)+

lemma held_partial:
  assumes put: "put_pending (item_stamp_ns a, py_strip (item_frame_id a)) (item_kind a) (item_payload a) frames = (partial, put)"
    and "distinct (map fst frames)" and "list_all (frame_holds as g) frames" and "item_generation a = g"
  shows "frame_holds (as @ [a]) g ((item_stamp_ns a, py_strip (item_frame_id a)), partial)"
  unfolding frame_holds_def
proof (intro allI impI)
  fix k p
  let ?key = "(item_stamp_ns a, py_strip (item_frame_id a))"
  assume p: "map_of (snd (?key, partial)) k = Some p"
  show "\<exists>a' \<in> set (as @ [a]). item_kind a' = k \<and> item_payload a' = p \<and> item_generation a' = g
      \<and> item_stamp_ns a' = fst (fst (?key, partial)) \<and> py_strip (item_frame_id a') = snd (fst (?key, partial))"
  proof (cases "k = item_kind a")
    case True
    then show ?thesis using p assms(4) put_pending_facts(3) [OF put assms(2), of k] by auto
  next
    case False
    then obtain q where "map_of frames ?key = Some q" "map_of q k = Some p"
      using p put_pending_facts(3) [OF put assms(2), of k] by (auto split: option.splits)
    then show ?thesis
      using assms(3) by (fastforce simp: list_all_iff frame_holds_def dest: map_of_SomeD)
  qed
qed

lemma bundler_inv_more: "bundler_inv as g newest s \<Longrightarrow> bundler_inv (as @ [a]) g newest s"
  by (auto simp: bundler_inv_def list_all_iff intro: frame_holds_more [where as = as])

lemma kept_frames:
  assumes "put_pending key kind payload (pending_frames s) = (partial, put)" and "distinct (map fst (pending_frames s))"
  shows "length (evict_oldest n put) \<le> nat n" and "distinct (map fst (evict_oldest n put))"
    and "f \<in> set (evict_oldest n put) \<Longrightarrow> f = (key, partial) \<or> f \<in> set (pending_frames s)"
proof -
  show "length (evict_oldest n put) \<le> nat n" "distinct (map fst (evict_oldest n put))"
    using put_pending_facts(1) [OF assms] by (auto simp: evict_oldest_def drop_map [symmetric])
  show "f = (key, partial) \<or> f \<in> set (pending_frames s)" if "f \<in> set (evict_oldest n put)"
    using put_pending_facts(4) [OF assms] in_set_dropD that unfolding evict_oldest_def by metis
qed

lemma bundler_step:
  assumes inv: "bundler_inv as g newest s" and add: "add_item a s = (r, t)"
  shows "(\<exists>b. r = Inr (Some b) \<and> newest < bundle_stamp_ns b \<and> bundle_generation b = g \<and> exact_bundle (as @ [a]) b
            \<and> bundler_inv (as @ [a]) g (bundle_stamp_ns b) t)
    \<or> (\<forall>b. r \<noteq> Inr (Some b)) \<and> bundler_inv (as @ [a]) g newest t"
proof -
  let ?key = "(item_stamp_ns a, py_strip (item_frame_id a))"
  obtain seed where s: "ob_generation s = g" "last_emitted_stamp_ns s = Some newest" "ob_seed_stamp_ns s = Some seed"
      "seed \<le> newest" "distinct (map fst (pending_frames s))" "1 \<le> max_pending_bundles s"
    and held: "list_all (frame_holds as g) (pending_frames s)" and newer: "list_all (\<lambda>f. newest < fst (fst f)) (pending_frames s)"
    using inv by (auto simp: bundler_inv_def list_all_iff)
  obtain partial put where put: "put_pending ?key (item_kind a) (item_payload a) (pending_frames s) = (partial, put)"
    by fastforce
  let ?kept = "evict_oldest (max_pending_bundles s) put"
  note kept = kept_frames [OF put s(5), where n = "max_pending_bundles s"]
  show ?thesis
  proof (cases "item_kind a \<in> set BUNDLE_KINDS \<and> item_generation a = g \<and> int64_stamp (item_stamp_ns a)
      \<and> \<not> (py_strip (item_frame_id a) = [] \<or> 256 < length (py_strip (item_frame_id a))) \<and> newest < item_stamp_ns a")
    case False
    then have "(\<forall>b. r \<noteq> Inr (Some b)) \<and> t = s"
      using add s by (auto simp: add_item_def bundler_add_def guard_def Let_def split: if_splits)
    then show ?thesis using bundler_inv_more [OF inv] by blast
  next
    case True
    have hold: "frame_holds (as @ [a]) g f \<and> newest < fst (fst f)" if "f \<in> set ?kept" for f
      using kept(3) [OF that] held_partial [OF put s(5) held] True held newer
      by (auto simp: list_all_iff intro: frame_holds_more [where as = as])
    show ?thesis
    proof (cases "list_all (\<lambda>k. k \<in> set (map fst partial)) BUNDLE_KINDS")
      case False
      then have "(\<forall>b. r \<noteq> Inr (Some b)) \<and> t = s\<lparr> pending_frames := ?kept \<rparr>"
        using add s True put by (auto simp: add_item_def bundler_add_def guard_def Let_def split: if_splits)
      then show ?thesis using s hold kept(1,2) by (auto simp: bundler_inv_def list_all_iff)
    next
      case all: True
      then have out: "r = Inr (Some \<lparr> bundle_generation = g, bundle_stamp_ns = item_stamp_ns a,
              bundle_frame_id = py_strip (item_frame_id a), bundle_detections = the (map_of partial ''detections''),
              bundle_target = the (map_of partial ''target''), bundle_cloud = the (map_of partial ''cloud''),
              bundle_manifest = the (map_of partial ''manifest'') \<rparr>)"
          "t = s\<lparr> last_emitted_stamp_ns := Some (item_stamp_ns a),
                   pending_frames := filter (\<lambda>f. item_stamp_ns a < fst (fst f)) ?kept \<rparr>"
        using add s True put by (auto simp: add_item_def bundler_add_def guard_def Let_def split: if_splits)
      have part: "\<exists>a' \<in> set (as @ [a]). item_kind a' = k \<and> item_payload a' = the (map_of partial k)
          \<and> item_generation a' = g \<and> item_stamp_ns a' = item_stamp_ns a \<and> py_strip (item_frame_id a') = py_strip (item_frame_id a)"
        if "k \<in> set BUNDLE_KINDS" for k
      proof -
        have "k \<in> set (map fst partial)" using all that by (simp add: list_all_iff)
        then obtain p where "map_of partial k = Some p" by (metis list.set_map map_of_eq_None_iff not_None_eq)
        then show ?thesis using held_partial [OF put s(5) held] True by (fastforce simp: frame_holds_def)
      qed
      have "length (filter (\<lambda>f. item_stamp_ns a < fst (fst f)) ?kept) \<le> nat (max_pending_bundles s)"
        using kept(1) by (meson length_filter_le order_trans)
      then have "bundler_inv (as @ [a]) g (item_stamp_ns a) t"
        using s hold kept(2) True by (auto simp: bundler_inv_def list_all_iff out(2) distinct_map_filter)
      then show ?thesis
        using out(1) True part by (auto simp: exact_bundle_def part_of_def BUNDLE_KINDS_def)
    qed
  qed
qed

section \<open>The properties\<close>

lemma emitted_in_order:
  "bundler_inv as g newest s \<Longrightarrow>
     sorted_wrt (\<lambda>x y. bundle_stamp_ns x < bundle_stamp_ns y) (emitted s bs)
     \<and> (\<forall>b \<in> set (emitted s bs). newest < bundle_stamp_ns b \<and> bundle_generation b = g \<and> exact_bundle (as @ bs) b)"
proof (induction bs arbitrary: s as newest)
  case (Cons a bs)
  obtain r t where add: "add_item a s = (r, t)" by fastforce
  from bundler_step [OF Cons.prems add] show ?case
  proof (elim disjE exE conjE)
    fix b
    assume b: "r = Inr (Some b)" "newest < bundle_stamp_ns b" "bundle_generation b = g" "exact_bundle (as @ [a]) b"
      and inv: "bundler_inv (as @ [a]) g (bundle_stamp_ns b) t"
    have "exact_bundle (as @ a # bs) b" using b(4) by (fastforce simp: exact_bundle_def)
    then show ?thesis using Cons.IH [OF inv] add b by (auto intro: order.strict_trans)
  next
    assume "\<forall>b. r \<noteq> Inr (Some b)" and inv: "bundler_inv (as @ [a]) g newest t"
    then have "emitted s (a # bs) = emitted t bs" using add by (auto split: sum.splits option.splits)
    then show ?thesis using Cons.IH [OF inv] by simp
  qed
qed simp

text \<open>C18: After a reset to a generation and a seed, every bundle joins four messages of one camera frame: the same
  generation, stamp and frame id, each part as it arrived in this epoch, whatever order and mixture of frames the
  four topics deliver. The stamps of the bundles increase strictly and are newer than the seed, so no frame is
  handed out twice and nothing pending from an earlier epoch is used.\<close>

theorem bundles_are_exact_and_in_order:
  assumes "bundler_reset g (Some seed) s = (Inr (), t)" and "1 \<le> max_pending_bundles s"
  shows "sorted_wrt (\<lambda>x y. bundle_stamp_ns x < bundle_stamp_ns y) (emitted t as)
    \<and> (\<forall>b \<in> set (emitted t as). seed < bundle_stamp_ns b \<and> bundle_generation b = g \<and> exact_bundle as b)"
proof -
  have "bundler_inv [] g seed t"
    using assms by (auto simp: bundler_reset_def guard_def bundler_inv_def split: if_splits)
  from emitted_in_order [OF this] show ?thesis by simp
qed

definition demo_item :: "string \<Rightarrow> int \<Rightarrow> nat stream_item" where
  "demo_item k stamp = \<lparr> item_kind = k, item_generation = 3, item_stamp_ns = stamp, item_frame_id = ''camera'',
                         item_payload = length k \<rparr>"

definition demo_bundler :: "nat ExactObservationBundler" where
  "demo_bundler = \<lparr> max_pending_bundles = 2, ob_generation = 0, ob_seed_stamp_ns = None, last_emitted_stamp_ns = None,
                    pending_frames = [] \<rparr>"

definition demo_items :: "nat stream_item list" where
  "demo_items = [demo_item ''cloud'' 20, demo_item ''detections'' 30, demo_item ''target'' 20, demo_item ''manifest'' 20,
                 demo_item ''detections'' 20, demo_item ''cloud'' 30]"

lemma bundles_are_exact_and_in_order_witness:
  "map bundle_stamp_ns (emitted (snd (bundler_reset 3 (Some 10) demo_bundler)) demo_items) = [20]
   \<and> list_all (exact_bundle demo_items) (emitted (snd (bundler_reset 3 (Some 10) demo_bundler)) demo_items)"
proof -
  have run: "map bundle_stamp_ns (emitted (snd (bundler_reset 3 (Some 10) demo_bundler)) demo_items) = [20]" by code_simp
  have reset: "bundler_reset 3 (Some 10) demo_bundler = (Inr (), snd (bundler_reset 3 (Some 10) demo_bundler))" by code_simp
  have "1 \<le> max_pending_bundles demo_bundler" by (simp add: demo_bundler_def)
  from bundles_are_exact_and_in_order [OF reset this] run show ?thesis by (simp add: list_all_iff)
qed

end
