(* ===== verification/Base_Lock.thy ===== *)
theory Base_Lock
  imports Json Interfaces
begin

text \<open>
  The posture lock of the base during a grasp, \<open>src/scripts/runtime/go2w_base_lock.py\<close>: \<open>BaseLockController\<close> is the owner on
  the workstation, \<open>BaseLockLatch\<close> the latch on the robot with its lease. The transport \<open>emit\<close> is an argument: it answers
  a command with an acknowledgement or raises. The heartbeat thread is part of the state: whether it runs and
  whether its stop event is set. An operation of the owner answers the state after it and the commands it
  emitted, in order. Clock readings are finite; a lease read from a command is any float.
\<close>

section \<open>Commands\<close>

definition BASE_LOCK_COMMAND_SCHEMA :: string where
  "BASE_LOCK_COMMAND_SCHEMA = ''z_manip.go2w_base_lock_command.v1''"

definition BASE_LOCK_STATUS_SCHEMA :: string where
  "BASE_LOCK_STATUS_SCHEMA = ''z_manip.go2w_base_lock_status.v1''"

definition DEFAULT_LOCK_LEASE_S :: real where
  "DEFAULT_LOCK_LEASE_S = 120"

datatype BaseLockState = BL_UNLOCKED | BL_LOCK_REQUESTED | BL_LOCKED | BL_UNLOCK_REQUESTED

fun lock_state_text :: "BaseLockState \<Rightarrow> string" where
  "lock_state_text BL_UNLOCKED = ''unlocked''"
| "lock_state_text BL_LOCK_REQUESTED = ''lock_requested''"
| "lock_state_text BL_LOCKED = ''locked''"
| "lock_state_text BL_UNLOCK_REQUESTED = ''unlock_requested''"

record BaseLockAck =
  ack_delivered :: bool
  ack_nuc_state :: "string option"

definition undelivered :: BaseLockAck where
  "undelivered = \<lparr> ack_delivered = False, ack_nuc_state = None \<rparr>"

definition build_command :: "bool \<Rightarrow> string \<Rightarrow> int \<Rightarrow> real \<Rightarrow> int \<Rightarrow> (string \<times> json) list" where
  "build_command lock source seq lease unix_ns =
     [(''schema'', JStr BASE_LOCK_COMMAND_SCHEMA), (''lock'', JBool lock), (''source'', JStr source), (''seq'', JInt seq),
      (''lease_s'', JFloat (Fin lease)), (''requested_unix_ns'', JInt unix_ns)]"

type_synonym lock_command = "(string \<times> json) list"

type_synonym lock_transport = "lock_command \<Rightarrow> exn + BaseLockAck"

section \<open>The owner\<close>

record BaseLockController =
  owner_lease_s :: real
  heartbeat_period_s :: "real option"
  owner_state :: BaseLockState
  owner_source :: "string option"
  owner_since :: "real option"
  owner_seq :: int
  last_refusal :: "string option"
  owner_delivered :: bool
  heartbeat_alive :: bool
  heartbeat_stop :: bool

definition controller_init :: "real \<Rightarrow> real option \<Rightarrow> BaseLockController" where
  "controller_init lease period =
     \<lparr> owner_lease_s = lease, heartbeat_period_s = period, owner_state = BL_UNLOCKED, owner_source = None,
       owner_since = None, owner_seq = 0, last_refusal = None, owner_delivered = False, heartbeat_alive = False,
       heartbeat_stop = False \<rparr>"

definition is_engaged :: "BaseLockController \<Rightarrow> bool" where
  "is_engaged s = (owner_state s \<in> {BL_LOCK_REQUESTED, BL_LOCKED})"

text \<open>\<open>_safe_emit\<close>: an exception counts as an undelivered command.\<close>

definition safe_emit :: "lock_transport \<Rightarrow> lock_command \<Rightarrow> BaseLockAck" where
  "safe_emit emit c = (case emit c of Inl e \<Rightarrow> undelivered | Inr a \<Rightarrow> a)"

definition confirms :: "string \<Rightarrow> BaseLockAck \<Rightarrow> bool" where
  "confirms what a = (ack_delivered a \<and> ack_nuc_state a = Some what)"

definition finish_unlock :: "BaseLockController \<Rightarrow> BaseLockController" where
  "finish_unlock s =
     s\<lparr> owner_state := BL_UNLOCKED, owner_source := None, owner_since := None, heartbeat_stop := True \<rparr>"

text \<open>\<open>_start_heartbeat_locked\<close>: a thread that is still alive is kept, whether or not it was told to stop.\<close>

definition start_heartbeat :: "BaseLockController \<Rightarrow> BaseLockController" where
  "start_heartbeat s =
     (if (case heartbeat_period_s s of None \<Rightarrow> True | Some p \<Rightarrow> p \<le> 0) then s
      else if heartbeat_alive s then s
      else s\<lparr> heartbeat_stop := False, heartbeat_alive := True \<rparr>)"

definition request_lock ::
  "lock_transport \<Rightarrow> int \<Rightarrow> string \<Rightarrow> bool \<Rightarrow> real \<Rightarrow> BaseLockController \<Rightarrow> BaseLockController \<times> lock_command list" where
  "request_lock emit unix_ns source base_stopped now s =
     (if \<not> base_stopped then
        (s\<lparr> last_refusal := Some ''refused: base is not stopped (servo phase)'' \<rparr>, [])
      else if is_engaged s then (s\<lparr> last_refusal := None \<rparr>, [])
      else
        (let t = s\<lparr> last_refusal := None, owner_seq := owner_seq s + 1, owner_state := BL_LOCK_REQUESTED,
                    owner_source := Some source, owner_since := Some now \<rparr>;
             c = build_command True source (owner_seq t) (owner_lease_s t) unix_ns;
             a = safe_emit emit c;
             u = t\<lparr> owner_delivered := ack_delivered a,
                    owner_state := if confirms ''locked'' a then BL_LOCKED else BL_LOCK_REQUESTED \<rparr> in
         (start_heartbeat u, [c])))"

definition request_unlock ::
  "lock_transport \<Rightarrow> int \<Rightarrow> string \<Rightarrow> BaseLockController \<Rightarrow> BaseLockController \<times> lock_command list" where
  "request_unlock emit unix_ns source s =
     (if owner_state s \<in> {BL_UNLOCKED, BL_UNLOCK_REQUESTED} then (s, [])
      else
        (let t = s\<lparr> owner_seq := owner_seq s + 1, owner_state := BL_UNLOCK_REQUESTED \<rparr>;
             c = build_command False source (owner_seq t) (owner_lease_s t) unix_ns;
             a = safe_emit emit c;
             u = t\<lparr> owner_delivered := ack_delivered a \<rparr> in
         (if confirms ''unlocked'' a then finish_unlock u else u, [c])))"

definition extract_nuc_lock_state :: "json \<Rightarrow> string option" where
  "extract_nuc_lock_state doc =
     (case doc of
        JObj ms \<Rightarrow>
          (case jget ms ''base_lock'' of
             Some (JObj b) \<Rightarrow>
               (case jget b ''state'' of
                  Some (JStr v) \<Rightarrow> if v = ''locked'' \<or> v = ''unlocked'' then Some v else None
                | _ \<Rightarrow> None)
           | _ \<Rightarrow> None)
      | _ \<Rightarrow> None)"

definition observe_status :: "json \<Rightarrow> BaseLockController \<Rightarrow> BaseLockController" where
  "observe_status doc s =
     (case extract_nuc_lock_state doc of
        None \<Rightarrow> s
      | Some v \<Rightarrow>
          if v = ''locked'' \<and> owner_state s = BL_LOCK_REQUESTED then s\<lparr> owner_state := BL_LOCKED \<rparr>
          else if v = ''unlocked'' \<and> owner_state s = BL_UNLOCK_REQUESTED then finish_unlock s
          else s)"

text \<open>The source of a renewal: \<open>self._source or 'heartbeat'\<close>.\<close>

definition renewal_source :: "BaseLockController \<Rightarrow> string" where
  "renewal_source s = (case owner_source s of None \<Rightarrow> ''heartbeat'' | Some x \<Rightarrow> if x = [] then ''heartbeat'' else x)"

definition lock_heartbeat ::
  "lock_transport \<Rightarrow> int \<Rightarrow> BaseLockController \<Rightarrow> BaseLockController \<times> lock_command list" where
  "lock_heartbeat emit unix_ns s =
     (if is_engaged s then
        (let c = build_command True (renewal_source s) (owner_seq s) (owner_lease_s s) unix_ns; a = safe_emit emit c in
         (s\<lparr> owner_delivered := ack_delivered a,
             owner_state := if confirms ''locked'' a then BL_LOCKED else owner_state s \<rparr>, [c]))
      else if owner_state s = BL_UNLOCK_REQUESTED then
        (let c = build_command False (renewal_source s) (owner_seq s) (owner_lease_s s) unix_ns; a = safe_emit emit c in
         (if confirms ''unlocked'' a then finish_unlock s else s, [c]))
      else (s, []))"

text \<open>
  One turn of \<open>_heartbeat_loop\<close>: the wait ends at once when the stop event is set, and the thread with it; after
  a full period an idle owner ends the thread too, any other gets its heartbeat.
\<close>

definition heartbeat_turn ::
  "lock_transport \<Rightarrow> int \<Rightarrow> BaseLockController \<Rightarrow> BaseLockController \<times> lock_command list" where
  "heartbeat_turn emit unix_ns s =
     (if \<not> heartbeat_alive s then (s, [])
      else if heartbeat_stop s then (s\<lparr> heartbeat_alive := False \<rparr>, [])
      else if owner_state s = BL_UNLOCKED then (s\<lparr> heartbeat_alive := False \<rparr>, [])
      else lock_heartbeat emit unix_ns s)"

text \<open>\<open>close\<close> tells the thread to stop; its next turn ends it.\<close>

definition controller_close :: "BaseLockController \<Rightarrow> BaseLockController" where
  "controller_close s = s\<lparr> heartbeat_stop := True \<rparr>"

definition optional_text :: "string option \<Rightarrow> json" where
  "optional_text x = (case x of None \<Rightarrow> JNull | Some s \<Rightarrow> JStr s)"

definition optional_number :: "pyfloat option \<Rightarrow> json" where
  "optional_number x = (case x of None \<Rightarrow> JNull | Some v \<Rightarrow> JFloat v)"

definition elapsed_since :: "real \<Rightarrow> real option \<Rightarrow> pyfloat option" where
  "elapsed_since now since = map_option (\<lambda>t. Fin (max 0 (now - t))) since"

definition controller_status :: "real \<Rightarrow> BaseLockController \<Rightarrow> (string \<times> json) list" where
  "controller_status now s =
     [(''state'', JStr (lock_state_text (owner_state s))),
      (''since_s'', optional_number (elapsed_since now (owner_since s))),
      (''source'', optional_text (owner_source s)), (''seq'', JInt (owner_seq s)),
      (''delivered'', JBool (owner_delivered s)), (''last_refusal'', optional_text (last_refusal s))]"

section \<open>The latch\<close>

record BaseLockLatch =
  default_lease_s :: pyfloat
  latch_locked :: bool
  latch_source :: "string option"
  latch_since :: "real option"
  latch_deadline :: "pyfloat option"
  latch_seq :: "int option"
  latch_lease_s :: pyfloat
  stance_supported :: "bool option"
  stance_residual :: "string option"
  latch_expiries :: nat

type_synonym 'a latch_op = "('a, BaseLockLatch) outcome"

definition latch_init :: "pyfloat \<Rightarrow> BaseLockLatch" where
  "latch_init lease =
     \<lparr> default_lease_s = lease, latch_locked = False, latch_source = None, latch_since = None, latch_deadline = None,
       latch_seq = None, latch_lease_s = lease, stance_supported = None, stance_residual = None, latch_expiries = 0 \<rparr>"

definition latch_release :: "BaseLockLatch \<Rightarrow> BaseLockLatch" where
  "latch_release s =
     s\<lparr> latch_locked := False, latch_source := None, latch_since := None, latch_deadline := None,
        latch_lease_s := default_lease_s s \<rparr>"

text \<open>The lease of a command: a positive number, or the default.\<close>

definition command_lease :: "pyfloat \<Rightarrow> json \<Rightarrow> pyfloat res" where
  "command_lease usual v =
     (case v of
        JInt i \<Rightarrow> rbind (float_value (JInt i)) (\<lambda>x. Inr (if 0 < x then x else usual))
      | JFloat x \<Rightarrow> Inr (if 0 < x then x else usual)
      | _ \<Rightarrow> Inr usual)"

datatype LatchEvent = EV_LOCKED | EV_RENEWED | EV_UNLOCKED | EV_IGNORED

definition latch_apply :: "(pyfloat \<Rightarrow> string) \<Rightarrow> json \<Rightarrow> real \<Rightarrow> BaseLockLatch \<Rightarrow> LatchEvent latch_op" where
  "latch_apply fl command now s =
     (case command of
        JObj ms \<Rightarrow>
          (case (jget ms ''schema'', jget ms ''lock'') of
             (Some (JStr schema), Some (JBool lock)) \<Rightarrow>
               if schema \<noteq> BASE_LOCK_COMMAND_SCHEMA then (Inr EV_IGNORED, s)
               else
                 gbind (command_lease (default_lease_s s) (get_or JNull ms ''lease_s'')) s (\<lambda>lease.
                   if lock then
                     (let t = s\<lparr> latch_lease_s := lease, latch_deadline := Some (Fin now + lease),
                                 latch_seq := case jget ms ''seq'' of Some (JInt i) \<Rightarrow> Some i | _ \<Rightarrow> latch_seq s \<rparr> in
                      if \<not> latch_locked s then
                        (Inr EV_LOCKED,
                         t\<lparr> latch_locked := True,
                            latch_source := case get_or JNull ms ''source'' of JNull \<Rightarrow> None | v \<Rightarrow> Some (str_value fl v),
                            latch_since := Some now \<rparr>)
                      else (Inr EV_RENEWED, t))
                   else if \<not> latch_locked s then (Inr EV_IGNORED, s)
                   else (Inr EV_UNLOCKED, latch_release s))
           | _ \<Rightarrow> (Inr EV_IGNORED, s))
      | _ \<Rightarrow> (Inr EV_IGNORED, s))"

definition latch_poll :: "real \<Rightarrow> BaseLockLatch \<Rightarrow> bool \<times> BaseLockLatch" where
  "latch_poll now s =
     (if latch_locked s \<and> (case latch_deadline s of None \<Rightarrow> False | Some d \<Rightarrow> d < Fin now)
      then (True, latch_release (s\<lparr> latch_expiries := latch_expiries s + 1 \<rparr>))
      else (False, s))"

definition note_stance :: "bool \<Rightarrow> string option \<Rightarrow> BaseLockLatch \<Rightarrow> BaseLockLatch" where
  "note_stance supported residual s = s\<lparr> stance_supported := Some supported, stance_residual := residual \<rparr>"

text \<open>\<open>max(0.0, x)\<close> keeps its first argument unless the second is greater.\<close>

definition lease_remaining :: "real \<Rightarrow> BaseLockLatch \<Rightarrow> pyfloat option" where
  "lease_remaining now s =
     (case latch_deadline s of
        None \<Rightarrow> None
      | Some d \<Rightarrow> if \<not> latch_locked s then None else Some (if 0 < d - Fin now then d - Fin now else 0))"

definition latch_status :: "real \<Rightarrow> BaseLockLatch \<Rightarrow> (string \<times> json) list" where
  "latch_status now s =
     [(''schema'', JStr BASE_LOCK_STATUS_SCHEMA), (''state'', JStr (if latch_locked s then ''locked'' else ''unlocked'')),
      (''source'', optional_text (latch_source s)), (''since_s'', optional_number (elapsed_since now (latch_since s))),
      (''lease_s'', optional_number (if latch_locked s then Some (latch_lease_s s) else None)),
      (''lease_remaining_s'', optional_number (lease_remaining now s)),
      (''seq'', case latch_seq s of None \<Rightarrow> JNull | Some i \<Rightarrow> JInt i),
      (''stance_lock_supported'', case stance_supported s of None \<Rightarrow> JNull | Some b \<Rightarrow> JBool b),
      (''residual'', optional_text (stance_residual s)), (''watchdog_expiries'', JInt (int (latch_expiries s)))]"

end
