(* ===== verification/Base_Lock_Laws.thy ===== *)
theory Base_Lock_Laws
  imports Base_Lock
begin

text \<open>
  The lock over runs: the robot is locked only under a lease that still runs, the owner commands a lock only for a
  stopped base, and what a prompt unlock and relock does to the heartbeat.
\<close>

section \<open>The latch\<close>

datatype latch_input =
    LatchCommand json real
  | LatchPoll real
  | LatchStance bool "string option"

fun latch_step :: "(pyfloat \<Rightarrow> string) \<Rightarrow> BaseLockLatch \<Rightarrow> latch_input \<Rightarrow> BaseLockLatch" where
  "latch_step fl s (LatchCommand c now) = snd (latch_apply fl c now s)"
| "latch_step fl s (LatchPoll now) = snd (latch_poll now s)"
| "latch_step fl s (LatchStance b r) = note_stance b r s"

text \<open>A well-formed command to lock or unlock, with the lease it grants.\<close>

fun commands_lock :: "bool \<Rightarrow> pyfloat \<Rightarrow> json \<Rightarrow> pyfloat \<Rightarrow> bool" where
  "commands_lock lock usual (JObj ms) lease =
     (jget ms ''schema'' = Some (JStr BASE_LOCK_COMMAND_SCHEMA) \<and> jget ms ''lock'' = Some (JBool lock)
      \<and> command_lease usual (get_or JNull ms ''lease_s'') = Inr lease)"
| "commands_lock lock usual v lease = False"

fun unlocks :: "pyfloat \<Rightarrow> latch_input \<Rightarrow> bool" where
  "unlocks usual (LatchCommand c now) = (\<exists>lease. commands_lock False usual c lease)"
| "unlocks usual e = False"

lemma latch_apply_cases:
  assumes "latch_apply fl c now s = (r, t)"
  shows "t = s \<and> (\<forall>lease. \<not> commands_lock True (default_lease_s s) c lease)
      \<and> (latch_locked s \<longrightarrow> (\<forall>lease. \<not> commands_lock False (default_lease_s s) c lease))
    \<or> t = latch_release s
    \<or> (\<exists>lease. commands_lock True (default_lease_s s) c lease \<and> latch_locked t
         \<and> latch_deadline t = Some (Fin now + lease) \<and> default_lease_s t = default_lease_s s)"
  using assms
  by (cases "command_lease (default_lease_s s) (case c of JObj ms \<Rightarrow> get_or JNull ms ''lease_s'' | _ \<Rightarrow> JNull)")
    (auto simp: latch_apply_def Let_def split: json.splits option.splits if_splits)

lemma command_lease_positive:
  "0 < usual \<Longrightarrow> command_lease usual v = Inr lease \<Longrightarrow> 0 < lease"
  by (auto simp: command_lease_def split: json.splits if_splits)

text \<open>A locked latch was locked by a command whose lease gives the deadline, and not unlocked since.\<close>

definition leased :: "pyfloat \<Rightarrow> latch_input list \<Rightarrow> BaseLockLatch \<Rightarrow> bool" where
  "leased usual es s =
     (default_lease_s s = usual
      \<and> (latch_locked s \<longrightarrow>
          (\<exists>pre c t post lease. es = pre @ LatchCommand c t # post \<and> commands_lock True usual c lease
             \<and> latch_deadline s = Some (Fin t + lease) \<and> (\<forall>e \<in> set post. \<not> unlocks usual e))))"

lemma leased_quiet:
  assumes "leased usual es s" "latch_locked t \<longrightarrow> latch_locked s \<and> latch_deadline t = latch_deadline s \<and> \<not> unlocks usual e"
    and "default_lease_s t = default_lease_s s"
  shows "leased usual (es @ [e]) t"
  unfolding leased_def
proof (intro conjI impI)
  show "default_lease_s t = usual" using assms by (simp add: leased_def)
  assume "latch_locked t"
  then obtain pre c u post lease where *: "es = pre @ LatchCommand c u # post" "commands_lock True usual c lease"
      "latch_deadline t = Some (Fin u + lease)" "\<forall>e \<in> set post. \<not> unlocks usual e" "\<not> unlocks usual e"
    using assms(1,2) by (auto simp: leased_def)
  then show "\<exists>pre c u post lease. es @ [e] = pre @ LatchCommand c u # post \<and> commands_lock True usual c lease
      \<and> latch_deadline t = Some (Fin u + lease) \<and> (\<forall>e \<in> set post. \<not> unlocks usual e)"
    by (intro exI [of _ pre] exI [of _ c] exI [of _ u] exI [of _ "post @ [e]"] exI [of _ lease]) auto
qed

lemma leased_step:
  assumes "leased usual es s"
  shows "leased usual (es @ [e]) (latch_step fl s e)"
proof (cases e)
  case (LatchCommand c now)
  obtain r t where r: "latch_apply fl c now s = (r, t)" by fastforce
  have d: "default_lease_s s = usual" using assms by (simp add: leased_def)
  from latch_apply_cases [OF r] show ?thesis
  proof (elim disjE exE conjE)
    assume "t = s" "latch_locked s \<longrightarrow> (\<forall>lease. \<not> commands_lock False (default_lease_s s) c lease)"
    then show ?thesis using r d LatchCommand by (intro leased_quiet [OF assms]) auto
  next
    assume "t = latch_release s"
    then show ?thesis using r LatchCommand by (auto simp: latch_release_def intro!: leased_quiet [OF assms])
  next
    fix lease
    assume "commands_lock True (default_lease_s s) c lease" "latch_deadline t = Some (Fin now + lease)"
      "default_lease_s t = default_lease_s s"
    then show ?thesis
      using r d LatchCommand unfolding leased_def
      by (intro conjI impI exI [of _ es] exI [of _ c] exI [of _ now] exI [of _ "[]"] exI [of _ lease]) auto
  qed
next
  case (LatchPoll now)
  then show ?thesis by (auto simp: latch_poll_def latch_release_def intro!: leased_quiet [OF assms])
next
  case (LatchStance b r)
  then show ?thesis by (auto simp: note_stance_def intro!: leased_quiet [OF assms])
qed

lemma leased_run: "leased usual es (foldl (latch_step fl) (latch_init usual) es)"
  by (induction es rule: rev_induct) (auto simp: leased_step, simp add: leased_def latch_init_def)

text \<open>C22: A base that is still locked after the watchdog looked at \<open>now\<close> is locked by a command whose lease covers
  \<open>now\<close> and that no unlock command followed: without renewals the lock ends with its lease, whatever is lost.\<close>

theorem locked_only_under_a_running_lease:
  assumes "0 < usual" and "latch_poll now (foldl (latch_step fl) (latch_init usual) es) = (expired, s)" and "latch_locked s"
  shows "\<not> expired \<and> (\<exists>pre c t post lease. es = pre @ LatchCommand c t # post \<and> commands_lock True usual c lease
    \<and> Fin now \<le> Fin t + lease \<and> (\<forall>e \<in> set post. \<not> unlocks usual e))"
proof -
  let ?s = "foldl (latch_step fl) (latch_init usual) es"
  have s: "\<not> expired" "latch_locked ?s" "\<not> (case latch_deadline ?s of None \<Rightarrow> False | Some d \<Rightarrow> d < Fin now)"
    using assms(2,3) by (auto simp: latch_poll_def latch_release_def split: if_splits)
  then obtain pre c t post lease where *: "es = pre @ LatchCommand c t # post" "commands_lock True usual c lease"
      "latch_deadline ?s = Some (Fin t + lease)" "\<forall>e \<in> set post. \<not> unlocks usual e"
    using leased_run [of usual es fl] unfolding leased_def by blast
  have "0 < lease" using *(2) command_lease_positive [OF assms(1)] by (cases c) auto
  then have "Fin now \<le> Fin t + lease" using s(3) *(3) by (cases lease) auto
  then show ?thesis using s(1) * by blast
qed

definition demo_lock :: "(string \<times> json) list" where
  "demo_lock = build_command True ''grasp'' 1 120 0"

lemma locked_only_under_a_running_lease_witness:
  "\<exists>pre c t post lease. [LatchCommand (JObj demo_lock) 10, LatchPoll 60] = pre @ LatchCommand c t # post
     \<and> commands_lock True (Fin 120) c lease \<and> Fin 130 \<le> Fin t + lease"
proof -
  let ?s = "foldl (latch_step (\<lambda>x. [])) (latch_init (Fin 120)) [LatchCommand (JObj demo_lock) 10, LatchPoll 60]"
  have "latch_locked (snd (latch_poll 130 ?s))"
    by (simp add: demo_lock_def build_command_def latch_apply_def latch_init_def command_lease_def latch_poll_def
        get_or_def str_value_def Let_def)
  then show ?thesis
    using locked_only_under_a_running_lease [of "Fin 120" 130 "\<lambda>x. []" "[LatchCommand (JObj demo_lock) 10, LatchPoll 60]"
        "fst (latch_poll 130 ?s)" "snd (latch_poll 130 ?s)"]
    by auto
qed

section \<open>The owner\<close>

datatype owner_event =
    OwnLock lock_transport int string bool real
  | OwnUnlock lock_transport int string
  | OwnObserve json
  | OwnHeartbeat lock_transport int
  | OwnThread lock_transport int
  | OwnClose

fun owner_step :: "BaseLockController \<Rightarrow> owner_event \<Rightarrow> BaseLockController \<times> lock_command list" where
  "owner_step s (OwnLock emit ns src stopped now) = request_lock emit ns src stopped now s"
| "owner_step s (OwnUnlock emit ns src) = request_unlock emit ns src s"
| "owner_step s (OwnObserve doc) = (observe_status doc s, [])"
| "owner_step s (OwnHeartbeat emit ns) = lock_heartbeat emit ns s"
| "owner_step s (OwnThread emit ns) = heartbeat_turn emit ns s"
| "owner_step s OwnClose = (controller_close s, [])"

definition owner_run :: "BaseLockController \<Rightarrow> owner_event list \<Rightarrow> BaseLockController" where
  "owner_run = foldl (\<lambda>s e. fst (owner_step s e))"

fun asks_stopped_lock :: "owner_event \<Rightarrow> bool" where
  "asks_stopped_lock (OwnLock emit ns src stopped now) = stopped"
| "asks_stopped_lock e = False"

fun asks_unlock :: "owner_event \<Rightarrow> bool" where
  "asks_unlock (OwnUnlock emit ns src) = True"
| "asks_unlock e = False"

text \<open>A request for a stopped base that no unlock request followed.\<close>

definition lock_wanted :: "owner_event list \<Rightarrow> bool" where
  "lock_wanted es = (\<exists>pre e post. es = pre @ e # post \<and> asks_stopped_lock e \<and> (\<forall>x \<in> set post. \<not> asks_unlock x))"

lemma lock_wanted_snoc:
  "lock_wanted (es @ [e]) \<longleftrightarrow> asks_stopped_lock e \<or> lock_wanted es \<and> \<not> asks_unlock e"
proof
  assume "lock_wanted (es @ [e])"
  then obtain pre x post where *: "es @ [e] = pre @ x # post" "asks_stopped_lock x" "\<forall>y \<in> set post. \<not> asks_unlock y"
    by (auto simp: lock_wanted_def)
  show "asks_stopped_lock e \<or> lock_wanted es \<and> \<not> asks_unlock e"
  proof (cases post rule: rev_cases)
    case Nil
    then show ?thesis using * by simp
  next
    case (snoc ys y)
    then have "es = pre @ x # ys" "e = y" using *(1) by auto
    then show ?thesis using * snoc unfolding lock_wanted_def by auto
  qed
next
  assume "asks_stopped_lock e \<or> lock_wanted es \<and> \<not> asks_unlock e"
  then show "lock_wanted (es @ [e])"
  proof
    assume "asks_stopped_lock e"
    then show ?thesis unfolding lock_wanted_def by (intro exI [of _ es] exI [of _ e] exI [of _ "[]"]) simp
  next
    assume "lock_wanted es \<and> \<not> asks_unlock e"
    then obtain pre x post where "es = pre @ x # post" "asks_stopped_lock x" "\<forall>y \<in> set post. \<not> asks_unlock y" "\<not> asks_unlock e"
      by (auto simp: lock_wanted_def)
    then show ?thesis unfolding lock_wanted_def by (intro exI [of _ pre] exI [of _ x] exI [of _ "post @ [e]"]) simp
  qed
qed

lemmas owner_defs =
  request_lock_def request_unlock_def observe_status_def lock_heartbeat_def heartbeat_turn_def controller_close_def
  finish_unlock_def start_heartbeat_def is_engaged_def Let_def

text \<open>After a step the owner is engaged only if it was and no unlock was asked, or a stopped base was locked.\<close>

lemma engaged_step:
  assumes "is_engaged (fst (owner_step s e))"
  shows "asks_stopped_lock e \<or> is_engaged s \<and> \<not> asks_unlock e"
  using assms
  by (cases e) (auto simp: owner_defs split: if_splits option.splits)

lemma engaged_run: "is_engaged (owner_run (controller_init lease period) es) \<Longrightarrow> lock_wanted es"
proof (induction es rule: rev_induct)
  case Nil
  then show ?case by (simp add: owner_run_def controller_init_def is_engaged_def)
next
  case (snoc e es)
  then show ?case using engaged_step by (fastforce simp: owner_run_def lock_wanted_snoc)
qed

lemma emitted_lock_engages:
  assumes "owner_step s e = (t, cs)" "c \<in> set cs" "jget c ''lock'' = Some (JBool True)"
  shows "is_engaged t"
  using assms
  by (cases e) (auto simp: owner_defs build_command_def split: if_splits option.splits)

text \<open>C23: Every lock command the owner emits, first request or renewal, answers a request made for a stopped base
  that no unlock request has followed: the lock is never commanded while the servo may move the base, nor after
  the grasp released it.\<close>

theorem lock_commands_need_a_stopped_base:
  assumes "owner_step (owner_run (controller_init lease period) es) e = (t, cs)" and "c \<in> set cs"
    and "jget c ''lock'' = Some (JBool True)"
  shows "\<exists>pre x post. es @ [e] = pre @ x # post \<and> asks_stopped_lock x \<and> (\<forall>y \<in> set post. \<not> asks_unlock y)"
proof -
  have "is_engaged (owner_run (controller_init lease period) (es @ [e]))"
    using emitted_lock_engages [OF assms] assms(1) by (simp add: owner_run_def)
  then show ?thesis using engaged_run unfolding lock_wanted_def by blast
qed

lemma lock_commands_need_a_stopped_base_witness:
  "\<exists>pre x post. [OwnLock (\<lambda>c. Inr undelivered) 0 ''grasp'' True 0] @ [OwnHeartbeat (\<lambda>c. Inr undelivered) 1] = pre @ x # post
     \<and> asks_stopped_lock x \<and> list_all (\<lambda>y. \<not> asks_unlock y) post"
proof -
  let ?es = "[OwnLock (\<lambda>c. Inr undelivered) 0 ''grasp'' True 0]" and ?e = "OwnHeartbeat (\<lambda>c. Inr undelivered) 1"
  obtain t where t: "owner_step (owner_run (controller_init 120 None) ?es) ?e = (t, [build_command True ''grasp'' 1 120 1])"
    by (simp add: owner_run_def controller_init_def owner_defs safe_emit_def undelivered_def confirms_def renewal_source_def)
  show ?thesis
    unfolding list_all_iff
    by (rule lock_commands_need_a_stopped_base [OF t, where c = "build_command True ''grasp'' 1 120 1"])
      (simp, simp add: build_command_def)
qed

section \<open>A prompt relock\<close>

text \<open>What a sequence of turns of the heartbeat thread emits.\<close>

fun turns_emit :: "BaseLockController \<Rightarrow> (lock_transport \<times> int) list \<Rightarrow> lock_command list" where
  "turns_emit s [] = []"
| "turns_emit s ((emit, ns) # ts) = snd (heartbeat_turn emit ns s) @ turns_emit (fst (heartbeat_turn emit ns s)) ts"

lemma stopped_thread_is_silent: "\<not> heartbeat_alive s \<or> heartbeat_stop s \<Longrightarrow> turns_emit s ts = []"
  by (induction ts arbitrary: s) (auto simp: heartbeat_turn_def)

text \<open>C24: When a confirmed unlock is followed by a lock before the heartbeat thread has noticed its stop event, the
  thread is taken for running and its event is left set: the owner holds the lock and no turn of the thread ever
  renews it. With one turn of the thread in between, the heartbeat starts again.\<close>

theorem prompt_relock_is_never_renewed:
  assumes "is_engaged s" and "heartbeat_alive s" and "heartbeat_period_s s = Some p" "0 < p"
    and "\<And>c. confirms ''unlocked'' (safe_emit unlock_emit c)"
    and "u = fst (request_unlock unlock_emit ns src s)"
  shows "is_engaged (fst (request_lock emit ns' src' True now u))
    \<and> turns_emit (fst (request_lock emit ns' src' True now u)) ts = []
    \<and> (let v = fst (request_lock emit ns' src' True now (fst (heartbeat_turn emit ns' u))) in
       heartbeat_alive v \<and> \<not> heartbeat_stop v)"
proof -
  have u: "owner_state u = BL_UNLOCKED" "heartbeat_alive u" "heartbeat_stop u" "heartbeat_period_s u = Some p"
    using assms by (auto simp: owner_defs)
  let ?v = "fst (request_lock emit ns' src' True now u)"
  have "is_engaged ?v" "heartbeat_stop ?v" using u by (auto simp: owner_defs)
  then show ?thesis using u assms(4) by (auto simp: stopped_thread_is_silent owner_defs)
qed

definition demo_owner :: BaseLockController where
  "demo_owner = (controller_init 120 (Some 30))\<lparr> owner_state := BL_LOCKED, heartbeat_alive := True \<rparr>"

lemma prompt_relock_is_never_renewed_witness:
  "turns_emit (fst (request_lock (\<lambda>c. Inr undelivered) 1 ''grasp'' True 5
      (fst (request_unlock (\<lambda>c. Inr \<lparr> ack_delivered = True, ack_nuc_state = Some ''unlocked'' \<rparr>) 0 ''grasp'' demo_owner))))
     [(\<lambda>c. Inr undelivered, 2), (\<lambda>c. Inr undelivered, 3)] = []"
  by (rule prompt_relock_is_never_renewed [where s = demo_owner and p = 30, OF _ _ _ _ _ refl, THEN conjunct2, THEN conjunct1])
    (simp_all add: demo_owner_def controller_init_def is_engaged_def confirms_def safe_emit_def)

end
