(* ===== verification/Joint_State.thy ===== *)
theory Joint_State
  imports Interfaces
begin

text \<open>
  The joint states the motion planner starts from, \<open>src/ros2/z_manip_motion/z_manip_motion/robot_state.py\<close>: the guard that
  holds state acceptance after a clock rollback, and the assembler that merges the named streams into one complete
  state. A dict is a map; the required names are given, since reading them from the URDF is XML parsing. A
  publisher id is the list of its bytes, and a probe of the graph the list of the ids it found.
\<close>

section \<open>The clock handover guard\<close>

record ClockHandoverGuard =
  quiet_s :: real
  handover_pending :: bool
  candidate_ns :: int
  clock_stable_since :: real
  publisher_gid :: "int list option"
  publisher_stable_since :: "real option"
  handover_armed :: bool

type_synonym 'a handover_op = "('a, ClockHandoverGuard) outcome"

definition handover_init :: "pyfloat \<Rightarrow> ClockHandoverGuard res" where
  "handover_init quiet =
     raise_if (\<not> isfinite quiet \<or> quiet \<le> 0) (ContractError ''clock handover quiet time must be finite and positive'')
       (Inr \<lparr> quiet_s = the_fin quiet, handover_pending = False, candidate_ns = 0, clock_stable_since = 0,
              publisher_gid = None, publisher_stable_since = None, handover_armed = False \<rparr>)"

definition validate_sample :: "int \<Rightarrow> pyfloat \<Rightarrow> 's \<Rightarrow> ('a, 's) outcome \<Rightarrow> ('a, 's) outcome" where
  "validate_sample stamp now s k =
     guard (stamp < 0) (ContractError ''ROS clock stamp must be a non-negative integer'') s
     (guard (\<not> isfinite now) (ContractError ''clock handover receipt time must be finite'') s k)"

definition handover_begin :: "int \<Rightarrow> pyfloat \<Rightarrow> ClockHandoverGuard \<Rightarrow> unit handover_op" where
  "handover_begin stamp now s =
     validate_sample stamp now s
       (Inr (), s\<lparr> handover_pending := True, candidate_ns := stamp, clock_stable_since := the_fin now,
                  publisher_gid := None, publisher_stable_since := None, handover_armed := False \<rparr>)"

text \<open>The ids of a probe: none of them counts when one is empty or has a value that is not a byte.\<close>

definition normalized_gids :: "int list list \<Rightarrow> int list list" where
  "normalized_gids gids =
     (if list_ex (\<lambda>g. g = [] \<or> list_ex (\<lambda>v. v < 0 \<or> 255 < v) g) gids then [] else remdups gids)"

text \<open>The sample against the candidate: a step back restarts the stable stretch.\<close>

definition follow_clock :: "int \<Rightarrow> real \<Rightarrow> ClockHandoverGuard \<Rightarrow> ClockHandoverGuard" where
  "follow_clock stamp now s =
     (if stamp < candidate_ns s then s\<lparr> candidate_ns := stamp, clock_stable_since := now, handover_armed := False \<rparr>
      else s\<lparr> candidate_ns := stamp \<rparr>)"

text \<open>The probe: anything but one publisher forgets it, another publisher starts over. The flag says whether the clock
  still counts as progressed.\<close>

definition follow_graph :: "int list list option \<Rightarrow> real \<Rightarrow> bool \<Rightarrow> ClockHandoverGuard \<Rightarrow> bool \<times> ClockHandoverGuard" where
  "follow_graph gids now progressed s =
     (case gids of
        None \<Rightarrow> (progressed, s)
      | Some ids \<Rightarrow>
          (case normalized_gids ids of
             [gid] \<Rightarrow>
               if publisher_gid s \<noteq> Some gid then
                 (False, s\<lparr> publisher_gid := Some gid, publisher_stable_since := Some now, clock_stable_since := now,
                            handover_armed := False \<rparr>)
               else (progressed, s)
           | _ \<Rightarrow> (progressed, s\<lparr> publisher_gid := None, publisher_stable_since := None, handover_armed := False \<rparr>)))"

definition handover_observe ::
  "int \<Rightarrow> pyfloat \<Rightarrow> int list list option \<Rightarrow> ClockHandoverGuard \<Rightarrow> bool handover_op" where
  "handover_observe stamp now_s gids s =
     validate_sample stamp now_s s
     (guard (\<not> handover_pending s) (ContractError ''clock handover is not pending'') s
     (let now = the_fin now_s;
          (progressed, t) = follow_graph gids now (candidate_ns s < stamp) (follow_clock stamp now s);
          ready = ((case publisher_stable_since t of None \<Rightarrow> False | Some p \<Rightarrow> quiet_s t \<le> now - p)
                   \<and> quiet_s t \<le> now - clock_stable_since t) in
      if \<not> ready then (Inr False, t)
      else if \<not> handover_armed t then (Inr False, if progressed then t\<lparr> handover_armed := True \<rparr> else t)
      else (Inr (gids \<noteq> None \<and> progressed), t)))"

definition handover_finish :: "ClockHandoverGuard \<Rightarrow> unit handover_op" where
  "handover_finish s =
     guard (\<not> handover_pending s) (ContractError ''clock handover is not pending'') s
       (Inr (), s\<lparr> handover_pending := False, handover_armed := False \<rparr>)"

section \<open>The assembler\<close>

record CompleteState =
  complete_names :: "string list"
  complete_positions :: "real list"
  complete_stamp_ns :: int
  complete_epoch :: nat

record StateReadiness =
  missing_joints :: "string list"
  stale_joints :: "string list"
  unstamped_joints :: "string list"
  inconsistent_joints :: "string list"

definition readiness_ready :: "StateReadiness \<Rightarrow> bool" where
  "readiness_ready r =
     (missing_joints r = [] \<and> stale_joints r = [] \<and> unstamped_joints r = [] \<and> inconsistent_joints r = [])"

record CompleteJointStateAssembler =
  required_joints :: "string list"
  expected_sources :: "string list"
  require_clock :: bool
  joint_max_age_s :: real
  max_clock_age_ns :: int
  max_stamp_skew_ns :: int
  joint_positions :: "string \<rightharpoonup> real"
  joint_received_at :: "string \<rightharpoonup> real"
  joint_stamp_ns :: "string \<rightharpoonup> int"
  source_stamp_ns :: "string \<rightharpoonup> int"
  clock_ns :: "int option"
  clock_epoch_floor_ns :: "int option"
  clock_accept_after_ns :: "int option"
  clock_handover_pending :: bool
  joint_epoch :: nat
  published_epoch :: "nat option"
  published_stamp_ns :: int

type_synonym 'a assembler_op = "('a, CompleteJointStateAssembler) outcome"

definition assembler_init ::
  "string list \<Rightarrow> pyfloat \<Rightarrow> pyfloat option \<Rightarrow> string list \<Rightarrow> bool \<Rightarrow> CompleteJointStateAssembler res" where
  "assembler_init required max_age skew expected clock =
     (let names = map py_strip required; sources = map py_strip expected;
          max_skew = (case skew of None \<Rightarrow> max_age | Some x \<Rightarrow> x) in
      raise_if (names = [] \<or> [] \<in> set names \<or> \<not> distinct names)
        (ContractError ''required joint names must be unique and non-empty'')
      (raise_if (\<not> isfinite max_age \<or> max_age \<le> 0) (ContractError ''complete-state max age must be finite and positive'')
      (raise_if (\<not> isfinite max_skew \<or> max_skew \<le> 0)
        (ContractError ''joint-state stamp skew must be finite and positive'')
      (raise_if ([] \<in> set sources \<or> \<not> distinct sources)
        (ContractError ''expected joint-state sources must be unique and non-empty'')
      (Inr \<lparr> required_joints = names, expected_sources = sources, require_clock = clock, joint_max_age_s = the_fin max_age,
             max_clock_age_ns = py_round (the_fin max_age * 1000000000),
             max_stamp_skew_ns = py_round (the_fin max_skew * 1000000000), joint_positions = Map.empty,
             joint_received_at = Map.empty, joint_stamp_ns = Map.empty, source_stamp_ns = Map.empty, clock_ns = None,
             clock_epoch_floor_ns = None, clock_accept_after_ns = None, clock_handover_pending = False,
             joint_epoch = 0, published_epoch = None, published_stamp_ns = 0 \<rparr>)))))"

definition start_clock_epoch :: "int \<Rightarrow> int \<Rightarrow> CompleteJointStateAssembler \<Rightarrow> CompleteJointStateAssembler" where
  "start_clock_epoch stamp previous s =
     s\<lparr> clock_ns := Some stamp, joint_positions := Map.empty, joint_received_at := Map.empty,
        joint_stamp_ns := Map.empty, source_stamp_ns := Map.empty, clock_epoch_floor_ns := Some stamp,
        clock_accept_after_ns := Some (stamp + min (previous - stamp) (max_stamp_skew_ns s)),
        joint_epoch := joint_epoch s + 1 \<rparr>"

definition observe_clock :: "int \<Rightarrow> CompleteJointStateAssembler \<Rightarrow> bool assembler_op" where
  "observe_clock stamp s =
     guard (stamp < 0) (ContractError ''ROS clock stamp must be a non-negative integer'') s
     (if clock_handover_pending s then (Inr False, s)
      else
        (let t = s\<lparr> clock_ns := Some stamp \<rparr> in
         case clock_ns s of
           None \<Rightarrow> (Inr False, t)
         | Some previous \<Rightarrow>
             if previous \<le> stamp then (Inr False, t)
             else (Inr True, (start_clock_epoch stamp previous t)\<lparr> clock_handover_pending := True \<rparr>)))"

definition resume_clock :: "int \<Rightarrow> CompleteJointStateAssembler \<Rightarrow> unit assembler_op" where
  "resume_clock stamp s =
     guard (stamp < 0) (ContractError ''ROS clock stamp must be a non-negative integer'') s
     (guard (\<not> clock_handover_pending s) (ContractError ''ROS clock handover is not pending'') s
     (let t = (case clock_ns s of
                 Some previous \<Rightarrow> if stamp < previous then start_clock_epoch stamp previous s else s\<lparr> clock_ns := Some stamp \<rparr>
               | None \<Rightarrow> s\<lparr> clock_ns := Some stamp \<rparr>) in
      (Inr (), t\<lparr> clock_handover_pending := False \<rparr>)))"

definition stamp_in_epoch :: "int \<Rightarrow> int option \<Rightarrow> CompleteJointStateAssembler \<Rightarrow> bool" where
  "stamp_in_epoch stamp reference s =
     (let current = (case reference of Some r \<Rightarrow> Some r | None \<Rightarrow> clock_ns s) in
      if clock_handover_pending s then False
      else
        (case current of
           None \<Rightarrow> \<not> require_clock s
         | Some clock \<Rightarrow>
             if reference = None \<and> (case clock_accept_after_ns s of None \<Rightarrow> False | Some after \<Rightarrow> clock < after) then False
             else if (case clock_epoch_floor_ns s of None \<Rightarrow> False | Some lowest \<Rightarrow> stamp < lowest) then False
             else if clock + max_stamp_skew_ns s < stamp then False
             else clock - stamp \<le> max_clock_age_ns s))"

definition joint_update ::
  "string list \<Rightarrow> pyfloat list \<Rightarrow> string \<Rightarrow> int \<Rightarrow> pyfloat \<Rightarrow> int option \<Rightarrow> CompleteJointStateAssembler
     \<Rightarrow> bool assembler_op" where
  "joint_update raw_names raw_positions source stamp received reference s =
     (let names = map py_strip raw_names; source_name = py_strip source in
      guard (length names \<noteq> length raw_positions) (ContractError ''joint names and positions must have equal length'') s
      (guard ([] \<in> set names) (ContractError ''joint state contains an empty name'') s
      (guard (\<not> distinct names) (ContractError ''joint state contains duplicate names'') s
      (guard (source_name = []) (ContractError ''joint-state source must be non-empty'') s
      (guard (expected_sources s \<noteq> [] \<and> source_name \<notin> set (expected_sources s))
        (ContractError (''unexpected joint-state source: '' @ source_name)) s
      (guard (stamp < 0) (ContractError ''joint-state stamp must be a non-negative integer'') s
      (guard (case reference of None \<Rightarrow> False | Some r \<Rightarrow> r < 0)
        (ContractError ''reference clock stamp must be a non-negative integer'') s
      (guard (\<not> isfinite received) (ContractError ''joint-state receipt time must be finite'') s
      (guard (\<not> list_all isfinite raw_positions) (ContractError ''joint state contains a non-finite position'') s
      (let measured = filter (\<lambda>(n, x). n \<in> set (required_joints s)) (zip names (map the_fin raw_positions)) in
       if measured = [] then (Inr False, s)
       else if \<not> stamp_in_epoch stamp reference s then (Inr False, s)
       else if (case source_stamp_ns s source_name of None \<Rightarrow> False | Some p \<Rightarrow> stamp < p) then (Inr False, s)
       else
         (Inr True,
          s\<lparr> source_stamp_ns := (source_stamp_ns s)(source_name \<mapsto> stamp),
             joint_positions := joint_positions s ++ map_of measured,
             joint_received_at := joint_received_at s ++ map_of (map (\<lambda>(n, x). (n, the_fin received)) measured),
             joint_stamp_ns := joint_stamp_ns s ++ map_of (map (\<lambda>(n, x). (n, stamp)) measured) \<rparr>)))))))))))"

definition stamp_or_zero :: "CompleteJointStateAssembler \<Rightarrow> string \<Rightarrow> int" where
  "stamp_or_zero s n = (case joint_stamp_ns s n of None \<Rightarrow> 0 | Some i \<Rightarrow> i)"

definition newest_stamp :: "CompleteJointStateAssembler \<Rightarrow> int" where
  "newest_stamp s = foldl max 0 (filter (\<lambda>i. 0 < i) (map (stamp_or_zero s) (required_joints s)))"

definition joint_readiness :: "pyfloat \<Rightarrow> CompleteJointStateAssembler \<Rightarrow> StateReadiness res" where
  "joint_readiness now s =
     raise_if (\<not> isfinite now) (ContractError ''joint-state snapshot time must be finite'')
     (let t = the_fin now; names = required_joints s in
      Inr \<lparr> missing_joints = filter (\<lambda>n. joint_positions s n = None) names,
            stale_joints = filter (\<lambda>n. case joint_received_at s n of None \<Rightarrow> False
                                      | Some r \<Rightarrow> t < r \<or> joint_max_age_s s < t - r) names,
            unstamped_joints = filter (\<lambda>n. joint_positions s n \<noteq> None \<and> stamp_or_zero s n \<le> 0) names,
            inconsistent_joints = filter (\<lambda>n. 0 < stamp_or_zero s n
                                             \<and> max_stamp_skew_ns s < newest_stamp s - stamp_or_zero s n) names \<rparr>)"

definition oldest_stamp :: "CompleteJointStateAssembler \<Rightarrow> int" where
  "oldest_stamp s = (let ts = map (stamp_or_zero s) (required_joints s) in foldl min (hd ts) (tl ts))"

definition joint_snapshot :: "pyfloat \<Rightarrow> CompleteJointStateAssembler \<Rightarrow> CompleteState option res" where
  "joint_snapshot now s =
     rbind (joint_readiness now s) (\<lambda>r.
       if \<not> readiness_ready r then Inr None
       else Inr (Some \<lparr> complete_names = required_joints s,
                        complete_positions = map (\<lambda>n. the (joint_positions s n)) (required_joints s),
                        complete_stamp_ns = oldest_stamp s, complete_epoch = joint_epoch s \<rparr>))"

definition next_snapshot :: "pyfloat \<Rightarrow> CompleteJointStateAssembler \<Rightarrow> CompleteState option assembler_op" where
  "next_snapshot now s =
     gbind (joint_snapshot now s) s (\<lambda>result.
       case result of
         None \<Rightarrow> (Inr None, s)
       | Some c \<Rightarrow>
           if published_epoch s = Some (complete_epoch c) \<and> complete_stamp_ns c \<le> published_stamp_ns s
           then (Inr None, s)
           else (Inr (Some c), s\<lparr> published_epoch := Some (complete_epoch c), published_stamp_ns := complete_stamp_ns c \<rparr>))"

end
