(* ===== verification/Joint_State_Laws.thy ===== *)
theory Joint_State_Laws
  imports Joint_State
begin

text \<open>
  What a published joint state rests on, in which order states are published, and how long clock and publisher were
  stable before a handover completes.
\<close>

section \<open>The assembler as a machine\<close>

datatype joint_event =
    JClock int
  | JResume int
  | JUpdate "string list" "pyfloat list" string int pyfloat "int option"
  | JNext pyfloat

fun joint_step :: "CompleteJointStateAssembler \<Rightarrow> joint_event \<Rightarrow> CompleteJointStateAssembler" where
  "joint_step s (JClock stamp) = snd (observe_clock stamp s)"
| "joint_step s (JResume stamp) = snd (resume_clock stamp s)"
| "joint_step s (JUpdate ns ps src stamp received ref) = snd (joint_update ns ps src stamp received ref s)"
| "joint_step s (JNext now) = snd (next_snapshot now s)"

text \<open>Messages the assembler accepted, and the clock readings that can begin an epoch.\<close>

fun accepts :: "CompleteJointStateAssembler \<Rightarrow> joint_event \<Rightarrow> bool" where
  "accepts s (JUpdate ns ps src stamp received ref) = (fst (joint_update ns ps src stamp received ref s) = Inr True)"
| "accepts s e = False"

fun clock_reading :: "joint_event \<Rightarrow> int option" where
  "clock_reading (JClock stamp) = Some stamp"
| "clock_reading (JResume stamp) = Some stamp"
| "clock_reading e = None"

text \<open>The log of the current clock epoch: the reading that began it, and every accepted message with the state it met.\<close>

type_synonym log_entry = "joint_event \<times> CompleteJointStateAssembler"

fun log_step ::
  "int option \<times> log_entry list \<times> CompleteJointStateAssembler \<Rightarrow> joint_event
     \<Rightarrow> int option \<times> log_entry list \<times> CompleteJointStateAssembler" where
  "log_step (start, entries, s) e =
     (let t = joint_step s e in
      if joint_epoch t \<noteq> joint_epoch s then (clock_reading e, [], t)
      else (start, if accepts s e then entries @ [(e, s)] else entries, t))"

definition epoch_start :: "CompleteJointStateAssembler \<Rightarrow> joint_event list \<Rightarrow> int option" where
  "epoch_start s es = fst (foldl log_step (None, [], s) es)"

definition epoch_log :: "CompleteJointStateAssembler \<Rightarrow> joint_event list \<Rightarrow> log_entry list" where
  "epoch_log s es = fst (snd (foldl log_step (None, [], s) es))"

fun measured_by :: "string \<Rightarrow> real \<Rightarrow> real \<Rightarrow> int \<Rightarrow> joint_event \<Rightarrow> bool" where
  "measured_by n x r st (JUpdate ns ps src stamp (Fin received) ref) =
     ((n, Fin x) \<in> set (zip (map py_strip ns) ps) \<and> received = r \<and> stamp = st)"
| "measured_by n x r st e = False"

fun mentions :: "string \<Rightarrow> joint_event \<Rightarrow> bool" where
  "mentions n (JUpdate ns ps src stamp received ref) = (n \<in> set (map py_strip ns))"
| "mentions n e = False"

fun event_source :: "joint_event \<Rightarrow> string" where
  "event_source (JUpdate ns ps src stamp received ref) = py_strip src"
| "event_source e = []"

fun event_stamp :: "joint_event \<Rightarrow> int" where
  "event_stamp (JUpdate ns ps src stamp received ref) = stamp"
| "event_stamp e = 0"

text \<open>A message on time for the clock of the state it met: no handover is pending, its stamp is not before the start of the
  epoch, at most the skew ahead of the clock (its own reference clock, if it has one) and at most the age behind. After
  a rollback the observed clock has also left the window in which frames of the old epoch could pass for new ones.\<close>

fun timely :: "bool \<Rightarrow> int \<Rightarrow> int \<Rightarrow> int option \<Rightarrow> CompleteJointStateAssembler \<Rightarrow> joint_event \<Rightarrow> bool" where
  "timely need_clock age skew start u (JUpdate ns ps src stamp received ref) \<longleftrightarrow>
     \<not> clock_handover_pending u
     \<and> (case start of None \<Rightarrow> True | Some f \<Rightarrow> f \<le> stamp)
     \<and> (case (if ref = None then clock_ns u else ref) of
          None \<Rightarrow> \<not> need_clock
        | Some clock \<Rightarrow> stamp - clock \<le> skew \<and> clock - stamp \<le> age
            \<and> (ref = None \<longrightarrow> (case clock_accept_after_ns u of None \<Rightarrow> True | Some after \<Rightarrow> after \<le> clock)))"
| "timely need_clock age skew start u e \<longleftrightarrow> False"

text \<open>A message that was right to accept after the entries \<open>before\<close>.\<close>

definition entry_ok ::
  "CompleteJointStateAssembler \<Rightarrow> int option \<Rightarrow> log_entry list \<Rightarrow> log_entry \<Rightarrow> bool" where
  "entry_ok s0 start before entry \<longleftrightarrow>
     (expected_sources s0 = [] \<or> event_source (fst entry) \<in> set (expected_sources s0))
     \<and> timely (require_clock s0) (max_clock_age_ns s0) (max_stamp_skew_ns s0) start (snd entry) (fst entry)
     \<and> list_all (\<lambda>p. event_source (fst p) = event_source (fst entry) \<longrightarrow> event_stamp (fst p) \<le> event_stamp (fst entry)) before"

text \<open>The last message of the log that mentions a joint measured it as \<open>x\<close>, and was right to accept.\<close>

definition backed_by ::
  "CompleteJointStateAssembler \<Rightarrow> int option \<Rightarrow> log_entry list \<Rightarrow> string \<Rightarrow> real \<Rightarrow> real \<Rightarrow> int \<Rightarrow> bool" where
  "backed_by s0 start entries n x r st \<longleftrightarrow>
     (\<exists>before entry after. entries = before @ entry # after \<and> measured_by n x r st (fst entry)
        \<and> list_all (\<lambda>p. \<not> mentions n (fst p)) after \<and> entry_ok s0 start before entry)"

definition same_config :: "CompleteJointStateAssembler \<Rightarrow> CompleteJointStateAssembler \<Rightarrow> bool" where
  "same_config s0 s \<longleftrightarrow>
     required_joints s = required_joints s0 \<and> expected_sources s = expected_sources s0 \<and> require_clock s = require_clock s0
     \<and> joint_max_age_s s = joint_max_age_s s0 \<and> max_clock_age_ns s = max_clock_age_ns s0
     \<and> max_stamp_skew_ns s = max_stamp_skew_ns s0"

text \<open>The invariant that ties the assembler to its log.\<close>

definition logged ::
  "CompleteJointStateAssembler \<Rightarrow> int option \<Rightarrow> log_entry list \<Rightarrow> CompleteJointStateAssembler \<Rightarrow> bool" where
  "logged s0 start entries s \<longleftrightarrow>
     same_config s0 s \<and> clock_epoch_floor_ns s = start \<and> (start \<noteq> None \<longrightarrow> clock_ns s \<noteq> None)
     \<and> dom (joint_positions s) \<subseteq> set (required_joints s)
     \<and> (\<forall>n x. joint_positions s n = Some x \<longrightarrow>
          (\<exists>r st. joint_received_at s n = Some r \<and> joint_stamp_ns s n = Some st \<and> backed_by s0 start entries n x r st))
     \<and> (\<forall>p \<in> set entries. \<exists>q. source_stamp_ns s (event_source (fst p)) = Some q \<and> event_stamp (fst p) \<le> q)"

text \<open>What an event leaves alone, and what a new epoch clears.\<close>

definition same_samples :: "CompleteJointStateAssembler \<Rightarrow> CompleteJointStateAssembler \<Rightarrow> bool" where
  "same_samples s t \<longleftrightarrow>
     joint_positions t = joint_positions s \<and> joint_received_at t = joint_received_at s \<and> joint_stamp_ns t = joint_stamp_ns s
     \<and> source_stamp_ns t = source_stamp_ns s \<and> clock_epoch_floor_ns t = clock_epoch_floor_ns s
     \<and> (clock_ns s \<noteq> None \<longrightarrow> clock_ns t \<noteq> None) \<and> joint_epoch t = joint_epoch s"

definition fresh_epoch :: "int \<Rightarrow> CompleteJointStateAssembler \<Rightarrow> CompleteJointStateAssembler \<Rightarrow> bool" where
  "fresh_epoch stamp s t \<longleftrightarrow>
     joint_positions t = Map.empty \<and> source_stamp_ns t = Map.empty \<and> clock_epoch_floor_ns t = Some stamp
     \<and> clock_ns t = Some stamp \<and> joint_epoch t = joint_epoch s + 1"

lemma clock_outcomes: "same_samples s (snd (observe_clock stamp s)) \<or> fresh_epoch stamp s (snd (observe_clock stamp s))"
  by (auto simp: observe_clock_def guard_def Let_def start_clock_epoch_def same_samples_def fresh_epoch_def split: option.splits)

lemma resume_outcomes: "same_samples s (snd (resume_clock stamp s)) \<or> fresh_epoch stamp s (snd (resume_clock stamp s))"
  by (auto simp: resume_clock_def guard_def Let_def start_clock_epoch_def same_samples_def fresh_epoch_def split: option.splits)

lemma next_frame: "same_samples s (snd (next_snapshot now s))"
  by (cases "joint_snapshot now s") (auto simp: next_snapshot_def same_samples_def split: option.splits)

lemma config_step: "same_config s0 s \<Longrightarrow> same_config s0 (joint_step s e)"
proof (cases e)
  case (JNext now)
  then show "same_config s0 s \<Longrightarrow> ?thesis"
    by (cases "joint_snapshot now s") (auto simp: next_snapshot_def same_config_def split: option.splits)
qed (auto simp: observe_clock_def resume_clock_def joint_update_def guard_def Let_def start_clock_epoch_def same_config_def
    split: option.splits)

text \<open>The measured entries of an update, and what an accepted update does.\<close>

definition measured_entries :: "CompleteJointStateAssembler \<Rightarrow> string list \<Rightarrow> pyfloat list \<Rightarrow> (string \<times> real) list" where
  "measured_entries s ns ps =
     filter (\<lambda>(n, x). n \<in> set (required_joints s)) (zip (map py_strip ns) (map the_fin ps))"

lemma update_outcomes:
  obtains "fst (joint_update ns ps src stamp received ref s) \<noteq> Inr True" "snd (joint_update ns ps src stamp received ref s) = s"
  | r where "fst (joint_update ns ps src stamp received ref s) = Inr True" "received = Fin r" "list_all isfinite ps"
      "length ns = length ps" "expected_sources s = [] \<or> py_strip src \<in> set (expected_sources s)" "stamp_in_epoch stamp ref s"
      "\<And>p. source_stamp_ns s (py_strip src) = Some p \<Longrightarrow> p \<le> stamp"
      "snd (joint_update ns ps src stamp received ref s) =
         s\<lparr> source_stamp_ns := (source_stamp_ns s)(py_strip src \<mapsto> stamp),
            joint_positions := joint_positions s ++ map_of (measured_entries s ns ps),
            joint_received_at := joint_received_at s ++ map_of (map (\<lambda>(n, x). (n, r)) (measured_entries s ns ps)),
            joint_stamp_ns := joint_stamp_ns s ++ map_of (map (\<lambda>(n, x). (n, stamp)) (measured_entries s ns ps)) \<rparr>"
proof (cases "joint_update ns ps src stamp received ref s")
  case (Pair r t)
  show ?thesis
  proof (cases "r = Inr True")
    case True
    then obtain x where "received = Fin x"
      using Pair by (cases received) (auto simp: joint_update_def guard_def Let_def split: if_splits)
    then show ?thesis
      using Pair True by (intro that(2) [of x])
        (auto simp: joint_update_def guard_def Let_def measured_entries_def split: if_splits option.splits)
  next
    case False
    then have "t = s" using Pair by (auto simp: joint_update_def guard_def Let_def split: if_splits)
    then show ?thesis using Pair False by (intro that(1)) simp_all
  qed
qed

lemma measured_entry:
  assumes "map_of (measured_entries s ns ps) n = Some x" "list_all isfinite ps"
  shows "measured_by n x r st (JUpdate ns ps src st (Fin r) ref)"
proof -
  have "(n, x) \<in> set (zip (map py_strip ns) (map the_fin ps))"
    using map_of_SomeD [OF assms(1)] by (auto simp: measured_entries_def)
  then obtain i where i: "i < length ns" "i < length ps" "n = py_strip (ns ! i)" "x = the_fin (ps ! i)"
    by (auto simp: in_set_zip)
  then have "Fin x = ps ! i" using assms(2) by (metis isfinite_iff list_all_length the_fin.simps(1))
  then show ?thesis using i by (auto simp: in_set_zip intro!: exI [of _ i])
qed

lemma unmeasured_entry:
  assumes "map_of (measured_entries s ns ps) n = None" "length ns = length ps" "n \<in> set (required_joints s)"
  shows "n \<notin> set (map py_strip ns)"
proof
  assume "n \<in> set (map py_strip ns)"
  then obtain i where "i < length ns" "n = py_strip (ns ! i)" by (auto simp: in_set_conv_nth)
  then have "(n, the_fin (ps ! i)) \<in> set (measured_entries s ns ps)"
    using assms(2,3) by (auto simp: measured_entries_def in_set_zip intro!: exI [of _ i])
  then show False using assms(1) by (metis map_of_eq_None_iff fst_conv image_eqI)
qed

lemma constant_values: "map_of (map (\<lambda>(n, x). (n, c)) xs) n = map_option (\<lambda>x. c) (map_of xs n)"
  by (induction xs) auto

lemma in_epoch_timely:
  assumes "stamp_in_epoch stamp ref s" and "same_config s0 s" and "start \<noteq> None \<longrightarrow> clock_ns s \<noteq> None"
    and "clock_epoch_floor_ns s = start"
  shows "timely (require_clock s0) (max_clock_age_ns s0) (max_stamp_skew_ns s0) start s (JUpdate ns ps src stamp received ref)"
  using assms by (cases ref) (auto simp: stamp_in_epoch_def same_config_def Let_def split: option.splits if_splits)

lemma backed_by_more:
  assumes "backed_by s0 start entries n x r st" "\<not> mentions n e"
  shows "backed_by s0 start (entries @ [(e, u)]) n x r st"
proof -
  obtain before entry after where b: "entries = before @ entry # after" "measured_by n x r st (fst entry)"
      "list_all (\<lambda>p. \<not> mentions n (fst p)) after" "entry_ok s0 start before entry"
    using assms(1) unfolding backed_by_def by blast
  have "entries @ [(e, u)] = before @ entry # after @ [(e, u)]" using b(1) by simp
  moreover have "list_all (\<lambda>p. \<not> mentions n (fst p)) (after @ [(e, u)])" using b(3) assms(2) by simp
  ultimately show ?thesis using b(2,4) unfolding backed_by_def by blast
qed

text \<open>One accepted message.\<close>

lemma logged_update:
  assumes log: "logged s0 start entries s" and e: "e = JUpdate ns ps src stamp (Fin r) ref"
    and ok: "list_all isfinite ps" "length ns = length ps" "expected_sources s = [] \<or> py_strip src \<in> set (expected_sources s)"
      "stamp_in_epoch stamp ref s" "\<And>p. source_stamp_ns s (py_strip src) = Some p \<Longrightarrow> p \<le> stamp"
    and t: "t = s\<lparr> source_stamp_ns := (source_stamp_ns s)(py_strip src \<mapsto> stamp),
            joint_positions := joint_positions s ++ map_of (measured_entries s ns ps),
            joint_received_at := joint_received_at s ++ map_of (map (\<lambda>(n, x). (n, r)) (measured_entries s ns ps)),
            joint_stamp_ns := joint_stamp_ns s ++ map_of (map (\<lambda>(n, x). (n, stamp)) (measured_entries s ns ps)) \<rparr>"
  shows "logged s0 start (entries @ [(e, s)]) t"
proof -
  note l = log [unfolded logged_def]
  have config: "same_config s0 s" using l by blast
  have older: "event_stamp (fst p) \<le> stamp" if "p \<in> set entries" "event_source (fst p) = py_strip src" for p
    using l that ok(5) by fastforce
  have "entry_ok s0 start entries (e, s)"
    using config ok(3) in_epoch_timely [OF ok(4) config] l older
    by (auto simp: entry_ok_def e same_config_def list_all_iff)
  then have new: "backed_by s0 start (entries @ [(e, s)]) n x r stamp" if "map_of (measured_entries s ns ps) n = Some x" for n x
    unfolding backed_by_def using measured_entry [OF that ok(1), of r stamp src ref]
    by (intro exI [of _ entries] exI [of _ "(e, s)"] exI [of _ "[]"]) (simp add: e)
  have "\<exists>q st. joint_received_at t n = Some q \<and> joint_stamp_ns t n = Some st \<and> backed_by s0 start (entries @ [(e, s)]) n x q st"
    if x: "joint_positions t n = Some x" for n x
  proof (cases "map_of (measured_entries s ns ps) n")
    case None
    then have s: "joint_positions s n = Some x" using x by (simp add: t map_add_def)
    then obtain q st where q: "joint_received_at s n = Some q" "joint_stamp_ns s n = Some st" "backed_by s0 start entries n x q st"
      using l by blast
    have "n \<in> set (required_joints s)" using l s by blast
    then have "\<not> mentions n e" using unmeasured_entry [OF None ok(2)] by (simp add: e)
    then show ?thesis using q None backed_by_more by (fastforce simp: t map_add_def constant_values)
  next
    case (Some y)
    then have "y = x" using x by (simp add: t map_add_def)
    then show ?thesis using new [OF Some] Some by (auto simp: t map_add_def constant_values)
  qed
  moreover have "dom (joint_positions t) \<subseteq> set (required_joints t)"
  proof -
    have "dom (map_of (measured_entries s ns ps)) \<subseteq> set (required_joints s)"
      by (auto simp: dom_map_of_conv_image_fst measured_entries_def)
    then show ?thesis using l by (auto simp: t)
  qed
  moreover have "same_config s0 t" using config by (simp add: t same_config_def)
  moreover have "\<forall>p \<in> set (entries @ [(e, s)]). \<exists>q. source_stamp_ns t (event_source (fst p)) = Some q \<and> event_stamp (fst p) \<le> q"
    using l older by (auto simp: t e)
  ultimately show ?thesis using l by (simp add: logged_def t)
qed

lemma logged_step:
  assumes "logged s0 start entries s" and "log_step (start, entries, s) e = (start', entries', t)"
  shows "logged s0 start' entries' t"
proof -
  have t: "t = joint_step s e" and config: "same_config s0 t"
    using assms config_step [of s0 s e] by (auto simp: logged_def Let_def split: if_splits)
  have same: ?thesis if "same_samples s t" "\<not> accepts s e"
    using assms that config t by (auto simp: logged_def same_samples_def same_config_def Let_def)
  have fresh: ?thesis if "fresh_epoch stamp s t" "clock_reading e = Some stamp" for stamp
    using assms(2) that config t by (auto simp: logged_def fresh_epoch_def)
  show ?thesis
  proof (cases e)
    case (JUpdate ns ps src stamp received ref)
    show ?thesis
    proof (rule update_outcomes [of ns ps src stamp received ref s])
      assume "fst (joint_update ns ps src stamp received ref s) \<noteq> Inr True" "snd (joint_update ns ps src stamp received ref s) = s"
      then show ?thesis by (intro same) (simp_all add: t JUpdate same_samples_def)
    next
      fix r
      assume u: "fst (joint_update ns ps src stamp received ref s) = Inr True" "received = Fin r" "list_all isfinite ps"
        "length ns = length ps" "expected_sources s = [] \<or> py_strip src \<in> set (expected_sources s)" "stamp_in_epoch stamp ref s"
        "\<And>p. source_stamp_ns s (py_strip src) = Some p \<Longrightarrow> p \<le> stamp"
        "snd (joint_update ns ps src stamp received ref s) =
         s\<lparr> source_stamp_ns := (source_stamp_ns s)(py_strip src \<mapsto> stamp),
            joint_positions := joint_positions s ++ map_of (measured_entries s ns ps),
            joint_received_at := joint_received_at s ++ map_of (map (\<lambda>(n, x). (n, r)) (measured_entries s ns ps)),
            joint_stamp_ns := joint_stamp_ns s ++ map_of (map (\<lambda>(n, x). (n, stamp)) (measured_entries s ns ps)) \<rparr>"
      have "logged s0 start (entries @ [(e, s)]) t"
        by (rule logged_update [OF assms(1) _ u(3-7)]) (simp_all add: JUpdate u(2) u(8) [unfolded u(2)] t)
      moreover have "start' = start" "entries' = entries @ [(e, s)]"
        using assms(2) u(1) by (auto simp: JUpdate u(8) Let_def split: if_splits)
      ultimately show ?thesis by simp
    qed
  next
    case (JClock c)
    then show ?thesis using same fresh [of c] clock_outcomes [of s c] by (auto simp: t)
  next
    case (JResume c)
    then show ?thesis using same fresh [of c] resume_outcomes [of s c] by (auto simp: t)
  next
    case (JNext now)
    then show ?thesis using same next_frame [of s now] by (simp add: t)
  qed
qed

lemma joint_tracked_state: "snd (snd (foldl log_step (start, entries, s) es)) = foldl joint_step s es"
  by (induction es arbitrary: start entries s) (simp_all add: Let_def)

lemma logged_run:
  assumes "logged s0 None [] s0"
  shows "logged s0 (epoch_start s0 es) (epoch_log s0 es) (foldl joint_step s0 es)"
proof -
  have "case foldl log_step (None, [], s0) es of (start, entries, s) \<Rightarrow> logged s0 start entries s"
  proof (induction es rule: rev_induct)
    case (snoc e es)
    then show ?case
      using logged_step [of s0 _ _ _ e] by (cases "foldl log_step (None, [], s0) es") (auto split: prod.splits)
  qed (simp add: assms)
  then show ?thesis
    using joint_tracked_state [of None "[]" s0 es] by (auto simp: epoch_start_def epoch_log_def split: prod.splits)
qed

section \<open>Published states\<close>

lemma foldl_min_le: "\<forall>x \<in> set (a # xs). foldl min (a::int) xs \<le> x"
proof (induction xs arbitrary: a)
  case (Cons y ys)
  from Cons [of "min a y"] show ?case by auto
qed simp

lemma foldl_min_in: "foldl min (a::int) xs \<in> set (a # xs)"
proof (induction xs arbitrary: a)
  case (Cons x xs)
  from Cons [of "min a x"] show ?case by (auto simp: min_def)
qed simp

lemma foldl_max_ge: "\<forall>x \<in> set (a # xs). x \<le> foldl max (a::int) xs"
proof (induction xs arbitrary: a)
  case (Cons y ys)
  from Cons [of "max a y"] show ?case by auto
qed simp

lemma oldest_stamp_facts:
  assumes "required_joints s \<noteq> []"
  shows "\<exists>n \<in> set (required_joints s). oldest_stamp s = stamp_or_zero s n"
    and "n \<in> set (required_joints s) \<Longrightarrow> oldest_stamp s \<le> stamp_or_zero s n"
proof -
  obtain m ms where m: "required_joints s = m # ms" using assms by (cases "required_joints s") auto
  show "\<exists>n \<in> set (required_joints s). oldest_stamp s = stamp_or_zero s n"
    using foldl_min_in [of "stamp_or_zero s m" "map (stamp_or_zero s) ms"] by (auto simp: oldest_stamp_def m Let_def)
  show "oldest_stamp s \<le> stamp_or_zero s n" if "n \<in> set (required_joints s)"
    using foldl_min_le [of "stamp_or_zero s m" "map (stamp_or_zero s) ms"] that
    by (auto simp: oldest_stamp_def m Let_def)
qed

lemma newest_stamp_ge: "n \<in> set (required_joints s) \<Longrightarrow> 0 < stamp_or_zero s n \<Longrightarrow> stamp_or_zero s n \<le> newest_stamp s"
  using foldl_max_ge [of 0 "filter (\<lambda>i. 0 < i) (map (stamp_or_zero s) (required_joints s))"]
  by (auto simp: newest_stamp_def)

lemma snapshot_facts:
  assumes "joint_snapshot now s = Inr (Some c)"
  shows "\<exists>t. now = Fin t \<and> complete_names c = required_joints s \<and> complete_epoch c = joint_epoch s
    \<and> complete_positions c = map (\<lambda>n. the (joint_positions s n)) (required_joints s) \<and> complete_stamp_ns c = oldest_stamp s
    \<and> (\<forall>n \<in> set (required_joints s). joint_positions s n \<noteq> None \<and> 0 < stamp_or_zero s n
         \<and> newest_stamp s - stamp_or_zero s n \<le> max_stamp_skew_ns s
         \<and> (\<forall>r. joint_received_at s n = Some r \<longrightarrow> 0 \<le> t - r \<and> t - r \<le> joint_max_age_s s))"
proof -
  obtain t where now: "now = Fin t"
    using assms by (cases now) (auto simp: joint_snapshot_def joint_readiness_def raise_if_def)
  obtain r where r: "joint_readiness now s = Inr r" "readiness_ready r"
      "c = \<lparr> complete_names = required_joints s,
             complete_positions = map (\<lambda>n. the (joint_positions s n)) (required_joints s),
             complete_stamp_ns = oldest_stamp s, complete_epoch = joint_epoch s \<rparr>"
    using assms by (auto simp: joint_snapshot_def split: if_splits)
  have "\<forall>n \<in> set (required_joints s). joint_positions s n \<noteq> None \<and> 0 < stamp_or_zero s n
         \<and> newest_stamp s - stamp_or_zero s n \<le> max_stamp_skew_ns s
         \<and> (\<forall>q. joint_received_at s n = Some q \<longrightarrow> 0 \<le> t - q \<and> t - q \<le> joint_max_age_s s)"
    using r(1,2) by (fastforce simp: now joint_readiness_def Let_def readiness_ready_def filter_empty_conv)
  then show ?thesis using now r(3) by auto
qed

text \<open>C20: Every joint of a published state has the position the last accepted message of the current clock epoch that
  mentions it measured. That message came from an expected source, met a clock with no handover pending, was stamped
  after the start of the epoch, within the skew ahead of the clock and the age behind it, and not before an earlier
  message of its source; it was received within the maximal age before the tick. The published stamp is positive and the
  oldest of the stamps of these messages, none of which is more than the skew newer.\<close>

theorem published_joints_are_measured:
  assumes "assembler_init req (Fin age) skew srcs clk = Inr s0"
    and "next_snapshot now (foldl joint_step s0 es) = (Inr (Some c), s')"
  shows "complete_names c = map py_strip req \<and> length (complete_positions c) = length (complete_names c)
    \<and> expected_sources s0 = map py_strip srcs \<and> require_clock s0 = clk \<and> max_clock_age_ns s0 = py_round (age * 1000000000)
    \<and> (\<exists>t sts. now = Fin t \<and> length sts = length (complete_names c) \<and> 0 < complete_stamp_ns c \<and> complete_stamp_ns c = Min (set sts)
        \<and> (\<forall>i < length (complete_names c).
             sts ! i - complete_stamp_ns c \<le> max_stamp_skew_ns s0
             \<and> (\<exists>r. 0 \<le> t - r \<and> t - r \<le> age
                  \<and> backed_by s0 (epoch_start s0 es) (epoch_log s0 es) (complete_names c ! i) (complete_positions c ! i) r (sts ! i))))"
proof -
  let ?s = "foldl joint_step s0 es"
  let ?sts = "map (stamp_or_zero ?s) (required_joints ?s)"
  have init: "required_joints s0 = map py_strip req" "joint_max_age_s s0 = age" "logged s0 None [] s0" "req \<noteq> []"
      "expected_sources s0 = map py_strip srcs" "require_clock s0 = clk" "max_clock_age_ns s0 = py_round (age * 1000000000)"
    using assms(1) by (auto simp: assembler_init_def Let_def logged_def same_config_def)
  note held = logged_run [OF init(3), of es, unfolded logged_def]
  have config: "required_joints ?s = map py_strip req" "joint_max_age_s ?s = age" "max_stamp_skew_ns ?s = max_stamp_skew_ns s0"
    using held init(1,2) by (simp_all add: same_config_def)
  have "joint_snapshot now ?s = Inr (Some c)"
    using assms(2) by (cases "joint_snapshot now ?s") (auto simp: next_snapshot_def split: option.splits if_splits)
  from snapshot_facts [OF this] obtain t where t: "now = Fin t" "complete_names c = required_joints ?s"
      "complete_positions c = map (\<lambda>n. the (joint_positions ?s n)) (required_joints ?s)" "complete_stamp_ns c = oldest_stamp ?s"
    and each: "\<forall>n \<in> set (required_joints ?s). joint_positions ?s n \<noteq> None \<and> 0 < stamp_or_zero ?s n
         \<and> newest_stamp ?s - stamp_or_zero ?s n \<le> max_stamp_skew_ns ?s
         \<and> (\<forall>r. joint_received_at ?s n = Some r \<longrightarrow> 0 \<le> t - r \<and> t - r \<le> joint_max_age_s ?s)"
    by blast
  have names: "required_joints ?s \<noteq> []" using config init(4) by simp
  obtain m where m: "m \<in> set (required_joints ?s)" "oldest_stamp ?s = stamp_or_zero ?s m"
    using oldest_stamp_facts(1) [OF names] by blast
  have oldest: "oldest_stamp ?s = Min (set ?sts)"
    by (rule Min_eqI [symmetric]) (use m oldest_stamp_facts(2) [OF names] in auto)
  have joint: "stamp_or_zero ?s n - oldest_stamp ?s \<le> max_stamp_skew_ns s0
      \<and> (\<exists>r. 0 \<le> t - r \<and> t - r \<le> age
           \<and> backed_by s0 (epoch_start s0 es) (epoch_log s0 es) n (the (joint_positions ?s n)) r (stamp_or_zero ?s n))"
    if n: "n \<in> set (required_joints ?s)" for n
  proof -
    obtain x where x: "joint_positions ?s n = Some x" using each n by blast
    then obtain r st where r: "joint_received_at ?s n = Some r" "joint_stamp_ns ?s n = Some st"
        "backed_by s0 (epoch_start s0 es) (epoch_log s0 es) n x r st"
      using held by blast
    have "stamp_or_zero ?s n - oldest_stamp ?s \<le> max_stamp_skew_ns s0"
      using newest_stamp_ge [OF n] each n m config by fastforce
    then show ?thesis using r x each n config by (auto simp: stamp_or_zero_def)
  qed
  have "0 < complete_stamp_ns c" using m each t(4) by simp
  then show ?thesis
    using t config(1) joint oldest init(5-7) by (intro conjI exI [of _ t] exI [of _ ?sts]) auto
qed

text \<open>The states a run publishes, in order.\<close>

fun published :: "CompleteJointStateAssembler \<Rightarrow> joint_event list \<Rightarrow> CompleteState list" where
  "published s [] = []"
| "published s (e # es) =
     (case e of
        JNext now \<Rightarrow>
          (case next_snapshot now s of
             (Inr (Some c), t) \<Rightarrow> c # published t es
           | (r, t) \<Rightarrow> published t es)
      | _ \<Rightarrow> published (joint_step s e) es)"

definition later_state :: "CompleteState \<Rightarrow> CompleteState \<Rightarrow> bool" where
  "later_state a b =
     (complete_epoch a < complete_epoch b
      \<or> complete_epoch a = complete_epoch b \<and> complete_stamp_ns a < complete_stamp_ns b)"

text \<open>A state that comes after everything published so far.\<close>

definition after_published :: "CompleteJointStateAssembler \<Rightarrow> CompleteState \<Rightarrow> bool" where
  "after_published s c =
     (case published_epoch s of
        None \<Rightarrow> True
      | Some p \<Rightarrow> p < complete_epoch c \<or> p = complete_epoch c \<and> published_stamp_ns s < complete_stamp_ns c)"

definition epochs_ordered :: "CompleteJointStateAssembler \<Rightarrow> bool" where
  "epochs_ordered s = (case published_epoch s of None \<Rightarrow> True | Some p \<Rightarrow> p \<le> joint_epoch s)"

lemma next_snapshot_cases:
  obtains c t where "next_snapshot now s = (Inr (Some c), t)" "complete_epoch c = joint_epoch s" "joint_epoch t = joint_epoch s"
      "published_epoch t = Some (complete_epoch c)" "published_stamp_ns t = complete_stamp_ns c"
      "published_epoch s = Some (complete_epoch c) \<Longrightarrow> published_stamp_ns s < complete_stamp_ns c"
  | r where "next_snapshot now s = (r, s)" "\<forall>c. r \<noteq> Inr (Some c)"
proof (cases "joint_snapshot now s")
  case (Inl e)
  then show ?thesis by (intro that(2)) (auto simp: next_snapshot_def)
next
  case (Inr result)
  show ?thesis
  proof (cases "\<exists>c. result = Some c \<and> \<not> (published_epoch s = Some (complete_epoch c) \<and> complete_stamp_ns c \<le> published_stamp_ns s)")
    case True
    then obtain c where c: "result = Some c" "\<not> (published_epoch s = Some (complete_epoch c) \<and> complete_stamp_ns c \<le> published_stamp_ns s)"
      by blast
    then have "complete_epoch c = joint_epoch s" using snapshot_facts [of now s c] Inr by blast
    then show ?thesis
      using Inr c
      by (intro that(1) [of c "s\<lparr> published_epoch := Some (complete_epoch c), published_stamp_ns := complete_stamp_ns c \<rparr>"])
        (auto simp: next_snapshot_def)
  next
    case False
    then show ?thesis using Inr by (intro that(2)) (auto simp: next_snapshot_def split: option.splits)
  qed
qed

lemma epoch_grows:
  assumes "\<forall>now. e \<noteq> JNext now"
  shows "joint_epoch s \<le> joint_epoch (joint_step s e)
    \<and> published_epoch (joint_step s e) = published_epoch s \<and> published_stamp_ns (joint_step s e) = published_stamp_ns s"
  using assms
  by (cases e) (auto simp: observe_clock_def resume_clock_def joint_update_def guard_def Let_def start_clock_epoch_def
      split: option.splits)

lemma published_in_order:
  "epochs_ordered s \<Longrightarrow> sorted_wrt later_state (published s es) \<and> (\<forall>c \<in> set (published s es). after_published s c)"
proof (induction es arbitrary: s)
  case (Cons e es)
  show ?case
  proof (cases "\<exists>now. e = JNext now")
    case False
    then have "published s (e # es) = published (joint_step s e) es" by (cases e) auto
    moreover have "epochs_ordered (joint_step s e)"
      using epoch_grows [of e s] False Cons.prems by (auto simp: epochs_ordered_def split: option.splits)
    moreover have "after_published (joint_step s e) = after_published s"
      using epoch_grows [of e s] False by (simp add: fun_eq_iff after_published_def split: option.splits)
    ultimately show ?thesis using Cons.IH [of "joint_step s e"] by simp
  next
    case True
    then obtain now where e: "e = JNext now" by blast
    show ?thesis
    proof (rule next_snapshot_cases [of now s])
      fix c t
      assume c: "next_snapshot now s = (Inr (Some c), t)" "complete_epoch c = joint_epoch s" "joint_epoch t = joint_epoch s"
        "published_epoch t = Some (complete_epoch c)" "published_stamp_ns t = complete_stamp_ns c"
        "published_epoch s = Some (complete_epoch c) \<Longrightarrow> published_stamp_ns s < complete_stamp_ns c"
      have "epochs_ordered t" using c by (simp add: epochs_ordered_def)
      then have rest: "sorted_wrt later_state (published t es)" "\<forall>d \<in> set (published t es). after_published t d"
        using Cons.IH by blast+
      have "after_published s c" using c(2,6) Cons.prems by (auto simp: after_published_def epochs_ordered_def split: option.splits)
      then have "later_state c d \<and> after_published s d" if "d \<in> set (published t es)" for d
        using rest(2) that c by (auto simp: after_published_def later_state_def split: option.splits)
      then show ?thesis using rest(1) \<open>after_published s c\<close> by (simp add: e c(1))
    next
      fix r
      assume "next_snapshot now s = (r, s)" "\<forall>c. r \<noteq> Inr (Some c)"
      then have "published s (e # es) = published s es" by (auto simp: e split: sum.splits option.splits)
      then show ?thesis using Cons by simp
    qed
  qed
qed simp

text \<open>The stamps of the published states increase strictly within a clock epoch, and epochs never come back: no
  state is published twice and none after a newer one of its epoch, whatever the streams and the clock do.\<close>

theorem published_states_advance:
  assumes "assembler_init req age skew srcs clk = Inr s0"
  shows "sorted_wrt later_state (published s0 es)"
proof -
  have "epochs_ordered s0" using assms by (auto simp: assembler_init_def Let_def epochs_ordered_def)
  then show ?thesis using published_in_order by blast
qed

section \<open>The handover\<close>

text \<open>An observation of the clock with the probe of the graph that came with it, if any.\<close>

record clock_sample =
  seen_stamp_ns :: int
  seen_at_s :: real
  seen_gids :: "int list list option"

definition sample_step :: "ClockHandoverGuard \<Rightarrow> clock_sample \<Rightarrow> ClockHandoverGuard" where
  "sample_step s x = snd (handover_observe (seen_stamp_ns x) (Fin (seen_at_s x)) (seen_gids x) s)"

definition only_publisher :: "int list \<Rightarrow> clock_sample \<Rightarrow> bool" where
  "only_publisher g x = (case seen_gids x of None \<Rightarrow> True | Some ids \<Rightarrow> normalized_gids ids = [g])"

text \<open>A stretch of samples that starts at \<open>since\<close>, with the clock never going back and one publisher only.\<close>

definition stable_stretch :: "int list \<Rightarrow> real \<Rightarrow> clock_sample list \<Rightarrow> bool" where
  "stable_stretch g since xs =
     (xs \<noteq> [] \<and> seen_at_s (hd xs) = since \<and> sorted_wrt (\<lambda>a b. seen_stamp_ns a \<le> seen_stamp_ns b) xs
      \<and> list_all (only_publisher g) xs)"

definition guard_inv :: "clock_sample list \<Rightarrow> ClockHandoverGuard \<Rightarrow> bool" where
  "guard_inv xs s =
     ((xs \<noteq> [] \<longrightarrow> candidate_ns s = seen_stamp_ns (last xs))
      \<and> (publisher_gid s = None \<longleftrightarrow> publisher_stable_since s = None)
      \<and> (\<forall>g. publisher_gid s = Some g \<longrightarrow>
           (\<exists>ys. suffix ys xs \<and> stable_stretch g (clock_stable_since s) ys)))"

lemma stretch_snoc:
  assumes "stable_stretch g since ys" "seen_stamp_ns (last ys) \<le> seen_stamp_ns x" "only_publisher g x"
  shows "stable_stretch g since (ys @ [x])"
proof -
  have ys: "ys = butlast ys @ [last ys]" "sorted_wrt (\<lambda>a b. seen_stamp_ns a \<le> seen_stamp_ns b) ys"
    using assms(1) by (simp_all add: stable_stretch_def)
  have "seen_stamp_ns a \<le> seen_stamp_ns x" if "a \<in> set ys" for a
  proof (cases "a = last ys")
    case False
    then have "a \<in> set (butlast ys)" using that ys(1) by (metis Un_iff insertE list.set(2) set_append empty_iff list.set(1))
    then have "seen_stamp_ns a \<le> seen_stamp_ns (last ys)" using ys by (metis sorted_wrt_append list.set_intros(1))
    then show ?thesis using assms(2) by simp
  qed (simp add: assms(2))
  then show ?thesis using assms by (auto simp: stable_stretch_def sorted_wrt_append)
qed

lemma stretch_one: "only_publisher g x \<Longrightarrow> stable_stretch g (seen_at_s x) [x]"
  by (simp add: stable_stretch_def)

text \<open>What a valid sample does to the guard, before the flag is set.\<close>

lemma sample_state:
  assumes "handover_pending s" "0 \<le> seen_stamp_ns x"
  obtains p t where "follow_graph (seen_gids x) (seen_at_s x) (candidate_ns s < seen_stamp_ns x)
      (follow_clock (seen_stamp_ns x) (seen_at_s x) s) = (p, t)"
    and "sample_step s x = t \<or> sample_step s x = t\<lparr> handover_armed := True \<rparr>"
  using assms
  by (cases "follow_graph (seen_gids x) (seen_at_s x) (candidate_ns s < seen_stamp_ns x)
      (follow_clock (seen_stamp_ns x) (seen_at_s x) s)")
    (auto simp: sample_step_def handover_observe_def validate_sample_def guard_def Let_def split: if_splits)

lemma clock_keeps_stretch:
  assumes inv: "guard_inv xs s" and g: "publisher_gid s = Some g" and one: "only_publisher g x"
  shows "\<exists>ys. suffix ys (xs @ [x]) \<and> stable_stretch g (clock_stable_since (follow_clock (seen_stamp_ns x) (seen_at_s x) s)) ys"
proof -
  obtain ys where ys: "suffix ys xs" "stable_stretch g (clock_stable_since s) ys"
    using inv g by (auto simp: guard_inv_def)
  show ?thesis
  proof (cases "seen_stamp_ns x < candidate_ns s")
    case True
    then show ?thesis using stretch_one [OF one] by (intro exI [of _ "[x]"]) (simp add: follow_clock_def suffix_def)
  next
    case False
    have "ys \<noteq> []" using ys(2) by (simp add: stable_stretch_def)
    then have "candidate_ns s = seen_stamp_ns (last ys)" using inv ys(1) by (auto simp: guard_inv_def suffix_def)
    then show ?thesis
      using False stretch_snoc [OF ys(2) _ one] ys(1) by (intro exI [of _ "ys @ [x]"]) (simp add: follow_clock_def)
  qed
qed

lemma guard_inv_step:
  assumes inv: "guard_inv xs s" and pending: "handover_pending s" and stamp: "0 \<le> seen_stamp_ns x"
  shows "guard_inv (xs @ [x]) (sample_step s x) \<and> handover_pending (sample_step s x) \<and> quiet_s (sample_step s x) = quiet_s s"
proof -
  let ?c = "follow_clock (seen_stamp_ns x) (seen_at_s x) s"
  obtain p t where t: "follow_graph (seen_gids x) (seen_at_s x) (candidate_ns s < seen_stamp_ns x) ?c = (p, t)"
    and after: "sample_step s x = t \<or> sample_step s x = t\<lparr> handover_armed := True \<rparr>"
    by (rule sample_state [OF pending stamp])
  have c: "candidate_ns ?c = seen_stamp_ns x" "publisher_gid ?c = publisher_gid s" "handover_pending ?c" "quiet_s ?c = quiet_s s"
    "publisher_stable_since ?c = publisher_stable_since s" using pending by (simp_all add: follow_clock_def)
  have none: "publisher_gid s = None \<longleftrightarrow> publisher_stable_since s = None" using inv by (simp add: guard_inv_def)
  have "guard_inv (xs @ [x]) t \<and> handover_pending t \<and> quiet_s t = quiet_s s"
  proof (cases "seen_gids x")
    case None
    then have "t = ?c" using t by (simp add: follow_graph_def)
    then show ?thesis using c none clock_keeps_stretch [OF inv, of _ x] None by (auto simp: guard_inv_def only_publisher_def)
  next
    case (Some ids)
    show ?thesis
    proof (cases "\<exists>g. normalized_gids ids = [g]")
      case False
      then have "t = ?c\<lparr> publisher_gid := None, publisher_stable_since := None, handover_armed := False \<rparr>"
        using t Some by (auto simp: follow_graph_def split: list.splits)
      then show ?thesis using c by (simp add: guard_inv_def)
    next
      case True
      then obtain g where g: "normalized_gids ids = [g]" ..
      then have one: "only_publisher g x" using Some by (simp add: only_publisher_def)
      show ?thesis
      proof (cases "publisher_gid s = Some g")
        case True
        then have "t = ?c" using t Some g c by (simp add: follow_graph_def)
        then show ?thesis using c none True clock_keeps_stretch [OF inv True one] by (simp add: guard_inv_def)
      next
        case False
        then have "t = ?c\<lparr> publisher_gid := Some g, publisher_stable_since := Some (seen_at_s x),
            clock_stable_since := seen_at_s x, handover_armed := False \<rparr>"
          using t Some g c by (auto simp: follow_graph_def)
        then show ?thesis using c stretch_one [OF one] by (auto simp: guard_inv_def suffix_def)
      qed
    qed
  qed
  then show ?thesis using after by (auto simp: guard_inv_def)
qed

lemma guard_inv_run:
  assumes "guard_inv [] s" "handover_pending s" "list_all (\<lambda>x. 0 \<le> seen_stamp_ns x) xs"
  shows "guard_inv xs (foldl sample_step s xs) \<and> handover_pending (foldl sample_step s xs)
    \<and> quiet_s (foldl sample_step s xs) = quiet_s s"
  using assms(3)
proof (induction xs rule: rev_induct)
  case (snoc x xs)
  then show ?case using guard_inv_step [of xs "foldl sample_step s xs" x] by simp
qed (use assms in simp)

text \<open>C21: A handover completes only on an advancing sample that came with a probe, and only after a stretch of samples as
  long as the quiet time in which the clock never went back and every probe of the graph found the same single
  publisher.\<close>

theorem handover_needs_a_stable_stretch:
  assumes "handover_begin c start g = (Inr (), g0)" and "list_all (\<lambda>x. 0 \<le> seen_stamp_ns x) (xs @ [x])"
    and "handover_observe (seen_stamp_ns x) (Fin (seen_at_s x)) (seen_gids x) (foldl sample_step g0 xs) = (Inr True, g')"
  shows "seen_gids x \<noteq> None \<and> (\<exists>gid ys since. suffix ys (xs @ [x]) \<and> stable_stretch gid since ys
    \<and> quiet_s g \<le> seen_at_s x - since)
    \<and> (xs \<noteq> [] \<longrightarrow> seen_stamp_ns (last xs) < seen_stamp_ns x)"
proof -
  let ?s = "foldl sample_step g0 xs"
  have g0: "guard_inv [] g0" "handover_pending g0" "quiet_s g0 = quiet_s g"
    using assms(1) by (auto simp: handover_begin_def validate_sample_def guard_def guard_inv_def split: if_splits)
  have run: "guard_inv xs ?s" "handover_pending ?s" "quiet_s ?s = quiet_s g"
    using guard_inv_run [OF g0(1,2), of xs] assms(2) g0(3) by auto
  obtain p t where t: "follow_graph (seen_gids x) (seen_at_s x) (candidate_ns ?s < seen_stamp_ns x)
      (follow_clock (seen_stamp_ns x) (seen_at_s x) ?s) = (p, t)" by fastforce
  have out: "publisher_stable_since t \<noteq> None" "quiet_s t \<le> seen_at_s x - clock_stable_since t" "seen_gids x \<noteq> None" "p" "g' = t"
    using assms(2,3) run(2) t
    by (auto simp: handover_observe_def validate_sample_def guard_def Let_def split: if_splits option.splits)
  have "sample_step ?s x = t" using assms(3) out(5) by (simp add: sample_step_def)
  then have inv: "guard_inv (xs @ [x]) t" "quiet_s t = quiet_s g"
    using guard_inv_step [OF run(1,2), of x] assms(2) run(3) by auto
  have "p \<Longrightarrow> candidate_ns ?s < seen_stamp_ns x" using t by (auto simp: follow_graph_def split: option.splits list.splits if_splits)
  moreover have "xs \<noteq> [] \<Longrightarrow> candidate_ns ?s = seen_stamp_ns (last xs)" using run(1) by (simp add: guard_inv_def)
  ultimately have advanced: "xs \<noteq> [] \<longrightarrow> seen_stamp_ns (last xs) < seen_stamp_ns x" using out(4) by auto
  obtain gid where "publisher_gid t = Some gid" using out(1) inv(1) by (auto simp: guard_inv_def)
  then obtain ys where "suffix ys (xs @ [x])" "stable_stretch gid (clock_stable_since t) ys"
    using inv(1) unfolding guard_inv_def by blast
  moreover have "quiet_s g \<le> seen_at_s x - clock_stable_since t" using out(2) inv(2) by simp
  moreover note advanced out(3)
  ultimately show ?thesis by blast
qed

subsection \<open>Witnesses\<close>

definition demo_assembler :: CompleteJointStateAssembler where
  "demo_assembler = (case assembler_init [''arm'', ''leg''] (Fin 1) None [] False of Inr s \<Rightarrow> s)"

definition demo_joints :: "joint_event list" where
  "demo_joints =
     [JUpdate [''arm''] [Fin 2] ''piper'' 5 (Fin 10) None, JUpdate [''leg''] [Fin 3] ''go2w'' 7 (Fin 10) None]"

lemma demo_assembler_ok: "assembler_init [''arm'', ''leg''] (Fin 1) None [] False = Inr demo_assembler"
  by (simp add: demo_assembler_def assembler_init_def Let_def raise_if_def py_defs)

lemma demo_joints_published:
  "\<exists>c s'. next_snapshot (Fin (21 / 2)) (foldl joint_step demo_assembler demo_joints) = (Inr (Some c), s')
     \<and> complete_stamp_ns c = 5 \<and> complete_names c = [''arm'', ''leg'']"
  by (simp add: demo_assembler_def assembler_init_def demo_joints_def joint_update_def guard_def Let_def raise_if_def
      py_defs stamp_in_epoch_def next_snapshot_def joint_snapshot_def joint_readiness_def readiness_ready_def
      stamp_or_zero_def newest_stamp_def oldest_stamp_def)

lemma published_joints_are_measured_witness:
  "\<exists>x r st. backed_by demo_assembler (epoch_start demo_assembler demo_joints) (epoch_log demo_assembler demo_joints) ''arm'' x r st
     \<and> 5 \<le> st"
proof -
  obtain c s' where c: "next_snapshot (Fin (21 / 2)) (foldl joint_step demo_assembler demo_joints) = (Inr (Some c), s')"
      "complete_stamp_ns c = 5" "complete_names c = [''arm'', ''leg'']"
    using demo_joints_published by blast
  from published_joints_are_measured [OF demo_assembler_ok c(1)] obtain sts r where
    "length sts = 2" "5 = Min (set sts)"
    "backed_by demo_assembler (epoch_start demo_assembler demo_joints) (epoch_log demo_assembler demo_joints) ''arm''
       (complete_positions c ! 0) r (sts ! 0)"
    using c(2,3) by (force dest!: spec [of _ 0])
  moreover from this have "5 \<le> sts ! 0" using Min_le [of "set sts" "sts ! 0"] by simp
  ultimately show ?thesis by blast
qed

lemma published_states_advance_witness:
  "sorted_wrt later_state (published demo_assembler (demo_joints @ [JNext (Fin (21 / 2)), JNext (Fin 11)]))"
  by (rule published_states_advance [OF demo_assembler_ok])

definition demo_handover :: ClockHandoverGuard where
  "demo_handover = (case handover_init (Fin 1) of Inr s \<Rightarrow> s)"

definition demo_sample :: "int \<Rightarrow> clock_sample" where
  "demo_sample i = \<lparr> seen_stamp_ns = i, seen_at_s = of_int i, seen_gids = Some [[7]] \<rparr>"

definition demo_begun :: ClockHandoverGuard where
  "demo_begun = snd (handover_begin 0 (Fin 0) demo_handover)"

lemma demo_handover_completes:
  "fst (handover_observe (seen_stamp_ns (demo_sample 3)) (Fin (seen_at_s (demo_sample 3))) (seen_gids (demo_sample 3))
     (foldl sample_step demo_begun [demo_sample 1, demo_sample 2])) = Inr True"
  by code_simp

lemma handover_needs_a_stable_stretch_witness:
  "\<exists>gid ys since. suffix ys [demo_sample 1, demo_sample 2, demo_sample 3] \<and> stable_stretch gid since ys \<and> 1 \<le> 3 - since"
proof -
  have begun: "handover_begin 0 (Fin 0) demo_handover = (Inr (), demo_begun)"
    by (simp add: demo_begun_def handover_begin_def validate_sample_def guard_def)
  obtain g' where g': "handover_observe (seen_stamp_ns (demo_sample 3)) (Fin (seen_at_s (demo_sample 3)))
      (seen_gids (demo_sample 3)) (foldl sample_step demo_begun [demo_sample 1, demo_sample 2]) = (Inr True, g')"
    using demo_handover_completes by (metis prod.collapse)
  have "list_all (\<lambda>x. 0 \<le> seen_stamp_ns x) ([demo_sample 1, demo_sample 2] @ [demo_sample 3])"
    by (simp add: demo_sample_def)
  from handover_needs_a_stable_stretch [OF begun this g'] obtain gid ys since
    where "suffix ys ([demo_sample 1, demo_sample 2] @ [demo_sample 3])" "stable_stretch gid since ys"
      "quiet_s demo_handover \<le> seen_at_s (demo_sample 3) - since" by blast
  moreover have "quiet_s demo_handover = 1" by (simp add: demo_handover_def handover_init_def raise_if_def)
  moreover have "seen_at_s (demo_sample 3) = 3" by (simp add: demo_sample_def)
  ultimately show ?thesis by auto
qed

end
