(* ===== verification/Visual_Approach.thy ===== *)
theory Visual_Approach
  imports Interfaces
begin

text \<open>
  The visual approach of the base: the position-based servo of \<open>src/z_manip/control/visual_servo.py\<close> and the two-stage
  controller of \<open>src/z_manip/control/approach.py\<close> that takes the velocity from navigation, waits until the base is quiet, and
  drives on the tracked target. The servo's configuration admits finite floats only, so it holds reals; the
  thresholds of the approach are compared as the floats they are, infinite ones included.
\<close>

section \<open>The servo\<close>

record VisualServoConfig =
  default_depth_m :: real
  depth_tolerance_m :: real
  lateral_tolerance_m :: real
  depth_exit_hysteresis_m :: real
  lateral_exit_hysteresis_m :: real
  converge_time_s :: real
  linear_gain :: real
  turn_gain :: real
  max_forward_mps :: real
  max_reverse_mps :: real
  max_turn_rps :: real
  rotate_only_bearing_rad :: real
  turn_deadband_rad :: real

definition visual_config_post_init :: "VisualServoConfig \<Rightarrow> unit res" where
  "visual_config_post_init c =
     raise_if (list_ex (\<lambda>x. x \<le> 0)
                 [default_depth_m c, depth_tolerance_m c, lateral_tolerance_m c, converge_time_s c, linear_gain c,
                  turn_gain c, max_forward_mps c, max_reverse_mps c, max_turn_rps c, rotate_only_bearing_rad c])
       (ValueError ''visual-servo settings must be finite and positive'')
     (raise_if (list_ex (\<lambda>x. x < 0) [depth_exit_hysteresis_m c, lateral_exit_hysteresis_m c, turn_deadband_rad c])
       (ValueError ''visual-servo hysteresis must be finite and non-negative'')
     (raise_if (depth_tolerance_m c < depth_exit_hysteresis_m c)
       (ValueError ''depth exit hysteresis cannot exceed depth tolerance'')
     (raise_if (lateral_tolerance_m c < lateral_exit_hysteresis_m c)
       (ValueError ''lateral exit hysteresis cannot exceed lateral tolerance'')
     (raise_if (pi / 2 \<le> rotate_only_bearing_rad c)
       (ValueError ''rotate-only bearing must be below pi/2'') (Inr ())))))"

record ServoCommand =
  servo_linear_x :: real
  servo_angular_z :: real
  servo_converged :: bool
  servo_depth_error_m :: real
  servo_yaw_error_rad :: real

definition stop_command :: ServoCommand where
  "stop_command = \<lparr> servo_linear_x = 0, servo_angular_z = 0, servo_converged = False,
                    servo_depth_error_m = 0, servo_yaw_error_rad = 0 \<rparr>"

record VisualServoController =
  settled_since :: "real option"

definition visual_reset :: "VisualServoController \<Rightarrow> VisualServoController" where
  "visual_reset s = s\<lparr> settled_since := None \<rparr>"

definition servo_clamp :: "real \<Rightarrow> real \<Rightarrow> real \<Rightarrow> real" where
  "servo_clamp x low high = min (max x low) high"

text \<open>Outside the window: a clamped command, no turn inside the deadband, no drive at a large bearing.\<close>

definition motion_command :: "VisualServoConfig \<Rightarrow> real \<Rightarrow> real \<Rightarrow> ServoCommand" where
  "motion_command c depth_error yaw_err =
     (let linear = servo_clamp (linear_gain c * depth_error) (- max_reverse_mps c) (max_forward_mps c);
          angular = servo_clamp (- turn_gain c * yaw_err) (- max_turn_rps c) (max_turn_rps c)
      in \<lparr> servo_linear_x = (if rotate_only_bearing_rad c < \<bar>yaw_err\<bar> then 0 else linear),
           servo_angular_z = (if \<bar>yaw_err\<bar> \<le> turn_deadband_rad c then 0 else angular),
           servo_converged = False, servo_depth_error_m = depth_error, servo_yaw_error_rad = yaw_err \<rparr>)"

text \<open>A finite target at \<open>x\<close> and \<open>z\<close> with its depth goal \<open>d\<close>, seen at time \<open>t\<close>.\<close>

definition servo_measured ::
  "VisualServoConfig \<Rightarrow> real \<Rightarrow> real \<Rightarrow> real \<Rightarrow> real \<Rightarrow> VisualServoController \<Rightarrow> ServoCommand \<times> VisualServoController" where
  "servo_measured c x z d t s =
     (let depth_error = z - d;
          yaw_err = atan2 x z;
          kept = (case settled_since s of None \<Rightarrow> None | Some u \<Rightarrow> if t < u then None else Some u);
          depth_limit = depth_tolerance_m c + (if kept \<noteq> None then depth_exit_hysteresis_m c else 0);
          lateral_limit = lateral_tolerance_m c + (if kept \<noteq> None then lateral_exit_hysteresis_m c else 0)
      in if \<bar>depth_error\<bar> \<le> depth_limit \<and> \<bar>x\<bar> \<le> lateral_limit then
           let since = (case kept of None \<Rightarrow> t | Some u \<Rightarrow> u)
           in (\<lparr> servo_linear_x = 0, servo_angular_z = 0,
                 servo_converged = (converge_time_s c \<le> t - since + 1 / 10 ^ 9),
                 servo_depth_error_m = depth_error, servo_yaw_error_rad = yaw_err \<rparr>,
               s\<lparr> settled_since := Some since \<rparr>)
         else (motion_command c depth_error yaw_err, s\<lparr> settled_since := None \<rparr>))"

definition visual_update ::
  "VisualServoConfig \<Rightarrow> pyfloat list option \<Rightarrow> pyfloat \<Rightarrow> pyfloat option \<Rightarrow> VisualServoController
     \<Rightarrow> ServoCommand \<times> VisualServoController" where
  "visual_update c position stamp desired s =
     (case position of
        Some [Fin x, _, Fin z] \<Rightarrow>
          if \<not> isfinite stamp \<or> z \<le> 0 then (stop_command, visual_reset s)
          else
            (case (case desired of None \<Rightarrow> Fin (default_depth_m c) | Some d \<Rightarrow> d) of
               Fin d \<Rightarrow>
                 if d \<le> 0 then (stop_command, visual_reset s) else servo_measured c x z d (the_fin stamp) s
             | _ \<Rightarrow> (stop_command, visual_reset s))
      | _ \<Rightarrow> (stop_command, visual_reset s))"

section \<open>The two-stage controller\<close>

datatype ApproachPhase = AP_FAR_NAV | AP_HANDOFF | AP_VISUAL_SERVO | AP_COMPLETE | AP_FAILED

datatype VelocityOwner = VO_NAVIGATION | VO_MANIP_SERVO | VO_NONE

record TwoStageApproachConfig =
  near_stage_threshold_m :: pyfloat
  tracker_lock_time_s :: pyfloat
  handoff_quiet_time_s :: pyfloat
  navigation_quiet_speed_mps :: pyfloat
  navigation_quiet_yaw_rate_rps :: pyfloat
  track_loss_timeout_s :: pyfloat
  handoff_timeout_s :: pyfloat
  servo_timeout_s :: pyfloat
  max_base_roll_rad :: pyfloat
  max_base_pitch_rad :: pyfloat
  visual_config :: VisualServoConfig

definition approach_config_post_init :: "TwoStageApproachConfig \<Rightarrow> unit res" where
  "approach_config_post_init c =
     raise_if (list_ex (\<lambda>x. x \<le> 0)
                 [near_stage_threshold_m c, tracker_lock_time_s c, handoff_quiet_time_s c, navigation_quiet_speed_mps c,
                  navigation_quiet_yaw_rate_rps c, track_loss_timeout_s c, handoff_timeout_s c, servo_timeout_s c,
                  max_base_roll_rad c, max_base_pitch_rad c])
       (ValueError ''approach thresholds and timeouts must be positive'') (Inr ())"

record ApproachInput =
  approach_stamp_s :: pyfloat
  approximate_range_m :: "pyfloat option"
  target_position_camera :: "pyfloat list option"
  tracker_locked :: bool
  navigation_speed_mps :: pyfloat
  navigation_yaw_rate_rps :: pyfloat
  base_roll_rad :: pyfloat
  base_pitch_rad :: pyfloat
  goal_depth_m :: "pyfloat option"

record ApproachOutput =
  out_approach_phase :: ApproachPhase
  out_velocity_owner :: VelocityOwner
  out_cancel_navigation :: bool
  out_servo :: ServoCommand
  out_reason :: string

record TwoStageApproachController =
  visual_servo :: VisualServoController
  approach_phase :: ApproachPhase
  approach_phase_started :: "real option"
  approach_last_stamp :: "real option"
  track_since :: "real option"
  quiet_since :: "real option"
  lost_since :: "real option"

definition approach_init :: TwoStageApproachController where
  "approach_init = \<lparr> visual_servo = \<lparr> settled_since = None \<rparr>, approach_phase = AP_FAR_NAV, approach_phase_started = None,
                     approach_last_stamp = None, track_since = None, quiet_since = None, lost_since = None \<rparr>"

definition approach_reset :: "TwoStageApproachController \<Rightarrow> TwoStageApproachController" where
  "approach_reset s = s\<lparr> approach_phase := AP_FAR_NAV, approach_phase_started := None, approach_last_stamp := None,
                        track_since := None, quiet_since := None, lost_since := None,
                        visual_servo := visual_reset (visual_servo s) \<rparr>"

type_synonym approach_op = "ApproachOutput \<times> TwoStageApproachController"

text \<open>The output of the phase the controller is in now.\<close>

definition approach_output ::
  "VelocityOwner \<Rightarrow> bool \<Rightarrow> ServoCommand \<Rightarrow> string \<Rightarrow> TwoStageApproachController \<Rightarrow> approach_op" where
  "approach_output who cancel command why s =
     (\<lparr> out_approach_phase = approach_phase s, out_velocity_owner = who, out_cancel_navigation = cancel,
        out_servo = command, out_reason = why \<rparr>, s)"

definition approach_fail :: "string \<Rightarrow> TwoStageApproachController \<Rightarrow> approach_op" where
  "approach_fail why s =
     approach_output VO_NONE True stop_command why
       (s\<lparr> approach_phase := AP_FAILED, visual_servo := visual_reset (visual_servo s) \<rparr>)"

definition has_target :: "ApproachInput \<Rightarrow> bool" where
  "has_target v =
     (tracker_locked v \<and>
      (case target_position_camera v of
         Some [x, y, z] \<Rightarrow> isfinite x \<and> isfinite y \<and> isfinite z \<and> 0 < z
       | _ \<Rightarrow> False))"

text \<open>\<open>since\<close> keeps the stamp a condition has held from.\<close>

definition since :: "bool \<Rightarrow> real \<Rightarrow> real option \<Rightarrow> real option" where
  "since holds t start = (if \<not> holds then None else if start = None then Some t else start)"

definition visual_range :: "ApproachInput \<Rightarrow> pyfloat" where
  "visual_range v = (if has_target v then the (target_position_camera v) ! 2 else PosInf)"

definition approximate_range :: "ApproachInput \<Rightarrow> pyfloat" where
  "approximate_range v =
     (case approximate_range_m v of None \<Rightarrow> PosInf | Some r \<Rightarrow> if isfinite r then r else PosInf)"

definition far_navigation ::
  "TwoStageApproachConfig \<Rightarrow> ApproachInput \<Rightarrow> real \<Rightarrow> bool \<Rightarrow> TwoStageApproachController \<Rightarrow> approach_op" where
  "far_navigation c v t track_stable s =
     (let near = (if approximate_range v < visual_range v then approximate_range v else visual_range v)
      in if track_stable \<and> near \<le> near_stage_threshold_m c then
           approach_output VO_NONE True stop_command []
             (s\<lparr> approach_phase := AP_HANDOFF, approach_phase_started := Some t, quiet_since := None,
                visual_servo := visual_reset (visual_servo s) \<rparr>)
         else
           approach_output VO_NAVIGATION False stop_command
             (if approximate_range v \<le> near_stage_threshold_m c then ''waiting for stable near-field visual track'' else [])
             s)"

definition drive_visually :: "TwoStageApproachConfig \<Rightarrow> ApproachInput \<Rightarrow> real \<Rightarrow> TwoStageApproachController
     \<Rightarrow> ServoCommand \<times> TwoStageApproachController" where
  "drive_visually c v t s =
     (case visual_update (visual_config c) (target_position_camera v) (Fin t) (goal_depth_m v) (visual_servo s) of
        (command, servo) \<Rightarrow> (command, s\<lparr> visual_servo := servo \<rparr>))"

definition navigation_quiet :: "TwoStageApproachConfig \<Rightarrow> ApproachInput \<Rightarrow> bool" where
  "navigation_quiet c v =
     (\<bar>navigation_speed_mps v\<bar> \<le> navigation_quiet_speed_mps c
      \<and> \<bar>navigation_yaw_rate_rps v\<bar> \<le> navigation_quiet_yaw_rate_rps c)"

definition handoff_tick ::
  "TwoStageApproachConfig \<Rightarrow> ApproachInput \<Rightarrow> real \<Rightarrow> bool \<Rightarrow> TwoStageApproachController \<Rightarrow> approach_op" where
  "handoff_tick c v t track_stable s =
     (if \<not> has_target v then
        approach_output VO_NONE True stop_command ''waiting for target reacquisition before visual control''
          (s\<lparr> quiet_since := None \<rparr>)
      else
        let q = s\<lparr> quiet_since := since (navigation_quiet c v) t (quiet_since s) \<rparr>
        in if track_stable
              \<and> (case quiet_since q of None \<Rightarrow> False | Some u \<Rightarrow> handoff_quiet_time_s c \<le> Fin (t - u + 1 / 10 ^ 9)) then
             (case drive_visually c v t
                     (q\<lparr> approach_phase := AP_VISUAL_SERVO, approach_phase_started := Some t, lost_since := None \<rparr>) of
                (command, r) \<Rightarrow> approach_output VO_MANIP_SERVO True command [] r)
           else approach_output VO_NONE True stop_command [] q)"

definition servo_tick ::
  "TwoStageApproachConfig \<Rightarrow> ApproachInput \<Rightarrow> real \<Rightarrow> TwoStageApproachController \<Rightarrow> approach_op" where
  "servo_tick c v t s =
     (if \<not> has_target v then
        let q = s\<lparr> visual_servo := visual_reset (visual_servo s), lost_since := since True t (lost_since s) \<rparr>
        in if track_loss_timeout_s c < Fin (t - the (lost_since q)) then
             approach_fail ''persistent target tracking lost during visual servo'' q
           else
             approach_output VO_MANIP_SERVO True stop_command ''holding zero while tracker reacquires target'' q
      else
        (case drive_visually c v t (s\<lparr> lost_since := None \<rparr>) of
           (command, r) \<Rightarrow>
             if servo_converged command then approach_output VO_NONE True stop_command [] (r\<lparr> approach_phase := AP_COMPLETE \<rparr>)
             else approach_output VO_MANIP_SERVO True command [] r))"

definition attitude_exceeded :: "TwoStageApproachConfig \<Rightarrow> ApproachInput \<Rightarrow> bool" where
  "attitude_exceeded c v =
     (max_base_roll_rad c < \<bar>base_roll_rad v\<bar> \<or> max_base_pitch_rad c < \<bar>base_pitch_rad v\<bar>)"

definition approach_live_tick ::
  "TwoStageApproachConfig \<Rightarrow> ApproachInput \<Rightarrow> real \<Rightarrow> TwoStageApproachController \<Rightarrow> approach_op" where
  "approach_live_tick c v t s =
     (if (if approach_phase s = AP_VISUAL_SERVO then servo_timeout_s c else handoff_timeout_s c)
         < Fin (t - the (approach_phase_started s)) then
        approach_fail (if approach_phase s = AP_VISUAL_SERVO then ''visual servo timeout'' else ''approach handoff timeout'') s
      else if attitude_exceeded c v then approach_fail ''base attitude gate exceeded'' s
      else
        let r = s\<lparr> track_since := since (has_target v) t (track_since s) \<rparr>;
            track_stable = (case track_since r of None \<Rightarrow> False | Some u \<Rightarrow> tracker_lock_time_s c \<le> Fin (t - u))
        in case approach_phase r of
             AP_FAR_NAV \<Rightarrow> far_navigation c v t track_stable r
           | AP_HANDOFF \<Rightarrow> handoff_tick c v t track_stable r
           | _ \<Rightarrow> servo_tick c v t r)"

definition approach_scalars :: "ApproachInput \<Rightarrow> pyfloat list" where
  "approach_scalars v =
     [approach_stamp_s v, navigation_speed_mps v, navigation_yaw_rate_rps v, base_roll_rad v, base_pitch_rad v]"

definition approach_update ::
  "TwoStageApproachConfig \<Rightarrow> ApproachInput \<Rightarrow> TwoStageApproachController \<Rightarrow> approach_op" where
  "approach_update c v s =
     (if \<not> list_all isfinite (approach_scalars v) then approach_fail ''approach input contains a non-finite value'' s
      else
        let t = the_fin (approach_stamp_s v) in
        if (case approach_last_stamp s of None \<Rightarrow> False | Some u \<Rightarrow> t < u) then
          approach_fail ''simulation time moved backwards'' s
        else
          let r = s\<lparr> approach_last_stamp := Some t \<rparr> in
          if approach_phase r \<in> {AP_COMPLETE, AP_FAILED} then approach_output VO_NONE False stop_command [] r
          else approach_live_tick c v t (r\<lparr> approach_phase_started := since True t (approach_phase_started r) \<rparr>))"

end
