(* ===== verification/Approach_Laws.thy ===== *)
theory Approach_Laws
  imports Visual_Approach
begin

text \<open>
  The two-stage approach over ticks: who owns the velocity and how fast it may be, what a completed approach has
  been through, and that every approach ends.
\<close>

section \<open>One tick\<close>

definition visual_bounded :: "VisualServoConfig \<Rightarrow> ServoCommand \<Rightarrow> bool" where
  "visual_bounded c k \<longleftrightarrow> - max_reverse_mps c \<le> servo_linear_x k \<and> servo_linear_x k \<le> max_forward_mps c
                          \<and> \<bar>servo_angular_z k\<bar> \<le> max_turn_rps c"

lemma stop_bounded:
  "visual_config_post_init c = Inr () \<Longrightarrow> visual_bounded c stop_command"
  by (simp add: visual_config_post_init_def visual_bounded_def stop_command_def)

lemma visual_update_bounded:
  assumes "visual_config_post_init c = Inr ()"
  shows "visual_bounded c (fst (visual_update c p t d s))"
proof -
  have pos: "0 < max_forward_mps c" "0 < max_reverse_mps c" "0 < max_turn_rps c"
    using assms by (auto simp: visual_config_post_init_def)
  then have "visual_bounded c (fst (servo_measured c x z e u s))" for x z e u
    by (auto simp: servo_measured_def Let_def visual_bounded_def motion_command_def servo_clamp_def)
  then show ?thesis
    using stop_bounded [OF assms] unfolding visual_update_def
    by (auto split: option.splits list.splits pyfloat.splits)
qed

definition stamp_of :: "ApproachInput \<Rightarrow> real" where
  "stamp_of v = the_fin (approach_stamp_s v)"

definition active_state :: "ApproachInput \<Rightarrow> real \<Rightarrow> TwoStageApproachController \<Rightarrow> TwoStageApproachController" where
  "active_state v b s = s\<lparr> approach_last_stamp := Some (stamp_of v), approach_phase_started := Some b \<rparr>"

lemma update_cases:
  obtains (failed) why where "approach_update c v s = approach_fail why s"
  | (ended) "approach_phase s \<in> {AP_COMPLETE, AP_FAILED}"
      and "approach_update c v s = approach_output VO_NONE False stop_command [] (s\<lparr> approach_last_stamp := Some (stamp_of v) \<rparr>)"
  | (active) b where "approach_phase s \<notin> {AP_COMPLETE, AP_FAILED}"
      and "b = (case approach_phase_started s of None \<Rightarrow> stamp_of v | Some b \<Rightarrow> b)"
      and "approach_update c v s = approach_live_tick c v (stamp_of v) (active_state v b s)"
proof (cases "list_all isfinite (approach_scalars v)
              \<and> \<not> (case approach_last_stamp s of None \<Rightarrow> False | Some u \<Rightarrow> stamp_of v < u)")
  case True
  moreover have "since True (stamp_of v) start = Some (case start of None \<Rightarrow> stamp_of v | Some b \<Rightarrow> b)" for start
    by (cases start) (simp_all add: since_def)
  ultimately show ?thesis
    using ended active by (cases "approach_phase s \<in> {AP_COMPLETE, AP_FAILED}")
      (simp_all add: approach_update_def [folded stamp_of_def] active_state_def Let_def)
next
  case False
  then have "\<exists>why. approach_update c v s = approach_fail why s"
    by (auto simp: approach_update_def [folded stamp_of_def] Let_def)
  then show ?thesis using failed by blast
qed

text \<open>The outputs of one tick: the owner with the phase after it, the cancel flag and the command.\<close>

definition owned_output :: "VisualServoConfig \<Rightarrow> ApproachOutput \<Rightarrow> bool" where
  "owned_output c o' \<longleftrightarrow>
     (case out_velocity_owner o' of
        VO_NAVIGATION \<Rightarrow> out_approach_phase o' = AP_FAR_NAV \<and> \<not> out_cancel_navigation o' \<and> out_servo o' = stop_command
      | VO_MANIP_SERVO \<Rightarrow> out_approach_phase o' = AP_VISUAL_SERVO \<and> out_cancel_navigation o'
                          \<and> visual_bounded c (out_servo o')
      | VO_NONE \<Rightarrow> out_approach_phase o' \<noteq> AP_VISUAL_SERVO \<and> out_servo o' = stop_command)"

lemma drive_bounded:
  assumes "visual_config_post_init (visual_config c) = Inr ()" and "drive_visually c v t s = (k, r)"
  shows "visual_bounded (visual_config c) k"
proof -
  have "k = fst (visual_update (visual_config c) (target_position_camera v) (Fin t) (goal_depth_m v) (visual_servo s))"
    using assms(2) by (auto simp: drive_visually_def split: prod.splits)
  then show ?thesis using visual_update_bounded [OF assms(1)] by simp
qed

lemma drive_frame:
  "drive_visually c v t s = (k, r) \<Longrightarrow> r = s\<lparr> visual_servo := visual_servo r \<rparr>"
  by (auto simp: drive_visually_def split: prod.splits)

section \<open>Stretches of ticks\<close>

text \<open>A condition has held on every tick from the one at \<open>start\<close> to the last.\<close>

definition held_from :: "(ApproachInput \<Rightarrow> bool) \<Rightarrow> real \<Rightarrow> ApproachInput list \<Rightarrow> bool" where
  "held_from P start vs \<longleftrightarrow> (\<exists>ys zs. vs = ys @ zs \<and> zs \<noteq> [] \<and> list_all P zs \<and> stamp_of (hd zs) = start)"

lemma held_from_extends:
  assumes "held_from P u vs" and "P v"
  shows "held_from P u (vs @ [v])"
proof -
  obtain ys zs where "vs = ys @ zs" "zs \<noteq> []" "list_all P zs" "stamp_of (hd zs) = u"
    using assms(1) unfolding held_from_def by blast
  then have "vs @ [v] = ys @ (zs @ [v])" "zs @ [v] \<noteq> []" "list_all P (zs @ [v])" "stamp_of (hd (zs @ [v])) = u"
    using assms(2) by auto
  then show ?thesis unfolding held_from_def by blast
qed

lemma held_from_now: "P v \<Longrightarrow> held_from P (stamp_of v) (vs @ [v])"
  unfolding held_from_def by (intro exI [of _ vs] exI [of _ "[v]"]) simp

lemma since_held:
  assumes "\<And>u. start = Some u \<Longrightarrow> held_from P u vs" and "since (P v) (stamp_of v) start = Some u"
  shows "held_from P u (vs @ [v])"
  using assms held_from_extends held_from_now by (auto simp: since_def split: if_splits)

text \<open>What a handoff to the servo needs, and what its completion needs.\<close>

definition quiet_and_tracked :: "TwoStageApproachConfig \<Rightarrow> ApproachInput \<Rightarrow> bool" where
  "quiet_and_tracked c v \<longleftrightarrow> has_target v \<and> navigation_quiet c v"

definition quiet_handoff :: "TwoStageApproachConfig \<Rightarrow> ApproachInput list \<Rightarrow> bool" where
  "quiet_handoff c vs \<longleftrightarrow> vs \<noteq> []
     \<and> (\<exists>u. held_from has_target u vs \<and> tracker_lock_time_s c \<le> Fin (stamp_of (last vs) - u))
     \<and> (\<exists>q. held_from (quiet_and_tracked c) q vs \<and> handoff_quiet_time_s c \<le> Fin (stamp_of (last vs) - q + 1 / 10 ^ 9))"

definition on_target :: "VisualServoConfig \<Rightarrow> ApproachInput \<Rightarrow> bool" where
  "on_target c v \<longleftrightarrow>
     (\<exists>x y z d. target_position_camera v = Some [Fin x, y, Fin z]
        \<and> Fin d = (case goal_depth_m v of None \<Rightarrow> Fin (default_depth_m c) | Some e \<Rightarrow> e)
        \<and> \<bar>z - d\<bar> \<le> depth_tolerance_m c + depth_exit_hysteresis_m c
        \<and> \<bar>x\<bar> \<le> lateral_tolerance_m c + lateral_exit_hysteresis_m c)"

definition settled_view :: "VisualServoConfig \<Rightarrow> ApproachInput list \<Rightarrow> bool" where
  "settled_view c vs \<longleftrightarrow> (\<exists>w. held_from (on_target c) w vs \<and> converge_time_s c \<le> stamp_of (last vs) - w + 1 / 10 ^ 9)"

lemma visual_update_settles:
  assumes c: "visual_config_post_init c = Inr ()"
    and u: "visual_update c (target_position_camera v) (Fin (stamp_of v)) (goal_depth_m v) s = (k, r)"
    and w: "settled_since r = Some w"
  shows "on_target c v \<and> (w = stamp_of v \<or> settled_since s = Some w)"
proof -
  have h: "0 \<le> depth_exit_hysteresis_m c" "0 \<le> lateral_exit_hysteresis_m c"
    using c by (auto simp: visual_config_post_init_def)
  show ?thesis
    using u w h unfolding visual_update_def on_target_def
    by (auto simp: servo_measured_def Let_def visual_reset_def motion_command_def
        split: option.splits list.splits pyfloat.splits if_splits)
qed

lemma visual_update_converges:
  assumes u: "visual_update c p (Fin t) d s = (k, r)" and k: "servo_converged k"
  shows "\<exists>w. settled_since r = Some w \<and> converge_time_s c \<le> t - w + 1 / 10 ^ 9"
  using u k unfolding visual_update_def
  by (auto simp: servo_measured_def Let_def visual_reset_def motion_command_def stop_command_def
      split: option.splits list.splits pyfloat.splits if_splits)

section \<open>What a phase has been through\<close>

definition approach_step ::
  "TwoStageApproachConfig \<Rightarrow> TwoStageApproachController \<Rightarrow> ApproachInput \<Rightarrow> TwoStageApproachController" where
  "approach_step c s v = snd (approach_update c v s)"

definition upright :: "TwoStageApproachConfig \<Rightarrow> ApproachInput \<Rightarrow> bool" where
  "upright c v \<longleftrightarrow> \<not> attitude_exceeded c v"

definition servo_proof :: "TwoStageApproachConfig \<Rightarrow> ApproachInput list \<Rightarrow> real option \<Rightarrow> bool" where
  "servo_proof c vs settled \<longleftrightarrow>
     (\<exists>pre post. vs = pre @ post \<and> quiet_handoff c pre
        \<and> (\<forall>w. settled = Some w \<longrightarrow> held_from (on_target (visual_config c)) w (last pre # post)))"

definition completion_proof :: "TwoStageApproachConfig \<Rightarrow> ApproachInput list \<Rightarrow> bool" where
  "completion_proof c vs \<longleftrightarrow>
     (\<exists>pre post. vs = pre @ post \<and> quiet_handoff c pre \<and> settled_view (visual_config c) (last pre # post)
        \<and> list_all (upright c) vs)"

definition approach_proof :: "TwoStageApproachConfig \<Rightarrow> ApproachInput list \<Rightarrow> TwoStageApproachController \<Rightarrow> bool" where
  "approach_proof c vs s \<longleftrightarrow>
     (case approach_phase s of
        AP_FAR_NAV \<Rightarrow> list_all (upright c) vs \<and> (\<forall>u. track_since s = Some u \<longrightarrow> held_from has_target u vs)
      | AP_HANDOFF \<Rightarrow> list_all (upright c) vs \<and> (\<forall>u. track_since s = Some u \<longrightarrow> held_from has_target u vs)
                      \<and> (\<forall>q. quiet_since s = Some q \<longrightarrow> held_from (quiet_and_tracked c) q vs)
                      \<and> settled_since (visual_servo s) = None
      | AP_VISUAL_SERVO \<Rightarrow> list_all (upright c) vs \<and> servo_proof c vs (settled_since (visual_servo s))
      | AP_COMPLETE \<Rightarrow> (\<exists>done_at rest. vs = done_at @ rest \<and> completion_proof c done_at)
      | AP_FAILED \<Rightarrow> True)"

lemma far_navigation_proof:
  assumes "far_navigation c v t track_stable s = (out, s')" and "approach_phase s = AP_FAR_NAV"
    and "list_all (upright c) vs" and "\<forall>u. track_since s = Some u \<longrightarrow> held_from has_target u vs"
  shows "approach_proof c vs s'"
  using assms by (auto simp: far_navigation_def approach_output_def approach_proof_def visual_reset_def Let_def split: if_splits)

lemma servo_proof_start:
  assumes "quiet_handoff c vs" and "list_all (upright c) vs" and "vs = us @ [v]"
    and "visual_config_post_init (visual_config c) = Inr ()" and "drive_visually c v (stamp_of v) s = (k, r)"
    and "settled_since (visual_servo s) = None"
  shows "servo_proof c vs (settled_since (visual_servo r))"
proof -
  have "held_from (on_target (visual_config c)) w [v]" if "settled_since (visual_servo r) = Some w" for w
  proof -
    have "on_target (visual_config c) v \<and> w = stamp_of v"
      using visual_update_settles [OF assms(4)] assms(5,6) that by (fastforce simp: drive_visually_def split: prod.splits)
    then show ?thesis using held_from_now [of _ v "[]"] by simp
  qed
  moreover have "last vs = v" using assms(3) by simp
  ultimately show ?thesis using assms(1) unfolding servo_proof_def by (intro exI [of _ vs] exI [of _ "[]"]) auto
qed

lemma servo_proof_extends:
  assumes "servo_proof c vs (settled_since (visual_servo s))" and "visual_config_post_init (visual_config c) = Inr ()"
    and "drive_visually c v (stamp_of v) s = (k, r)"
  shows "servo_proof c (vs @ [v]) (settled_since (visual_servo r))"
    and "servo_converged k \<Longrightarrow> list_all (upright c) (vs @ [v]) \<Longrightarrow> completion_proof c (vs @ [v])"
proof -
  obtain pre post where p: "vs = pre @ post" "quiet_handoff c pre"
    and held: "\<forall>w. settled_since (visual_servo s) = Some w \<longrightarrow> held_from (on_target (visual_config c)) w (last pre # post)"
    using assms(1) unfolding servo_proof_def by blast
  have u: "visual_update (visual_config c) (target_position_camera v) (Fin (stamp_of v)) (goal_depth_m v) (visual_servo s)
           = (k, visual_servo r)"
    using assms(3) by (auto simp: drive_visually_def split: prod.splits)
  have next_held: "held_from (on_target (visual_config c)) w (last pre # post @ [v])"
    if "settled_since (visual_servo r) = Some w" for w
    using visual_update_settles [OF assms(2) u that] held
      held_from_extends [of "on_target (visual_config c)" w "last pre # post" v]
      held_from_now [of "on_target (visual_config c)" v "last pre # post"] by auto
  show "servo_proof c (vs @ [v]) (settled_since (visual_servo r))"
    unfolding servo_proof_def using p next_held by (intro exI [of _ pre] exI [of _ "post @ [v]"]) auto
  assume "servo_converged k" and up: "list_all (upright c) (vs @ [v])"
  then obtain w where "settled_since (visual_servo r) = Some w"
    "converge_time_s (visual_config c) \<le> stamp_of v - w + 1 / 10 ^ 9"
    using visual_update_converges [OF u] by blast
  then have "settled_view (visual_config c) (last pre # post @ [v])"
    unfolding settled_view_def using next_held by auto
  then show "completion_proof c (vs @ [v])"
    unfolding completion_proof_def using p up by (intro exI [of _ pre] exI [of _ "post @ [v]"]) auto
qed

lemma servo_proof_waits:
  assumes "servo_proof c vs settled"
  shows "servo_proof c (vs @ [v]) None"
proof -
  obtain pre post where "vs = pre @ post" "quiet_handoff c pre" using assms unfolding servo_proof_def by blast
  then show ?thesis unfolding servo_proof_def by (intro exI [of _ pre] exI [of _ "post @ [v]"]) simp
qed

lemma handoff_tick_proof:
  assumes "handoff_tick c v (stamp_of v) track_stable s = (out, s')"
    and "track_stable = (case track_since s of None \<Rightarrow> False | Some u \<Rightarrow> tracker_lock_time_s c \<le> Fin (stamp_of v - u))"
    and "visual_config_post_init (visual_config c) = Inr ()"
    and "approach_phase s = AP_HANDOFF" and "list_all (upright c) (vs @ [v])"
    and "\<forall>u. track_since s = Some u \<longrightarrow> held_from has_target u (vs @ [v])"
    and "\<forall>q. quiet_since s = Some q \<longrightarrow> held_from (quiet_and_tracked c) q vs"
    and "settled_since (visual_servo s) = None"
  shows "approach_proof c (vs @ [v]) s'"
proof (cases "has_target v")
  case False
  then show ?thesis using assms by (auto simp: handoff_tick_def approach_output_def approach_proof_def)
next
  case True
  let ?q = "s\<lparr> quiet_since := since (navigation_quiet c v) (stamp_of v) (quiet_since s) \<rparr>"
  have quiet: "held_from (quiet_and_tracked c) u (vs @ [v])" if "quiet_since ?q = Some u" for u
    using since_held [of "quiet_since s" "quiet_and_tracked c" vs v u] assms(7) that True
    by (simp add: quiet_and_tracked_def)
  show ?thesis
  proof (cases "track_stable \<and> (case quiet_since ?q of None \<Rightarrow> False
                  | Some u \<Rightarrow> handoff_quiet_time_s c \<le> Fin (stamp_of v - u + 1 / 10 ^ 9))")
    case ready: True
    then have "quiet_handoff c (vs @ [v])"
      unfolding quiet_handoff_def using assms(2,6) quiet by (auto split: option.splits)
    moreover obtain k r where d: "drive_visually c v (stamp_of v)
        (?q\<lparr> approach_phase := AP_VISUAL_SERVO, approach_phase_started := Some (stamp_of v), lost_since := None \<rparr>) = (k, r)"
      by fastforce
    ultimately have "servo_proof c (vs @ [v]) (settled_since (visual_servo r))"
      using servo_proof_start [OF _ assms(5) refl assms(3) d] assms(8) by simp
    moreover have "approach_phase r = AP_VISUAL_SERVO"
      using d by (auto simp: drive_visually_def split: prod.splits)
    moreover have "s' = r" using assms(1) True ready d by (simp add: handoff_tick_def Let_def approach_output_def)
    ultimately show ?thesis using assms(5) by (simp add: approach_proof_def)
  next
    case waiting: False
    then have "s' = ?q" using assms(1) True by (auto simp: handoff_tick_def Let_def approach_output_def)
    then show ?thesis using assms(4,5,6,8) quiet by (simp add: approach_proof_def)
  qed
qed

lemma servo_tick_proof:
  assumes "servo_tick c v (stamp_of v) s = (out, s')" and "visual_config_post_init (visual_config c) = Inr ()"
    and "approach_phase s = AP_VISUAL_SERVO" and "list_all (upright c) (vs @ [v])"
    and "servo_proof c vs (settled_since (visual_servo s))"
  shows "approach_proof c (vs @ [v]) s'"
proof (cases "has_target v")
  case False
  then show ?thesis
    using assms(1,3,4) servo_proof_waits [OF assms(5), of v]
    by (auto simp: servo_tick_def approach_fail_def approach_output_def approach_proof_def visual_reset_def Let_def
        split: if_splits)
next
  case True
  obtain k r where d: "drive_visually c v (stamp_of v) (s\<lparr> lost_since := None \<rparr>) = (k, r)" by fastforce
  have "servo_proof c vs (settled_since (visual_servo (s\<lparr> lost_since := None \<rparr>)))" using assms(5) by simp
  note ext = servo_proof_extends [OF this assms(2) d]
  have ph: "approach_phase r = AP_VISUAL_SERVO" using d assms(3) by (auto simp: drive_visually_def split: prod.splits)
  show ?thesis
  proof (cases "servo_converged k")
    case True
    then have "approach_phase s' = AP_COMPLETE"
      using assms(1) \<open>has_target v\<close> d by (auto simp: servo_tick_def approach_output_def)
    moreover have "\<exists>done_at rest. vs @ [v] = done_at @ rest \<and> completion_proof c done_at"
      using ext(2) [OF True assms(4)] by (intro exI [of _ "vs @ [v]"] exI [of _ "[]"]) simp
    ultimately show ?thesis by (simp add: approach_proof_def)
  next
    case False
    then have "s' = r" using assms(1) \<open>has_target v\<close> d by (auto simp: servo_tick_def approach_output_def)
    then show ?thesis using ext(1) ph assms(4) by (simp add: approach_proof_def)
  qed
qed

lemma approach_proof_failed: "approach_phase s = AP_FAILED \<Longrightarrow> approach_proof c vs s"
  by (simp add: approach_proof_def)

lemma fail_proof: "approach_proof c vs (snd (approach_fail why s))"
  by (simp add: approach_proof_failed approach_fail_def approach_output_def)

lemma completed_stays:
  "approach_proof c vs s \<Longrightarrow> approach_phase s = AP_COMPLETE \<Longrightarrow> approach_phase s' = AP_COMPLETE
     \<Longrightarrow> approach_proof c (vs @ [v]) s'"
  by (simp add: approach_proof_def) (metis append_assoc)

lemma active_proof:
  assumes "visual_config_post_init (visual_config c) = Inr ()" and "approach_proof c vs s"
    and "approach_phase s \<notin> {AP_COMPLETE, AP_FAILED}"
  shows "approach_proof c (vs @ [v]) (snd (approach_live_tick c v (stamp_of v) s))"
proof (cases "(if approach_phase s = AP_VISUAL_SERVO then servo_timeout_s c else handoff_timeout_s c)
                 < Fin (stamp_of v - the (approach_phase_started s)) \<or> attitude_exceeded c v")
  case True
  then show ?thesis by (auto simp: approach_live_tick_def fail_proof)
next
  case False
  let ?r = "s\<lparr> track_since := since (has_target v) (stamp_of v) (track_since s) \<rparr>"
  let ?stable = "case track_since ?r of None \<Rightarrow> False | Some u \<Rightarrow> tracker_lock_time_s c \<le> Fin (stamp_of v - u)"
  have up: "upright c v" using False by (simp add: upright_def)
  have tracked: "\<forall>u. track_since ?r = Some u \<longrightarrow> held_from has_target u (vs @ [v])"
    if "\<forall>u. track_since s = Some u \<longrightarrow> held_from has_target u vs"
    using since_held [of "track_since s" has_target vs v] that by simp
  have run: "approach_live_tick c v (stamp_of v) s =
      (case approach_phase s of
         AP_FAR_NAV \<Rightarrow> far_navigation c v (stamp_of v) ?stable ?r
       | AP_HANDOFF \<Rightarrow> handoff_tick c v (stamp_of v) ?stable ?r
       | _ \<Rightarrow> servo_tick c v (stamp_of v) ?r)"
    using False by (simp add: approach_live_tick_def Let_def)
  show ?thesis
  proof (cases "approach_phase s")
    case AP_FAR_NAV
    then show ?thesis
      using far_navigation_proof [of c v "stamp_of v" ?stable ?r _ _ "vs @ [v]"] tracked up assms(2) run
      by (cases "far_navigation c v (stamp_of v) ?stable ?r") (auto simp: approach_proof_def)
  next
    case AP_HANDOFF
    then show ?thesis
      using handoff_tick_proof [of c v ?stable ?r _ _ vs] tracked up assms(1,2) run
      by (cases "handoff_tick c v (stamp_of v) ?stable ?r") (auto simp: approach_proof_def)
  next
    case AP_VISUAL_SERVO
    then show ?thesis
      using servo_tick_proof [of c v ?r _ _ vs] up assms(1,2) run
      by (cases "servo_tick c v (stamp_of v) ?r") (auto simp: approach_proof_def)
  qed (use assms(3) in simp_all)
qed

lemma approach_proof_frame:
  "approach_phase t = approach_phase s \<Longrightarrow> track_since t = track_since s \<Longrightarrow> quiet_since t = quiet_since s
     \<Longrightarrow> visual_servo t = visual_servo s \<Longrightarrow> approach_proof c vs t = approach_proof c vs s"
  by (cases "approach_phase s") (simp_all add: approach_proof_def)

lemma step_proof:
  assumes "visual_config_post_init (visual_config c) = Inr ()" and "approach_proof c vs s"
  shows "approach_proof c (vs @ [v]) (approach_step c s v)"
proof (cases rule: update_cases [of c v s])
  case (failed why)
  then show ?thesis by (simp add: approach_step_def fail_proof)
next
  case ended
  then show ?thesis
    using completed_stays [OF assms(2)] approach_proof_failed by (auto simp: approach_step_def approach_output_def)
next
  case (active b)
  have "approach_proof c vs (active_state v b s)"
    using assms(2) by (subst approach_proof_frame [of _ s]) (simp_all add: active_state_def)
  moreover have "approach_phase (active_state v b s) = approach_phase s" by (simp add: active_state_def)
  ultimately show ?thesis using active active_proof [OF assms(1)] by (simp add: approach_step_def)
qed

lemma run_proof:
  assumes "visual_config_post_init (visual_config c) = Inr ()"
  shows "approach_proof c vs (foldl (approach_step c) (approach_reset s) vs)"
proof (induction vs rule: rev_induct)
  case Nil
  show ?case by (simp add: approach_proof_def approach_reset_def)
next
  case (snoc v vs)
  then show ?case using step_proof [OF assms] by simp
qed

section \<open>Time\<close>

definition approach_clock :: "TwoStageApproachConfig \<Rightarrow> ApproachInput list \<Rightarrow> TwoStageApproachController \<Rightarrow> bool" where
  "approach_clock c vs s \<longleftrightarrow>
     (let h = the_fin (handoff_timeout_s c); d = the_fin (servo_timeout_s c) in
      approach_phase s \<in> {AP_COMPLETE, AP_FAILED}
      \<or> vs = [] \<and> approach_phase s = AP_FAR_NAV \<and> approach_phase_started s = None
      \<or> vs \<noteq> [] \<and> (\<exists>b. approach_phase_started s = Some b
          \<and> (case approach_phase s of
               AP_FAR_NAV \<Rightarrow> b - stamp_of (hd vs) \<le> 0 \<and> stamp_of (last vs) - b \<le> h
             | AP_HANDOFF \<Rightarrow> b - stamp_of (hd vs) \<le> h \<and> stamp_of (last vs) - b \<le> h
             | _ \<Rightarrow> b - stamp_of (hd vs) \<le> 2 * h \<and> stamp_of (last vs) - b \<le> d)))"

lemma drive_time:
  "drive_visually c v t s = (k, r) \<Longrightarrow> approach_phase r = approach_phase s \<and> approach_phase_started r = approach_phase_started s"
  by (auto simp: drive_visually_def split: prod.splits)

text \<open>A tick of a live phase ends the approach, stays in the phase, or starts the next one now.\<close>

lemma active_time:
  assumes "snd (approach_live_tick c v t s) = s'" and "approach_phase s' \<notin> {AP_COMPLETE, AP_FAILED}"
    and "approach_phase s \<notin> {AP_COMPLETE, AP_FAILED}"
  shows "\<not> (if approach_phase s = AP_VISUAL_SERVO then servo_timeout_s c else handoff_timeout_s c)
             < Fin (t - the (approach_phase_started s))
    \<and> (approach_phase s' = approach_phase s \<and> approach_phase_started s' = approach_phase_started s
       \<or> approach_phase s = AP_FAR_NAV \<and> approach_phase s' = AP_HANDOFF \<and> approach_phase_started s' = Some t
       \<or> approach_phase s = AP_HANDOFF \<and> approach_phase s' = AP_VISUAL_SERVO \<and> approach_phase_started s' = Some t)"
  using assms
  by (cases "approach_phase s")
    (auto simp: approach_live_tick_def Let_def approach_fail_def approach_output_def far_navigation_def handoff_tick_def
      servo_tick_def dest!: drive_time split: if_splits prod.splits)

lemma step_clock:
  assumes "approach_clock c vs s" and "approach_config_post_init c = Inr ()"
    and "isfinite (handoff_timeout_s c)" and "isfinite (servo_timeout_s c)"
  shows "approach_clock c (vs @ [v]) (approach_step c s v)"
proof (cases "approach_phase (approach_step c s v) \<in> {AP_COMPLETE, AP_FAILED}")
  case True
  then show ?thesis by (simp add: approach_clock_def Let_def)
next
  case False
  then obtain b where live: "approach_phase s \<notin> {AP_COMPLETE, AP_FAILED}"
    and b': "b = (case approach_phase_started s of None \<Rightarrow> stamp_of v | Some b \<Rightarrow> b)"
    and run: "approach_step c s v = snd (approach_live_tick c v (stamp_of v) (active_state v b s))"
    by (cases rule: update_cases [of c v s]) (auto simp: approach_step_def approach_fail_def approach_output_def)
  obtain h d where lim: "handoff_timeout_s c = Fin h" "servo_timeout_s c = Fin d" "0 < h" "0 < d"
    using assms(2-4) by (auto simp: approach_config_post_init_def isfinite_iff)
  have "approach_phase (active_state v b s) \<notin> {AP_COMPLETE, AP_FAILED}" using live by (simp add: active_state_def)
  note move = active_time [OF run [symmetric] False this, unfolded active_state_def, simplified]
  have b: "vs = [] \<and> approach_phase s = AP_FAR_NAV \<and> b = stamp_of v
      \<or> vs \<noteq> [] \<and> (case approach_phase s of
                      AP_FAR_NAV \<Rightarrow> b - stamp_of (hd vs) \<le> 0
                    | AP_HANDOFF \<Rightarrow> b - stamp_of (hd vs) \<le> h
                    | _ \<Rightarrow> b - stamp_of (hd vs) \<le> 2 * h)"
    using assms(1) live lim b' by (cases "approach_phase s") (auto simp: approach_clock_def Let_def)
  show ?thesis
    using move b lim live unfolding approach_clock_def Let_def
    by (cases "approach_phase s") (auto split: if_splits)
qed

lemma run_clock:
  assumes "approach_config_post_init c = Inr ()" "isfinite (handoff_timeout_s c)" "isfinite (servo_timeout_s c)"
  shows "approach_clock c vs (foldl (approach_step c) (approach_reset s) vs)"
proof (induction vs rule: rev_induct)
  case Nil
  show ?case by (simp add: approach_clock_def approach_reset_def Let_def)
next
  case (snoc v vs)
  then show ?case using step_clock assms by simp
qed

section \<open>The properties\<close>

text \<open>C28: On every tick, in every state, the velocity has one owner. Navigation owns it only in the far phase, and then
  the servo commands zero and navigation is not cancelled. The servo owns it only in its own phase with navigation
  cancelled, inside its speed limits. In every other phase nobody drives and the command is zero.\<close>

theorem one_velocity_owner:
  assumes "visual_config_post_init (visual_config c) = Inr ()"
  shows "owned_output (visual_config c) (fst (approach_update c v s))"
proof -
  have "owned_output (visual_config c) (fst (approach_live_tick c v t r))"
    if "approach_phase r \<notin> {AP_COMPLETE, AP_FAILED}" for t r
    using that drive_bounded [OF assms] stop_bounded [OF assms]
    by (cases "approach_phase r")
      (auto simp: approach_live_tick_def Let_def approach_fail_def approach_output_def far_navigation_def handoff_tick_def
        servo_tick_def owned_output_def dest: drive_time split: prod.splits)
  then show ?thesis
    by (cases rule: update_cases [of c v s])
      (auto simp: approach_fail_def approach_output_def owned_output_def active_state_def)
qed

text \<open>C29: An approach that is complete since its reset was first tracked without a gap for the lock time while the
  base, still tracked, stood quiet for the quiet time; from that tick on, the servo ran, and the target stayed on its
  goal (the window with its exit margin) for the settle time, both up to a nanosecond. The attitude was within its
  limits on every tick until then.\<close>

theorem complete_only_after_quiet_and_settled:
  assumes "visual_config_post_init (visual_config c) = Inr ()"
    and "approach_phase (foldl (approach_step c) (approach_reset s) vs) = AP_COMPLETE"
  shows "\<exists>pre post rest. vs = pre @ post @ rest \<and> quiet_handoff c pre
    \<and> settled_view (visual_config c) (last pre # post) \<and> list_all (\<lambda>v. \<not> attitude_exceeded c v) (pre @ post)"
proof -
  obtain done_at rest where "vs = done_at @ rest" "completion_proof c done_at"
    using run_proof [OF assms(1), of vs s] assms(2) by (auto simp: approach_proof_def)
  moreover from this obtain pre post where "done_at = pre @ post" "quiet_handoff c pre"
    "settled_view (visual_config c) (last pre # post)" "list_all (upright c) done_at"
    unfolding completion_proof_def by blast
  ultimately show ?thesis
    by (intro exI [of _ pre] exI [of _ post] exI [of _ rest]) (simp add: upright_def [abs_def])
qed

text \<open>C30: Every approach ends: ticks whose stamps span more than twice the handoff timeout and the servo timeout leave
  it complete or failed, whatever target, velocity and attitude they report.\<close>

theorem approach_ends_in_time:
  assumes "approach_config_post_init c = Inr ()"
    and "handoff_timeout_s c = Fin h" and "servo_timeout_s c = Fin d"
    and "vs \<noteq> []" and "2 * h + d < stamp_of (last vs) - stamp_of (hd vs)"
  shows "approach_phase (foldl (approach_step c) (approach_reset s) vs) \<in> {AP_COMPLETE, AP_FAILED}"
proof -
  have "0 < h" "0 < d" using assms(1-3) by (auto simp: approach_config_post_init_def)
  then show ?thesis
    using run_clock [OF assms(1), of vs s] assms(2-5)
    by (cases "approach_phase (foldl (approach_step c) (approach_reset s) vs)") (auto simp: approach_clock_def Let_def)
qed

section \<open>Witnesses\<close>

definition demo_visual :: VisualServoConfig where
  "demo_visual = \<lparr> default_depth_m = 1 / 2, depth_tolerance_m = 1 / 20, lateral_tolerance_m = 1 / 25,
                   depth_exit_hysteresis_m = 1 / 100, lateral_exit_hysteresis_m = 1 / 200, converge_time_s = 2,
                   linear_gain = 1, turn_gain = 1, max_forward_mps = 1 / 5, max_reverse_mps = 1 / 10,
                   max_turn_rps = 1 / 3, rotate_only_bearing_rad = 1 / 3, turn_deadband_rad = 0 \<rparr>"

definition demo_approach :: TwoStageApproachConfig where
  "demo_approach = \<lparr> near_stage_threshold_m = Fin (7 / 5), tracker_lock_time_s = Fin 1, handoff_quiet_time_s = Fin 1,
                     navigation_quiet_speed_mps = Fin (1 / 40), navigation_quiet_yaw_rate_rps = Fin (1 / 30),
                     track_loss_timeout_s = Fin 1, handoff_timeout_s = Fin 60, servo_timeout_s = Fin 60,
                     max_base_roll_rad = Fin (1 / 6), max_base_pitch_rad = Fin (1 / 5), visual_config = demo_visual \<rparr>"

definition demo_tick :: "real \<Rightarrow> real \<Rightarrow> ApproachInput" where
  "demo_tick t z = \<lparr> approach_stamp_s = Fin t, approximate_range_m = None,
                     target_position_camera = Some [Fin 0, Fin 0, Fin z], tracker_locked = True,
                     navigation_speed_mps = 0, navigation_yaw_rate_rps = 0, base_roll_rad = 0, base_pitch_rad = 0,
                     goal_depth_m = None \<rparr>"

definition demo_ticks :: "ApproachInput list" where
  "demo_ticks = [demo_tick 0 1, demo_tick 1 1, demo_tick 2 1, demo_tick 3 1, demo_tick 4 (1 / 2), demo_tick 5 (1 / 2),
                 demo_tick 6 (1 / 2)]"

lemma demo_visual_valid: "visual_config_post_init (visual_config demo_approach) = Inr ()"
  using pi_ge_two by (simp add: demo_approach_def demo_visual_def visual_config_post_init_def)

lemmas demo_run_simps = demo_approach_def demo_visual_def demo_tick_def approach_step_def approach_update_def
  approach_scalars_def approach_reset_def approach_init_def approach_live_tick_def far_navigation_def handoff_tick_def
  servo_tick_def drive_visually_def visual_update_def servo_measured_def visual_reset_def approach_output_def
  approach_fail_def has_target_def since_def visual_range_def approximate_range_def navigation_quiet_def
  attitude_exceeded_def motion_command_def servo_clamp_def zero_pyfloat_def atan2_def

lemma one_velocity_owner_witness:
  "owned_output demo_visual (fst (approach_update demo_approach (demo_tick 0 1) approach_init))"
  using one_velocity_owner [OF demo_visual_valid] by (simp add: demo_approach_def)

lemma complete_only_after_quiet_and_settled_witness:
  "\<exists>pre post rest. demo_ticks = pre @ post @ rest \<and> quiet_handoff demo_approach pre
     \<and> settled_view (visual_config demo_approach) (last pre # post)"
proof -
  have "approach_phase (foldl (approach_step demo_approach) (approach_reset approach_init) demo_ticks) = AP_COMPLETE"
    by (simp add: demo_ticks_def demo_run_simps)
  from complete_only_after_quiet_and_settled [OF demo_visual_valid this] show ?thesis by blast
qed

lemma approach_ends_in_time_witness:
  "approach_phase (foldl (approach_step demo_approach) (approach_reset approach_init) [demo_tick 0 1, demo_tick 200 1])
     \<in> {AP_COMPLETE, AP_FAILED}"
proof (rule approach_ends_in_time [where h = 60 and d = 60])
  show "approach_config_post_init demo_approach = Inr ()"
    by (simp add: demo_approach_def approach_config_post_init_def)
qed (simp_all add: demo_approach_def demo_tick_def stamp_of_def)

end
