(* ===== verification/Wrist_Search.thy ===== *)
theory Wrist_Search
  imports Interfaces
begin

text \<open>
  The bounded target search with the wrist camera, \<open>src/z_manip/control/wrist_search.py\<close>: the grid of viewpoints around the
  measured anchor, its nearest-neighbour order, and \<open>BoundedWristSearch\<close>, which moves to a view, lets the camera
  settle and counts detector confirmations. The configuration admits finite floats only, so it holds reals; feedback
  and times are floats. An operation answers the value or the exception, and the state after it.
\<close>

section \<open>Configuration\<close>

definition PAN_VIEW_GAIN :: real where
  "PAN_VIEW_GAIN = 888 / 1000"

definition PITCH_VIEW_GAIN :: real where
  "PITCH_VIEW_GAIN = 1"

datatype WristSearchPhase = WS_IDLE | WS_MOVE | WS_SETTLE | WS_OBSERVE | WS_FOUND | WS_EXHAUSTED | WS_STOPPED

record WristSearchConfig =
  pan_joint_index :: int
  pitch_joint_index :: int
  pan_step_rad :: real
  pitch_step_rad :: real
  max_pan_offset_rad :: real
  max_pitch_offset_rad :: real
  settle_s :: real
  detector_hz :: real
  observations_per_view :: int
  confidence_threshold :: real
  confirmations_required :: int
  reset_on_confident_negative :: bool
  skip_anchor_view :: bool
  joint_tolerance_rad :: real
  max_search_s :: real

definition wrist_config_post_init :: "WristSearchConfig \<Rightarrow> unit res" where
  "wrist_config_post_init c =
     raise_if (pan_joint_index c = pitch_joint_index c) (ValueError ''wrist search joints must be distinct'')
     (raise_if (min (pan_joint_index c) (pitch_joint_index c) < 0)
       (ValueError ''wrist search joint indices must be non-negative'')
     (raise_if (list_ex (\<lambda>x. x \<le> 0)
                  [pan_step_rad c, pitch_step_rad c, max_pan_offset_rad c, max_pitch_offset_rad c, settle_s c,
                   detector_hz c, joint_tolerance_rad c, max_search_s c])
       (ValueError ''wrist search limits must be finite and positive'')
     (raise_if (max_pan_offset_rad c < pan_step_rad c) (ValueError ''pan step exceeds the search envelope'')
     (raise_if (max_pitch_offset_rad c < pitch_step_rad c) (ValueError ''pitch step exceeds the search envelope'')
     (raise_if (observations_per_view c < 1 \<or> confirmations_required c < 1)
       (ValueError ''wrist search observation counts must be positive'')
     (raise_if (observations_per_view c < confirmations_required c)
       (ValueError ''confirmations cannot exceed observations per view'')
     (raise_if (\<not> (0 < confidence_threshold c \<and> confidence_threshold c \<le> 1))
       (ValueError ''confidence threshold must be in (0, 1]'') (Inr ()))))))))"

definition observation_period_s :: "WristSearchConfig \<Rightarrow> real" where
  "observation_period_s c = 1 / detector_hz c"

section \<open>The viewpoints\<close>

record WristView =
  view_number :: nat
  pan_offset_rad :: real
  pitch_offset_rad :: real

type_synonym offset = "real \<times> real"

definition view_space :: "offset \<Rightarrow> offset" where
  "view_space v = (fst v * PAN_VIEW_GAIN, snd v * PITCH_VIEW_GAIN)"

text \<open>The loop that adds a level on either side; \<open>None\<close> would be a loop that does not end.\<close>

partial_function (option) levels_from :: "real \<Rightarrow> real \<Rightarrow> real \<Rightarrow> real list option" where
  "levels_from stp maximum radius =
     (if radius \<le> maximum + 1 / 10 ^ 9
      then Option.bind (levels_from stp maximum (radius + stp)) (\<lambda>rest. Some (radius # - radius # rest))
      else Some [])"

definition grid_levels :: "real \<Rightarrow> real \<Rightarrow> real list option" where
  "grid_levels stp maximum = Option.bind (levels_from stp maximum stp) (\<lambda>rest. Some (0 # rest))"

text \<open>The set of offsets other than the anchor, as a list without repetitions.\<close>

definition search_offsets :: "real list \<Rightarrow> real list \<Rightarrow> offset list" where
  "search_offsets pans pitches =
     remdups (concat (map (\<lambda>pitch. map (\<lambda>pan. (pan, pitch)) (filter (\<lambda>pan. \<not> (pan = 0 \<and> pitch = 0)) pans)) pitches))"

definition hypot :: "real \<Rightarrow> real \<Rightarrow> real" where
  "hypot a b = sqrt (a * a + b * b)"

definition view_key :: "offset \<Rightarrow> offset \<Rightarrow> real list" where
  "view_key current v =
     (let (cx, cy) = view_space current; (x, y) = view_space v
      in [hypot (x - cx) (y - cy), hypot x y, \<bar>y\<bar>, \<bar>x\<bar>, y, x])"

text \<open>Tuples compare entry by entry.\<close>

fun tuple_less :: "real list \<Rightarrow> real list \<Rightarrow> bool" where
  "tuple_less (a # as) (b # bs) = (a < b \<or> a = b \<and> tuple_less as bs)"
| "tuple_less _ _ = False"

fun nearest_view :: "offset \<Rightarrow> offset \<Rightarrow> offset list \<Rightarrow> offset" where
  "nearest_view current best [] = best"
| "nearest_view current best (v # vs) =
     nearest_view current (if tuple_less (view_key current v) (view_key current best) then v else best) vs"

lemma nearest_view_in: "nearest_view current best vs \<in> insert best (set vs)"
  by (induction vs arbitrary: best) (simp, smt (verit) insert_iff list.simps(15) nearest_view.simps(2))

function raster_walk :: "offset \<Rightarrow> offset list \<Rightarrow> offset list" where
  "raster_walk current [] = []"
| "raster_walk current (v # vs) =
     (let n = nearest_view current v vs in n # raster_walk n (removeAll n (v # vs)))"
  by pat_completeness auto
termination
proof (relation "measure (\<lambda>(_, vs). length vs)")
  fix current :: offset and v vs n assume n: "n = nearest_view current v vs"
  then have "n \<in> set (v # vs)" using nearest_view_in [of current v vs] by simp
  then have "length (removeAll n (v # vs)) < length (v # vs)" by (rule length_removeAll_less)
  then show "((n, removeAll n (v # vs)), current, v # vs) \<in> measure (\<lambda>(_, vs). length vs)" by simp
qed simp

definition make_views :: "WristSearchConfig \<Rightarrow> WristView list option" where
  "make_views c =
     Option.bind (grid_levels (pan_step_rad c) (max_pan_offset_rad c)) (\<lambda>pans.
     Option.bind (grid_levels (pitch_step_rad c) (max_pitch_offset_rad c)) (\<lambda>pitches.
     Some (map (\<lambda>(i, v). \<lparr> view_number = i, pan_offset_rad = fst v, pitch_offset_rad = snd v \<rparr>)
             (enumerate 0 ((0, 0) # raster_walk (0, 0) (search_offsets pans pitches))))))"

section \<open>The search\<close>

record WristSearchDecision =
  decided_phase :: WristSearchPhase
  decided_view :: "WristView option"
  target_joints_rad :: "real list option"
  decided_confidence :: "real option"
  decided_confirmations :: int
  decided_message :: string

record BoundedWristSearch =
  ws_views :: "WristView list"
  ws_phase :: WristSearchPhase
  anchor_joints_rad :: "real list option"
  started_at_s :: "real option"
  view_started_at_s :: "real option"
  last_observation_at_s :: "real option"
  view_index :: nat
  observation_count :: int
  confirmation_count :: int
  last_confidence :: "real option"

type_synonym search_op = "(WristSearchDecision, BoundedWristSearch) outcome"

definition wrist_reset :: "BoundedWristSearch \<Rightarrow> BoundedWristSearch" where
  "wrist_reset s = s\<lparr> ws_phase := WS_IDLE, anchor_joints_rad := None, started_at_s := None, view_started_at_s := None,
                     last_observation_at_s := None, view_index := 0, observation_count := 0, confirmation_count := 0,
                     last_confidence := None \<rparr>"

definition wrist_init :: "WristSearchConfig \<Rightarrow> BoundedWristSearch option" where
  "wrist_init c =
     map_option (\<lambda>vs. \<lparr> ws_views = vs, ws_phase = WS_IDLE, anchor_joints_rad = None, started_at_s = None,
                        view_started_at_s = None, last_observation_at_s = None, view_index = 0, observation_count = 0,
                        confirmation_count = 0, last_confidence = None \<rparr>)
       (make_views c)"

definition shift_joint :: "int \<Rightarrow> real \<Rightarrow> real list \<Rightarrow> real list" where
  "shift_joint i d joints = joints[nat i := joints ! nat i + d]"

definition view_target :: "WristSearchConfig \<Rightarrow> real list \<Rightarrow> WristView \<Rightarrow> real list" where
  "view_target c anchor view =
     shift_joint (pitch_joint_index c) (pitch_offset_rad view) (shift_joint (pan_joint_index c) (pan_offset_rad view) anchor)"

definition wrist_target :: "WristSearchConfig \<Rightarrow> BoundedWristSearch \<Rightarrow> real list res" where
  "wrist_target c s =
     (case anchor_joints_rad s of
        None \<Rightarrow> Inl (RuntimeError ''wrist search has no measured anchor'')
      | Some anchor \<Rightarrow> Inr (view_target c anchor (ws_views s ! view_index s)))"

definition wrist_decision :: "WristSearchConfig \<Rightarrow> real option \<Rightarrow> string \<Rightarrow> BoundedWristSearch \<Rightarrow> search_op" where
  "wrist_decision c confidence message s =
     (let shown = anchor_joints_rad s \<noteq> None \<and> view_index s < length (ws_views s)
      in (Inr \<lparr> decided_phase = ws_phase s,
                decided_view = (if shown then Some (ws_views s ! view_index s) else None),
                target_joints_rad = (if shown then (case wrist_target c s of Inr t \<Rightarrow> Some t | Inl _ \<Rightarrow> None) else None),
                decided_confidence = confidence, decided_confirmations = confirmation_count s,
                decided_message = message \<rparr>, s))"

definition wrist_start :: "WristSearchConfig \<Rightarrow> pyfloat list \<Rightarrow> pyfloat \<Rightarrow> BoundedWristSearch \<Rightarrow> search_op" where
  "wrist_start c joints now s =
     guard (int (length joints) < max (pan_joint_index c) (pitch_joint_index c) + 1 \<or> \<not> list_all isfinite joints)
       (ValueError ''wrist search anchor must contain finite measured joints'') s
     (guard (\<not> isfinite now) (ValueError ''wrist search timestamp must be finite'') s
       (wrist_decision c None ''move to the first bounded search view''
         ((wrist_reset s)\<lparr> anchor_joints_rad := Some (map the_fin joints), started_at_s := Some (the_fin now),
            view_started_at_s := Some (the_fin now),
            view_index := (if skip_anchor_view c \<and> 1 < length (ws_views s) then 1 else 0), ws_phase := WS_MOVE \<rparr>)))"

definition wrist_stop :: "WristSearchConfig \<Rightarrow> BoundedWristSearch \<Rightarrow> search_op" where
  "wrist_stop c s = wrist_decision c None ''wrist search stopped'' (s\<lparr> ws_phase := WS_STOPPED \<rparr>)"

definition wrist_time :: "WristSearchConfig \<Rightarrow> pyfloat \<Rightarrow> BoundedWristSearch \<Rightarrow> (real, BoundedWristSearch) outcome" where
  "wrist_time c now s =
     guard (started_at_s s = None \<or> \<not> isfinite now \<or> the_fin now < the (started_at_s s))
       (ValueError ''wrist search time must be finite and monotonic'') s
     (guard (max_search_s c < the_fin now - the (started_at_s s))
       (TimeoutError ''bounded wrist search exceeded its hard deadline'') (s\<lparr> ws_phase := WS_EXHAUSTED \<rparr>)
       (Inr (the_fin now), s))"

definition off_target :: "WristSearchConfig \<Rightarrow> real list \<Rightarrow> real list \<Rightarrow> bool" where
  "off_target c joints target = list_ex (\<lambda>(j, t). joint_tolerance_rad c < \<bar>j - t\<bar>) (zip joints target)"

definition arrived :: "WristSearchConfig \<Rightarrow> real \<Rightarrow> BoundedWristSearch \<Rightarrow> search_op" where
  "arrived c now s =
     (let t = (if ws_phase s = WS_MOVE then s\<lparr> ws_phase := WS_SETTLE, view_started_at_s := Some now \<rparr> else s)
      in if now - the (view_started_at_s t) < settle_s c then wrist_decision c None ''letting the wrist camera settle'' t
         else wrist_decision c None ''sampling detector confidence''
                (t\<lparr> ws_phase := WS_OBSERVE, observation_count := 0, confirmation_count := 0, last_observation_at_s := None \<rparr>))"

definition update_motion :: "WristSearchConfig \<Rightarrow> pyfloat list \<Rightarrow> pyfloat \<Rightarrow> BoundedWristSearch \<Rightarrow> search_op" where
  "update_motion c joints now s =
     guard (ws_phase s \<notin> {WS_MOVE, WS_SETTLE}) (RuntimeError ''wrist search is not waiting for motion'') s
     (obind (wrist_time c now s) (\<lambda>t s.
      gbind (wrist_target c s) s (\<lambda>target.
      guard (length joints \<noteq> length target \<or> \<not> list_all isfinite joints)
        (ValueError ''wrist search feedback does not match the anchor'') s
      (if off_target c (map the_fin joints) target
       then wrist_decision c None ''waiting for measured wrist viewpoint'' (s\<lparr> ws_phase := WS_MOVE \<rparr>)
       else arrived c t s))))"

text \<open>A view that collected its observations without confirmation gives way to the next, if any.\<close>

definition next_view :: "WristSearchConfig \<Rightarrow> real option \<Rightarrow> real \<Rightarrow> BoundedWristSearch \<Rightarrow> search_op" where
  "next_view c value now s =
     (let t = s\<lparr> view_index := view_index s + 1, observation_count := 0, confirmation_count := 0 \<rparr>
      in if length (ws_views t) \<le> view_index t then
           (Inr \<lparr> decided_phase = WS_EXHAUSTED, decided_view = None, target_joints_rad = None, decided_confidence = value,
                  decided_confirmations = 0, decided_message = ''bounded wrist search exhausted'' \<rparr>,
            t\<lparr> ws_phase := WS_EXHAUSTED \<rparr>)
         else wrist_decision c value ''advance to the next search view''
                (t\<lparr> ws_phase := WS_MOVE, view_started_at_s := Some now \<rparr>))"

definition qualified_frame :: "WristSearchConfig \<Rightarrow> bool \<Rightarrow> real option \<Rightarrow> bool" where
  "qualified_frame c visible value = (visible \<and> (case value of None \<Rightarrow> False | Some v \<Rightarrow> confidence_threshold c \<le> v))"

definition confident_negative :: "WristSearchConfig \<Rightarrow> bool \<Rightarrow> real option \<Rightarrow> bool" where
  "confident_negative c visible value = (visible \<and> (case value of None \<Rightarrow> False | Some v \<Rightarrow> v < confidence_threshold c))"

definition count_observation ::
  "WristSearchConfig \<Rightarrow> bool \<Rightarrow> real option \<Rightarrow> real \<Rightarrow> BoundedWristSearch \<Rightarrow> search_op" where
  "count_observation c visible value now s =
     (let t = s\<lparr> last_observation_at_s := Some now, last_confidence := value, observation_count := observation_count s + 1,
                 confirmation_count :=
                   (if qualified_frame c visible value then confirmation_count s + 1
                    else if confident_negative c visible value \<and> reset_on_confident_negative c then 0
                    else confirmation_count s) \<rparr>
      in if confirmations_required c \<le> confirmation_count t then
           wrist_decision c value ''target confirmed'' (t\<lparr> ws_phase := WS_FOUND \<rparr>)
         else if observation_count t < observations_per_view c then
           wrist_decision c value ''collecting detector confirmations'' t
         else next_view c value now t)"

definition too_soon :: "WristSearchConfig \<Rightarrow> real \<Rightarrow> BoundedWristSearch \<Rightarrow> bool" where
  "too_soon c now s =
     (case last_observation_at_s s of None \<Rightarrow> False | Some u \<Rightarrow> now - u + 1 / 10 ^ 9 < observation_period_s c)"

definition wrist_observe ::
  "WristSearchConfig \<Rightarrow> bool \<Rightarrow> pyfloat option \<Rightarrow> pyfloat \<Rightarrow> BoundedWristSearch \<Rightarrow> search_op" where
  "wrist_observe c visible confidence now s =
     guard (ws_phase s \<noteq> WS_OBSERVE) (RuntimeError ''wrist search is not accepting observations'') s
     (obind (wrist_time c now s) (\<lambda>t s.
      if too_soon c t s then
        wrist_decision c (last_confidence s) ''waiting for the next detector cadence'' s
      else
        guard (case confidence of None \<Rightarrow> False | Some v \<Rightarrow> \<not> isfinite v \<or> \<not> (0 \<le> v \<and> v \<le> Fin 1))
          (ValueError ''detector confidence must be finite and within [0, 1]'') s
          (count_observation c visible (map_option the_fin confidence) t s)))"

end
