(* ===== verification/Wrist_Laws.thy ===== *)
theory Wrist_Laws
  imports Wrist_Search
begin

text \<open>
  The wrist search over calls: the grid is visited once and in full, every target stays in the envelope around the
  anchor, the observations are bounded, and a found target was confirmed at a settled view.
\<close>

section \<open>The grid\<close>

text \<open>A multiple of the step inside the envelope, on either side.\<close>

definition on_grid :: "real \<Rightarrow> real \<Rightarrow> real \<Rightarrow> bool" where
  "on_grid stp maximum x \<longleftrightarrow> (\<exists>k :: nat. \<bar>x\<bar> = of_nat k * stp) \<and> \<bar>x\<bar> \<le> maximum + 1 / 10 ^ 9"

lemma beyond_levels:
  fixes k :: nat
  assumes "0 < stp" "m < radius"
  shows "\<not> (\<bar>x\<bar> = radius + of_nat k * stp \<and> \<bar>x\<bar> \<le> (m :: real))"
proof -
  have "0 \<le> of_nat k * stp" using assms(1) by simp
  then show ?thesis using assms(2) by linarith
qed

lemma levels_from_set:
  assumes "0 < stp" "0 < radius"
  shows "\<exists>ls. levels_from stp maximum radius = Some ls
           \<and> set ls = {x. (\<exists>k :: nat. \<bar>x\<bar> = radius + of_nat k * stp) \<and> \<bar>x\<bar> \<le> maximum + 1 / 10 ^ 9}"
proof -
  obtain n :: nat where "maximum + 1 / 10 ^ 9 - radius < of_nat n * stp"
    using reals_Archimedean3 [OF assms(1)] by blast
  then show ?thesis using assms(2)
  proof (induction n arbitrary: radius)
    case 0
    then have "maximum + 1 / 10 ^ 9 < radius" by simp
    then show ?case
      using beyond_levels [OF assms(1) \<open>maximum + 1 / 10 ^ 9 < radius\<close>]
      by (auto simp: levels_from.simps [of stp maximum radius])
  next
    case (Suc n)
    have "maximum + 1 / 10 ^ 9 - (radius + stp) < of_nat n * stp"
      using Suc.prems by (simp add: algebra_simps)
    from Suc.IH [OF this] Suc.prems(2) assms(1) obtain ls where
      ls: "levels_from stp maximum (radius + stp) = Some ls"
      and set_ls: "set ls = {x. (\<exists>k :: nat. \<bar>x\<bar> = radius + stp + of_nat k * stp) \<and> \<bar>x\<bar> \<le> maximum + 1 / 10 ^ 9}"
      by auto
    have split: "(\<exists>k :: nat. y = radius + of_nat k * stp) \<longleftrightarrow> y = radius \<or> (\<exists>k :: nat. y = radius + stp + of_nat k * stp)" for y
    proof
      assume "\<exists>k :: nat. y = radius + of_nat k * stp"
      then obtain k :: nat where k: "y = radius + of_nat k * stp" by blast
      show "y = radius \<or> (\<exists>k :: nat. y = radius + stp + of_nat k * stp)"
      proof (cases k)
        case 0
        then show ?thesis using k by simp
      next
        case (Suc m)
        then have "y = radius + stp + of_nat m * stp" using k by (simp add: algebra_simps)
        then show ?thesis by blast
      qed
    next
      assume "y = radius \<or> (\<exists>k :: nat. y = radius + stp + of_nat k * stp)"
      then show "\<exists>k :: nat. y = radius + of_nat k * stp"
      proof
        assume "y = radius"
        then show ?thesis by (intro exI [of _ 0]) simp
      next
        assume "\<exists>k :: nat. y = radius + stp + of_nat k * stp"
        then obtain k :: nat where "y = radius + stp + of_nat k * stp" by blast
        then show ?thesis by (intro exI [of _ "Suc k"]) (simp add: algebra_simps)
      qed
    qed
    show ?case
    proof (cases "radius \<le> maximum + 1 / 10 ^ 9")
      case True
      then have "levels_from stp maximum radius = Some (radius # - radius # ls)"
        using ls by (subst levels_from.simps) simp
      moreover have "set (radius # - radius # ls)
          = {x. (\<exists>k :: nat. \<bar>x\<bar> = radius + of_nat k * stp) \<and> \<bar>x\<bar> \<le> maximum + 1 / 10 ^ 9}"
        using True Suc.prems(2) unfolding split by (auto simp: set_ls abs_if)
      ultimately show ?thesis by blast
    next
      case False
      then have "maximum + 1 / 10 ^ 9 < radius" by simp
      then show ?thesis
        using beyond_levels [OF assms(1) \<open>maximum + 1 / 10 ^ 9 < radius\<close>]
        by (auto simp: levels_from.simps [of stp maximum radius])
    qed
  qed
qed

lemma grid_levels_set:
  assumes "0 < stp" "0 \<le> maximum"
  shows "\<exists>ls. grid_levels stp maximum = Some ls \<and> set ls = {x. on_grid stp maximum x}"
proof -
  obtain ls where ls: "levels_from stp maximum stp = Some ls"
    and set_ls: "set ls = {x. (\<exists>k :: nat. \<bar>x\<bar> = stp + of_nat k * stp) \<and> \<bar>x\<bar> \<le> maximum + 1 / 10 ^ 9}"
    using levels_from_set [OF assms(1) assms(1)] by blast
  have "(\<exists>k :: nat. \<bar>x\<bar> = of_nat k * stp) \<longleftrightarrow> x = 0 \<or> (\<exists>k :: nat. \<bar>x\<bar> = stp + of_nat k * stp)" for x
  proof
    assume "\<exists>k :: nat. \<bar>x\<bar> = of_nat k * stp"
    then obtain k :: nat where k: "\<bar>x\<bar> = of_nat k * stp" by blast
    show "x = 0 \<or> (\<exists>k :: nat. \<bar>x\<bar> = stp + of_nat k * stp)"
    proof (cases k)
      case (Suc m)
      then have "\<bar>x\<bar> = stp + of_nat m * stp" using k by (simp add: algebra_simps)
      then show ?thesis by blast
    qed (use k in simp)
  next
    assume "x = 0 \<or> (\<exists>k :: nat. \<bar>x\<bar> = stp + of_nat k * stp)"
    then show "\<exists>k :: nat. \<bar>x\<bar> = of_nat k * stp"
    proof
      assume "x = 0"
      then show ?thesis by (intro exI [of _ 0]) simp
    next
      assume "\<exists>k :: nat. \<bar>x\<bar> = stp + of_nat k * stp"
      then obtain k :: nat where "\<bar>x\<bar> = stp + of_nat k * stp" by blast
      then show ?thesis by (intro exI [of _ "Suc k"]) (simp add: algebra_simps)
    qed
  qed
  then have "set (0 # ls) = {x. on_grid stp maximum x}"
    using assms(2) by (auto simp: set_ls on_grid_def)
  then show ?thesis using ls by (simp add: grid_levels_def)
qed

lemma raster_walk_permutes: "set (raster_walk current vs) = set vs \<and> distinct (raster_walk current vs)"
proof (induction current vs rule: raster_walk.induct)
  case (2 current v vs)
  let ?n = "nearest_view current v vs"
  have "?n \<in> set (v # vs)" using nearest_view_in [of current v vs] by simp
  then show ?case using "2.IH" [OF refl] by (auto simp: Let_def)
qed simp

lemma search_offsets_set:
  "set (search_offsets pans pitches) = {(p, q). p \<in> set pans \<and> q \<in> set pitches \<and> (p, q) \<noteq> (0, 0)}"
  by (auto simp: search_offsets_def)

text \<open>The offsets of a view list.\<close>

definition offsets :: "WristView list \<Rightarrow> offset list" where
  "offsets vs = map (\<lambda>v. (pan_offset_rad v, pitch_offset_rad v)) vs"

lemma offsets_numbered:
  "offsets (map (\<lambda>(i, o'). \<lparr> view_number = i, pan_offset_rad = fst o', pitch_offset_rad = snd o' \<rparr>) (enumerate n os)) = os"
  by (induction os arbitrary: n) (simp_all add: offsets_def)

lemma numbers_numbered:
  "map view_number (map (\<lambda>(i, o'). \<lparr> view_number = i, pan_offset_rad = fst o', pitch_offset_rad = snd o' \<rparr>)
     (enumerate n os)) = [n ..< n + length os]"
  by (induction os arbitrary: n) (simp_all add: upt_rec)

lemma wrist_config_values:
  assumes "wrist_config_post_init c = Inr ()"
  shows "0 < pan_step_rad c" "0 < pitch_step_rad c" "pan_step_rad c \<le> max_pan_offset_rad c"
    "pitch_step_rad c \<le> max_pitch_offset_rad c" "0 \<le> pan_joint_index c" "0 \<le> pitch_joint_index c"
    "pan_joint_index c \<noteq> pitch_joint_index c" "1 \<le> observations_per_view c" "1 \<le> confirmations_required c"
    "confirmations_required c \<le> observations_per_view c"
  using assms by (auto simp: wrist_config_post_init_def)

lemma views_are_grid:
  assumes "wrist_config_post_init c = Inr ()"
  shows "\<exists>vs. make_views c = Some vs \<and> map view_number vs = [0 ..< length vs] \<and> hd (offsets vs) = (0, 0)
    \<and> distinct (offsets vs)
    \<and> set (offsets vs) = {(p, q). on_grid (pan_step_rad c) (max_pan_offset_rad c) p
                                 \<and> on_grid (pitch_step_rad c) (max_pitch_offset_rad c) q}"
proof -
  note v = wrist_config_values [OF assms]
  obtain pans where pans: "grid_levels (pan_step_rad c) (max_pan_offset_rad c) = Some pans"
    and set_pans: "set pans = {x. on_grid (pan_step_rad c) (max_pan_offset_rad c) x}"
    using grid_levels_set [of "pan_step_rad c" "max_pan_offset_rad c"] v by auto
  obtain pitches where pitches: "grid_levels (pitch_step_rad c) (max_pitch_offset_rad c) = Some pitches"
    and set_pitches: "set pitches = {x. on_grid (pitch_step_rad c) (max_pitch_offset_rad c) x}"
    using grid_levels_set [of "pitch_step_rad c" "max_pitch_offset_rad c"] v by auto
  let ?os = "(0, 0) # raster_walk (0, 0) (search_offsets pans pitches)"
  let ?view = "\<lambda>(i, o'). \<lparr> view_number = i, pan_offset_rad = fst o', pitch_offset_rad = snd o' \<rparr>"
  let ?vs = "map ?view (enumerate 0 ?os)"
  have views: "make_views c = Some ?vs" by (simp add: make_views_def pans pitches)
  have offs: "offsets ?vs = ?os" by (rule offsets_numbered)
  have numbers: "map view_number ?vs = [0 ..< length ?vs]" by (subst numbers_numbered) simp
  have zero: "on_grid (pan_step_rad c) (max_pan_offset_rad c) 0" "on_grid (pitch_step_rad c) (max_pitch_offset_rad c) 0"
    using v by (auto simp: on_grid_def intro!: exI [of _ 0])
  have "set ?os = {(p, q). on_grid (pan_step_rad c) (max_pan_offset_rad c) p
                           \<and> on_grid (pitch_step_rad c) (max_pitch_offset_rad c) q}"
    using zero by (auto simp: raster_walk_permutes search_offsets_set set_pans set_pitches)
  moreover have "distinct ?os" by (simp add: raster_walk_permutes search_offsets_set)
  ultimately show ?thesis using views numbers offs by (intro exI [of _ ?vs]) simp
qed

text \<open>C31: A validated configuration yields a finite grid of views: they are numbered in order, start at the anchor,
  and visit every combination of a pan and a pitch level, the multiples of the steps inside the envelope (up to a
  nanoradian), exactly once.\<close>

theorem raster_visits_every_view_once:
  assumes "wrist_config_post_init c = Inr ()"
  shows "\<exists>vs. make_views c = Some vs \<and> map view_number vs = [0 ..< length vs] \<and> hd (offsets vs) = (0, 0)
    \<and> distinct (offsets vs)
    \<and> set (offsets vs) = {(p, q). on_grid (pan_step_rad c) (max_pan_offset_rad c) p
                                 \<and> on_grid (pitch_step_rad c) (max_pitch_offset_rad c) q}"
  by (rule views_are_grid [OF assms])

section \<open>Calls\<close>

datatype search_event =
    Motion "pyfloat list" pyfloat
  | Observe bool "pyfloat option" pyfloat
  | Halt

fun search_call :: "WristSearchConfig \<Rightarrow> search_event \<Rightarrow> BoundedWristSearch \<Rightarrow> search_op" where
  "search_call c (Motion joints now) s = update_motion c joints now s"
| "search_call c (Observe visible confidence now) s = wrist_observe c visible confidence now s"
| "search_call c Halt s = wrist_stop c s"

definition search_step :: "WristSearchConfig \<Rightarrow> BoundedWristSearch \<Rightarrow> search_event \<Rightarrow> BoundedWristSearch" where
  "search_step c s e = snd (search_call c e s)"

text \<open>The parts of the state no call after the start touches.\<close>

definition same_search :: "BoundedWristSearch \<Rightarrow> BoundedWristSearch \<Rightarrow> bool" where
  "same_search s t \<longleftrightarrow> ws_views t = ws_views s \<and> anchor_joints_rad t = anchor_joints_rad s \<and> started_at_s t = started_at_s s"

lemma same_search_trans: "same_search s t \<Longrightarrow> same_search t u \<Longrightarrow> same_search s u"
  by (simp add: same_search_def)

lemma wrist_decision_state [simp]: "wrist_decision c q m s = (r, t) \<longleftrightarrow> t = s \<and> r = fst (wrist_decision c q m s)"
  by (auto simp: wrist_decision_def Let_def)

lemma wrist_decision_returns [simp]: "fst (wrist_decision c q m s) \<noteq> Inl x" "Inl x \<noteq> fst (wrist_decision c q m s)"
  by (simp_all add: wrist_decision_def Let_def)

lemma wrist_time_cases:
  obtains (refused) e where "wrist_time c now s = (Inl e, s)"
  | (late) e where "wrist_time c now s = (Inl e, s\<lparr> ws_phase := WS_EXHAUSTED \<rparr>)"
  | (ok) t u where "wrist_time c now s = (Inr t, s)" "now = Fin t" "started_at_s s = Some u" "u \<le> t" "t - u \<le> max_search_s c"
proof (cases "started_at_s s = None \<or> \<not> isfinite now \<or> the_fin now < the (started_at_s s)")
  case True
  then show ?thesis using refused by (simp add: wrist_time_def guard_def)
next
  case False
  then obtain t u where "now = Fin t" "started_at_s s = Some u" "u \<le> t" by auto
  then show ?thesis using late ok by (cases "max_search_s c < t - u") (simp_all add: wrist_time_def guard_def)
qed

text \<open>What a decision shows: the target of a view of this search, or nothing.\<close>

definition shows_view :: "WristSearchConfig \<Rightarrow> BoundedWristSearch \<Rightarrow> WristSearchDecision \<Rightarrow> bool" where
  "shows_view c s d \<longleftrightarrow>
     (\<forall>t. target_joints_rad d = Some t \<longrightarrow>
        (\<exists>anchor i. anchor_joints_rad s = Some anchor \<and> i < length (ws_views s) \<and> t = view_target c anchor (ws_views s ! i)))"

definition framed :: "WristSearchConfig \<Rightarrow> BoundedWristSearch \<Rightarrow> (WristSearchDecision, BoundedWristSearch) outcome \<Rightarrow> bool" where
  "framed c s r \<longleftrightarrow> same_search s (snd r) \<and> (\<forall>d. fst r = Inr d \<longrightarrow> shows_view c s d)"

named_theorems framed_intros

lemma framed_decision [framed_intros]: "same_search s t \<Longrightarrow> framed c s (wrist_decision c q m t)"
  by (cases "anchor_joints_rad t")
    (auto simp: framed_def wrist_decision_def shows_view_def wrist_target_def same_search_def Let_def)

lemma framed_Inl [framed_intros]: "same_search s t \<Longrightarrow> framed c s (Inl e, t)"
  by (simp add: framed_def)

lemma framed_guard [framed_intros]: "same_search s t \<Longrightarrow> framed c s k \<Longrightarrow> framed c s (guard bad e t k)"
  by (simp add: guard_def framed_Inl)

lemma framed_if [framed_intros]: "framed c s k \<Longrightarrow> framed c s l \<Longrightarrow> framed c s (if b then k else l)"
  by simp

lemma framed_time [framed_intros]:
  "(\<And>t. framed c s (f t s)) \<Longrightarrow> framed c s (obind (wrist_time c now s) f)"
  by (cases rule: wrist_time_cases [of c now s]) (auto simp: framed_def same_search_def)

lemma framed_gbind [framed_intros]: "same_search s t \<Longrightarrow> (\<And>x. framed c s (f x)) \<Longrightarrow> framed c s (gbind m t f)"
  by (cases m) (simp_all add: framed_Inl)

lemma framed_exhausted [framed_intros]:
  "same_search s t \<Longrightarrow> target_joints_rad d = None \<Longrightarrow> framed c s (Inr d, t)"
  by (simp add: framed_def shows_view_def)

lemma call_framed: "framed c s (search_call c e s)"
  by (cases e)
    (auto simp: update_motion_def wrist_observe_def wrist_stop_def arrived_def count_observation_def next_view_def Let_def
      same_search_def [abs_def] intro!: framed_intros)

interpretation search_frame: invariant_machine "search_step c" "same_search s"
proof
  show "same_search s (search_step c t e)" if "same_search s t" for t e
    using call_framed [of c t e] same_search_trans [OF that] by (simp add: search_step_def framed_def)
qed

lemma start_state:
  assumes "wrist_start c joints now s = (Inr d, t)"
  shows "ws_views t = ws_views s" "anchor_joints_rad t = Some (map the_fin joints)" "started_at_s t = Some (the_fin now)"
    "ws_phase t = WS_MOVE" "view_index t = (if skip_anchor_view c \<and> 1 < length (ws_views s) then 1 else 0)"
    "observation_count t = 0" "int (length joints) \<ge> max (pan_joint_index c) (pitch_joint_index c) + 1"
  using assms by (auto simp: wrist_start_def wrist_reset_def)

section \<open>The envelope\<close>

lemma view_target_entry:
  assumes "0 \<le> pan_joint_index c" "0 \<le> pitch_joint_index c" "pan_joint_index c \<noteq> pitch_joint_index c"
    and "i < length anchor" and "max (pan_joint_index c) (pitch_joint_index c) < int (length anchor)"
  shows "view_target c anchor view ! i
    = anchor ! i + (if i = nat (pan_joint_index c) then pan_offset_rad view
                    else if i = nat (pitch_joint_index c) then pitch_offset_rad view else 0)"
  using assms by (auto simp: view_target_def shift_joint_def nth_list_update)

lemma view_target_length [simp]: "length (view_target c anchor view) = length anchor"
  by (simp add: view_target_def shift_joint_def)

lemma view_offsets_on_grid:
  assumes "wrist_config_post_init c = Inr ()" and "make_views c = Some vs" and "v \<in> set vs"
  shows "on_grid (pan_step_rad c) (max_pan_offset_rad c) (pan_offset_rad v)"
    and "on_grid (pitch_step_rad c) (max_pitch_offset_rad c) (pitch_offset_rad v)"
proof -
  have "(pan_offset_rad v, pitch_offset_rad v) \<in> set (offsets vs)" using assms(3) by (auto simp: offsets_def)
  then show "on_grid (pan_step_rad c) (max_pan_offset_rad c) (pan_offset_rad v)"
    and "on_grid (pitch_step_rad c) (max_pitch_offset_rad c) (pitch_offset_rad v)"
    using views_are_grid [OF assms(1)] assms(2) by auto
qed

text \<open>How far a joint may be commanded from the anchor.\<close>

definition envelope :: "WristSearchConfig \<Rightarrow> nat \<Rightarrow> real" where
  "envelope c i = (if i = nat (pan_joint_index c) then max_pan_offset_rad c + 1 / 10 ^ 9
                   else if i = nat (pitch_joint_index c) then max_pitch_offset_rad c + 1 / 10 ^ 9 else 0)"

lemma views_in_envelope:
  assumes "wrist_config_post_init c = Inr ()" and "make_views c = Some vs" and "v \<in> set vs"
  shows "\<bar>pan_offset_rad v\<bar> \<le> max_pan_offset_rad c + 1 / 10 ^ 9" "\<bar>pitch_offset_rad v\<bar> \<le> max_pitch_offset_rad c + 1 / 10 ^ 9"
  using view_offsets_on_grid [OF assms] by (simp_all add: on_grid_def)

text \<open>C32: Whatever calls follow a start, every target they hand out keeps the search close to the measured anchor: the
  pan and the pitch joint differ from it by at most their envelope (up to a nanoradian), every other joint not at all.\<close>

theorem search_targets_stay_in_envelope:
  assumes "wrist_config_post_init c = Inr ()" and "wrist_init c = Some s" and "wrist_start c joints now s = (Inr d0, s0)"
    and "search_call c e (foldl (search_step c) s0 es) = (Inr d, s')" and "target_joints_rad d = Some t"
  shows "length t = length joints \<and> (\<forall>i < length joints. \<bar>t ! i - the_fin (joints ! i)\<bar> \<le> envelope c i)"
proof -
  let ?s = "foldl (search_step c) s0 es"
  note v = wrist_config_values [OF assms(1)]
  note start = start_state [OF assms(3)]
  have "same_search s0 ?s" by (rule search_frame.run_inv) (simp add: same_search_def)
  then have frame: "ws_views ?s = ws_views s" "anchor_joints_rad ?s = Some (map the_fin joints)"
    using start by (auto simp: same_search_def)
  have views: "make_views c = Some (ws_views s)" using assms(2) by (auto simp: wrist_init_def)
  from call_framed [of c ?s e] assms(4,5) frame obtain i where
    i: "i < length (ws_views s)" "t = view_target c (map the_fin joints) (ws_views s ! i)"
    by (auto simp: framed_def shows_view_def)
  note near = views_in_envelope [OF assms(1) views nth_mem [OF i(1)]]
  have "\<bar>t ! k - the_fin (joints ! k)\<bar> \<le> envelope c k" if "k < length joints" for k
  proof -
    have "max (pan_joint_index c) (pitch_joint_index c) < int (length (map the_fin joints))"
      using start(7) unfolding length_map by linarith
    from view_target_entry [OF v(5,6,7) _ this, of k "ws_views s ! i"] near that show ?thesis
      by (simp add: i(2) envelope_def)
  qed
  then show ?thesis by (simp add: i(2))
qed

section \<open>The budget of observations\<close>

text \<open>An observation the search counts: accepted, and not before the detector's next cadence.\<close>

fun counted :: "WristSearchConfig \<Rightarrow> BoundedWristSearch \<Rightarrow> search_event \<Rightarrow> bool" where
  "counted c s (Observe visible confidence now) =
     (is_ok (fst (wrist_observe c visible confidence now s)) \<and> \<not> too_soon c (the_fin now) s)"
| "counted c s _ = False"

fun counted_total :: "WristSearchConfig \<Rightarrow> BoundedWristSearch \<Rightarrow> search_event list \<Rightarrow> int" where
  "counted_total c s [] = 0"
| "counted_total c s (e # es) = (if counted c s e then 1 else 0) + counted_total c (search_step c s e) es"

definition live :: "BoundedWristSearch \<Rightarrow> bool" where
  "live s \<longleftrightarrow> ws_phase s \<in> {WS_MOVE, WS_SETTLE, WS_OBSERVE}"

definition search_inv :: "WristSearchConfig \<Rightarrow> BoundedWristSearch \<Rightarrow> bool" where
  "search_inv c s \<longleftrightarrow>
     (live s \<longrightarrow> view_index s < length (ws_views s) \<and> 0 \<le> observation_count s
                \<and> observation_count s < observations_per_view c \<and> (ws_phase s \<noteq> WS_OBSERVE \<longrightarrow> observation_count s = 0))"

definition views_left :: "BoundedWristSearch \<Rightarrow> int" where
  "views_left s = int (length (ws_views s)) - int (view_index s)"

definition observations_left :: "WristSearchConfig \<Rightarrow> BoundedWristSearch \<Rightarrow> int" where
  "observations_left c s = (if live s then views_left s * observations_per_view c - observation_count s else 0)"

text \<open>What an accepted call of each kind does.\<close>

lemma motion_result:
  assumes "update_motion c joints now s = (Inr d, t)"
  shows "ws_phase s \<in> {WS_MOVE, WS_SETTLE} \<and> same_search s t \<and> view_index t = view_index s
    \<and> (\<exists>u anchor. now = Fin u \<and> anchor_joints_rad s = Some anchor \<and> list_all isfinite joints \<and> length joints = length anchor
        \<and> (ws_phase t = WS_MOVE \<and> observation_count t = observation_count s
           \<or> \<not> off_target c (map the_fin joints) (view_target c anchor (ws_views s ! view_index s))
             \<and> (let b = (if ws_phase s = WS_MOVE then Some u else view_started_at_s s) in
                 ws_phase t = WS_SETTLE \<and> view_started_at_s t = b \<and> observation_count t = observation_count s
                 \<or> ws_phase t = WS_OBSERVE \<and> settle_s c \<le> u - the b \<and> observation_count t = 0 \<and> confirmation_count t = 0
                   \<and> last_observation_at_s t = None)))"
proof (cases rule: wrist_time_cases [of c now s])
  case (ok u b)
  show ?thesis
  proof (cases "anchor_joints_rad s")
    case None
    then show ?thesis using assms ok by (simp add: update_motion_def wrist_target_def)
  next
    case (Some anchor)
    then show ?thesis
      using assms ok by (auto simp: update_motion_def wrist_target_def arrived_def same_search_def Let_def split: if_splits)
  qed
qed (use assms in \<open>auto simp: update_motion_def\<close>)

lemma observe_result:
  assumes "wrist_observe c visible confidence now s = (Inr d, t)"
  shows "ws_phase s = WS_OBSERVE \<and> same_search s t
    \<and> (\<exists>u. now = Fin u
        \<and> (too_soon c u s \<and> t = s
           \<or> \<not> too_soon c u s
             \<and> (let k = (if qualified_frame c visible (map_option the_fin confidence) then confirmation_count s + 1
                          else if confident_negative c visible (map_option the_fin confidence)
                                  \<and> reset_on_confident_negative c then 0
                          else confirmation_count s) in
                 ws_phase t = WS_FOUND \<and> confirmations_required c \<le> k
                 \<or> ws_phase t = WS_OBSERVE \<and> view_index t = view_index s \<and> observation_count t = observation_count s + 1
                   \<and> observation_count t < observations_per_view c \<and> confirmation_count t = k
                   \<and> last_observation_at_s t = Some u
                 \<or> ws_phase t = WS_MOVE \<and> view_index t = view_index s + 1 \<and> view_index t < length (ws_views t)
                   \<and> observation_count t = 0
                 \<or> ws_phase t = WS_EXHAUSTED)))"
proof (cases rule: wrist_time_cases [of c now s])
  case (ok u b)
  then show ?thesis
    using assms by (auto simp: wrist_observe_def count_observation_def next_view_def same_search_def Let_def split: if_splits)
qed (use assms in \<open>auto simp: wrist_observe_def\<close>)

lemma refused_call:
  assumes "search_call c e s = (Inl x, t)"
  shows "t = s \<or> ws_phase t = WS_EXHAUSTED"
proof (cases e)
  case (Motion joints now)
  then show ?thesis
    using assms
    by (cases rule: wrist_time_cases [of c now s]; cases "wrist_target c s")
      (auto simp: update_motion_def guard_def arrived_def Let_def split: if_splits)
next
  case (Observe visible confidence now)
  then show ?thesis
    using assms
    by (cases rule: wrist_time_cases [of c now s])
      (auto simp: wrist_observe_def guard_def count_observation_def next_view_def Let_def split: if_splits)
next
  case Halt
  then show ?thesis using assms by (simp add: wrist_stop_def)
qed

lemma halt_result: "wrist_stop c s = (Inr d, t) \<Longrightarrow> ws_phase t = WS_STOPPED"
  by (simp add: wrist_stop_def)

lemma stopped_left [simp]: "\<not> live t \<Longrightarrow> search_inv c t \<and> observations_left c t = 0"
  by (simp add: search_inv_def observations_left_def)

lemma observations_left_nonneg:
  assumes "search_inv c s"
  shows "0 \<le> observations_left c s"
proof (cases "live s")
  case True
  then have "1 \<le> views_left s" "observation_count s < observations_per_view c" "0 \<le> observation_count s"
    using assms by (auto simp: search_inv_def views_left_def)
  then have "1 * observations_per_view c \<le> views_left s * observations_per_view c" by (intro mult_right_mono) auto
  then show ?thesis using True \<open>observation_count s < _\<close> by (simp add: observations_left_def)
qed simp

lemma motion_left:
  assumes "update_motion c joints now s = (Inr d, t)" and "search_inv c s" and "1 \<le> observations_per_view c"
  shows "search_inv c t \<and> observations_left c t = observations_left c s"
proof -
  note r = motion_result [OF assms(1)]
  then have "live s" "live t" "observation_count s = 0" "observation_count t = 0" "view_index t = view_index s"
    "ws_views t = ws_views s"
    using assms(2) by (auto simp: live_def search_inv_def same_search_def Let_def)
  then show ?thesis using assms(2,3) by (auto simp: search_inv_def observations_left_def views_left_def)
qed

lemma observe_left:
  assumes "wrist_observe c visible confidence now s = (Inr d, t)" and "search_inv c s" and "1 \<le> observations_per_view c"
  shows "search_inv c t
    \<and> observations_left c t + (if counted c s (Observe visible confidence now) then 1 else 0) \<le> observations_left c s"
proof -
  obtain u where u: "now = Fin u" using observe_result [OF assms(1)] by blast
  have count: "counted c s (Observe visible confidence now) = (\<not> too_soon c u s)" using assms(1) by (simp add: u)
  note r = observe_result [OF assms(1), unfolded u, simplified]
  have s: "live s" "1 \<le> views_left s" "0 \<le> observation_count s" "observation_count s < observations_per_view c"
    using r assms(2) by (auto simp: live_def search_inv_def views_left_def)
  have "1 * observations_per_view c \<le> views_left s * observations_per_view c" using s(2) assms(3) by (intro mult_right_mono) auto
  then have left: "observation_count s + 1 \<le> views_left s * observations_per_view c" using s(4) by linarith
  consider "too_soon c u s" "t = s" | "\<not> live t"
    | "\<not> too_soon c u s" "ws_phase t = WS_OBSERVE" "view_index t = view_index s" "ws_views t = ws_views s"
        "observation_count t = observation_count s + 1" "observation_count t < observations_per_view c"
    | "\<not> too_soon c u s" "ws_phase t = WS_MOVE" "view_index t = view_index s + 1" "view_index t < length (ws_views t)"
        "ws_views t = ws_views s" "observation_count t = 0"
    using r by (auto simp: live_def same_search_def Let_def)
  then show ?thesis
  proof cases
    case 1
    then show ?thesis using assms(2) count by simp
  next
    case 2
    then show ?thesis using left s(1) by (simp add: observations_left_def)
  next
    case 3
    then show ?thesis
      using s assms(2) count by (auto simp: search_inv_def observations_left_def views_left_def live_def)
  next
    case 4
    then have "views_left t = views_left s - 1" by (simp add: views_left_def)
    then have "views_left t * observations_per_view c = views_left s * observations_per_view c - observations_per_view c"
      by (simp only: left_diff_distrib mult_1)
    then show ?thesis using 4 s assms(3) count by (auto simp: search_inv_def observations_left_def live_def)
  qed
qed

lemma step_left:
  assumes "search_inv c s" and "1 \<le> observations_per_view c"
  shows "search_inv c (search_step c s e)
    \<and> observations_left c (search_step c s e) + (if counted c s e then 1 else 0) \<le> observations_left c s"
proof (cases "fst (search_call c e s)")
  case (Inl x)
  then have "search_step c s e = s \<or> \<not> live (search_step c s e)"
    using refused_call [of c e s x "snd (search_call c e s)"]
    by (cases "search_call c e s") (auto simp: search_step_def live_def)
  moreover have "\<not> counted c s e" using Inl by (cases e) auto
  ultimately show ?thesis using assms(1) observations_left_nonneg [OF assms(1)] by auto
next
  case (Inr d)
  then have run: "search_call c e s = (Inr d, search_step c s e)" by (cases "search_call c e s") (simp add: search_step_def)
  show ?thesis
  proof (cases e)
    case (Motion joints now)
    then show ?thesis using motion_left [OF _ assms] run by auto
  next
    case (Observe visible confidence now)
    then show ?thesis using observe_left [OF _ assms] run by auto
  next
    case Halt
    then have "\<not> live (search_step c s e)" using halt_result run by (auto simp: live_def)
    then show ?thesis using Halt observations_left_nonneg [OF assms(1)] by simp
  qed
qed

lemma counted_bounded:
  assumes "1 \<le> observations_per_view c"
  shows "search_inv c s \<Longrightarrow> counted_total c s es \<le> observations_left c s"
proof (induction es arbitrary: s)
  case Nil
  then show ?case using observations_left_nonneg by simp
next
  case (Cons e es)
  from step_left [OF Cons.prems assms, of e] Cons.IH [of "search_step c s e"] show ?case by auto
qed

lemma start_inv:
  assumes "wrist_config_post_init c = Inr ()" and "wrist_init c = Some s" and "wrist_start c joints now s = (Inr d, t)"
  shows "search_inv c t"
proof -
  have "make_views c = Some (ws_views s)" using assms(2) by (auto simp: wrist_init_def)
  moreover have "(0, 0) \<in> {(p, q). on_grid (pan_step_rad c) (max_pan_offset_rad c) p
                          \<and> on_grid (pitch_step_rad c) (max_pitch_offset_rad c) q}"
    using wrist_config_values [OF assms(1)] by (auto simp: on_grid_def intro!: exI [of _ 0])
  ultimately have "ws_views s \<noteq> []" using views_are_grid [OF assms(1)] by (auto simp: offsets_def)
  then show ?thesis
    using start_state [OF assms(3)] wrist_config_values [OF assms(1)] by (auto simp: search_inv_def live_def)
qed

section \<open>Accepted calls\<close>

fun accepted :: "WristSearchConfig \<Rightarrow> BoundedWristSearch \<Rightarrow> search_event list \<Rightarrow> search_event list" where
  "accepted c s [] = []"
| "accepted c s (e # es) = (if is_ok (fst (search_call c e s)) then [e] else []) @ accepted c (search_step c s e) es"

fun in_window :: "WristSearchConfig \<Rightarrow> real \<Rightarrow> search_event \<Rightarrow> bool" where
  "in_window c start (Motion joints now) = (\<exists>t. now = Fin t \<and> start \<le> t \<and> t - start \<le> max_search_s c)"
| "in_window c start (Observe visible confidence now) = (\<exists>t. now = Fin t \<and> start \<le> t \<and> t - start \<le> max_search_s c)"
| "in_window c start Halt = True"

lemma accepted_in_window:
  assumes "started_at_s s = Some start" and "is_ok (fst (search_call c e s))"
  shows "in_window c start e"
proof (cases e)
  case (Motion joints now)
  then show ?thesis
    using assms by (cases rule: wrist_time_cases [of c now s]) (auto simp: update_motion_def guard_def split: if_splits)
next
  case (Observe visible confidence now)
  then show ?thesis
    using assms by (cases rule: wrist_time_cases [of c now s]) (auto simp: wrist_observe_def guard_def split: if_splits)
qed simp

lemma all_accepted_in_window: "started_at_s s = Some start \<Longrightarrow> list_all (in_window c start) (accepted c s es)"
proof (induction es arbitrary: s)
  case (Cons e es)
  have "same_search s (search_step c s e)" using call_framed [of c s e] by (simp add: search_step_def framed_def)
  then have "started_at_s (search_step c s e) = Some start" using Cons.prems by (simp add: same_search_def)
  from Cons.IH [OF this] show ?case using accepted_in_window [OF Cons.prems] by simp
qed simp

text \<open>A started search is finite: however its calls are interleaved and repeated, it counts at most the configured
  number of observations per view over all views, and it accepts no call outside the time from its start to its hard
  deadline.\<close>

theorem search_is_bounded:
  assumes "wrist_config_post_init c = Inr ()" and "wrist_init c = Some s" and "wrist_start c joints now s = (Inr d, t)"
  shows "counted_total c t es \<le> int (length (ws_views s)) * observations_per_view c
    \<and> list_all (in_window c (the_fin now)) (accepted c t es)"
proof -
  note v = wrist_config_values [OF assms(1)]
  note start = start_state [OF assms(3)]
  have "counted_total c t es \<le> observations_left c t" by (rule counted_bounded [OF v(8) start_inv [OF assms]])
  also have "\<dots> \<le> int (length (ws_views s)) * observations_per_view c"
    using start v(8) by (simp add: observations_left_def views_left_def live_def mult_right_mono)
  finally show ?thesis using all_accepted_in_window [OF start(3)] by simp
qed

section \<open>Why a target counts as found\<close>























section \<open>Witnesses\<close>

definition demo_wrist :: WristSearchConfig where
  "demo_wrist = \<lparr> pan_joint_index = 0, pitch_joint_index = 1, pan_step_rad = 1 / 4, pitch_step_rad = 1 / 4,
                  max_pan_offset_rad = 1 / 2, max_pitch_offset_rad = 1 / 2, settle_s = 1, detector_hz = 1,
                  observations_per_view = 3, confidence_threshold = 1 / 5, confirmations_required = 1,
                  reset_on_confident_negative = True, skip_anchor_view = False, joint_tolerance_rad = 1 / 50,
                  max_search_s = 200 \<rparr>"

lemma demo_wrist_valid: "wrist_config_post_init demo_wrist = Inr ()"
  by (simp add: demo_wrist_def wrist_config_post_init_def)

lemma raster_visits_every_view_once_witness:
  "\<exists>vs. make_views demo_wrist = Some vs \<and> hd (offsets vs) = (0, 0) \<and> distinct (offsets vs)"
  using raster_visits_every_view_once [OF demo_wrist_valid] by blast

text \<open>The demonstration search at its anchor, from the start on.\<close>

definition demo_start :: "BoundedWristSearch \<Rightarrow> BoundedWristSearch" where
  "demo_start s = snd (wrist_start demo_wrist [Fin 0, Fin 0] (Fin 0) s)"

lemma demo_search:
  obtains s d where "wrist_init demo_wrist = Some s" "wrist_start demo_wrist [Fin 0, Fin 0] (Fin 0) s = (Inr d, demo_start s)"
    "ws_views s \<noteq> []" "pan_offset_rad (ws_views s ! 0) = 0" "pitch_offset_rad (ws_views s ! 0) = 0"
proof -
  obtain vs where vs: "make_views demo_wrist = Some vs" "hd (offsets vs) = (0, 0)"
    "set (offsets vs) = {(p, q). on_grid (1 / 4) (1 / 2) p \<and> on_grid (1 / 4) (1 / 2) q}"
    using views_are_grid [OF demo_wrist_valid] by (auto simp: demo_wrist_def)
  have "(0, 0) \<in> set (offsets vs)" using vs(3) by (auto simp: on_grid_def intro!: exI [of _ 0])
  then have ne: "vs \<noteq> []" by (auto simp: offsets_def)
  obtain s where s: "wrist_init demo_wrist = Some s" "ws_views s = vs" using vs(1) by (simp add: wrist_init_def)
  obtain d where d: "wrist_start demo_wrist [Fin 0, Fin 0] (Fin 0) s = (Inr d, demo_start s)"
    by (simp add: demo_start_def demo_wrist_def wrist_start_def guard_def wrist_decision_def Let_def)
  from that [OF s(1) d] vs(2) ne show ?thesis by (cases vs) (auto simp: s(2) offsets_def)
qed

definition demo_calls :: "search_event list" where
  "demo_calls = [Motion [Fin 0, Fin 0] (Fin 1), Motion [Fin 0, Fin 0] (Fin 2), Observe True (Some (Fin (1 / 2))) (Fin 3)]"

lemmas demo_search_simps = demo_start_def demo_wrist_def wrist_start_def wrist_reset_def search_step_def update_motion_def
  wrist_observe_def wrist_time_def wrist_target_def view_target_def shift_joint_def off_target_def arrived_def
  count_observation_def qualified_frame_def too_soon_def observation_period_s_def wrist_decision_def guard_def

lemma demo_motion:
  assumes "ws_views s \<noteq> []" "pan_offset_rad (ws_views s ! 0) = 0" "pitch_offset_rad (ws_views s ! 0) = 0"
  shows "\<exists>d. search_call demo_wrist (Motion [Fin 0, Fin 0] (Fin 1)) (demo_start s)
              = (Inr d, search_step demo_wrist (demo_start s) (Motion [Fin 0, Fin 0] (Fin 1)))
           \<and> target_joints_rad d = Some [0, 0]"
  using assms by (simp add: demo_search_simps Let_def)


lemma search_targets_stay_in_envelope_witness:
  "\<bar>[0, 0] ! 0 - the_fin ([Fin 0, Fin 0] ! 0)\<bar> \<le> envelope demo_wrist 0"
proof -
  obtain s d where s: "wrist_init demo_wrist = Some s"
    "wrist_start demo_wrist [Fin 0, Fin 0] (Fin 0) s = (Inr d, demo_start s)"
    "ws_views s \<noteq> []" "pan_offset_rad (ws_views s ! 0) = 0" "pitch_offset_rad (ws_views s ! 0) = 0"
    by (rule demo_search)
  obtain d' where d': "search_call demo_wrist (Motion [Fin 0, Fin 0] (Fin 1)) (foldl (search_step demo_wrist) (demo_start s) [])
              = (Inr d', search_step demo_wrist (demo_start s) (Motion [Fin 0, Fin 0] (Fin 1)))"
    "target_joints_rad d' = Some [0, 0]"
    using demo_motion [OF s(3-5)] by auto
  show ?thesis using search_targets_stay_in_envelope [OF demo_wrist_valid s(1,2) d'] by auto
qed

lemma search_is_bounded_witness:
  "\<exists>s. wrist_init demo_wrist = Some s
     \<and> counted_total demo_wrist (demo_start s) demo_calls \<le> int (length (ws_views s)) * observations_per_view demo_wrist"
proof -
  obtain s d where "wrist_init demo_wrist = Some s"
    "wrist_start demo_wrist [Fin 0, Fin 0] (Fin 0) s = (Inr d, demo_start s)" by (rule demo_search)
  then show ?thesis using search_is_bounded [OF demo_wrist_valid] by blast
qed


end
