(* ===== verification/Planning_Control.thy ===== *)
theory Planning_Control
  imports Prelude
begin

text \<open>
  The cooperative deadline and cancellation of planning work, \<open>src/z_manip/planning_control.py\<close>, and the local budget of
  one RRT call, \<open>_RRTBudget\<close> of \<open>src/z_manip/planning/rrt_connect.py\<close>. The clock and the cancellation callback
  belong to the caller: they are arguments that say what each successive call answers or raises. The random numbers of
  a planning run are arguments of the same kind. The state counts the calls made so far.
\<close>

record planning_env =
  env_clock :: "nat \<Rightarrow> pyfloat res"
  env_cancelled :: "nat \<Rightarrow> bool res"
  env_random :: "nat \<Rightarrow> real"
  env_uniform :: "nat \<Rightarrow> real list \<Rightarrow> real list \<Rightarrow> real list"
  env_choice :: "nat \<Rightarrow> nat \<Rightarrow> nat \<times> nat"

record planning_world =
  clock_reads :: nat
  cancel_polls :: nat
  random_calls :: nat

type_synonym 'a planning_op = "planning_world \<Rightarrow> ('a, planning_world) outcome"

section \<open>The control of a request\<close>

record PlanningControl =
  deadline_s :: "real option"
  has_cancel_check :: bool

definition planning_control_post_init :: "pyfloat option \<Rightarrow> bool \<Rightarrow> PlanningControl res" where
  "planning_control_post_init d has_check =
     raise_if (case d of None \<Rightarrow> False | Some x \<Rightarrow> \<not> isfinite x)
       (ValueError ''planning deadline must be a finite monotonic timestamp'')
       (Inr \<lparr> deadline_s = map_option the_fin d, has_cancel_check = has_check \<rparr>)"

definition failed_closed :: "string \<Rightarrow> string \<Rightarrow> exn \<Rightarrow> string" where
  "failed_closed operation what e = operation @ what @ '' failed closed: '' @ exn_name e @ '': '' @ exn_text e"

definition control_cancelled :: "planning_env \<Rightarrow> PlanningControl \<Rightarrow> string \<Rightarrow> bool planning_op" where
  "control_cancelled env c operation w =
     (if \<not> has_cancel_check c then (Inr False, w)
      else (case env_cancelled env (cancel_polls w) of
              Inl e \<Rightarrow> (Inl (PlanningCancelled (failed_closed operation '' cancellation check'' e)),
                      w\<lparr> cancel_polls := cancel_polls w + 1 \<rparr>)
            | Inr b \<Rightarrow> (Inr b, w\<lparr> cancel_polls := cancel_polls w + 1 \<rparr>)))"

definition control_now :: "planning_env \<Rightarrow> string \<Rightarrow> real planning_op" where
  "control_now env operation w =
     (let v = w\<lparr> clock_reads := clock_reads w + 1 \<rparr>
      in case env_clock env (clock_reads w) of
           Inl e \<Rightarrow> (Inl (PlanningDeadlineExceeded (failed_closed operation '' monotonic deadline clock'' e)), v)
         | Inr (Fin t) \<Rightarrow> (Inr t, v)
         | Inr _ \<Rightarrow>
             (Inl (PlanningDeadlineExceeded (operation @ '' monotonic deadline clock returned a non-finite value'')), v))"

definition control_checkpoint :: "planning_env \<Rightarrow> PlanningControl \<Rightarrow> string \<Rightarrow> unit planning_op" where
  "control_checkpoint env c operation w =
     obind (control_cancelled env c operation w) (\<lambda>cancelled w.
     guard cancelled (PlanningCancelled (operation @ '' was cancelled'')) w
     (case deadline_s c of
        None \<Rightarrow> (Inr (), w)
      | Some d \<Rightarrow>
          obind (control_now env operation w) (\<lambda>now w.
          guard (d \<le> now)
            (PlanningDeadlineExceeded
               (operation @ '' exceeded its monotonic deadline by '' @ fmt_fixed 6 (now - d) @ '' s'')) w
            (Inr (), w))))"

definition limited_to :: "planning_env \<Rightarrow> PlanningControl \<Rightarrow> pyfloat \<Rightarrow> string \<Rightarrow> PlanningControl planning_op" where
  "limited_to env c timeout operation w =
     guard (\<not> isfinite timeout \<or> timeout \<le> 0) (ValueError ''planning timeout must be finite and positive'') w
     (obind (control_checkpoint env c operation w) (\<lambda>_ w.
      obind (control_now env operation w) (\<lambda>now w.
      let local_deadline = now + the_fin timeout in
      (Inr \<lparr> deadline_s = Some (case deadline_s c of None \<Rightarrow> local_deadline | Some d \<Rightarrow> min d local_deadline),
             has_cancel_check = has_cancel_check c \<rparr>, w))))"

section \<open>The budget of one RRT call\<close>

record RRTBudget =
  budget_parent :: "PlanningControl option"
  budget_timeout_s :: real
  budget_deadline_s :: real

definition budget_now :: "planning_env \<Rightarrow> PlanningControl option \<Rightarrow> string \<Rightarrow> real planning_op" where
  "budget_now env parent operation w =
     (let v = w\<lparr> clock_reads := clock_reads w + 1 \<rparr>
      in case env_clock env (clock_reads w) of
           Inl e \<Rightarrow> (Inl (RRTTimeout (failed_closed operation '' local timeout clock'' e)), v)
         | Inr (Fin t) \<Rightarrow>
             (case Option.bind parent deadline_s of
                Some d \<Rightarrow>
                  guard (d \<le> t)
                    (PlanningDeadlineExceeded
                       (operation @ '' exceeded its monotonic deadline ('' @ fmt_fixed 6 d @ '' s)'')) v (Inr t, v)
              | None \<Rightarrow> (Inr t, v))
         | Inr _ \<Rightarrow> (Inl (RRTTimeout (operation @ '' local timeout clock returned a non-finite value'')), v))"

definition parent_checkpoint :: "planning_env \<Rightarrow> PlanningControl option \<Rightarrow> string \<Rightarrow> unit planning_op" where
  "parent_checkpoint env parent operation w =
     (case parent of None \<Rightarrow> (Inr (), w) | Some c \<Rightarrow> control_checkpoint env c operation w)"

definition budget_init :: "planning_env \<Rightarrow> real \<Rightarrow> PlanningControl option \<Rightarrow> RRTBudget planning_op" where
  "budget_init env timeout parent w =
     obind (parent_checkpoint env parent ''RRT planning'' w) (\<lambda>_ w.
     obind (budget_now env parent ''RRT planning'' w) (\<lambda>now w.
     (Inr \<lparr> budget_parent = parent, budget_timeout_s = timeout, budget_deadline_s = now + timeout \<rparr>, w)))"

definition budget_checkpoint :: "planning_env \<Rightarrow> RRTBudget \<Rightarrow> string \<Rightarrow> unit planning_op" where
  "budget_checkpoint env b operation w =
     obind (parent_checkpoint env (budget_parent b) operation w) (\<lambda>_ w.
     obind (budget_now env (budget_parent b) operation w) (\<lambda>now w.
     guard (budget_deadline_s b \<le> now)
       (RRTTimeout (operation @ '' exceeded the recoverable local RRT timeout ('' @ fmt_fixed 3 (budget_timeout_s b) @ '' s)''))
       w (Inr (), w)))"

text \<open>\<open>checkpoint(control, operation)\<close>: the control may be missing, a request's control or a budget.\<close>

datatype control_ref = NoControl | RequestControl PlanningControl | BudgetControl RRTBudget

fun checkpoint :: "planning_env \<Rightarrow> control_ref \<Rightarrow> string \<Rightarrow> unit planning_op" where
  "checkpoint env NoControl operation w = (Inr (), w)"
| "checkpoint env (RequestControl c) operation w = control_checkpoint env c operation w"
| "checkpoint env (BudgetControl b) operation w = budget_checkpoint env b operation w"

end
