(* ===== verification/Rrt_Connect.thy ===== *)
theory Rrt_Connect
  imports Planning_Control
begin

text \<open>
  The collision-aware planner \<open>JointSpaceRRTConnect\<close> of \<open>src/z_manip/planning/rrt_connect.py\<close>: two trees of joint states,
  one from the start and one from the goal, grow towards random samples and towards each other; the joined path is
  shortcut, sampled at the collision resolution and audited. A joint state is a list of reals. Whether a state is
  valid is the caller's predicate; random numbers, clock and cancellation come from the environment. The numbers of a
  configuration are finite. \<open>None\<close> as a result would be a loop that does not end.
\<close>

section \<open>Vectors\<close>

type_synonym joints = "real list"

definition vec_sub :: "joints \<Rightarrow> joints \<Rightarrow> joints" where
  "vec_sub a b = map2 (-) a b"

definition vec_norm :: "joints \<Rightarrow> real" where
  "vec_norm v = sqrt (sum_list (map (\<lambda>x. x * x) v))"

text \<open>\<open>first + alpha * (second - first)\<close>.\<close>

definition point_on :: "joints \<Rightarrow> joints \<Rightarrow> real \<Rightarrow> joints" where
  "point_on a b alpha = map2 (\<lambda>x y. x + alpha * (y - x)) a b"

section \<open>Configuration and trees\<close>

record RRTConnectConfig =
  step_size :: real
  collision_resolution :: real
  max_iterations :: int
  goal_bias :: real
  shortcut_attempts :: int
  rrt_seed :: int

definition rrt_config_post_init :: "RRTConnectConfig \<Rightarrow> unit res" where
  "rrt_config_post_init c =
     raise_if (step_size c \<le> 0 \<or> collision_resolution c \<le> 0)
       (ValueError ''RRT step size and collision resolution must be positive'')
     (raise_if (max_iterations c < 1 \<or> shortcut_attempts c < 0)
       (ValueError ''RRT iteration counts must be non-negative'')
     (raise_if (\<not> (0 \<le> goal_bias c \<and> goal_bias c \<le> 1)) (ValueError ''RRT goal bias must be in [0, 1]'') (Inr ())))"

record rrt_tree =
  nodes :: "joints list"
  parents :: "int list"
  rooted_at_start :: bool

definition tree_init :: "joints \<Rightarrow> bool \<Rightarrow> rrt_tree" where
  "tree_init origin at_start = \<lparr> nodes = [origin], parents = [- 1], rooted_at_start = at_start \<rparr>"

definition tree_add :: "joints \<Rightarrow> nat \<Rightarrow> rrt_tree \<Rightarrow> nat \<times> rrt_tree" where
  "tree_add joints parent t =
     (length (nodes t), t\<lparr> nodes := nodes t @ [joints], parents := parents t @ [int parent] \<rparr>)"

text \<open>The walk from a node up to its root.\<close>

partial_function (option) walk_up :: "rrt_tree \<Rightarrow> int \<Rightarrow> joints list option" where
  "walk_up t index =
     (if index < 0 then Some []
      else Option.bind (walk_up t (parents t ! nat index)) (\<lambda>rest. Some (nodes t ! nat index # rest)))"

definition tree_path :: "rrt_tree \<Rightarrow> nat \<Rightarrow> joints list option" where
  "tree_path t index = map_option rev (walk_up t (int index))"

datatype ExtendStatus = TRAPPED | ADVANCED | REACHED

section \<open>The planner\<close>

record JointSpaceRRTConnect =
  rrt_joint_names :: "string list"
  lower_limits :: joints
  upper_limits :: joints
  state_valid :: "joints \<Rightarrow> bool"
  rrt_config :: RRTConnectConfig

definition rrt_init ::
  "string list \<Rightarrow> joints \<Rightarrow> joints \<Rightarrow> (joints \<Rightarrow> bool) \<Rightarrow> RRTConnectConfig \<Rightarrow> JointSpaceRRTConnect res" where
  "rrt_init names lower upper valid c =
     raise_if (length lower \<noteq> length names \<or> length upper \<noteq> length names)
       (ValueError (''joint limits must have shape ('' @ show_nat (length names) @ '',)''))
     (raise_if (list_ex (\<lambda>(l, u). u \<le> l) (zip lower upper))
       (ValueError ''every lower joint limit must be below its upper limit'')
     (Inr \<lparr> rrt_joint_names = names, lower_limits = lower, upper_limits = upper, state_valid = valid, rrt_config = c \<rparr>))"

definition outside_limits :: "JointSpaceRRTConnect \<Rightarrow> joints \<Rightarrow> bool" where
  "outside_limits p v = (list_ex (\<lambda>(x, l). x < l) (zip v (lower_limits p)) \<or> list_ex (\<lambda>(x, u). u < x) (zip v (upper_limits p)))"

definition validate_state ::
  "planning_env \<Rightarrow> JointSpaceRRTConnect \<Rightarrow> pyfloat list \<Rightarrow> string \<Rightarrow> control_ref \<Rightarrow> joints planning_op" where
  "validate_state env p joints label control w =
     obind (checkpoint env control (''RRT '' @ label @ '' validation'') w) (\<lambda>_ w.
     guard (length joints \<noteq> length (rrt_joint_names p) \<or> \<not> list_all isfinite joints)
       (PlanningError (label @ '' joint state must be a finite ('' @ show_nat (length (rrt_joint_names p)) @ '',) vector'')) w
     (let values = map the_fin joints in
      guard (outside_limits p values) (PlanningError (label @ '' joint state violates joint limits'')) w
      (obind (checkpoint env control (''RRT '' @ label @ '' validation'') w) (\<lambda>_ w.
       guard (\<not> state_valid p values) (PlanningError (label @ '' joint state is in collision'')) w
       (Inr values, w)))))"

text \<open>The distance normalised by the range of each joint.\<close>

definition joint_distance :: "JointSpaceRRTConnect \<Rightarrow> joints \<Rightarrow> joints \<Rightarrow> real" where
  "joint_distance p first second =
     vec_norm (map2 (/) (vec_sub second first) (vec_sub (upper_limits p) (lower_limits p)))"

definition segment_steps :: "JointSpaceRRTConnect \<Rightarrow> joints \<Rightarrow> joints \<Rightarrow> nat" where
  "segment_steps p first second = max 1 (nat \<lceil>vec_norm (vec_sub second first) / collision_resolution (rrt_config p)\<rceil>)"

text \<open>\<open>np.linspace(0.0, 1.0, steps + 1)[1:]\<close>.\<close>

definition fractions :: "nat \<Rightarrow> real list" where
  "fractions steps = map (\<lambda>i. of_nat i / of_nat steps) [1 ..< Suc steps]"

fun check_points ::
  "planning_env \<Rightarrow> JointSpaceRRTConnect \<Rightarrow> control_ref \<Rightarrow> joints \<Rightarrow> joints \<Rightarrow> real list \<Rightarrow> bool planning_op" where
  "check_points env p control first second [] w = (Inr True, w)"
| "check_points env p control first second (alpha # alphas) w =
     obind (checkpoint env control ''RRT segment collision checking'' w) (\<lambda>_ w.
     obind (checkpoint env control ''RRT segment collision checking'' w) (\<lambda>_ w.
     if \<not> state_valid p (point_on first second alpha) then (Inr False, w)
     else check_points env p control first second alphas w))"

definition segment_clear ::
  "planning_env \<Rightarrow> JointSpaceRRTConnect \<Rightarrow> joints \<Rightarrow> joints \<Rightarrow> control_ref \<Rightarrow> bool planning_op" where
  "segment_clear env p first second control =
     check_points env p control first second (fractions (segment_steps p first second))"

definition segment_valid ::
  "planning_env \<Rightarrow> JointSpaceRRTConnect \<Rightarrow> pyfloat list \<Rightarrow> pyfloat list \<Rightarrow> control_ref \<Rightarrow> bool planning_op" where
  "segment_valid env p first second control w =
     obind (checkpoint env control ''RRT segment validation'' w) (\<lambda>_ w.
     if length first \<noteq> length (rrt_joint_names p) \<or> length second \<noteq> length (rrt_joint_names p)
        \<or> \<not> list_all isfinite first \<or> \<not> list_all isfinite second then (Inr False, w)
     else
       let a = map the_fin first; b = map the_fin second in
       if outside_limits p a \<or> outside_limits p b then (Inr False, w)
       else
         obind (checkpoint env control ''RRT segment validation'' w) (\<lambda>_ w.
         if state_valid p a then segment_clear env p a b control w else (Inr False, w)))"

section \<open>Growing a tree\<close>

fun node_distances ::
  "planning_env \<Rightarrow> JointSpaceRRTConnect \<Rightarrow> control_ref \<Rightarrow> joints \<Rightarrow> joints list \<Rightarrow> real list planning_op" where
  "node_distances env p control target [] w = (Inr [], w)"
| "node_distances env p control target (v # vs) w =
     obind (checkpoint env control ''RRT nearest-neighbor search'' w) (\<lambda>_ w.
     obind (node_distances env p control target vs w) (\<lambda>ds w. (Inr (joint_distance p v target # ds), w)))"

text \<open>\<open>np.argmin\<close>: the first index of the least entry.\<close>

definition argmin :: "real list \<Rightarrow> nat" where
  "argmin ds = length (takeWhile (\<lambda>d. Min (set ds) < d) ds)"

definition nearest_node ::
  "planning_env \<Rightarrow> JointSpaceRRTConnect \<Rightarrow> rrt_tree \<Rightarrow> joints \<Rightarrow> control_ref \<Rightarrow> nat planning_op" where
  "nearest_node env p t target control w =
     obind (node_distances env p control target (nodes t) w) (\<lambda>ds w. (Inr (argmin ds), w))"

definition proposal :: "JointSpaceRRTConnect \<Rightarrow> joints \<Rightarrow> joints \<Rightarrow> joints \<times> ExtendStatus" where
  "proposal p near target =
     (let distance = vec_norm (vec_sub target near)
      in if distance \<le> step_size (rrt_config p) then (target, REACHED)
         else (point_on near target (step_size (rrt_config p) / distance), ADVANCED))"

definition extend_tree ::
  "planning_env \<Rightarrow> JointSpaceRRTConnect \<Rightarrow> rrt_tree \<Rightarrow> joints \<Rightarrow> control_ref
     \<Rightarrow> ((nat option \<times> ExtendStatus) \<times> rrt_tree) planning_op" where
  "extend_tree env p t target control w =
     obind (checkpoint env control ''RRT tree extension'' w) (\<lambda>_ w.
     obind (nearest_node env p t target control w) (\<lambda>near w.
     if vec_norm (vec_sub target (nodes t ! near)) < 1 / 10 ^ 12 then (Inr ((Some near, REACHED), t), w)
     else
       let (proposed, status) = proposal p (nodes t ! near) target in
       obind (segment_clear env p (nodes t ! near) proposed control w) (\<lambda>clear w.
       if \<not> clear then (Inr ((None, TRAPPED), t), w)
       else let (index, u) = tree_add proposed near t in (Inr ((Some index, status), u), w))))"

text \<open>The loop of \<open>_connect\<close>, its last index an argument.\<close>

partial_function (option) connect_loop ::
  "planning_env \<Rightarrow> JointSpaceRRTConnect \<Rightarrow> joints \<Rightarrow> control_ref \<Rightarrow> nat option \<Rightarrow> rrt_tree \<Rightarrow> planning_world
     \<Rightarrow> (((nat option \<times> ExtendStatus) \<times> rrt_tree), planning_world) outcome option" where
  "connect_loop env p target control last_index t w =
     (case obind (checkpoint env control ''RRT tree connection'' w) (\<lambda>_ w. extend_tree env p t target control w) of
        (Inl e, w) \<Rightarrow> Some (Inl e, w)
      | (Inr ((index, status), u), w) \<Rightarrow>
          if status = TRAPPED then Some (Inr ((last_index, status), u), w)
          else if status = REACHED then Some (Inr ((index, status), u), w)
          else connect_loop env p target control index u w)"

definition connect_tree ::
  "planning_env \<Rightarrow> JointSpaceRRTConnect \<Rightarrow> rrt_tree \<Rightarrow> joints \<Rightarrow> control_ref \<Rightarrow> planning_world
     \<Rightarrow> (((nat option \<times> ExtendStatus) \<times> rrt_tree), planning_world) outcome option" where
  "connect_tree env p t target control w = connect_loop env p target control None t w"

section \<open>The path\<close>

definition join_paths :: "rrt_tree \<Rightarrow> nat \<Rightarrow> rrt_tree \<Rightarrow> nat \<Rightarrow> joints list option" where
  "join_paths first first_index second second_index =
     Option.bind (tree_path first first_index) (\<lambda>first_path.
     Option.bind (tree_path second second_index) (\<lambda>second_path.
     let (start_path, goal_path) =
           (if rooted_at_start first then (first_path, second_path) else (second_path, first_path))
     in Some (start_path @ tl (rev goal_path))))"

text \<open>One attempt per unit of the counter; a path of two states ends the loop.\<close>

fun shortcut_loop ::
  "planning_env \<Rightarrow> JointSpaceRRTConnect \<Rightarrow> control_ref \<Rightarrow> nat \<Rightarrow> joints list \<Rightarrow> joints list planning_op" where
  "shortcut_loop env p control 0 path w = (Inr path, w)"
| "shortcut_loop env p control (Suc n) path w =
     obind (checkpoint env control ''RRT path shortcutting'' w) (\<lambda>_ w.
     if length path < 3 then (Inr path, w)
     else
       let (a, b) = env_choice env (random_calls w) (length path);
           first = min a b; second = max a b;
           w1 = w\<lparr> random_calls := random_calls w + 1 \<rparr>
       in if second \<le> first + 1 then shortcut_loop env p control n path w1
          else
            obind (segment_clear env p (path ! first) (path ! second) control w1) (\<lambda>clear w2.
            shortcut_loop env p control n (if clear then take (first + 1) path @ drop second path else path) w2))"

definition shortcut ::
  "planning_env \<Rightarrow> JointSpaceRRTConnect \<Rightarrow> joints list \<Rightarrow> control_ref \<Rightarrow> joints list planning_op" where
  "shortcut env p path control = shortcut_loop env p control (nat (shortcut_attempts (rrt_config p))) path"

fun dense_points ::
  "planning_env \<Rightarrow> control_ref \<Rightarrow> joints \<Rightarrow> joints \<Rightarrow> real list \<Rightarrow> joints list planning_op" where
  "dense_points env control first second [] w = (Inr [], w)"
| "dense_points env control first second (alpha # alphas) w =
     obind (checkpoint env control ''RRT path densification'' w) (\<lambda>_ w.
     obind (dense_points env control first second alphas w) (\<lambda>vs w. (Inr (point_on first second alpha # vs), w)))"

fun dense_segments ::
  "planning_env \<Rightarrow> JointSpaceRRTConnect \<Rightarrow> control_ref \<Rightarrow> joints list \<Rightarrow> joints list planning_op" where
  "dense_segments env p control (first # second # path) w =
     obind (checkpoint env control ''RRT path densification'' w) (\<lambda>_ w.
     obind (dense_points env control first second (fractions (segment_steps p first second)) w) (\<lambda>vs w.
     obind (dense_segments env p control (second # path) w) (\<lambda>us w. (Inr (vs @ us), w))))"
| "dense_segments env p control _ w = (Inr [], w)"

definition densify ::
  "planning_env \<Rightarrow> JointSpaceRRTConnect \<Rightarrow> joints list \<Rightarrow> control_ref \<Rightarrow> joints list planning_op" where
  "densify env p path control w =
     obind (dense_segments env p control path w) (\<lambda>vs w. (Inr (hd path # vs), w))"

fun audit_path :: "planning_env \<Rightarrow> JointSpaceRRTConnect \<Rightarrow> control_ref \<Rightarrow> joints list \<Rightarrow> unit planning_op" where
  "audit_path env p control [] w = (Inr (), w)"
| "audit_path env p control (v # vs) w =
     obind (checkpoint env control ''RRT final collision audit'' w) (\<lambda>_ w.
     obind (checkpoint env control ''RRT final collision audit'' w) (\<lambda>_ w.
     guard (\<not> state_valid p v) (PlanningError ''internal error: path failed final collision audit'') w
     (audit_path env p control vs w)))"

section \<open>Planning\<close>

record JointTrajectory =
  trajectory_joint_names :: "string list"
  waypoints :: "joints list"
  trajectory_times :: "real list option"

text \<open>Sequencing with a step that may not end.\<close>

definition pbind ::
  "('a, 's) outcome option \<Rightarrow> ('a \<Rightarrow> 's \<Rightarrow> ('b, 's) outcome option) \<Rightarrow> ('b, 's) outcome option" where
  "pbind m f = (case m of None \<Rightarrow> None | Some (Inl e, w) \<Rightarrow> Some (Inl e, w) | Some (Inr x, w) \<Rightarrow> f x w)"

definition finish_path ::
  "planning_env \<Rightarrow> JointSpaceRRTConnect \<Rightarrow> control_ref \<Rightarrow> joints list \<Rightarrow> JointTrajectory planning_op" where
  "finish_path env p control path w =
     obind (shortcut env p path control w) (\<lambda>path w.
     obind (densify env p path control w) (\<lambda>dense w.
     obind (audit_path env p control dense w) (\<lambda>_ w.
     (Inr \<lparr> trajectory_joint_names = rrt_joint_names p, waypoints = dense, trajectory_times = None \<rparr>, w))))"

definition draw_sample :: "planning_env \<Rightarrow> JointSpaceRRTConnect \<Rightarrow> rrt_tree \<Rightarrow> planning_world \<Rightarrow> joints \<times> planning_world" where
  "draw_sample env p second w =
     (if env_random env (random_calls w) < goal_bias (rrt_config p)
      then (nodes second ! 0, w\<lparr> random_calls := random_calls w + 1 \<rparr>)
      else (env_uniform env (random_calls w + 1) (lower_limits p) (upper_limits p),
            w\<lparr> random_calls := random_calls w + 2 \<rparr>))"

fun rrt_loop ::
  "planning_env \<Rightarrow> JointSpaceRRTConnect \<Rightarrow> control_ref \<Rightarrow> string \<Rightarrow> nat \<Rightarrow> rrt_tree \<Rightarrow> rrt_tree \<Rightarrow> planning_world
     \<Rightarrow> (JointTrajectory, planning_world) outcome option" where
  "rrt_loop env p control failure 0 first second w = Some (Inl (PlanningError failure), w)"
| "rrt_loop env p control failure (Suc n) first second w =
     pbind (Some (checkpoint env control ''RRT planning'' w)) (\<lambda>_ w.
     let (sample, w) = draw_sample env p second w in
     pbind (Some (extend_tree env p first sample control w)) (\<lambda>((first_index, status), first) w.
     case (if status = TRAPPED then None else first_index) of
       None \<Rightarrow> rrt_loop env p control failure n second first w
     | Some i \<Rightarrow>
         pbind (connect_tree env p second (nodes first ! i) control w) (\<lambda>((second_index, connect_status), second) w.
         case (if connect_status = REACHED then second_index else None) of
           None \<Rightarrow> rrt_loop env p control failure n second first w
         | Some j \<Rightarrow>
             (case join_paths first i second j of
                None \<Rightarrow> None
              | Some path \<Rightarrow> Some (finish_path env p control path w)))))"

definition plan_joint ::
  "planning_env \<Rightarrow> JointSpaceRRTConnect \<Rightarrow> pyfloat list \<Rightarrow> pyfloat list \<Rightarrow> pyfloat \<Rightarrow> PlanningControl option
     \<Rightarrow> planning_world \<Rightarrow> (JointTrajectory, planning_world) outcome option" where
  "plan_joint env p start_joints goal_joints timeout control w =
     (if \<not> isfinite timeout \<or> timeout \<le> 0 then Some (Inl (PlanningError ''planning timeout must be positive''), w)
      else
        pbind (Some (budget_init env (the_fin timeout) control w)) (\<lambda>b w.
        let budget = BudgetControl b in
        pbind (Some (validate_state env p start_joints ''start'' budget w)) (\<lambda>start w.
        pbind (Some (validate_state env p goal_joints ''goal'' budget w)) (\<lambda>goal w.
        pbind (Some (segment_clear env p start goal budget w)) (\<lambda>clear w.
        if clear then
          pbind (Some (densify env p [start, goal] budget w)) (\<lambda>dense w.
            Some (Inr \<lparr> trajectory_joint_names = rrt_joint_names p, waypoints = dense, trajectory_times = None \<rparr>, w))
        else
          rrt_loop env p budget
            (''no collision-free joint path found within '' @ show_int (max_iterations (rrt_config p)) @ '' iterations / ''
              @ fmt_fixed 3 (the_fin timeout) @ '' s'')
            (nat (max_iterations (rrt_config p))) (tree_init start True) (tree_init goal False) w)))))"

end
