(* ===== verification/Rrt_Laws.thy ===== *)
theory Rrt_Laws
  imports Rrt_Connect
begin

text \<open>
  The planner over whole runs: a returned path starts at the start, ends at the goal, stays inside the limits, and every
  state of it was found valid; and every call returns, although two loops of the program have no counter.
\<close>

section \<open>Vectors\<close>

lemma squares_nonneg [simp]: "0 \<le> (\<Sum>x\<leftarrow>v. x * x)" for v :: "real list"
  by (induction v) simp_all

lemma vec_norm_nonneg [simp]: "0 \<le> vec_norm v"
  by (simp add: vec_norm_def)

lemma vec_norm_scale: "vec_norm (map ((*) c) v) = \<bar>c\<bar> * vec_norm v"
proof -
  have "sum_list (map (\<lambda>x. c * x * (c * x)) v) = c * c * sum_list (map (\<lambda>x. x * x) v)"
    by (induction v) (simp_all add: algebra_simps)
  then show ?thesis by (simp add: vec_norm_def comp_def real_sqrt_mult)
qed

lemma vec_norm_zero: "vec_norm v = 0 \<longleftrightarrow> (\<forall>x \<in> set v. x = 0)"
proof -
  have "(\<Sum>x\<leftarrow>v. x * x) = 0 \<longleftrightarrow> (\<forall>x \<in> set v. x = 0)"
  proof (induction v)
    case (Cons a v)
    then show ?case by (auto simp: add_nonneg_eq_0_iff)
  qed simp
  then show ?thesis by (simp add: vec_norm_def)
qed

lemma vec_norm_sub_commute: "vec_norm (vec_sub a b) = vec_norm (vec_sub b a)"
proof -
  have "map (\<lambda>x. x * x) (vec_sub a b) = map (\<lambda>x. x * x) (vec_sub b a)"
    by (rule nth_equalityI) (auto simp: vec_sub_def algebra_simps)
  then show ?thesis by (simp add: vec_norm_def)
qed

lemma vec_sub_length [simp]: "length (vec_sub a b) = min (length a) (length b)"
  by (simp add: vec_sub_def)

lemma point_on_length [simp]: "length (point_on a b alpha) = min (length a) (length b)"
  by (simp add: point_on_def)

lemma point_on_end: "length a = length b \<Longrightarrow> point_on a b 1 = b"
  by (rule nth_equalityI) (auto simp: point_on_def)

lemma sub_point_on:
  "length a = length b \<Longrightarrow> vec_sub b (point_on a b alpha) = map ((*) (1 - alpha)) (vec_sub b a)"
  by (rule nth_equalityI) (auto simp: vec_sub_def point_on_def algebra_simps)

lemma point_on_sub:
  "length a = length b
     \<Longrightarrow> vec_sub (point_on a b beta) (point_on a b alpha) = map ((*) (beta - alpha)) (vec_sub b a)"
  by (rule nth_equalityI) (auto simp: vec_sub_def point_on_def algebra_simps)

lemma norm_point_on:
  "length a = length b \<Longrightarrow> vec_norm (vec_sub b (point_on a b alpha)) = \<bar>1 - alpha\<bar> * vec_norm (vec_sub b a)"
  by (simp add: sub_point_on vec_norm_scale)

section \<open>Limits\<close>

definition planner_ok :: "JointSpaceRRTConnect \<Rightarrow> bool" where
  "planner_ok p \<longleftrightarrow> length (lower_limits p) = length (rrt_joint_names p) \<and> length (upper_limits p) = length (rrt_joint_names p)
     \<and> (\<forall>i < length (rrt_joint_names p). lower_limits p ! i < upper_limits p ! i)
     \<and> 0 < step_size (rrt_config p) \<and> 0 < collision_resolution (rrt_config p)"

lemma list_ex_zip:
  "length xs = length ys \<Longrightarrow> list_ex (\<lambda>(x, y). P x y) (zip xs ys) \<longleftrightarrow> (\<exists>i < length xs. P (xs ! i) (ys ! i))"
  by (auto simp: list_ex_length)

lemma rrt_init_ok:
  assumes "rrt_init names lower upper valid c = Inr p" and "rrt_config_post_init c = Inr ()"
  shows "planner_ok p \<and> rrt_joint_names p = names \<and> lower_limits p = lower \<and> upper_limits p = upper
    \<and> state_valid p = valid \<and> rrt_config p = c"
proof -
  have len: "length lower = length names" "length upper = length names"
    and order: "\<not> list_ex (\<lambda>(l, u). u \<le> l) (zip lower upper)"
    and p: "p = \<lparr> rrt_joint_names = names, lower_limits = lower, upper_limits = upper, state_valid = valid, rrt_config = c \<rparr>"
    using assms(1) by (auto simp: rrt_init_def)
  have "0 < step_size c" "0 < collision_resolution c" using assms(2) by (auto simp: rrt_config_post_init_def)
  moreover have "lower ! i < upper ! i" if "i < length names" for i
    using order len that by (auto simp: list_ex_zip not_le)
  ultimately show ?thesis using len by (simp add: p planner_ok_def)
qed

definition in_limits :: "JointSpaceRRTConnect \<Rightarrow> joints \<Rightarrow> bool" where
  "in_limits p v \<longleftrightarrow> length v = length (rrt_joint_names p)
     \<and> (\<forall>i < length v. lower_limits p ! i \<le> v ! i \<and> v ! i \<le> upper_limits p ! i)"

lemma not_outside_limits:
  assumes "planner_ok p" "length v = length (rrt_joint_names p)" "\<not> outside_limits p v"
  shows "in_limits p v"
proof -
  have "\<not> (\<exists>i < length v. v ! i < lower_limits p ! i)" "\<not> (\<exists>i < length v. upper_limits p ! i < v ! i)"
    using assms by (simp_all add: outside_limits_def planner_ok_def list_ex_zip)
  then have "lower_limits p ! i \<le> v ! i" "v ! i \<le> upper_limits p ! i" if "i < length v" for i
    using that by (meson not_less)+
  then show ?thesis using assms(2) by (simp add: in_limits_def)
qed

lemma between_limits:
  fixes x y l u alpha :: real
  assumes "0 \<le> alpha" "alpha \<le> 1" "l \<le> x" "x \<le> u" "l \<le> y" "y \<le> u"
  shows "l \<le> x + alpha * (y - x) \<and> x + alpha * (y - x) \<le> u"
proof -
  have "x + alpha * (y - x) = (1 - alpha) * x + alpha * y" by (simp add: algebra_simps)
  moreover have "(1 - alpha) * l + alpha * l \<le> (1 - alpha) * x + alpha * y"
    using assms by (intro add_mono mult_left_mono) auto
  moreover have "(1 - alpha) * x + alpha * y \<le> (1 - alpha) * u + alpha * u"
    using assms by (intro add_mono mult_left_mono) auto
  ultimately show ?thesis by (simp add: algebra_simps)
qed

lemma point_on_in_limits:
  assumes "in_limits p a" "in_limits p b" "0 \<le> alpha" "alpha \<le> 1"
  shows "in_limits p (point_on a b alpha)"
  using assms between_limits by (auto simp: in_limits_def point_on_def)

section \<open>The nearest node\<close>

lemma argmin_min:
  assumes "ds \<noteq> []"
  shows "argmin ds < length ds" and "ds ! argmin ds = Min (set ds)"
proof -
  have "Min (set ds) \<in> set ds" using assms by simp
  then have "\<not> (\<forall>d \<in> set ds. Min (set ds) < d)" by blast
  then have short: "takeWhile (\<lambda>d. Min (set ds) < d) ds \<noteq> ds" by (metis takeWhile_eq_all_conv)
  then show less: "argmin ds < length ds"
    unfolding argmin_def by (metis length_takeWhile_le order_le_imp_less_or_eq takeWhile_eq_take take_all_iff order_refl)
  have "\<not> Min (set ds) < ds ! argmin ds"
    unfolding argmin_def using less [unfolded argmin_def] by (rule nth_length_takeWhile)
  moreover have "Min (set ds) \<le> ds ! argmin ds" using less by simp
  ultimately show "ds ! argmin ds = Min (set ds)" by simp
qed

lemma argmin_append_less:
  assumes "ds \<noteq> []" "d < Min (set ds)"
  shows "argmin (ds @ [d]) = length ds"
proof -
  have less: "d < e" if "e \<in> set ds" for e
    using assms(2) Min_le [OF _ that] by (auto intro: less_le_trans)
  have "Min (set (ds @ [d])) = d" by (rule Min_eqI) (auto dest: less)
  then show ?thesis using less by (simp add: argmin_def takeWhile_append)
qed

lemma node_distances_result:
  "node_distances env p control target vs w = (Inr ds, w') \<Longrightarrow> ds = map (\<lambda>v. joint_distance p v target) vs"
  by (induction vs arbitrary: ds w w') auto

definition closest :: "JointSpaceRRTConnect \<Rightarrow> rrt_tree \<Rightarrow> joints \<Rightarrow> nat" where
  "closest p t target = argmin (map (\<lambda>v. joint_distance p v target) (nodes t))"

lemma nearest_node_result: "nearest_node env p t target control w = (Inr i, w') \<Longrightarrow> i = closest p t target"
  by (auto simp: nearest_node_def closest_def dest!: node_distances_result)

lemma closest_in_tree: "nodes t \<noteq> [] \<Longrightarrow> closest p t target < length (nodes t)"
  using argmin_min(1) [of "map (\<lambda>v. joint_distance p v target) (nodes t)"] by (simp add: closest_def)

text \<open>What is left between the tree and a target.\<close>

definition gap :: "JointSpaceRRTConnect \<Rightarrow> rrt_tree \<Rightarrow> joints \<Rightarrow> real" where
  "gap p t target = vec_norm (vec_sub target (nodes t ! closest p t target))"

lemma extend_result:
  assumes "extend_tree env p t target control w = (Inr ((index, status), u), w')"
  shows "gap p t target < 1 / 10 ^ 12 \<and> index = Some (closest p t target) \<and> status = REACHED \<and> u = t
    \<or> \<not> gap p t target < 1 / 10 ^ 12
      \<and> (index = None \<and> status = TRAPPED \<and> u = t
         \<or> index = Some (length (nodes t))
           \<and> (\<exists>q. proposal p (nodes t ! closest p t target) target = (q, status)
                 \<and> u = snd (tree_add q (closest p t target) t)))"
  using assms
  by (auto simp: extend_tree_def gap_def tree_add_def Let_def dest!: nearest_node_result split: if_splits prod.splits)

section \<open>The connection ends\<close>

definition tree_dims :: "JointSpaceRRTConnect \<Rightarrow> rrt_tree \<Rightarrow> bool" where
  "tree_dims p t \<longleftrightarrow> nodes t \<noteq> [] \<and> (\<forall>v \<in> set (nodes t). length v = length (rrt_joint_names p))"

lemma joint_distance_step:
  assumes "planner_ok p" "length near = length (rrt_joint_names p)" "length target = length (rrt_joint_names p)"
  shows "joint_distance p (point_on near target a) target = \<bar>1 - a\<bar> * joint_distance p near target"
proof -
  have "map2 (/) (map ((*) (1 - a)) v) s = map ((*) (1 - a)) (map2 (/) v s)" for v s :: joints
    by (rule nth_equalityI) auto
  moreover have "length near = length target" using assms by simp
  ultimately show ?thesis
    unfolding joint_distance_def by (simp only: sub_point_on vec_norm_scale)
qed

lemma joint_distance_pos:
  assumes "planner_ok p" "length near = length (rrt_joint_names p)" "length target = length (rrt_joint_names p)"
    and "vec_norm (vec_sub target near) \<noteq> 0"
  shows "0 < joint_distance p near target"
proof -
  let ?d = "vec_sub target near" and ?s = "vec_sub (upper_limits p) (lower_limits p)"
  have "\<exists>x \<in> set ?d. x \<noteq> 0" using assms(4) vec_norm_zero [of ?d] by blast
  then obtain i where i: "i < length ?d" "?d ! i \<noteq> 0" by (metis in_set_conv_nth)
  then have "0 < ?s ! i" using assms(1-3) by (simp add: planner_ok_def vec_sub_def)
  then have "map2 (/) ?d ?s ! i \<noteq> 0" using i assms(1-3) by (simp add: planner_ok_def)
  then have "joint_distance p near target \<noteq> 0"
    using i assms(1-3) vec_norm_zero [of "map2 (/) ?d ?s"] unfolding joint_distance_def
    by (auto simp: planner_ok_def all_set_conv_all_nth)
  then show ?thesis unfolding joint_distance_def by (simp add: less_le)
qed

text \<open>A step towards the target is taken from the node nearest by the normalised distance, and its end is nearer by that
  distance than every older node: the next step continues there, so the plain distance shrinks by the step size.\<close>

lemma advanced_gap:
  assumes ok: "planner_ok p" and dims: "tree_dims p t" "length target = length (rrt_joint_names p)"
    and far: "\<not> gap p t target < 1 / 10 ^ 12"
    and q: "proposal p (nodes t ! closest p t target) target = (q, ADVANCED)"
    and u: "u = snd (tree_add q (closest p t target) t)"
  shows "tree_dims p u \<and> gap p u target = gap p t target - step_size (rrt_config p)"
proof -
  let ?near = "nodes t ! closest p t target" and ?step = "step_size (rrt_config p)"
  let ?ds = "map (\<lambda>v. joint_distance p v target) (nodes t)"
  have ne: "nodes t \<noteq> []" using dims(1) by (simp add: tree_dims_def)
  then have near: "length ?near = length (rrt_joint_names p)"
    using dims(1) closest_in_tree [OF ne] by (simp add: tree_dims_def)
  have gap: "gap p t target = vec_norm (vec_sub target ?near)" by (simp add: gap_def)
  have q': "q = point_on ?near target (?step / gap p t target)" and big: "?step < gap p t target"
    using q by (auto simp: proposal_def gap Let_def split: if_splits)
  have step: "0 < ?step" using ok by (simp add: planner_ok_def)
  then have part: "0 < ?step / gap p t target" "?step / gap p t target < 1" using big by auto
  have "0 < joint_distance p ?near target"
    using joint_distance_pos [OF ok near dims(2)] big step by (simp add: gap [symmetric])
  then have "joint_distance p q target < joint_distance p ?near target"
    using joint_distance_step [OF ok near dims(2)] part by (simp add: q')
  moreover have "joint_distance p ?near target = Min (set ?ds)"
    using argmin_min [of ?ds] ne closest_in_tree [OF ne] by (simp add: closest_def)
  ultimately have "closest p u target = length (nodes t)"
    using argmin_append_less [of ?ds "joint_distance p q target"] ne by (simp add: closest_def u tree_add_def)
  then have "gap p u target = vec_norm (vec_sub target q)" by (simp add: gap_def u tree_add_def)
  also have "\<dots> = (1 - ?step / gap p t target) * gap p t target"
    using norm_point_on [of ?near target] near dims(2) part by (simp add: q' gap)
  also have "\<dots> = gap p t target - ?step" using big step by (simp add: left_diff_distrib)
  finally have "gap p u target = gap p t target - ?step" .
  moreover have "length q = length (rrt_joint_names p)" using near dims(2) by (simp add: q')
  ultimately show ?thesis using dims(1) by (auto simp: tree_dims_def u tree_add_def)
qed

lemma gap_nonneg [simp]: "0 \<le> gap p t target"
  by (simp add: gap_def)

section \<open>Trees\<close>

definition tree_ok :: "JointSpaceRRTConnect \<Rightarrow> joints \<Rightarrow> rrt_tree \<Rightarrow> bool" where
  "tree_ok p origin t \<longleftrightarrow> nodes t \<noteq> [] \<and> nodes t ! 0 = origin \<and> length (parents t) = length (nodes t)
     \<and> parents t ! 0 = - 1 \<and> (\<forall>i < length (nodes t). 0 < i \<longrightarrow> 0 \<le> parents t ! i \<and> parents t ! i < int i)
     \<and> (\<forall>v \<in> set (nodes t). in_limits p v)"

lemma tree_ok_dims: "tree_ok p origin t \<Longrightarrow> tree_dims p t"
  by (auto simp: tree_ok_def tree_dims_def in_limits_def)

lemma tree_init_ok: "in_limits p origin \<Longrightarrow> tree_ok p origin (tree_init origin b)"
  by (simp add: tree_ok_def tree_init_def)

lemma tree_add_ok:
  assumes "tree_ok p origin t" "in_limits p q" "i < length (nodes t)"
  shows "tree_ok p origin (snd (tree_add q i t))"
  using assms by (auto simp: tree_ok_def tree_add_def nth_append less_Suc_eq)

lemma walk_up_returns:
  assumes "tree_ok p origin t"
  shows "i < length (nodes t) \<Longrightarrow>
    \<exists>vs. walk_up t (int i) = Some (nodes t ! i # vs) \<and> set vs \<subseteq> set (nodes t)
       \<and> last (nodes t ! i # vs) = origin \<and> (vs = [] \<longrightarrow> nodes t ! i = origin)"
proof (induction i rule: less_induct)
  case (less i)
  show ?case
  proof (cases "i = 0")
    case True
    then show ?thesis
      using assms by (subst walk_up.simps) (simp add: tree_ok_def walk_up.simps [of t "- 1"])
  next
    case False
    let ?j = "nat (parents t ! i)"
    have j: "0 \<le> parents t ! i" "?j < i" "?j < length (nodes t)"
      using assms less.prems False by (auto simp: tree_ok_def)
    from less.IH [OF j(2,3)] obtain vs where "walk_up t (int ?j) = Some (nodes t ! ?j # vs)"
      "set vs \<subseteq> set (nodes t)" "last (nodes t ! ?j # vs) = origin" by blast
    then show ?thesis
      using less.prems j by (subst walk_up.simps) auto
  qed
qed

lemma tree_path_returns:
  assumes "tree_ok p origin t" "i < length (nodes t)"
  shows "\<exists>vs. tree_path t i = Some vs \<and> vs \<noteq> [] \<and> hd vs = origin \<and> last vs = nodes t ! i \<and> set vs \<subseteq> set (nodes t)"
proof -
  obtain vs where "walk_up t (int i) = Some (nodes t ! i # vs)" "set vs \<subseteq> set (nodes t)"
    "last (nodes t ! i # vs) = origin"
    using walk_up_returns [OF assms] by blast
  then show ?thesis
    using assms(2) by (intro exI [of _ "rev (nodes t ! i # vs)"]) (auto simp: tree_path_def hd_rev last_rev hd_append)
qed

text \<open>An extension keeps a tree well formed, and what it reaches is within a picounit of the target.\<close>

lemma extend_ok:
  assumes "planner_ok p" "tree_ok p origin t" "in_limits p target"
    and run: "extend_tree env p t target control w = (Inr ((index, status), u), w')"
  shows "tree_ok p origin u \<and> rooted_at_start u = rooted_at_start t
    \<and> (\<forall>i. index = Some i \<longrightarrow> i < length (nodes u))
    \<and> (status = REACHED \<longrightarrow> (\<exists>i. index = Some i \<and> vec_norm (vec_sub target (nodes u ! i)) < 1 / 10 ^ 12))"
proof -
  let ?near = "closest p t target"
  have ne: "nodes t \<noteq> []" using assms(2) by (simp add: tree_ok_def)
  then have near: "?near < length (nodes t)" "in_limits p (nodes t ! ?near)"
    using closest_in_tree [OF ne] assms(2) by (auto simp: tree_ok_def)
  consider (here) "gap p t target < 1 / 10 ^ 12" "index = Some ?near" "status = REACHED" "u = t"
    | (trapped) "index = None" "status = TRAPPED" "u = t"
    | (added) q where "\<not> gap p t target < 1 / 10 ^ 12" "index = Some (length (nodes t))"
        "proposal p (nodes t ! ?near) target = (q, status)" "u = snd (tree_add q ?near t)"
    using extend_result [OF run] by blast
  then show ?thesis
  proof cases
    case here
    then show ?thesis using assms(2) near by (simp add: gap_def)
  next
    case trapped
    then show ?thesis using assms(2) by simp
  next
    case added
    have same: "length (nodes t ! ?near) = length target" using near(2) assms(3) by (simp add: in_limits_def)
    have "0 < step_size (rrt_config p)" using assms(1) by (simp add: planner_ok_def)
    then have "0 \<le> step_size (rrt_config p) / gap p t target" "gap p t target \<le> step_size (rrt_config p)
        \<or> step_size (rrt_config p) / gap p t target \<le> 1" by (auto simp: divide_le_eq)
    then have "in_limits p q" "status = REACHED \<Longrightarrow> q = target"
      using added(3) point_on_in_limits [OF near(2) assms(3)] assms(3)
      by (auto simp: proposal_def gap_def [symmetric] Let_def split: if_splits)
    moreover have "vec_norm (vec_sub target target) = 0" using vec_norm_zero by (auto simp: vec_sub_def in_set_zip)
    ultimately show ?thesis
      using added tree_add_ok [OF assms(2) _ near(1)] by (auto simp: tree_add_def nth_append)
  qed
qed

definition connected ::
  "JointSpaceRRTConnect \<Rightarrow> joints \<Rightarrow> joints \<Rightarrow> bool \<Rightarrow> (exn + (nat option \<times> ExtendStatus) \<times> rrt_tree) \<Rightarrow> bool" where
  "connected p origin target b r \<longleftrightarrow>
     (\<forall>index status u. r = Inr ((index, status), u) \<longrightarrow> tree_ok p origin u \<and> rooted_at_start u = b
        \<and> (status = REACHED \<longrightarrow>
             (\<exists>i. index = Some i \<and> i < length (nodes u) \<and> vec_norm (vec_sub target (nodes u ! i)) < 1 / 10 ^ 12)))"

lemma connected_Inl [simp]: "connected p origin target b (Inl e)"
  by (simp add: connected_def)

lemma extend_connected:
  assumes "planner_ok p" "in_limits p target" "tree_ok p origin t"
    and "extend_tree env p t target control w = (Inr ((index, status), u), w')"
  shows "connected p origin target (rooted_at_start t) (Inr ((index, status), u))"
    and "connected p origin target (rooted_at_start t) (Inr ((last_index, TRAPPED), u))"
  using extend_ok [OF assms(1,3,2,4)] by (auto simp: connected_def)

lemma connect_loop_step:
  assumes "obind (checkpoint env control ''RRT tree connection'' w) (\<lambda>_ w. extend_tree env p t target control w) = (r, w')"
  shows "connect_loop env p target control last_index t w =
    (case r of
       Inl e \<Rightarrow> Some (Inl e, w')
     | Inr ((index, status), u) \<Rightarrow>
         if status = TRAPPED then Some (Inr ((last_index, status), u), w')
         else if status = REACHED then Some (Inr ((index, status), u), w')
         else connect_loop env p target control index u w')"
  by (subst connect_loop.simps, subst assms) (auto split: sum.splits)

lemma connect_loop_returns:
  assumes "planner_ok p" and "in_limits p target"
  shows "tree_ok p origin t \<Longrightarrow> gap p t target \<le> of_nat k * step_size (rrt_config p)
     \<Longrightarrow> \<exists>r w'. connect_loop env p target control last_index t w = Some (r, w')
               \<and> connected p origin target (rooted_at_start t) r"
proof (induction k arbitrary: last_index t w)
  case 0
  then have near: "gap p t target < 1 / 10 ^ 12" using gap_nonneg [of p t target] by simp
  show ?case
  proof (cases "obind (checkpoint env control ''RRT tree connection'' w) (\<lambda>_ w. extend_tree env p t target control w)")
    case (Pair r w')
    show ?thesis
    proof (cases r)
      case (Inl e)
      then show ?thesis by (simp add: connect_loop_step [OF Pair])
    next
      case (Inr x)
      obtain index status u where x: "x = ((index, status), u)" by (metis prod.exhaust)
      from Pair Inr x obtain w1 where run: "extend_tree env p t target control w1 = (Inr ((index, status), u), w')" by auto
      from extend_result [OF run] near have "status = REACHED" by auto
      then show ?thesis
        using Inr x extend_connected(1) [OF assms 0(1) run] by (simp add: connect_loop_step [OF Pair])
    qed
  qed
next
  case (Suc k)
  show ?case
  proof (cases "obind (checkpoint env control ''RRT tree connection'' w) (\<lambda>_ w. extend_tree env p t target control w)")
    case (Pair r w')
    show ?thesis
    proof (cases r)
      case (Inl e)
      then show ?thesis by (simp add: connect_loop_step [OF Pair])
    next
      case (Inr x)
      obtain index status u where x: "x = ((index, status), u)" by (metis prod.exhaust)
      from Pair Inr x obtain w1 where run: "extend_tree env p t target control w1 = (Inr ((index, status), u), w')" by auto
      have u: "tree_ok p origin u" "rooted_at_start u = rooted_at_start t" using extend_ok [OF assms(1) Suc.prems(1) assms(2) run] by auto
      show ?thesis
      proof (cases status)
        case ADVANCED
        from extend_result [OF run] ADVANCED obtain q where q: "\<not> gap p t target < 1 / 10 ^ 12"
          "proposal p (nodes t ! closest p t target) target = (q, ADVANCED)"
          "u = snd (tree_add q (closest p t target) t)" by auto
        have "length target = length (rrt_joint_names p)" using assms(2) by (simp add: in_limits_def)
        from advanced_gap [OF assms(1) tree_ok_dims [OF Suc.prems(1)] this q]
        have "gap p u target = gap p t target - step_size (rrt_config p)" by blast
        then have "gap p u target \<le> of_nat k * step_size (rrt_config p)"
          using Suc.prems(2) by (simp add: distrib_right)
        from Suc.IH [OF u(1) this] show ?thesis
          using Inr x ADVANCED u(2) by (simp add: connect_loop_step [OF Pair])
      next
        case TRAPPED
        then show ?thesis
          using Inr x extend_connected(2) [OF assms Suc.prems(1) run] by (simp add: connect_loop_step [OF Pair])
      next
        case REACHED
        then show ?thesis
          using Inr x extend_connected(1) [OF assms Suc.prems(1) run] by (simp add: connect_loop_step [OF Pair])
      qed
    qed
  qed
qed

lemma connect_returns:
  assumes "planner_ok p" "in_limits p target" "tree_ok p origin t"
  shows "\<exists>r w'. connect_tree env p t target control w = Some (r, w') \<and> connected p origin target (rooted_at_start t) r"
proof -
  have "0 < step_size (rrt_config p)" using assms(1) by (simp add: planner_ok_def)
  then obtain k :: nat where "gap p t target < of_nat k * step_size (rrt_config p)"
    using reals_Archimedean3 by blast
  then show ?thesis
    unfolding connect_tree_def by (intro connect_loop_returns [OF assms, of k]) simp
qed

section \<open>Sampled segments\<close>

lemma fractions_between: "alpha \<in> set (fractions n) \<Longrightarrow> 0 \<le> alpha \<and> alpha \<le> 1"
  by (auto simp: fractions_def divide_le_eq)

lemma segment_steps_pos [simp]: "0 < segment_steps p a b"
  by (simp add: segment_steps_def)

lemma fractions_nonempty [simp]: "0 < n \<Longrightarrow> fractions n \<noteq> []" "0 < n \<Longrightarrow> last (fractions n) = 1"
  by (auto simp: fractions_def last_map)

lemma check_points_result:
  "check_points env p control a b alphas w = (Inr True, w') \<Longrightarrow> list_all (state_valid p) (map (point_on a b) alphas)"
  by (induction alphas arbitrary: w) (auto split: if_splits)

text \<open>The states \<open>_densify\<close> adds to the first one.\<close>

fun dense_rest :: "JointSpaceRRTConnect \<Rightarrow> joints list \<Rightarrow> joints list" where
  "dense_rest p (a # b # path) = map (point_on a b) (fractions (segment_steps p a b)) @ dense_rest p (b # path)"
| "dense_rest p _ = []"

lemma dense_points_result: "dense_points env control a b alphas w = (Inr vs, w') \<Longrightarrow> vs = map (point_on a b) alphas"
  by (induction alphas arbitrary: vs w w') auto

lemma dense_segments_result: "dense_segments env p control path w = (Inr vs, w') \<Longrightarrow> vs = dense_rest p path"
  by (induction p path arbitrary: vs w w' rule: dense_rest.induct) (auto dest!: dense_points_result)

lemma densify_result: "densify env p path control w = (Inr vs, w') \<Longrightarrow> vs = hd path # dense_rest p path"
  by (auto simp: densify_def dest!: dense_segments_result)

lemma audit_result: "audit_path env p control vs w = (Inr x, w') \<Longrightarrow> list_all (state_valid p) vs"
  by (induction vs arbitrary: w) auto

text \<open>Neighbouring states are no farther apart than the collision resolution.\<close>

definition close_states :: "JointSpaceRRTConnect \<Rightarrow> joints \<Rightarrow> joints \<Rightarrow> bool" where
  "close_states p a b \<longleftrightarrow> vec_norm (vec_sub b a) \<le> collision_resolution (rrt_config p)"

lemma step_fraction:
  assumes "planner_ok p"
  shows "vec_norm (vec_sub b a) / of_nat (segment_steps p a b) \<le> collision_resolution (rrt_config p)"
proof -
  let ?r = "collision_resolution (rrt_config p)"
  have r: "0 < ?r" using assms by (simp add: planner_ok_def)
  have "vec_norm (vec_sub b a) / ?r \<le> of_nat (nat \<lceil>vec_norm (vec_sub b a) / ?r\<rceil>)"
    by (rule real_nat_ceiling_ge)
  also have "\<dots> \<le> of_nat (segment_steps p a b)" by (simp add: segment_steps_def)
  finally have "vec_norm (vec_sub b a) \<le> of_nat (segment_steps p a b) * ?r" using r by (simp add: divide_le_eq)
  moreover have "0 < (of_nat (segment_steps p a b) :: real)" by simp
  ultimately show ?thesis by (simp add: divide_le_eq mult.commute)
qed

lemma close_fractions:
  assumes "planner_ok p" and "length a = length b" and "beta - alpha = 1 / of_nat (segment_steps p a b)"
  shows "close_states p (point_on a b alpha) (point_on a b beta)"
proof -
  have "vec_norm (vec_sub (point_on a b beta) (point_on a b alpha)) = vec_norm (vec_sub b a) / of_nat (segment_steps p a b)"
    using assms(2,3) by (simp add: point_on_sub vec_norm_scale)
  then show ?thesis using step_fraction [OF assms(1), of b a] by (simp add: close_states_def)
qed

lemma point_on_start: "length a = length b \<Longrightarrow> point_on a b 0 = a"
  by (rule nth_equalityI) (auto simp: point_on_def)

lemma close_segment:
  assumes "planner_ok p" and "length a = length b"
  shows "successively (close_states p) (a # map (point_on a b) (fractions (segment_steps p a b)))"
proof -
  let ?n = "segment_steps p a b"
  have "a # map (point_on a b) (fractions ?n) = map (\<lambda>i. point_on a b (of_nat i / of_nat ?n)) [0 ..< Suc ?n]"
    using assms(2) by (subst upt_conv_Cons) (auto simp: fractions_def point_on_start)
  moreover have "successively (\<lambda>i j. close_states p (point_on a b (of_nat i / of_nat ?n)) (point_on a b (of_nat j / of_nat ?n)))
      [0 ..< Suc ?n]"
    unfolding successively_conv_nth
    by (auto intro!: close_fractions [OF assms] simp: diff_divide_distrib [symmetric] simp del: upt_Suc)
  ultimately show ?thesis by (simp only: successively_map)
qed

lemma dense_rest_spec:
  assumes "planner_ok p" and "path \<noteq> []" and "\<forall>v \<in> set path. in_limits p v"
  shows "(\<forall>v \<in> set (dense_rest p path). in_limits p v) \<and> last (hd path # dense_rest p path) = last path
    \<and> successively (close_states p) (hd path # dense_rest p path)"
  using assms
proof (induction p path rule: dense_rest.induct)
  case (1 p a b path)
  let ?seg = "map (point_on a b) (fractions (segment_steps p a b))"
  have len: "length a = length b" using 1(4) by (simp add: in_limits_def)
  have seg: "?seg \<noteq> []" "last ?seg = b" using len by (simp_all add: last_map point_on_end)
  have inside: "\<forall>v \<in> set ?seg. in_limits p v" using 1(4) point_on_in_limits fractions_between by fastforce
  have close: "successively (close_states p) (a # ?seg)" by (rule close_segment [OF 1(2) len])
  have rest: "(\<forall>v \<in> set (dense_rest p (b # path)). in_limits p v) \<and> last (b # dense_rest p (b # path)) = last (b # path)
      \<and> successively (close_states p) (b # dense_rest p (b # path))"
    using 1(1) [OF 1(2)] 1(4) by simp
  have "successively (close_states p) ((a # ?seg) @ dense_rest p (b # path))"
    unfolding successively_append_iff using rest close seg by (cases "dense_rest p (b # path)") auto
  moreover have "last (?seg @ dense_rest p (b # path)) = last (b # path)"
    using rest seg by (cases "dense_rest p (b # path) = []") auto
  ultimately show ?case using rest inside seg(1) by auto
qed simp_all

section \<open>Finishing a path\<close>

text \<open>What the random generator promises: samples inside the limits, and two different indices of a list.\<close>

definition generator_ok :: "planning_env \<Rightarrow> JointSpaceRRTConnect \<Rightarrow> bool" where
  "generator_ok env p \<longleftrightarrow> (\<forall>k. in_limits p (env_uniform env k (lower_limits p) (upper_limits p)))
     \<and> (\<forall>k n. 2 \<le> n \<longrightarrow> fst (env_choice env k n) < n \<and> snd (env_choice env k n) < n
              \<and> fst (env_choice env k n) \<noteq> snd (env_choice env k n))"

lemma spliced_path:
  assumes "first < second" "second < length path"
  shows "take (first + 1) path @ drop second path \<noteq> []"
    and "hd (take (first + 1) path @ drop second path) = hd path"
    and "last (take (first + 1) path @ drop second path) = last path"
    and "set (take (first + 1) path @ drop second path) \<subseteq> set path"
  using assms by (auto simp: hd_append hd_conv_nth dest: in_set_takeD in_set_dropD)

lemma shortcut_loop_result:
  assumes "generator_ok env p"
  shows "shortcut_loop env p control n path w = (Inr out, w') \<Longrightarrow> path \<noteq> []
     \<Longrightarrow> out \<noteq> [] \<and> hd out = hd path \<and> last out = last path \<and> set out \<subseteq> set path"
proof (induction n arbitrary: path w)
  case (Suc n)
  show ?case
  proof (cases "length path < 3")
    case True
    then show ?thesis using Suc.prems by auto
  next
    case False
    obtain w0 where w0: "checkpoint env control ''RRT path shortcutting'' w = (Inr (), w0)" using Suc.prems(1) by auto
    obtain a b where ab: "env_choice env (random_calls w0) (length path) = (a, b)" by fastforce
    let ?w1 = "w0\<lparr> random_calls := random_calls w0 + 1 \<rparr>" and ?new = "take (min a b + 1) path @ drop (max a b) path"
    have "2 \<le> length path" using False by simp
    then have "a < length path" "b < length path" "a \<noteq> b"
      using assms ab unfolding generator_ok_def by (metis fst_conv snd_conv)+
    then have bound: "min a b < max a b" "max a b < length path" by (auto simp: min_def max_def)
    have run: "(if max a b \<le> min a b + 1 then shortcut_loop env p control n path ?w1
        else obind (segment_clear env p (path ! min a b) (path ! max a b) control ?w1)
               (\<lambda>clear w2. shortcut_loop env p control n (if clear then ?new else path) w2)) = (Inr out, w')"
      using Suc.prems(1) w0 False ab by (simp only: shortcut_loop.simps obind.simps if_False prod.case Let_def)
    have "shortcut_loop env p control n path ?w1 = (Inr out, w')
        \<or> (\<exists>clear w2. shortcut_loop env p control n (if clear then ?new else path) w2 = (Inr out, w'))"
    proof (cases "max a b \<le> min a b + 1")
      case True
      then have "shortcut_loop env p control n path ?w1 = (Inr out, w')" using run by (simp only: if_True)
      then show ?thesis by blast
    next
      case far: False
      then have "obind (segment_clear env p (path ! min a b) (path ! max a b) control ?w1)
               (\<lambda>clear w2. shortcut_loop env p control n (if clear then ?new else path) w2) = (Inr out, w')"
        using run by (simp only: if_False)
      then show ?thesis unfolding obind_Inr_iff by blast
    qed
    then consider "shortcut_loop env p control n path ?w1 = (Inr out, w')"
      | clear w2 where "shortcut_loop env p control n (if clear then ?new else path) w2 = (Inr out, w')" by blast
    then show ?thesis
    proof cases
      case 1
      then show ?thesis using Suc.IH Suc.prems(2) by blast
    next
      case 2
      then show ?thesis
        using Suc.IH [OF 2] Suc.prems(2) spliced_path [OF bound] by (cases clear) auto
    qed
  qed
qed simp

lemma finish_path_result:
  assumes "planner_ok p" "generator_ok env p" "path \<noteq> []" "\<forall>v \<in> set path. in_limits p v"
    and run: "finish_path env p control path w = (Inr r, w')"
  shows "list_all (state_valid p) (waypoints r) \<and> list_all (in_limits p) (waypoints r) \<and> waypoints r \<noteq> []
    \<and> hd (waypoints r) = hd path \<and> last (waypoints r) = last path \<and> successively (close_states p) (waypoints r)"
proof -
  obtain out w1 w2 x w3 where short: "shortcut env p path control w = (Inr out, w1)"
    and dense: "densify env p out control w1 = (Inr (waypoints r), w2)"
    and audit: "audit_path env p control (waypoints r) w2 = (Inr x, w3)"
    using run by (auto simp: finish_path_def)
  have out: "out \<noteq> []" "hd out = hd path" "last out = last path" "set out \<subseteq> set path"
    using shortcut_loop_result [OF assms(2)] short assms(3) unfolding shortcut_def by blast+
  then have inside: "\<forall>v \<in> set out. in_limits p v" using assms(4) by blast
  have ways: "waypoints r = hd out # dense_rest p out" using densify_result [OF dense] .
  moreover have "in_limits p (hd out)" using inside out(1) by simp
  ultimately show ?thesis
    using dense_rest_spec [OF assms(1) out(1) inside] audit_result [OF audit] out by (simp add: list_all_iff)
qed

section \<open>Joining the trees\<close>

definition arrives :: "joints \<Rightarrow> joints \<Rightarrow> bool" where
  "arrives goal v \<longleftrightarrow> vec_norm (vec_sub v goal) < 1 / 10 ^ 12"

lemma joined_ends:
  assumes "xs \<noteq> []" "ys \<noteq> []"
  shows "last (xs @ tl (rev ys)) = (if tl ys = [] then last xs else hd ys)" "xs @ tl (rev ys) \<noteq> []"
    "hd (xs @ tl (rev ys)) = hd xs" "set (xs @ tl (rev ys)) \<subseteq> set xs \<union> set ys"
proof -
  have rev: "tl (rev ys) = rev (butlast ys)" by (metis butlast_rev rev_rev_ident)
  have "butlast ys = [] \<longleftrightarrow> tl ys = []" "butlast ys \<noteq> [] \<Longrightarrow> hd (butlast ys) = hd ys"
    using assms(2) by (cases ys; simp split: if_splits)+
  then show "last (xs @ tl (rev ys)) = (if tl ys = [] then last xs else hd ys)"
    by (simp add: rev last_rev)
  show "set (xs @ tl (rev ys)) \<subseteq> set xs \<union> set ys" using in_set_butlastD by (fastforce simp: rev)
qed (use assms(1) in simp_all)

lemma join_paths_returns:
  assumes "tree_ok p (if rooted_at_start first then start else goal) first" "i < length (nodes first)"
    and "tree_ok p (if rooted_at_start second then start else goal) second" "j < length (nodes second)"
    and "rooted_at_start second = (\<not> rooted_at_start first)"
    and near: "vec_norm (vec_sub (nodes first ! i) (nodes second ! j)) < 1 / 10 ^ 12"
  shows "\<exists>path. join_paths first i second j = Some path \<and> path \<noteq> [] \<and> hd path = start \<and> arrives goal (last path)
    \<and> (\<forall>v \<in> set path. in_limits p v)"
proof -
  obtain us where us: "tree_path first i = Some us" "us \<noteq> []" "hd us = (if rooted_at_start first then start else goal)"
    "last us = nodes first ! i" "set us \<subseteq> set (nodes first)"
    using tree_path_returns [OF assms(1,2)] by blast
  obtain vs where vs: "tree_path second j = Some vs" "vs \<noteq> []" "hd vs = (if rooted_at_start second then start else goal)"
    "last vs = nodes second ! j" "set vs \<subseteq> set (nodes second)"
    using tree_path_returns [OF assms(3,4)] by blast
  have inside: "\<forall>v \<in> set us \<union> set vs. in_limits p v" using us(5) vs(5) assms(1,3) by (auto simp: tree_ok_def)
  have goal0: "vec_norm (vec_sub goal goal) = 0" by (auto simp: vec_norm_zero vec_sub_def in_set_zip)
  note tail = joined_ends
  have single: "tl ys = [] \<Longrightarrow> ys \<noteq> [] \<Longrightarrow> last ys = hd ys" for ys :: "joints list" by (cases ys) auto
  let ?path = "(if rooted_at_start first then us else vs) @ tl (rev (if rooted_at_start first then vs else us))"
  have join: "join_paths first i second j = Some ?path" by (simp add: join_paths_def us(1) vs(1))
  have "arrives goal (last ?path)"
  proof (cases "rooted_at_start first")
    case True
    then show ?thesis
      using tail(1) [OF us(2) vs(2)] single [of vs] us vs assms(5) near goal0 by (auto simp: arrives_def)
  next
    case False
    then show ?thesis
      using tail(1) [OF vs(2) us(2)] single [of us] us vs assms(5) near goal0
        vec_norm_sub_commute [of "nodes second ! j"] by (auto simp: arrives_def)
  qed
  moreover have "?path \<noteq> []" "hd ?path = start" "set ?path \<subseteq> set us \<union> set vs"
    using tail(2-4) [OF us(2) vs(2)] tail(2-4) [OF vs(2) us(2)] us(3) vs(3) assms(5) by (auto split: if_splits)
  ultimately show ?thesis using join inside by blast
qed

section \<open>Planning\<close>

definition sound_path :: "JointSpaceRRTConnect \<Rightarrow> joints \<Rightarrow> joints \<Rightarrow> joints list \<Rightarrow> bool" where
  "sound_path p start goal ws \<longleftrightarrow> ws \<noteq> [] \<and> hd ws = start \<and> arrives goal (last ws) \<and> list_all (state_valid p) ws
     \<and> list_all (in_limits p) ws \<and> successively (close_states p) ws"

definition two_trees :: "JointSpaceRRTConnect \<Rightarrow> joints \<Rightarrow> joints \<Rightarrow> rrt_tree \<Rightarrow> rrt_tree \<Rightarrow> bool" where
  "two_trees p start goal first second \<longleftrightarrow>
     tree_ok p (if rooted_at_start first then start else goal) first
     \<and> tree_ok p (if rooted_at_start second then start else goal) second
     \<and> rooted_at_start second = (\<not> rooted_at_start first)"

lemma pbind_Some [simp]: "pbind (Some (Inl e, w)) f = Some (Inl e, w)" "pbind (Some (Inr x, w)) f = f x w"
  by (simp_all add: pbind_def)

lemma draw_sample_inside:
  assumes "generator_ok env p" "tree_ok p origin second" "draw_sample env p second w = (v, w')"
  shows "in_limits p v"
  using assms by (auto simp: draw_sample_def generator_ok_def tree_ok_def split: if_splits)

lemma rrt_loop_returns:
  assumes ok: "planner_ok p" "generator_ok env p"
  shows "two_trees p start goal first second
    \<Longrightarrow> \<exists>r w'. rrt_loop env p control failure n first second w = Some (r, w')
        \<and> (\<forall>tr. r = Inr tr \<longrightarrow> sound_path p start goal (waypoints tr))"
proof (induction n arbitrary: first second w)
  case (Suc n)
  let ?r1 = "if rooted_at_start first then start else goal" and ?r2 = "if rooted_at_start second then start else goal"
  have trees: "tree_ok p ?r1 first" "tree_ok p ?r2 second" "rooted_at_start second = (\<not> rooted_at_start first)"
    using Suc.prems by (auto simp: two_trees_def)
  have swap: "\<exists>r w'. rrt_loop env p control failure n b a v = Some (r, w')
        \<and> (\<forall>tr. r = Inr tr \<longrightarrow> sound_path p start goal (waypoints tr))"
    if "tree_ok p ?r1 a" "rooted_at_start a = rooted_at_start first" "tree_ok p ?r2 b"
      "rooted_at_start b = rooted_at_start second" for a b v
    using that trees(3) by (intro Suc.IH) (simp add: two_trees_def)
  show ?case
  proof (cases "checkpoint env control ''RRT planning'' w")
    case c: (Pair rc w1)
    obtain sample w2 where s: "draw_sample env p second w1 = (sample, w2)" by fastforce
    have inside: "in_limits p sample" by (rule draw_sample_inside [OF ok(2) trees(2) s])
    obtain re w3 where e: "extend_tree env p first sample control w2 = (re, w3)" by fastforce
    show ?thesis
    proof (cases "\<exists>x y. rc = Inl x \<or> re = Inl y")
      case True
      then show ?thesis using c s e by (cases rc; cases re) auto
    next
      case False
      then obtain index status first' where re: "re = Inr ((index, status), first')" and rc: "rc = Inr ()"
        by (cases rc; cases re) auto
      from extend_ok [OF ok(1) trees(1) inside e [unfolded re]]
      have f: "tree_ok p ?r1 first'" "rooted_at_start first' = rooted_at_start first"
        "\<And>i. index = Some i \<Longrightarrow> i < length (nodes first')" by auto
      show ?thesis
      proof (cases "if status = TRAPPED then None else index")
        case None
        then show ?thesis using swap [OF f(1,2) trees(2) refl] c s e re rc by simp
      next
        case (Some i)
        have i: "i < length (nodes first')" using f(3) Some by (auto split: if_splits)
        then have "in_limits p (nodes first' ! i)" using f(1) by (simp add: tree_ok_def)
        from connect_returns [OF ok(1) this trees(2)] obtain rs w4 where
          t: "connect_tree env p second (nodes first' ! i) control w3 = Some (rs, w4)"
          and k: "connected p ?r2 (nodes first' ! i) (rooted_at_start second) rs" by blast
        show ?thesis
        proof (cases rs)
          case (Inl x)
          then show ?thesis using Some c s e re rc t by simp
        next
          case (Inr x)
          obtain index2 status2 second' where x: "x = ((index2, status2), second')" by (metis prod.exhaust)
          have g: "tree_ok p ?r2 second'" "rooted_at_start second' = rooted_at_start second"
            using k by (auto simp: connected_def Inr x)
          show ?thesis
          proof (cases "if status2 = REACHED then index2 else None")
            case None
            then show ?thesis using swap [OF f(1,2) g] Some c s e re rc t Inr x by simp
          next
            case j: (Some j)
            then have "j < length (nodes second')"
              "vec_norm (vec_sub (nodes first' ! i) (nodes second' ! j)) < 1 / 10 ^ 12"
              using k by (auto simp: connected_def Inr x split: if_splits)
            then obtain path where path: "join_paths first' i second' j = Some path" "path \<noteq> []" "hd path = start"
              "arrives goal (last path)" "\<forall>v \<in> set path. in_limits p v"
              using join_paths_returns [of p first' start goal i second' j] f g i trees(3) by auto
            obtain rf w5 where fin: "finish_path env p control path w4 = (rf, w5)" by fastforce
            have "sound_path p start goal (waypoints tr)" if "rf = Inr tr" for tr
              using finish_path_result [OF ok path(2,5) fin [unfolded that]] path(3,4) by (simp add: sound_path_def)
            then show ?thesis using Some j c s e re rc t Inr x path(1) fin by simp
          qed
        qed
      qed
    qed
  qed
qed simp

lemma validate_state_result:
  assumes "planner_ok p" "validate_state env p joints label control w = (Inr v, w')"
  shows "v = map the_fin joints \<and> in_limits p v \<and> state_valid p v"
  using assms not_outside_limits [of p "map the_fin joints"] by (auto simp: validate_state_def Let_def)

lemma direct_path_sound:
  assumes "planner_ok p" "in_limits p start" "state_valid p start" "in_limits p goal"
    and c: "segment_clear env p start goal control w = (Inr True, w1)"
    and d: "densify env p [start, goal] control w1 = (Inr vs, w2)"
  shows "sound_path p start goal vs"
proof -
  have vs: "vs = start # dense_rest p [start, goal]" using densify_result [OF d] by simp
  have inside: "\<forall>v \<in> set [start, goal]. in_limits p v" using assms(2,4) by simp
  have "list_all (state_valid p) vs"
    using check_points_result [of env p control start goal] c assms(3) by (auto simp: vs segment_clear_def)
  moreover have "vec_norm (vec_sub goal goal) = 0" by (auto simp: vec_norm_zero vec_sub_def in_set_zip)
  ultimately show ?thesis
    using dense_rest_spec [OF assms(1) _ inside] assms(2)
    by (simp add: sound_path_def vs arrives_def list_all_iff)
qed

lemma plan_returns:
  assumes ok: "planner_ok p" "generator_ok env p"
  shows "\<exists>r w'. plan_joint env p s g timeout control w = Some (r, w')
    \<and> (\<forall>tr. r = Inr tr \<longrightarrow> sound_path p (map the_fin s) (map the_fin g) (waypoints tr))"
proof (cases "\<not> isfinite timeout \<or> timeout \<le> 0")
  case False
  obtain rb w1 where b: "budget_init env (the_fin timeout) control w = (rb, w1)" by fastforce
  show ?thesis
  proof (cases rb)
    case rb: (Inr b)
    obtain rs w2 where s: "validate_state env p s ''start'' (BudgetControl b) w1 = (rs, w2)" by fastforce
    show ?thesis
    proof (cases rs)
      case rs: (Inr start)
      obtain rg w3 where g: "validate_state env p g ''goal'' (BudgetControl b) w2 = (rg, w3)" by fastforce
      show ?thesis
      proof (cases rg)
        case rg: (Inr goal)
        have start: "start = map the_fin s" "in_limits p start" "state_valid p start"
          using validate_state_result [OF ok(1) s [unfolded rs]] by blast+
        have goal: "goal = map the_fin g" "in_limits p goal" "state_valid p goal"
          using validate_state_result [OF ok(1) g [unfolded rg]] by blast+
        have trees: "two_trees p start goal (tree_init start True) (tree_init goal False)"
          using tree_init_ok [OF start(2)] tree_init_ok [OF goal(2)] by (simp add: two_trees_def) (simp add: tree_init_def)
        obtain rc w4 where c: "segment_clear env p start goal (BudgetControl b) w3 = (rc, w4)" by fastforce
        show ?thesis
        proof (cases rc)
          case rc: (Inr clear)
          show ?thesis
          proof (cases clear)
            case True
            obtain rd w5 where d: "densify env p [start, goal] (BudgetControl b) w4 = (rd, w5)" by fastforce
            have "sound_path p start goal vs" if "rd = Inr vs" for vs
              using direct_path_sound [OF ok(1) start(2,3) goal(2)] c d rc True that by simp
            then show ?thesis
              using False b rb s rs g rg c rc True d start(1) goal(1) by (cases rd) (simp_all add: plan_joint_def Let_def)
          next
            case blocked: False
            then show ?thesis
              using False b rb s rs g rg c rc rrt_loop_returns [OF ok trees] start(1) goal(1)
              by (simp add: plan_joint_def Let_def)
          qed
        qed (use False b rb s rs g rg c in \<open>simp add: plan_joint_def Let_def\<close>)
      qed (use False b rb s rs g in \<open>simp add: plan_joint_def Let_def\<close>)
    qed (use False b rb s in \<open>simp add: plan_joint_def Let_def\<close>)
  qed (use False b in \<open>simp add: plan_joint_def Let_def\<close>)
qed (simp add: plan_joint_def)

section \<open>The properties\<close>

text \<open>C26: A trajectory the planner returns is sound: its first state is the measured start, its last lies within
  \<open>10 ^ -12\<close> of the goal, every state on it is inside the joint limits and was accepted by the validity check, and
  neighbours are at most the collision resolution apart. This holds for every validity check, clock, cancellation and
  stream of random numbers.\<close>

theorem planned_path_is_sound:
  assumes "rrt_init names lower upper valid c = Inr p" and "rrt_config_post_init c = Inr ()" and "generator_ok env p"
    and "plan_joint env p s g timeout control w = Some (Inr tr, w')"
  shows "waypoints tr \<noteq> [] \<and> hd (waypoints tr) = map the_fin s
    \<and> vec_norm (vec_sub (last (waypoints tr)) (map the_fin g)) < 1 / 10 ^ 12
    \<and> list_all valid (waypoints tr) \<and> list_all (in_limits p) (waypoints tr)
    \<and> successively (\<lambda>a b. vec_norm (vec_sub b a) \<le> collision_resolution c) (waypoints tr)"
proof -
  have p: "planner_ok p" "state_valid p = valid" "rrt_config p = c" using rrt_init_ok [OF assms(1,2)] by auto
  have "sound_path p (map the_fin s) (map the_fin g) (waypoints tr)"
    using plan_returns [OF p(1) assms(3)] assms(4) by (metis Pair_inject option.inject)
  then show ?thesis using p(2,3) by (simp add: sound_path_def arrives_def close_states_def [abs_def])
qed

text \<open>C27: The planner always returns, with a trajectory or an exception. Its loop over extensions towards a target has no
  counter and chooses the next node by another distance than the one it steps by; every step still continues from the
  node just added and comes nearer by the step size.\<close>

theorem planning_always_returns:
  assumes "rrt_init names lower upper valid c = Inr p" and "rrt_config_post_init c = Inr ()" and "generator_ok env p"
  shows "\<exists>r w'. plan_joint env p s g timeout control w = Some (r, w')"
  using plan_returns [OF _ assms(3)] rrt_init_ok [OF assms(1,2)] by blast

section \<open>Witnesses\<close>

definition demo_rrt_config :: RRTConnectConfig where
  "demo_rrt_config = \<lparr> step_size = 1 / 4, collision_resolution = 1, max_iterations = 10, goal_bias = 1 / 10,
                       shortcut_attempts = 4, rrt_seed = 0 \<rparr>"

definition demo_planner :: JointSpaceRRTConnect where
  "demo_planner = \<lparr> rrt_joint_names = [''j1''], lower_limits = [0], upper_limits = [2], state_valid = (\<lambda>v. v ! 0 \<le> 1),
                    rrt_config = demo_rrt_config \<rparr>"

definition demo_env :: planning_env where
  "demo_env = \<lparr> env_clock = (\<lambda>k. Inr (Fin 0)), env_cancelled = (\<lambda>k. Inr False), env_random = (\<lambda>k. 1 / 2),
                env_uniform = (\<lambda>k lower upper. lower), env_choice = (\<lambda>k n. (0, 1)) \<rparr>"

definition demo_world :: planning_world where
  "demo_world = \<lparr> clock_reads = 0, cancel_polls = 0, random_calls = 0 \<rparr>"

lemma demo_planner_made:
  "rrt_init [''j1''] [0] [2] (\<lambda>v. v ! 0 \<le> 1) demo_rrt_config = Inr demo_planner"
  "rrt_config_post_init demo_rrt_config = Inr ()" "generator_ok demo_env demo_planner"
  by (simp_all add: rrt_init_def demo_planner_def demo_rrt_config_def rrt_config_post_init_def generator_ok_def demo_env_def
      in_limits_def)

lemma planned_path_is_sound_witness:
  "\<exists>tr. waypoints tr \<noteq> [] \<and> hd (waypoints tr) = [0] \<and> vec_norm (vec_sub (last (waypoints tr)) [1]) < 1 / 10 ^ 12
     \<and> list_all (\<lambda>v. v ! 0 \<le> 1) (waypoints tr)"
proof -
  have one: "fractions (segment_steps demo_planner [0] [1]) = [1]"
    by (simp add: segment_steps_def demo_planner_def demo_rrt_config_def vec_norm_def vec_sub_def fractions_def)
  let ?b = "BudgetControl \<lparr> budget_parent = None, budget_timeout_s = 1, budget_deadline_s = 1 \<rparr>"
  have tick: "budget_checkpoint demo_env \<lparr> budget_parent = None, budget_timeout_s = 1, budget_deadline_s = 1 \<rparr> op w
      = (Inr (), w\<lparr> clock_reads := clock_reads w + 1 \<rparr>)" for op w
    by (simp add: budget_checkpoint_def parent_checkpoint_def budget_now_def demo_env_def guard_def)
  have init: "budget_init demo_env 1 None w
      = (Inr \<lparr> budget_parent = None, budget_timeout_s = 1, budget_deadline_s = 1 \<rparr>, w\<lparr> clock_reads := clock_reads w + 1 \<rparr>)" for w
    by (simp add: budget_init_def parent_checkpoint_def budget_now_def demo_env_def)
  have state: "\<exists>w'. validate_state demo_env demo_planner [Fin x] label ?b w = (Inr [x], w')" if "0 \<le> x" "x \<le> 1" for x label w
    using that by (simp add: validate_state_def tick guard_def outside_limits_def) (simp add: demo_planner_def)
  have clear: "\<exists>w'. segment_clear demo_env demo_planner [0] [1] ?b w = (Inr True, w')" for w
    by (simp add: segment_clear_def one tick point_on_def) (simp add: demo_planner_def)
  have dense: "\<exists>vs w'. densify demo_env demo_planner [[0], [1]] ?b w = (Inr vs, w')" for w
    by (simp add: densify_def one tick)
  obtain w1 where w1: "validate_state demo_env demo_planner [Fin 0] ''start'' ?b (demo_world\<lparr> clock_reads := clock_reads demo_world + 1 \<rparr>) = (Inr [0], w1)"
    using state [of 0] by auto
  obtain w2 where w2: "validate_state demo_env demo_planner [Fin 1] ''goal'' ?b w1 = (Inr [1], w2)" using state [of 1] by auto
  obtain w3 where w3: "segment_clear demo_env demo_planner [0] [1] ?b w2 = (Inr True, w3)" using clear by blast
  obtain vs w4 where w4: "densify demo_env demo_planner [[0], [1]] ?b w3 = (Inr vs, w4)" using dense by blast
  have "plan_joint demo_env demo_planner [Fin 0] [Fin 1] (Fin 1) None demo_world
      = Some (Inr \<lparr> trajectory_joint_names = rrt_joint_names demo_planner, waypoints = vs, trajectory_times = None \<rparr>, w4)"
    using w1 by (simp add: plan_joint_def init w2 w3 w4 Let_def)
  from planned_path_is_sound [OF demo_planner_made this]
  have "vs \<noteq> [] \<and> hd vs = [0] \<and> vec_norm (vec_sub (last vs) [1]) < 1 / 10 ^ 12 \<and> list_all (\<lambda>v. v ! 0 \<le> 1) vs" by simp
  then show ?thesis by (metis JointTrajectory.select_convs(2))
qed

lemma planning_always_returns_witness:
  "\<exists>r w. plan_joint demo_env demo_planner [Fin 0] [Fin 2] (Fin 1) None demo_world = Some (r, w)"
  by (rule planning_always_returns [OF demo_planner_made])

end
