(* ===== verification/Spec2Isabelle.thy ===== *)
theory Spec2Isabelle
  imports Safety_Laws Occlusion_Laws Perception_Gates Quiet_Window Yaw_Search Orchestration Navigation_Laws Watchdog_Laws Reactive_Laws Go2w_Laws
    Place_Transaction Place_Contract Place_Execution Placement_Motion Post_Release_Laws Perception_Link Observation_Bundle
    Base_Lock_Laws Joint_State_Laws Approach_Laws Wrist_Laws Rrt_Laws
begin

text \<open>
  \<^bold>\<open>The program.\<close> Z-Mobile-manip drives a quadruped with an arm through pick and place tasks. ROS 2
  nodes own the topics and the hardware; each decision that matters for safety is taken by a
  ROS-independent core which the nodes feed with messages and clocks. This development models those
  cores and proves what the rest of the system relies on.

  The task node (\<open>src/ros2/z_manip_task\<close>) runs \<open>RuntimeSafetyCore\<close>: it walks the task from grounding
  over navigation, servoing, grasp, lift and carry to placement, binds every published arm trajectory to the status
  lines of the executor, and stops base, navigation and arm together on any doubt. Around it stand gates for
  perception, posture, stillness and predicted occlusion, and a bounded yaw search. The navigation node
  (\<open>src/ros2/z_manip_navigation\<close>) moves the base near the target and hands over when the robot stands still.
  The placement node (\<open>src/ros2/z_manip_place\<close>) plans a placement inside a transaction with an identity,
  a deadline and a revocable token; its plan travels with a contract that names the exact trajectory by a digest
  (\<open>src/z_manip/trajectory_digest.py\<close>), and after the release it reports evidence that the object stands.
  The perception node (\<open>src/ros2/z_manip_ros\<close>) owns the tracking contract: a grounding request opens a
  generation, and only fresh, consistent data of that generation count as a track. The motion nodes
  (\<open>src/ros2/z_manip_motion\<close>) assemble the joint state planning may use. Between perception and planning the
  reactive servo (\<open>src/z_manip/control\<close>) moves base, body and arm view together, watched by a supervisor, and an
  adapter arbitrates the sport commands of the quadruped; \<open>src/scripts/runtime/go2w_base_lock.py\<close> holds the base
  during a grasp by a renewed lease. \<open>src/z_manip/planning\<close> plans the joint paths of the arm. \<open>src/z_manip/orchestration\<close>
  holds the recovery policy of the whole task with its retry budgets.

  \<^bold>\<open>The theories.\<close>
  \<^item> \<open>Prelude\<close>: exceptions as sums, object operations as outcome and next state, floats with infinities
    and NaN, Python's string and number routines. \<open>Interfaces\<close>: locales for invariants,
    latched states, watermarks, revocable capabilities and budgets, interpreted by the components.
  \<^item> \<open>Json\<close>, \<open>Json_Text\<close>: JSON values, the decoder of the standard library with its hooks, and the encoder.
  \<^item> \<open>Executor_Status\<close>: \<open>parse_execution_status\<close>, \<open>trajectory_segment_frame_id\<close> of \<open>z_manip_task/core.py\<close>.
  \<^item> \<open>Safety_Core\<close>: \<open>RuntimeSafetyCore\<close>, every attribute and every method. \<open>Safety_Machine\<close>: its calls as events
    of a machine and the invariant. \<open>Safety_Laws\<close>: the order of phases, ownership of statuses, fail-closed stops,
    measured release, atomicity of raising methods, high-water marks.
  \<^item> \<open>Occlusion_Gate\<close>, \<open>Occlusion_Laws\<close>: \<open>ExecutionOcclusionGate\<close> and the evidence behind each permission.
  \<^item> \<open>Perception_Gates\<close>: \<open>ObservationSerialGate\<close>, \<open>PostureSafetyGate\<close>, \<open>TaskGenerationGuard\<close>.
  \<^item> \<open>Quiet_Window\<close>: \<open>ContinuousMotionQuietWindow\<close> and its refinement of a predicate on the sample history.
  \<^item> \<open>Yaw_Search\<close>: image edges, \<open>VisualSearchConfig\<close>, \<open>BoundedYawSearch\<close>.
  \<^item> \<open>Orchestration\<close>: \<open>MobileManipulationStateMachine\<close> of \<open>mobile_manipulation.py\<close>.
  \<^item> \<open>Navigation_Core\<close>, \<open>Navigation_Laws\<close>: \<open>CoarseNavigationCore\<close> of \<open>z_manip_navigation/core.py\<close>; one relation on
    ticks, proved stage by stage, gives the handoff, budget, deadline and waypoint properties.
  \<^item> \<open>Servo_Phase\<close>: \<open>z_manip/control/servo_phase.py\<close>, the table of what each phase may command.
    \<open>Reactive_Watchdog\<close>, \<open>Watchdog_Laws\<close>: \<open>reactive_watchdog.py\<close>, a base that is commanded and does not move.
    \<open>Reactive_Servo\<close>, \<open>Reactive_Laws\<close>: the controller of \<open>reactive_servo.py\<close>; the corridor behind a
    handoff, the bounds of every intent, the stair of a lost target as a function of the history.
  \<^item> \<open>Visual_Approach\<close>, \<open>Approach_Laws\<close>: \<open>visual_servo.py\<close> and \<open>approach.py\<close> of \<open>z_manip/control\<close>, the two-stage approach the
    task node drives the base with. \<open>Wrist_Search\<close>, \<open>Wrist_Laws\<close>: \<open>wrist_search.py\<close>, the grid of camera views and the search
    over it.
  \<^item> \<open>Planning_Control\<close>, \<open>Rrt_Connect\<close>, \<open>Rrt_Laws\<close>: \<open>z_manip/planning_control.py\<close> and
    \<open>z_manip/planning/rrt_connect.py\<close>, the deadlines of planning work and the planner of joint paths. What it returns
    is sound whatever the validity check, the clock, the cancellation and the random numbers answer, and it always returns.
  \<^item> \<open>Go2w_Posture\<close>, \<open>Go2w_Laws\<close>: \<open>go2w_posture.py\<close>, the queues of sport commands and the posture adapter; a full
    stop wins and stays until it is cleared.
  \<^item> \<open>Base_Lock\<close>, \<open>Base_Lock_Laws\<close>: \<open>go2w_base_lock.py\<close>, the owner that requests and renews the lock and the latch
    on the robot that lets it expire.
  \<^item> \<open>Place_Transaction\<close>: \<open>z_manip_place/transaction.py\<close> and \<open>z_manip_task/place_transaction.py\<close>, both ends of the
    abort and failure messages as texts, and the lifecycle.
  \<^item> \<open>Trajectory_Digest\<close>: the canonical bytes of a joint trajectory. \<open>Place_Contract\<close>: the contract text, the content check
    against the digest, the split of the placement path and the gripper apertures.
  \<^item> \<open>Place_Execution\<close>: the chain of approach, release and retreat in \<open>z_manip_place/core.py\<close>. \<open>Placement_Motion\<close>: the join
    of planned segments into one trajectory there.
  \<^item> \<open>Post_Release\<close>, \<open>Post_Release_Laws\<close>: the terminal result of a placement, its payload and the reader on the task's side.
  \<^item> \<open>Tracking_Contract\<close>, \<open>Tracking_Laws\<close>, \<open>Tracking_Messages\<close>: \<open>z_manip_ros/contract.py\<close>, the contract of a track and the
    envelopes of its requests. \<open>Observation_Bundle\<close>: the exact bundler there. \<open>Perception_Link\<close>: the request as the
    task node writes it, read by that parser.
  \<^item> \<open>Joint_State\<close>, \<open>Joint_State_Laws\<close>: \<open>z_manip_motion/robot_state.py\<close>, the assembler of complete joint states and
    the guard of a clock handover.

  \<^bold>\<open>How code becomes definitions.\<close> A class is a record of its attributes and a method a function that
  returns the value or the exception together with the record after the call, so an exception keeps the writes
  made before it. Long methods are cut at their early returns into named stages. Configurations whose
  \<open>__post_init__\<close> admits only finite floats hold reals; measurements are floats that may be infinite or NaN.
  Arithmetic on finite floats is exact: rounding is not modelled. A string is a list of one-byte characters; a JSON escape above 255 is outside
  the model. Arguments have the types their annotations state, and \<open>isinstance\<close> checks against other types are
  not represented except on decoded JSON. SHA-256, the conversion of a JSON value to a NumPy array and the
  text of a float are arguments of the definitions that use them.

  \<^bold>\<open>Fuel.\<close> The JSON decoder recurses with fuel of twice the length of its text plus a constant; \<open>decode_fuel\<close> and
  \<open>loads_dumps\<close> show it is enough. All other recursions are structural or have a termination proof; the offsets of the yaw scan
  and the levels of the wrist search are partial functions, shown defined for every accepted configuration. The loop
  of the planner that connects two trees and the walk to a root are partial functions too, shown to return.

  \<^bold>\<open>Not modelled.\<close> The ROS nodes, launch files and the other runtime scripts (middleware, sockets, processes and drivers),
  the tracker and perception models, grasp and collision geometry over point clouds and meshes, and the web
  dashboards. Of modelled files: the region request, the point-cloud verifier and the planner in \<open>z_manip_place/core.py\<close>, the reader
  of body-height responses in \<open>go2w_posture.py\<close>, and the reading of URDF text in \<open>robot_state.py\<close>. The thread that sends
  the heartbeat of the base lock is a flag and one operation per turn. The decoder's limit on nested JSON is left out. Transports,
  publishers, random numbers and fresh random identities are arguments.
\<close>

end
